(* ===== verification/Prelude.thy ===== *)
theory Prelude
  imports Main "HOL-Library.Word" "HOL-Library.Multiset"
begin

text \<open>
  Shared ground of the development: the machine types of the Rust sources, the
  \<open>Result\<close> type with its \<open>?\<close> operator and the \<open>require!\<close> macro, checked and
  saturating arithmetic, little- and big-endian byte encodings, and slices.

  A \<open>u8\<close>, \<open>u16\<close>, \<open>u32\<close>, \<open>u64\<close>, \<open>u128\<close> is a word of that width. An \<open>i64\<close>
  (Unix timestamps and time spans) is an \<open>int\<close> whose checked and saturating operations
  write the bounds of the type out. A \<open>[u8; 32]\<close> value (a public key, a hash, a
  transaction id) is the 256-bit word whose big-endian bytes it is: \<open>to_bytes\<close> and
  \<open>from_bytes\<close> below are mutually inverse. A \<open>usize\<close> is a \<open>nat\<close>: every length
  the sources compute is the length of data that is in memory.
\<close>

named_theorems result_simps
named_theorems unfold_handler
named_theorems layout_simps

section \<open>Machine types\<close>

type_synonym u8 = "8 word"
type_synonym u16 = "16 word"
type_synonym u32 = "32 word"
type_synonym u64 = "64 word"
type_synonym u128 = "128 word"
type_synonym i64 = int
type_synonym bytes = "u8 list"
type_synonym bytes32 = "256 word"
type_synonym pubkey = bytes32

section \<open>Results\<close>

type_synonym ('e, 'a) result = "'e + 'a"

definition require :: "bool \<Rightarrow> 'e \<Rightarrow> ('e, 'a) result \<Rightarrow> ('e, 'a) result" where
  "require c e k = (if c then k else Inl e)"

definition try_bind :: "('e, 'a) result \<Rightarrow> ('a \<Rightarrow> ('e, 'b) result) \<Rightarrow> ('e, 'b) result" where
  "try_bind m f = (case m of Inl e \<Rightarrow> Inl e | Inr x \<Rightarrow> f x)"

definition ok_or :: "'a option \<Rightarrow> 'e \<Rightarrow> ('e, 'a) result" where
  "ok_or x e = (case x of None \<Rightarrow> Inl e | Some y \<Rightarrow> Inr y)"

definition map_err :: "('e \<Rightarrow> 'f) \<Rightarrow> ('e, 'a) result \<Rightarrow> ('f, 'a) result" where
  "map_err f m = (case m of Inl e \<Rightarrow> Inl (f e) | Inr x \<Rightarrow> Inr x)"

definition is_ok :: "('e, 'a) result \<Rightarrow> bool" where
  "is_ok m = (case m of Inl _ \<Rightarrow> False | Inr _ \<Rightarrow> True)"

lemma require_True [simp]: "require True e k = k"
  and require_False [simp]: "require False e k = Inl e"
  by (simp_all add: require_def)

lemma require_eq_Inr [simp, result_simps]: "require c e k = Inr r \<longleftrightarrow> c \<and> k = Inr r"
  by (simp add: require_def)

lemma require_eq_Inl [result_simps]:
  "require c e k = Inl x \<longleftrightarrow> (if c then k = Inl x else x = e)"
  by (auto simp: require_def)

lemma try_bind_Inr [simp]: "try_bind (Inr x) f = f x"
  and try_bind_Inl [simp]: "try_bind (Inl e) f = Inl e"
  by (simp_all add: try_bind_def)

lemma try_bind_eq_Inr [simp, result_simps]:
  "try_bind m f = Inr r \<longleftrightarrow> (\<exists>x. m = Inr x \<and> f x = Inr r)"
  by (cases m) auto

lemma try_bind_eq_Inl [result_simps]:
  "try_bind m f = Inl e \<longleftrightarrow> m = Inl e \<or> (\<exists>x. m = Inr x \<and> f x = Inl e)"
  by (cases m) auto

lemma ok_or_Some [simp]: "ok_or (Some x) e = Inr x"
  and ok_or_None [simp]: "ok_or None e = Inl e"
  by (simp_all add: ok_or_def)

lemma ok_or_eq_Inr [simp, result_simps]: "ok_or m e = Inr x \<longleftrightarrow> m = Some x"
  by (cases m) auto

lemma ok_or_eq_Inl [result_simps]: "ok_or m e = Inl x \<longleftrightarrow> m = None \<and> x = e"
  by (cases m) auto

lemma map_err_Inr [simp]: "map_err f (Inr x) = Inr x"
  and map_err_Inl [simp]: "map_err f (Inl e) = Inl (f e)"
  by (simp_all add: map_err_def)

lemma map_err_eq_Inr [simp, result_simps]: "map_err f m = Inr x \<longleftrightarrow> m = Inr x"
  by (cases m) auto

lemma map_err_eq_Inl [result_simps]: "map_err f m = Inl x \<longleftrightarrow> (\<exists>e. m = Inl e \<and> x = f e)"
  by (cases m) auto

lemma is_ok_simps [simp]: "is_ok (Inr x)" "\<not> is_ok (Inl e)"
  by (simp_all add: is_ok_def)

lemma is_ok_iff: "is_ok m \<longleftrightarrow> (\<exists>x. m = Inr x)"
  by (cases m) auto

section \<open>Checked and saturating arithmetic\<close>

lemma unat_lt2p: "unat w < 2 ^ LENGTH('a)" for w :: "'a::len word"
  by (fact unsigned_less)

definition checked_add :: "'a::len word \<Rightarrow> 'a word \<Rightarrow> 'a word option" where
  "checked_add a b = (if unat a + unat b < 2 ^ LENGTH('a) then Some (a + b) else None)"

definition checked_sub :: "'a::len word \<Rightarrow> 'a word \<Rightarrow> 'a word option" where
  "checked_sub a b = (if b \<le> a then Some (a - b) else None)"

definition checked_mul :: "'a::len word \<Rightarrow> 'a word \<Rightarrow> 'a word option" where
  "checked_mul a b = (if unat a * unat b < 2 ^ LENGTH('a) then Some (a * b) else None)"

definition saturating_sub :: "'a::len word \<Rightarrow> 'a word \<Rightarrow> 'a word" where
  "saturating_sub a b = (if b \<le> a then a - b else 0)"

definition i64_min :: int where "i64_min = - (2 ^ 63)"

definition i64_max :: int where "i64_max = 2 ^ 63 - 1"

definition is_i64 :: "i64 \<Rightarrow> bool" where
  "is_i64 x \<longleftrightarrow> i64_min \<le> x \<and> x \<le> i64_max"

definition checked_add_i64 :: "i64 \<Rightarrow> i64 \<Rightarrow> i64 option" where
  "checked_add_i64 a b = (if is_i64 (a + b) then Some (a + b) else None)"

definition saturating_sub_i64 :: "i64 \<Rightarrow> i64 \<Rightarrow> i64" where
  "saturating_sub_i64 a b = max i64_min (min i64_max (a - b))"

lemma checked_add_eq_Some:
  "checked_add a b = Some c \<longleftrightarrow> unat a + unat b < 2 ^ LENGTH('a) \<and> c = a + b"
  for a b :: "'a::len word"
  by (auto simp: checked_add_def)

lemma checked_add_unat: "checked_add a b = Some c \<Longrightarrow> unat c = unat a + unat b"
  by (auto simp: checked_add_def unat_word_ariths split: if_splits)

lemma checked_add_SomeI:
  "unat a + unat b < 2 ^ LENGTH('a) \<Longrightarrow> checked_add a b = Some (a + b)"
  for a b :: "'a::len word"
  by (simp add: checked_add_def)

lemma checked_sub_unat: "checked_sub a b = Some c \<Longrightarrow> unat a = unat b + unat c"
  by (auto simp: checked_sub_def unat_sub word_le_nat_alt split: if_splits)

lemma checked_mul_unat: "checked_mul a b = Some c \<Longrightarrow> unat c = unat a * unat b"
  by (auto simp: checked_mul_def unat_word_ariths split: if_splits)

lemma checked_add_i64_eq_Some:
  "checked_add_i64 a b = Some c \<longleftrightarrow> is_i64 (a + b) \<and> c = a + b"
  by (auto simp: checked_add_i64_def)

section \<open>Byte encodings\<close>

primrec le_encode :: "nat \<Rightarrow> nat \<Rightarrow> bytes" where
  "le_encode 0 v = []"
| "le_encode (Suc n) v = word_of_nat (v mod 256) # le_encode n (v div 256)"

primrec le_decode :: "bytes \<Rightarrow> nat" where
  "le_decode [] = 0"
| "le_decode (b # bs) = unat b + 256 * le_decode bs"

definition u32_to_le_bytes :: "u32 \<Rightarrow> bytes" where
  "u32_to_le_bytes x = le_encode 4 (unat x)"

definition u64_to_le_bytes :: "u64 \<Rightarrow> bytes" where
  "u64_to_le_bytes x = le_encode 8 (unat x)"

definition i64_to_le_bytes :: "i64 \<Rightarrow> bytes" where
  "i64_to_le_bytes x = u64_to_le_bytes (word_of_int x)"

definition u64_from_le_bytes :: "bytes \<Rightarrow> u64" where
  "u64_from_le_bytes bs = word_of_nat (le_decode bs)"

definition u16_from_le_bytes :: "u8 \<Rightarrow> u8 \<Rightarrow> u16" where
  "u16_from_le_bytes lo hi = word_of_nat (le_decode [lo, hi])"

definition to_bytes :: "bytes32 \<Rightarrow> bytes" where
  "to_bytes k = rev (le_encode 32 (unat k))"

definition from_bytes :: "bytes \<Rightarrow> bytes32" where
  "from_bytes bs = word_of_nat (le_decode (rev bs))"

lemma length_le_encode [simp, layout_simps]: "length (le_encode n v) = n"
  by (induction n arbitrary: v) simp_all

lemma le_decode_encode: "le_decode (le_encode n v) = v mod 256 ^ n"
proof (induction n arbitrary: v)
  case (Suc n)
  have "unat (word_of_nat (v mod 256) :: u8) = v mod 256"
    by (simp add: unat_of_nat)
  then show ?case
    using Suc by (simp add: mod_mult2_eq)
qed simp

lemma le_decode_less: "le_decode bs < 256 ^ length bs"
proof (induction bs)
  case (Cons b bs)
  have "unat b < 256" using unat_lt2p[of b] by simp
  then show ?case using Cons.IH by simp
qed simp

lemma le_encode_decode: "le_encode (length bs) (le_decode bs) = bs"
proof (induction bs)
  case (Cons b bs)
  have b: "unat b < 256" using unat_lt2p[of b] by simp
  then have "(unat b + 256 * le_decode bs) mod 256 = unat b"
    and "(unat b + 256 * le_decode bs) div 256 = le_decode bs"
    by simp_all
  with Cons show ?case by simp
qed simp

lemma le_encode_inj:
  assumes "le_encode n v = le_encode n w" "v < 256 ^ n" "w < 256 ^ n"
  shows "v = w"
  using arg_cong[OF assms(1), of le_decode] assms(2,3) by (simp add: le_decode_encode)

lemma length_u32_le [simp, layout_simps]: "length (u32_to_le_bytes x) = 4"
  and length_u64_le [simp, layout_simps]: "length (u64_to_le_bytes y) = 8"
  and length_i64_le [simp, layout_simps]: "length (i64_to_le_bytes z) = 8"
  and length_to_bytes [simp, layout_simps]: "length (to_bytes k) = 32"
  by (simp_all add: u32_to_le_bytes_def u64_to_le_bytes_def i64_to_le_bytes_def to_bytes_def)

lemma to_bytes_not_Nil [simp]: "to_bytes k \<noteq> []"
  using length_to_bytes[of k] by fastforce

lemma u32_to_le_bytes_inject [simp]: "u32_to_le_bytes x = u32_to_le_bytes y \<longleftrightarrow> x = y"
  using le_encode_inj[of 4 "unat x" "unat y"] unat_lt2p[of x] unat_lt2p[of y]
  by (auto simp: u32_to_le_bytes_def word_unat_eq_iff)

lemma u64_to_le_bytes_inject [simp]: "u64_to_le_bytes x = u64_to_le_bytes y \<longleftrightarrow> x = y"
  using le_encode_inj[of 8 "unat x" "unat y"] unat_lt2p[of x] unat_lt2p[of y]
  by (auto simp: u64_to_le_bytes_def word_unat_eq_iff)

lemma i64_to_le_bytes_inject: "is_i64 x \<Longrightarrow> is_i64 y \<Longrightarrow>
  i64_to_le_bytes x = i64_to_le_bytes y \<longleftrightarrow> x = y"
proof -
  assume "is_i64 x" "is_i64 y"
  then have "signed_take_bit 63 x = x" "signed_take_bit 63 y = y"
    by (simp_all add: is_i64_def i64_min_def i64_max_def signed_take_bit_int_eq_self_iff)
  then have "sint (word_of_int x :: u64) = x" "sint (word_of_int y :: u64) = y"
    by (simp_all add: sint_sbintrunc')
  then show ?thesis
    by (metis i64_to_le_bytes_def u64_to_le_bytes_inject)
qed

lemma u64_from_to_le_bytes [simp]: "u64_from_le_bytes (u64_to_le_bytes x) = x"
  using unat_lt2p[of x] by (simp add: u64_from_le_bytes_def u64_to_le_bytes_def le_decode_encode)

lemma from_bytes_to_bytes [simp]: "from_bytes (to_bytes k) = k"
  using unat_lt2p[of k] by (simp add: from_bytes_def to_bytes_def le_decode_encode)

lemma to_bytes_from_bytes: "length bs = 32 \<Longrightarrow> to_bytes (from_bytes bs) = bs"
  using le_decode_less[of "rev bs"] le_encode_decode[of "rev bs"]
  by (simp add: from_bytes_def to_bytes_def unat_of_nat)

lemma to_bytes_inject [simp]: "to_bytes k = to_bytes l \<longleftrightarrow> k = l"
  by (metis from_bytes_to_bytes)

section \<open>Slices and lists\<close>

definition slice_get :: "'a list \<Rightarrow> nat \<Rightarrow> nat \<Rightarrow> 'a list option" where
  "slice_get xs a b = (if a \<le> b \<and> b \<le> length xs then Some (take (b - a) (drop a xs)) else None)"

primrec position :: "'a \<Rightarrow> 'a list \<Rightarrow> nat option" where
  "position x [] = None"
| "position x (y # ys) = (if y = x then Some 0 else map_option Suc (position x ys))"

lemma slice_get_eq_Some:
  "slice_get xs a b = Some ys \<longleftrightarrow> a \<le> b \<and> b \<le> length xs \<and> ys = take (b - a) (drop a xs)"
  by (auto simp: slice_get_def)

lemma length_slice_get: "slice_get xs a b = Some ys \<Longrightarrow> length ys = b - a"
  by (auto simp: slice_get_def split: if_splits)

lemma slice_get_append:
  "slice_get (xs @ ys @ zs) (length xs) (length xs + length ys) = Some ys"
  by (simp add: slice_get_def)

lemma position_eq_Some: "position x xs = Some i \<Longrightarrow> i < length xs \<and> xs ! i = x"
  by (induction xs arbitrary: i) (auto split: if_splits)

lemma position_eq_None: "position x xs = None \<longleftrightarrow> x \<notin> set xs"
  by (induction xs) auto

lemma append_inject_length:
  "length xs = length xs' \<Longrightarrow> xs @ ys = xs' @ ys' \<longleftrightarrow> xs = xs' \<and> ys = ys'"
  by simp

end
