(* ===== verification/Claim_Messages.thy ===== *)
theory Claim_Messages
  imports Prelude "HOL-Library.Sublist"
begin

text \<open>
  The canonical signed messages of \<open>shared/src/claim.rs\<close> and
  \<open>shared/src/governance.rs\<close>: the five claim families and the governance message,
  built by writing into a zeroed buffer exactly as the sources do, and the parameter
  encodings a governance message commits to. The lemmas give each builder its layout as a
  concatenation; the locale \<open>message_family\<close> states what the on-chain verifier relies on
  (fixed length, domain tag, action byte, injectivity) and is interpreted for all six
  builders.
\<close>

section \<open>Constants\<close>

definition ascii :: "string \<Rightarrow> bytes" where
  "ascii s = map (\<lambda>c. word_of_nat (of_char c)) s"

definition PROGRAM_ID_BYTES :: bytes where
  "PROGRAM_ID_BYTES =
     [87, 141, 47, 143, 184, 59, 185, 40, 57, 86, 86, 50, 137, 144, 133, 11,
      106, 239, 224, 235, 127, 153, 32, 61, 203, 22, 10, 186, 235, 27, 45, 93]"

definition CLAIM_DOMAIN_TAG :: bytes where
  "CLAIM_DOMAIN_TAG = ascii ''GLC_RSV_CLAIM_V1''"

definition ACTION_RELEASE_FROM_RESERVE :: u8 where "ACTION_RELEASE_FROM_RESERVE = 0x01"

definition ACTION_RECORD_GOLDCOIN_COMPLETION :: u8 where
  "ACTION_RECORD_GOLDCOIN_COMPLETION = 0x02"

definition ACTION_REBALANCE_WITHDRAW :: u8 where "ACTION_REBALANCE_WITHDRAW = 0x03"

definition ACTION_TREASURY_WITHDRAW :: u8 where "ACTION_TREASURY_WITHDRAW = 0x05"

definition ACTION_REFUND_WITHDRAW :: u8 where "ACTION_REFUND_WITHDRAW = 0x06"

definition RELEASE_CLAIM_MESSAGE_LEN :: nat where "RELEASE_CLAIM_MESSAGE_LEN = 166"

definition COMPLETION_MESSAGE_LEN :: nat where "COMPLETION_MESSAGE_LEN = 146"

definition REBALANCE_WITHDRAW_CLAIM_MESSAGE_LEN :: nat where
  "REBALANCE_WITHDRAW_CLAIM_MESSAGE_LEN = 138"

definition TREASURY_WITHDRAW_CLAIM_MESSAGE_LEN :: nat where
  "TREASURY_WITHDRAW_CLAIM_MESSAGE_LEN = 178"

definition REFUND_WITHDRAW_CLAIM_MESSAGE_LEN :: nat where
  "REFUND_WITHDRAW_CLAIM_MESSAGE_LEN = 210"

definition GOVERNANCE_DOMAIN_TAG :: bytes where
  "GOVERNANCE_DOMAIN_TAG = ascii ''GLC_RSV_GOVRN_V1''"

definition ACTION_PROPOSE_ROTATION :: u8 where "ACTION_PROPOSE_ROTATION = 0x03"

definition ACTION_CANCEL_ROTATION :: u8 where "ACTION_CANCEL_ROTATION = 0x04"

definition ACTION_PROPOSE_REBALANCE_POLICY :: u8 where "ACTION_PROPOSE_REBALANCE_POLICY = 0x07"

definition ACTION_CANCEL_REBALANCE_POLICY :: u8 where "ACTION_CANCEL_REBALANCE_POLICY = 0x08"

definition ACTION_INITIALIZE_REBALANCE_POLICY :: u8 where
  "ACTION_INITIALIZE_REBALANCE_POLICY = 0x09"

definition GOVERNANCE_MESSAGE_LEN :: nat where "GOVERNANCE_MESSAGE_LEN = 90"

lemmas action_defs =
  ACTION_RELEASE_FROM_RESERVE_def ACTION_RECORD_GOLDCOIN_COMPLETION_def
  ACTION_REBALANCE_WITHDRAW_def ACTION_TREASURY_WITHDRAW_def ACTION_REFUND_WITHDRAW_def
  ACTION_PROPOSE_ROTATION_def ACTION_CANCEL_ROTATION_def ACTION_PROPOSE_REBALANCE_POLICY_def
  ACTION_CANCEL_REBALANCE_POLICY_def ACTION_INITIALIZE_REBALANCE_POLICY_def

lemmas message_len_defs =
  RELEASE_CLAIM_MESSAGE_LEN_def COMPLETION_MESSAGE_LEN_def
  REBALANCE_WITHDRAW_CLAIM_MESSAGE_LEN_def TREASURY_WITHDRAW_CLAIM_MESSAGE_LEN_def
  REFUND_WITHDRAW_CLAIM_MESSAGE_LEN_def GOVERNANCE_MESSAGE_LEN_def

section \<open>Message builders\<close>

text \<open>
  \<open>m[a..b].copy_from_slice(src)\<close>. Rust panics when \<open>b - a\<close> is not the length of the
  source; every call below copies a fixed-size array into a range of exactly its size,
  which the layout lemmas discharge.
\<close>

definition copy_from_slice :: "nat \<Rightarrow> nat \<Rightarrow> bytes \<Rightarrow> bytes \<Rightarrow> bytes" where
  "copy_from_slice a b src m = take a m @ src @ drop b m"

definition release_claim_message ::
  "u8 \<Rightarrow> bytes32 \<Rightarrow> u64 \<Rightarrow> bytes32 \<Rightarrow> u32 \<Rightarrow> u64 \<Rightarrow> bytes32 \<Rightarrow> bytes32 \<Rightarrow> bytes" where
  "release_claim_message protocol_version program_id attestation_epoch txid vout amount
     recipient reserve_token_mint =
   (let m = replicate RELEASE_CLAIM_MESSAGE_LEN 0;
        m = copy_from_slice 0 16 CLAIM_DOMAIN_TAG m;
        m = m[16 := protocol_version];
        m = copy_from_slice 17 49 (to_bytes program_id) m;
        m = copy_from_slice 49 57 (u64_to_le_bytes attestation_epoch) m;
        m = m[57 := ACTION_RELEASE_FROM_RESERVE];
        m = copy_from_slice 58 90 (to_bytes txid) m;
        m = copy_from_slice 90 94 (u32_to_le_bytes vout) m;
        m = copy_from_slice 94 102 (u64_to_le_bytes amount) m;
        m = copy_from_slice 102 134 (to_bytes recipient) m;
        m = copy_from_slice 134 166 (to_bytes reserve_token_mint) m
    in m)"

definition goldcoin_completion_message ::
  "u8 \<Rightarrow> bytes32 \<Rightarrow> u64 \<Rightarrow> u64 \<Rightarrow> bytes32 \<Rightarrow> u64 \<Rightarrow> u64 \<Rightarrow> bytes32 \<Rightarrow> bytes" where
  "goldcoin_completion_message protocol_version program_id attestation_epoch obligation_index
     payout_txid payout_height amount dest_commitment =
   (let m = replicate COMPLETION_MESSAGE_LEN 0;
        m = copy_from_slice 0 16 CLAIM_DOMAIN_TAG m;
        m = m[16 := protocol_version];
        m = copy_from_slice 17 49 (to_bytes program_id) m;
        m = copy_from_slice 49 57 (u64_to_le_bytes attestation_epoch) m;
        m = m[57 := ACTION_RECORD_GOLDCOIN_COMPLETION];
        m = copy_from_slice 58 66 (u64_to_le_bytes obligation_index) m;
        m = copy_from_slice 66 98 (to_bytes payout_txid) m;
        m = copy_from_slice 98 106 (u64_to_le_bytes payout_height) m;
        m = copy_from_slice 106 114 (u64_to_le_bytes amount) m;
        m = copy_from_slice 114 146 (to_bytes dest_commitment) m
    in m)"

definition rebalance_withdraw_claim_message ::
  "u8 \<Rightarrow> bytes32 \<Rightarrow> u64 \<Rightarrow> u64 \<Rightarrow> u64 \<Rightarrow> bytes32 \<Rightarrow> bytes32 \<Rightarrow> bytes" where
  "rebalance_withdraw_claim_message protocol_version program_id attestation_epoch nonce amount
     destination reserve_token_mint =
   (let m = replicate REBALANCE_WITHDRAW_CLAIM_MESSAGE_LEN 0;
        m = copy_from_slice 0 16 CLAIM_DOMAIN_TAG m;
        m = m[16 := protocol_version];
        m = copy_from_slice 17 49 (to_bytes program_id) m;
        m = copy_from_slice 49 57 (u64_to_le_bytes attestation_epoch) m;
        m = m[57 := ACTION_REBALANCE_WITHDRAW];
        m = copy_from_slice 58 66 (u64_to_le_bytes nonce) m;
        m = copy_from_slice 66 74 (u64_to_le_bytes amount) m;
        m = copy_from_slice 74 106 (to_bytes destination) m;
        m = copy_from_slice 106 138 (to_bytes reserve_token_mint) m
    in m)"

definition treasury_withdraw_claim_message ::
  "u8 \<Rightarrow> bytes32 \<Rightarrow> u64 \<Rightarrow> u64 \<Rightarrow> u64 \<Rightarrow> bytes32 \<Rightarrow> bytes32 \<Rightarrow> bytes32 \<Rightarrow> u64 \<Rightarrow> bytes" where
  "treasury_withdraw_claim_message protocol_version program_id attestation_epoch nonce amount
     destination reserve_token_mint reserve_token_account policy_version =
   (let m = replicate TREASURY_WITHDRAW_CLAIM_MESSAGE_LEN 0;
        m = copy_from_slice 0 16 CLAIM_DOMAIN_TAG m;
        m = m[16 := protocol_version];
        m = copy_from_slice 17 49 (to_bytes program_id) m;
        m = copy_from_slice 49 57 (u64_to_le_bytes attestation_epoch) m;
        m = m[57 := ACTION_TREASURY_WITHDRAW];
        m = copy_from_slice 58 66 (u64_to_le_bytes nonce) m;
        m = copy_from_slice 66 74 (u64_to_le_bytes amount) m;
        m = copy_from_slice 74 106 (to_bytes destination) m;
        m = copy_from_slice 106 138 (to_bytes reserve_token_mint) m;
        m = copy_from_slice 138 170 (to_bytes reserve_token_account) m;
        m = copy_from_slice 170 178 (u64_to_le_bytes policy_version) m
    in m)"

definition refund_withdraw_claim_message ::
  "u8 \<Rightarrow> bytes32 \<Rightarrow> u64 \<Rightarrow> u64 \<Rightarrow> u64 \<Rightarrow> bytes32 \<Rightarrow> bytes32 \<Rightarrow> bytes32 \<Rightarrow> u64 \<Rightarrow> bytes32 \<Rightarrow> bytes"
  where
  "refund_withdraw_claim_message protocol_version program_id attestation_epoch nonce amount
     destination reserve_token_mint reserve_token_account obligation_index requester =
   (let m = replicate REFUND_WITHDRAW_CLAIM_MESSAGE_LEN 0;
        m = copy_from_slice 0 16 CLAIM_DOMAIN_TAG m;
        m = m[16 := protocol_version];
        m = copy_from_slice 17 49 (to_bytes program_id) m;
        m = copy_from_slice 49 57 (u64_to_le_bytes attestation_epoch) m;
        m = m[57 := ACTION_REFUND_WITHDRAW];
        m = copy_from_slice 58 66 (u64_to_le_bytes nonce) m;
        m = copy_from_slice 66 74 (u64_to_le_bytes amount) m;
        m = copy_from_slice 74 106 (to_bytes destination) m;
        m = copy_from_slice 106 138 (to_bytes reserve_token_mint) m;
        m = copy_from_slice 138 170 (to_bytes reserve_token_account) m;
        m = copy_from_slice 170 178 (u64_to_le_bytes obligation_index) m;
        m = copy_from_slice 178 210 (to_bytes requester) m
    in m)"

definition governance_message :: "u8 \<Rightarrow> bytes32 \<Rightarrow> u64 \<Rightarrow> u8 \<Rightarrow> bytes32 \<Rightarrow> bytes" where
  "governance_message protocol_version program_id epoch action params_commitment =
   (let m = replicate GOVERNANCE_MESSAGE_LEN 0;
        m = copy_from_slice 0 16 GOVERNANCE_DOMAIN_TAG m;
        m = m[16 := protocol_version];
        m = copy_from_slice 17 49 (to_bytes program_id) m;
        m = copy_from_slice 49 57 (u64_to_le_bytes epoch) m;
        m = m[57 := action];
        m = copy_from_slice 58 90 (to_bytes params_commitment) m
    in m)"

section \<open>Governance parameters\<close>

definition rotation_params :: "u8 \<Rightarrow> bytes32 list \<Rightarrow> bytes" where
  "rotation_params threshold keys =
     threshold # u32_to_le_bytes (word_of_nat (length keys)) @ concat (map to_bytes keys)"

definition rebalance_policy_params :: "bytes32 list \<Rightarrow> bytes" where
  "rebalance_policy_params treasuries =
     word_of_nat (length treasuries) # concat (map to_bytes treasuries)"

definition cancel_params :: "u8 \<Rightarrow> i64 \<Rightarrow> bytes" where
  "cancel_params pending_action pending_eta = pending_action # i64_to_le_bytes pending_eta"

section \<open>Layouts\<close>

text \<open>
  \<open>filled p n\<close> is a buffer whose first bytes are \<open>p\<close> and whose remaining \<open>n\<close> bytes are
  still zero. Each write of a builder appends one field to the filled part.
\<close>

definition filled :: "bytes \<Rightarrow> nat \<Rightarrow> bytes" where
  "filled p n = p @ replicate n 0"

lemma filled_start: "replicate n 0 = filled [] n"
  by (simp add: filled_def)

lemma filled_copy:
  "length p = a \<Longrightarrow> b = a + length s \<Longrightarrow> length s \<le> n \<Longrightarrow>
   copy_from_slice a b s (filled p n) = filled (p @ s) (n - length s)"
  by (simp add: copy_from_slice_def filled_def)

lemma filled_set: "length p = a \<Longrightarrow> 0 < n \<Longrightarrow> (filled p n)[a := v] = filled (p @ [v]) (n - 1)"
  by (cases n) (simp_all add: filled_def list_update_append)

lemma filled_done: "filled p 0 = p"
  by (simp add: filled_def)

lemma length_claim_tag [simp, layout_simps]: "length CLAIM_DOMAIN_TAG = 16"
  by (simp add: CLAIM_DOMAIN_TAG_def ascii_def)

lemma length_governance_tag [simp, layout_simps]: "length GOVERNANCE_DOMAIN_TAG = 16"
  by (simp add: GOVERNANCE_DOMAIN_TAG_def ascii_def)

lemma domain_tags_differ: "CLAIM_DOMAIN_TAG \<noteq> GOVERNANCE_DOMAIN_TAG"
  by (simp add: CLAIM_DOMAIN_TAG_def GOVERNANCE_DOMAIN_TAG_def ascii_def)

lemmas fill_rules = Let_def filled_start filled_copy filled_set filled_done message_len_defs

lemma release_claim_layout:
  "release_claim_message ver pid epoch txid vout amount recipient mint =
     CLAIM_DOMAIN_TAG @ [ver] @ to_bytes pid @ u64_to_le_bytes epoch
     @ [ACTION_RELEASE_FROM_RESERVE] @ to_bytes txid @ u32_to_le_bytes vout
     @ u64_to_le_bytes amount @ to_bytes recipient @ to_bytes mint"
  by (simp add: release_claim_message_def fill_rules)

lemma completion_layout:
  "goldcoin_completion_message ver pid epoch idx txid height amount dest =
     CLAIM_DOMAIN_TAG @ [ver] @ to_bytes pid @ u64_to_le_bytes epoch
     @ [ACTION_RECORD_GOLDCOIN_COMPLETION] @ u64_to_le_bytes idx @ to_bytes txid
     @ u64_to_le_bytes height @ u64_to_le_bytes amount @ to_bytes dest"
  by (simp add: goldcoin_completion_message_def fill_rules)

lemma rebalance_withdraw_layout:
  "rebalance_withdraw_claim_message ver pid epoch nonce amount dest mint =
     CLAIM_DOMAIN_TAG @ [ver] @ to_bytes pid @ u64_to_le_bytes epoch
     @ [ACTION_REBALANCE_WITHDRAW] @ u64_to_le_bytes nonce @ u64_to_le_bytes amount
     @ to_bytes dest @ to_bytes mint"
  by (simp add: rebalance_withdraw_claim_message_def fill_rules)

lemma treasury_withdraw_layout:
  "treasury_withdraw_claim_message ver pid epoch nonce amount dest mint reserve pver =
     CLAIM_DOMAIN_TAG @ [ver] @ to_bytes pid @ u64_to_le_bytes epoch
     @ [ACTION_TREASURY_WITHDRAW] @ u64_to_le_bytes nonce @ u64_to_le_bytes amount
     @ to_bytes dest @ to_bytes mint @ to_bytes reserve @ u64_to_le_bytes pver"
  by (simp add: treasury_withdraw_claim_message_def fill_rules)

lemma refund_withdraw_layout:
  "refund_withdraw_claim_message ver pid epoch nonce amount dest mint reserve idx requester =
     CLAIM_DOMAIN_TAG @ [ver] @ to_bytes pid @ u64_to_le_bytes epoch
     @ [ACTION_REFUND_WITHDRAW] @ u64_to_le_bytes nonce @ u64_to_le_bytes amount
     @ to_bytes dest @ to_bytes mint @ to_bytes reserve @ u64_to_le_bytes idx
     @ to_bytes requester"
  by (simp add: refund_withdraw_claim_message_def fill_rules)

lemma governance_layout:
  "governance_message ver pid epoch action commitment =
     GOVERNANCE_DOMAIN_TAG @ [ver] @ to_bytes pid @ u64_to_le_bytes epoch
     @ [action] @ to_bytes commitment"
  by (simp add: governance_message_def fill_rules)

lemmas message_layouts =
  release_claim_layout completion_layout rebalance_withdraw_layout
  treasury_withdraw_layout refund_withdraw_layout governance_layout


section \<open>What a verifier relies on\<close>

text \<open>
  One family of signed messages: every message has the family's length, carries its domain
  tag and its action byte, and determines the fields it was built from.
\<close>

locale message_family =
  fixes encode :: "'f \<Rightarrow> bytes" and tag :: bytes and action :: "'f \<Rightarrow> u8" and len :: nat
  assumes encode_length: "length (encode f) = len"
    and len_past_action: "57 < len"
    and encode_tag: "take 16 (encode f) = tag"
    and encode_action: "encode f ! 57 = action f"
    and encode_inj: "encode f = encode g \<Longrightarrow> f = g"
begin

lemma prefix_same: "prefix (encode f) (encode g) \<Longrightarrow> f = g"
  using encode_length[of f] encode_length[of g] encode_inj
  by (auto simp: prefix_def)

end

text \<open>All messages the attestation keys can be asked to sign, with their fields.\<close>

datatype signed_message =
    ReleaseClaim u8 bytes32 u64 bytes32 u32 u64 bytes32 bytes32
  | CompletionClaim u8 bytes32 u64 u64 bytes32 u64 u64 bytes32
  | RebalanceClaim u8 bytes32 u64 u64 u64 bytes32 bytes32
  | TreasuryClaim u8 bytes32 u64 u64 u64 bytes32 bytes32 bytes32 u64
  | RefundClaim u8 bytes32 u64 u64 u64 bytes32 bytes32 bytes32 u64 bytes32
  | GovernanceAct u8 bytes32 u64 u8 bytes32

primrec encode_message :: "signed_message \<Rightarrow> bytes" where
  "encode_message (ReleaseClaim ver pid epoch txid vout amount recipient mint) =
     release_claim_message ver pid epoch txid vout amount recipient mint"
| "encode_message (CompletionClaim ver pid epoch idx txid height amount dest) =
     goldcoin_completion_message ver pid epoch idx txid height amount dest"
| "encode_message (RebalanceClaim ver pid epoch nonce amount dest mint) =
     rebalance_withdraw_claim_message ver pid epoch nonce amount dest mint"
| "encode_message (TreasuryClaim ver pid epoch nonce amount dest mint reserve pver) =
     treasury_withdraw_claim_message ver pid epoch nonce amount dest mint reserve pver"
| "encode_message (RefundClaim ver pid epoch nonce amount dest mint reserve idx requester) =
     refund_withdraw_claim_message ver pid epoch nonce amount dest mint reserve idx requester"
| "encode_message (GovernanceAct ver pid epoch action commitment) =
     governance_message ver pid epoch action commitment"

interpretation release: message_family
  "\<lambda>(ver, pid, epoch, txid, vout, amount, recipient, mint).
     release_claim_message ver pid epoch txid vout amount recipient mint"
  CLAIM_DOMAIN_TAG "\<lambda>_. ACTION_RELEASE_FROM_RESERVE" RELEASE_CLAIM_MESSAGE_LEN
  by unfold_locales (auto simp: message_layouts message_len_defs nth_append)

interpretation completion: message_family
  "\<lambda>(ver, pid, epoch, idx, txid, height, amount, dest).
     goldcoin_completion_message ver pid epoch idx txid height amount dest"
  CLAIM_DOMAIN_TAG "\<lambda>_. ACTION_RECORD_GOLDCOIN_COMPLETION" COMPLETION_MESSAGE_LEN
  by unfold_locales (auto simp: message_layouts message_len_defs nth_append)

interpretation rebalance: message_family
  "\<lambda>(ver, pid, epoch, nonce, amount, dest, mint).
     rebalance_withdraw_claim_message ver pid epoch nonce amount dest mint"
  CLAIM_DOMAIN_TAG "\<lambda>_. ACTION_REBALANCE_WITHDRAW" REBALANCE_WITHDRAW_CLAIM_MESSAGE_LEN
  by unfold_locales (auto simp: message_layouts message_len_defs nth_append)

interpretation treasury: message_family
  "\<lambda>(ver, pid, epoch, nonce, amount, dest, mint, reserve, pver).
     treasury_withdraw_claim_message ver pid epoch nonce amount dest mint reserve pver"
  CLAIM_DOMAIN_TAG "\<lambda>_. ACTION_TREASURY_WITHDRAW" TREASURY_WITHDRAW_CLAIM_MESSAGE_LEN
  by unfold_locales (auto simp: message_layouts message_len_defs nth_append)

interpretation refund: message_family
  "\<lambda>(ver, pid, epoch, nonce, amount, dest, mint, reserve, idx, requester).
     refund_withdraw_claim_message ver pid epoch nonce amount dest mint reserve idx requester"
  CLAIM_DOMAIN_TAG "\<lambda>_. ACTION_REFUND_WITHDRAW" REFUND_WITHDRAW_CLAIM_MESSAGE_LEN
  by unfold_locales (auto simp: message_layouts message_len_defs nth_append)

interpretation gov: message_family
  "\<lambda>(ver, pid, epoch, action, commitment). governance_message ver pid epoch action commitment"
  GOVERNANCE_DOMAIN_TAG "\<lambda>(ver, pid, epoch, action, commitment). action" GOVERNANCE_MESSAGE_LEN
  by unfold_locales (auto simp: message_layouts message_len_defs nth_append)

lemmas family_lengths =
  release.encode_length[of "(x1, x2, x3, x4, x5, x6, x7, x8)", simplified]
  completion.encode_length[of "(x1, x2, x3, x4, x5, x6, x7, x8)", simplified]
  rebalance.encode_length[of "(x1, x2, x3, x4, x5, x6, x7)", simplified]
  treasury.encode_length[of "(x1, x2, x3, x4, x5, x6, x7, x8, x9)", simplified]
  refund.encode_length[of "(x1, x2, x3, x4, x5, x6, x7, x8, x9, x10)", simplified]
  gov.encode_length[of "(x1, x2, x3, x4, x5)", simplified]
  for x1 x2 x3 x4 x5 x6 x7 x8 x9 x10

lemmas family_tags =
  release.encode_tag[of "(x1, x2, x3, x4, x5, x6, x7, x8)", simplified]
  completion.encode_tag[of "(x1, x2, x3, x4, x5, x6, x7, x8)", simplified]
  rebalance.encode_tag[of "(x1, x2, x3, x4, x5, x6, x7)", simplified]
  treasury.encode_tag[of "(x1, x2, x3, x4, x5, x6, x7, x8, x9)", simplified]
  refund.encode_tag[of "(x1, x2, x3, x4, x5, x6, x7, x8, x9, x10)", simplified]
  gov.encode_tag[of "(x1, x2, x3, x4, x5)", simplified]
  for x1 x2 x3 x4 x5 x6 x7 x8 x9 x10

lemmas family_actions =
  release.encode_action[of "(x1, x2, x3, x4, x5, x6, x7, x8)", simplified]
  completion.encode_action[of "(x1, x2, x3, x4, x5, x6, x7, x8)", simplified]
  rebalance.encode_action[of "(x1, x2, x3, x4, x5, x6, x7)", simplified]
  treasury.encode_action[of "(x1, x2, x3, x4, x5, x6, x7, x8, x9)", simplified]
  refund.encode_action[of "(x1, x2, x3, x4, x5, x6, x7, x8, x9, x10)", simplified]
  gov.encode_action[of "(x1, x2, x3, x4, x5)", simplified]
  for x1 x2 x3 x4 x5 x6 x7 x8 x9 x10

lemmas family_prefixes =
  release.prefix_same[of "(x1, x2, x3, x4, x5, x6, x7, x8)" "(y1, y2, y3, y4, y5, y6, y7, y8)", simplified]
  completion.prefix_same[of "(x1, x2, x3, x4, x5, x6, x7, x8)" "(y1, y2, y3, y4, y5, y6, y7, y8)", simplified]
  rebalance.prefix_same[of "(x1, x2, x3, x4, x5, x6, x7)" "(y1, y2, y3, y4, y5, y6, y7)", simplified]
  treasury.prefix_same[of "(x1, x2, x3, x4, x5, x6, x7, x8, x9)" "(y1, y2, y3, y4, y5, y6, y7, y8, y9)", simplified]
  refund.prefix_same[of "(x1, x2, x3, x4, x5, x6, x7, x8, x9, x10)" "(y1, y2, y3, y4, y5, y6, y7, y8, y9, y10)", simplified]
  gov.prefix_same[of "(x1, x2, x3, x4, x5)" "(y1, y2, y3, y4, y5)", simplified]
  for x1 x2 x3 x4 x5 x6 x7 x8 x9 x10 y1 y2 y3 y4 y5 y6 y7 y8 y9 y10

definition message_tag :: "signed_message \<Rightarrow> bytes" where
  "message_tag m = (case m of GovernanceAct _ _ _ _ _ \<Rightarrow> GOVERNANCE_DOMAIN_TAG
     | _ \<Rightarrow> CLAIM_DOMAIN_TAG)"

definition message_action :: "signed_message \<Rightarrow> u8" where
  "message_action m = (case m of
       ReleaseClaim _ _ _ _ _ _ _ _ \<Rightarrow> ACTION_RELEASE_FROM_RESERVE
     | CompletionClaim _ _ _ _ _ _ _ _ \<Rightarrow> ACTION_RECORD_GOLDCOIN_COMPLETION
     | RebalanceClaim _ _ _ _ _ _ _ \<Rightarrow> ACTION_REBALANCE_WITHDRAW
     | TreasuryClaim _ _ _ _ _ _ _ _ _ \<Rightarrow> ACTION_TREASURY_WITHDRAW
     | RefundClaim _ _ _ _ _ _ _ _ _ _ \<Rightarrow> ACTION_REFUND_WITHDRAW
     | GovernanceAct _ _ _ action _ \<Rightarrow> action)"

lemma encode_message_length: "57 < length (encode_message m)"
  by (cases m) (simp_all add: family_lengths message_len_defs)

lemma encode_message_tag: "take 16 (encode_message m) = message_tag m"
  by (cases m) (simp_all add: family_tags message_tag_def)

lemma encode_message_action: "encode_message m ! 57 = message_action m"
  by (cases m) (simp_all add: family_actions message_action_def)

lemma prefix_message_tag_action:
  assumes "prefix (encode_message m) (encode_message n)"
  shows "message_tag m = message_tag n \<and> message_action m = message_action n"
proof -
  from assms obtain zs where zs: "encode_message n = encode_message m @ zs"
    by (auto simp: prefix_def)
  have "take 16 (encode_message n) = take 16 (encode_message m)"
    and "encode_message n ! 57 = encode_message m ! 57"
    using encode_message_length[of m] by (simp_all add: zs nth_append)
  then show ?thesis by (simp add: encode_message_tag encode_message_action)
qed

lemma prefix_message_eq: "prefix (encode_message m) (encode_message n) \<Longrightarrow> m = n"
  using domain_tags_differ prefix_message_tag_action[of m n]
  by (cases m; cases n)
    (auto simp: message_tag_def message_action_def action_defs dest: family_prefixes)

text \<open>
  C18. One signature authorizes one action: the encodings of all messages the attestation
  keys sign (the five claim families and every governance action, of any protocol version,
  program, epoch and field values) are pairwise distinct, and none is even a prefix of
  another, so neither a re-interpretation nor a truncation of signed bytes can pass as a
  different message.
\<close>

theorem signed_messages_prefix_free:
  "prefix (encode_message m) (encode_message n) \<longleftrightarrow> m = n"
  using prefix_message_eq by blast

section \<open>Commitments of governance parameters\<close>

lemma concat_to_bytes_length: "length (concat (map to_bytes ks)) = 32 * length ks"
  by (induction ks) auto

lemma concat_to_bytes_inject: "concat (map to_bytes ks) = concat (map to_bytes ls) \<Longrightarrow> ks = ls"
proof (induction ks arbitrary: ls)
  case Nil
  then have "length (concat (map to_bytes ls)) = 0" by simp
  then show ?case by (simp add: concat_to_bytes_length)
next
  case (Cons k ks)
  then show ?case by (cases ls) auto
qed

text \<open>
  The bytes a governance proposal commits to determine the proposal: two rotations with
  equal parameter bytes have the same threshold and the same keys in the same order, two
  allowlists with equal bytes are equal as lists, and two cancellations with equal bytes
  cancel the same action with the same execution time.
\<close>

theorem governance_params_inject:
  assumes "is_i64 eta" and "is_i64 eta'"
  shows "(rotation_params t ks = rotation_params t' ks' \<longleftrightarrow> t = t' \<and> ks = ks')
    \<and> (rebalance_policy_params ts = rebalance_policy_params ts' \<longleftrightarrow> ts = ts')
    \<and> (cancel_params a eta = cancel_params a' eta' \<longleftrightarrow> a = a' \<and> eta = eta')"
  using i64_to_le_bytes_inject[OF assms]
  by (auto simp: rotation_params_def rebalance_policy_params_def cancel_params_def
      dest: concat_to_bytes_inject)

theorem governance_params_inject_witness:
  "(rotation_params 2 [1, 2] = rotation_params 2 [2, 1] \<longleftrightarrow> (2::u8) = 2 \<and> [1, 2] = [2, 1 :: bytes32])
    \<and> (rebalance_policy_params [5] = rebalance_policy_params [5] \<longleftrightarrow> [5] = [5 :: bytes32])
    \<and> (cancel_params 3 1000 = cancel_params 3 1001 \<longleftrightarrow> (3::u8) = 3 \<and> (1000::int) = 1001)"
  by (rule governance_params_inject) (simp_all add: is_i64_def i64_min_def i64_max_def)

end
