(* ===== verification/Program_State.thy ===== *)
theory Program_State
  imports Prelude
begin

text \<open>
  The accounts, constants, errors and events of the on-chain program
  (\<open>constants.rs\<close>, \<open>errors.rs\<close>, \<open>events.rs\<close>, \<open>state.rs\<close>): one record per
  \<open>#[account]\<close> struct, field by field, with the methods the structs have; and the seeds
  of the program-derived addresses, shown to be pairwise distinct, which is what allows
  \<open>Program_Runtime\<close> to keep the accounts in a store indexed by their logical names.

  A \<open>Pubkey\<close> and a \<open>[u8; 32]\<close> are \<open>bytes32\<close> values; \<open>[u8; n]\<close> for other \<open>n\<close> is
  a byte list whose length the invariants fix; \<open>Vec\<close> is a list.
\<close>

section \<open>Constants\<close>

definition PROTOCOL_VERSION :: u8 where "PROTOCOL_VERSION = 1"

definition MAX_ATTESTATION_KEYS :: nat where "MAX_ATTESTATION_KEYS = 8"

definition MAX_GLC_ADDRESS_LEN :: nat where "MAX_GLC_ADDRESS_LEN = 64"

definition MAX_TREASURY_DESTINATIONS :: nat where "MAX_TREASURY_DESTINATIONS = 4"

definition NONCE_DOMAIN_REFUND :: u64 where "NONCE_DOMAIN_REFUND = push_bit 63 1"

definition WITHDRAWAL_CLASS_TREASURY :: u8 where "WITHDRAWAL_CLASS_TREASURY = 0x01"

definition WITHDRAWAL_CLASS_REFUND :: u8 where "WITHDRAWAL_CLASS_REFUND = 0x02"

definition GOVERNANCE_ACTION_ROTATE_ATTESTATION_KEYS :: u8 where
  "GOVERNANCE_ACTION_ROTATE_ATTESTATION_KEYS = 1"

definition pubkey_default :: pubkey where "pubkey_default = 0"

section \<open>Errors\<close>

datatype (plugins only: code) BridgeError =
    EmptyAttestationKeySet | TooManyAttestationKeys | DuplicateAttestationKey
  | InvalidAttestationKey | ZeroThreshold | ThresholdExceedsKeyCount | ThresholdBelowMinimum
  | UnauthorizedInitializer | UnauthorizedAdmin | PauseStateUnchanged | AdminUnchanged
  | NoPendingAdmin | PendingAdminMismatch | ArithmeticOverflow | ArithmeticUnderflow
  | ReserveAlreadyConfigured | ReserveNotConfigured | WrongReserveMint | BridgeGloballyPaused
  | ReleaseDirectionPaused | DepositDirectionPaused | WrongTokenProgram
  | UnsupportedTokenExtension | UnreadableTokenState | StaleAttestationEpoch
  | MissingSignatureVerification | MalformedSignatureVerification | SignatureMessageMismatch
  | UnknownAttestationSigner | DuplicateAttestationSignature | InsufficientSignatures
  | ZeroAmount | BelowMinimumTransfer | ExceedsPerTransferLimit | ExceedsRollingVolumeLimit
  | InvalidGlcAddressLength | InsufficientReserveBalance | ZeroGovernanceTimelock
  | WrongGovernanceAction | GovernanceTimelockNotElapsed | StaleGovernanceProposal
  | GovernanceActionAlreadyPending | NoGovernanceActionPending | ObligationAlreadyCompleted
  | ObligationNotPending | PayoutRecordAlreadySet | ZeroPayoutTxid | ZeroPayoutHeight
  | CompletionAmountMismatch | CompletionDestinationMismatch | ZeroRebalanceAmount
  | BridgeNotPaused | RebalanceDestinationIsReserveItself | RebalanceWithdrawRetired
  | RebalancePolicyNotConfigured | InvalidRebalancePolicy | DestinationNotAllowlisted
  | WrongNonceNamespace | EmptyTreasuryAllowlist | TooManyTreasuryDestinations
  | DuplicateTreasuryDestination | InvalidTreasuryDestination
  | TreasuryDestinationIsReserveItself | RebalancePolicyAlreadyPending
  | RebalancePolicyTimelockNotElapsed | StaleRebalancePolicyProposal | RefundAmountMismatch
  | ZeroUpgradeTimelock | UpgradeTimelockNotElapsed | WrongUpgradeBuffer
  | UpgradeAuthorityNotYetAccepted | NotCurrentUpgradeAuthority

text \<open>
  What an instruction can fail with: an error code of the program, a failed account
  constraint of the Anchor framework, or an error of the program it calls.
\<close>

datatype ProgramError =
    Bridge BridgeError
  | AccountNotSigner
  | AccountNotInitialized
  | AccountAlreadyInUse
  | ConstraintViolated
  | CpiFailed

section \<open>Account state\<close>

datatype Direction = GoldcoinToSolana | SolanaToGoldcoin

record BridgeConfig =
  bc_protocol_version :: u8
  bc_admin :: pubkey
  bc_pending_admin :: "pubkey option"
  bc_paused :: bool
  bc_release_paused :: bool
  bc_deposit_paused :: bool
  bc_bump :: u8
  bc_reserve_token_mint :: pubkey
  bc_reserve_token_program :: pubkey
  bc_reserve_authority_bump :: u8
  bc_obligation_count :: u64
  bc_governance_timelock_seconds :: i64
  bc_min_transfer_amount :: u64
  bc_per_transfer_limit :: u64
  bc_protected_minimum :: u64
  bc_rolling_volume_limit :: u64
  bc_rolling_window_seconds :: i64
  bc_upgrade_timelock_seconds :: i64

definition BridgeConfig_SPACE :: nat where
  "BridgeConfig_SPACE = 8 + 1 + 32 + (1 + 32) + 1 + 1 + 1 + 1 + 32 + 32 + 1 + 8 + 8 + 8 + 8 + 8
     + 8 + 8 + 8"

record AttestationKeySet =
  ks_epoch :: u64
  ks_threshold :: u8
  ks_bump :: u8
  ks_keys :: "pubkey list"
  ks_reserved :: bytes

definition AttestationKeySet_SPACE :: nat where
  "AttestationKeySet_SPACE = 8 + 8 + 1 + 1 + (4 + 32 * MAX_ATTESTATION_KEYS) + 32"

record PendingGovernanceAction =
  pg_action :: u8
  pg_proposed_under_epoch :: u64
  pg_eta :: i64
  pg_threshold :: u8
  pg_keys :: "pubkey list"
  pg_bump :: u8
  pg_reserved :: bytes

definition PendingGovernanceAction_SPACE :: nat where
  "PendingGovernanceAction_SPACE = 8 + 1 + 8 + 8 + 1 + (4 + 32 * MAX_ATTESTATION_KEYS) + 1 + 24"

record PendingProgramUpgrade =
  pu_buffer_address :: pubkey
  pu_proposed_at :: i64
  pu_eta :: i64
  pu_proposed_by :: pubkey
  pu_bump :: u8
  pu_reserved :: bytes

definition PendingProgramUpgrade_SPACE :: nat where
  "PendingProgramUpgrade_SPACE = 8 + 32 + 8 + 8 + 32 + 1 + 16"

record DepositClaim =
  dc_txid :: bytes32
  dc_vout :: u32
  dc_amount :: u64
  dc_recipient :: pubkey
  dc_attestation_epoch :: u64
  dc_protocol_version :: u8
  dc_slot_created :: u64
  dc_bump :: u8
  dc_reserved :: bytes

definition DepositClaim_SPACE :: nat where
  "DepositClaim_SPACE = 8 + 32 + 4 + 8 + 32 + 8 + 1 + 8 + 1 + 16"

record RebalanceWithdrawal =
  rw_nonce :: u64
  rw_amount :: u64
  rw_destination :: pubkey
  rw_admin :: pubkey
  rw_attestation_epoch :: u64
  rw_protocol_version :: u8
  rw_slot_created :: u64
  rw_bump :: u8
  rw_reserved :: bytes

definition withdrawal_class :: "RebalanceWithdrawal \<Rightarrow> u8" where
  "withdrawal_class w = rw_reserved w ! 0"

definition RebalanceWithdrawal_SPACE :: nat where
  "RebalanceWithdrawal_SPACE = 8 + 8 + 8 + 32 + 32 + 8 + 1 + 8 + 1 + 16"

record RebalancePolicy =
  rp_version :: u64
  rp_bump :: u8
  rp_treasury_count :: u8
  rp_treasuries :: "pubkey list"
  rp_reserved :: bytes

definition RebalancePolicy_SPACE :: nat where
  "RebalancePolicy_SPACE = 8 + 8 + 1 + 1 + (32 * MAX_TREASURY_DESTINATIONS) + 64"

text \<open>\<open>treasuries[..count].contains(destination)\<close> over the array of four entries.\<close>

definition is_allowlisted :: "RebalancePolicy \<Rightarrow> pubkey \<Rightarrow> bool" where
  "is_allowlisted policy destination =
     (let count = min (unat (rp_treasury_count policy)) MAX_TREASURY_DESTINATIONS
      in List.member (take count (rp_treasuries policy)) destination)"

record PendingRebalancePolicy =
  pr_proposed_under_epoch :: u64
  pr_eta :: i64
  pr_treasury_count :: u8
  pr_treasuries :: "pubkey list"
  pr_bump :: u8
  pr_reserved :: bytes

definition PendingRebalancePolicy_SPACE :: nat where
  "PendingRebalancePolicy_SPACE = 8 + 8 + 8 + 1 + (32 * MAX_TREASURY_DESTINATIONS) + 1 + 32"

datatype WithdrawalStatus = Pending | Broadcast | Completed | Refunded

record WithdrawalObligation =
  wo_index :: u64
  wo_amount :: u64
  wo_requester :: pubkey
  wo_glc_address :: bytes
  wo_glc_address_len :: u8
  wo_status :: WithdrawalStatus
  wo_requested_at_slot :: u64
  wo_protocol_version :: u8
  wo_bump :: u8
  wo_reserved :: bytes

definition WithdrawalObligation_SPACE :: nat where
  "WithdrawalObligation_SPACE = 8 + 8 + 8 + 32 + 64 + 1 + 1 + 8 + 1 + 1 + 48"

definition PAYOUT_RECORD_LEN :: nat where "PAYOUT_RECORD_LEN = 32 + 8"

definition payout_record :: "WithdrawalObligation \<Rightarrow> (bytes32 \<times> u64) option" where
  "payout_record o' =
     (if wo_status o' \<noteq> Completed then None
      else Some (from_bytes (take 32 (wo_reserved o')),
                 u64_from_le_bytes (take 8 (drop 32 (wo_reserved o')))))"

definition payout_record_is_unset :: "WithdrawalObligation \<Rightarrow> bool" where
  "payout_record_is_unset o' = list_all (\<lambda>b. b = 0) (take PAYOUT_RECORD_LEN (wo_reserved o'))"

definition set_payout_record :: "WithdrawalObligation \<Rightarrow> bytes32 \<Rightarrow> u64 \<Rightarrow> WithdrawalObligation" where
  "set_payout_record o' payout_txid payout_height =
     o'\<lparr>wo_reserved := to_bytes payout_txid @ u64_to_le_bytes payout_height
          @ drop PAYOUT_RECORD_LEN (wo_reserved o')\<rparr>"

record RollingVolumeWindow =
  vw_direction :: Direction
  vw_window_start :: i64
  vw_window_total :: u64
  vw_bump :: u8
  vw_reserved :: bytes

definition RollingVolumeWindow_SPACE :: nat where
  "RollingVolumeWindow_SPACE = 8 + 1 + 8 + 8 + 1 + 16"

section \<open>Events\<close>

datatype (plugins only: code) BridgeEvent =
    BridgeInitialized (ev_admin: pubkey) (ev_protocol_version: u8) (ev_threshold: u8)
      (ev_key_count: u8)
  | ReserveVaultInitialized pubkey pubkey pubkey
  | PauseStateChanged bool bool bool
  | RollingVolumeWindowReset pubkey Direction i64 u64 i64 u64 i64 u64
  | AdminTransferInitiated pubkey pubkey
  | AdminTransferred pubkey pubkey
  | ReserveReleased bytes32 u32 pubkey u64 u64
  | ReserveDeposited u64 pubkey u64 bytes
  | GovernanceActionProposed u8 u64 i64 u8 u8
  | GovernanceActionExecuted u8 u64
  | GovernanceActionCancelled u8 i64
  | ObligationCompleted u64 bytes32 u64 u64 u64
  | LimitsChanged string u64 u64
  | RebalanceWithdrawalExecuted u64 pubkey u64 u64 pubkey u64 u8
  | RebalancePolicyInitialized u64 "pubkey list"
  | RebalancePolicyProposed u64 i64 "pubkey list"
  | RebalancePolicyExecuted u64 u64 "pubkey list"
  | RebalancePolicyCancelled i64
  | UpgradeAuthorityAccepted pubkey pubkey
  | ProgramUpgradeProposed pubkey i64 pubkey
  | ProgramUpgradeExecuted pubkey
  | ProgramUpgradeCancelled pubkey i64

section \<open>Program-derived addresses\<close>

definition ascii_seed :: "string \<Rightarrow> bytes" where
  "ascii_seed s = map (\<lambda>c. word_of_nat (of_char c)) s"

definition SEED_BRIDGE_CONFIG :: bytes where "SEED_BRIDGE_CONFIG = ascii_seed ''bridge_config''"

definition SEED_ATTESTATION_KEY_SET :: bytes where
  "SEED_ATTESTATION_KEY_SET = ascii_seed ''attestation_key_set''"

definition SEED_RESERVE_AUTHORITY :: bytes where
  "SEED_RESERVE_AUTHORITY = ascii_seed ''reserve_authority''"

definition SEED_DEPOSIT_CLAIM :: bytes where "SEED_DEPOSIT_CLAIM = ascii_seed ''deposit_claim''"

definition SEED_WITHDRAWAL_OBLIGATION :: bytes where
  "SEED_WITHDRAWAL_OBLIGATION = ascii_seed ''withdrawal_obligation''"

definition SEED_REBALANCE_WITHDRAWAL :: bytes where
  "SEED_REBALANCE_WITHDRAWAL = ascii_seed ''rebalance_withdrawal''"

definition SEED_REBALANCE_POLICY :: bytes where
  "SEED_REBALANCE_POLICY = ascii_seed ''rebalance_policy''"

definition SEED_PENDING_REBALANCE_POLICY :: bytes where
  "SEED_PENDING_REBALANCE_POLICY = ascii_seed ''pending_rebalance_policy''"

definition SEED_GOVERNANCE_ACTION :: bytes where
  "SEED_GOVERNANCE_ACTION = ascii_seed ''governance_action''"

definition SEED_UPGRADE_AUTHORITY :: bytes where
  "SEED_UPGRADE_AUTHORITY = ascii_seed ''upgrade_authority''"

definition SEED_PENDING_UPGRADE :: bytes where
  "SEED_PENDING_UPGRADE = ascii_seed ''pending_upgrade''"

definition SEED_ROLLING_VOLUME_WINDOW :: bytes where
  "SEED_ROLLING_VOLUME_WINDOW = ascii_seed ''rolling_volume_window''"

lemmas seed_defs =
  SEED_BRIDGE_CONFIG_def SEED_ATTESTATION_KEY_SET_def SEED_RESERVE_AUTHORITY_def
  SEED_DEPOSIT_CLAIM_def SEED_WITHDRAWAL_OBLIGATION_def SEED_REBALANCE_WITHDRAWAL_def
  SEED_REBALANCE_POLICY_def SEED_PENDING_REBALANCE_POLICY_def SEED_GOVERNANCE_ACTION_def
  SEED_UPGRADE_AUTHORITY_def SEED_PENDING_UPGRADE_def SEED_ROLLING_VOLUME_WINDOW_def

definition direction_byte :: "Direction \<Rightarrow> u8" where
  "direction_byte d = (case d of GoldcoinToSolana \<Rightarrow> 0 | SolanaToGoldcoin \<Rightarrow> 1)"

text \<open>The logical names of the accounts, and the seeds each account struct declares.\<close>

datatype PdaName =
    BridgeConfigPda | AttestationKeySetPda | ReserveAuthorityPda | DepositClaimPda bytes32 u32
  | WithdrawalObligationPda u64 | RebalanceWithdrawalPda u64 | RebalancePolicyPda
  | PendingRebalancePolicyPda | GovernanceActionPda | UpgradeAuthorityPda | PendingUpgradePda
  | RollingVolumeWindowPda Direction

primrec pda_seeds :: "PdaName \<Rightarrow> bytes list" where
  "pda_seeds BridgeConfigPda = [SEED_BRIDGE_CONFIG]"
| "pda_seeds AttestationKeySetPda = [SEED_ATTESTATION_KEY_SET]"
| "pda_seeds ReserveAuthorityPda = [SEED_RESERVE_AUTHORITY]"
| "pda_seeds (DepositClaimPda txid vout) = [SEED_DEPOSIT_CLAIM, to_bytes txid, u32_to_le_bytes vout]"
| "pda_seeds (WithdrawalObligationPda index) = [SEED_WITHDRAWAL_OBLIGATION, u64_to_le_bytes index]"
| "pda_seeds (RebalanceWithdrawalPda nonce) = [SEED_REBALANCE_WITHDRAWAL, u64_to_le_bytes nonce]"
| "pda_seeds RebalancePolicyPda = [SEED_REBALANCE_POLICY]"
| "pda_seeds PendingRebalancePolicyPda = [SEED_PENDING_REBALANCE_POLICY]"
| "pda_seeds GovernanceActionPda = [SEED_GOVERNANCE_ACTION]"
| "pda_seeds UpgradeAuthorityPda = [SEED_UPGRADE_AUTHORITY]"
| "pda_seeds PendingUpgradePda = [SEED_PENDING_UPGRADE]"
| "pda_seeds (RollingVolumeWindowPda d) = [SEED_ROLLING_VOLUME_WINDOW, [direction_byte d]]"

lemma direction_byte_inject: "direction_byte d = direction_byte d' \<longleftrightarrow> d = d'"
  by (cases d; cases d') (simp_all add: direction_byte_def)

lemma seed_lengths:
  "length SEED_BRIDGE_CONFIG = 13" "length SEED_ATTESTATION_KEY_SET = 19"
  "length SEED_RESERVE_AUTHORITY = 17" "length SEED_DEPOSIT_CLAIM = 13"
  "length SEED_WITHDRAWAL_OBLIGATION = 21" "length SEED_REBALANCE_WITHDRAWAL = 20"
  "length SEED_REBALANCE_POLICY = 16" "length SEED_PENDING_REBALANCE_POLICY = 24"
  "length SEED_GOVERNANCE_ACTION = 17" "length SEED_UPGRADE_AUTHORITY = 17"
  "length SEED_PENDING_UPGRADE = 15" "length SEED_ROLLING_VOLUME_WINDOW = 21"
  by (simp_all add: seed_defs ascii_seed_def)

lemma same_length_seeds:
  "SEED_RESERVE_AUTHORITY \<noteq> SEED_GOVERNANCE_ACTION"
  "SEED_RESERVE_AUTHORITY \<noteq> SEED_UPGRADE_AUTHORITY"
  "SEED_GOVERNANCE_ACTION \<noteq> SEED_UPGRADE_AUTHORITY"
  by (simp_all add: SEED_RESERVE_AUTHORITY_def SEED_GOVERNANCE_ACTION_def
      SEED_UPGRADE_AUTHORITY_def ascii_seed_def)

primrec pda_seed_length :: "PdaName \<Rightarrow> nat" where
  "pda_seed_length BridgeConfigPda = 13"
| "pda_seed_length AttestationKeySetPda = 19"
| "pda_seed_length ReserveAuthorityPda = 17"
| "pda_seed_length (DepositClaimPda txid vout) = 49"
| "pda_seed_length (WithdrawalObligationPda index) = 29"
| "pda_seed_length (RebalanceWithdrawalPda nonce) = 28"
| "pda_seed_length RebalancePolicyPda = 16"
| "pda_seed_length PendingRebalancePolicyPda = 24"
| "pda_seed_length GovernanceActionPda = 17"
| "pda_seed_length UpgradeAuthorityPda = 17"
| "pda_seed_length PendingUpgradePda = 15"
| "pda_seed_length (RollingVolumeWindowPda d) = 22"

lemma length_pda_seeds: "length (concat (pda_seeds a)) = pda_seed_length a"
  by (cases a) (simp_all add: seed_lengths)

lemma concat_seeds_distinct:
  assumes "concat (pda_seeds a) = concat (pda_seeds b)"
  shows "a = b"
proof -
  have "pda_seed_length a = pda_seed_length b"
    using arg_cong[OF assms, of length] by (simp only: length_pda_seeds)
  then show ?thesis
    using assms same_length_seeds
    by (cases a; cases b) (simp_all add: direction_byte_inject)
qed

text \<open>
  Program-derived addresses are hashes of the concatenated seeds, so two accounts could
  only share an address if their seeds concatenated to the same bytes. They never do: the
  seed bytes of every account the program declares, for every deposit, obligation index,
  nonce and direction, are pairwise distinct.
\<close>

theorem pda_seeds_distinct: "concat (pda_seeds a) = concat (pda_seeds b) \<longleftrightarrow> a = b"
  using concat_seeds_distinct by blast

section \<open>The payout record\<close>

lemma payout_record_set:
  "payout_record ((set_payout_record o' txid height)\<lparr>wo_status := Completed\<rparr>) = Some (txid, height)"
  by (simp add: payout_record_def set_payout_record_def)

lemma length_set_payout_record:
  "length (wo_reserved o') = 48 \<Longrightarrow> length (wo_reserved (set_payout_record o' txid height)) = 48"
  by (simp add: set_payout_record_def PAYOUT_RECORD_LEN_def)

lemma set_payout_record_frame [simp]:
  "wo_index (set_payout_record o' t h) = wo_index o'"
  "wo_amount (set_payout_record o' t h) = wo_amount o'"
  "wo_requester (set_payout_record o' t h) = wo_requester o'"
  "wo_glc_address (set_payout_record o' t h) = wo_glc_address o'"
  "wo_glc_address_len (set_payout_record o' t h) = wo_glc_address_len o'"
  "wo_status (set_payout_record o' t h) = wo_status o'"
  by (simp_all add: set_payout_record_def)

lemma refund_domain_bit: "NONCE_DOMAIN_REFUND = 2 ^ 63"
  by (simp add: NONCE_DOMAIN_REFUND_def push_bit_eq_mult)

end
