(* ===== verification/Validation.thy ===== *)
theory Validation
  imports Program_State
begin

text \<open>
  The validation rules of \<open>validation.rs\<close>: the attestation-key set and the rebalance
  policy. Each \<open>for\<close> loop with a \<open>require!\<close> in its body is \<open>require_each\<close> over the
  loop's range; the lemmas show that passing is exactly the invariant the account state
  documents.
\<close>

fun require_each :: "('a \<Rightarrow> ('e, unit) result) \<Rightarrow> 'a list \<Rightarrow> ('e, unit) result" where
  "require_each body [] = Inr ()"
| "require_each body (x # xs) = try_bind (body x) (\<lambda>_. require_each body xs)"

definition MIN_THRESHOLD :: u8 where "MIN_THRESHOLD = 2"

definition validate_attestation_key_set :: "pubkey list \<Rightarrow> u8 \<Rightarrow> (BridgeError, unit) result" where
  "validate_attestation_key_set keys threshold =
     require (keys \<noteq> []) EmptyAttestationKeySet (
     require (length keys \<le> MAX_ATTESTATION_KEYS) TooManyAttestationKeys (
     require (threshold \<ge> 1) ZeroThreshold (
     require (unat threshold \<le> length keys) ThresholdExceedsKeyCount (
     require (threshold \<ge> MIN_THRESHOLD) ThresholdBelowMinimum (
     try_bind (require_each (\<lambda>key. require (key \<noteq> pubkey_default) InvalidAttestationKey (Inr ()))
       keys) (\<lambda>_.
     require_each (\<lambda>i.
       require_each (\<lambda>j. require (keys ! i \<noteq> keys ! j) DuplicateAttestationKey (Inr ()))
         [i + 1..<length keys])
       [0..<length keys]))))))"

definition validate_rebalance_policy :: "pubkey list \<Rightarrow> pubkey \<Rightarrow> (BridgeError, unit) result" where
  "validate_rebalance_policy treasuries reserve_token_account =
     require (treasuries \<noteq> []) EmptyTreasuryAllowlist (
     require (length treasuries \<le> MAX_TREASURY_DESTINATIONS) TooManyTreasuryDestinations (
     require_each (\<lambda>(i, t).
       require (t \<noteq> pubkey_default) InvalidTreasuryDestination (
       require (t \<noteq> reserve_token_account) TreasuryDestinationIsReserveItself (
       require (t \<notin> set (take i treasuries)) DuplicateTreasuryDestination (
       Inr ()))))
       (enumerate 0 treasuries)))"

section \<open>Loops\<close>

lemma require_each_ok [simp, result_simps]:
  "require_each body xs = Inr () \<longleftrightarrow> (\<forall>x \<in> set xs. body x = Inr ())"
  by (induction xs) auto

lemma require_each_ok_unit: "require_each body xs = Inr u \<longleftrightarrow> (\<forall>x \<in> set xs. body x = Inr ())"
  by simp

lemma require_each_error:
  assumes "require_each body xs = Inl e"
  shows "\<exists>x \<in> set xs. body x = Inl e"
  using assms by (induction xs) (auto simp: result_simps)

lemma distinct_iff_pairs:
  "distinct xs \<longleftrightarrow> (\<forall>i < length xs. \<forall>j. i < j \<and> j < length xs \<longrightarrow> xs ! i \<noteq> xs ! j)"
  by (auto simp: distinct_conv_nth) (metis nat_neq_iff)

lemma distinct_iff_earlier:
  "distinct xs \<longleftrightarrow> (\<forall>i < length xs. xs ! i \<notin> set (take i xs))"
proof -
  have "i < length xs \<Longrightarrow> xs ! i \<in> set (take i xs) \<longleftrightarrow> (\<exists>j < i. xs ! j = xs ! i)" for i
    by (auto simp: in_set_conv_nth)
  then show ?thesis by (auto simp: distinct_iff_pairs)
qed

section \<open>The attestation-key set\<close>

definition valid_key_set :: "pubkey list \<Rightarrow> u8 \<Rightarrow> bool" where
  "valid_key_set keys threshold \<longleftrightarrow>
     length keys \<le> MAX_ATTESTATION_KEYS \<and> 2 \<le> unat threshold \<and> unat threshold \<le> length keys
     \<and> pubkey_default \<notin> set keys \<and> distinct keys"

lemma validate_attestation_key_set_iff:
  "validate_attestation_key_set keys threshold = Inr () \<longleftrightarrow> valid_key_set keys threshold"
proof -
  have "unat (2 :: u8) = 2" "unat (1 :: u8) = 1" by simp_all
  then have t: "(1 \<le> threshold) = (1 \<le> unat threshold)" "(MIN_THRESHOLD \<le> threshold) = (2 \<le> unat threshold)"
    by (simp_all add: word_le_nat_alt MIN_THRESHOLD_def)
  have d: "(\<forall>x \<in> set [0..<length keys]. \<forall>xa \<in> set [x + 1..<length keys]. keys ! x \<noteq> keys ! xa)
    \<longleftrightarrow> distinct keys"
    by (auto simp: distinct_iff_pairs)
  show ?thesis
    unfolding validate_attestation_key_set_def valid_key_set_def
    using t d by (auto simp: Suc_le_eq)
qed

section \<open>The rebalance policy\<close>

definition valid_allowlist :: "pubkey list \<Rightarrow> pubkey \<Rightarrow> bool" where
  "valid_allowlist treasuries reserve_token_account \<longleftrightarrow>
     treasuries \<noteq> [] \<and> length treasuries \<le> MAX_TREASURY_DESTINATIONS
     \<and> pubkey_default \<notin> set treasuries \<and> reserve_token_account \<notin> set treasuries
     \<and> distinct treasuries"

lemma validate_rebalance_policy_iff:
  "validate_rebalance_policy treasuries reserve = Inr () \<longleftrightarrow> valid_allowlist treasuries reserve"
proof -
  have mem: "(i, t) \<in> set (enumerate 0 treasuries) \<longleftrightarrow> i < length treasuries \<and> t = treasuries ! i"
    for i t by (auto simp: in_set_enumerate_eq)
  have split: "(\<forall>x \<in> set (enumerate 0 treasuries). P x) \<longleftrightarrow>
    (\<forall>i < length treasuries. P (i, treasuries ! i))" for P
    using mem by fastforce
  show ?thesis
    unfolding validate_rebalance_policy_def valid_allowlist_def distinct_iff_earlier
    by (auto simp: split in_set_conv_nth)
qed

end
