(* ===== verification/Limits.thy ===== *)
theory Limits
  imports Program_State
begin

text \<open>
  The limit checks of \<open>limits.rs\<close>, used by both settlement directions and by the operator
  withdrawals: the per-transfer bounds, the fixed-bucket rolling volume window, and the
  protected minimum of the reserve. The lemmas characterise each check exactly; the main
  results bound the volume a whole sequence of accepted transfers can reach.
\<close>

definition enforce_transfer_amount :: "BridgeConfig \<Rightarrow> u64 \<Rightarrow> (BridgeError, unit) result" where
  "enforce_transfer_amount config amount =
     require (amount > 0) ZeroAmount (
     require (amount \<ge> bc_min_transfer_amount config) BelowMinimumTransfer (
     require (amount \<le> bc_per_transfer_limit config) ExceedsPerTransferLimit (
     Inr ())))"

definition enforce_and_record_rolling_volume ::
  "BridgeConfig \<Rightarrow> RollingVolumeWindow \<Rightarrow> u64 \<Rightarrow> i64 \<Rightarrow> (BridgeError, RollingVolumeWindow) result"
  where
  "enforce_and_record_rolling_volume config window amount now =
     (let bucket_age = saturating_sub_i64 now (vw_window_start window);
          (start, total) =
            (if bucket_age \<ge> bc_rolling_window_seconds config then (now, 0)
             else (vw_window_start window, vw_window_total window))
      in try_bind (ok_or (checked_add total amount) ArithmeticOverflow) (\<lambda>projected.
         require (projected \<le> bc_rolling_volume_limit config) ExceedsRollingVolumeLimit (
         Inr (window\<lparr>vw_window_start := start, vw_window_total := projected\<rparr>))))"

definition enforce_protected_minimum :: "u64 \<Rightarrow> u64 \<Rightarrow> u64 \<Rightarrow> (BridgeError, unit) result" where
  "enforce_protected_minimum reserve_balance protected_minimum amount =
     try_bind (ok_or (checked_add amount protected_minimum) ArithmeticOverflow) (\<lambda>required_floor.
     require (reserve_balance \<ge> required_floor) InsufficientReserveBalance (
     Inr ()))"

text \<open>
  A sequence of transfers through one window, each with its amount and the clock at which
  it was submitted; a rejected transfer ends the sequence.
\<close>

fun record_transfers ::
  "BridgeConfig \<Rightarrow> RollingVolumeWindow \<Rightarrow> (u64 \<times> i64) list \<Rightarrow> (BridgeError, RollingVolumeWindow) result"
  where
  "record_transfers config window [] = Inr window"
| "record_transfers config window ((amount, now) # ts) =
     try_bind (enforce_and_record_rolling_volume config window amount now)
       (\<lambda>w. record_transfers config w ts)"

text \<open>A configuration with a limit of 100 units per minute, for the examples.\<close>

definition minute_limits :: BridgeConfig where
  "minute_limits = \<lparr>bc_protocol_version = 1, bc_admin = 1, bc_pending_admin = None, bc_paused = False,
     bc_release_paused = False, bc_deposit_paused = False, bc_bump = 255,
     bc_reserve_token_mint = 0, bc_reserve_token_program = 0,
     bc_reserve_authority_bump = 0, bc_obligation_count = 0, bc_governance_timelock_seconds = 100,
     bc_min_transfer_amount = 1, bc_per_transfer_limit = 90, bc_protected_minimum = 0,
     bc_rolling_volume_limit = 100, bc_rolling_window_seconds = 60,
     bc_upgrade_timelock_seconds = 200\<rparr>"

definition minute_window :: RollingVolumeWindow where
  "minute_window = \<lparr>vw_direction = GoldcoinToSolana, vw_window_start = 1000, vw_window_total = 30,
     vw_bump = 255, vw_reserved = []\<rparr>"

section \<open>Exact characterisations\<close>

lemma enforce_transfer_amount_ok:
  "enforce_transfer_amount config amount = Inr () \<longleftrightarrow>
     amount > 0 \<and> bc_min_transfer_amount config \<le> amount \<and> amount \<le> bc_per_transfer_limit config"
  by (simp add: enforce_transfer_amount_def)

lemma enforce_protected_minimum_ok:
  "enforce_protected_minimum balance floor amount = Inr () \<longleftrightarrow>
     unat amount + unat floor \<le> unat balance"
proof -
  have "unat balance < 2 ^ 64" using unat_lt2p[of balance] by simp
  then show ?thesis
    by (auto simp: enforce_protected_minimum_def checked_add_eq_Some word_le_nat_alt
        unat_word_ariths)
qed

lemma saturating_age:
  assumes "is_i64 w" "0 < w"
  shows "saturating_sub_i64 a b \<ge> w \<longleftrightarrow> a - b \<ge> w"
  using assms by (auto simp: saturating_sub_i64_def is_i64_def i64_min_def i64_max_def)

text \<open>The bucket a transfer at \<open>now\<close> is counted in: its start and its total before.\<close>

definition current_bucket :: "BridgeConfig \<Rightarrow> RollingVolumeWindow \<Rightarrow> i64 \<Rightarrow> i64 \<times> u64" where
  "current_bucket config window now =
     (if saturating_sub_i64 now (vw_window_start window) \<ge> bc_rolling_window_seconds config
      then (now, 0) else (vw_window_start window, vw_window_total window))"

lemma rolling_volume_ok:
  "enforce_and_record_rolling_volume config window amount now = Inr w' \<longleftrightarrow>
     (let (start, total) = current_bucket config window now
      in unat total + unat amount \<le> unat (bc_rolling_volume_limit config)
         \<and> w' = window\<lparr>vw_window_start := start, vw_window_total := total + amount\<rparr>)"
proof -
  have "unat (bc_rolling_volume_limit config) < 2 ^ 64"
    using unat_lt2p[of "bc_rolling_volume_limit config"] by simp
  then show ?thesis
    by (auto simp: enforce_and_record_rolling_volume_def current_bucket_def Let_def
        checked_add_eq_Some word_le_nat_alt unat_word_ariths)
qed

lemma rolling_volume_total:
  assumes "enforce_and_record_rolling_volume config window amount now = Inr w'"
  shows "unat (vw_window_total w') = unat (snd (current_bucket config window now)) + unat amount"
    and "unat (vw_window_total w') \<le> unat (bc_rolling_volume_limit config)"
    and "vw_window_start w' = fst (current_bucket config window now)"
proof -
  have "unat (bc_rolling_volume_limit config) < 2 ^ 64"
    using unat_lt2p[of "bc_rolling_volume_limit config"] by simp
  with assms show "unat (vw_window_total w') = unat (snd (current_bucket config window now)) + unat amount"
    and "unat (vw_window_total w') \<le> unat (bc_rolling_volume_limit config)"
    and "vw_window_start w' = fst (current_bucket config window now)"
    by (auto simp: rolling_volume_ok Let_def unat_word_ariths split: prod.splits)
qed

section \<open>Sequences of transfers\<close>

definition total_amount :: "(u64 \<times> i64) list \<Rightarrow> nat" where
  "total_amount ts = sum_list (map (unat \<circ> fst) ts)"

lemma total_amount_simps [simp]:
  "total_amount [] = 0" "total_amount ((a, t) # ts) = unat a + total_amount ts"
  by (simp_all add: total_amount_def)

text \<open>No reset happens while every clock is less than one window after the bucket's start.\<close>

lemma record_transfers_same_bucket:
  assumes "record_transfers config window ts = Inr w'"
    and "is_i64 (bc_rolling_window_seconds config)" "0 < bc_rolling_window_seconds config"
    and "\<forall>(a, t) \<in> set ts. t - vw_window_start window < bc_rolling_window_seconds config"
    and "unat (vw_window_total window) \<le> unat (bc_rolling_volume_limit config)"
  shows "unat (vw_window_total window) + total_amount ts \<le> unat (bc_rolling_volume_limit config)
    \<and> vw_window_start w' = vw_window_start window
    \<and> unat (vw_window_total w') = unat (vw_window_total window) + total_amount ts"
  using assms(1,4,5)
proof (induction ts arbitrary: window)
  case (Cons p ts)
  obtain a t where p: "p = (a, t)" by (cases p)
  from Cons.prems(1) p obtain w1 where
    w1: "enforce_and_record_rolling_volume config window a t = Inr w1"
    and rest: "record_transfers config w1 ts = Inr w'" by auto
  have "current_bucket config window t = (vw_window_start window, vw_window_total window)"
    using Cons.prems(2) p saturating_age[OF assms(2,3), of t "vw_window_start window"]
    by (auto simp: current_bucket_def)
  with rolling_volume_total[OF w1] have
    tot: "unat (vw_window_total w1) = unat (vw_window_total window) + unat a"
    and lim: "unat (vw_window_total w1) \<le> unat (bc_rolling_volume_limit config)"
    and st: "vw_window_start w1 = vw_window_start window" by simp_all
  have "\<forall>(a, t) \<in> set ts. t - vw_window_start w1 < bc_rolling_window_seconds config"
    using Cons.prems(2) st by auto
  from Cons.IH[OF rest this lim] show ?case by (simp add: p tot st)
qed simp

text \<open>
  A span of time shorter than one window meets at most one reset, so it carries at most
  twice the limit.
\<close>

lemma record_transfers_span:
  assumes "record_transfers config window ts = Inr w'"
    and "is_i64 (bc_rolling_window_seconds config)" "0 < bc_rolling_window_seconds config"
    and "\<forall>(a, t) \<in> set ts. lo \<le> t \<and> t < lo + bc_rolling_window_seconds config"
    and "unat (vw_window_total window) \<le> unat (bc_rolling_volume_limit config)"
  shows "unat (vw_window_total window) + total_amount ts \<le> 2 * unat (bc_rolling_volume_limit config)"
  using assms(1,4,5)
proof (induction ts arbitrary: window)
  case (Cons p ts)
  obtain a t where p: "p = (a, t)" by (cases p)
  from Cons.prems(1) p obtain w1 where
    w1: "enforce_and_record_rolling_volume config window a t = Inr w1"
    and rest: "record_transfers config w1 ts = Inr w'" by auto
  have span: "\<forall>(a, t) \<in> set ts. lo \<le> t \<and> t < lo + bc_rolling_window_seconds config"
    using Cons.prems(2) by auto
  note tot = rolling_volume_total[OF w1]
  show ?case
  proof (cases "saturating_sub_i64 t (vw_window_start window) \<ge> bc_rolling_window_seconds config")
    case True
    then have b: "current_bucket config window t = (t, 0)" by (simp add: current_bucket_def)
    have "\<forall>(a, t') \<in> set ts. t' - vw_window_start w1 < bc_rolling_window_seconds config"
      using span Cons.prems(2) p b tot(3) by fastforce
    from record_transfers_same_bucket[OF rest assms(2,3) this tot(2)]
    have "unat a + total_amount ts \<le> unat (bc_rolling_volume_limit config)"
      using tot(1) b by simp
    then show ?thesis using Cons.prems(3) p by simp
  next
    case False
    then have b: "current_bucket config window t = (vw_window_start window, vw_window_total window)"
      by (simp add: current_bucket_def)
    from Cons.IH[OF rest span tot(2)] show ?thesis using tot(1) b p by simp
  qed
qed simp

lemma record_transfers_total_ok:
  "record_transfers config window ts = Inr w' \<Longrightarrow>
   unat (vw_window_total window) \<le> unat (bc_rolling_volume_limit config) \<Longrightarrow>
   unat (vw_window_total w') \<le> unat (bc_rolling_volume_limit config)"
  by (induction config window ts rule: record_transfers.induct)
    (auto dest: rolling_volume_total(2))

text \<open>
  C22. The rolling-volume window bounds what leaves (or enters) the bridge: transfers accepted
  in any span of time shorter than the configured window add up, together with what the
  bucket already held, to at most twice the configured limit, and to at most the limit when
  they all fall into the bucket that is open at the start.
\<close>

theorem rolling_volume_bound:
  assumes "record_transfers config window ts = Inr w'"
    and "is_i64 (bc_rolling_window_seconds config)" and "0 < bc_rolling_window_seconds config"
    and "unat (vw_window_total window) \<le> unat (bc_rolling_volume_limit config)"
    and "\<forall>(a, t) \<in> set ts. lo \<le> t \<and> t < lo + bc_rolling_window_seconds config"
  shows "unat (vw_window_total window) + total_amount ts \<le> 2 * unat (bc_rolling_volume_limit config)
    \<and> (vw_window_start window = lo \<longrightarrow>
        unat (vw_window_total window) + total_amount ts \<le> unat (bc_rolling_volume_limit config))"
proof -
  have "vw_window_start window = lo \<Longrightarrow>
    \<forall>(a, t) \<in> set ts. t - vw_window_start window < bc_rolling_window_seconds config"
    using assms(5) by fastforce
  then show ?thesis
    using record_transfers_span[OF assms(1-3,5,4)]
      record_transfers_same_bucket[OF assms(1-3) _ assms(4)] by blast
qed

theorem rolling_volume_bound_witness:
  "unat (vw_window_total minute_window) + total_amount [(50, 1030), (90, 1065)]
      \<le> 2 * unat (bc_rolling_volume_limit minute_limits)
    \<and> unat (vw_window_total minute_window) + total_amount [(50, 1030), (20, 1059)]
      \<le> unat (bc_rolling_volume_limit minute_limits)"
proof -
  note defs = minute_limits_def minute_window_def is_i64_def i64_min_def i64_max_def
      enforce_and_record_rolling_volume_def saturating_sub_i64_def checked_add_def Let_def
  have "\<exists>w. record_transfers minute_limits minute_window [(50, 1030), (90, 1065)] = Inr w"
    "\<exists>w. record_transfers minute_limits minute_window [(50, 1030), (20, 1059)] = Inr w"
    by (simp_all add: defs)
  then obtain w w' where
    "record_transfers minute_limits minute_window [(50, 1030), (90, 1065)] = Inr w"
    "record_transfers minute_limits minute_window [(50, 1030), (20, 1059)] = Inr w'" by blast
  from rolling_volume_bound[OF this(1), of 1010] rolling_volume_bound[OF this(2), of 1000]
  show ?thesis by (simp add: defs)
qed

end
