(* ===== verification/Token_Extensions.thy ===== *)
theory Token_Extensions
  imports Program_State
begin

text \<open>
  The Token-2022 extension policy of \<open>token_extensions.rs\<close>. Parsing the type-length-value
  data of a mint or token account is done by the SPL library, which is a parameter here:
  \<open>unpack data\<close> is the list of extension types \<open>StateWithExtensions::unpack\<close> and
  \<open>get_extension_types\<close> yield, \<open>None\<close> when either fails. \<open>OtherExtension\<close> stands for the
  types a later library may add, which the source's last match arm classifies.
\<close>

datatype (plugins only: code) ExtensionType =
    Uninitialized | TransferFeeConfig | TransferFeeAmount | MintCloseAuthority
  | ConfidentialTransferMint | ConfidentialTransferAccount | DefaultAccountState | ImmutableOwner
  | MemoTransfer | NonTransferable | InterestBearingConfig | CpiGuard | PermanentDelegate
  | NonTransferableAccount | TransferHook | TransferHookAccount | ConfidentialTransferFeeConfig
  | ConfidentialTransferFeeAmount | MetadataPointer | TokenMetadata | GroupPointer | TokenGroup
  | GroupMemberPointer | TokenGroupMember | ConfidentialMintBurn | OtherExtension nat

definition SUPPORTED_MINT_EXTENSIONS :: "ExtensionType list" where
  "SUPPORTED_MINT_EXTENSIONS = [MetadataPointer, TokenMetadata]"

definition SUPPORTED_TOKEN_ACCOUNT_EXTENSIONS :: "ExtensionType list" where
  "SUPPORTED_TOKEN_ACCOUNT_EXTENSIONS = [ImmutableOwner]"

datatype ExtensionSafety = Supported | Irrelevant | Unsafe

fun classify :: "ExtensionType \<Rightarrow> ExtensionSafety" where
  "classify MetadataPointer = Supported"
| "classify TokenMetadata = Supported"
| "classify ImmutableOwner = Supported"
| "classify TransferFeeConfig = Unsafe"
| "classify TransferFeeAmount = Unsafe"
| "classify ConfidentialTransferMint = Unsafe"
| "classify ConfidentialTransferAccount = Unsafe"
| "classify ConfidentialTransferFeeConfig = Unsafe"
| "classify ConfidentialTransferFeeAmount = Unsafe"
| "classify ConfidentialMintBurn = Unsafe"
| "classify NonTransferable = Unsafe"
| "classify NonTransferableAccount = Unsafe"
| "classify InterestBearingConfig = Unsafe"
| "classify TransferHook = Unsafe"
| "classify TransferHookAccount = Unsafe"
| "classify PermanentDelegate = Unsafe"
| "classify DefaultAccountState = Unsafe"
| "classify MintCloseAuthority = Irrelevant"
| "classify MemoTransfer = Irrelevant"
| "classify CpiGuard = Irrelevant"
| "classify GroupPointer = Irrelevant"
| "classify TokenGroup = Irrelevant"
| "classify GroupMemberPointer = Irrelevant"
| "classify TokenGroupMember = Irrelevant"
| "classify Uninitialized = Irrelevant"
| "classify (OtherExtension n) = Unsafe"

fun validate_extension_types ::
  "ExtensionType list \<Rightarrow> ExtensionType list \<Rightarrow> (BridgeError, unit) result" where
  "validate_extension_types [] allowlist = Inr ()"
| "validate_extension_types (ext # exts) allowlist =
     (if \<not> List.member allowlist ext then Inl UnsupportedTokenExtension
      else validate_extension_types exts allowlist)"

definition validate_mint_extension_bytes ::
  "(bytes \<Rightarrow> ExtensionType list option) \<Rightarrow> bytes \<Rightarrow> (BridgeError, unit) result" where
  "validate_mint_extension_bytes unpack data =
     try_bind (ok_or (unpack data) UnreadableTokenState) (\<lambda>extension_types.
     validate_extension_types extension_types SUPPORTED_MINT_EXTENSIONS)"

definition validate_token_account_extension_bytes ::
  "(bytes \<Rightarrow> ExtensionType list option) \<Rightarrow> bytes \<Rightarrow> (BridgeError, unit) result" where
  "validate_token_account_extension_bytes unpack data =
     try_bind (ok_or (unpack data) UnreadableTokenState) (\<lambda>extension_types.
     validate_extension_types extension_types SUPPORTED_TOKEN_ACCOUNT_EXTENSIONS)"

lemma validate_extension_types_iff:
  "validate_extension_types exts allowlist = Inr () \<longleftrightarrow> set exts \<subseteq> set allowlist"
  by (induction exts) auto

lemma validate_mint_ok:
  "validate_mint_extension_bytes unpack data = Inr () \<longleftrightarrow>
     (\<exists>exts. unpack data = Some exts \<and> set exts \<subseteq> set SUPPORTED_MINT_EXTENSIONS)"
  by (auto simp: validate_mint_extension_bytes_def validate_extension_types_iff)

lemma validate_token_account_ok:
  "validate_token_account_extension_bytes unpack data = Inr () \<longleftrightarrow>
     (\<exists>exts. unpack data = Some exts \<and> set exts \<subseteq> set SUPPORTED_TOKEN_ACCOUNT_EXTENSIONS)"
  by (auto simp: validate_token_account_extension_bytes_def validate_extension_types_iff)

lemma allowlists_supported:
  "ext \<in> set SUPPORTED_MINT_EXTENSIONS \<union> set SUPPORTED_TOKEN_ACCOUNT_EXTENSIONS
     \<longleftrightarrow> classify ext = Supported"
  by (cases ext) (auto simp: SUPPORTED_MINT_EXTENSIONS_def SUPPORTED_TOKEN_ACCOUNT_EXTENSIONS_def)

text \<open>
  The extension review is fail-closed and agrees with the written policy: the extensions
  of the two allowlists are exactly those \<open>classify\<close> calls supported, so a mint or token
  account that passes carries no unsafe and no irrelevant extension, and any other extension
  (present or future) makes the check fail with the unsupported-extension error.
\<close>

theorem extension_policy:
  "(validate_mint_extension_bytes unpack data = Inr () \<longleftrightarrow>
      (\<exists>exts. unpack data = Some exts \<and> set exts \<subseteq> {MetadataPointer, TokenMetadata}))
   \<and> (validate_token_account_extension_bytes unpack' data' = Inr () \<longleftrightarrow>
      (\<exists>exts. unpack' data' = Some exts \<and> set exts \<subseteq> {ImmutableOwner}))
   \<and> (classify ext = Supported \<longleftrightarrow> ext \<in> {MetadataPointer, TokenMetadata, ImmutableOwner})"
  using allowlists_supported[of ext]
  by (auto simp: validate_mint_ok validate_token_account_ok SUPPORTED_MINT_EXTENSIONS_def
      SUPPORTED_TOKEN_ACCOUNT_EXTENSIONS_def)

end
