(* ===== verification/Verification.thy ===== *)
theory Verification
  imports Program_State
begin

text \<open>
  The parser of the ed25519-precompile instruction (\<open>verification.rs\<close>) and its off-chain
  counterpart, the builder of that instruction (\<open>service/src/solana/ed25519.rs\<close>). The
  runtime has already checked the signatures when the program runs; the parser establishes
  who signed what. Main results: the count it returns is the number of distinct attestation
  keys with an entry over exactly the expected message, and every instruction the builder
  makes for distinct attestation keys is accepted with its full count.
\<close>

unbundle bit_operations_syntax

section \<open>The on-chain parser\<close>

definition ED25519_HEADER_LEN :: nat where "ED25519_HEADER_LEN = 2"

definition ED25519_ENTRY_LEN :: nat where "ED25519_ENTRY_LEN = 14"

definition SIGNATURE_LEN :: nat where "SIGNATURE_LEN = 64"

definition PUBKEY_LEN :: nat where "PUBKEY_LEN = 32"

definition SELF_REFERENCE :: u16 where "SELF_REFERENCE = 65535"

lemmas ed25519_consts = ED25519_HEADER_LEN_def ED25519_ENTRY_LEN_def SIGNATURE_LEN_def
  PUBKEY_LEN_def SELF_REFERENCE_def

definition u16_at :: "bytes \<Rightarrow> nat \<Rightarrow> (BridgeError, u16) result" where
  "u16_at data offset =
     try_bind (ok_or (slice_get data offset (offset + 2)) MalformedSignatureVerification) (\<lambda>bs.
     Inr (u16_from_le_bytes (bs ! 0) (bs ! 1)))"

definition checked_shl_u16 :: "u16 \<Rightarrow> nat \<Rightarrow> u16 option" where
  "checked_shl_u16 x n = (if n < 16 then Some (push_bit n x) else None)"

text \<open>
  One iteration of the loop up to the signer's index in the key set. The additions are on
  \<open>usize\<close> values read from 16-bit fields, so their overflow branches cannot be taken.
\<close>

definition check_entry :: "bytes \<Rightarrow> bytes \<Rightarrow> pubkey list \<Rightarrow> nat \<Rightarrow> (BridgeError, nat) result" where
  "check_entry data expected_message keys i =
     (let entry_base = ED25519_HEADER_LEN + i * ED25519_ENTRY_LEN in
     try_bind (u16_at data entry_base) (\<lambda>signature_offset.
     try_bind (u16_at data (entry_base + 2)) (\<lambda>signature_ix_index.
     try_bind (u16_at data (entry_base + 4)) (\<lambda>public_key_offset.
     try_bind (u16_at data (entry_base + 6)) (\<lambda>public_key_ix_index.
     try_bind (u16_at data (entry_base + 8)) (\<lambda>message_offset.
     try_bind (u16_at data (entry_base + 10)) (\<lambda>message_size.
     try_bind (u16_at data (entry_base + 12)) (\<lambda>message_ix_index.
     require (signature_ix_index = SELF_REFERENCE \<and> public_key_ix_index = SELF_REFERENCE
              \<and> message_ix_index = SELF_REFERENCE) MalformedSignatureVerification (
     let sig_end = unat signature_offset + SIGNATURE_LEN in
     require (slice_get data (unat signature_offset) sig_end \<noteq> None)
       MalformedSignatureVerification (
     let msg_end = unat message_offset + unat message_size in
     try_bind (ok_or (slice_get data (unat message_offset) msg_end)
       MalformedSignatureVerification) (\<lambda>message.
     require (message = expected_message) SignatureMessageMismatch (
     let pk_end = unat public_key_offset + PUBKEY_LEN in
     try_bind (ok_or (slice_get data (unat public_key_offset) pk_end)
       MalformedSignatureVerification) (\<lambda>pk_bytes.
     let signer = from_bytes pk_bytes in
     ok_or (position signer keys) UnknownAttestationSigner)))))))))))))"

fun count_entries ::
  "bytes \<Rightarrow> bytes \<Rightarrow> pubkey list \<Rightarrow> nat list \<Rightarrow> u16 \<Rightarrow> nat \<Rightarrow> (BridgeError, nat) result" where
  "count_entries data expected_message keys [] seen cnt = Inr cnt"
| "count_entries data expected_message keys (i # is) seen cnt =
     try_bind (check_entry data expected_message keys i) (\<lambda>key_index.
     try_bind (ok_or (checked_shl_u16 1 key_index) MalformedSignatureVerification) (\<lambda>bit.
     require (seen AND bit = 0) DuplicateAttestationSignature (
     count_entries data expected_message keys is (seen OR bit) (cnt + 1))))"

definition count_unique_attestation_signers ::
  "bytes \<Rightarrow> bytes \<Rightarrow> pubkey list \<Rightarrow> (BridgeError, nat) result" where
  "count_unique_attestation_signers data expected_message keys =
     require (length data \<ge> ED25519_HEADER_LEN) MalformedSignatureVerification (
     let num_signatures = unat (data ! 0) in
     require (num_signatures \<ge> 1 \<and> data ! 1 = 0) MalformedSignatureVerification (
     count_entries data expected_message keys [0..<num_signatures] 0 0))"

section \<open>The off-chain builder\<close>

definition u16_to_le_bytes :: "u16 \<Rightarrow> bytes" where
  "u16_to_le_bytes x = le_encode 2 (unat x)"

definition write_at :: "nat \<Rightarrow> bytes \<Rightarrow> bytes \<Rightarrow> bytes" where
  "write_at pos src data = take pos data @ src @ drop (pos + length src) data"

definition write_entry ::
  "nat \<Rightarrow> nat \<Rightarrow> nat \<Rightarrow> bytes \<Rightarrow> nat \<times> pubkey \<times> bytes \<Rightarrow> bytes \<Rightarrow> bytes" where
  "write_entry entries_end keys_end msg_off message = (\<lambda>(i, pubkey, signature) data.
     let base = 2 + i * 14;
         pk_off = word_of_nat (entries_end + i * 32);
         sig_off = word_of_nat (keys_end + i * 64);
         data = write_at base (u16_to_le_bytes sig_off) data;
         data = write_at (base + 2) (u16_to_le_bytes SELF_REFERENCE) data;
         data = write_at (base + 4) (u16_to_le_bytes pk_off) data;
         data = write_at (base + 6) (u16_to_le_bytes SELF_REFERENCE) data;
         data = write_at (base + 8) (u16_to_le_bytes (word_of_nat msg_off)) data;
         data = write_at (base + 10) (u16_to_le_bytes (word_of_nat (length message))) data;
         data = write_at (base + 12) (u16_to_le_bytes SELF_REFERENCE) data;
         pk_pos = entries_end + i * 32;
         data = write_at pk_pos (to_bytes pubkey) data;
         sig_pos = keys_end + i * 64;
         data = write_at sig_pos signature data
     in data)"

definition build_attestation_proof :: "(pubkey \<times> bytes) list \<Rightarrow> bytes \<Rightarrow> bytes" where
  "build_attestation_proof signatures message =
     (let n = length signatures;
          entries_end = 2 + n * 14;
          keys_end = entries_end + n * 32;
          sigs_end = keys_end + n * 64;
          msg_off = sigs_end;
          data = replicate (msg_off + length message) 0;
          data = data[0 := word_of_nat n];
          data = data[1 := 0];
          data = fold (write_entry entries_end keys_end msg_off message)
                   (enumerate 0 signatures) data
      in write_at msg_off message data)"

section \<open>Soundness of the parser\<close>

text \<open>The signer the parser reads at entry \<open>i\<close>, and what it requires of that entry.\<close>

definition entry_u16 :: "bytes \<Rightarrow> nat \<Rightarrow> nat \<Rightarrow> nat" where
  "entry_u16 data i k = le_decode (take 2 (drop (2 + i * 14 + k) data))"

definition entry_signer :: "bytes \<Rightarrow> nat \<Rightarrow> pubkey" where
  "entry_signer data i = from_bytes (take 32 (drop (entry_u16 data i 4) data))"

definition entry_signature :: "bytes \<Rightarrow> nat \<Rightarrow> bytes" where
  "entry_signature data i = take 64 (drop (entry_u16 data i 0) data)"

definition entry_message :: "bytes \<Rightarrow> nat \<Rightarrow> bytes" where
  "entry_message data i = take (entry_u16 data i 10) (drop (entry_u16 data i 8) data)"

definition entry_self_contained :: "bytes \<Rightarrow> nat \<Rightarrow> bool" where
  "entry_self_contained data i \<longleftrightarrow>
     2 + i * 14 + 14 \<le> length data
     \<and> entry_u16 data i 2 = 65535 \<and> entry_u16 data i 6 = 65535 \<and> entry_u16 data i 12 = 65535
     \<and> entry_u16 data i 0 + 64 \<le> length data
     \<and> entry_u16 data i 8 + entry_u16 data i 10 \<le> length data
     \<and> entry_u16 data i 4 + 32 \<le> length data"

lemma le_decode_two: "le_decode (take 2 xs) < 2 ^ 16"
  using le_decode_less[of "take 2 xs"] power_increasing[of "length (take 2 xs)" 2 "256::nat"]
  by simp

lemma take2_nth: "2 \<le> length xs \<Longrightarrow> take 2 xs = [xs ! 0, xs ! 1]"
  by (cases xs; cases "tl xs") auto

definition u16_value :: "bytes \<Rightarrow> nat \<Rightarrow> u16" where
  "u16_value data k = word_of_nat (le_decode (take 2 (drop k data)))"

lemma unat_u16_value: "unat (u16_value data k) = le_decode (take 2 (drop k data))"
  using le_decode_two[of "drop k data"] by (simp add: u16_value_def unat_of_nat)

lemma u16_at_eq:
  "u16_at data k = (if k + 2 \<le> length data then Inr (u16_value data k)
     else Inl MalformedSignatureVerification)"
proof -
  have "k + 2 \<le> length data \<Longrightarrow> take 2 (drop k data) = [data ! k, data ! (k + 1)]"
    by (subst take2_nth) auto
  then show ?thesis
    by (simp add: u16_at_def slice_get_def u16_value_def u16_from_le_bytes_def)
qed

lemma check_entry_ok:
  "check_entry data m keys i = Inr k \<longleftrightarrow>
     entry_self_contained data i \<and> entry_message data i = m
     \<and> position (entry_signer data i) keys = Some k"
proof (cases "2 + i * 14 + 14 \<le> length data")
  case True
  define b where "b = 2 + i * 14"
  have sr: "v = SELF_REFERENCE \<longleftrightarrow> unat v = 65535" for v
    by (simp add: SELF_REFERENCE_def word_unat_eq_iff)
  have len: "b + 14 \<le> length data" using True by (simp add: b_def)
  have vals: "entry_u16 data i j = unat (u16_value data (b + j))" for j
    by (simp add: unat_u16_value entry_u16_def b_def)
  have entry: "entry_self_contained data i \<longleftrightarrow>
     b + 14 \<le> length data
     \<and> entry_u16 data i 2 = 65535 \<and> entry_u16 data i 6 = 65535 \<and> entry_u16 data i 12 = 65535
     \<and> entry_u16 data i 0 + 64 \<le> length data
     \<and> entry_u16 data i 8 + entry_u16 data i 10 \<le> length data
     \<and> entry_u16 data i 4 + 32 \<le> length data"
    by (simp add: entry_self_contained_def b_def)
  show ?thesis
    unfolding check_entry_def Let_def sr ED25519_HEADER_LEN_def ED25519_ENTRY_LEN_def b_def[symmetric]
    using len by (auto simp: u16_at_eq entry vals slice_get_eq_Some entry_message_def
        entry_signer_def SIGNATURE_LEN_def PUBKEY_LEN_def)
next
  case False
  then show ?thesis
    by (auto simp: check_entry_def Let_def ED25519_HEADER_LEN_def ED25519_ENTRY_LEN_def u16_at_eq
        entry_self_contained_def)
qed

text \<open>What the parser requires of one entry.\<close>

definition good_entry :: "bytes \<Rightarrow> bytes \<Rightarrow> pubkey list \<Rightarrow> nat \<Rightarrow> bool" where
  "good_entry data m keys i \<longleftrightarrow>
     entry_self_contained data i \<and> entry_message data i = m \<and> entry_signer data i \<in> set keys"

lemma position_member: "x \<in> set xs \<Longrightarrow> \<exists>i. position x xs = Some i"
  using position_eq_None[of x xs] by auto

lemma position_inj: "position x xs = Some i \<Longrightarrow> position y xs = Some i \<Longrightarrow> x = y"
  using position_eq_Some by metis

lemma bit_test: "(seen AND 2 ^ n = 0) \<longleftrightarrow> \<not> bit seen n" for seen :: u16
  by (rule and_exp_eq_0_iff_not_bit)

lemma bit_set: "m < 16 \<Longrightarrow> n < 16 \<Longrightarrow> bit (seen OR 2 ^ n) m \<longleftrightarrow> bit seen m \<or> m = n"
  for seen :: u16
  by (auto simp: bit_simps)

lemma count_entries_iff:
  assumes "length keys \<le> 16"
  shows "count_entries data m keys is seen cnt = Inr n \<longleftrightarrow>
    n = cnt + length is
    \<and> (\<forall>i \<in> set is. good_entry data m keys i
         \<and> (\<forall>k. position (entry_signer data i) keys = Some k \<longrightarrow> \<not> bit seen k))
    \<and> distinct (map (entry_signer data) is)"
proof (induction "is" arbitrary: seen cnt)
  case (Cons i "is")
  show ?case
  proof (cases "good_entry data m keys i")
    case False
    then have "check_entry data m keys i \<noteq> Inr k" for k
      using position_eq_None[of "entry_signer data i" keys]
      by (auto simp: check_entry_ok good_entry_def)
    with False show ?thesis by auto
  next
    case True
    then obtain k where k: "position (entry_signer data i) keys = Some k"
      using position_member by (metis good_entry_def)
    then have "k < 16" using position_eq_Some assms by fastforce
    have c: "check_entry data m keys i = Inr k"
      using True k by (simp add: check_entry_ok good_entry_def)
    have later: "(good_entry data m keys j
        \<and> (\<forall>l. position (entry_signer data j) keys = Some l \<longrightarrow> \<not> bit (seen OR 2 ^ k) l))
      \<longleftrightarrow> (good_entry data m keys j
        \<and> (\<forall>l. position (entry_signer data j) keys = Some l \<longrightarrow> \<not> bit seen l)
        \<and> entry_signer data i \<noteq> entry_signer data j)" for j
    proof (cases "position (entry_signer data j) keys")
      case None
      then show ?thesis by (simp add: position_eq_None good_entry_def)
    next
      case (Some l)
      then have "l < 16" using position_eq_Some assms by fastforce
      moreover have "l = k \<longleftrightarrow> entry_signer data j = entry_signer data i"
        using Some k position_inj by fastforce
      ultimately show ?thesis using bit_set[OF _ \<open>k < 16\<close>] Some by auto
    qed
    have "count_entries data m keys (i # is) seen cnt = Inr n \<longleftrightarrow>
      \<not> bit seen k \<and> count_entries data m keys is (seen OR 2 ^ k) (cnt + 1) = Inr n"
      using \<open>k < 16\<close> by (simp add: c checked_shl_u16_def bit_test)
    then show ?thesis
      unfolding Cons.IH later using True k by (auto simp del: count_entries.simps)
  qed
qed auto

lemma count_signers_iff:
  assumes "length keys \<le> 16"
  shows "count_unique_attestation_signers data m keys = Inr n \<longleftrightarrow>
    2 \<le> length data \<and> data ! 1 = 0 \<and> n = unat (data ! 0) \<and> 1 \<le> n
    \<and> (\<forall>i < n. good_entry data m keys i) \<and> distinct (map (entry_signer data) [0..<n])"
  unfolding count_unique_attestation_signers_def
  by (auto simp: count_entries_iff[OF assms] ED25519_HEADER_LEN_def Let_def)

section \<open>Completeness: the builder's instructions are accepted\<close>

definition byte_slice :: "bytes \<Rightarrow> nat \<Rightarrow> nat \<Rightarrow> bytes" where
  "byte_slice data off len = take len (drop off data)"

lemma length_write_at: "pos + length src \<le> length d \<Longrightarrow> length (write_at pos src d) = length d"
  by (simp add: write_at_def)

lemma slice_write_same:
  "pos + length src \<le> length d \<Longrightarrow> byte_slice (write_at pos src d) pos (length src) = src"
  by (simp add: byte_slice_def write_at_def)

lemma slice_write_other:
  assumes "pos + length src \<le> length d" "off + len \<le> pos \<or> pos + length src \<le> off"
  shows "byte_slice (write_at pos src d) off len = byte_slice d off len"
  using assms by (auto simp: byte_slice_def write_at_def drop_append intro!: nth_equalityI simp: nth_append)

lemma write_at_adjacent:
  assumes "pos + length a + length b \<le> length d" "q = pos + length a"
  shows "write_at q b (write_at pos a d) = write_at pos (a @ b) d"
  using assms by (simp add: write_at_def ac_simps)

definition entry_bytes :: "nat \<Rightarrow> nat \<Rightarrow> nat \<Rightarrow> nat \<Rightarrow> nat \<Rightarrow> bytes" where
  "entry_bytes entries_end keys_end msg_off msg_len i =
     u16_to_le_bytes (word_of_nat (keys_end + i * 64)) @ u16_to_le_bytes SELF_REFERENCE
     @ u16_to_le_bytes (word_of_nat (entries_end + i * 32)) @ u16_to_le_bytes SELF_REFERENCE
     @ u16_to_le_bytes (word_of_nat msg_off) @ u16_to_le_bytes (word_of_nat msg_len)
     @ u16_to_le_bytes SELF_REFERENCE"

lemma length_u16_le [simp]: "length (u16_to_le_bytes x) = 2"
  by (simp add: u16_to_le_bytes_def)

lemma length_entry_bytes [simp]: "length (entry_bytes a b c d i) = 14"
  by (simp add: entry_bytes_def)

lemma write_entry_eq:
  assumes "2 + i * 14 + 14 \<le> length d"
  shows "write_entry ee ke mo m (i, pk, sig) d =
    write_at (ke + i * 64) sig (write_at (ee + i * 32) (to_bytes pk)
      (write_at (2 + i * 14) (entry_bytes ee ke mo (length m) i) d))"
  using assms by (simp add: write_entry_def Let_def write_at_adjacent entry_bytes_def)

text \<open>A loop whose steps each establish their own fact and keep each other's.\<close>

lemma fold_establishes:
  assumes "I d" and "distinct xs"
    and "\<And>x d. x \<in> set xs \<Longrightarrow> I d \<Longrightarrow> I (f x d) \<and> Q x (f x d)"
    and "\<And>x y d. x \<in> set xs \<Longrightarrow> y \<in> set xs \<Longrightarrow> x \<noteq> y \<Longrightarrow> I d \<Longrightarrow> Q x d \<Longrightarrow> Q x (f y d)"
  shows "I (fold f xs d) \<and> (\<forall>x \<in> set xs. Q x (fold f xs d))"
  using assms
proof (induction xs rule: rev_induct)
  case (snoc x xs)
  then have "I (fold f xs d) \<and> (\<forall>x \<in> set xs. Q x (fold f xs d))" by simp
  with snoc.prems(2-4) show ?case by auto (metis in_set_conv_decomp)+
qed simp

lemma le_decode_u16: "le_decode (u16_to_le_bytes x) = unat x"
  using unat_lt2p[of x] by (simp add: u16_to_le_bytes_def le_decode_encode)

lemma entry_u16_slice:
  "k \<le> 12 \<Longrightarrow> entry_u16 data i k = le_decode (take 2 (drop k (byte_slice data (2 + i * 14) 14)))"
  by (simp add: entry_u16_def byte_slice_def take_drop min_def add.commute)

definition entry_written ::
  "nat \<Rightarrow> nat \<Rightarrow> nat \<Rightarrow> nat \<Rightarrow> nat \<times> pubkey \<times> bytes \<Rightarrow> bytes \<Rightarrow> bool" where
  "entry_written ee ke mo ml = (\<lambda>(i, pk, sig) d.
     byte_slice d (2 + i * 14) 14 = entry_bytes ee ke mo ml i
     \<and> byte_slice d (ee + i * 32) 32 = to_bytes pk \<and> byte_slice d (ke + i * 64) 64 = sig)"

lemma entry_written_u16:
  assumes "entry_written ee ke mo ml (i, pk, sig) d"
    and "ke + i * 64 < 2 ^ 16" "ee + i * 32 < 2 ^ 16" "mo < 2 ^ 16" "ml < 2 ^ 16"
  shows "entry_u16 d i 0 = ke + i * 64" "entry_u16 d i 2 = 65535" "entry_u16 d i 4 = ee + i * 32"
    "entry_u16 d i 6 = 65535" "entry_u16 d i 8 = mo" "entry_u16 d i 10 = ml"
    "entry_u16 d i 12 = 65535"
  using assms
  by (simp_all add: entry_u16_slice entry_written_def entry_bytes_def le_decode_u16 unat_of_nat
      SELF_REFERENCE_def del: of_nat_add of_nat_mult)

lemma entry_written_good:
  assumes w: "entry_written ee ke mo (length m) (i, pk, sig) d"
    and b: "ke + i * 64 + 64 \<le> mo" "ee + i * 32 + 32 \<le> mo" "2 + i * 14 + 14 \<le> mo"
    and l: "length d = mo + length m" "mo < 2 ^ 16" "length m < 2 ^ 16"
    and m: "byte_slice d mo (length m) = m" and k: "pk \<in> set keys"
  shows "good_entry d m keys i \<and> entry_signer d i = pk"
proof -
  note vals = entry_written_u16[OF w]
  have pk: "take 32 (drop (ee + i * 32) d) = to_bytes pk"
    using w by (simp add: entry_written_def byte_slice_def)
  show ?thesis
    using b l m k pk
    by (simp add: good_entry_def entry_self_contained_def entry_message_def entry_signer_def vals
        byte_slice_def)
qed

lemma enumerate_facts:
  "distinct (enumerate 0 xs)"
  "x \<in> set (enumerate 0 xs) \<longleftrightarrow> fst x < length xs \<and> snd x = xs ! fst x"
  using distinct_enumerate[of 0 xs] by (auto simp: in_set_enumerate_eq)

lemma write_entry_step:
  assumes "ee = 2 + n * 14" "ke = ee + n * 32" "mo = ke + n * 64" "i < n"
    and "length d = mo + length m" "length sig = 64"
  shows "length (write_entry ee ke mo m (i, pk, sig) d) = mo + length m"
    and "byte_slice (write_entry ee ke mo m (i, pk, sig) d) 0 2 = byte_slice d 0 2"
    and "entry_written ee ke mo (length m) (i, pk, sig) (write_entry ee ke mo m (i, pk, sig) d)"
proof -
  have r: "2 + i * 14 + 14 \<le> ee" "ee + i * 32 + 32 \<le> ke" "ke + i * 64 + 64 \<le> mo"
    using assms by simp_all
  have w: "write_entry ee ke mo m (i, pk, sig) d =
    write_at (ke + i * 64) sig (write_at (ee + i * 32) (to_bytes pk)
      (write_at (2 + i * 14) (entry_bytes ee ke mo (length m) i) d))"
    using assms r by (intro write_entry_eq) simp
  show "length (write_entry ee ke mo m (i, pk, sig) d) = mo + length m"
    using assms(5,6) r unfolding w by (simp add: length_write_at)
  show "byte_slice (write_entry ee ke mo m (i, pk, sig) d) 0 2 = byte_slice d 0 2"
    using assms(5,6) r unfolding w by (simp add: slice_write_other length_write_at)
  have "byte_slice (write_at p s d') p 64 = s" if "length s = 64" "p + 64 \<le> length d'" for p s d'
    using slice_write_same[of p s d'] that by simp
  moreover have "byte_slice (write_at p (to_bytes k) d') p 32 = to_bytes k" if "p + 32 \<le> length d'"
    for p k d' using slice_write_same[of p "to_bytes k" d'] that by simp
  moreover have "byte_slice (write_at p (entry_bytes a b c e j) d') p 14 = entry_bytes a b c e j"
    if "p + 14 \<le> length d'" for p a b c e j d'
    using slice_write_same[of p "entry_bytes a b c e j" d'] that by simp
  ultimately show "entry_written ee ke mo (length m) (i, pk, sig)
      (write_entry ee ke mo m (i, pk, sig) d)"
    using assms(5,6) r unfolding w entry_written_def
    by (simp add: slice_write_other length_write_at)
qed

lemma write_entry_keeps:
  assumes "ee = 2 + n * 14" "ke = ee + n * 32" "mo = ke + n * 64" "i < n" "j < n" "i \<noteq> j"
    and "length d = mo + length m" "length sig = 64"
    and q: "entry_written ee ke mo (length m) (j, pk', sig') d"
  shows "entry_written ee ke mo (length m) (j, pk', sig') (write_entry ee ke mo m (i, pk, sig) d)"
proof -
  have r: "2 + i * 14 + 14 \<le> ee" "ee + i * 32 + 32 \<le> ke" "ke + i * 64 + 64 \<le> mo"
    "2 + j * 14 + 14 \<le> ee" "ee + j * 32 + 32 \<le> ke" "ke + j * 64 + 64 \<le> mo"
    using assms by simp_all
  have w: "write_entry ee ke mo m (i, pk, sig) d =
    write_at (ke + i * 64) sig (write_at (ee + i * 32) (to_bytes pk)
      (write_at (2 + i * 14) (entry_bytes ee ke mo (length m) i) d))"
    using assms r by (intro write_entry_eq) simp
  have "i * 14 + 14 \<le> j * 14 \<or> j * 14 + 14 \<le> i * 14" "i * 32 + 32 \<le> j * 32 \<or> j * 32 + 32 \<le> i * 32"
    "i * 64 + 64 \<le> j * 64 \<or> j * 64 + 64 \<le> i * 64" using \<open>i \<noteq> j\<close> by auto
  then show ?thesis
    using q r assms(7,8) unfolding w entry_written_def
    by (auto simp: slice_write_other length_write_at)
qed

lemma build_proof_facts:
  fixes signatures :: "(pubkey \<times> bytes) list" and m :: bytes
  defines "n \<equiv> length signatures"
  defines "ee \<equiv> 2 + n * 14"
  defines "ke \<equiv> ee + n * 32"
  defines "mo \<equiv> ke + n * 64"
  assumes sigs: "\<forall>s \<in> set signatures. length (snd s) = 64"
  shows "length (build_attestation_proof signatures m) = mo + length m
    \<and> byte_slice (build_attestation_proof signatures m) 0 2 = [word_of_nat n, 0]
    \<and> byte_slice (build_attestation_proof signatures m) mo (length m) = m
    \<and> (\<forall>i < n. entry_written ee ke mo (length m) (i, signatures ! i)
          (build_attestation_proof signatures m))"
proof -
  define d0 where "d0 = (replicate (mo + length m) 0)[0 := word_of_nat n, 1 := (0::u8)]"
  define I where "I d \<longleftrightarrow> length d = mo + length m \<and> byte_slice d 0 2 = [word_of_nat n, 0]" for d :: bytes
  define d1 where "d1 = fold (write_entry ee ke mo m) (enumerate 0 signatures) d0"
  have two: "2 \<le> mo" by (simp add: mo_def ke_def ee_def)
  have ends: "ee = 2 + n * 14" "ke = ee + n * 32" "mo = ke + n * 64"
    by (simp_all add: mo_def ke_def ee_def)
  have mem: "i < n \<and> length sig = 64" if "(i, pk, sig) \<in> set (enumerate 0 signatures)" for i pk sig
  proof -
    have "i < length signatures" and e: "signatures ! i = (pk, sig)"
      using that by (simp_all add: enumerate_facts)
    then have "(pk, sig) \<in> set signatures" using nth_mem by fastforce
    with sigs \<open>i < length signatures\<close> show ?thesis by (auto simp: n_def)
  qed
  have "I d0"
    using two by (cases "mo + length m"; cases "mo + length m - 1")
      (auto simp: d0_def I_def byte_slice_def)
  then have "I d1 \<and> (\<forall>x \<in> set (enumerate 0 signatures). entry_written ee ke mo (length m) x d1)"
    unfolding d1_def
  proof (rule fold_establishes)
    fix x d assume x: "x \<in> set (enumerate 0 signatures)" and "I d"
    obtain i pk sig where e: "x = (i, pk, sig)" by (rule prod_cases3)
    show "I (write_entry ee ke mo m x d) \<and>
        entry_written ee ke mo (length m) x (write_entry ee ke mo m x d)"
      using write_entry_step[OF ends] mem[of i pk sig] x \<open>I d\<close> unfolding e I_def by simp
  next
    fix x y d assume x: "x \<in> set (enumerate 0 signatures)" and y: "y \<in> set (enumerate 0 signatures)"
      and "x \<noteq> y" "I d" and q: "entry_written ee ke mo (length m) x d"
    obtain j pk' sig' where ex: "x = (j, pk', sig')" by (rule prod_cases3)
    obtain i pk sig where ey: "y = (i, pk, sig)" by (rule prod_cases3)
    have "i \<noteq> j" using x y \<open>x \<noteq> y\<close> by (auto simp: ex ey enumerate_facts)
    then show "entry_written ee ke mo (length m) x (write_entry ee ke mo m y d)"
      using write_entry_keeps[OF ends, of i j d m sig pk' sig' pk] mem[of i pk sig]
        mem[of j pk' sig'] x y q \<open>I d\<close> unfolding ex ey I_def by simp
  qed (rule enumerate_facts)
  then have d1: "length d1 = mo + length m" "byte_slice d1 0 2 = [word_of_nat n, 0]"
    and w: "\<And>x. x \<in> set (enumerate 0 signatures) \<Longrightarrow> entry_written ee ke mo (length m) x d1"
    by (simp_all add: I_def)
  have "entry_written ee ke mo (length m) (i, signatures ! i) (write_at mo m d1)" if "i < n" for i
  proof -
    have "i * 14 + 14 \<le> n * 14" "i * 32 + 32 \<le> n * 32" "i * 64 + 64 \<le> n * 64" using that by simp_all
    moreover have "entry_written ee ke mo (length m) (i, signatures ! i) d1"
      using that by (intro w) (simp add: enumerate_facts n_def)
    ultimately show ?thesis
      using d1(1) ends unfolding entry_written_def
      by (cases "signatures ! i") (simp add: slice_write_other)
  qed
  moreover have "build_attestation_proof signatures m = write_at mo m d1"
    by (simp add: build_attestation_proof_def Let_def d1_def d0_def n_def ee_def ke_def mo_def)
  ultimately show ?thesis
    using two d1 by (simp add: slice_write_other slice_write_same length_write_at)
qed

lemma byte_slice_two: "byte_slice d 0 2 = [a, b] \<longleftrightarrow> 2 \<le> length d \<and> d ! 0 = a \<and> d ! 1 = b"
  by (cases d; cases "tl d") (auto simp: byte_slice_def)

section \<open>Properties\<close>

text \<open>
  The precompile has verified every self-contained entry of the instruction data: the
  documented behaviour of the ed25519 program, with \<open>verify\<close> the signature scheme.
\<close>

definition precompile_accepts :: "(pubkey \<Rightarrow> bytes \<Rightarrow> bytes \<Rightarrow> bool) \<Rightarrow> bytes \<Rightarrow> bool" where
  "precompile_accepts verify data \<longleftrightarrow>
     (\<forall>i < unat (data ! 0). entry_self_contained data i \<longrightarrow>
        verify (entry_signer data i) (entry_message data i) (entry_signature data i))"

text \<open>\<open>n\<close> distinct keys of the set have a valid signature over \<open>m\<close> in the instruction data.\<close>

definition signed_by_keys ::
  "(pubkey \<Rightarrow> bytes \<Rightarrow> bytes \<Rightarrow> bool) \<Rightarrow> bytes \<Rightarrow> bytes \<Rightarrow> pubkey list \<Rightarrow> nat \<Rightarrow> bool" where
  "signed_by_keys verify data m keys n \<longleftrightarrow>
     (\<exists>S \<subseteq> set keys. card S = n
        \<and> (\<forall>k \<in> S. \<exists>i < unat (data ! 0). entry_signer data i = k
              \<and> verify k m (entry_signature data i)))"

lemma count_signers_signed:
  assumes "length keys \<le> 16" "count_unique_attestation_signers data m keys = Inr n"
    and "precompile_accepts verify data"
  shows "signed_by_keys verify data m keys n \<and> 1 \<le> n \<and> n \<le> length keys"
proof -
  note facts = assms(2)[unfolded count_signers_iff[OF assms(1)]]
  let ?S = "entry_signer data ` {..<n}"
  have inj: "inj_on (entry_signer data) {..<n}"
    using facts by (auto simp: distinct_map atLeast0LessThan)
  have sub: "?S \<subseteq> set keys" using facts by (auto simp: good_entry_def)
  have "n \<le> card (set keys)" using card_mono[OF _ sub] card_image[OF inj] by simp
  moreover have "\<forall>k \<in> ?S. \<exists>i < unat (data ! 0). entry_signer data i = k
      \<and> verify k m (entry_signature data i)"
    using facts assms(3) by (auto simp: precompile_accepts_def good_entry_def)
  ultimately show ?thesis
    using sub card_image[OF inj] facts card_length[of keys]
    unfolding signed_by_keys_def by (intro conjI exI[of _ ?S]) auto
qed

lemma built_proof_accepted:
  assumes "length keys \<le> 16" "signatures \<noteq> []" "distinct (map fst signatures)"
    and "set (map fst signatures) \<subseteq> set keys"
    and "\<forall>s \<in> set signatures. length (snd s) = 64" "length m < 2 ^ 16"
  shows "count_unique_attestation_signers (build_attestation_proof signatures m) m keys
    = Inr (length signatures)"
proof -
  let ?d = "build_attestation_proof signatures m"
  let ?n = "length signatures"
  have "?n \<le> length keys"
    using card_mono[OF _ assms(4)] distinct_card[OF assms(3)] card_length[of keys] by simp
  then have n16: "?n \<le> 16" using assms(1) by simp
  note f = build_proof_facts[OF assms(5), of m]
  have good: "good_entry ?d m keys i \<and> entry_signer ?d i = fst (signatures ! i)" if "i < ?n" for i
  proof -
    obtain pk sig where ps: "signatures ! i = (pk, sig)" by (cases "signatures ! i")
    then have "pk \<in> set keys" using assms(4) nth_mem[OF that] by force
    then show ?thesis using f that n16 assms(6) ps
      by (auto intro!: entry_written_good[where ee = "2 + ?n * 14" and ke = "2 + ?n * 14 + ?n * 32"
            and mo = "2 + ?n * 14 + ?n * 32 + ?n * 64" and sig = sig, THEN conjunct1]
          entry_written_good[where ee = "2 + ?n * 14" and ke = "2 + ?n * 14 + ?n * 32"
            and mo = "2 + ?n * 14 + ?n * 32 + ?n * 64" and sig = sig, THEN conjunct2])
  qed
  have "map (entry_signer ?d) [0..<?n] = map fst signatures"
    using good by (auto intro!: nth_equalityI)
  moreover have "unat (word_of_nat ?n :: u8) = ?n" using n16 by (simp add: unat_of_nat)
  ultimately show ?thesis
    unfolding count_signers_iff[OF assms(1)]
    using f good assms(2,3) n16 by (auto simp: byte_slice_two Suc_le_eq)
qed

text \<open>
  C19. What a verified proof proves: the parser accepts the data of an ed25519 instruction
  with count \<open>n\<close> exactly when its header announces \<open>n \<ge> 1\<close> entries, every entry takes its
  signature, key and message from this instruction and lies inside the data, every entry's
  message is the expected one, byte for byte, every signer is an attestation key, and the
  signers are pairwise distinct.
\<close>

theorem attestation_count_exact:
  assumes "length keys \<le> 16"
  shows "count_unique_attestation_signers data m keys = Inr n \<longleftrightarrow>
    2 \<le> length data \<and> data ! 1 = 0 \<and> n = unat (data ! 0) \<and> 1 \<le> n
    \<and> (\<forall>i < n. entry_self_contained data i \<and> entry_message data i = m
          \<and> entry_signer data i \<in> set keys)
    \<and> distinct (map (entry_signer data) [0..<n])"
  using count_signers_iff[OF assms, of data m n] by (simp only: good_entry_def)

theorem attestation_count_exact_witness:
  "let data = build_attestation_proof [(11, replicate 64 1), (13, replicate 64 2)] [1, 2, 3];
       keys = [11, 12, 13]
   in count_unique_attestation_signers data [1, 2, 3] keys = Inr 2
      \<and> (count_unique_attestation_signers data [1, 2, 3] keys = Inr 2 \<longleftrightarrow>
        2 \<le> length data \<and> data ! 1 = 0 \<and> 2 = unat (data ! 0) \<and> 1 \<le> (2 :: nat)
        \<and> (\<forall>i < 2. entry_self_contained data i \<and> entry_message data i = [1, 2, 3]
              \<and> entry_signer data i \<in> set keys)
        \<and> distinct (map (entry_signer data) [0..<2]))"
proof -
  have "count_unique_attestation_signers
      (build_attestation_proof [(11, replicate 64 1), (13, replicate 64 2)] [1, 2, 3]) [1, 2, 3]
      [11, 12, 13] = Inr (length [(11 :: pubkey, replicate 64 (1 :: u8)), (13, replicate 64 2)])"
    by (rule built_proof_accepted) (simp_all add: MAX_ATTESTATION_KEYS_def SIGNATURE_LEN_def)
  then have "count_unique_attestation_signers
      (build_attestation_proof [(11, replicate 64 1), (13, replicate 64 2)] [1, 2, 3]) [1, 2, 3]
      [11, 12, 13] = Inr 2" by (simp add: numeral_2_eq_2)
  then show ?thesis
    unfolding Let_def by (intro conjI attestation_count_exact) simp_all
qed

text \<open>
  The off-chain signer and the on-chain verifier agree: an instruction built from
  signatures of distinct attestation keys over a message is accepted for that message with
  the full count of its signatures.
\<close>

theorem attestation_proof_roundtrip:
  assumes "length keys \<le> MAX_ATTESTATION_KEYS" and "signatures \<noteq> []"
    and "distinct (map fst signatures)" and "set (map fst signatures) \<subseteq> set keys"
    and "\<forall>s \<in> set signatures. length (snd s) = SIGNATURE_LEN" and "length m < 2 ^ 16"
  shows "count_unique_attestation_signers (build_attestation_proof signatures m) m keys
    = Inr (length signatures)"
  using assms by (intro built_proof_accepted) (simp_all add: MAX_ATTESTATION_KEYS_def SIGNATURE_LEN_def)

theorem attestation_proof_roundtrip_witness:
  "count_unique_attestation_signers
     (build_attestation_proof [(11, replicate 64 1), (13, replicate 64 2)] [1, 2, 3]) [1, 2, 3]
     [11, 12, 13] = Inr (length [(11 :: pubkey, replicate 64 (1 :: u8)), (13, replicate 64 2)])"
  by (rule attestation_proof_roundtrip) (simp_all add: MAX_ATTESTATION_KEYS_def SIGNATURE_LEN_def)

end
