(* ===== verification/Program_Runtime.thy ===== *)
theory Program_Runtime
  imports Claim_Messages Validation Limits Token_Extensions Verification
begin

text \<open>
  The environment the on-chain handlers run in: the account store, the transaction, and the
  accounts a caller passes, with what the Anchor framework checks of them.

  Everything that is not code of the repository is a field of the record \<open>Runtime\<close>: the
  hash function, the derivation of program and associated-token addresses, the SPL token
  program, the extension parser, the upgradeable loader. Handlers receive it as an
  argument; what the theorems rely on is stated as named predicates over it at the end of
  the theory, and \<open>sample_runtime\<close> is a concrete instance that satisfies them.

  Accounts at program-derived addresses are kept in \<open>Chain\<close> under their logical names
  (the seeds are pairwise distinct, see \<open>Program_State\<close>); a transaction that passes some
  other account at such a position fails in the framework and is not represented. Rent and
  lamport balances are not modelled. When several constraints of an account struct are
  violated, the model reports the first one in the order of the struct's fields.
\<close>

declare pda_seeds.simps [simp del]

section \<open>Parameters\<close>

record Mint =
  mt_program :: pubkey
  mt_decimals :: u8
  mt_data :: bytes

record TokenAccount =
  ta_program :: pubkey
  ta_mint :: pubkey
  ta_owner :: pubkey
  ta_amount :: u64
  ta_data :: bytes

type_synonym mints = "pubkey \<Rightarrow> Mint option"
type_synonym token_accounts = "pubkey \<Rightarrow> TokenAccount option"

record ProgramData =
  pd_upgrade_authority_address :: "pubkey option"
  pd_image :: bytes

record Runtime =
  rt_hash :: "bytes \<Rightarrow> bytes32"
  rt_find_program_address :: "bytes list \<Rightarrow> pubkey \<times> u8"
  rt_create_program_address :: "bytes list \<Rightarrow> u8 \<Rightarrow> pubkey option"
  rt_associated_token_address :: "pubkey \<Rightarrow> pubkey \<Rightarrow> pubkey \<Rightarrow> pubkey"
  rt_is_token_program :: "pubkey \<Rightarrow> bool"
  rt_create_token_account :: "mints \<Rightarrow> pubkey \<Rightarrow> pubkey \<Rightarrow> pubkey \<Rightarrow> TokenAccount option"
  rt_transfer_checked ::
    "pubkey \<Rightarrow> mints \<Rightarrow> token_accounts \<Rightarrow> pubkey \<Rightarrow> pubkey \<Rightarrow> pubkey \<Rightarrow> pubkey \<Rightarrow> u64 \<Rightarrow> u8
      \<Rightarrow> token_accounts option"
  rt_mint_extensions :: "bytes \<Rightarrow> ExtensionType list option"
  rt_account_extensions :: "bytes \<Rightarrow> ExtensionType list option"
  rt_ed25519_program :: pubkey
  rt_programdata_address :: pubkey
  rt_set_upgrade_authority_checked :: "ProgramData \<Rightarrow> pubkey \<Rightarrow> pubkey \<Rightarrow> ProgramData option"
  rt_upgrade :: "ProgramData \<Rightarrow> pubkey \<Rightarrow> pubkey \<Rightarrow> ProgramData option"

definition crate_ID :: pubkey where "crate_ID = from_bytes PROGRAM_ID_BYTES"

section \<open>State, transaction and accounts passed\<close>

record Chain =
  st_config :: "BridgeConfig option"
  st_key_set :: "AttestationKeySet option"
  st_windows :: "Direction \<Rightarrow> RollingVolumeWindow option"
  st_claims :: "bytes32 \<times> u32 \<Rightarrow> DepositClaim option"
  st_obligations :: "u64 \<Rightarrow> WithdrawalObligation option"
  st_withdrawals :: "u64 \<Rightarrow> RebalanceWithdrawal option"
  st_policy :: "RebalancePolicy option"
  st_pending_policy :: "PendingRebalancePolicy option"
  st_pending_action :: "PendingGovernanceAction option"
  st_pending_upgrade :: "PendingProgramUpgrade option"
  st_mints :: mints
  st_token_accounts :: token_accounts
  st_program_data :: ProgramData

text \<open>The clock, the signers, and the instruction right before this one, if there is one.\<close>

record Tx =
  tx_signers :: "pubkey list"
  tx_unix_timestamp :: i64
  tx_slot :: u64
  tx_previous_instruction :: "(pubkey \<times> bytes) option"

text \<open>
  The accounts a caller chooses: the signing account of the struct (\<open>authority\<close>, \<open>admin\<close>,
  \<open>submitter\<close>, \<open>user\<close>, \<open>proposer\<close>, \<dots>), the mint, the token program, the reserve's token
  account, the other token account (\<open>recipient_token_account\<close>, \<open>user_token_account\<close>,
  \<open>destination_token_account\<close>), its owner (\<open>recipient\<close>, \<open>requester\<close>), and the accounts of an
  upgrade.
\<close>

record Ctx =
  cx_signer :: pubkey
  cx_reserve_mint :: pubkey
  cx_token_program :: pubkey
  cx_reserve_token_account :: pubkey
  cx_token_account :: pubkey
  cx_wallet :: pubkey
  cx_program_data :: pubkey
  cx_buffer :: pubkey

type_synonym 'a handler_result = "(ProgramError, 'a) result"
type_synonym outcome = "(Chain \<times> BridgeEvent) handler_result"

section \<open>Account constraints\<close>

definition find_bump :: "Runtime \<Rightarrow> PdaName \<Rightarrow> u8" where
  "find_bump rt name = snd (rt_find_program_address rt (pda_seeds name))"

definition find_pda :: "Runtime \<Rightarrow> PdaName \<Rightarrow> pubkey" where
  "find_pda rt name = fst (rt_find_program_address rt (pda_seeds name))"

text \<open>\<open>Signer\<close>.\<close>

definition check_signer :: "Tx \<Rightarrow> pubkey \<Rightarrow> unit handler_result" where
  "check_signer tx k = require (List.member (tx_signers tx) k) AccountNotSigner (Inr ())"

text \<open>\<open>Account\<close> with \<open>seeds\<close> and \<open>bump = account.bump\<close>; with \<open>init\<close> and \<open>bump\<close>.\<close>

definition load_pda :: "Runtime \<Rightarrow> PdaName \<Rightarrow> ('a \<Rightarrow> u8) \<Rightarrow> 'a option \<Rightarrow> 'a handler_result" where
  "load_pda rt name bump account =
     try_bind (ok_or account AccountNotInitialized) (\<lambda>a.
     require (rt_create_program_address rt (pda_seeds name) (bump a) = Some (find_pda rt name))
       ConstraintViolated (
     Inr a))"

definition init_pda :: "'a option \<Rightarrow> unit handler_result" where
  "init_pda account = require (account = None) AccountAlreadyInUse (Inr ())"

definition load_config :: "Runtime \<Rightarrow> Chain \<Rightarrow> BridgeConfig handler_result" where
  "load_config rt s = load_pda rt BridgeConfigPda bc_bump (st_config s)"

definition load_key_set :: "Runtime \<Rightarrow> Chain \<Rightarrow> AttestationKeySet handler_result" where
  "load_key_set rt s = load_pda rt AttestationKeySetPda ks_bump (st_key_set s)"

definition load_window :: "Runtime \<Rightarrow> Chain \<Rightarrow> Direction \<Rightarrow> RollingVolumeWindow handler_result" where
  "load_window rt s d = load_pda rt (RollingVolumeWindowPda d) vw_bump (st_windows s d)"

definition load_obligation :: "Runtime \<Rightarrow> Chain \<Rightarrow> u64 \<Rightarrow> WithdrawalObligation handler_result" where
  "load_obligation rt s i = load_pda rt (WithdrawalObligationPda i) wo_bump (st_obligations s i)"

definition load_policy :: "Runtime \<Rightarrow> Chain \<Rightarrow> RebalancePolicy handler_result" where
  "load_policy rt s = load_pda rt RebalancePolicyPda rp_bump (st_policy s)"

text \<open>The data-less reserve authority, \<open>bump = bridge_config.reserve_authority_bump\<close>.\<close>

definition reserve_authority :: "Runtime \<Rightarrow> BridgeConfig \<Rightarrow> pubkey handler_result" where
  "reserve_authority rt config =
     ok_or (rt_create_program_address rt (pda_seeds ReserveAuthorityPda)
       (bc_reserve_authority_bump config)) ConstraintViolated"

text \<open>\<open>reserve_mint\<close> with its \<open>address\<close> constraint; \<open>token_program\<close> with its own.\<close>

definition load_reserve_mint :: "BridgeConfig \<Rightarrow> Ctx \<Rightarrow> Chain \<Rightarrow> Mint handler_result" where
  "load_reserve_mint config cx s =
     try_bind (ok_or (st_mints s (cx_reserve_mint cx)) AccountNotInitialized) (\<lambda>mint.
     require (cx_reserve_mint cx = bc_reserve_token_mint config) (Bridge WrongReserveMint) (
     Inr mint))"

definition check_token_program :: "Runtime \<Rightarrow> BridgeConfig \<Rightarrow> Ctx \<Rightarrow> unit handler_result" where
  "check_token_program rt config cx =
     require (rt_is_token_program rt (cx_token_program cx)) ConstraintViolated (
     require (cx_token_program cx = bc_reserve_token_program config) (Bridge WrongTokenProgram) (
     Inr ()))"

text \<open>\<open>associated_token::mint\<close>, \<open>associated_token::authority\<close>, \<open>associated_token::token_program\<close>.\<close>

definition load_associated_token_account ::
  "Runtime \<Rightarrow> Ctx \<Rightarrow> Chain \<Rightarrow> pubkey \<Rightarrow> pubkey \<Rightarrow> TokenAccount handler_result" where
  "load_associated_token_account rt cx s key authority =
     try_bind (ok_or (st_token_accounts s key) AccountNotInitialized) (\<lambda>a.
     require (ta_program a = cx_token_program cx \<and> ta_owner a = authority
       \<and> key = rt_associated_token_address rt authority (cx_reserve_mint cx) (cx_token_program cx))
       ConstraintViolated (
     Inr a))"

text \<open>\<open>token::mint\<close>, \<open>token::token_program\<close>.\<close>

definition load_token_account :: "Ctx \<Rightarrow> Chain \<Rightarrow> pubkey \<Rightarrow> TokenAccount handler_result" where
  "load_token_account cx s key =
     try_bind (ok_or (st_token_accounts s key) AccountNotInitialized) (\<lambda>a.
     require (ta_mint a = cx_reserve_mint cx \<and> ta_program a = cx_token_program cx)
       ConstraintViolated (
     Inr a))"

section \<open>Calls shared by the handlers\<close>

definition validate_mint_extensions :: "Runtime \<Rightarrow> Mint \<Rightarrow> (BridgeError, unit) result" where
  "validate_mint_extensions rt mint =
     validate_mint_extension_bytes (rt_mint_extensions rt) (mt_data mint)"

definition validate_token_account_extensions ::
  "Runtime \<Rightarrow> TokenAccount \<Rightarrow> (BridgeError, unit) result" where
  "validate_token_account_extensions rt a =
     validate_token_account_extension_bytes (rt_account_extensions rt) (ta_data a)"

text \<open>
  \<open>get_instruction_relative(-1, \<dots>)\<close> with the program-id check, and the count of the signers
  with the threshold check, which every attested handler performs on its own message.
\<close>

definition get_verification_ix :: "Runtime \<Rightarrow> Tx \<Rightarrow> (BridgeError, bytes) result" where
  "get_verification_ix rt tx =
     try_bind (ok_or (tx_previous_instruction tx) MissingSignatureVerification) (\<lambda>(program_id, data).
     require (program_id = rt_ed25519_program rt) MissingSignatureVerification (
     Inr data))"

definition require_signer_threshold ::
  "AttestationKeySet \<Rightarrow> bytes \<Rightarrow> bytes \<Rightarrow> (BridgeError, unit) result" where
  "require_signer_threshold key_set data expected_message =
     try_bind (count_unique_attestation_signers data expected_message (ks_keys key_set))
       (\<lambda>signer_count.
     require (signer_count \<ge> unat (ks_threshold key_set)) InsufficientSignatures (
     Inr ()))"

definition require_threshold_approval ::
  "Runtime \<Rightarrow> Tx \<Rightarrow> AttestationKeySet \<Rightarrow> bytes \<Rightarrow> (BridgeError, unit) result" where
  "require_threshold_approval rt tx key_set expected_message =
     try_bind (get_verification_ix rt tx) (\<lambda>data.
     require_signer_threshold key_set data expected_message)"

text \<open>The \<open>transfer_checked\<close> call into the token program.\<close>

definition transfer_checked ::
  "Runtime \<Rightarrow> Ctx \<Rightarrow> Chain \<Rightarrow> pubkey \<Rightarrow> pubkey \<Rightarrow> pubkey \<Rightarrow> u64 \<Rightarrow> u8 \<Rightarrow> token_accounts handler_result"
  where
  "transfer_checked rt cx s from to authority amount decimals =
     ok_or (rt_transfer_checked rt (cx_token_program cx) (st_mints s) (st_token_accounts s)
       from (cx_reserve_mint cx) to authority amount decimals) CpiFailed"

lemmas constraint_defs [unfold_handler] =
  check_signer_def init_pda_def load_config_def load_key_set_def load_window_def
  load_obligation_def load_policy_def load_pda_def reserve_authority_def load_reserve_mint_def
  check_token_program_def load_associated_token_account_def load_token_account_def
  transfer_checked_def

section \<open>What the theorems rely on\<close>

text \<open>
  Address derivation: the bump \<open>find_program_address\<close> returns recreates the address.
  Precompile: when the previous instruction is an ed25519 verification, the runtime has
  verified its entries before the program runs.
\<close>

definition address_law :: "Runtime \<Rightarrow> bool" where
  "address_law rt \<longleftrightarrow>
     (\<forall>name. rt_create_program_address rt (pda_seeds name) (find_bump rt name)
        = Some (find_pda rt name))"

definition precompile_law :: "(pubkey \<Rightarrow> bytes \<Rightarrow> bytes \<Rightarrow> bool) \<Rightarrow> Runtime \<Rightarrow> Tx \<Rightarrow> bool" where
  "precompile_law verify rt tx \<longleftrightarrow>
     (\<forall>data. tx_previous_instruction tx = Some (rt_ed25519_program rt, data) \<longrightarrow>
        precompile_accepts verify data)"

text \<open>
  The token program, for accounts and mints without unsupported extensions: a successful
  \<open>transfer_checked\<close> moves exactly the amount between the two accounts, within the
  \<open>u64\<close> range, and touches nothing else; a transfer to oneself changes nothing.
\<close>

definition moves_tokens ::
  "token_accounts \<Rightarrow> pubkey \<Rightarrow> pubkey \<Rightarrow> u64 \<Rightarrow> token_accounts \<Rightarrow> bool" where
  "moves_tokens accts from to amount accts' \<longleftrightarrow>
     (\<exists>a b. accts from = Some a \<and> accts to = Some b \<and> unat amount \<le> unat (ta_amount a)
        \<and> (if from = to then accts' = accts
           else unat (ta_amount b) + unat amount < 2 ^ 64
             \<and> accts' = accts(from := Some (a\<lparr>ta_amount := ta_amount a - amount\<rparr>),
                              to := Some (b\<lparr>ta_amount := ta_amount b + amount\<rparr>))))"

definition token_program_law :: "Runtime \<Rightarrow> bool" where
  "token_program_law rt \<longleftrightarrow>
     (\<forall>program mints accts from mint to authority amount decimals accts' m a b.
        rt_transfer_checked rt program mints accts from mint to authority amount decimals
          = Some accts'
        \<longrightarrow> mints mint = Some m \<longrightarrow> validate_mint_extensions rt m = Inr ()
        \<longrightarrow> accts from = Some a \<longrightarrow> validate_token_account_extensions rt a = Inr ()
        \<longrightarrow> accts to = Some b \<longrightarrow> validate_token_account_extensions rt b = Inr ()
        \<longrightarrow> moves_tokens accts from to amount accts')"

definition create_account_law :: "Runtime \<Rightarrow> bool" where
  "create_account_law rt \<longleftrightarrow>
     (\<forall>mints program mint owner a. rt_create_token_account rt mints program mint owner = Some a
        \<longrightarrow> ta_owner a = owner \<and> ta_mint a = mint \<and> ta_program a = program \<and> ta_amount a = 0)"

section \<open>Approval by the attestation keys\<close>

text \<open>
  At least the threshold of distinct keys of the set have a valid signature over \<open>m\<close> in
  the instruction before this one.
\<close>

definition approved ::
  "(pubkey \<Rightarrow> bytes \<Rightarrow> bytes \<Rightarrow> bool) \<Rightarrow> Tx \<Rightarrow> AttestationKeySet \<Rightarrow> bytes \<Rightarrow> bool" where
  "approved verify tx key_set m \<longleftrightarrow>
     (\<exists>program data n. tx_previous_instruction tx = Some (program, data)
        \<and> unat (ks_threshold key_set) \<le> n \<and> signed_by_keys verify data m (ks_keys key_set) n)"

definition valid_keys :: "AttestationKeySet \<Rightarrow> bool" where
  "valid_keys key_set \<longleftrightarrow> valid_key_set (ks_keys key_set) (ks_threshold key_set)"

lemma valid_keys_length: "valid_keys ks \<Longrightarrow> length (ks_keys ks) \<le> 16"
  by (simp add: valid_keys_def valid_key_set_def MAX_ATTESTATION_KEYS_def)

lemma get_verification_ix_ok:
  "get_verification_ix rt tx = Inr data \<longleftrightarrow>
     tx_previous_instruction tx = Some (rt_ed25519_program rt, data)"
  by (auto simp: get_verification_ix_def)

lemma threshold_approved:
  assumes "get_verification_ix rt tx = Inr data" "require_signer_threshold ks data m = Inr ()"
    and "valid_keys ks" "precompile_law verify rt tx"
  shows "approved verify tx ks m"
proof -
  from assms(2) obtain n where n: "count_unique_attestation_signers data m (ks_keys ks) = Inr n"
    "unat (ks_threshold ks) \<le> n" by (auto simp: require_signer_threshold_def)
  have "precompile_accepts verify data"
    using assms(1,4) by (auto simp: precompile_law_def get_verification_ix_ok)
  from count_signers_signed[OF valid_keys_length[OF assms(3)] n(1) this]
  show ?thesis using n(2) assms(1) by (auto simp: approved_def get_verification_ix_ok)
qed

lemma approval_approved:
  "require_threshold_approval rt tx ks m = Inr () \<Longrightarrow> valid_keys ks \<Longrightarrow> precompile_law verify rt tx
    \<Longrightarrow> approved verify tx ks m"
  using threshold_approved by (fastforce simp: require_threshold_approval_def)

text \<open>The approval a builder's proof gets, whatever the state of the chain.\<close>

lemma built_proof_approves:
  assumes "valid_keys ks" "distinct (map fst sigs)" "set (map fst sigs) \<subseteq> set (ks_keys ks)"
    and "\<forall>x \<in> set sigs. length (snd x) = 64" "length m < 2 ^ 16"
    and "unat (ks_threshold ks) \<le> length sigs"
  shows "require_signer_threshold ks (build_attestation_proof sigs m) m = Inr ()"
proof -
  have "sigs \<noteq> []" using assms(1,6) by (auto simp: valid_keys_def valid_key_set_def)
  from built_proof_accepted[OF valid_keys_length[OF assms(1)] this assms(2-5)]
  show ?thesis using assms(6) by (simp add: require_signer_threshold_def)
qed

section \<open>A concrete runtime\<close>

text \<open>
  An instance of the parameters on which the laws hold and the handlers evaluate: the
  reference transfer of the SPL token program without extensions, and simple arithmetic
  functions for hashing and address derivation.
\<close>

definition spl_transfer ::
  "pubkey \<Rightarrow> mints \<Rightarrow> token_accounts \<Rightarrow> pubkey \<Rightarrow> pubkey \<Rightarrow> pubkey \<Rightarrow> pubkey \<Rightarrow> u64 \<Rightarrow> u8
    \<Rightarrow> token_accounts option" where
  "spl_transfer program mints accts from mint to authority amount decimals =
     (case (accts from, accts to, mints mint) of
        (Some a, Some b, Some m) \<Rightarrow>
          if ta_mint a \<noteq> mint \<or> ta_mint b \<noteq> mint \<or> mt_decimals m \<noteq> decimals \<or> ta_owner a \<noteq> authority
             \<or> ta_amount a < amount then None
          else if from = to then Some accts
          else if unat (ta_amount b) + unat amount \<ge> 2 ^ 64 then None
          else Some (accts(from := Some (a\<lparr>ta_amount := ta_amount a - amount\<rparr>),
                           to := Some (b\<lparr>ta_amount := ta_amount b + amount\<rparr>)))
      | _ \<Rightarrow> None)"

definition sample_runtime :: Runtime where
  "sample_runtime =
     \<lparr>rt_hash = (\<lambda>bs. word_of_nat (le_decode bs)),
      rt_find_program_address = (\<lambda>seeds. (word_of_nat (length (concat seeds)), 255)),
      rt_create_program_address = (\<lambda>seeds bump.
        if bump = 255 then Some (word_of_nat (length (concat seeds))) else None),
      rt_associated_token_address = (\<lambda>owner mint program. owner + 1000 * mint + 1000000 * program),
      rt_is_token_program = (\<lambda>program. program = 6),
      rt_create_token_account = (\<lambda>mints program mint owner. map_option (\<lambda>_.
        \<lparr>ta_program = program, ta_mint = mint, ta_owner = owner, ta_amount = 0, ta_data = []\<rparr>)
          (mints mint)),
      rt_transfer_checked = spl_transfer,
      rt_mint_extensions = (\<lambda>_. Some []), rt_account_extensions = (\<lambda>_. Some []),
      rt_ed25519_program = 9, rt_programdata_address = 77,
      rt_set_upgrade_authority_checked = (\<lambda>pd current new.
        if pd_upgrade_authority_address pd = Some current
        then Some (pd\<lparr>pd_upgrade_authority_address := Some new\<rparr>) else None),
      rt_upgrade = (\<lambda>pd buffer authority.
        if pd_upgrade_authority_address pd = Some authority
        then Some (pd\<lparr>pd_image := to_bytes buffer\<rparr>) else None)\<rparr>"

lemma sample_address_law: "address_law sample_runtime"
  by (simp add: address_law_def sample_runtime_def find_bump_def find_pda_def)

lemma sample_pda [simp]:
  "find_pda sample_runtime name = word_of_nat (pda_seed_length name)"
  "find_bump sample_runtime name = 255"
  "rt_create_program_address sample_runtime (pda_seeds name) b =
     (if b = 255 then Some (word_of_nat (pda_seed_length name)) else None)"
  by (simp_all add: find_pda_def find_bump_def sample_runtime_def length_pda_seeds del: length_concat)

lemma sample_params [simp]:
  "rt_associated_token_address sample_runtime owner mint program = owner + 1000 * mint + 1000000 * program"
  "rt_is_token_program sample_runtime program \<longleftrightarrow> program = 6"
  "rt_mint_extensions sample_runtime bs = Some []" "rt_account_extensions sample_runtime bs = Some []"
  "rt_transfer_checked sample_runtime = spl_transfer"
  "rt_ed25519_program sample_runtime = 9" "rt_programdata_address sample_runtime = 77"
  by (simp_all add: sample_runtime_def)

lemma sample_extensions [simp]:
  "validate_mint_extensions sample_runtime m = Inr ()"
  "validate_token_account_extensions sample_runtime a = Inr ()"
  by (simp_all add: validate_mint_extensions_def validate_token_account_extensions_def
      validate_mint_extension_bytes_def validate_token_account_extension_bytes_def)

lemma sample_token_program_law: "token_program_law sample_runtime"
  by (auto simp: token_program_law_def sample_runtime_def spl_transfer_def moves_tokens_def
      word_le_nat_alt not_less split: if_splits option.splits)

lemma sample_create_account_law: "create_account_law sample_runtime"
  by (auto simp: create_account_law_def sample_runtime_def)

end
