(* ===== verification/Admin.thy ===== *)
theory Admin
  imports Program_Runtime
begin

text \<open>
  Set-up and administration (\<open>instructions/initialize.rs\<close>, \<open>instructions/reserve_vault.rs\<close>,
  \<open>instructions/admin.rs\<close>): creation of the configuration, the key set and the two volume
  windows by the program's upgrade authority, creation of the reserve vault, the pause
  switches, the limits, the two-step admin handover and the volume-window reset. Each
  instruction is the check of its account struct followed by its handler.
\<close>

section \<open>initialize.rs\<close>

definition Initialize :: "Runtime \<Rightarrow> Tx \<Rightarrow> Ctx \<Rightarrow> Chain \<Rightarrow> unit handler_result" where
  "Initialize rt tx cx s =
     try_bind (check_signer tx (cx_signer cx)) (\<lambda>_.
     try_bind (init_pda (st_config s)) (\<lambda>_.
     try_bind (init_pda (st_key_set s)) (\<lambda>_.
     try_bind (init_pda (st_windows s GoldcoinToSolana)) (\<lambda>_.
     try_bind (init_pda (st_windows s SolanaToGoldcoin)) (\<lambda>_.
     require (cx_program_data cx = rt_programdata_address rt) (Bridge UnauthorizedInitializer) (
     require (pd_upgrade_authority_address (st_program_data s) = Some (cx_signer cx))
       (Bridge UnauthorizedInitializer) (
     Inr ())))))))"

definition initialize ::
  "Runtime \<Rightarrow> Tx \<Rightarrow> Ctx \<Rightarrow> Chain \<Rightarrow> pubkey list \<Rightarrow> u8 \<Rightarrow> i64 \<Rightarrow> u64 \<Rightarrow> u64 \<Rightarrow> u64 \<Rightarrow> u64 \<Rightarrow> i64 \<Rightarrow> i64
    \<Rightarrow> outcome" where
  "initialize rt tx cx s attestation_keys threshold governance_timelock_seconds
     min_transfer_amount per_transfer_limit protected_minimum rolling_volume_limit
     rolling_window_seconds upgrade_timelock_seconds =
     try_bind (Initialize rt tx cx s) (\<lambda>_.
     try_bind (map_err Bridge (validate_attestation_key_set attestation_keys threshold)) (\<lambda>_.
     require (governance_timelock_seconds > 0) (Bridge ZeroGovernanceTimelock) (
     require (per_transfer_limit > 0) (Bridge ZeroAmount) (
     require (rolling_volume_limit > 0) (Bridge ZeroAmount) (
     require (rolling_window_seconds > 0) (Bridge ZeroAmount) (
     require (upgrade_timelock_seconds > 0) (Bridge ZeroUpgradeTimelock) (
     let config = \<lparr>bc_protocol_version = PROTOCOL_VERSION, bc_admin = cx_signer cx,
           bc_pending_admin = None, bc_paused = False, bc_release_paused = False,
           bc_deposit_paused = False, bc_bump = find_bump rt BridgeConfigPda,
           bc_reserve_token_mint = pubkey_default, bc_reserve_token_program = pubkey_default,
           bc_reserve_authority_bump = 0, bc_obligation_count = 0,
           bc_governance_timelock_seconds = governance_timelock_seconds,
           bc_min_transfer_amount = min_transfer_amount,
           bc_per_transfer_limit = per_transfer_limit,
           bc_protected_minimum = protected_minimum,
           bc_rolling_volume_limit = rolling_volume_limit,
           bc_rolling_window_seconds = rolling_window_seconds,
           bc_upgrade_timelock_seconds = upgrade_timelock_seconds\<rparr>;
         key_count = word_of_nat (length attestation_keys);
         set = \<lparr>ks_epoch = 0, ks_threshold = threshold,
           ks_bump = find_bump rt AttestationKeySetPda, ks_keys = attestation_keys,
           ks_reserved = replicate 32 0\<rparr>;
         now = tx_unix_timestamp tx;
         release_window = \<lparr>vw_direction = GoldcoinToSolana, vw_window_start = now,
           vw_window_total = 0, vw_bump = find_bump rt (RollingVolumeWindowPda GoldcoinToSolana),
           vw_reserved = replicate 16 0\<rparr>;
         deposit_window = \<lparr>vw_direction = SolanaToGoldcoin, vw_window_start = now,
           vw_window_total = 0, vw_bump = find_bump rt (RollingVolumeWindowPda SolanaToGoldcoin),
           vw_reserved = replicate 16 0\<rparr>
     in Inr (s\<lparr>st_config := Some config, st_key_set := Some set,
               st_windows := (st_windows s)(GoldcoinToSolana := Some release_window,
                 SolanaToGoldcoin := Some deposit_window)\<rparr>,
             BridgeInitialized (bc_admin config) PROTOCOL_VERSION threshold key_count))))))))"

section \<open>reserve_vault.rs\<close>

text \<open>
  The struct's \<open>init\<close> of the reserve's associated token account is part of the account
  checks; its result is the new account's key and content.
\<close>

definition InitializeReserveVault ::
  "Runtime \<Rightarrow> Tx \<Rightarrow> Ctx \<Rightarrow> Chain \<Rightarrow> (BridgeConfig \<times> Mint \<times> pubkey \<times> TokenAccount) handler_result"
  where
  "InitializeReserveVault rt tx cx s =
     try_bind (check_signer tx (cx_signer cx)) (\<lambda>_.
     try_bind (load_config rt s) (\<lambda>config.
     require (bc_admin config = cx_signer cx) (Bridge UnauthorizedAdmin) (
     require (bc_reserve_token_mint config = pubkey_default) (Bridge ReserveAlreadyConfigured) (
     try_bind (ok_or (st_mints s (cx_reserve_mint cx)) AccountNotInitialized) (\<lambda>mint.
     let authority = find_pda rt ReserveAuthorityPda;
         key = rt_associated_token_address rt authority (cx_reserve_mint cx) (cx_token_program cx) in
     require (rt_is_token_program rt (cx_token_program cx)) ConstraintViolated (
     require (cx_reserve_token_account cx = key) ConstraintViolated (
     require (st_token_accounts s key = None) AccountAlreadyInUse (
     try_bind (ok_or (rt_create_token_account rt (st_mints s) (cx_token_program cx)
         (cx_reserve_mint cx) authority) CpiFailed) (\<lambda>account.
     Inr (config, mint, key, account))))))))))"

definition initialize_reserve_vault :: "Runtime \<Rightarrow> Tx \<Rightarrow> Ctx \<Rightarrow> Chain \<Rightarrow> outcome" where
  "initialize_reserve_vault rt tx cx s =
     try_bind (InitializeReserveVault rt tx cx s) (\<lambda>(config, mint, key, account).
     try_bind (map_err Bridge (validate_mint_extensions rt mint)) (\<lambda>_.
     let config = config\<lparr>bc_reserve_token_mint := cx_reserve_mint cx,
           bc_reserve_token_program := cx_token_program cx,
           bc_reserve_authority_bump := find_bump rt ReserveAuthorityPda\<rparr>
     in Inr (s\<lparr>st_config := Some config,
               st_token_accounts := (st_token_accounts s)(key := Some account)\<rparr>,
             ReserveVaultInitialized (bc_reserve_token_mint config) key
               (find_pda rt ReserveAuthorityPda))))"

section \<open>admin.rs\<close>

datatype PauseScope = Global | Release | Deposit

datatype LimitField = MinTransferAmount | PerTransferLimit | ProtectedMinimum | RollingVolumeLimit

definition AdminConfig :: "Runtime \<Rightarrow> Tx \<Rightarrow> Ctx \<Rightarrow> Chain \<Rightarrow> BridgeConfig handler_result" where
  "AdminConfig rt tx cx s =
     try_bind (check_signer tx (cx_signer cx)) (\<lambda>_.
     try_bind (load_config rt s) (\<lambda>config.
     require (bc_admin config = cx_signer cx) (Bridge UnauthorizedAdmin) (
     Inr config)))"

definition AcceptAdmin :: "Runtime \<Rightarrow> Tx \<Rightarrow> Ctx \<Rightarrow> Chain \<Rightarrow> BridgeConfig handler_result" where
  "AcceptAdmin rt tx cx s =
     try_bind (check_signer tx (cx_signer cx)) (\<lambda>_.
     load_config rt s)"

definition set_paused :: "Runtime \<Rightarrow> Tx \<Rightarrow> Ctx \<Rightarrow> Chain \<Rightarrow> PauseScope \<Rightarrow> bool \<Rightarrow> outcome" where
  "set_paused rt tx cx s scope paused =
     try_bind (AdminConfig rt tx cx s) (\<lambda>config.
     try_bind (case scope of
         Global \<Rightarrow> require (bc_paused config \<noteq> paused) (Bridge PauseStateUnchanged)
           (Inr (config\<lparr>bc_paused := paused\<rparr>))
       | Release \<Rightarrow> require (bc_release_paused config \<noteq> paused) (Bridge PauseStateUnchanged)
           (Inr (config\<lparr>bc_release_paused := paused\<rparr>))
       | Deposit \<Rightarrow> require (bc_deposit_paused config \<noteq> paused) (Bridge PauseStateUnchanged)
           (Inr (config\<lparr>bc_deposit_paused := paused\<rparr>))) (\<lambda>config.
     Inr (s\<lparr>st_config := Some config\<rparr>,
          PauseStateChanged (bc_paused config) (bc_release_paused config)
            (bc_deposit_paused config))))"

definition set_limit :: "Runtime \<Rightarrow> Tx \<Rightarrow> Ctx \<Rightarrow> Chain \<Rightarrow> LimitField \<Rightarrow> u64 \<Rightarrow> outcome" where
  "set_limit rt tx cx s field new_value =
     try_bind (AdminConfig rt tx cx s) (\<lambda>config.
     try_bind (case field of
         MinTransferAmount \<Rightarrow>
           (let previous = bc_min_transfer_amount config in
            Inr (config\<lparr>bc_min_transfer_amount := new_value\<rparr>, previous, ''min_transfer_amount''))
       | PerTransferLimit \<Rightarrow>
           require (new_value > 0) (Bridge ZeroAmount) (
           let previous = bc_per_transfer_limit config in
           Inr (config\<lparr>bc_per_transfer_limit := new_value\<rparr>, previous, ''per_transfer_limit''))
       | ProtectedMinimum \<Rightarrow>
           (let previous = bc_protected_minimum config in
            Inr (config\<lparr>bc_protected_minimum := new_value\<rparr>, previous, ''protected_minimum''))
       | RollingVolumeLimit \<Rightarrow>
           require (new_value > 0) (Bridge ZeroAmount) (
           let previous = bc_rolling_volume_limit config in
           Inr (config\<lparr>bc_rolling_volume_limit := new_value\<rparr>, previous, ''rolling_volume_limit'')))
       (\<lambda>(config, previous, field_name).
     Inr (s\<lparr>st_config := Some config\<rparr>, LimitsChanged field_name previous new_value)))"

definition transfer_admin :: "Runtime \<Rightarrow> Tx \<Rightarrow> Ctx \<Rightarrow> Chain \<Rightarrow> pubkey \<Rightarrow> outcome" where
  "transfer_admin rt tx cx s new_admin =
     try_bind (AdminConfig rt tx cx s) (\<lambda>config.
     require (new_admin \<noteq> bc_admin config) (Bridge AdminUnchanged) (
     Inr (s\<lparr>st_config := Some (config\<lparr>bc_pending_admin := Some new_admin\<rparr>)\<rparr>,
          AdminTransferInitiated (bc_admin config) new_admin)))"

definition accept_admin :: "Runtime \<Rightarrow> Tx \<Rightarrow> Ctx \<Rightarrow> Chain \<Rightarrow> outcome" where
  "accept_admin rt tx cx s =
     try_bind (AcceptAdmin rt tx cx s) (\<lambda>config.
     try_bind (ok_or (bc_pending_admin config) (Bridge NoPendingAdmin)) (\<lambda>pending.
     require (pending = cx_signer cx) (Bridge PendingAdminMismatch) (
     let previous_admin = bc_admin config in
     Inr (s\<lparr>st_config := Some (config\<lparr>bc_admin := pending, bc_pending_admin := None\<rparr>)\<rparr>,
          AdminTransferred previous_admin pending))))"

definition ResetRollingVolumeWindow ::
  "Runtime \<Rightarrow> Tx \<Rightarrow> Ctx \<Rightarrow> Chain \<Rightarrow> Direction \<Rightarrow> (BridgeConfig \<times> RollingVolumeWindow) handler_result"
  where
  "ResetRollingVolumeWindow rt tx cx s direction =
     try_bind (check_signer tx (cx_signer cx)) (\<lambda>_.
     try_bind (load_config rt s) (\<lambda>config.
     require (bc_admin config = cx_signer cx) (Bridge UnauthorizedAdmin) (
     try_bind (load_window rt s direction) (\<lambda>window.
     Inr (config, window)))))"

definition reset_rolling_volume_window ::
  "Runtime \<Rightarrow> Tx \<Rightarrow> Ctx \<Rightarrow> Chain \<Rightarrow> Direction \<Rightarrow> outcome" where
  "reset_rolling_volume_window rt tx cx s direction =
     try_bind (ResetRollingVolumeWindow rt tx cx s direction) (\<lambda>(config, window).
     require (bc_paused config) (Bridge BridgeNotPaused) (
     let window' = window\<lparr>vw_window_start := tx_unix_timestamp tx, vw_window_total := 0\<rparr>
     in Inr (s\<lparr>st_windows := (st_windows s)(direction := Some window')\<rparr>,
          RollingVolumeWindowReset (cx_signer cx) direction (vw_window_start window)
            (vw_window_total window) (vw_window_start window') (vw_window_total window')
            (tx_unix_timestamp tx) (tx_slot tx))))"

section \<open>What a successful call has checked and done\<close>

lemmas admin_defs =
  set_paused_def set_limit_def transfer_admin_def accept_admin_def AdminConfig_def AcceptAdmin_def
  reset_rolling_volume_window_def ResetRollingVolumeWindow_def

lemma initialize_elim:
  assumes "initialize rt tx cx s keys threshold gov_lock min_t per_t prot roll_lim roll_win up_lock
    = Inr (s', e)"
  obtains config ks w1 w2 where
    "s' = s\<lparr>st_config := Some config, st_key_set := Some ks,
             st_windows := (st_windows s)(GoldcoinToSolana := Some w1, SolanaToGoldcoin := Some w2)\<rparr>"
    "st_config s = None" "st_key_set s = None"
    "pd_upgrade_authority_address (st_program_data s) = Some (cx_signer cx)"
    "cx_signer cx \<in> set (tx_signers tx)"
    "valid_key_set keys threshold" "0 < gov_lock" "0 < up_lock" "0 < roll_win" "0 < per_t"
    "0 < roll_lim"
    "bc_admin config = cx_signer cx" "bc_protocol_version config = PROTOCOL_VERSION"
    "bc_governance_timelock_seconds config = gov_lock" "bc_rolling_window_seconds config = roll_win"
    "bc_upgrade_timelock_seconds config = up_lock" "bc_per_transfer_limit config = per_t"
    "bc_rolling_volume_limit config = roll_lim" "bc_reserve_token_mint config = pubkey_default"
    "bc_obligation_count config = 0" "bc_bump config = find_bump rt BridgeConfigPda"
    "ks_keys ks = keys" "ks_threshold ks = threshold" "ks_epoch ks = 0"
    "ks_bump ks = find_bump rt AttestationKeySetPda"
    "w1 = \<lparr>vw_direction = GoldcoinToSolana, vw_window_start = tx_unix_timestamp tx,
       vw_window_total = 0, vw_bump = find_bump rt (RollingVolumeWindowPda GoldcoinToSolana),
       vw_reserved = replicate 16 0\<rparr>"
    "w2 = \<lparr>vw_direction = SolanaToGoldcoin, vw_window_start = tx_unix_timestamp tx,
       vw_window_total = 0, vw_bump = find_bump rt (RollingVolumeWindowPda SolanaToGoldcoin),
       vw_reserved = replicate 16 0\<rparr>"
proof -
  show thesis
    using assms unfolding initialize_def Initialize_def constraint_defs
    by (clarsimp simp: Let_def validate_attestation_key_set_iff)
      (rule that, (assumption | simp)+)
qed

lemma reserve_vault_elim:
  assumes "initialize_reserve_vault rt tx cx s = Inr (s', e)"
  obtains config mint account where
    "st_config s = Some config" "bc_admin config = cx_signer cx" "cx_signer cx \<in> set (tx_signers tx)"
    "bc_reserve_token_mint config = pubkey_default"
    "st_mints s (cx_reserve_mint cx) = Some mint" "validate_mint_extensions rt mint = Inr ()"
    "st_token_accounts s (rt_associated_token_address rt (find_pda rt ReserveAuthorityPda)
       (cx_reserve_mint cx) (cx_token_program cx)) = None"
    "rt_create_token_account rt (st_mints s) (cx_token_program cx) (cx_reserve_mint cx)
       (find_pda rt ReserveAuthorityPda) = Some account"
    "s' = s\<lparr>st_config := Some (config\<lparr>bc_reserve_token_mint := cx_reserve_mint cx,
               bc_reserve_token_program := cx_token_program cx,
               bc_reserve_authority_bump := find_bump rt ReserveAuthorityPda\<rparr>),
             st_token_accounts := (st_token_accounts s)
               (rt_associated_token_address rt (find_pda rt ReserveAuthorityPda)
                 (cx_reserve_mint cx) (cx_token_program cx) := Some account)\<rparr>"
proof -
  show thesis
    using assms unfolding initialize_reserve_vault_def InitializeReserveVault_def constraint_defs
    by (clarsimp simp: Let_def) (rule that, (assumption | simp)+)
qed

text \<open>
  The pause switches, the limits and the handover only write the configuration, and only
  fields an administrator owns.
\<close>

definition admin_fields_only :: "BridgeConfig \<Rightarrow> BridgeConfig \<Rightarrow> bool" where
  "admin_fields_only c c' \<longleftrightarrow>
     bc_protocol_version c' = bc_protocol_version c \<and> bc_bump c' = bc_bump c
     \<and> bc_reserve_token_mint c' = bc_reserve_token_mint c
     \<and> bc_reserve_token_program c' = bc_reserve_token_program c
     \<and> bc_reserve_authority_bump c' = bc_reserve_authority_bump c
     \<and> bc_obligation_count c' = bc_obligation_count c
     \<and> bc_governance_timelock_seconds c' = bc_governance_timelock_seconds c
     \<and> bc_rolling_window_seconds c' = bc_rolling_window_seconds c
     \<and> bc_upgrade_timelock_seconds c' = bc_upgrade_timelock_seconds c
     \<and> (bc_per_transfer_limit c' = bc_per_transfer_limit c \<or> 0 < bc_per_transfer_limit c')
     \<and> (bc_rolling_volume_limit c' = bc_rolling_volume_limit c \<or> 0 < bc_rolling_volume_limit c')"

lemma set_paused_elim:
  assumes "set_paused rt tx cx s scope paused = Inr (s', e)"
  obtains config config' where
    "st_config s = Some config" "bc_admin config = cx_signer cx" "cx_signer cx \<in> set (tx_signers tx)"
    "s' = s\<lparr>st_config := Some config'\<rparr>" "admin_fields_only config config'"
    "bc_admin config' = bc_admin config" "bc_pending_admin config' = bc_pending_admin config"
    "config' = (case scope of Global \<Rightarrow> config\<lparr>bc_paused := paused\<rparr>
       | Release \<Rightarrow> config\<lparr>bc_release_paused := paused\<rparr> | Deposit \<Rightarrow> config\<lparr>bc_deposit_paused := paused\<rparr>)"
proof -
  show thesis
    using assms unfolding admin_defs constraint_defs
    by (cases scope; clarsimp)
      (rule that, (assumption | simp add: admin_fields_only_def)+)+
qed

lemma set_limit_elim:
  assumes "set_limit rt tx cx s field v = Inr (s', e)"
  obtains config config' where
    "st_config s = Some config" "bc_admin config = cx_signer cx" "cx_signer cx \<in> set (tx_signers tx)"
    "s' = s\<lparr>st_config := Some config'\<rparr>" "admin_fields_only config config'"
    "bc_admin config' = bc_admin config" "bc_pending_admin config' = bc_pending_admin config"
    "config' = (case field of MinTransferAmount \<Rightarrow> config\<lparr>bc_min_transfer_amount := v\<rparr>
       | PerTransferLimit \<Rightarrow> config\<lparr>bc_per_transfer_limit := v\<rparr>
       | ProtectedMinimum \<Rightarrow> config\<lparr>bc_protected_minimum := v\<rparr>
       | RollingVolumeLimit \<Rightarrow> config\<lparr>bc_rolling_volume_limit := v\<rparr>)"
proof -
  show thesis
    using assms unfolding admin_defs constraint_defs
    by (cases field; clarsimp simp: Let_def)
      (rule that, (assumption | simp add: admin_fields_only_def)+)+
qed

lemma transfer_admin_elim:
  assumes "transfer_admin rt tx cx s new_admin = Inr (s', e)"
  obtains config where
    "st_config s = Some config" "bc_admin config = cx_signer cx" "cx_signer cx \<in> set (tx_signers tx)"
    "admin_fields_only config (config\<lparr>bc_pending_admin := Some new_admin\<rparr>)"
    "s' = s\<lparr>st_config := Some (config\<lparr>bc_pending_admin := Some new_admin\<rparr>)\<rparr>"
proof -
  show thesis
    using assms unfolding admin_defs constraint_defs
    by clarsimp (rule that, (assumption | simp add: admin_fields_only_def)+)
qed

lemma accept_admin_elim:
  assumes "accept_admin rt tx cx s = Inr (s', e)"
  obtains config where
    "st_config s = Some config" "bc_pending_admin config = Some (cx_signer cx)"
    "cx_signer cx \<in> set (tx_signers tx)"
    "admin_fields_only config (config\<lparr>bc_admin := cx_signer cx, bc_pending_admin := None\<rparr>)"
    "s' = s\<lparr>st_config := Some (config\<lparr>bc_admin := cx_signer cx, bc_pending_admin := None\<rparr>)\<rparr>"
proof -
  show thesis
    using assms unfolding admin_defs constraint_defs
    by (clarsimp simp: Let_def) (rule that, (assumption | simp add: admin_fields_only_def)+)
qed

lemma reset_window_elim:
  assumes "reset_rolling_volume_window rt tx cx s d = Inr (s', e)"
  obtains config w where
    "st_config s = Some config" "bc_admin config = cx_signer cx" "cx_signer cx \<in> set (tx_signers tx)"
    "bc_paused config" "st_windows s d = Some w"
    "s' = s\<lparr>st_windows := (st_windows s)(d :=
       Some (w\<lparr>vw_window_start := tx_unix_timestamp tx, vw_window_total := 0\<rparr>))\<rparr>"
proof -
  show thesis
    using assms unfolding admin_defs constraint_defs
    by (clarsimp simp: Let_def) (rule that, (assumption | simp)+)
qed

end
