(* ===== verification/Reserve_Outflow.thy ===== *)
theory Reserve_Outflow
  imports Program_Runtime
begin

text \<open>
  The contract every instruction that pays out of the reserve keeps, as a locale: release,
  treasury withdrawal and refund are its three instances. An outflow is backed by a
  threshold of attestation signatures over one message, leaves the protected minimum in the
  reserve and debits exactly the stated amount.
\<close>

text \<open>The reserve's token account, and its balance.\<close>

definition reserve_key :: "Runtime \<Rightarrow> BridgeConfig \<Rightarrow> pubkey" where
  "reserve_key rt config =
     rt_associated_token_address rt (find_pda rt ReserveAuthorityPda)
       (bc_reserve_token_mint config) (bc_reserve_token_program config)"

definition balance_of :: "Chain \<Rightarrow> pubkey \<Rightarrow> nat" where
  "balance_of s key = (case st_token_accounts s key of None \<Rightarrow> 0 | Some a \<Rightarrow> unat (ta_amount a))"

definition canonical_reserve_bump :: "Runtime \<Rightarrow> BridgeConfig \<Rightarrow> bool" where
  "canonical_reserve_bump rt config \<longleftrightarrow>
     bc_reserve_token_mint config \<noteq> pubkey_default \<longrightarrow>
     bc_reserve_authority_bump config = find_bump rt ReserveAuthorityPda"

text \<open>What a successful outflow has checked and done.\<close>

definition outflow_checks ::
  "Runtime \<Rightarrow> Tx \<Rightarrow> Ctx \<Rightarrow> Chain \<Rightarrow> u64 \<Rightarrow> u64 \<Rightarrow> bytes \<Rightarrow> Chain \<Rightarrow> bool" where
  "outflow_checks rt tx cx s amount epoch m s' \<longleftrightarrow>
     (\<exists>config key_set mint authority reserve_account to_account data.
        st_config s = Some config \<and> st_key_set s = Some key_set
        \<and> bc_reserve_token_mint config \<noteq> pubkey_default
        \<and> cx_reserve_mint cx = bc_reserve_token_mint config
        \<and> cx_token_program cx = bc_reserve_token_program config
        \<and> rt_create_program_address rt (pda_seeds ReserveAuthorityPda)
            (bc_reserve_authority_bump config) = Some authority
        \<and> cx_reserve_token_account cx = rt_associated_token_address rt authority
            (bc_reserve_token_mint config) (bc_reserve_token_program config)
        \<and> st_mints s (cx_reserve_mint cx) = Some mint
        \<and> st_token_accounts s (cx_reserve_token_account cx) = Some reserve_account
        \<and> st_token_accounts s (cx_token_account cx) = Some to_account
        \<and> validate_mint_extensions rt mint = Inr ()
        \<and> validate_token_account_extensions rt reserve_account = Inr ()
        \<and> validate_token_account_extensions rt to_account = Inr ()
        \<and> 0 < amount \<and> epoch = ks_epoch key_set
        \<and> enforce_protected_minimum (ta_amount reserve_account) (bc_protected_minimum config) amount
            = Inr ()
        \<and> get_verification_ix rt tx = Inr data
        \<and> require_signer_threshold key_set data m = Inr ()
        \<and> rt_transfer_checked rt (cx_token_program cx) (st_mints s) (st_token_accounts s)
            (cx_reserve_token_account cx) (cx_reserve_mint cx) (cx_token_account cx) authority
            amount (mt_decimals mint) = Some (st_token_accounts s'))"

lemma moves_tokens_balance:
  assumes "moves_tokens (st_token_accounts s) from to amount (st_token_accounts s')" "from \<noteq> to"
  shows "balance_of s from = balance_of s' from + unat amount"
    and "balance_of s' to = balance_of s to + unat amount"
    and "\<And>k. k \<noteq> from \<Longrightarrow> k \<noteq> to \<Longrightarrow> st_token_accounts s' k = st_token_accounts s k"
  using assms
  by (auto simp: moves_tokens_def balance_of_def unat_sub word_le_nat_alt unat_word_ariths)

lemma moves_tokens_to_self:
  "moves_tokens accts k k amount accts' \<Longrightarrow> accts' = accts"
  by (auto simp: moves_tokens_def)

locale attested_outflow =
  fixes run :: "Runtime \<Rightarrow> Tx \<Rightarrow> Ctx \<Rightarrow> Chain \<Rightarrow> 'a \<Rightarrow> outcome"
    and amount :: "'a \<Rightarrow> u64"
    and epoch :: "'a \<Rightarrow> u64"
    and message :: "Ctx \<Rightarrow> Chain \<Rightarrow> 'a \<Rightarrow> bytes"
  assumes run_checks: "run rt tx cx s a = Inr (s', e)
      \<Longrightarrow> outflow_checks rt tx cx s (amount a) (epoch a) (message cx s a) s'"
begin

lemma outflow_approved:
  assumes "run rt tx cx s a = Inr (s', e)" "st_key_set s = Some ks" "valid_keys ks"
    and "precompile_law verify rt tx"
  shows "approved verify tx ks (message cx s a) \<and> epoch a = ks_epoch ks"
  using run_checks[OF assms(1)] assms(2-4) threshold_approved
  unfolding outflow_checks_def by fastforce

lemma outflow_reserve_account:
  assumes "run rt tx cx s a = Inr (s', e)" "st_config s = Some config" "address_law rt"
    and "canonical_reserve_bump rt config"
  shows "cx_reserve_token_account cx = reserve_key rt config"
  using run_checks[OF assms(1)] assms(2-4)
  by (auto simp: outflow_checks_def reserve_key_def canonical_reserve_bump_def address_law_def)

lemma outflow_moves:
  assumes "run rt tx cx s a = Inr (s', e)" "token_program_law rt"
  shows "moves_tokens (st_token_accounts s) (cx_reserve_token_account cx) (cx_token_account cx)
    (amount a) (st_token_accounts s')"
  using run_checks[OF assms(1)] assms(2) unfolding outflow_checks_def token_program_law_def
  by blast

lemma outflow_keeps_minimum:
  assumes "run rt tx cx s a = Inr (s', e)" "st_config s = Some config" "token_program_law rt"
  shows "unat (bc_protected_minimum config) + unat (amount a) \<le> balance_of s (cx_reserve_token_account cx)
    \<and> unat (bc_protected_minimum config) \<le> balance_of s' (cx_reserve_token_account cx)"
proof -
  have floor: "unat (bc_protected_minimum config) + unat (amount a)
      \<le> balance_of s (cx_reserve_token_account cx)"
    using run_checks[OF assms(1)] assms(2)
    by (auto simp: outflow_checks_def enforce_protected_minimum_ok balance_of_def)
  note mv = outflow_moves[OF assms(1,3)]
  show ?thesis
  proof (cases "cx_reserve_token_account cx = cx_token_account cx")
    case True
    with mv have "st_token_accounts s' = st_token_accounts s" using moves_tokens_to_self by metis
    then have "balance_of s' = balance_of s" by (auto simp: balance_of_def fun_eq_iff)
    with floor show ?thesis by simp
  next
    case False
    with floor moves_tokens_balance(1)[OF mv] show ?thesis by simp
  qed
qed

end

end
