(* ===== verification/Settlement.thy ===== *)
theory Settlement
  imports Reserve_Outflow
begin

text \<open>
  The two settlement directions and the completion record
  (\<open>instructions/release_from_reserve.rs\<close>, \<open>instructions/deposit_to_reserve.rs\<close>,
  \<open>instructions/complete_goldcoin_payout.rs\<close>). The lemmas give each handler's exact effect
  and what its success implies; the properties over whole executions are in \<open>Program\<close>.
\<close>

section \<open>release_from_reserve.rs\<close>

definition ReleaseFromReserve ::
  "Runtime \<Rightarrow> Tx \<Rightarrow> Ctx \<Rightarrow> Chain \<Rightarrow> bytes32 \<Rightarrow> u32
    \<Rightarrow> (BridgeConfig \<times> AttestationKeySet \<times> RollingVolumeWindow \<times> Mint \<times> pubkey \<times> TokenAccount
        \<times> TokenAccount) handler_result" where
  "ReleaseFromReserve rt tx cx s txid vout =
     try_bind (check_signer tx (cx_signer cx)) (\<lambda>_.
     try_bind (load_config rt s) (\<lambda>config.
     require (bc_reserve_token_mint config \<noteq> pubkey_default) (Bridge ReserveNotConfigured) (
     try_bind (load_key_set rt s) (\<lambda>key_set.
     try_bind (init_pda (st_claims s (txid, vout))) (\<lambda>_.
     try_bind (load_window rt s GoldcoinToSolana) (\<lambda>window.
     try_bind (load_reserve_mint config cx s) (\<lambda>mint.
     try_bind (reserve_authority rt config) (\<lambda>authority.
     try_bind (load_associated_token_account rt cx s (cx_reserve_token_account cx) authority)
       (\<lambda>reserve_account.
     try_bind (load_associated_token_account rt cx s (cx_token_account cx) (cx_wallet cx))
       (\<lambda>recipient_account.
     try_bind (check_token_program rt config cx) (\<lambda>_.
     Inr (config, key_set, window, mint, authority, reserve_account, recipient_account))))))))))))"

definition release_from_reserve ::
  "Runtime \<Rightarrow> Tx \<Rightarrow> Ctx \<Rightarrow> Chain \<Rightarrow> bytes32 \<Rightarrow> u32 \<Rightarrow> u64 \<Rightarrow> u64 \<Rightarrow> outcome" where
  "release_from_reserve rt tx cx s txid vout amount attestation_epoch =
     try_bind (ReleaseFromReserve rt tx cx s txid vout)
       (\<lambda>(config, key_set, window, mint, authority, reserve_account, recipient_account).
     require (\<not> bc_paused config) (Bridge BridgeGloballyPaused) (
     require (\<not> bc_release_paused config) (Bridge ReleaseDirectionPaused) (
     require (attestation_epoch = ks_epoch key_set) (Bridge StaleAttestationEpoch) (
     try_bind (map_err Bridge (enforce_transfer_amount config amount)) (\<lambda>_.
     try_bind (map_err Bridge (validate_mint_extensions rt mint)) (\<lambda>_.
     try_bind (map_err Bridge (validate_token_account_extensions rt reserve_account)) (\<lambda>_.
     try_bind (map_err Bridge (validate_token_account_extensions rt recipient_account)) (\<lambda>_.
     try_bind (map_err Bridge (enforce_protected_minimum (ta_amount reserve_account)
       (bc_protected_minimum config) amount)) (\<lambda>_.
     try_bind (map_err Bridge (get_verification_ix rt tx)) (\<lambda>data.
     let expected_message = release_claim_message (bc_protocol_version config) crate_ID
           (ks_epoch key_set) txid vout amount (cx_wallet cx) (bc_reserve_token_mint config) in
     try_bind (map_err Bridge (require_signer_threshold key_set data expected_message)) (\<lambda>_.
     try_bind (map_err Bridge (enforce_and_record_rolling_volume config window amount
       (tx_unix_timestamp tx))) (\<lambda>window'.
     try_bind (transfer_checked rt cx s (cx_reserve_token_account cx) (cx_token_account cx)
       authority amount (mt_decimals mint)) (\<lambda>token_accounts'.
     let claim = \<lparr>dc_txid = txid, dc_vout = vout, dc_amount = amount,
           dc_recipient = cx_wallet cx, dc_attestation_epoch = ks_epoch key_set,
           dc_protocol_version = bc_protocol_version config, dc_slot_created = tx_slot tx,
           dc_bump = find_bump rt (DepositClaimPda txid vout), dc_reserved = replicate 16 0\<rparr>
     in Inr (s\<lparr>st_claims := (st_claims s)((txid, vout) := Some claim),
               st_windows := (st_windows s)(GoldcoinToSolana := Some window'),
               st_token_accounts := token_accounts'\<rparr>,
             ReserveReleased txid vout (dc_recipient claim) amount
               (dc_attestation_epoch claim)))))))))))))))"

section \<open>deposit_to_reserve.rs\<close>

definition DepositToReserve ::
  "Runtime \<Rightarrow> Tx \<Rightarrow> Ctx \<Rightarrow> Chain
    \<Rightarrow> (BridgeConfig \<times> RollingVolumeWindow \<times> Mint \<times> TokenAccount \<times> TokenAccount) handler_result"
  where
  "DepositToReserve rt tx cx s =
     try_bind (check_signer tx (cx_signer cx)) (\<lambda>_.
     try_bind (load_config rt s) (\<lambda>config.
     require (bc_reserve_token_mint config \<noteq> pubkey_default) (Bridge ReserveNotConfigured) (
     try_bind (load_window rt s SolanaToGoldcoin) (\<lambda>window.
     try_bind (load_reserve_mint config cx s) (\<lambda>mint.
     try_bind (load_associated_token_account rt cx s (cx_token_account cx) (cx_signer cx))
       (\<lambda>user_account.
     try_bind (reserve_authority rt config) (\<lambda>authority.
     try_bind (load_associated_token_account rt cx s (cx_reserve_token_account cx) authority)
       (\<lambda>reserve_account.
     try_bind (init_pda (st_obligations s (bc_obligation_count config))) (\<lambda>_.
     try_bind (check_token_program rt config cx) (\<lambda>_.
     Inr (config, window, mint, user_account, reserve_account)))))))))))"

definition deposit_to_reserve ::
  "Runtime \<Rightarrow> Tx \<Rightarrow> Ctx \<Rightarrow> Chain \<Rightarrow> u64 \<Rightarrow> bytes \<Rightarrow> outcome" where
  "deposit_to_reserve rt tx cx s amount glc_address =
     try_bind (DepositToReserve rt tx cx s) (\<lambda>(config, window, mint, user_account, reserve_account).
     require (\<not> bc_paused config) (Bridge BridgeGloballyPaused) (
     require (\<not> bc_deposit_paused config) (Bridge DepositDirectionPaused) (
     try_bind (map_err Bridge (enforce_transfer_amount config amount)) (\<lambda>_.
     require (glc_address \<noteq> [] \<and> length glc_address \<le> MAX_GLC_ADDRESS_LEN)
       (Bridge InvalidGlcAddressLength) (
     try_bind (map_err Bridge (validate_mint_extensions rt mint)) (\<lambda>_.
     try_bind (map_err Bridge (validate_token_account_extensions rt user_account)) (\<lambda>_.
     try_bind (map_err Bridge (validate_token_account_extensions rt reserve_account)) (\<lambda>_.
     let index = bc_obligation_count config in
     try_bind (ok_or (checked_add index 1) (Bridge ArithmeticOverflow)) (\<lambda>next_count.
     try_bind (map_err Bridge (enforce_and_record_rolling_volume config window amount
       (tx_unix_timestamp tx))) (\<lambda>window'.
     try_bind (transfer_checked rt cx s (cx_token_account cx) (cx_reserve_token_account cx)
       (cx_signer cx) amount (mt_decimals mint)) (\<lambda>token_accounts'.
     let record = \<lparr>wo_index = index, wo_amount = amount, wo_requester = cx_signer cx,
           wo_glc_address = glc_address @ replicate (64 - length glc_address) 0,
           wo_glc_address_len = word_of_nat (length glc_address), wo_status = Pending,
           wo_requested_at_slot = tx_slot tx,
           wo_protocol_version = bc_protocol_version config,
           wo_bump = find_bump rt (WithdrawalObligationPda index), wo_reserved = replicate 48 0\<rparr>
     in Inr (s\<lparr>st_config := Some (config\<lparr>bc_obligation_count := next_count\<rparr>),
               st_obligations := (st_obligations s)(index := Some record),
               st_windows := (st_windows s)(SolanaToGoldcoin := Some window'),
               st_token_accounts := token_accounts'\<rparr>,
             ReserveDeposited index (wo_requester record) amount glc_address))))))))))))"

section \<open>complete_goldcoin_payout.rs\<close>

definition CompleteGoldcoinPayout ::
  "Runtime \<Rightarrow> Tx \<Rightarrow> Ctx \<Rightarrow> Chain \<Rightarrow> u64
    \<Rightarrow> (BridgeConfig \<times> AttestationKeySet \<times> WithdrawalObligation) handler_result" where
  "CompleteGoldcoinPayout rt tx cx s index =
     try_bind (check_signer tx (cx_signer cx)) (\<lambda>_.
     try_bind (load_config rt s) (\<lambda>config.
     try_bind (load_key_set rt s) (\<lambda>key_set.
     try_bind (load_obligation rt s index) (\<lambda>obligation.
     Inr (config, key_set, obligation)))))"

definition record_goldcoin_completion ::
  "Runtime \<Rightarrow> Tx \<Rightarrow> Ctx \<Rightarrow> Chain \<Rightarrow> u64 \<Rightarrow> bytes32 \<Rightarrow> u64 \<Rightarrow> u64 \<Rightarrow> u64 \<Rightarrow> outcome" where
  "record_goldcoin_completion rt tx cx s index payout_txid payout_height amount attestation_epoch =
     try_bind (CompleteGoldcoinPayout rt tx cx s index) (\<lambda>(config, key_set, obligation).
     require (\<not> bc_paused config) (Bridge BridgeGloballyPaused) (
     require (amount > 0) (Bridge ZeroAmount) (
     require (attestation_epoch = ks_epoch key_set) (Bridge StaleAttestationEpoch) (
     require (wo_status obligation \<noteq> Completed) (Bridge ObligationAlreadyCompleted) (
     require (wo_status obligation = Pending) (Bridge ObligationNotPending) (
     require (payout_record_is_unset obligation) (Bridge PayoutRecordAlreadySet) (
     require (payout_txid \<noteq> 0) (Bridge ZeroPayoutTxid) (
     require (payout_height > 0) (Bridge ZeroPayoutHeight) (
     try_bind (map_err Bridge (get_verification_ix rt tx)) (\<lambda>data.
     let len = unat (wo_glc_address_len obligation) in
     require (len \<ge> 1 \<and> len \<le> length (wo_glc_address obligation))
       (Bridge InvalidGlcAddressLength) (
     let dest_commitment = rt_hash rt (take len (wo_glc_address obligation));
         expected_message = goldcoin_completion_message (bc_protocol_version config) crate_ID
           (ks_epoch key_set) index payout_txid payout_height amount dest_commitment in
     try_bind (map_err Bridge (require_signer_threshold key_set data expected_message)) (\<lambda>_.
     let obligation' = (set_payout_record obligation payout_txid payout_height)
           \<lparr>wo_status := Completed\<rparr>
     in Inr (s\<lparr>st_obligations := (st_obligations s)(index := Some obligation')\<rparr>,
             ObligationCompleted index payout_txid payout_height amount (ks_epoch key_set))
     ))))))))))))"

section \<open>What a successful call has checked and done\<close>

lemmas settlement_defs =
  release_from_reserve_def ReleaseFromReserve_def deposit_to_reserve_def DepositToReserve_def
  record_goldcoin_completion_def CompleteGoldcoinPayout_def

text \<open>The claim a release records.\<close>

definition release_claim ::
  "Runtime \<Rightarrow> Tx \<Rightarrow> Ctx \<Rightarrow> BridgeConfig \<Rightarrow> AttestationKeySet \<Rightarrow> bytes32 \<Rightarrow> u32 \<Rightarrow> u64 \<Rightarrow> DepositClaim"
  where
  "release_claim rt tx cx config ks txid vout amount =
     \<lparr>dc_txid = txid, dc_vout = vout, dc_amount = amount, dc_recipient = cx_wallet cx,
      dc_attestation_epoch = ks_epoch ks, dc_protocol_version = bc_protocol_version config,
      dc_slot_created = tx_slot tx, dc_bump = find_bump rt (DepositClaimPda txid vout),
      dc_reserved = replicate 16 0\<rparr>"

lemma release_elim:
  assumes "release_from_reserve rt tx cx s txid vout amount epoch = Inr (s', e)"
  obtains config ks w w' ta' where
    "st_config s = Some config" "st_key_set s = Some ks" "st_windows s GoldcoinToSolana = Some w"
    "st_claims s (txid, vout) = None" "\<not> bc_paused config" "\<not> bc_release_paused config"
    "enforce_transfer_amount config amount = Inr ()"
    "enforce_and_record_rolling_volume config w amount (tx_unix_timestamp tx) = Inr w'"
    "cx_token_account cx = rt_associated_token_address rt (cx_wallet cx)
       (bc_reserve_token_mint config) (bc_reserve_token_program config)"
    "s' = s\<lparr>st_claims := (st_claims s)((txid, vout) :=
               Some (release_claim rt tx cx config ks txid vout amount)),
             st_windows := (st_windows s)(GoldcoinToSolana := Some w'), st_token_accounts := ta'\<rparr>"
    "e = ReserveReleased txid vout (cx_wallet cx) amount (ks_epoch ks)"
proof -
  show thesis
    using assms unfolding settlement_defs constraint_defs
    by (clarsimp simp: Let_def) (rule that, (assumption | simp add: release_claim_def)+)
qed

text \<open>The obligation a deposit records.\<close>

definition deposit_obligation ::
  "Runtime \<Rightarrow> Tx \<Rightarrow> Ctx \<Rightarrow> BridgeConfig \<Rightarrow> u64 \<Rightarrow> bytes \<Rightarrow> WithdrawalObligation" where
  "deposit_obligation rt tx cx config amount glc_address =
     \<lparr>wo_index = bc_obligation_count config, wo_amount = amount, wo_requester = cx_signer cx,
      wo_glc_address = glc_address @ replicate (64 - length glc_address) 0,
      wo_glc_address_len = word_of_nat (length glc_address), wo_status = Pending,
      wo_requested_at_slot = tx_slot tx, wo_protocol_version = bc_protocol_version config,
      wo_bump = find_bump rt (WithdrawalObligationPda (bc_obligation_count config)),
      wo_reserved = replicate 48 0\<rparr>"

lemma deposit_elim:
  assumes "deposit_to_reserve rt tx cx s amount glc_address = Inr (s', e)"
  obtains config w w' ua ra mint cnt ta' where
    "st_config s = Some config" "st_windows s SolanaToGoldcoin = Some w"
    "st_obligations s (bc_obligation_count config) = None"
    "\<not> bc_paused config" "\<not> bc_deposit_paused config"
    "bc_reserve_token_mint config \<noteq> pubkey_default"
    "enforce_transfer_amount config amount = Inr ()"
    "glc_address \<noteq> []" "length glc_address \<le> MAX_GLC_ADDRESS_LEN"
    "checked_add (bc_obligation_count config) 1 = Some cnt"
    "enforce_and_record_rolling_volume config w amount (tx_unix_timestamp tx) = Inr w'"
    "cx_reserve_mint cx = bc_reserve_token_mint config"
    "cx_token_program cx = bc_reserve_token_program config"
    "rt_create_program_address rt (pda_seeds ReserveAuthorityPda)
       (bc_reserve_authority_bump config) = Some (ta_owner ra)"
    "cx_reserve_token_account cx = rt_associated_token_address rt (ta_owner ra)
       (bc_reserve_token_mint config) (bc_reserve_token_program config)"
    "st_mints s (cx_reserve_mint cx) = Some mint" "validate_mint_extensions rt mint = Inr ()"
    "st_token_accounts s (cx_token_account cx) = Some ua"
    "validate_token_account_extensions rt ua = Inr ()" "ta_owner ua = cx_signer cx"
    "st_token_accounts s (cx_reserve_token_account cx) = Some ra"
    "validate_token_account_extensions rt ra = Inr ()"
    "List.member (tx_signers tx) (cx_signer cx)"
    "rt_transfer_checked rt (cx_token_program cx) (st_mints s) (st_token_accounts s)
       (cx_token_account cx) (cx_reserve_mint cx) (cx_reserve_token_account cx) (cx_signer cx)
       amount (mt_decimals mint) = Some ta'"
    "s' = s\<lparr>st_config := Some (config\<lparr>bc_obligation_count := cnt\<rparr>),
             st_obligations := (st_obligations s)(bc_obligation_count config :=
               Some (deposit_obligation rt tx cx config amount glc_address)),
             st_windows := (st_windows s)(SolanaToGoldcoin := Some w'), st_token_accounts := ta'\<rparr>"
    "e = ReserveDeposited (bc_obligation_count config) (cx_signer cx) amount glc_address"
proof -
  show thesis
    using assms unfolding settlement_defs constraint_defs
    by (clarsimp simp: Let_def) (rule that, (assumption | simp add: deposit_obligation_def)+)
qed

text \<open>The message a completion must be signed over.\<close>

definition completion_message ::
  "Runtime \<Rightarrow> BridgeConfig \<Rightarrow> AttestationKeySet \<Rightarrow> WithdrawalObligation \<Rightarrow> u64 \<Rightarrow> bytes32 \<Rightarrow> u64 \<Rightarrow> u64
    \<Rightarrow> bytes" where
  "completion_message rt config ks ob index payout_txid payout_height amount =
     goldcoin_completion_message (bc_protocol_version config) crate_ID (ks_epoch ks) index
       payout_txid payout_height amount
       (rt_hash rt (take (unat (wo_glc_address_len ob)) (wo_glc_address ob)))"

lemma completion_elim:
  assumes "record_goldcoin_completion rt tx cx s index payout_txid payout_height amount epoch
    = Inr (s', e)"
  obtains config ks ob data where
    "st_config s = Some config" "st_key_set s = Some ks" "st_obligations s index = Some ob"
    "\<not> bc_paused config" "0 < amount" "epoch = ks_epoch ks" "wo_status ob = Pending"
    "payout_record_is_unset ob" "payout_txid \<noteq> 0" "0 < payout_height"
    "get_verification_ix rt tx = Inr data"
    "require_signer_threshold ks data
       (completion_message rt config ks ob index payout_txid payout_height amount) = Inr ()"
    "s' = s\<lparr>st_obligations := (st_obligations s)(index :=
             Some ((set_payout_record ob payout_txid payout_height)\<lparr>wo_status := Completed\<rparr>))\<rparr>"
    "e = ObligationCompleted index payout_txid payout_height amount (ks_epoch ks)"
proof -
  show thesis
    using assms unfolding settlement_defs constraint_defs
    by (clarsimp simp: Let_def) (rule that, (assumption | simp add: completion_message_def)+)
qed

section \<open>A release is an attested outflow\<close>

definition release_message :: "Ctx \<Rightarrow> Chain \<Rightarrow> bytes32 \<times> u32 \<times> u64 \<times> u64 \<Rightarrow> bytes" where
  "release_message cx s = (\<lambda>(txid, vout, amount, epoch).
     (case (st_config s, st_key_set s) of
        (Some config, Some ks) \<Rightarrow> release_claim_message (bc_protocol_version config) crate_ID
          (ks_epoch ks) txid vout amount (cx_wallet cx) (bc_reserve_token_mint config)
      | _ \<Rightarrow> []))"

lemma release_outflow:
  "release_from_reserve rt tx cx s txid vout amount epoch = Inr (s', e) \<Longrightarrow>
   outflow_checks rt tx cx s amount epoch (release_message cx s (txid, vout, amount, epoch)) s'"
  unfolding settlement_defs constraint_defs outflow_checks_def
  by (clarsimp simp: Let_def release_message_def enforce_transfer_amount_ok)

interpretation release_flow: attested_outflow
  "\<lambda>rt tx cx s (txid, vout, amount, epoch). release_from_reserve rt tx cx s txid vout amount epoch"
  "\<lambda>(txid, vout, amount, epoch). amount" "\<lambda>(txid, vout, amount, epoch). epoch" release_message
  by unfold_locales (auto intro: release_outflow)

end
