(* ===== verification/Timelock.thy ===== *)
theory Timelock
  imports Program_Runtime
begin

text \<open>
  The interface of a timelocked change: key rotation, treasury allowlist and program upgrade
  are all proposed, wait out a delay read from the configuration, and are executed or
  cancelled. The lemmas are proved once for the interface; \<open>Governance\<close> and \<open>Upgrade\<close>
  interpret it.
\<close>

locale timelocked_change =
  fixes propose :: "Runtime \<Rightarrow> Tx \<Rightarrow> Ctx \<Rightarrow> Chain \<Rightarrow> 'p \<Rightarrow> outcome"
    and execute :: "Runtime \<Rightarrow> Tx \<Rightarrow> Ctx \<Rightarrow> Chain \<Rightarrow> outcome"
    and cancel :: "Runtime \<Rightarrow> Tx \<Rightarrow> Ctx \<Rightarrow> Chain \<Rightarrow> outcome"
    and pending :: "Chain \<Rightarrow> 'q option"
    and carries :: "'q \<Rightarrow> 'p \<Rightarrow> bool"
    and eta :: "'q \<Rightarrow> i64"
    and delay :: "BridgeConfig \<Rightarrow> i64"
  assumes propose_queues: "propose rt tx cx s p = Inr (s', e) \<Longrightarrow>
      pending s = None \<and> (\<exists>config q. st_config s = Some config \<and> pending s' = Some q
        \<and> carries q p \<and> eta q = tx_unix_timestamp tx + delay config)"
    and execute_due: "execute rt tx cx s = Inr (s', e) \<Longrightarrow>
      pending s' = None \<and> (\<exists>q. pending s = Some q \<and> eta q \<le> tx_unix_timestamp tx)"
    and cancel_clears: "cancel rt tx cx s = Inr (s', e) \<Longrightarrow> pending s \<noteq> None \<and> pending s' = None"
begin

lemma delay_respected:
  assumes "propose rt tx cx s p = Inr (s', e)" "pending t = pending s'" "st_config s = Some config"
    and "execute rt tx' cx' t = Inr (t', e')"
  shows "tx_unix_timestamp tx + delay config \<le> tx_unix_timestamp tx'"
  using propose_queues[OF assms(1)] execute_due[OF assms(4)] assms(2,3) by auto

lemma one_at_a_time: "pending s \<noteq> None \<Longrightarrow> \<not> is_ok (propose rt tx cx s p)"
  using propose_queues by (fastforce simp: is_ok_iff)

lemma nothing_to_execute:
  "pending s = None \<Longrightarrow> \<not> is_ok (execute rt tx cx s) \<and> \<not> is_ok (cancel rt tx cx s)"
  using execute_due cancel_clears by (fastforce simp: is_ok_iff)

lemma execute_once:
  "execute rt tx cx s = Inr (s', e) \<Longrightarrow> \<not> is_ok (execute rt tx' cx' s')"
  using nothing_to_execute execute_due by blast

end

end
