(* ===== verification/Governance.thy ===== *)
theory Governance
  imports Timelock
begin

text \<open>
  Attestation-key rotation and the treasury allowlist (\<open>instructions/governance.rs\<close>,
  \<open>instructions/rebalance_policy.rs\<close>): propose under a threshold proof, wait for the
  timelock, execute or cancel.
\<close>

section \<open>governance.rs\<close>

definition ProposeGovernanceAction ::
  "Runtime \<Rightarrow> Tx \<Rightarrow> Ctx \<Rightarrow> Chain \<Rightarrow> (BridgeConfig \<times> AttestationKeySet) handler_result" where
  "ProposeGovernanceAction rt tx cx s =
     try_bind (check_signer tx (cx_signer cx)) (\<lambda>_.
     try_bind (load_config rt s) (\<lambda>config.
     try_bind (load_key_set rt s) (\<lambda>key_set.
     try_bind (init_pda (st_pending_action s)) (\<lambda>_.
     Inr (config, key_set)))))"

definition propose_attestation_key_rotation ::
  "Runtime \<Rightarrow> Tx \<Rightarrow> Ctx \<Rightarrow> Chain \<Rightarrow> pubkey list \<Rightarrow> u8 \<Rightarrow> outcome" where
  "propose_attestation_key_rotation rt tx cx s keys threshold =
     try_bind (ProposeGovernanceAction rt tx cx s) (\<lambda>(config, key_set).
     try_bind (map_err Bridge (validate_attestation_key_set keys threshold)) (\<lambda>_.
     let params_commitment = rt_hash rt (rotation_params threshold keys);
         expected_message = governance_message (bc_protocol_version config) crate_ID
           (ks_epoch key_set) ACTION_PROPOSE_ROTATION params_commitment in
     try_bind (map_err Bridge (require_threshold_approval rt tx key_set expected_message)) (\<lambda>_.
     try_bind (ok_or (checked_add_i64 (tx_unix_timestamp tx)
       (bc_governance_timelock_seconds config)) (Bridge ArithmeticOverflow)) (\<lambda>eta.
     let key_count = word_of_nat (length keys);
         pending = \<lparr>pg_action = ACTION_PROPOSE_ROTATION, pg_proposed_under_epoch = ks_epoch key_set,
           pg_eta = eta, pg_threshold = threshold, pg_keys = keys,
           pg_bump = find_bump rt GovernanceActionPda, pg_reserved = replicate 24 0\<rparr>
     in Inr (s\<lparr>st_pending_action := Some pending\<rparr>,
             GovernanceActionProposed ACTION_PROPOSE_ROTATION (pg_proposed_under_epoch pending) eta
               threshold key_count)))))"

definition ExecuteGovernanceAction ::
  "Runtime \<Rightarrow> Tx \<Rightarrow> Ctx \<Rightarrow> Chain
    \<Rightarrow> (BridgeConfig \<times> AttestationKeySet \<times> PendingGovernanceAction) handler_result" where
  "ExecuteGovernanceAction rt tx cx s =
     try_bind (check_signer tx (cx_signer cx)) (\<lambda>_.
     try_bind (load_config rt s) (\<lambda>config.
     try_bind (load_key_set rt s) (\<lambda>key_set.
     try_bind (load_pda rt GovernanceActionPda pg_bump (st_pending_action s)) (\<lambda>pending.
     Inr (config, key_set, pending)))))"

definition execute_attestation_key_rotation :: "Runtime \<Rightarrow> Tx \<Rightarrow> Ctx \<Rightarrow> Chain \<Rightarrow> outcome" where
  "execute_attestation_key_rotation rt tx cx s =
     try_bind (ExecuteGovernanceAction rt tx cx s) (\<lambda>(config, set, pending).
     require (pg_action pending = ACTION_PROPOSE_ROTATION) (Bridge WrongGovernanceAction) (
     require (tx_unix_timestamp tx \<ge> pg_eta pending) (Bridge GovernanceTimelockNotElapsed) (
     require (ks_epoch set = pg_proposed_under_epoch pending) (Bridge StaleGovernanceProposal) (
     try_bind (map_err Bridge (validate_attestation_key_set (pg_keys pending) (pg_threshold pending)))
       (\<lambda>_.
     try_bind (ok_or (checked_add (ks_epoch set) 1) (Bridge ArithmeticOverflow)) (\<lambda>epoch.
     let set' = set\<lparr>ks_epoch := epoch, ks_threshold := pg_threshold pending,
           ks_keys := pg_keys pending\<rparr>
     in Inr (s\<lparr>st_key_set := Some set', st_pending_action := None\<rparr>,
             GovernanceActionExecuted ACTION_PROPOSE_ROTATION (ks_epoch set'))))))))"

definition CancelGovernanceAction ::
  "Runtime \<Rightarrow> Tx \<Rightarrow> Ctx \<Rightarrow> Chain
    \<Rightarrow> (BridgeConfig \<times> AttestationKeySet \<times> PendingGovernanceAction) handler_result" where
  "CancelGovernanceAction rt tx cx s =
     try_bind (check_signer tx (cx_signer cx)) (\<lambda>_.
     try_bind (load_config rt s) (\<lambda>config.
     try_bind (load_key_set rt s) (\<lambda>key_set.
     try_bind (load_pda rt GovernanceActionPda pg_bump (st_pending_action s)) (\<lambda>pending.
     Inr (config, key_set, pending)))))"

definition cancel_attestation_key_rotation :: "Runtime \<Rightarrow> Tx \<Rightarrow> Ctx \<Rightarrow> Chain \<Rightarrow> outcome" where
  "cancel_attestation_key_rotation rt tx cx s =
     try_bind (CancelGovernanceAction rt tx cx s) (\<lambda>(config, key_set, pending).
     let params_commitment = rt_hash rt (cancel_params (pg_action pending) (pg_eta pending));
         expected_message = governance_message (bc_protocol_version config) crate_ID
           (ks_epoch key_set) ACTION_CANCEL_ROTATION params_commitment in
     try_bind (map_err Bridge (require_threshold_approval rt tx key_set expected_message)) (\<lambda>_.
     Inr (s\<lparr>st_pending_action := None\<rparr>,
          GovernanceActionCancelled (pg_action pending) (pg_eta pending))))"

section \<open>rebalance_policy.rs\<close>

text \<open>The module's own copy of \<open>require_threshold_approval\<close>.\<close>

definition policy_require_threshold_approval ::
  "Runtime \<Rightarrow> Tx \<Rightarrow> AttestationKeySet \<Rightarrow> bytes \<Rightarrow> (BridgeError, unit) result" where
  "policy_require_threshold_approval rt tx key_set expected_message =
     try_bind (get_verification_ix rt tx) (\<lambda>data.
     require_signer_threshold key_set data expected_message)"

definition pack_treasuries :: "pubkey list \<Rightarrow> pubkey list" where
  "pack_treasuries treasuries =
     fold (\<lambda>(i, t) packed. packed[i := t]) (zip [0..<MAX_TREASURY_DESTINATIONS] treasuries)
       (replicate MAX_TREASURY_DESTINATIONS pubkey_default)"

definition InitializeRebalancePolicy ::
  "Runtime \<Rightarrow> Tx \<Rightarrow> Ctx \<Rightarrow> Chain \<Rightarrow> (BridgeConfig \<times> AttestationKeySet) handler_result" where
  "InitializeRebalancePolicy rt tx cx s =
     try_bind (check_signer tx (cx_signer cx)) (\<lambda>_.
     try_bind (load_config rt s) (\<lambda>config.
     require (bc_reserve_token_mint config \<noteq> pubkey_default) (Bridge ReserveNotConfigured) (
     try_bind (load_key_set rt s) (\<lambda>key_set.
     try_bind (init_pda (st_policy s)) (\<lambda>_.
     try_bind (load_reserve_mint config cx s) (\<lambda>_.
     try_bind (reserve_authority rt config) (\<lambda>authority.
     try_bind (load_associated_token_account rt cx s (cx_reserve_token_account cx) authority) (\<lambda>_.
     try_bind (check_token_program rt config cx) (\<lambda>_.
     Inr (config, key_set))))))))))"

definition initialize_rebalance_policy ::
  "Runtime \<Rightarrow> Tx \<Rightarrow> Ctx \<Rightarrow> Chain \<Rightarrow> pubkey list \<Rightarrow> outcome" where
  "initialize_rebalance_policy rt tx cx s treasuries =
     try_bind (InitializeRebalancePolicy rt tx cx s) (\<lambda>(config, key_set).
     try_bind (map_err Bridge (validate_rebalance_policy treasuries (cx_reserve_token_account cx)))
       (\<lambda>_.
     let params_commitment = rt_hash rt (rebalance_policy_params treasuries);
         expected_message = governance_message (bc_protocol_version config) crate_ID
           (ks_epoch key_set) ACTION_INITIALIZE_REBALANCE_POLICY params_commitment in
     try_bind (map_err Bridge (policy_require_threshold_approval rt tx key_set expected_message))
       (\<lambda>_.
     let policy = \<lparr>rp_version = 0, rp_bump = find_bump rt RebalancePolicyPda,
           rp_treasury_count = word_of_nat (length treasuries),
           rp_treasuries = pack_treasuries treasuries, rp_reserved = replicate 64 0\<rparr>
     in Inr (s\<lparr>st_policy := Some policy\<rparr>,
             RebalancePolicyInitialized (rp_version policy) treasuries))))"

definition ProposeRebalancePolicy ::
  "Runtime \<Rightarrow> Tx \<Rightarrow> Ctx \<Rightarrow> Chain
    \<Rightarrow> (BridgeConfig \<times> AttestationKeySet \<times> RebalancePolicy) handler_result" where
  "ProposeRebalancePolicy rt tx cx s =
     try_bind (check_signer tx (cx_signer cx)) (\<lambda>_.
     try_bind (load_config rt s) (\<lambda>config.
     try_bind (load_key_set rt s) (\<lambda>key_set.
     try_bind (load_policy rt s) (\<lambda>policy.
     try_bind (init_pda (st_pending_policy s)) (\<lambda>_.
     try_bind (load_reserve_mint config cx s) (\<lambda>_.
     try_bind (reserve_authority rt config) (\<lambda>authority.
     try_bind (load_associated_token_account rt cx s (cx_reserve_token_account cx) authority) (\<lambda>_.
     try_bind (check_token_program rt config cx) (\<lambda>_.
     Inr (config, key_set, policy))))))))))"

definition propose_rebalance_policy ::
  "Runtime \<Rightarrow> Tx \<Rightarrow> Ctx \<Rightarrow> Chain \<Rightarrow> pubkey list \<Rightarrow> outcome" where
  "propose_rebalance_policy rt tx cx s treasuries =
     try_bind (ProposeRebalancePolicy rt tx cx s) (\<lambda>(config, key_set, policy).
     try_bind (map_err Bridge (validate_rebalance_policy treasuries (cx_reserve_token_account cx)))
       (\<lambda>_.
     require (bc_governance_timelock_seconds config > 0) (Bridge ZeroGovernanceTimelock) (
     let params_commitment = rt_hash rt (rebalance_policy_params treasuries);
         expected_message = governance_message (bc_protocol_version config) crate_ID
           (ks_epoch key_set) ACTION_PROPOSE_REBALANCE_POLICY params_commitment in
     try_bind (map_err Bridge (policy_require_threshold_approval rt tx key_set expected_message))
       (\<lambda>_.
     try_bind (ok_or (checked_add_i64 (tx_unix_timestamp tx)
       (bc_governance_timelock_seconds config)) (Bridge ArithmeticOverflow)) (\<lambda>eta.
     let current_version = rp_version policy;
         pending = \<lparr>pr_proposed_under_epoch = ks_epoch key_set, pr_eta = eta,
           pr_treasury_count = word_of_nat (length treasuries),
           pr_treasuries = pack_treasuries treasuries,
           pr_bump = find_bump rt PendingRebalancePolicyPda, pr_reserved = replicate 32 0\<rparr>
     in Inr (s\<lparr>st_pending_policy := Some pending\<rparr>,
             RebalancePolicyProposed current_version eta treasuries))))))"

definition ExecuteRebalancePolicy ::
  "Runtime \<Rightarrow> Tx \<Rightarrow> Ctx \<Rightarrow> Chain
    \<Rightarrow> (BridgeConfig \<times> AttestationKeySet \<times> RebalancePolicy \<times> PendingRebalancePolicy) handler_result"
  where
  "ExecuteRebalancePolicy rt tx cx s =
     try_bind (check_signer tx (cx_signer cx)) (\<lambda>_.
     try_bind (load_config rt s) (\<lambda>config.
     try_bind (load_key_set rt s) (\<lambda>key_set.
     try_bind (load_policy rt s) (\<lambda>policy.
     try_bind (load_pda rt PendingRebalancePolicyPda pr_bump (st_pending_policy s)) (\<lambda>pending.
     try_bind (load_reserve_mint config cx s) (\<lambda>_.
     try_bind (reserve_authority rt config) (\<lambda>authority.
     try_bind (load_associated_token_account rt cx s (cx_reserve_token_account cx) authority) (\<lambda>_.
     try_bind (check_token_program rt config cx) (\<lambda>_.
     Inr (config, key_set, policy, pending))))))))))"

definition execute_rebalance_policy :: "Runtime \<Rightarrow> Tx \<Rightarrow> Ctx \<Rightarrow> Chain \<Rightarrow> outcome" where
  "execute_rebalance_policy rt tx cx s =
     try_bind (ExecuteRebalancePolicy rt tx cx s) (\<lambda>(config, key_set, policy, pending).
     require (tx_unix_timestamp tx \<ge> pr_eta pending) (Bridge RebalancePolicyTimelockNotElapsed) (
     require (ks_epoch key_set = pr_proposed_under_epoch pending)
       (Bridge StaleRebalancePolicyProposal) (
     let cnt = min (unat (pr_treasury_count pending)) MAX_TREASURY_DESTINATIONS;
         treasuries = take cnt (pr_treasuries pending) in
     try_bind (map_err Bridge (validate_rebalance_policy treasuries (cx_reserve_token_account cx)))
       (\<lambda>_.
     let previous_version = rp_version policy in
     try_bind (ok_or (checked_add (rp_version policy) 1) (Bridge ArithmeticOverflow)) (\<lambda>version.
     let policy' = policy\<lparr>rp_version := version, rp_treasury_count := word_of_nat cnt,
           rp_treasuries := pack_treasuries treasuries\<rparr>
     in Inr (s\<lparr>st_policy := Some policy', st_pending_policy := None\<rparr>,
             RebalancePolicyExecuted previous_version (rp_version policy') treasuries))))))"

definition CancelRebalancePolicy ::
  "Runtime \<Rightarrow> Tx \<Rightarrow> Ctx \<Rightarrow> Chain
    \<Rightarrow> (BridgeConfig \<times> AttestationKeySet \<times> PendingRebalancePolicy) handler_result" where
  "CancelRebalancePolicy rt tx cx s =
     try_bind (check_signer tx (cx_signer cx)) (\<lambda>_.
     try_bind (load_config rt s) (\<lambda>config.
     try_bind (load_key_set rt s) (\<lambda>key_set.
     try_bind (load_pda rt PendingRebalancePolicyPda pr_bump (st_pending_policy s)) (\<lambda>pending.
     Inr (config, key_set, pending)))))"

definition cancel_rebalance_policy :: "Runtime \<Rightarrow> Tx \<Rightarrow> Ctx \<Rightarrow> Chain \<Rightarrow> outcome" where
  "cancel_rebalance_policy rt tx cx s =
     try_bind (CancelRebalancePolicy rt tx cx s) (\<lambda>(config, key_set, pending).
     let params_commitment =
           rt_hash rt (cancel_params ACTION_PROPOSE_REBALANCE_POLICY (pr_eta pending));
         expected_message = governance_message (bc_protocol_version config) crate_ID
           (ks_epoch key_set) ACTION_CANCEL_REBALANCE_POLICY params_commitment in
     try_bind (map_err Bridge (policy_require_threshold_approval rt tx key_set expected_message))
       (\<lambda>_.
     Inr (s\<lparr>st_pending_policy := None\<rparr>, RebalancePolicyCancelled (pr_eta pending))))"

section \<open>What a successful call has checked and done\<close>

lemmas governance_defs =
  propose_attestation_key_rotation_def ProposeGovernanceAction_def
  execute_attestation_key_rotation_def ExecuteGovernanceAction_def
  cancel_attestation_key_rotation_def CancelGovernanceAction_def

lemmas policy_defs =
  initialize_rebalance_policy_def InitializeRebalancePolicy_def
  propose_rebalance_policy_def ProposeRebalancePolicy_def
  execute_rebalance_policy_def ExecuteRebalancePolicy_def
  cancel_rebalance_policy_def CancelRebalancePolicy_def

lemma policy_approval_same: "policy_require_threshold_approval = require_threshold_approval"
  by (simp add: fun_eq_iff policy_require_threshold_approval_def require_threshold_approval_def)

text \<open>The messages the attestation keys sign for these instructions.\<close>

definition rotation_message ::
  "Runtime \<Rightarrow> BridgeConfig \<Rightarrow> AttestationKeySet \<Rightarrow> pubkey list \<Rightarrow> u8 \<Rightarrow> bytes" where
  "rotation_message rt config ks keys threshold =
     governance_message (bc_protocol_version config) crate_ID (ks_epoch ks)
       ACTION_PROPOSE_ROTATION (rt_hash rt (rotation_params threshold keys))"

definition policy_message ::
  "Runtime \<Rightarrow> BridgeConfig \<Rightarrow> AttestationKeySet \<Rightarrow> u8 \<Rightarrow> pubkey list \<Rightarrow> bytes" where
  "policy_message rt config ks action treasuries =
     governance_message (bc_protocol_version config) crate_ID (ks_epoch ks)
       action (rt_hash rt (rebalance_policy_params treasuries))"

lemma propose_rotation_elim:
  assumes "propose_attestation_key_rotation rt tx cx s keys threshold = Inr (s', e)"
  obtains config ks where
    "st_config s = Some config" "st_key_set s = Some ks" "st_pending_action s = None"
    "valid_key_set keys threshold"
    "require_threshold_approval rt tx ks (rotation_message rt config ks keys threshold) = Inr ()"
    "is_i64 (tx_unix_timestamp tx + bc_governance_timelock_seconds config)"
    "s' = s\<lparr>st_pending_action := Some \<lparr>pg_action = ACTION_PROPOSE_ROTATION,
       pg_proposed_under_epoch = ks_epoch ks,
       pg_eta = tx_unix_timestamp tx + bc_governance_timelock_seconds config,
       pg_threshold = threshold, pg_keys = keys, pg_bump = find_bump rt GovernanceActionPda,
       pg_reserved = replicate 24 0\<rparr>\<rparr>"
proof -
  show thesis
    using assms unfolding governance_defs constraint_defs
    by (clarsimp simp: Let_def validate_attestation_key_set_iff checked_add_i64_eq_Some)
      (rule that, (assumption | simp add: rotation_message_def)+)
qed

lemma execute_rotation_elim:
  assumes "execute_attestation_key_rotation rt tx cx s = Inr (s', e)"
  obtains config ks pending epoch where
    "st_config s = Some config" "st_key_set s = Some ks" "st_pending_action s = Some pending"
    "pg_eta pending \<le> tx_unix_timestamp tx" "ks_epoch ks = pg_proposed_under_epoch pending"
    "valid_key_set (pg_keys pending) (pg_threshold pending)"
    "checked_add (ks_epoch ks) 1 = Some epoch"
    "s' = s\<lparr>st_key_set := Some (ks\<lparr>ks_epoch := epoch, ks_threshold := pg_threshold pending,
       ks_keys := pg_keys pending\<rparr>), st_pending_action := None\<rparr>"
    "e = GovernanceActionExecuted ACTION_PROPOSE_ROTATION epoch"
proof -
  show thesis
    using assms unfolding governance_defs constraint_defs
    by (clarsimp simp: Let_def validate_attestation_key_set_iff)
      (rule that, (assumption | simp)+)
qed

lemma cancel_rotation_elim:
  assumes "cancel_attestation_key_rotation rt tx cx s = Inr (s', e)"
  obtains config ks pending where
    "st_config s = Some config" "st_key_set s = Some ks" "st_pending_action s = Some pending"
    "require_threshold_approval rt tx ks (governance_message (bc_protocol_version config) crate_ID
       (ks_epoch ks) ACTION_CANCEL_ROTATION
       (rt_hash rt (cancel_params (pg_action pending) (pg_eta pending)))) = Inr ()"
    "s' = s\<lparr>st_pending_action := None\<rparr>"
proof -
  show thesis
    using assms unfolding governance_defs constraint_defs
    by (clarsimp simp: Let_def) (rule that, (assumption | simp)+)
qed

lemma initialize_policy_elim:
  assumes "initialize_rebalance_policy rt tx cx s treasuries = Inr (s', e)"
  obtains config ks auth where
    "st_config s = Some config" "st_key_set s = Some ks" "st_policy s = None"
    "bc_reserve_token_mint config \<noteq> pubkey_default"
    "rt_create_program_address rt (pda_seeds ReserveAuthorityPda)
       (bc_reserve_authority_bump config) = Some auth"
    "cx_reserve_token_account cx = rt_associated_token_address rt auth
       (bc_reserve_token_mint config) (bc_reserve_token_program config)"
    "valid_allowlist treasuries (cx_reserve_token_account cx)"
    "require_threshold_approval rt tx ks
       (policy_message rt config ks ACTION_INITIALIZE_REBALANCE_POLICY treasuries) = Inr ()"
    "s' = s\<lparr>st_policy := Some \<lparr>rp_version = 0, rp_bump = find_bump rt RebalancePolicyPda,
       rp_treasury_count = word_of_nat (length treasuries),
       rp_treasuries = pack_treasuries treasuries, rp_reserved = replicate 64 0\<rparr>\<rparr>"
proof -
  show thesis
    using assms unfolding policy_defs constraint_defs policy_approval_same
    by (clarsimp simp: Let_def validate_rebalance_policy_iff)
      (rule that, (assumption | simp add: policy_message_def)+)
qed

lemma propose_policy_elim:
  assumes "propose_rebalance_policy rt tx cx s treasuries = Inr (s', e)"
  obtains config ks policy where
    "st_config s = Some config" "st_key_set s = Some ks" "st_policy s = Some policy"
    "st_pending_policy s = None" "valid_allowlist treasuries (cx_reserve_token_account cx)"
    "require_threshold_approval rt tx ks
       (policy_message rt config ks ACTION_PROPOSE_REBALANCE_POLICY treasuries) = Inr ()"
    "is_i64 (tx_unix_timestamp tx + bc_governance_timelock_seconds config)"
    "s' = s\<lparr>st_pending_policy := Some \<lparr>pr_proposed_under_epoch = ks_epoch ks,
       pr_eta = tx_unix_timestamp tx + bc_governance_timelock_seconds config,
       pr_treasury_count = word_of_nat (length treasuries),
       pr_treasuries = pack_treasuries treasuries,
       pr_bump = find_bump rt PendingRebalancePolicyPda, pr_reserved = replicate 32 0\<rparr>\<rparr>"
proof -
  show thesis
    using assms unfolding policy_defs constraint_defs policy_approval_same
    by (clarsimp simp: Let_def validate_rebalance_policy_iff checked_add_i64_eq_Some)
      (rule that, (assumption | simp add: policy_message_def)+)
qed

text \<open>The allowlist entries of a pending proposal.\<close>

definition pending_treasuries :: "PendingRebalancePolicy \<Rightarrow> pubkey list" where
  "pending_treasuries pending =
     take (min (unat (pr_treasury_count pending)) MAX_TREASURY_DESTINATIONS) (pr_treasuries pending)"

lemma execute_policy_elim:
  assumes "execute_rebalance_policy rt tx cx s = Inr (s', e)"
  obtains config ks policy pending auth version where
    "st_config s = Some config" "st_key_set s = Some ks" "st_policy s = Some policy"
    "st_pending_policy s = Some pending" "pr_eta pending \<le> tx_unix_timestamp tx"
    "ks_epoch ks = pr_proposed_under_epoch pending"
    "rt_create_program_address rt (pda_seeds ReserveAuthorityPda)
       (bc_reserve_authority_bump config) = Some auth"
    "cx_reserve_token_account cx = rt_associated_token_address rt auth
       (bc_reserve_token_mint config) (bc_reserve_token_program config)"
    "valid_allowlist (pending_treasuries pending) (cx_reserve_token_account cx)"
    "checked_add (rp_version policy) 1 = Some version"
    "s' = s\<lparr>st_policy := Some (policy\<lparr>rp_version := version,
       rp_treasury_count := word_of_nat (min (unat (pr_treasury_count pending)) MAX_TREASURY_DESTINATIONS),
       rp_treasuries := pack_treasuries (pending_treasuries pending)\<rparr>), st_pending_policy := None\<rparr>"
proof -
  show thesis
    using assms unfolding policy_defs constraint_defs
    by (clarsimp simp: Let_def validate_rebalance_policy_iff pending_treasuries_def[symmetric])
      (rule that, (assumption | simp)+)
qed

lemma cancel_policy_elim:
  assumes "cancel_rebalance_policy rt tx cx s = Inr (s', e)"
  obtains config ks pending where
    "st_config s = Some config" "st_key_set s = Some ks" "st_pending_policy s = Some pending"
    "require_threshold_approval rt tx ks (governance_message (bc_protocol_version config) crate_ID
       (ks_epoch ks) ACTION_CANCEL_REBALANCE_POLICY
       (rt_hash rt (cancel_params ACTION_PROPOSE_REBALANCE_POLICY (pr_eta pending)))) = Inr ()"
    "s' = s\<lparr>st_pending_policy := None\<rparr>"
proof -
  show thesis
    using assms unfolding policy_defs constraint_defs policy_approval_same
    by (clarsimp simp: Let_def) (rule that, (assumption | simp)+)
qed

section \<open>The packed allowlist\<close>

lemma pack_treasuries_eq:
  assumes "length ts \<le> MAX_TREASURY_DESTINATIONS"
  shows "pack_treasuries ts = ts @ replicate (MAX_TREASURY_DESTINATIONS - length ts) pubkey_default"
proof -
  have upd: "length xs = n \<Longrightarrow>
    fold (\<lambda>(i, t) packed. packed[i := t]) (zip [n..<n + length ys] ts) (xs @ ys)
      = xs @ take (length ys) ts @ drop (length ts) ys" for xs ys ts :: "pubkey list" and n
  proof (induction ts arbitrary: xs ys n)
    case (Cons t ts)
    show ?case
    proof (cases ys)
      case (Cons y ys')
      have "[n..<n + length (y # ys')] = n # [Suc n..<Suc n + length ys']"
        by (simp add: upt_conv_Cons del: upt_Suc)
      then show ?thesis
        using Cons.IH[of "xs @ [t]" "Suc n" ys'] Cons.prems Cons
        by (simp add: list_update_append)
    qed simp
  qed simp
  show ?thesis
    using upd[of "[]" 0 "replicate MAX_TREASURY_DESTINATIONS pubkey_default" ts] assms
    by (simp add: pack_treasuries_def)
qed

lemma length_pack_treasuries:
  "length ts \<le> MAX_TREASURY_DESTINATIONS \<Longrightarrow> length (pack_treasuries ts) = MAX_TREASURY_DESTINATIONS"
  by (simp add: pack_treasuries_eq)

lemma treasury_count_unat:
  "length ts \<le> MAX_TREASURY_DESTINATIONS \<Longrightarrow> unat (word_of_nat (length ts) :: u8) = length ts"
  by (simp add: MAX_TREASURY_DESTINATIONS_def unat_of_nat)

lemma packed_treasuries_roundtrip:
  assumes "length ts \<le> MAX_TREASURY_DESTINATIONS"
  shows "take (min (unat (word_of_nat (length ts) :: u8)) MAX_TREASURY_DESTINATIONS)
    (pack_treasuries ts) = ts"
  using assms by (simp add: treasury_count_unat pack_treasuries_eq)

lemma allowlisted_iff:
  assumes "length ts \<le> MAX_TREASURY_DESTINATIONS"
    and "rp_treasury_count p = word_of_nat (length ts)" "rp_treasuries p = pack_treasuries ts"
  shows "is_allowlisted p d \<longleftrightarrow> d \<in> set ts"
  using packed_treasuries_roundtrip[OF assms(1)] assms(2,3)
  by (simp add: is_allowlisted_def Let_def)

section \<open>Both changes are timelocked\<close>

interpretation rotation: timelocked_change
  "\<lambda>rt tx cx s (keys, threshold). propose_attestation_key_rotation rt tx cx s keys threshold"
  execute_attestation_key_rotation cancel_attestation_key_rotation st_pending_action
  "\<lambda>q (keys, threshold). pg_keys q = keys \<and> pg_threshold q = threshold"
  pg_eta bc_governance_timelock_seconds
proof (unfold_locales, goal_cases)
  case (1 rt tx cx s p s' e)
  then show ?case by (cases p) (auto elim!: propose_rotation_elim)
next
  case (2 rt tx cx s s' e)
  then show ?case by (auto elim!: execute_rotation_elim)
next
  case (3 rt tx cx s s' e)
  then show ?case by (auto elim!: cancel_rotation_elim)
qed

interpretation policy: timelocked_change
  propose_rebalance_policy execute_rebalance_policy cancel_rebalance_policy st_pending_policy
  "\<lambda>q treasuries. pending_treasuries q = treasuries" pr_eta bc_governance_timelock_seconds
proof (unfold_locales, goal_cases)
  case (1 rt tx cx s p s' e)
  then show ?case
    by (auto elim!: propose_policy_elim
        simp: pending_treasuries_def packed_treasuries_roundtrip valid_allowlist_def)
next
  case (2 rt tx cx s s' e)
  then show ?case by (auto elim!: execute_policy_elim)
next
  case (3 rt tx cx s s' e)
  then show ?case by (auto elim!: cancel_policy_elim)
qed

end
