(* ===== verification/Withdrawals.thy ===== *)
theory Withdrawals
  imports Reserve_Outflow
begin

text \<open>
  Operator withdrawals from the paused bridge (\<open>instructions/treasury_withdraw.rs\<close>,
  \<open>instructions/refund_withdraw.rs\<close>) and the retired \<open>instructions/rebalance_withdraw.rs\<close>.
\<close>

section \<open>rebalance_withdraw.rs (retired)\<close>

definition RebalanceWithdraw :: "Runtime \<Rightarrow> Tx \<Rightarrow> Ctx \<Rightarrow> Chain \<Rightarrow> u64 \<Rightarrow> unit handler_result" where
  "RebalanceWithdraw rt tx cx s nonce =
     try_bind (check_signer tx (cx_signer cx)) (\<lambda>_.
     try_bind (load_config rt s) (\<lambda>config.
     require (bc_admin config = cx_signer cx) (Bridge UnauthorizedAdmin) (
     require (bc_reserve_token_mint config \<noteq> pubkey_default) (Bridge ReserveNotConfigured) (
     try_bind (load_key_set rt s) (\<lambda>_.
     try_bind (init_pda (st_withdrawals s nonce)) (\<lambda>_.
     try_bind (load_reserve_mint config cx s) (\<lambda>_.
     try_bind (reserve_authority rt config) (\<lambda>authority.
     try_bind (load_associated_token_account rt cx s (cx_reserve_token_account cx) authority) (\<lambda>_.
     try_bind (load_token_account cx s (cx_token_account cx)) (\<lambda>_.
     check_token_program rt config cx))))))))))"

definition rebalance_withdraw ::
  "Runtime \<Rightarrow> Tx \<Rightarrow> Ctx \<Rightarrow> Chain \<Rightarrow> u64 \<Rightarrow> u64 \<Rightarrow> u64 \<Rightarrow> outcome" where
  "rebalance_withdraw rt tx cx s nonce amount attestation_epoch =
     try_bind (RebalanceWithdraw rt tx cx s nonce) (\<lambda>_.
     Inl (Bridge RebalanceWithdrawRetired))"

section \<open>treasury_withdraw.rs\<close>

definition TreasuryWithdraw ::
  "Runtime \<Rightarrow> Tx \<Rightarrow> Ctx \<Rightarrow> Chain \<Rightarrow> u64
    \<Rightarrow> (BridgeConfig \<times> AttestationKeySet \<times> RebalancePolicy \<times> Mint \<times> pubkey \<times> TokenAccount
        \<times> TokenAccount) handler_result" where
  "TreasuryWithdraw rt tx cx s nonce =
     try_bind (check_signer tx (cx_signer cx)) (\<lambda>_.
     try_bind (load_config rt s) (\<lambda>config.
     require (bc_admin config = cx_signer cx) (Bridge UnauthorizedAdmin) (
     require (bc_reserve_token_mint config \<noteq> pubkey_default) (Bridge ReserveNotConfigured) (
     try_bind (load_key_set rt s) (\<lambda>key_set.
     try_bind (load_policy rt s) (\<lambda>policy.
     try_bind (init_pda (st_withdrawals s nonce)) (\<lambda>_.
     try_bind (load_reserve_mint config cx s) (\<lambda>mint.
     try_bind (reserve_authority rt config) (\<lambda>authority.
     try_bind (load_associated_token_account rt cx s (cx_reserve_token_account cx) authority)
       (\<lambda>reserve_account.
     try_bind (load_token_account cx s (cx_token_account cx)) (\<lambda>destination_account.
     try_bind (check_token_program rt config cx) (\<lambda>_.
     Inr (config, key_set, policy, mint, authority, reserve_account, destination_account)
     ))))))))))))"

definition treasury_withdraw ::
  "Runtime \<Rightarrow> Tx \<Rightarrow> Ctx \<Rightarrow> Chain \<Rightarrow> u64 \<Rightarrow> u64 \<Rightarrow> u64 \<Rightarrow> outcome" where
  "treasury_withdraw rt tx cx s nonce amount attestation_epoch =
     try_bind (TreasuryWithdraw rt tx cx s nonce)
       (\<lambda>(config, key_set, policy, mint, authority, reserve_account, destination_account).
     let destination = cx_token_account cx;
         reserve_token_account = cx_reserve_token_account cx in
     require (bc_paused config) (Bridge BridgeNotPaused) (
     require (attestation_epoch = ks_epoch key_set) (Bridge StaleAttestationEpoch) (
     require (amount > 0) (Bridge ZeroRebalanceAmount) (
     require (and nonce NONCE_DOMAIN_REFUND = 0) (Bridge WrongNonceNamespace) (
     require (rp_treasury_count policy \<ge> 1
         \<and> unat (rp_treasury_count policy) \<le> MAX_TREASURY_DESTINATIONS)
       (Bridge InvalidRebalancePolicy) (
     require (is_allowlisted policy destination) (Bridge DestinationNotAllowlisted) (
     require (destination \<noteq> reserve_token_account) (Bridge RebalanceDestinationIsReserveItself) (
     try_bind (map_err Bridge (validate_mint_extensions rt mint)) (\<lambda>_.
     try_bind (map_err Bridge (validate_token_account_extensions rt reserve_account)) (\<lambda>_.
     try_bind (map_err Bridge (validate_token_account_extensions rt destination_account)) (\<lambda>_.
     let reserve_balance_before = ta_amount reserve_account in
     try_bind (map_err Bridge (enforce_protected_minimum reserve_balance_before
       (bc_protected_minimum config) amount)) (\<lambda>_.
     try_bind (map_err Bridge (get_verification_ix rt tx)) (\<lambda>data.
     let expected_message = treasury_withdraw_claim_message (bc_protocol_version config) crate_ID
           (ks_epoch key_set) nonce amount destination (bc_reserve_token_mint config)
           reserve_token_account (rp_version policy) in
     try_bind (map_err Bridge (require_signer_threshold key_set data expected_message)) (\<lambda>_.
     try_bind (transfer_checked rt cx s reserve_token_account destination authority amount
       (mt_decimals mint)) (\<lambda>token_accounts'.
     let record = \<lparr>rw_nonce = nonce, rw_amount = amount, rw_destination = destination,
           rw_admin = cx_signer cx, rw_attestation_epoch = attestation_epoch,
           rw_protocol_version = bc_protocol_version config, rw_slot_created = tx_slot tx,
           rw_bump = find_bump rt (RebalanceWithdrawalPda nonce),
           rw_reserved = (replicate 16 0)[0 := WITHDRAWAL_CLASS_TREASURY]\<rparr> in
     try_bind (ok_or (checked_sub reserve_balance_before amount) (Bridge ArithmeticUnderflow))
       (\<lambda>reserve_balance_after.
     Inr (s\<lparr>st_withdrawals := (st_withdrawals s)(nonce := Some record),
            st_token_accounts := token_accounts'\<rparr>,
          RebalanceWithdrawalExecuted nonce (rw_destination record) amount
            (rw_attestation_epoch record) (rw_admin record) reserve_balance_after
            WITHDRAWAL_CLASS_TREASURY)))))))))))))))))"

section \<open>refund_withdraw.rs\<close>

definition RefundWithdraw ::
  "Runtime \<Rightarrow> Tx \<Rightarrow> Ctx \<Rightarrow> Chain \<Rightarrow> u64 \<Rightarrow> u64
    \<Rightarrow> (BridgeConfig \<times> AttestationKeySet \<times> WithdrawalObligation \<times> Mint \<times> pubkey \<times> TokenAccount
        \<times> TokenAccount) handler_result" where
  "RefundWithdraw rt tx cx s nonce obligation_index =
     try_bind (check_signer tx (cx_signer cx)) (\<lambda>_.
     try_bind (load_config rt s) (\<lambda>config.
     require (bc_admin config = cx_signer cx) (Bridge UnauthorizedAdmin) (
     require (bc_reserve_token_mint config \<noteq> pubkey_default) (Bridge ReserveNotConfigured) (
     try_bind (load_key_set rt s) (\<lambda>key_set.
     try_bind (load_obligation rt s obligation_index) (\<lambda>obligation.
     require (cx_wallet cx = wo_requester obligation) ConstraintViolated (
     try_bind (init_pda (st_withdrawals s nonce)) (\<lambda>_.
     try_bind (load_reserve_mint config cx s) (\<lambda>mint.
     try_bind (reserve_authority rt config) (\<lambda>authority.
     try_bind (load_associated_token_account rt cx s (cx_reserve_token_account cx) authority)
       (\<lambda>reserve_account.
     try_bind (load_associated_token_account rt cx s (cx_token_account cx) (cx_wallet cx))
       (\<lambda>destination_account.
     try_bind (check_token_program rt config cx) (\<lambda>_.
     Inr (config, key_set, obligation, mint, authority, reserve_account, destination_account)
     )))))))))))))"

definition refund_withdraw ::
  "Runtime \<Rightarrow> Tx \<Rightarrow> Ctx \<Rightarrow> Chain \<Rightarrow> u64 \<Rightarrow> u64 \<Rightarrow> u64 \<Rightarrow> u64 \<Rightarrow> outcome" where
  "refund_withdraw rt tx cx s nonce amount attestation_epoch obligation_index =
     try_bind (RefundWithdraw rt tx cx s nonce obligation_index)
       (\<lambda>(config, key_set, obligation, mint, authority, reserve_account, destination_account).
     let destination = cx_token_account cx;
         reserve_token_account = cx_reserve_token_account cx in
     require (bc_paused config) (Bridge BridgeNotPaused) (
     require (attestation_epoch = ks_epoch key_set) (Bridge StaleAttestationEpoch) (
     require (amount > 0) (Bridge ZeroRebalanceAmount) (
     require (and nonce NONCE_DOMAIN_REFUND \<noteq> 0) (Bridge WrongNonceNamespace) (
     require (wo_status obligation = Pending) (Bridge ObligationNotPending) (
     require (amount = wo_amount obligation) (Bridge RefundAmountMismatch) (
     try_bind (map_err Bridge (validate_mint_extensions rt mint)) (\<lambda>_.
     try_bind (map_err Bridge (validate_token_account_extensions rt reserve_account)) (\<lambda>_.
     try_bind (map_err Bridge (validate_token_account_extensions rt destination_account)) (\<lambda>_.
     let reserve_balance_before = ta_amount reserve_account in
     try_bind (map_err Bridge (enforce_protected_minimum reserve_balance_before
       (bc_protected_minimum config) amount)) (\<lambda>_.
     try_bind (map_err Bridge (get_verification_ix rt tx)) (\<lambda>data.
     let expected_message = refund_withdraw_claim_message (bc_protocol_version config) crate_ID
           (ks_epoch key_set) nonce amount destination (bc_reserve_token_mint config)
           reserve_token_account obligation_index (wo_requester obligation) in
     try_bind (map_err Bridge (require_signer_threshold key_set data expected_message)) (\<lambda>_.
     try_bind (transfer_checked rt cx s reserve_token_account destination authority amount
       (mt_decimals mint)) (\<lambda>token_accounts'.
     let record = \<lparr>rw_nonce = nonce, rw_amount = amount, rw_destination = destination,
           rw_admin = cx_signer cx, rw_attestation_epoch = attestation_epoch,
           rw_protocol_version = bc_protocol_version config, rw_slot_created = tx_slot tx,
           rw_bump = find_bump rt (RebalanceWithdrawalPda nonce),
           rw_reserved = (replicate 16 0)[0 := WITHDRAWAL_CLASS_REFUND]\<rparr> in
     try_bind (ok_or (checked_sub reserve_balance_before amount) (Bridge ArithmeticUnderflow))
       (\<lambda>reserve_balance_after.
     Inr (s\<lparr>st_withdrawals := (st_withdrawals s)(nonce := Some record),
            st_obligations := (st_obligations s)
              (obligation_index := Some (obligation\<lparr>wo_status := Refunded\<rparr>)),
            st_token_accounts := token_accounts'\<rparr>,
          RebalanceWithdrawalExecuted nonce destination amount attestation_epoch (cx_signer cx)
            reserve_balance_after WITHDRAWAL_CLASS_REFUND))))))))))))))))"

section \<open>What a successful call has checked and done\<close>

lemmas withdrawal_defs =
  treasury_withdraw_def TreasuryWithdraw_def refund_withdraw_def RefundWithdraw_def

text \<open>The record either withdrawal leaves under its nonce.\<close>

definition withdrawal_record ::
  "Runtime \<Rightarrow> Tx \<Rightarrow> Ctx \<Rightarrow> BridgeConfig \<Rightarrow> u64 \<Rightarrow> u64 \<Rightarrow> u64 \<Rightarrow> u8 \<Rightarrow> RebalanceWithdrawal" where
  "withdrawal_record rt tx cx config nonce amount epoch class =
     \<lparr>rw_nonce = nonce, rw_amount = amount, rw_destination = cx_token_account cx,
      rw_admin = cx_signer cx, rw_attestation_epoch = epoch,
      rw_protocol_version = bc_protocol_version config, rw_slot_created = tx_slot tx,
      rw_bump = find_bump rt (RebalanceWithdrawalPda nonce),
      rw_reserved = (replicate 16 0)[0 := class]\<rparr>"

lemma treasury_elim:
  assumes "treasury_withdraw rt tx cx s nonce amount epoch = Inr (s', e)"
  obtains config ks policy after ta' where
    "st_config s = Some config" "st_key_set s = Some ks" "st_policy s = Some policy"
    "st_withdrawals s nonce = None" "List.member (tx_signers tx) (bc_admin config)"
    "bc_admin config = cx_signer cx" "bc_paused config" "epoch = ks_epoch ks" "0 < amount"
    "and nonce NONCE_DOMAIN_REFUND = 0" "is_allowlisted policy (cx_token_account cx)"
    "cx_token_account cx \<noteq> cx_reserve_token_account cx"
    "s' = s\<lparr>st_withdrawals := (st_withdrawals s)(nonce := Some (withdrawal_record rt tx cx config
               nonce amount epoch WITHDRAWAL_CLASS_TREASURY)), st_token_accounts := ta'\<rparr>"
    "e = RebalanceWithdrawalExecuted nonce (cx_token_account cx) amount epoch (cx_signer cx) after
       WITHDRAWAL_CLASS_TREASURY"
proof -
  show thesis
    using assms unfolding withdrawal_defs constraint_defs
    by (clarsimp simp: Let_def) (rule that, (assumption | simp add: withdrawal_record_def)+)
qed

lemma refund_elim:
  assumes "refund_withdraw rt tx cx s nonce amount epoch index = Inr (s', e)"
  obtains config ks ob after ta' where
    "st_config s = Some config" "st_key_set s = Some ks" "st_obligations s index = Some ob"
    "st_withdrawals s nonce = None" "List.member (tx_signers tx) (bc_admin config)"
    "bc_admin config = cx_signer cx" "bc_paused config" "epoch = ks_epoch ks" "0 < amount"
    "and nonce NONCE_DOMAIN_REFUND \<noteq> 0" "wo_status ob = Pending" "amount = wo_amount ob"
    "cx_wallet cx = wo_requester ob"
    "cx_token_account cx = rt_associated_token_address rt (wo_requester ob)
       (bc_reserve_token_mint config) (bc_reserve_token_program config)"
    "s' = s\<lparr>st_withdrawals := (st_withdrawals s)(nonce := Some (withdrawal_record rt tx cx config
               nonce amount epoch WITHDRAWAL_CLASS_REFUND)),
             st_obligations := (st_obligations s)(index := Some (ob\<lparr>wo_status := Refunded\<rparr>)),
             st_token_accounts := ta'\<rparr>"
    "e = RebalanceWithdrawalExecuted nonce (cx_token_account cx) amount epoch (cx_signer cx) after
       WITHDRAWAL_CLASS_REFUND"
proof -
  show thesis
    using assms unfolding withdrawal_defs constraint_defs
    by (clarsimp simp: Let_def) (rule that, (assumption | simp add: withdrawal_record_def)+)
qed

lemma rebalance_withdraw_retired: "\<not> is_ok (rebalance_withdraw rt tx cx s nonce amount epoch)"
  by (simp add: rebalance_withdraw_def is_ok_def split: sum.splits)

section \<open>Both are attested outflows\<close>

definition treasury_message :: "Ctx \<Rightarrow> Chain \<Rightarrow> u64 \<times> u64 \<times> u64 \<Rightarrow> bytes" where
  "treasury_message cx s = (\<lambda>(nonce, amount, epoch).
     (case (st_config s, st_key_set s, st_policy s) of
        (Some config, Some ks, Some policy) \<Rightarrow>
          treasury_withdraw_claim_message (bc_protocol_version config) crate_ID (ks_epoch ks) nonce
            amount (cx_token_account cx) (bc_reserve_token_mint config)
            (cx_reserve_token_account cx) (rp_version policy)
      | _ \<Rightarrow> []))"

definition refund_message :: "Ctx \<Rightarrow> Chain \<Rightarrow> u64 \<times> u64 \<times> u64 \<times> u64 \<Rightarrow> bytes" where
  "refund_message cx s = (\<lambda>(nonce, amount, epoch, index).
     (case (st_config s, st_key_set s, st_obligations s index) of
        (Some config, Some ks, Some ob) \<Rightarrow>
          refund_withdraw_claim_message (bc_protocol_version config) crate_ID (ks_epoch ks) nonce
            amount (cx_token_account cx) (bc_reserve_token_mint config)
            (cx_reserve_token_account cx) index (wo_requester ob)
      | _ \<Rightarrow> []))"

lemma treasury_outflow:
  "treasury_withdraw rt tx cx s nonce amount epoch = Inr (s', e) \<Longrightarrow>
   outflow_checks rt tx cx s amount epoch (treasury_message cx s (nonce, amount, epoch)) s'"
  unfolding withdrawal_defs constraint_defs outflow_checks_def
  by (clarsimp simp: Let_def treasury_message_def)

lemma refund_outflow:
  "refund_withdraw rt tx cx s nonce amount epoch index = Inr (s', e) \<Longrightarrow>
   outflow_checks rt tx cx s amount epoch (refund_message cx s (nonce, amount, epoch, index)) s'"
  unfolding withdrawal_defs constraint_defs outflow_checks_def
  by (clarsimp simp: Let_def refund_message_def)

interpretation treasury_flow: attested_outflow
  "\<lambda>rt tx cx s (nonce, amount, epoch). treasury_withdraw rt tx cx s nonce amount epoch"
  "\<lambda>(nonce, amount, epoch). amount" "\<lambda>(nonce, amount, epoch). epoch" treasury_message
  by unfold_locales (auto intro: treasury_outflow)

interpretation refund_flow: attested_outflow
  "\<lambda>rt tx cx s (nonce, amount, epoch, index). refund_withdraw rt tx cx s nonce amount epoch index"
  "\<lambda>(nonce, amount, epoch, index). amount" "\<lambda>(nonce, amount, epoch, index). epoch" refund_message
  by unfold_locales (auto intro: refund_outflow)

end
