(* ===== verification/Upgrade.thy ===== *)
theory Upgrade
  imports Timelock
begin

text \<open>
  The timelocked program upgrade (\<open>instructions/upgrade_timelock.rs\<close>): the handover of the
  program's upgrade authority to its own PDA, and propose, cancel and execute of an upgrade
  to one buffer. The loader's two instructions are parameters of the runtime.
\<close>

definition AcceptUpgradeAuthority ::
  "Runtime \<Rightarrow> Tx \<Rightarrow> Ctx \<Rightarrow> Chain \<Rightarrow> pubkey handler_result" where
  "AcceptUpgradeAuthority rt tx cx s =
     try_bind (check_signer tx (cx_signer cx)) (\<lambda>_.
     try_bind (load_config rt s) (\<lambda>_.
     require (cx_program_data cx = rt_programdata_address rt) (Bridge UnauthorizedInitializer) (
     require (pd_upgrade_authority_address (st_program_data s) = Some (cx_signer cx))
       (Bridge NotCurrentUpgradeAuthority) (
     Inr (find_pda rt UpgradeAuthorityPda)))))"

definition accept_upgrade_authority :: "Runtime \<Rightarrow> Tx \<Rightarrow> Ctx \<Rightarrow> Chain \<Rightarrow> outcome" where
  "accept_upgrade_authority rt tx cx s =
     try_bind (AcceptUpgradeAuthority rt tx cx s) (\<lambda>upgrade_authority_pda.
     try_bind (ok_or (rt_set_upgrade_authority_checked rt (st_program_data s) (cx_signer cx)
       upgrade_authority_pda) CpiFailed) (\<lambda>program_data'.
     Inr (s\<lparr>st_program_data := program_data'\<rparr>,
          UpgradeAuthorityAccepted (cx_signer cx) upgrade_authority_pda)))"

definition ProposeUpgrade :: "Runtime \<Rightarrow> Tx \<Rightarrow> Ctx \<Rightarrow> Chain \<Rightarrow> BridgeConfig handler_result" where
  "ProposeUpgrade rt tx cx s =
     try_bind (check_signer tx (cx_signer cx)) (\<lambda>_.
     try_bind (load_config rt s) (\<lambda>config.
     require (bc_admin config = cx_signer cx) (Bridge UnauthorizedAdmin) (
     try_bind (init_pda (st_pending_upgrade s)) (\<lambda>_.
     Inr config))))"

definition propose_upgrade :: "Runtime \<Rightarrow> Tx \<Rightarrow> Ctx \<Rightarrow> Chain \<Rightarrow> pubkey \<Rightarrow> outcome" where
  "propose_upgrade rt tx cx s buffer_address =
     try_bind (ProposeUpgrade rt tx cx s) (\<lambda>config.
     require (bc_upgrade_timelock_seconds config > 0) (Bridge ZeroUpgradeTimelock) (
     let now = tx_unix_timestamp tx in
     try_bind (ok_or (checked_add_i64 now (bc_upgrade_timelock_seconds config))
       (Bridge ArithmeticOverflow)) (\<lambda>eta.
     let pending = \<lparr>pu_buffer_address = buffer_address, pu_proposed_at = now, pu_eta = eta,
           pu_proposed_by = cx_signer cx, pu_bump = find_bump rt PendingUpgradePda,
           pu_reserved = replicate 16 0\<rparr>
     in Inr (s\<lparr>st_pending_upgrade := Some pending\<rparr>,
             ProgramUpgradeProposed buffer_address eta (cx_signer cx)))))"

definition CancelUpgrade :: "Runtime \<Rightarrow> Tx \<Rightarrow> Ctx \<Rightarrow> Chain \<Rightarrow> PendingProgramUpgrade handler_result" where
  "CancelUpgrade rt tx cx s =
     try_bind (check_signer tx (cx_signer cx)) (\<lambda>_.
     try_bind (load_config rt s) (\<lambda>config.
     require (bc_admin config = cx_signer cx) (Bridge UnauthorizedAdmin) (
     load_pda rt PendingUpgradePda pu_bump (st_pending_upgrade s))))"

definition cancel_upgrade :: "Runtime \<Rightarrow> Tx \<Rightarrow> Ctx \<Rightarrow> Chain \<Rightarrow> outcome" where
  "cancel_upgrade rt tx cx s =
     try_bind (CancelUpgrade rt tx cx s) (\<lambda>pending.
     Inr (s\<lparr>st_pending_upgrade := None\<rparr>,
          ProgramUpgradeCancelled (pu_buffer_address pending) (pu_eta pending)))"

definition ExecuteUpgrade ::
  "Runtime \<Rightarrow> Tx \<Rightarrow> Ctx \<Rightarrow> Chain \<Rightarrow> (PendingProgramUpgrade \<times> pubkey) handler_result" where
  "ExecuteUpgrade rt tx cx s =
     try_bind (check_signer tx (cx_signer cx)) (\<lambda>_.
     try_bind (load_config rt s) (\<lambda>_.
     try_bind (load_pda rt PendingUpgradePda pu_bump (st_pending_upgrade s)) (\<lambda>pending.
     require (cx_program_data cx = rt_programdata_address rt) ConstraintViolated (
     Inr (pending, find_pda rt UpgradeAuthorityPda)))))"

definition execute_upgrade :: "Runtime \<Rightarrow> Tx \<Rightarrow> Ctx \<Rightarrow> Chain \<Rightarrow> outcome" where
  "execute_upgrade rt tx cx s =
     try_bind (ExecuteUpgrade rt tx cx s) (\<lambda>(pending, upgrade_authority_pda).
     require (tx_unix_timestamp tx \<ge> pu_eta pending) (Bridge UpgradeTimelockNotElapsed) (
     require (cx_buffer cx = pu_buffer_address pending) (Bridge WrongUpgradeBuffer) (
     require (pd_upgrade_authority_address (st_program_data s) = Some upgrade_authority_pda)
       (Bridge UpgradeAuthorityNotYetAccepted) (
     let buffer_address = pu_buffer_address pending in
     try_bind (ok_or (rt_upgrade rt (st_program_data s) buffer_address upgrade_authority_pda)
       CpiFailed) (\<lambda>program_data'.
     Inr (s\<lparr>st_program_data := program_data', st_pending_upgrade := None\<rparr>,
          ProgramUpgradeExecuted buffer_address))))))"

section \<open>What a successful call has checked and done\<close>

lemmas upgrade_defs =
  accept_upgrade_authority_def AcceptUpgradeAuthority_def propose_upgrade_def ProposeUpgrade_def
  cancel_upgrade_def CancelUpgrade_def execute_upgrade_def ExecuteUpgrade_def

lemma accept_authority_elim:
  assumes "accept_upgrade_authority rt tx cx s = Inr (s', e)"
  obtains pd where
    "pd_upgrade_authority_address (st_program_data s) = Some (cx_signer cx)"
    "cx_signer cx \<in> set (tx_signers tx)"
    "rt_set_upgrade_authority_checked rt (st_program_data s) (cx_signer cx)
       (find_pda rt UpgradeAuthorityPda) = Some pd"
    "s' = s\<lparr>st_program_data := pd\<rparr>"
proof -
  show thesis
    using assms unfolding upgrade_defs constraint_defs
    by (clarsimp simp: Let_def) (rule that, (assumption | simp)+)
qed

lemma propose_upgrade_elim:
  assumes "propose_upgrade rt tx cx s buffer = Inr (s', e)"
  obtains config where
    "st_config s = Some config" "bc_admin config = cx_signer cx" "cx_signer cx \<in> set (tx_signers tx)"
    "st_pending_upgrade s = None" "0 < bc_upgrade_timelock_seconds config"
    "is_i64 (tx_unix_timestamp tx + bc_upgrade_timelock_seconds config)"
    "s' = s\<lparr>st_pending_upgrade := Some \<lparr>pu_buffer_address = buffer,
       pu_proposed_at = tx_unix_timestamp tx,
       pu_eta = tx_unix_timestamp tx + bc_upgrade_timelock_seconds config,
       pu_proposed_by = cx_signer cx, pu_bump = find_bump rt PendingUpgradePda,
       pu_reserved = replicate 16 0\<rparr>\<rparr>"
proof -
  show thesis
    using assms unfolding upgrade_defs constraint_defs
    by (clarsimp simp: Let_def checked_add_i64_eq_Some) (rule that, (assumption | simp)+)
qed

lemma cancel_upgrade_elim:
  assumes "cancel_upgrade rt tx cx s = Inr (s', e)"
  obtains config pending where
    "st_config s = Some config" "bc_admin config = cx_signer cx"
    "st_pending_upgrade s = Some pending" "s' = s\<lparr>st_pending_upgrade := None\<rparr>"
proof -
  show thesis
    using assms unfolding upgrade_defs constraint_defs
    by (clarsimp simp: Let_def) (rule that, (assumption | simp)+)
qed

lemma execute_upgrade_elim:
  assumes "execute_upgrade rt tx cx s = Inr (s', e)"
  obtains pending pd where
    "st_pending_upgrade s = Some pending" "pu_eta pending \<le> tx_unix_timestamp tx"
    "pd_upgrade_authority_address (st_program_data s) = Some (find_pda rt UpgradeAuthorityPda)"
    "rt_upgrade rt (st_program_data s) (pu_buffer_address pending)
       (find_pda rt UpgradeAuthorityPda) = Some pd"
    "s' = s\<lparr>st_program_data := pd, st_pending_upgrade := None\<rparr>"
    "e = ProgramUpgradeExecuted (pu_buffer_address pending)"
proof -
  show thesis
    using assms unfolding upgrade_defs constraint_defs
    by (clarsimp simp: Let_def) (rule that, (assumption | simp)+)
qed

interpretation upgrade: timelocked_change
  propose_upgrade execute_upgrade cancel_upgrade st_pending_upgrade
  "\<lambda>q buffer. pu_buffer_address q = buffer" pu_eta bc_upgrade_timelock_seconds
proof (unfold_locales, goal_cases)
  case (1 rt tx cx s p s' e)
  then show ?case by (auto elim!: propose_upgrade_elim)
next
  case (2 rt tx cx s s' e)
  then show ?case by (auto elim!: execute_upgrade_elim)
next
  case (3 rt tx cx s s' e)
  then show ?case by (auto elim!: cancel_upgrade_elim)
qed

end
