(* ===== verification/Program.thy ===== *)
theory Program
  imports Admin Settlement Governance Withdrawals Upgrade
begin

text \<open>
  The program as a whole: the instruction set of \<open>lib.rs\<close> and its dispatch, executions as
  sequences of accepted instructions interleaved with what the rest of the chain may do, how
  each kind of account can change in one step, and the invariant of reachable states.
\<close>

section \<open>Instructions and dispatch\<close>

datatype (plugins only: code) Instruction =
    IxInitialize "pubkey list" u8 i64 u64 u64 u64 u64 i64 i64
  | IxInitializeReserveVault
  | IxSetPaused PauseScope bool
  | IxSetLimit LimitField u64
  | IxTransferAdmin pubkey
  | IxAcceptAdmin
  | IxResetRollingVolumeWindow Direction
  | IxProposeAttestationKeyRotation "pubkey list" u8
  | IxExecuteAttestationKeyRotation
  | IxCancelAttestationKeyRotation
  | IxReleaseFromReserve bytes32 u32 u64 u64
  | IxDepositToReserve u64 bytes
  | IxRecordGoldcoinCompletion u64 bytes32 u64 u64 u64
  | IxAcceptUpgradeAuthority
  | IxProposeUpgrade pubkey
  | IxExecuteUpgrade
  | IxCancelUpgrade
  | IxRebalanceWithdraw u64 u64 u64
  | IxTreasuryWithdraw u64 u64 u64
  | IxRefundWithdraw u64 u64 u64 u64
  | IxInitializeRebalancePolicy "pubkey list"
  | IxProposeRebalancePolicy "pubkey list"
  | IxExecuteRebalancePolicy
  | IxCancelRebalancePolicy

fun process_instruction :: "Runtime \<Rightarrow> Tx \<Rightarrow> Ctx \<Rightarrow> Instruction \<Rightarrow> Chain \<Rightarrow> outcome" where
  "process_instruction rt tx cx (IxInitialize keys threshold gov_lock min_t per_t prot roll_lim
     roll_win up_lock) s =
     initialize rt tx cx s keys threshold gov_lock min_t per_t prot roll_lim roll_win up_lock"
| "process_instruction rt tx cx IxInitializeReserveVault s = initialize_reserve_vault rt tx cx s"
| "process_instruction rt tx cx (IxSetPaused scope paused) s = set_paused rt tx cx s scope paused"
| "process_instruction rt tx cx (IxSetLimit field v) s = set_limit rt tx cx s field v"
| "process_instruction rt tx cx (IxTransferAdmin new_admin) s = transfer_admin rt tx cx s new_admin"
| "process_instruction rt tx cx IxAcceptAdmin s = accept_admin rt tx cx s"
| "process_instruction rt tx cx (IxResetRollingVolumeWindow d) s =
     reset_rolling_volume_window rt tx cx s d"
| "process_instruction rt tx cx (IxProposeAttestationKeyRotation keys threshold) s =
     propose_attestation_key_rotation rt tx cx s keys threshold"
| "process_instruction rt tx cx IxExecuteAttestationKeyRotation s =
     execute_attestation_key_rotation rt tx cx s"
| "process_instruction rt tx cx IxCancelAttestationKeyRotation s =
     cancel_attestation_key_rotation rt tx cx s"
| "process_instruction rt tx cx (IxReleaseFromReserve txid vout amount epoch) s =
     release_from_reserve rt tx cx s txid vout amount epoch"
| "process_instruction rt tx cx (IxDepositToReserve amount glc_address) s =
     deposit_to_reserve rt tx cx s amount glc_address"
| "process_instruction rt tx cx (IxRecordGoldcoinCompletion index payout_txid height amount epoch) s =
     record_goldcoin_completion rt tx cx s index payout_txid height amount epoch"
| "process_instruction rt tx cx IxAcceptUpgradeAuthority s = accept_upgrade_authority rt tx cx s"
| "process_instruction rt tx cx (IxProposeUpgrade buffer) s = propose_upgrade rt tx cx s buffer"
| "process_instruction rt tx cx IxExecuteUpgrade s = execute_upgrade rt tx cx s"
| "process_instruction rt tx cx IxCancelUpgrade s = cancel_upgrade rt tx cx s"
| "process_instruction rt tx cx (IxRebalanceWithdraw nonce amount epoch) s =
     rebalance_withdraw rt tx cx s nonce amount epoch"
| "process_instruction rt tx cx (IxTreasuryWithdraw nonce amount epoch) s =
     treasury_withdraw rt tx cx s nonce amount epoch"
| "process_instruction rt tx cx (IxRefundWithdraw nonce amount epoch index) s =
     refund_withdraw rt tx cx s nonce amount epoch index"
| "process_instruction rt tx cx (IxInitializeRebalancePolicy treasuries) s =
     initialize_rebalance_policy rt tx cx s treasuries"
| "process_instruction rt tx cx (IxProposeRebalancePolicy treasuries) s =
     propose_rebalance_policy rt tx cx s treasuries"
| "process_instruction rt tx cx IxExecuteRebalancePolicy s = execute_rebalance_policy rt tx cx s"
| "process_instruction rt tx cx IxCancelRebalancePolicy s = cancel_rebalance_policy rt tx cx s"

text \<open>The \<open>i64\<close> values a transaction carries are in range.\<close>

definition well_typed :: "Tx \<Rightarrow> Instruction \<Rightarrow> bool" where
  "well_typed tx ix \<longleftrightarrow> is_i64 (tx_unix_timestamp tx) \<and>
     (case ix of IxInitialize _ _ gov_lock _ _ _ _ roll_win up_lock \<Rightarrow>
        is_i64 gov_lock \<and> is_i64 roll_win \<and> is_i64 up_lock | _ \<Rightarrow> True)"

section \<open>Executions\<close>

text \<open>
  Between two instructions of the program, other programs may change mints and token
  accounts, but cannot take tokens from an account the program's authority owns; and whoever
  holds the upgrade authority may use it while it is not the program's own PDA. A failed
  instruction leaves the state as it was, so only accepted ones appear.
\<close>

definition external_change :: "Runtime \<Rightarrow> Chain \<Rightarrow> Chain \<Rightarrow> bool" where
  "external_change rt s s' \<longleftrightarrow>
     (\<exists>mints accounts pd.
        s' = s\<lparr>st_mints := mints, st_token_accounts := accounts, st_program_data := pd\<rparr>
        \<and> (\<forall>k a. st_token_accounts s k = Some a \<and> ta_owner a = find_pda rt ReserveAuthorityPda \<longrightarrow>
             (\<exists>b. accounts k = Some b \<and> ta_owner b = ta_owner a \<and> ta_mint b = ta_mint a
                \<and> ta_program b = ta_program a \<and> ta_amount a \<le> ta_amount b))
        \<and> (pd = st_program_data s
           \<or> pd_upgrade_authority_address (st_program_data s) \<noteq> Some (find_pda rt UpgradeAuthorityPda)))"

datatype step =
    Ran (ran_tx: Tx) (ran_cx: Ctx) (ran_ix: Instruction) (ran_event: BridgeEvent)
  | External

inductive exec :: "Runtime \<Rightarrow> Chain \<Rightarrow> step list \<Rightarrow> Chain \<Rightarrow> bool" for rt s0 where
  exec_start: "exec rt s0 [] s0"
| exec_ran: "exec rt s0 tr s \<Longrightarrow> well_typed tx ix \<Longrightarrow> process_instruction rt tx cx ix s = Inr (s', e)
    \<Longrightarrow> exec rt s0 (tr @ [Ran tx cx ix e]) s'"
| exec_external: "exec rt s0 tr s \<Longrightarrow> external_change rt s s' \<Longrightarrow> exec rt s0 (tr @ [External]) s'"

inductive_cases exec_NilE: "exec rt s0 [] s"

text \<open>The state right after deployment: no account of the program exists.\<close>

definition deployed :: "Chain \<Rightarrow> bool" where
  "deployed s \<longleftrightarrow>
     st_config s = None \<and> st_key_set s = None \<and> (\<forall>d. st_windows s d = None)
     \<and> (\<forall>c. st_claims s c = None) \<and> (\<forall>i. st_obligations s i = None)
     \<and> (\<forall>n. st_withdrawals s n = None) \<and> st_policy s = None \<and> st_pending_policy s = None
     \<and> st_pending_action s = None \<and> st_pending_upgrade s = None"

definition reachable :: "Runtime \<Rightarrow> Chain \<Rightarrow> bool" where
  "reachable rt s \<longleftrightarrow> (\<exists>s0 tr. deployed s0 \<and> exec rt s0 tr s)"

section \<open>How each kind of account changes\<close>

lemmas handler_elims =
  initialize_elim reserve_vault_elim set_paused_elim set_limit_elim transfer_admin_elim
  accept_admin_elim reset_window_elim propose_rotation_elim execute_rotation_elim
  cancel_rotation_elim release_elim deposit_elim completion_elim accept_authority_elim
  propose_upgrade_elim execute_upgrade_elim cancel_upgrade_elim treasury_elim refund_elim
  initialize_policy_elim propose_policy_elim execute_policy_elim cancel_policy_elim

lemma no_rebalance_withdraw [simp]: "rebalance_withdraw rt tx cx s n a ep = Inr r \<longleftrightarrow> False"
  using rebalance_withdraw_retired[of rt tx cx s n a ep] by (cases r) (auto simp: is_ok_iff)

lemma key_set_changes:
  assumes "process_instruction rt tx cx ix s = Inr (s', e)"
  shows "st_key_set s' = st_key_set s
    \<or> (\<exists>ks. st_key_set s = None \<and> st_key_set s' = Some ks \<and> valid_keys ks \<and> ks_epoch ks = 0
         \<and> ks_bump ks = find_bump rt AttestationKeySetPda)
    \<or> (\<exists>ks pending epoch. ix = IxExecuteAttestationKeyRotation \<and> st_key_set s = Some ks
         \<and> st_pending_action s = Some pending \<and> pg_eta pending \<le> tx_unix_timestamp tx
         \<and> ks_epoch ks = pg_proposed_under_epoch pending
         \<and> valid_key_set (pg_keys pending) (pg_threshold pending)
         \<and> checked_add (ks_epoch ks) 1 = Some epoch
         \<and> st_key_set s' = Some (ks\<lparr>ks_epoch := epoch, ks_threshold := pg_threshold pending,
              ks_keys := pg_keys pending\<rparr>))"
  using assms by (cases ix) (auto simp: valid_keys_def elim!: handler_elims)

lemma claims_change:
  assumes "process_instruction rt tx cx ix s = Inr (s', e)"
  shows "st_claims s' = st_claims s
    \<or> (\<exists>txid vout amount epoch config ks.
         ix = IxReleaseFromReserve txid vout amount epoch \<and> st_claims s (txid, vout) = None
         \<and> enforce_transfer_amount config amount = Inr ()
         \<and> st_config s = Some config \<and> st_key_set s = Some ks
         \<and> st_claims s' = (st_claims s)((txid, vout) :=
             Some (release_claim rt tx cx config ks txid vout amount)))"
  using assms by (cases ix) (auto elim!: handler_elims)

lemma obligations_change:
  assumes "process_instruction rt tx cx ix s = Inr (s', e)"
  shows "st_obligations s' = st_obligations s
    \<or> (\<exists>amount glc config. ix = IxDepositToReserve amount glc \<and> st_config s = Some config
         \<and> st_obligations s (bc_obligation_count config) = None
         \<and> enforce_transfer_amount config amount = Inr ()
         \<and> glc \<noteq> [] \<and> length glc \<le> MAX_GLC_ADDRESS_LEN
         \<and> st_obligations s' = (st_obligations s)(bc_obligation_count config :=
             Some (deposit_obligation rt tx cx config amount glc)))
    \<or> (\<exists>index txid height amount epoch ob. ix = IxRecordGoldcoinCompletion index txid height amount epoch
         \<and> st_obligations s index = Some ob \<and> wo_status ob = Pending \<and> txid \<noteq> 0 \<and> 0 < height
         \<and> st_obligations s' = (st_obligations s)(index :=
             Some ((set_payout_record ob txid height)\<lparr>wo_status := Completed\<rparr>)))
    \<or> (\<exists>nonce amount epoch index ob. ix = IxRefundWithdraw nonce amount epoch index
         \<and> st_obligations s index = Some ob \<and> wo_status ob = Pending \<and> amount = wo_amount ob
         \<and> st_obligations s' = (st_obligations s)(index := Some (ob\<lparr>wo_status := Refunded\<rparr>)))"
  using assms by (cases ix) (auto elim!: handler_elims)

lemma withdrawals_change:
  assumes "process_instruction rt tx cx ix s = Inr (s', e)"
  shows "st_withdrawals s' = st_withdrawals s
    \<or> (\<exists>nonce amount epoch config. ix = IxTreasuryWithdraw nonce amount epoch
         \<and> st_withdrawals s nonce = None \<and> and nonce NONCE_DOMAIN_REFUND = 0 \<and> 0 < amount
         \<and> st_withdrawals s' = (st_withdrawals s)(nonce := Some (withdrawal_record rt tx cx config
             nonce amount epoch WITHDRAWAL_CLASS_TREASURY)))
    \<or> (\<exists>nonce amount epoch index config. ix = IxRefundWithdraw nonce amount epoch index
         \<and> st_withdrawals s nonce = None \<and> and nonce NONCE_DOMAIN_REFUND \<noteq> 0 \<and> 0 < amount
         \<and> st_withdrawals s' = (st_withdrawals s)(nonce := Some (withdrawal_record rt tx cx config
             nonce amount epoch WITHDRAWAL_CLASS_REFUND)))"
  using assms by (cases ix) (auto elim!: handler_elims)

lemma config_changes:
  assumes "process_instruction rt tx cx ix s = Inr (s', e)"
  shows "st_config s' = st_config s
    \<or> (\<exists>keys threshold gov_lock min_t per_t prot roll_lim roll_win up_lock config.
         ix = IxInitialize keys threshold gov_lock min_t per_t prot roll_lim roll_win up_lock
         \<and> st_config s = None \<and> st_config s' = Some config
         \<and> bc_governance_timelock_seconds config = gov_lock \<and> 0 < gov_lock
         \<and> bc_upgrade_timelock_seconds config = up_lock \<and> 0 < up_lock
         \<and> bc_rolling_window_seconds config = roll_win \<and> 0 < roll_win
         \<and> 0 < bc_per_transfer_limit config \<and> 0 < bc_rolling_volume_limit config
         \<and> bc_bump config = find_bump rt BridgeConfigPda \<and> bc_obligation_count config = 0
         \<and> bc_reserve_token_mint config = pubkey_default)
    \<or> (\<exists>config. ix = IxInitializeReserveVault \<and> st_config s = Some config
         \<and> bc_reserve_token_mint config = pubkey_default
         \<and> st_config s' = Some (config\<lparr>bc_reserve_token_mint := cx_reserve_mint cx,
               bc_reserve_token_program := cx_token_program cx,
               bc_reserve_authority_bump := find_bump rt ReserveAuthorityPda\<rparr>))
    \<or> (\<exists>config config'. st_config s = Some config \<and> st_config s' = Some config'
         \<and> admin_fields_only config config'
         \<and> (\<forall>amount glc. ix \<noteq> IxDepositToReserve amount glc))
    \<or> (\<exists>config cnt amount glc. ix = IxDepositToReserve amount glc \<and> st_config s = Some config
         \<and> bc_reserve_token_mint config \<noteq> pubkey_default
         \<and> checked_add (bc_obligation_count config) 1 = Some cnt
         \<and> st_config s' = Some (config\<lparr>bc_obligation_count := cnt\<rparr>))"
  using assms by (cases ix) (auto elim!: handler_elims)

lemma pending_action_changes:
  assumes "process_instruction rt tx cx ix s = Inr (s', e)"
  shows "st_pending_action s' = st_pending_action s \<or> st_pending_action s' = None
    \<or> (\<exists>keys threshold. ix = IxProposeAttestationKeyRotation keys threshold)"
  using assms by (cases ix) (auto elim!: handler_elims)

lemma pending_policy_changes:
  assumes "process_instruction rt tx cx ix s = Inr (s', e)"
  shows "st_pending_policy s' = st_pending_policy s \<or> st_pending_policy s' = None
    \<or> (\<exists>ts. ix = IxProposeRebalancePolicy ts)"
  using assms by (cases ix) (auto elim!: handler_elims)

lemma pending_upgrade_changes:
  assumes "process_instruction rt tx cx ix s = Inr (s', e)"
  shows "st_pending_upgrade s' = st_pending_upgrade s \<or> st_pending_upgrade s' = None
    \<or> (\<exists>buffer. ix = IxProposeUpgrade buffer)"
  using assms by (cases ix) (auto elim!: handler_elims)

lemma policy_changes:
  assumes "process_instruction rt tx cx ix s = Inr (s', e)"
  shows "st_policy s' = st_policy s
    \<or> (\<exists>ts. ix = IxInitializeRebalancePolicy ts) \<or> ix = IxExecuteRebalancePolicy"
  using assms by (cases ix) (auto elim!: handler_elims)

lemma token_accounts_change:
  assumes "process_instruction rt tx cx ix s = Inr (s', e)"
  shows "st_token_accounts s' = st_token_accounts s \<or> ix = IxInitializeReserveVault
    \<or> (\<exists>txid vout amount epoch. ix = IxReleaseFromReserve txid vout amount epoch)
    \<or> (\<exists>amount glc. ix = IxDepositToReserve amount glc)
    \<or> (\<exists>nonce amount epoch. ix = IxTreasuryWithdraw nonce amount epoch)
    \<or> (\<exists>nonce amount epoch index. ix = IxRefundWithdraw nonce amount epoch index)"
  using assms by (cases ix) (auto elim!: handler_elims)

lemma program_data_changes:
  assumes "process_instruction rt tx cx ix s = Inr (s', e)"
  shows "st_program_data s' = st_program_data s \<or> ix = IxAcceptUpgradeAuthority
    \<or> ix = IxExecuteUpgrade"
  using assms by (cases ix) (auto elim!: handler_elims)

end
