(* ===== verification/Program_Invariants.thy ===== *)
theory Program_Invariants
  imports Program
begin

text \<open>
  The invariants of reachable states, each an interpretation of the locale
  \<open>step_invariant\<close>: the configuration and key set are always valid, obligations are numbered
  without gaps and well formed for their status, claims and withdrawal records match their
  keys, and the treasury allowlist is valid.
\<close>

section \<open>Invariants of reachable states\<close>

locale step_invariant =
  fixes rt :: Runtime and inv :: "Chain \<Rightarrow> bool"
  assumes inv_deployed: "deployed s \<Longrightarrow> inv s"
    and inv_ran: "inv s \<Longrightarrow> well_typed tx ix \<Longrightarrow> process_instruction rt tx cx ix s = Inr (s', e)
      \<Longrightarrow> inv s'"
    and inv_external: "inv s \<Longrightarrow> external_change rt s s' \<Longrightarrow> inv s'"
begin

lemma inv_exec: "exec rt s0 tr s \<Longrightarrow> inv s0 \<Longrightarrow> inv s"
  by (induction rule: exec.induct) (auto intro: inv_ran inv_external)

lemma inv_reachable: "reachable rt s \<Longrightarrow> inv s"
  using inv_exec inv_deployed by (auto simp: reachable_def)

end

lemma external_frame [simp]:
  assumes "external_change rt s s'"
  shows "st_config s' = st_config s" "st_key_set s' = st_key_set s" "st_windows s' = st_windows s"
    "st_claims s' = st_claims s" "st_obligations s' = st_obligations s"
    "st_withdrawals s' = st_withdrawals s" "st_policy s' = st_policy s"
    "st_pending_policy s' = st_pending_policy s" "st_pending_action s' = st_pending_action s"
    "st_pending_upgrade s' = st_pending_upgrade s"
  using assms by (auto simp: external_change_def)

subsection \<open>Configuration and key set\<close>

definition wf_config :: "Runtime \<Rightarrow> BridgeConfig \<Rightarrow> bool" where
  "wf_config rt c \<longleftrightarrow>
     0 < bc_governance_timelock_seconds c \<and> is_i64 (bc_governance_timelock_seconds c)
     \<and> 0 < bc_upgrade_timelock_seconds c \<and> is_i64 (bc_upgrade_timelock_seconds c)
     \<and> 0 < bc_rolling_window_seconds c \<and> is_i64 (bc_rolling_window_seconds c)
     \<and> 0 < bc_per_transfer_limit c \<and> 0 < bc_rolling_volume_limit c
     \<and> bc_bump c = find_bump rt BridgeConfigPda \<and> canonical_reserve_bump rt c"

definition config_inv :: "Runtime \<Rightarrow> Chain \<Rightarrow> bool" where
  "config_inv rt s \<longleftrightarrow> (\<forall>c. st_config s = Some c \<longrightarrow> wf_config rt c)"

definition keys_inv :: "Runtime \<Rightarrow> Chain \<Rightarrow> bool" where
  "keys_inv rt s \<longleftrightarrow>
     (\<forall>ks. st_key_set s = Some ks \<longrightarrow>
        valid_keys ks \<and> ks_bump ks = find_bump rt AttestationKeySetPda)"

lemma admin_fields_wf:
  "admin_fields_only c c' \<Longrightarrow> wf_config rt c \<Longrightarrow> wf_config rt c'"
  by (auto simp: admin_fields_only_def wf_config_def canonical_reserve_bump_def)

interpretation config: step_invariant rt "config_inv rt" for rt
proof (unfold_locales, goal_cases)
  case (2 s tx ix cx s' e)
  from config_changes[OF 2(3)] 2(1,2) admin_fields_wf show ?case
    by (fastforce simp: config_inv_def wf_config_def canonical_reserve_bump_def well_typed_def)
qed (simp_all add: config_inv_def deployed_def)

interpretation keys: step_invariant rt "keys_inv rt" for rt
proof (unfold_locales, goal_cases)
  case (2 s tx ix cx s' e)
  from key_set_changes[OF 2(3)] 2(1) show ?case
    by (auto simp: keys_inv_def valid_keys_def)
qed (simp_all add: keys_inv_def deployed_def)

subsection \<open>Obligations\<close>

text \<open>
  Obligations are numbered without gaps below the counter; a record is well formed for its
  status, and the payout record is filled exactly when the obligation is completed.
\<close>

definition wf_obligation :: "Runtime \<Rightarrow> u64 \<Rightarrow> WithdrawalObligation \<Rightarrow> bool" where
  "wf_obligation rt i ob \<longleftrightarrow>
     wo_index ob = i \<and> 0 < wo_amount ob \<and> wo_bump ob = find_bump rt (WithdrawalObligationPda i)
     \<and> length (wo_glc_address ob) = 64 \<and> length (wo_reserved ob) = 48
     \<and> 1 \<le> unat (wo_glc_address_len ob) \<and> unat (wo_glc_address_len ob) \<le> 64
     \<and> (case wo_status ob of
          Pending \<Rightarrow> payout_record_is_unset ob
        | Broadcast \<Rightarrow> False
        | Completed \<Rightarrow> (\<exists>txid height. payout_record ob = Some (txid, height) \<and> txid \<noteq> 0 \<and> 0 < height)
        | Refunded \<Rightarrow> payout_record_is_unset ob)"

definition obligation_count :: "Chain \<Rightarrow> u64" where
  "obligation_count s = (case st_config s of None \<Rightarrow> 0 | Some c \<Rightarrow> bc_obligation_count c)"

definition obligations_inv :: "Runtime \<Rightarrow> Chain \<Rightarrow> bool" where
  "obligations_inv rt s \<longleftrightarrow>
     (\<forall>i. st_obligations s i \<noteq> None \<longleftrightarrow> i < obligation_count s)
     \<and> (\<forall>i ob. st_obligations s i = Some ob \<longrightarrow> wf_obligation rt i ob)"

lemma deposit_obligation_wf:
  assumes "glc \<noteq> []" "length glc \<le> MAX_GLC_ADDRESS_LEN" "0 < amount"
  shows "wf_obligation rt (bc_obligation_count c) (deposit_obligation rt tx cx c amount glc)"
proof -
  have "unat (word_of_nat (length glc) :: u8) = length glc"
    using assms(2) by (simp add: MAX_GLC_ADDRESS_LEN_def unat_of_nat)
  then show ?thesis
    using assms by (auto simp: wf_obligation_def deposit_obligation_def MAX_GLC_ADDRESS_LEN_def
        payout_record_is_unset_def list_all_iff Suc_le_eq)
qed

lemma completed_obligation_wf:
  "wf_obligation rt i ob \<Longrightarrow> txid \<noteq> 0 \<Longrightarrow> 0 < height \<Longrightarrow>
   wf_obligation rt i ((set_payout_record ob txid height)\<lparr>wo_status := Completed\<rparr>)"
  using length_set_payout_record[of ob txid height] payout_record_set[of ob txid height]
  by (auto simp: wf_obligation_def set_payout_record_def)

lemma refunded_obligation_wf:
  "wf_obligation rt i ob \<Longrightarrow> wo_status ob = Pending \<Longrightarrow> wf_obligation rt i (ob\<lparr>wo_status := Refunded\<rparr>)"
  by (auto simp: wf_obligation_def payout_record_is_unset_def)

lemma less_count_step:
  fixes i n m :: u64
  assumes "checked_add n 1 = Some m"
  shows "i < m \<longleftrightarrow> i < n \<or> i = n"
  using checked_add_unat[OF assms] assms
  by (auto simp: word_less_nat_alt word_unat_eq_iff checked_add_def split: if_splits)

lemma obligation_count_step:
  assumes "process_instruction rt tx cx ix s = Inr (s', e)" "\<nexists>amount glc. ix = IxDepositToReserve amount glc"
  shows "obligation_count s' = obligation_count s"
  using config_changes[OF assms(1)] assms(2) by (auto simp: obligation_count_def admin_fields_only_def)

interpretation obligations: step_invariant rt "obligations_inv rt" for rt
proof (unfold_locales, goal_cases)
  case (2 s tx ix cx s' e)
  show ?case
  proof (cases "\<exists>amount glc. ix = IxDepositToReserve amount glc")
    case True
    then obtain amount glc where ix: "ix = IxDepositToReserve amount glc" by blast
    with 2(3) have "deposit_to_reserve rt tx cx s amount glc = Inr (s', e)" by simp
    then show ?thesis
      by (rule deposit_elim)
        (use 2(1) deposit_obligation_wf less_count_step in
          \<open>auto simp: obligations_inv_def obligation_count_def enforce_transfer_amount_ok\<close>)
  next
    case False
    have "st_obligations s' i \<noteq> None \<longleftrightarrow> st_obligations s i \<noteq> None"
      "st_obligations s' i = Some ob' \<Longrightarrow> wf_obligation rt i ob'" for i ob'
      using obligations_change[OF 2(3)] False 2(1) completed_obligation_wf refunded_obligation_wf
      by (auto simp: obligations_inv_def split: if_splits)
    then show ?thesis
      using obligation_count_step[OF 2(3) False] 2(1) by (simp add: obligations_inv_def)
  qed
qed (simp_all add: obligations_inv_def deployed_def obligation_count_def)

subsection \<open>Claims and withdrawal records\<close>

definition claims_inv :: "Runtime \<Rightarrow> Chain \<Rightarrow> bool" where
  "claims_inv rt s \<longleftrightarrow>
     (\<forall>txid vout c. st_claims s (txid, vout) = Some c \<longrightarrow>
        dc_txid c = txid \<and> dc_vout c = vout \<and> 0 < dc_amount c
        \<and> dc_bump c = find_bump rt (DepositClaimPda txid vout))"

definition nonce_class :: "u64 \<Rightarrow> u8" where
  "nonce_class nonce =
     (if and nonce NONCE_DOMAIN_REFUND = 0 then WITHDRAWAL_CLASS_TREASURY
      else WITHDRAWAL_CLASS_REFUND)"

definition withdrawals_inv :: "Runtime \<Rightarrow> Chain \<Rightarrow> bool" where
  "withdrawals_inv rt s \<longleftrightarrow>
     (\<forall>nonce w. st_withdrawals s nonce = Some w \<longrightarrow>
        rw_nonce w = nonce \<and> 0 < rw_amount w
        \<and> withdrawal_class w = nonce_class nonce)"

interpretation claims: step_invariant rt "claims_inv rt" for rt
proof (unfold_locales, goal_cases)
  case (2 s tx ix cx s' e)
  from claims_change[OF 2(3)] 2(1) show ?case
    by (auto simp: claims_inv_def release_claim_def enforce_transfer_amount_ok split: if_splits)
qed (simp_all add: claims_inv_def deployed_def)

interpretation withdrawals: step_invariant rt "withdrawals_inv rt" for rt
proof (unfold_locales, goal_cases)
  case (2 s tx ix cx s' e)
  have "withdrawal_class (withdrawal_record rt tx cx c n a ep cl) = cl" for c n a ep cl
    by (simp add: withdrawal_class_def withdrawal_record_def)
  with withdrawals_change[OF 2(3)] 2(1) show ?case
    unfolding withdrawals_inv_def
    by (elim disjE exE) (auto simp: nonce_class_def withdrawal_record_def)
qed (simp_all add: withdrawals_inv_def deployed_def)

subsection \<open>The treasury allowlist\<close>

definition holds_allowlist :: "Runtime \<Rightarrow> BridgeConfig \<Rightarrow> u8 \<Rightarrow> pubkey list \<Rightarrow> bool" where
  "holds_allowlist rt c cnt packed \<longleftrightarrow>
     bc_reserve_token_mint c \<noteq> pubkey_default
     \<and> (\<exists>ts. valid_allowlist ts (reserve_key rt c) \<and> cnt = word_of_nat (length ts)
          \<and> packed = pack_treasuries ts)"

definition policy_inv :: "Runtime \<Rightarrow> Chain \<Rightarrow> bool" where
  "policy_inv rt s \<longleftrightarrow> config_inv rt s
     \<and> (\<forall>p. st_policy s = Some p \<longrightarrow>
          (\<exists>c. st_config s = Some c \<and> holds_allowlist rt c (rp_treasury_count p) (rp_treasuries p)))
     \<and> (\<forall>q. st_pending_policy s = Some q \<longrightarrow> length (pr_treasuries q) = MAX_TREASURY_DESTINATIONS)"

lemma reserve_key_loaded:
  assumes "address_law rt" "canonical_reserve_bump rt c" "bc_reserve_token_mint c \<noteq> pubkey_default"
    and "rt_create_program_address rt (pda_seeds ReserveAuthorityPda)
      (bc_reserve_authority_bump c) = Some auth"
  shows "rt_associated_token_address rt auth (bc_reserve_token_mint c) (bc_reserve_token_program c)
    = reserve_key rt c"
  using assms by (simp add: canonical_reserve_bump_def address_law_def reserve_key_def)

lemma reserve_config_stable:
  assumes "process_instruction rt tx cx ix s = Inr (s', e)" "st_config s = Some c"
    and "bc_reserve_token_mint c \<noteq> pubkey_default"
  obtains c' where "st_config s' = Some c'" "bc_reserve_token_mint c' = bc_reserve_token_mint c"
    "reserve_key rt c' = reserve_key rt c"
  using config_changes[OF assms(1)] assms(2,3)
  by (auto simp: reserve_key_def admin_fields_only_def)

lemma execute_policy_allowlist:
  assumes "execute_rebalance_policy rt tx cx s = Inr (s', e)" "address_law rt" "policy_inv rt s"
  shows "\<exists>p c. st_policy s' = Some p \<and> st_config s' = Some c
    \<and> holds_allowlist rt c (rp_treasury_count p) (rp_treasuries p)"
  using assms(1)
proof (rule execute_policy_elim, goal_cases)
  case (1 c ks policy pending auth version)
  from assms(3) 1 have "canonical_reserve_bump rt c" "bc_reserve_token_mint c \<noteq> pubkey_default"
    and len: "length (pr_treasuries pending) = MAX_TREASURY_DESTINATIONS"
    by (auto simp: policy_inv_def config_inv_def wf_config_def holds_allowlist_def)
  with 1 reserve_key_loaded[OF assms(2)] have "valid_allowlist (pending_treasuries pending) (reserve_key rt c)"
    by metis
  moreover have "min (unat (pr_treasury_count pending)) MAX_TREASURY_DESTINATIONS
      = length (pending_treasuries pending)"
    using len by (simp add: pending_treasuries_def)
  ultimately show ?thesis
    using 1 \<open>bc_reserve_token_mint c \<noteq> pubkey_default\<close>
    by (auto simp: holds_allowlist_def)
qed

lemma initialize_policy_allowlist:
  assumes "initialize_rebalance_policy rt tx cx s ts = Inr (s', e)" "address_law rt" "config_inv rt s"
  shows "\<exists>p c. st_policy s' = Some p \<and> st_config s' = Some c
    \<and> holds_allowlist rt c (rp_treasury_count p) (rp_treasuries p)"
  using assms(1)
proof (rule initialize_policy_elim, goal_cases)
  case (1 c ks auth)
  with assms(3) reserve_key_loaded[OF assms(2)] have "valid_allowlist ts (reserve_key rt c)"
    by (metis config_inv_def wf_config_def)
  with 1 show ?thesis by (auto simp: holds_allowlist_def)
qed

interpretation policy_state: step_invariant rt "\<lambda>s. address_law rt \<longrightarrow> policy_inv rt s" for rt
proof (unfold_locales, goal_cases)
  case (2 s tx ix cx s' e)
  show ?case
  proof
    assume law: "address_law rt"
    with 2(1) have inv: "policy_inv rt s" by simp
    then have "config_inv rt s'"
      using config.inv_ran[OF _ 2(2,3)] by (simp add: policy_inv_def)
    moreover have "\<exists>c. st_config s' = Some c \<and> holds_allowlist rt c (rp_treasury_count p) (rp_treasuries p)"
      if p: "st_policy s' = Some p" for p
    proof (cases "st_policy s' = st_policy s")
      case True
      with p inv obtain c where c: "st_config s = Some c"
        "holds_allowlist rt c (rp_treasury_count p) (rp_treasuries p)"
        by (auto simp: policy_inv_def)
      then show ?thesis
        using reserve_config_stable[OF 2(3) c(1)] by (metis holds_allowlist_def)
    next
      case False
      then show ?thesis
        using policy_changes[OF 2(3)] 2(3) p law inv execute_policy_allowlist[of rt tx cx s s' e]
          initialize_policy_allowlist[of rt tx cx s _ s' e]
        by (auto simp: policy_inv_def)
    qed
    moreover have "length (pr_treasuries q) = MAX_TREASURY_DESTINATIONS"
      if "st_pending_policy s' = Some q" for q
      using pending_policy_changes[OF 2(3)] 2(3) that inv
      by (auto simp: policy_inv_def valid_allowlist_def length_pack_treasuries elim!: propose_policy_elim)
    ultimately show "policy_inv rt s'" by (simp add: policy_inv_def)
  qed
next
  case (3 s s')
  then show ?case by (simp add: policy_inv_def config_inv_def)
qed (simp add: policy_inv_def config_inv_def deployed_def)

lemma policy_allowlist_valid:
  assumes "reachable rt s" "address_law rt" "st_policy s = Some p"
  obtains c ts where "st_config s = Some c" "valid_allowlist ts (reserve_key rt c)"
    "\<And>d. is_allowlisted p d \<longleftrightarrow> d \<in> set ts"
proof -
  from policy_state.inv_reachable[OF assms(1)] assms(2,3) obtain c where
    "st_config s = Some c" "holds_allowlist rt c (rp_treasury_count p) (rp_treasuries p)"
    by (auto simp: policy_inv_def)
  then show thesis
    using that allowlisted_iff by (auto simp: holds_allowlist_def valid_allowlist_def)
qed

end
