(* ===== verification/Program_Safety.thy ===== *)
theory Program_Safety
  imports Program_Invariants
begin

text \<open>
  Safety of whole executions: stores that only grow (claims, withdrawal records, the fixed
  part of an obligation), how often a deposit is settled, and the accounting of the reserve.
\<close>

section \<open>Records that are written once\<close>

locale write_once =
  fixes rt :: Runtime and store :: "Chain \<Rightarrow> 'k \<Rightarrow> 'v option"
  assumes kept_ran: "process_instruction rt tx cx ix s = Inr (s', e) \<Longrightarrow> store s k = Some v
      \<Longrightarrow> store s' k = Some v"
    and kept_external: "external_change rt s s' \<Longrightarrow> store s' = store s"
begin

lemma kept_exec: "exec rt s0 tr s \<Longrightarrow> store s0 k = Some v \<Longrightarrow> store s k = Some v"
  by (induction rule: exec.induct) (auto intro: kept_ran simp: kept_external)

end

interpretation claim_store: write_once rt st_claims for rt
proof (unfold_locales, goal_cases)
  case (1 tx cx ix s s' e k v)
  from claims_change[OF 1(1)] 1(2) show ?case by (cases k) auto
qed simp

interpretation withdrawal_store: write_once rt st_withdrawals for rt
proof (unfold_locales, goal_cases)
  case (1 tx cx ix s s' e k v)
  from withdrawals_change[OF 1(1)] 1(2) show ?case by (elim disjE exE) auto
qed simp

text \<open>What of an obligation is fixed when the deposit is made.\<close>

definition obligation_terms :: "WithdrawalObligation \<Rightarrow> u64 \<times> u64 \<times> pubkey \<times> bytes \<times> u8" where
  "obligation_terms ob =
     (wo_index ob, wo_amount ob, wo_requester ob, wo_glc_address ob, wo_glc_address_len ob)"

lemma obligation_terms_frame [simp]:
  "obligation_terms (ob\<lparr>wo_status := st\<rparr>) = obligation_terms ob"
  "obligation_terms (set_payout_record ob t h) = obligation_terms ob"
  by (simp_all add: obligation_terms_def)

interpretation obligation_store:
  write_once rt "\<lambda>s i. map_option obligation_terms (st_obligations s i)" for rt
proof (unfold_locales, goal_cases)
  case (1 tx cx ix s s' e k v)
  from obligations_change[OF 1(1)] 1(2) show ?case by auto
qed simp

section \<open>Each deposit is settled at most once\<close>

definition releases :: "bytes32 \<Rightarrow> u32 \<Rightarrow> step \<Rightarrow> bool" where
  "releases txid vout st = (case st of
     Ran tx cx (IxReleaseFromReserve txid' vout' amount epoch) e \<Rightarrow> txid' = txid \<and> vout' = vout
   | _ \<Rightarrow> False)"

definition settles :: "u64 \<Rightarrow> step \<Rightarrow> bool" where
  "settles i st = (case st of
     Ran tx cx (IxRecordGoldcoinCompletion index payout_txid height amount epoch) e \<Rightarrow> index = i
   | Ran tx cx (IxRefundWithdraw nonce amount epoch index) e \<Rightarrow> index = i
   | _ \<Rightarrow> False)"

definition occurrences :: "('a \<Rightarrow> bool) \<Rightarrow> 'a list \<Rightarrow> nat" where
  "occurrences P xs = length (filter P xs)"

lemma occurrences_simps [simp]:
  "occurrences P [] = 0" "occurrences P (xs @ [x]) = occurrences P xs + (if P x then 1 else 0)"
  by (simp_all add: occurrences_def)

lemma release_counts:
  assumes "exec rt s0 tr s" "st_claims s0 (txid, vout) = None"
  shows "occurrences (releases txid vout) tr = (if st_claims s (txid, vout) = None then 0 else 1)"
  using assms
proof (induction rule: exec.induct)
  case (exec_ran tr s tx ix cx s' e)
  show ?case
  proof (cases "releases txid vout (Ran tx cx ix e)")
    case True
    then obtain amount epoch where "ix = IxReleaseFromReserve txid vout amount epoch"
      by (auto simp: releases_def split: Instruction.splits)
    with exec_ran(3) have "release_from_reserve rt tx cx s txid vout amount epoch = Inr (s', e)" by simp
    then show ?thesis using True exec_ran.IH exec_ran.prems by (auto elim!: release_elim)
  next
    case False
    then have "st_claims s' (txid, vout) = st_claims s (txid, vout)"
      using claims_change[OF exec_ran(3)] by (auto simp: releases_def)
    with False show ?thesis using exec_ran by simp
  qed
qed (simp_all add: releases_def)

definition settled :: "Chain \<Rightarrow> u64 \<Rightarrow> bool" where
  "settled s i \<longleftrightarrow> (\<exists>ob. st_obligations s i = Some ob \<and> wo_status ob \<noteq> Pending)"

lemma settle_counts:
  assumes "exec rt s0 tr s" "deployed s0"
  shows "occurrences (settles i) tr = (if settled s i then 1 else 0)"
  using assms
proof (induction rule: exec.induct)
  case (exec_ran tr s tx ix cx s' e)
  show ?case
  proof (cases "settles i (Ran tx cx ix e)")
    case True
    then have "\<not> settled s i \<and> settled s' i"
      using exec_ran(3)
      by (cases ix) (auto simp: settles_def settled_def elim!: completion_elim refund_elim)
    then show ?thesis using True exec_ran.IH exec_ran.prems by simp
  next
    case False
    have "settled s' i \<longleftrightarrow> settled s i"
      using obligations_change[OF exec_ran(3)] False
      by (elim disjE exE) (auto simp: settles_def settled_def deposit_obligation_def)
    with False show ?thesis using exec_ran by simp
  qed
qed (simp_all add: settles_def settled_def deployed_def)

lemma obligation_final:
  assumes "exec rt s0 tr s" "st_obligations s0 i = Some ob" "wo_status ob \<noteq> Pending"
  shows "st_obligations s i = Some ob"
  using assms
proof (induction rule: exec.induct)
  case (exec_ran tr s tx ix cx s' e)
  then have "st_obligations s i = Some ob" by simp
  with exec_ran.prems obligations_change[OF exec_ran(3)] show ?case by (elim disjE exE) auto
qed simp_all

lemma obligation_lifecycle_step:
  assumes "process_instruction rt tx cx ix s = Inr (s', e)" "st_obligations s i = Some ob"
  obtains ob' where "st_obligations s' i = Some ob'" "obligation_terms ob' = obligation_terms ob"
    "ob' = ob \<or> wo_status ob = Pending \<and> wo_status ob' \<in> {Completed, Refunded}"
proof -
  have "\<exists>ob'. st_obligations s' i = Some ob' \<and> obligation_terms ob' = obligation_terms ob
    \<and> (ob' = ob \<or> wo_status ob = Pending \<and> wo_status ob' \<in> {Completed, Refunded})"
    using obligations_change[OF assms(1)] assms(2) by (elim disjE exE) auto
  then show thesis using that by blast
qed

lemma obligation_lifecycle_exec:
  assumes "exec rt s0 tr s" "st_obligations s0 i = Some ob"
  shows "\<exists>ob'. st_obligations s i = Some ob' \<and> obligation_terms ob' = obligation_terms ob
    \<and> (ob' = ob \<or> wo_status ob = Pending \<and> wo_status ob' \<in> {Completed, Refunded})"
  using assms
proof (induction rule: exec.induct)
  case (exec_ran tr s tx ix cx s' e)
  then obtain ob1 where ob1: "st_obligations s i = Some ob1" "obligation_terms ob1 = obligation_terms ob"
    "ob1 = ob \<or> wo_status ob = Pending \<and> wo_status ob1 \<in> {Completed, Refunded}" by blast
  from obligation_lifecycle_step[OF exec_ran(3) ob1(1)] ob1 show ?case by (metis insertE
      WithdrawalStatus.distinct(3,5) emptyE)
qed simp_all

section \<open>The accounting of the reserve\<close>

text \<open>
  What one step adds to or takes from the token account \<open>key\<close>. A transfer from the account
  to itself moves nothing.
\<close>

definition paid_in :: "pubkey \<Rightarrow> step \<Rightarrow> nat" where
  "paid_in key st = (case st of
     Ran tx cx (IxDepositToReserve amount glc) e \<Rightarrow>
       if cx_token_account cx = key then 0 else unat amount
   | _ \<Rightarrow> 0)"

definition paid_out :: "pubkey \<Rightarrow> step \<Rightarrow> nat" where
  "paid_out key st = (case st of
     Ran tx cx (IxReleaseFromReserve txid vout amount epoch) e \<Rightarrow>
       if cx_token_account cx = key then 0 else unat amount
   | Ran tx cx (IxTreasuryWithdraw nonce amount epoch) e \<Rightarrow> unat amount
   | Ran tx cx (IxRefundWithdraw nonce amount epoch index) e \<Rightarrow>
       if cx_token_account cx = key then 0 else unat amount
   | _ \<Rightarrow> 0)"

definition inflow :: "pubkey \<Rightarrow> step list \<Rightarrow> nat" where
  "inflow key tr = sum_list (map (paid_in key) tr)"

definition outflow :: "pubkey \<Rightarrow> step list \<Rightarrow> nat" where
  "outflow key tr = sum_list (map (paid_out key) tr)"

lemma flow_simps [simp]:
  "inflow key [] = 0" "inflow key (tr @ [st]) = inflow key tr + paid_in key st"
  "outflow key [] = 0" "outflow key (tr @ [st]) = outflow key tr + paid_out key st"
  by (simp_all add: inflow_def outflow_def)

lemma no_flow_external [simp]: "paid_in key External = 0" "paid_out key External = 0"
  by (simp_all add: paid_in_def paid_out_def)

text \<open>The reserve's account, while the vault is configured: owned by the program.\<close>

definition holds_reserve :: "Runtime \<Rightarrow> Chain \<Rightarrow> pubkey \<Rightarrow> bool" where
  "holds_reserve rt s key \<longleftrightarrow>
     (\<exists>a. st_token_accounts s key = Some a \<and> ta_owner a = find_pda rt ReserveAuthorityPda)"

lemma moves_tokens_owner:
  "moves_tokens accts src dst amount accts' \<Longrightarrow> accts k = Some a \<Longrightarrow>
   \<exists>b. accts' k = Some b \<and> ta_owner b = ta_owner a"
  by (auto simp: moves_tokens_def split: if_splits)

lemma moves_tokens_holds:
  "moves_tokens (st_token_accounts s) src dst amount (st_token_accounts s') \<Longrightarrow> holds_reserve rt s key
    \<Longrightarrow> holds_reserve rt s' key"
  unfolding holds_reserve_def using moves_tokens_owner by fastforce

lemma moves_tokens_flow:
  assumes "moves_tokens (st_token_accounts s) src dst amount (st_token_accounts s')"
  shows "balance_of s' dst = balance_of s dst + (if src = dst then 0 else unat amount)"
    and "balance_of s' src + (if src = dst then 0 else unat amount) = balance_of s src"
proof -
  show "balance_of s' dst = balance_of s dst + (if src = dst then 0 else unat amount)"
    using moves_tokens_balance(2)[OF assms] moves_tokens_to_self[of "st_token_accounts s" src amount
      "st_token_accounts s'"] assms by (cases "src = dst") (simp_all add: balance_of_def)
  show "balance_of s' src + (if src = dst then 0 else unat amount) = balance_of s src"
    using moves_tokens_balance(1)[OF assms] moves_tokens_to_self[of "st_token_accounts s" src amount
      "st_token_accounts s'"] assms by (cases "src = dst") (simp_all add: balance_of_def)
qed

text \<open>One instruction changes the reserve's balance by exactly its flows.\<close>

lemma outflow_step:
  assumes "moves_tokens (st_token_accounts s) key dest amount (st_token_accounts s')"
    and "holds_reserve rt s key"
  shows "holds_reserve rt s' key
    \<and> balance_of s' key + (if dest = key then 0 else unat amount) = balance_of s key"
  using moves_tokens_flow(2)[OF assms(1)] moves_tokens_holds[OF assms] by auto

lemma inflow_step:
  assumes "moves_tokens (st_token_accounts s) src key amount (st_token_accounts s')"
    and "holds_reserve rt s key"
  shows "holds_reserve rt s' key
    \<and> balance_of s' key = balance_of s key + (if src = key then 0 else unat amount)"
  using moves_tokens_flow(1)[OF assms(1)] moves_tokens_holds[OF assms] by auto

lemma deposit_moves:
  assumes "deposit_to_reserve rt tx cx s amount glc = Inr (s', e)" "token_program_law rt"
    and "address_law rt" "config_inv rt s" "st_config s = Some c"
  shows "moves_tokens (st_token_accounts s) (cx_token_account cx) (reserve_key rt c) amount
    (st_token_accounts s')"
  using assms(1)
proof (rule deposit_elim, goal_cases)
  case (1 config w w' ua ra mint cnt ta')
  have "cx_reserve_token_account cx = reserve_key rt c"
    using reserve_key_loaded[OF assms(3), of c "ta_owner ra"] assms(4,5) 1
    by (auto simp: config_inv_def wf_config_def)
  with 1 assms(2) show ?thesis unfolding token_program_law_def by fastforce
qed

lemma reserve_step:
  assumes run: "process_instruction rt tx cx ix s = Inr (s', e)"
    and laws: "token_program_law rt" "address_law rt"
    and inv: "config_inv rt s" "st_config s = Some c" "bc_reserve_token_mint c \<noteq> pubkey_default"
    and holds: "holds_reserve rt s (reserve_key rt c)"
  shows "holds_reserve rt s' (reserve_key rt c)
    \<and> balance_of s' (reserve_key rt c) + paid_out (reserve_key rt c) (Ran tx cx ix e)
      = balance_of s (reserve_key rt c) + paid_in (reserve_key rt c) (Ran tx cx ix e)"
proof -
  let ?key = "reserve_key rt c"
  have bump: "canonical_reserve_bump rt c" using inv by (simp add: config_inv_def wf_config_def)
  note flows = paid_in_def paid_out_def
  consider (idle) "st_token_accounts s' = st_token_accounts s"
      "paid_in ?key (Ran tx cx ix e) = 0" "paid_out ?key (Ran tx cx ix e) = 0"
    | (moving) "ix = IxInitializeReserveVault
        \<or> (\<exists>txid vout amount epoch. ix = IxReleaseFromReserve txid vout amount epoch)
        \<or> (\<exists>amount glc. ix = IxDepositToReserve amount glc)
        \<or> (\<exists>nonce amount epoch. ix = IxTreasuryWithdraw nonce amount epoch)
        \<or> (\<exists>nonce amount epoch index. ix = IxRefundWithdraw nonce amount epoch index)"
    using token_accounts_change[OF run] by (cases ix) (auto simp: flows)
  then show ?thesis
  proof (cases, goal_cases)
    case 1
    then show ?thesis using holds by (simp add: holds_reserve_def balance_of_def)
  next
    case 2
    then show ?thesis
    proof (elim disjE exE)
    assume "ix = IxInitializeReserveVault"
    with run inv(2,3) show ?thesis by (auto elim!: reserve_vault_elim)
  next
    fix txid vout amount epoch assume ix: "ix = IxReleaseFromReserve txid vout amount epoch"
    with run have r: "(\<lambda>(txid, vout, amount, epoch). release_from_reserve rt tx cx s txid vout amount epoch)
      (txid, vout, amount, epoch) = Inr (s', e)" by simp
    show ?thesis
      using outflow_step[where key = ?key and dest = "cx_token_account cx" and amount = amount, OF _ holds]
        release_flow.outflow_moves[OF r laws(1)]
        release_flow.outflow_reserve_account[OF r inv(2) laws(2) bump] by (simp add: ix flows)
  next
    fix amount glc assume ix: "ix = IxDepositToReserve amount glc"
    with run have r: "deposit_to_reserve rt tx cx s amount glc = Inr (s', e)" by simp
    show ?thesis
      using inflow_step[OF deposit_moves[OF r laws inv(1,2)] holds] by (simp add: ix flows)
  next
    fix nonce amount epoch assume ix: "ix = IxTreasuryWithdraw nonce amount epoch"
    with run have r: "(\<lambda>(nonce, amount, epoch). treasury_withdraw rt tx cx s nonce amount epoch)
      (nonce, amount, epoch) = Inr (s', e)" by simp
    then have "cx_token_account cx \<noteq> cx_reserve_token_account cx" by (auto elim!: treasury_elim)
    then show ?thesis
      using outflow_step[where key = ?key and dest = "cx_token_account cx" and amount = amount, OF _ holds]
        treasury_flow.outflow_moves[OF r laws(1)]
        treasury_flow.outflow_reserve_account[OF r inv(2) laws(2) bump] by (simp add: ix flows)
  next
    fix nonce amount epoch index assume ix: "ix = IxRefundWithdraw nonce amount epoch index"
    with run have r: "(\<lambda>(nonce, amount, epoch, index). refund_withdraw rt tx cx s nonce amount epoch index)
      (nonce, amount, epoch, index) = Inr (s', e)" by simp
    show ?thesis
      using outflow_step[where key = ?key and dest = "cx_token_account cx" and amount = amount, OF _ holds]
        refund_flow.outflow_moves[OF r laws(1)]
        refund_flow.outflow_reserve_account[OF r inv(2) laws(2) bump] by (simp add: ix flows)
    qed
  qed
qed

text \<open>The books of the reserve after the execution \<open>tr\<close>.\<close>

definition vault_configured :: "Chain \<Rightarrow> bool" where
  "vault_configured s \<longleftrightarrow> (\<exists>c. st_config s = Some c \<and> bc_reserve_token_mint c \<noteq> pubkey_default)"

definition books :: "Runtime \<Rightarrow> step list \<Rightarrow> Chain \<Rightarrow> bool" where
  "books rt tr s \<longleftrightarrow>
     (\<not> vault_configured s \<longrightarrow> (\<forall>key. inflow key tr = 0 \<and> outflow key tr = 0))
     \<and> (\<forall>c key. st_config s = Some c \<longrightarrow> bc_reserve_token_mint c \<noteq> pubkey_default \<longrightarrow>
          key = reserve_key rt c \<longrightarrow>
          holds_reserve rt s key
          \<and> inflow key tr \<le> balance_of s key + outflow key tr
          \<and> (External \<notin> set tr \<longrightarrow> inflow key tr = balance_of s key + outflow key tr))"

lemma unconfigured_no_flow:
  assumes "process_instruction rt tx cx ix s = Inr (s', e)" "\<not> vault_configured s"
  shows "paid_in key (Ran tx cx ix e) = 0 \<and> paid_out key (Ran tx cx ix e) = 0"
  using assms(1)
proof (cases ix)
  case (IxReleaseFromReserve txid vout amount epoch)
  with assms release_outflow[of rt tx cx s txid vout amount epoch s' e] show ?thesis
    by (auto simp: vault_configured_def outflow_checks_def)
next
  case (IxDepositToReserve amount glc)
  with assms show ?thesis by (auto simp: vault_configured_def elim!: deposit_elim)
next
  case (IxTreasuryWithdraw nonce amount epoch)
  with assms treasury_outflow[of rt tx cx s nonce amount epoch s' e] show ?thesis
    by (auto simp: vault_configured_def outflow_checks_def)
next
  case (IxRefundWithdraw nonce amount epoch index)
  with assms refund_outflow[of rt tx cx s nonce amount epoch index s' e] show ?thesis
    by (auto simp: vault_configured_def outflow_checks_def)
qed (simp_all add: paid_in_def paid_out_def)

lemma vault_created:
  assumes "process_instruction rt tx cx ix s = Inr (s', e)" "\<not> vault_configured s"
    and "st_config s' = Some c" "bc_reserve_token_mint c \<noteq> pubkey_default" "create_account_law rt"
  shows "holds_reserve rt s' (reserve_key rt c) \<and> balance_of s' (reserve_key rt c) = 0"
proof -
  have ix: "ix = IxInitializeReserveVault"
    using config_changes[OF assms(1)] assms(2-4) unfolding vault_configured_def
    by (elim disjE exE conjE) (simp_all add: admin_fields_only_def)
  with assms(1) have "initialize_reserve_vault rt tx cx s = Inr (s', e)" by simp
  then show ?thesis
    using assms(3,5)
    by (auto elim!: reserve_vault_elim
        simp: reserve_key_def holds_reserve_def balance_of_def create_account_law_def)
qed

lemma books_ran:
  assumes "process_instruction rt tx cx ix s = Inr (s', e)" "books rt tr s" "config_inv rt s"
    and "token_program_law rt" "address_law rt" "create_account_law rt"
  shows "books rt (tr @ [Ran tx cx ix e]) s'"
proof (cases "vault_configured s")
  case True
  then obtain c where c: "st_config s = Some c" "bc_reserve_token_mint c \<noteq> pubkey_default"
    by (auto simp: vault_configured_def)
  obtain c' where c': "st_config s' = Some c'" "bc_reserve_token_mint c' = bc_reserve_token_mint c"
    "reserve_key rt c' = reserve_key rt c" using reserve_config_stable[OF assms(1) c] by blast
  from assms(2) c have b: "holds_reserve rt s (reserve_key rt c)"
    "inflow (reserve_key rt c) tr \<le> balance_of s (reserve_key rt c) + outflow (reserve_key rt c) tr"
    "External \<notin> set tr \<longrightarrow>
       inflow (reserve_key rt c) tr = balance_of s (reserve_key rt c) + outflow (reserve_key rt c) tr"
    by (auto simp: books_def)
  from reserve_step[OF assms(1,4,5,3) c b(1)] b c c' show ?thesis
    by (auto simp: books_def vault_configured_def)
next
  case False
  note zero = unconfigured_no_flow[OF assms(1) False]
  from assms(2) False have "inflow key tr = 0 \<and> outflow key tr = 0" for key by (simp add: books_def)
  then show ?thesis
    using zero vault_created[OF assms(1) False _ _ assms(6)] by (simp add: books_def)
qed

lemma books_external:
  assumes "external_change rt s s'" "books rt tr s"
  shows "books rt (tr @ [External]) s'"
proof -
  have "holds_reserve rt s' key \<and> balance_of s key \<le> balance_of s' key" if "holds_reserve rt s key" for key
  proof -
    from that obtain a where a: "st_token_accounts s key = Some a" "ta_owner a = find_pda rt ReserveAuthorityPda"
      by (auto simp: holds_reserve_def)
    with assms(1) obtain b where "st_token_accounts s' key = Some b" "ta_owner b = ta_owner a"
      "ta_amount a \<le> ta_amount b" unfolding external_change_def by fastforce
    with a show ?thesis by (simp add: holds_reserve_def balance_of_def word_le_nat_alt)
  qed
  then show ?thesis
    using assms unfolding books_def vault_configured_def
    by simp (meson le_trans add_le_mono1)
qed

lemma books_exec:
  assumes "exec rt s0 tr s" "deployed s0" "token_program_law rt" "address_law rt" "create_account_law rt"
  shows "books rt tr s \<and> config_inv rt s"
  using assms
proof (induction rule: exec.induct)
  case exec_start
  then show ?case by (simp add: books_def vault_configured_def deployed_def config_inv_def)
next
  case (exec_ran tr s tx ix cx s' e)
  then show ?case using books_ran config.inv_ran by blast
next
  case (exec_external tr s s')
  then show ?case using books_external config.inv_external by blast
qed

end
