(* ===== verification/Program_Governance.thy ===== *)
theory Program_Governance
  imports Program_Safety
begin

text \<open>
  Where timelocked changes come from: every pending proposal of a reachable state was queued
  by an earlier instruction of the execution, and the key set never changes without its epoch
  growing. The locale \<open>timelocked_history\<close> extends \<open>timelocked_change\<close> with what the program
  as a whole keeps and is interpreted for rotations, allowlists and upgrades.
\<close>

lemma exec_append:
  assumes "exec rt s1 tr2 s2" "exec rt s0 tr1 s1"
  shows "exec rt s0 (tr1 @ tr2) s2"
  using assms
  by (induction rule: exec.induct)
    (auto simp: append_assoc[symmetric] simp del: append_assoc intro: exec.intros)

locale timelocked_history =
  timelocked_change propose execute cancel pending carries eta delay
  for propose :: "Runtime \<Rightarrow> Tx \<Rightarrow> Ctx \<Rightarrow> Chain \<Rightarrow> 'p \<Rightarrow> outcome"
    and execute :: "Runtime \<Rightarrow> Tx \<Rightarrow> Ctx \<Rightarrow> Chain \<Rightarrow> outcome"
    and cancel :: "Runtime \<Rightarrow> Tx \<Rightarrow> Ctx \<Rightarrow> Chain \<Rightarrow> outcome"
    and pending :: "Chain \<Rightarrow> 'q option"
    and carries :: "'q \<Rightarrow> 'p \<Rightarrow> bool"
    and eta :: "'q \<Rightarrow> i64"
    and delay :: "BridgeConfig \<Rightarrow> i64" +
  fixes proposal :: "Instruction \<Rightarrow> 'p option"
  assumes pending_source: "process_instruction rt tx cx ix s = Inr (s', e) \<Longrightarrow> pending s' = Some q
      \<Longrightarrow> pending s = Some q
        \<or> (\<exists>p. proposal ix = Some p \<and> propose rt tx cx s p = Inr (s', e))"
    and pending_external: "external_change rt s s' \<Longrightarrow> pending s' = pending s"
    and pending_deployed: "deployed s \<Longrightarrow> pending s = None"
begin

text \<open>The step that queued the pending proposal, and the execution since then.\<close>

definition queued ::
  "Runtime \<Rightarrow> Chain \<Rightarrow> step list \<Rightarrow> Chain \<Rightarrow> 'q \<Rightarrow> step list \<Rightarrow> Chain \<Rightarrow> Tx \<Rightarrow> Ctx \<Rightarrow> 'p \<Rightarrow> Chain \<Rightarrow> bool"
  where
  "queued rt s0 tr s q tr1 s1 tx cx p s2 \<longleftrightarrow>
     (\<exists>ix e tr2. tr = tr1 @ Ran tx cx ix e # tr2 \<and> exec rt s0 tr1 s1 \<and> proposal ix = Some p
        \<and> propose rt tx cx s1 p = Inr (s2, e) \<and> pending s2 = Some q \<and> exec rt s2 tr2 s)"

lemma pending_history:
  assumes "exec rt s0 tr s" "deployed s0" "pending s = Some q"
  shows "\<exists>tr1 s1 tx cx p s2. queued rt s0 tr s q tr1 s1 tx cx p s2"
  using assms
proof (induction rule: exec.induct)
  case (exec_ran tr s tx ix cx s' e)
  from pending_source[OF exec_ran.hyps(3) exec_ran.prems(2)] show ?case
  proof
    assume "pending s = Some q"
    with exec_ran obtain tr1 s1 tx1 cx1 p s2 where "queued rt s0 tr s q tr1 s1 tx1 cx1 p s2" by blast
    then have "queued rt s0 (tr @ [Ran tx cx ix e]) s' q tr1 s1 tx1 cx1 p s2"
      using exec.exec_ran[OF _ exec_ran.hyps(2,3)] by (fastforce simp: queued_def)
    then show ?thesis by blast
  next
    assume "\<exists>p. proposal ix = Some p \<and> propose rt tx cx s p = Inr (s', e)"
    then obtain p where "queued rt s0 (tr @ [Ran tx cx ix e]) s' q tr s tx cx p s'"
      using exec_ran.hyps(1) exec_ran.prems(2) exec.exec_start by (fastforce simp: queued_def)
    then show ?thesis by blast
  qed
next
  case (exec_external tr s s')
  then obtain tr1 s1 tx1 cx1 p s2 where "queued rt s0 tr s q tr1 s1 tx1 cx1 p s2"
    using pending_external by fastforce
  then have "queued rt s0 (tr @ [External]) s' q tr1 s1 tx1 cx1 p s2"
    using exec.exec_external[OF _ exec_external.hyps(2)] by (fastforce simp: queued_def)
  then show ?case by blast
qed (simp add: pending_deployed)

text \<open>What an execution of the change can count on.\<close>

lemma executed_history:
  assumes "exec rt s0 tr s" "deployed s0" "execute rt tx cx s = Inr (s', e)"
  obtains q tr1 s1 tx1 cx1 ix1 e1 tr2 p s2 config where
    "pending s = Some q" "tr = tr1 @ Ran tx1 cx1 ix1 e1 # tr2" "exec rt s0 tr1 s1"
    "proposal ix1 = Some p" "propose rt tx1 cx1 s1 p = Inr (s2, e1)" "pending s2 = Some q"
    "exec rt s2 tr2 s" "carries q p" "st_config s1 = Some config"
    "tx_unix_timestamp tx1 + delay config \<le> tx_unix_timestamp tx"
proof -
  from execute_due[OF assms(3)] obtain q where q: "pending s = Some q" "eta q \<le> tx_unix_timestamp tx"
    by blast
  from pending_history[OF assms(1,2) q(1)] obtain tr1 s1 tx1 cx1 p s2 ix1 e1 tr2 where
    h: "tr = tr1 @ Ran tx1 cx1 ix1 e1 # tr2" "exec rt s0 tr1 s1" "proposal ix1 = Some p"
    "propose rt tx1 cx1 s1 p = Inr (s2, e1)" "pending s2 = Some q" "exec rt s2 tr2 s"
    by (auto simp: queued_def)
  from propose_queues[OF h(4)] h(5) obtain config where
    "st_config s1 = Some config" "carries q p" "eta q = tx_unix_timestamp tx1 + delay config" by auto
  with q h show thesis using that by auto
qed

end

interpretation rotation_history: timelocked_history
  "\<lambda>rt tx cx s (keys, threshold). propose_attestation_key_rotation rt tx cx s keys threshold"
  execute_attestation_key_rotation cancel_attestation_key_rotation st_pending_action
  "\<lambda>q (keys, threshold). pg_keys q = keys \<and> pg_threshold q = threshold"
  pg_eta bc_governance_timelock_seconds
  "\<lambda>ix. case ix of IxProposeAttestationKeyRotation keys threshold \<Rightarrow> Some (keys, threshold) | _ \<Rightarrow> None"
proof (unfold_locales, goal_cases)
  case (1 rt tx cx ix s s' e q)
  from pending_action_changes[OF 1(1)] 1 show ?case by auto
qed (simp_all add: deployed_def)

interpretation policy_history: timelocked_history
  propose_rebalance_policy execute_rebalance_policy cancel_rebalance_policy st_pending_policy
  "\<lambda>q treasuries. pending_treasuries q = treasuries" pr_eta bc_governance_timelock_seconds
  "\<lambda>ix. case ix of IxProposeRebalancePolicy treasuries \<Rightarrow> Some treasuries | _ \<Rightarrow> None"
proof (unfold_locales, goal_cases)
  case (1 rt tx cx ix s s' e q)
  from pending_policy_changes[OF 1(1)] 1 show ?case by auto
qed (simp_all add: deployed_def)

interpretation upgrade_history: timelocked_history
  propose_upgrade execute_upgrade cancel_upgrade st_pending_upgrade
  "\<lambda>q buffer. pu_buffer_address q = buffer" pu_eta bc_upgrade_timelock_seconds
  "\<lambda>ix. case ix of IxProposeUpgrade buffer \<Rightarrow> Some buffer | _ \<Rightarrow> None"
proof (unfold_locales, goal_cases)
  case (1 rt tx cx ix s s' e q)
  from pending_upgrade_changes[OF 1(1)] 1 show ?case by auto
qed (simp_all add: deployed_def)

section \<open>Epochs\<close>

lemma checked_inc_less: "checked_add n 1 = Some m \<Longrightarrow> n < m" for n m :: u64
  by (drule checked_add_unat) (simp add: word_less_nat_alt)

lemma epoch_step:
  assumes "process_instruction rt tx cx ix s = Inr (s', e)" "st_key_set s = Some ks"
  obtains ks' where "st_key_set s' = Some ks'" "ks' = ks \<or> ks_epoch ks < ks_epoch ks'"
proof -
  have "\<exists>ks'. st_key_set s' = Some ks' \<and> (ks' = ks \<or> ks_epoch ks < ks_epoch ks')"
    using key_set_changes[OF assms(1)] assms(2) checked_inc_less by (elim disjE exE) auto
  then show thesis using that by blast
qed

lemma epoch_exec:
  assumes "exec rt s0 tr s" "st_key_set s0 = Some ks"
  shows "\<exists>ks'. st_key_set s = Some ks' \<and> (ks' = ks \<or> ks_epoch ks < ks_epoch ks')"
  using assms
proof (induction rule: exec.induct)
  case (exec_ran tr s tx ix cx s' e)
  then obtain k1 where "st_key_set s = Some k1" "k1 = ks \<or> ks_epoch ks < ks_epoch k1" by blast
  with epoch_step[OF exec_ran(3), of k1] show ?case by (metis order.strict_trans)
qed simp_all

end
