(* ===== verification/Sample_Execution.thy ===== *)
theory Sample_Execution
  imports Program_Governance
begin

text \<open>
  A concrete execution on the sample runtime, on which the theorems of the program are
  instantiated: deployment, creation of the configuration and the vault, a deposit, a release
  with a proof of two of three keys, a completion, and an operator withdrawal.
\<close>

definition sample_account :: "pubkey \<Rightarrow> u64 \<Rightarrow> TokenAccount" where
  "sample_account owner amount =
     \<lparr>ta_program = 6, ta_mint = 5, ta_owner = owner, ta_amount = amount, ta_data = []\<rparr>"

definition sample_deployed :: Chain where
  "sample_deployed =
     \<lparr>st_config = None, st_key_set = None, st_windows = (\<lambda>_. None), st_claims = (\<lambda>_. None),
      st_obligations = (\<lambda>_. None), st_withdrawals = (\<lambda>_. None), st_policy = None,
      st_pending_policy = None, st_pending_action = None, st_pending_upgrade = None,
      st_mints = (\<lambda>_. None)(5 := Some \<lparr>mt_program = 6, mt_decimals = 6, mt_data = []\<rparr>),
      st_token_accounts = (\<lambda>_. None)(6005020 := Some (sample_account 20 1000),
        6005030 := Some (sample_account 30 0), 6005040 := Some (sample_account 40 0)),
      st_program_data = \<lparr>pd_upgrade_authority_address = Some 1, pd_image = []\<rparr>\<rparr>"

definition sample_tx :: "pubkey \<Rightarrow> i64 \<Rightarrow> bytes \<Rightarrow> Tx" where
  "sample_tx signer now proof = \<lparr>tx_signers = [signer], tx_unix_timestamp = now, tx_slot = 77,
     tx_previous_instruction = Some (9, proof)\<rparr>"

definition sample_cx :: "pubkey \<Rightarrow> pubkey \<Rightarrow> pubkey \<Rightarrow> Ctx" where
  "sample_cx signer account wallet =
     \<lparr>cx_signer = signer, cx_reserve_mint = 5, cx_token_program = 6,
      cx_reserve_token_account = 6005017, cx_token_account = account, cx_wallet = wallet,
      cx_program_data = 77, cx_buffer = 55\<rparr>"

definition sample_config :: BridgeConfig where
  "sample_config = \<lparr>bc_protocol_version = 1, bc_admin = 1, bc_pending_admin = None, bc_paused = False,
     bc_release_paused = False, bc_deposit_paused = False, bc_bump = 255,
     bc_reserve_token_mint = 0, bc_reserve_token_program = 0,
     bc_reserve_authority_bump = 0, bc_obligation_count = 0, bc_governance_timelock_seconds = 100,
     bc_min_transfer_amount = 1, bc_per_transfer_limit = 1000, bc_protected_minimum = 10,
     bc_rolling_volume_limit = 5000, bc_rolling_window_seconds = 60,
     bc_upgrade_timelock_seconds = 200\<rparr>"

definition sample_keys :: AttestationKeySet where
  "sample_keys = \<lparr>ks_epoch = 0, ks_threshold = 2, ks_bump = 255, ks_keys = [101, 102, 103],
     ks_reserved = replicate 32 0\<rparr>"

definition sample_window :: "Direction \<Rightarrow> RollingVolumeWindow" where
  "sample_window d = \<lparr>vw_direction = d, vw_window_start = 1000, vw_window_total = 0, vw_bump = 255,
     vw_reserved = replicate 16 0\<rparr>"

definition sample_init :: Instruction where
  "sample_init = IxInitialize [101, 102, 103] 2 100 1 1000 10 5000 60 200"

definition sample_s1 :: Chain where
  "sample_s1 = sample_deployed\<lparr>st_config := Some sample_config, st_key_set := Some sample_keys,
     st_windows := (\<lambda>_. None)(GoldcoinToSolana := Some (sample_window GoldcoinToSolana),
       SolanaToGoldcoin := Some (sample_window SolanaToGoldcoin))\<rparr>"

definition sample_vault_config :: BridgeConfig where
  "sample_vault_config = sample_config\<lparr>bc_reserve_token_mint := 5, bc_reserve_token_program := 6,
     bc_reserve_authority_bump := 255\<rparr>"

definition sample_s2 :: Chain where
  "sample_s2 = sample_s1\<lparr>st_config := Some sample_vault_config,
     st_token_accounts := (st_token_accounts sample_s1)(6005017 := Some (sample_account 17 0))\<rparr>"

lemma valid_sample_keys: "valid_key_set [101, 102, 103] 2"
  by (simp add: valid_key_set_def MAX_ATTESTATION_KEYS_def pubkey_default_def)

lemma sample_step1:
  "process_instruction sample_runtime (sample_tx 1 1000 []) (sample_cx 1 0 0) sample_init sample_deployed
   = Inr (sample_s1, BridgeInitialized 1 1 2 3)"
  unfolding sample_init_def process_instruction.simps initialize_def Initialize_def constraint_defs
  by (simp add: sample_deployed_def sample_tx_def sample_cx_def valid_sample_keys
      validate_attestation_key_set_iff[THEN iffD2] Let_def sample_s1_def sample_config_def
      sample_keys_def sample_window_def PROTOCOL_VERSION_def pubkey_default_def)

lemma sample_create_account [simp]:
  "rt_create_token_account sample_runtime mints program mint owner =
     map_option (\<lambda>_. \<lparr>ta_program = program, ta_mint = mint, ta_owner = owner, ta_amount = 0,
       ta_data = []\<rparr>) (mints mint)"
  by (simp add: sample_runtime_def)

lemmas sample_defs =
  sample_deployed_def sample_tx_def sample_cx_def sample_s1_def sample_config_def
  sample_vault_config_def sample_window_def sample_account_def pubkey_default_def

lemma sample_step2:
  "process_instruction sample_runtime (sample_tx 1 1001 []) (sample_cx 1 0 0) IxInitializeReserveVault
     sample_s1 = Inr (sample_s2, ReserveVaultInitialized 5 6005017 17)"
  unfolding process_instruction.simps initialize_reserve_vault_def InitializeReserveVault_def
    constraint_defs
  by (simp add: sample_defs sample_s2_def Let_def)

text \<open>A deposit of 500 by wallet 20 for the Goldcoin address \<open>AB\<close>.\<close>

definition sample_obligation :: WithdrawalObligation where
  "sample_obligation = \<lparr>wo_index = 0, wo_amount = 500, wo_requester = 20,
     wo_glc_address = [65, 66] @ replicate 62 0, wo_glc_address_len = 2, wo_status = Pending,
     wo_requested_at_slot = 77, wo_protocol_version = 1, wo_bump = 255, wo_reserved = replicate 48 0\<rparr>"

definition sample_s3 :: Chain where
  "sample_s3 = sample_s2\<lparr>st_config := Some (sample_vault_config\<lparr>bc_obligation_count := 1\<rparr>),
     st_obligations := (\<lambda>_. None)(0 := Some sample_obligation),
     st_windows := (st_windows sample_s2)(SolanaToGoldcoin :=
       Some ((sample_window SolanaToGoldcoin)\<lparr>vw_window_total := 500\<rparr>)),
     st_token_accounts := (st_token_accounts sample_s2)(6005020 := Some (sample_account 20 500),
       6005017 := Some (sample_account 17 500))\<rparr>"

lemma sample_step3:
  "process_instruction sample_runtime (sample_tx 20 1002 []) (sample_cx 20 6005020 0)
     (IxDepositToReserve 500 [65, 66]) sample_s2
   = Inr (sample_s3, ReserveDeposited 0 20 500 [65, 66])"
  unfolding process_instruction.simps deposit_to_reserve_def DepositToReserve_def constraint_defs
  by (simp add: sample_defs sample_s2_def sample_s3_def sample_obligation_def Let_def
      enforce_transfer_amount_def MAX_GLC_ADDRESS_LEN_def checked_add_def spl_transfer_def
      enforce_and_record_rolling_volume_def saturating_sub_i64_def i64_min_def i64_max_def
      fun_upd_twist)

text \<open>A release of 100 to wallet 30, with a proof of the first and third key.\<close>

definition sample_proof :: "bytes \<Rightarrow> bytes" where
  "sample_proof m = build_attestation_proof [(101, replicate 64 1), (103, replicate 64 2)] m"

lemma sample_proof_approves:
  "length m < 2 ^ 16 \<Longrightarrow> require_signer_threshold sample_keys (sample_proof m) m = Inr ()"
  unfolding sample_proof_def
  by (rule built_proof_approves)
    (simp_all add: valid_keys_def sample_keys_def valid_sample_keys)

definition sample_release_message :: bytes where
  "sample_release_message = release_claim_message 1 crate_ID 0 7 0 100 30 5"

definition sample_claim :: DepositClaim where
  "sample_claim = \<lparr>dc_txid = 7, dc_vout = 0, dc_amount = 100, dc_recipient = 30,
     dc_attestation_epoch = 0, dc_protocol_version = 1, dc_slot_created = 77, dc_bump = 255,
     dc_reserved = replicate 16 0\<rparr>"

definition sample_s4 :: Chain where
  "sample_s4 = sample_s3\<lparr>st_claims := (\<lambda>_. None)((7, 0) := Some sample_claim),
     st_windows := (st_windows sample_s3)(GoldcoinToSolana :=
       Some ((sample_window GoldcoinToSolana)\<lparr>vw_window_total := 100\<rparr>)),
     st_token_accounts := (st_token_accounts sample_s3)(6005017 := Some (sample_account 17 400),
       6005030 := Some (sample_account 30 100))\<rparr>"

definition sample_release_tx :: Tx where
  "sample_release_tx = sample_tx 50 1003 (sample_proof sample_release_message)"

lemma sample_step4:
  "process_instruction sample_runtime sample_release_tx (sample_cx 50 6005030 30)
     (IxReleaseFromReserve 7 0 100 0) sample_s3
   = Inr (sample_s4, ReserveReleased 7 0 30 100 0)"
proof -
  have "length (release_claim_message 1 crate_ID 0 7 0 100 30 5) < 2 ^ 16"
    by (simp add: family_lengths message_len_defs)
  from sample_proof_approves[OF this] show ?thesis
    unfolding process_instruction.simps release_from_reserve_def ReleaseFromReserve_def constraint_defs
    by (simp add: sample_defs sample_s2_def sample_s3_def sample_s4_def sample_claim_def Let_def
        enforce_transfer_amount_def checked_add_def spl_transfer_def get_verification_ix_def
        enforce_protected_minimum_def sample_release_tx_def sample_release_message_def
        enforce_and_record_rolling_volume_def saturating_sub_i64_def i64_min_def i64_max_def
        sample_keys_def)
qed

lemmas sample_eval = sample_defs sample_s2_def sample_s3_def sample_s4_def Let_def
  enforce_transfer_amount_def checked_add_def spl_transfer_def get_verification_ix_def
  enforce_protected_minimum_def enforce_and_record_rolling_volume_def saturating_sub_i64_def
  i64_min_def i64_max_def

text \<open>The payout of obligation 0 is recorded under Goldcoin transaction 99 at height 5.\<close>

definition sample_completion_message :: bytes where
  "sample_completion_message =
     goldcoin_completion_message 1 crate_ID 0 0 99 5 490 (rt_hash sample_runtime [65, 66])"

definition sample_s5 :: Chain where
  "sample_s5 = sample_s4\<lparr>st_obligations := (\<lambda>_. None)(0 :=
     Some ((set_payout_record sample_obligation 99 5)\<lparr>wo_status := Completed\<rparr>))\<rparr>"

lemma sample_step5:
  "process_instruction sample_runtime (sample_tx 50 1004 (sample_proof sample_completion_message))
     (sample_cx 50 0 0) (IxRecordGoldcoinCompletion 0 99 5 490 0) sample_s4
   = Inr (sample_s5, ObligationCompleted 0 99 5 490 0)"
proof -
  have "length sample_completion_message < 2 ^ 16"
    by (simp add: sample_completion_message_def family_lengths message_len_defs)
  from sample_proof_approves[OF this] show ?thesis
    unfolding process_instruction.simps record_goldcoin_completion_def CompleteGoldcoinPayout_def
      constraint_defs
    by (simp add: sample_eval sample_s5_def sample_obligation_def payout_record_is_unset_def
        PAYOUT_RECORD_LEN_def list_all_iff sample_keys_def sample_completion_message_def)
qed

text \<open>A rotation to the keys 201, 202, 203, proposed at 1010 and executed at 1110.\<close>

definition sample_rotation_tx :: Tx where
  "sample_rotation_tx = sample_tx 50 1010 (sample_proof
     (rotation_message sample_runtime sample_vault_config sample_keys [201, 202, 203] 2))"

definition sample_pending :: PendingGovernanceAction where
  "sample_pending = \<lparr>pg_action = 3, pg_proposed_under_epoch = 0, pg_eta = 1110, pg_threshold = 2,
     pg_keys = [201, 202, 203], pg_bump = 255, pg_reserved = replicate 24 0\<rparr>"

definition sample_s6 :: Chain where
  "sample_s6 = sample_s4\<lparr>st_pending_action := Some sample_pending\<rparr>"

lemma valid_new_keys: "valid_key_set [201, 202, 203] 2"
  by (simp add: valid_key_set_def MAX_ATTESTATION_KEYS_def pubkey_default_def)

lemma sample_step6:
  "process_instruction sample_runtime sample_rotation_tx (sample_cx 50 0 0)
     (IxProposeAttestationKeyRotation [201, 202, 203] 2) sample_s4
   = Inr (sample_s6, GovernanceActionProposed 3 0 1110 2 3)"
proof -
  have "length (rotation_message sample_runtime sample_vault_config sample_keys [201, 202, 203] 2)
      < 2 ^ 16"
    by (simp add: rotation_message_def family_lengths message_len_defs)
  from sample_proof_approves[OF this] show ?thesis
    unfolding process_instruction.simps propose_attestation_key_rotation_def
      ProposeGovernanceAction_def constraint_defs
    by (simp add: sample_eval sample_s6_def sample_pending_def sample_keys_def
        require_threshold_approval_def sample_rotation_tx_def rotation_message_def
        ACTION_PROPOSE_ROTATION_def checked_add_i64_def is_i64_def valid_new_keys
        validate_attestation_key_set_iff[THEN iffD2])
qed

definition sample_s7 :: Chain where
  "sample_s7 = sample_s4\<lparr>st_key_set :=
     Some (sample_keys\<lparr>ks_epoch := 1, ks_threshold := 2, ks_keys := [201, 202, 203]\<rparr>)\<rparr>"

lemma sample_step7:
  "process_instruction sample_runtime (sample_tx 50 1110 []) (sample_cx 50 0 0)
     IxExecuteAttestationKeyRotation sample_s6 = Inr (sample_s7, GovernanceActionExecuted 3 1)"
  unfolding process_instruction.simps execute_attestation_key_rotation_def
    ExecuteGovernanceAction_def constraint_defs
  by (simp add: sample_eval sample_s6_def sample_s7_def sample_pending_def sample_keys_def
      ACTION_PROPOSE_ROTATION_def valid_new_keys validate_attestation_key_set_iff[THEN iffD2])

text \<open>
  A second deposit of 200, the allowlist with one treasury account, the global pause, a
  treasury withdrawal of 50, and the refund of the second deposit.
\<close>

definition sample_obligation2 :: WithdrawalObligation where
  "sample_obligation2 = sample_obligation\<lparr>wo_index := 1, wo_amount := 200\<rparr>"

definition sample_config2 :: BridgeConfig where
  "sample_config2 = sample_vault_config\<lparr>bc_obligation_count := 2\<rparr>"

definition sample_s8 :: Chain where
  "sample_s8 = sample_s4\<lparr>st_config := Some sample_config2,
     st_obligations := (\<lambda>_. None)(0 := Some sample_obligation, 1 := Some sample_obligation2),
     st_windows := (st_windows sample_s4)(SolanaToGoldcoin :=
       Some ((sample_window SolanaToGoldcoin)\<lparr>vw_window_total := 700\<rparr>)),
     st_token_accounts := (st_token_accounts sample_s4)(6005020 := Some (sample_account 20 300),
       6005017 := Some (sample_account 17 600))\<rparr>"

lemma sample_step8:
  "process_instruction sample_runtime (sample_tx 20 1004 []) (sample_cx 20 6005020 0)
     (IxDepositToReserve 200 [65, 66]) sample_s4
   = Inr (sample_s8, ReserveDeposited 1 20 200 [65, 66])"
  unfolding process_instruction.simps deposit_to_reserve_def DepositToReserve_def constraint_defs
  by (simp add: sample_eval sample_s8_def sample_obligation_def sample_obligation2_def
      sample_config2_def MAX_GLC_ADDRESS_LEN_def fun_upd_twist)

definition sample_policy :: RebalancePolicy where
  "sample_policy = \<lparr>rp_version = 0, rp_bump = 255, rp_treasury_count = 1,
     rp_treasuries = [6005040, 0, 0, 0], rp_reserved = replicate 64 0\<rparr>"

definition sample_s9 :: Chain where
  "sample_s9 = sample_s8\<lparr>st_policy := Some sample_policy\<rparr>"

lemma valid_sample_allowlist: "valid_allowlist [6005040] 6005017"
  by (simp add: valid_allowlist_def MAX_TREASURY_DESTINATIONS_def pubkey_default_def)

lemma sample_pack: "pack_treasuries [6005040] = [6005040, 0, 0, 0]"
  by (subst pack_treasuries_eq)
    (simp_all add: MAX_TREASURY_DESTINATIONS_def pubkey_default_def numeral_3_eq_3)

definition sample_policy_tx :: Tx where
  "sample_policy_tx = sample_tx 50 1005 (sample_proof (policy_message sample_runtime sample_config2
     sample_keys ACTION_INITIALIZE_REBALANCE_POLICY [6005040]))"

lemma sample_step9:
  "process_instruction sample_runtime sample_policy_tx (sample_cx 50 0 0)
     (IxInitializeRebalancePolicy [6005040]) sample_s8
   = Inr (sample_s9, RebalancePolicyInitialized 0 [6005040])"
proof -
  have "length (policy_message sample_runtime sample_config2 sample_keys
      ACTION_INITIALIZE_REBALANCE_POLICY [6005040]) < 2 ^ 16"
    by (simp add: policy_message_def family_lengths message_len_defs)
  from sample_proof_approves[OF this] show ?thesis
    unfolding process_instruction.simps initialize_rebalance_policy_def
      InitializeRebalancePolicy_def constraint_defs policy_approval_same
    by (simp add: sample_eval sample_s8_def sample_s9_def sample_policy_def sample_keys_def
        require_threshold_approval_def sample_policy_tx_def policy_message_def sample_pack
        sample_config2_def valid_sample_allowlist validate_rebalance_policy_iff[THEN iffD2])
qed

definition sample_s10 :: Chain where
  "sample_s10 = sample_s9\<lparr>st_config := Some (sample_config2\<lparr>bc_paused := True\<rparr>)\<rparr>"

lemma sample_step10:
  "process_instruction sample_runtime (sample_tx 1 1006 []) (sample_cx 1 0 0) (IxSetPaused Global True)
     sample_s9 = Inr (sample_s10, PauseStateChanged True False False)"
  unfolding process_instruction.simps set_paused_def AdminConfig_def constraint_defs
  by (simp add: sample_eval sample_s8_def sample_s9_def sample_s10_def sample_config2_def)

definition sample_treasury_message :: bytes where
  "sample_treasury_message = treasury_withdraw_claim_message 1 crate_ID 0 1 50 6005040 5 6005017 0"

definition sample_treasury_tx :: Tx where
  "sample_treasury_tx = sample_tx 1 1007 (sample_proof sample_treasury_message)"

definition sample_withdrawal :: "u64 \<Rightarrow> u64 \<Rightarrow> pubkey \<Rightarrow> u8 \<Rightarrow> RebalanceWithdrawal" where
  "sample_withdrawal nonce amount destination class = \<lparr>rw_nonce = nonce, rw_amount = amount,
     rw_destination = destination, rw_admin = 1, rw_attestation_epoch = 0, rw_protocol_version = 1,
     rw_slot_created = 77, rw_bump = 255, rw_reserved = (replicate 16 0)[0 := class]\<rparr>"

definition sample_s11 :: Chain where
  "sample_s11 = sample_s10\<lparr>
     st_withdrawals := (\<lambda>_. None)(1 := Some (sample_withdrawal 1 50 6005040 1)),
     st_token_accounts := (st_token_accounts sample_s10)(6005017 := Some (sample_account 17 550),
       6005040 := Some (sample_account 40 50))\<rparr>"

lemma sample_nonces:
  "and (1 :: u64) NONCE_DOMAIN_REFUND = 0" "and (2 ^ 63 :: u64) NONCE_DOMAIN_REFUND \<noteq> 0"
  by (simp_all add: refund_domain_bit and_exp_eq_0_iff_not_bit bit_simps)

lemma sample_step11:
  "process_instruction sample_runtime sample_treasury_tx (sample_cx 1 6005040 0)
     (IxTreasuryWithdraw 1 50 0) sample_s10
   = Inr (sample_s11, RebalanceWithdrawalExecuted 1 6005040 50 0 1 550 1)"
proof -
  have "length sample_treasury_message < 2 ^ 16"
    by (simp add: sample_treasury_message_def family_lengths message_len_defs)
  from sample_proof_approves[OF this] show ?thesis
    unfolding process_instruction.simps treasury_withdraw_def TreasuryWithdraw_def constraint_defs
    by (simp add: sample_eval sample_s8_def sample_s9_def sample_s10_def sample_s11_def
        sample_config2_def sample_policy_def sample_keys_def sample_treasury_tx_def sample_nonces
        sample_treasury_message_def is_allowlisted_def MAX_TREASURY_DESTINATIONS_def
        sample_withdrawal_def WITHDRAWAL_CLASS_TREASURY_def checked_sub_def)
qed

definition sample_refund_message :: bytes where
  "sample_refund_message =
     refund_withdraw_claim_message 1 crate_ID 0 (2 ^ 63) 200 6005020 5 6005017 1 20"

definition sample_refund_tx :: Tx where
  "sample_refund_tx = sample_tx 1 1008 (sample_proof sample_refund_message)"

definition sample_s12 :: Chain where
  "sample_s12 = sample_s11\<lparr>
     st_withdrawals := (st_withdrawals sample_s11)(2 ^ 63 := Some (sample_withdrawal (2 ^ 63) 200 6005020 2)),
     st_obligations := (\<lambda>_. None)(0 := Some sample_obligation,
       1 := Some (sample_obligation2\<lparr>wo_status := Refunded\<rparr>)),
     st_token_accounts := (st_token_accounts sample_s11)(6005017 := Some (sample_account 17 350),
       6005020 := Some (sample_account 20 500))\<rparr>"

lemma sample_step12:
  "process_instruction sample_runtime sample_refund_tx (sample_cx 1 6005020 20)
     (IxRefundWithdraw (2 ^ 63) 200 0 1) sample_s11
   = Inr (sample_s12, RebalanceWithdrawalExecuted (2 ^ 63) 6005020 200 0 1 350 2)"
proof -
  have "length sample_refund_message < 2 ^ 16"
    by (simp add: sample_refund_message_def family_lengths message_len_defs)
  from sample_proof_approves[OF this] sample_nonces(2) show ?thesis
    unfolding process_instruction.simps refund_withdraw_def RefundWithdraw_def constraint_defs
    by (simp add: sample_eval sample_s8_def sample_s9_def sample_s10_def sample_s11_def sample_s12_def
        sample_config2_def sample_keys_def sample_refund_tx_def sample_obligation2_def
        sample_obligation_def sample_refund_message_def sample_withdrawal_def
        WITHDRAWAL_CLASS_REFUND_def checked_sub_def)
qed

section \<open>The execution\<close>

definition sample_trace4 :: "step list" where
  "sample_trace4 =
     [Ran (sample_tx 1 1000 []) (sample_cx 1 0 0) sample_init (BridgeInitialized 1 1 2 3),
      Ran (sample_tx 1 1001 []) (sample_cx 1 0 0) IxInitializeReserveVault
        (ReserveVaultInitialized 5 6005017 17),
      Ran (sample_tx 20 1002 []) (sample_cx 20 6005020 0) (IxDepositToReserve 500 [65, 66])
        (ReserveDeposited 0 20 500 [65, 66]),
      Ran sample_release_tx (sample_cx 50 6005030 30) (IxReleaseFromReserve 7 0 100 0)
        (ReserveReleased 7 0 30 100 0)]"

lemma sample_is_deployed: "deployed sample_deployed"
  by (simp add: deployed_def sample_deployed_def)

lemma sample_well_typed:
  "is_i64 (tx_unix_timestamp tx) \<Longrightarrow> well_typed tx ix" if "\<And>k t g m p q r w u. ix \<noteq> IxInitialize k t g m p q r w u"
proof (cases ix)
  case (IxInitialize k t g m p q r w u)
  with that show ?thesis by blast
qed (simp_all add: well_typed_def)

lemma sample_times [simp]:
  "is_i64 (tx_unix_timestamp (sample_tx a 1000 p))" "is_i64 (tx_unix_timestamp (sample_tx a 1001 p))"
  "is_i64 (tx_unix_timestamp (sample_tx a 1002 p))" "is_i64 (tx_unix_timestamp sample_release_tx)"
  "is_i64 (tx_unix_timestamp (sample_tx a 1004 p))" "is_i64 (tx_unix_timestamp sample_rotation_tx)"
  "is_i64 (tx_unix_timestamp (sample_tx a 1110 p))" "is_i64 (tx_unix_timestamp sample_policy_tx)"
  "is_i64 (tx_unix_timestamp (sample_tx a 1006 p))" "is_i64 (tx_unix_timestamp sample_treasury_tx)"
  by (simp_all add: sample_tx_def sample_release_tx_def sample_rotation_tx_def sample_policy_tx_def
      sample_treasury_tx_def is_i64_def i64_min_def i64_max_def)

lemma sample_exec4: "exec sample_runtime sample_deployed sample_trace4 sample_s4"
proof -
  have "well_typed (sample_tx 1 1000 []) sample_init"
    by (simp add: well_typed_def sample_init_def sample_tx_def is_i64_def i64_min_def i64_max_def)
  note s1 = exec_ran[OF exec_start this sample_step1]
  note s2 = exec_ran[OF s1 sample_well_typed sample_step2]
  note s3 = exec_ran[OF s2 sample_well_typed sample_step3]
  note s4 = exec_ran[OF s3 sample_well_typed sample_step4]
  show ?thesis using s4 by (simp add: sample_trace4_def)
qed

definition sample_trace6 :: "step list" where
  "sample_trace6 = sample_trace4 @ [Ran sample_rotation_tx (sample_cx 50 0 0)
     (IxProposeAttestationKeyRotation [201, 202, 203] 2) (GovernanceActionProposed 3 0 1110 2 3)]"

lemma sample_exec6: "exec sample_runtime sample_deployed sample_trace6 sample_s6"
  unfolding sample_trace6_def
  by (rule exec_ran[OF sample_exec4 _ sample_step6]) (simp add: sample_well_typed)

lemma sample_exec_s4_s5:
  "exec sample_runtime sample_s4 [Ran (sample_tx 50 1004 (sample_proof sample_completion_message))
     (sample_cx 50 0 0) (IxRecordGoldcoinCompletion 0 99 5 490 0) (ObligationCompleted 0 99 5 490 0)]
     sample_s5"
  using exec_ran[OF exec_start sample_well_typed sample_step5] by simp

lemma sample_exec10: "\<exists>tr. exec sample_runtime sample_deployed tr sample_s10"
proof -
  note s8 = exec_ran[OF sample_exec4 sample_well_typed sample_step8]
  note s9 = exec_ran[OF s8 sample_well_typed sample_step9]
  note s10 = exec_ran[OF s9 sample_well_typed sample_step10]
  show ?thesis using s10 by auto
qed

lemma sample_exec11: "\<exists>tr. exec sample_runtime sample_deployed tr sample_s11"
  using sample_exec10 exec_ran[OF _ sample_well_typed sample_step11] by auto

lemma sample_reachable:
  "reachable sample_runtime sample_s3" "reachable sample_runtime sample_s4"
  "reachable sample_runtime sample_s6" "reachable sample_runtime sample_s10"
  "reachable sample_runtime sample_s11"
proof -
  show "reachable sample_runtime sample_s4" "reachable sample_runtime sample_s6"
    using sample_exec4 sample_exec6 sample_is_deployed by (auto simp: reachable_def)
  show "reachable sample_runtime sample_s10" "reachable sample_runtime sample_s11"
    using sample_exec10 sample_exec11 sample_is_deployed by (auto simp: reachable_def)
  have "well_typed (sample_tx 1 1000 []) sample_init"
    by (simp add: well_typed_def sample_init_def sample_tx_def is_i64_def i64_min_def i64_max_def)
  note s1 = exec_ran[OF exec_start this sample_step1]
  note s2 = exec_ran[OF s1 sample_well_typed sample_step2]
  note s3 = exec_ran[OF s2 sample_well_typed sample_step3]
  show "reachable sample_runtime sample_s3"
    using s3 sample_is_deployed unfolding reachable_def by auto
qed

text \<open>A signature scheme under which the sample proofs are valid.\<close>

definition sample_verify :: "pubkey \<Rightarrow> bytes \<Rightarrow> bytes \<Rightarrow> bool" where
  "sample_verify key m signature \<longleftrightarrow> length signature \<le> 64"

lemma sample_precompile: "precompile_law sample_verify sample_runtime tx"
  by (simp add: precompile_law_def precompile_accepts_def sample_verify_def entry_signature_def)

end
