(* ===== verification/Bridge_Properties.thy ===== *)
theory Bridge_Properties
  imports Sample_Execution
begin

text \<open>
  The properties of the on-chain program, each over the handlers of \<open>Program\<close> and its
  executions, with an instance on the sample execution.
\<close>

section \<open>Who controls the reserve\<close>

text \<open>
  C21. In every reachable state the attestation-key set is one the trust model allows: between
  two and eight pairwise distinct keys, none of them the default key, and a threshold of at
  least two that the keys can reach. No sequence of initialization, proposals, rotations and
  anything else gets the program out of this.
\<close>

theorem key_set_always_valid:
  assumes "reachable rt s" and "st_key_set s = Some ks"
  shows "2 \<le> unat (ks_threshold ks) \<and> unat (ks_threshold ks) \<le> length (ks_keys ks)
    \<and> length (ks_keys ks) \<le> 8 \<and> distinct (ks_keys ks) \<and> pubkey_default \<notin> set (ks_keys ks)"
  using keys.inv_reachable[OF assms(1)] assms(2)
  by (simp add: keys_inv_def valid_keys_def valid_key_set_def MAX_ATTESTATION_KEYS_def)

theorem key_set_always_valid_witness:
  "2 \<le> unat (ks_threshold sample_keys) \<and> unat (ks_threshold sample_keys) \<le> length (ks_keys sample_keys)
    \<and> length (ks_keys sample_keys) \<le> 8 \<and> distinct (ks_keys sample_keys)
    \<and> pubkey_default \<notin> set (ks_keys sample_keys)"
  by (rule key_set_always_valid[OF sample_reachable(2)])
    (simp add: sample_s4_def sample_s3_def sample_s2_def sample_s1_def)

lemma reachable_keys: "reachable rt s \<Longrightarrow> st_key_set s = Some ks \<Longrightarrow> valid_keys ks"
  using keys.inv_reachable by (fastforce simp: keys_inv_def)

lemma reachable_config: "reachable rt s \<Longrightarrow> st_config s = Some c \<Longrightarrow> canonical_reserve_bump rt c"
  using config.inv_reachable by (fastforce simp: config_inv_def wf_config_def)

text \<open>
  C3. A release from the reserve happens only with the approval of a threshold of distinct
  attestation keys over exactly this deposit outpoint, amount, recipient wallet, mint, program
  and current epoch, while neither the bridge nor the release direction is paused, for an
  amount within the configured bounds and for an outpoint not yet claimed; and it records
  precisely that claim. The ed25519 precompile is assumed to have verified the entries of the
  preceding instruction.
\<close>

theorem release_authorized:
  assumes "reachable rt s" and "precompile_law verify rt tx"
    and "process_instruction rt tx cx (IxReleaseFromReserve txid vout amount epoch) s = Inr (s', e)"
  shows "\<exists>config ks. st_config s = Some config \<and> st_key_set s = Some ks
    \<and> approved verify tx ks (release_claim_message (bc_protocol_version config) crate_ID
        (ks_epoch ks) txid vout amount (cx_wallet cx) (bc_reserve_token_mint config))
    \<and> \<not> bc_paused config \<and> \<not> bc_release_paused config \<and> epoch = ks_epoch ks
    \<and> 0 < amount \<and> bc_min_transfer_amount config \<le> amount \<and> amount \<le> bc_per_transfer_limit config
    \<and> st_claims s (txid, vout) = None
    \<and> st_claims s' = (st_claims s)((txid, vout) :=
        Some (release_claim rt tx cx config ks txid vout amount))"
proof -
  from assms(3) have "release_from_reserve rt tx cx s txid vout amount epoch = Inr (s', e)" by simp
  then show ?thesis
  proof (rule release_elim, goal_cases)
    case (1 config ks w w' ta')
    from assms(3) have r: "(\<lambda>(txid, vout, amount, epoch). release_from_reserve rt tx cx s txid vout amount epoch)
      (txid, vout, amount, epoch) = Inr (s', e)" by simp
    from release_flow.outflow_approved[OF r 1(2) reachable_keys[OF assms(1) 1(2)] assms(2)] 1
    show ?thesis by (simp add: release_message_def enforce_transfer_amount_ok)
  qed
qed

theorem release_authorized_witness:
  "\<exists>config ks. st_config sample_s3 = Some config \<and> st_key_set sample_s3 = Some ks
    \<and> approved sample_verify sample_release_tx ks
        (release_claim_message (bc_protocol_version config) crate_ID
        (ks_epoch ks) 7 0 100 (cx_wallet (sample_cx 50 6005030 30)) (bc_reserve_token_mint config))
    \<and> \<not> bc_paused config \<and> \<not> bc_release_paused config \<and> (0 :: u64) = ks_epoch ks
    \<and> 0 < (100 :: u64) \<and> bc_min_transfer_amount config \<le> 100 \<and> 100 \<le> bc_per_transfer_limit config
    \<and> st_claims sample_s3 (7, 0) = None
    \<and> st_claims sample_s4 = (st_claims sample_s3)((7, 0) :=
        Some (release_claim sample_runtime sample_release_tx (sample_cx 50 6005030 30) config ks 7 0 100))"
  by (rule release_authorized[OF sample_reachable(1) sample_precompile sample_step4])

text \<open>
  C2. A Goldcoin deposit is released at most once, for ever: in any execution from
  deployment, the number of accepted releases for an outpoint is one if its claim exists in
  the final state and zero otherwise.
\<close>

theorem released_at_most_once:
  assumes "deployed s0" and "exec rt s0 tr s"
  shows "occurrences (releases txid vout) tr = (if st_claims s (txid, vout) = None then 0 else 1)"
  using release_counts[OF assms(2)] assms(1) by (simp add: deployed_def)

theorem released_at_most_once_witness:
  "occurrences (releases 7 0) sample_trace4 = (if st_claims sample_s4 (7, 0) = None then 0 else 1)
   \<and> st_claims sample_s4 (7, 0) \<noteq> None"
  using released_at_most_once[OF sample_is_deployed sample_exec4, of 7 0]
  by (simp add: sample_s4_def)

section \<open>The reserve's money\<close>

text \<open>
  C1. The reserve's books balance: in any execution from deployment, once the vault is
  configured, what depositors paid in is covered by the reserve's balance plus what releases,
  treasury withdrawals and refunds paid out; and without transfers from outside the program
  the two sides are equal, to the last unit. Assumed are the documented behaviours of the
  token program's transfer, of account creation and of address derivation.
\<close>

theorem reserve_accounting:
  assumes "deployed s0" and "exec rt s0 tr s"
    and "token_program_law rt" and "address_law rt" and "create_account_law rt"
    and "st_config s = Some c" and "bc_reserve_token_mint c \<noteq> pubkey_default"
  shows "inflow (reserve_key rt c) tr \<le> balance_of s (reserve_key rt c) + outflow (reserve_key rt c) tr
    \<and> (External \<notin> set tr \<longrightarrow>
        inflow (reserve_key rt c) tr = balance_of s (reserve_key rt c) + outflow (reserve_key rt c) tr)"
  using books_exec[OF assms(2,1,3-5)] assms(6,7) by (simp add: books_def)

theorem reserve_accounting_witness:
  "inflow (reserve_key sample_runtime (sample_vault_config\<lparr>bc_obligation_count := 1\<rparr>)) sample_trace4
     = balance_of sample_s4 (reserve_key sample_runtime (sample_vault_config\<lparr>bc_obligation_count := 1\<rparr>))
       + outflow (reserve_key sample_runtime (sample_vault_config\<lparr>bc_obligation_count := 1\<rparr>)) sample_trace4
   \<and> 0 < outflow (reserve_key sample_runtime (sample_vault_config\<lparr>bc_obligation_count := 1\<rparr>)) sample_trace4"
proof -
  have "External \<notin> set sample_trace4" by (simp add: sample_trace4_def)
  moreover have "0 < outflow (reserve_key sample_runtime (sample_vault_config\<lparr>bc_obligation_count := 1\<rparr>)) sample_trace4"
    by (simp add: sample_trace4_def outflow_def paid_out_def reserve_key_def sample_vault_config_def
        sample_cx_def)
  moreover have "st_config sample_s4 = Some (sample_vault_config\<lparr>bc_obligation_count := 1\<rparr>)" "bc_reserve_token_mint (sample_vault_config\<lparr>bc_obligation_count := 1\<rparr>) \<noteq> pubkey_default"
    by (simp_all add: sample_s4_def sample_s3_def sample_vault_config_def pubkey_default_def)
  ultimately show ?thesis
    using reserve_accounting[OF sample_is_deployed sample_exec4 sample_token_program_law
        sample_address_law sample_create_account_law] by blast
qed

text \<open>The amount an instruction pays out of the reserve, if it is one that does.\<close>

definition outflow_amount :: "Instruction \<Rightarrow> u64 option" where
  "outflow_amount ix = (case ix of
     IxReleaseFromReserve txid vout amount epoch \<Rightarrow> Some amount
   | IxTreasuryWithdraw nonce amount epoch \<Rightarrow> Some amount
   | IxRefundWithdraw nonce amount epoch index \<Rightarrow> Some amount
   | _ \<Rightarrow> None)"

lemma outflow_keeps_floor:
  assumes "process_instruction rt tx cx ix s = Inr (s', e)" "outflow_amount ix = Some amount"
    and "st_config s = Some c" "token_program_law rt" "address_law rt" "canonical_reserve_bump rt c"
  shows "unat (bc_protected_minimum c) + unat amount \<le> balance_of s (reserve_key rt c)
    \<and> unat (bc_protected_minimum c) \<le> balance_of s' (reserve_key rt c)"
proof (cases ix)
  case (IxReleaseFromReserve txid vout a epoch)
  then have r: "(\<lambda>(txid, vout, amount, epoch). release_from_reserve rt tx cx s txid vout amount epoch)
    (txid, vout, a, epoch) = Inr (s', e)" using assms(1) by simp
  show ?thesis
    using release_flow.outflow_keeps_minimum[OF r assms(3,4)] assms(2) IxReleaseFromReserve
      release_flow.outflow_reserve_account[OF r assms(3,5,6)] by (simp add: outflow_amount_def)
next
  case (IxTreasuryWithdraw nonce a epoch)
  then have r: "(\<lambda>(nonce, amount, epoch). treasury_withdraw rt tx cx s nonce amount epoch)
    (nonce, a, epoch) = Inr (s', e)" using assms(1) by simp
  show ?thesis
    using treasury_flow.outflow_keeps_minimum[OF r assms(3,4)] assms(2) IxTreasuryWithdraw
      treasury_flow.outflow_reserve_account[OF r assms(3,5,6)] by (simp add: outflow_amount_def)
next
  case (IxRefundWithdraw nonce a epoch index)
  then have r: "(\<lambda>(nonce, amount, epoch, index). refund_withdraw rt tx cx s nonce amount epoch index)
    (nonce, a, epoch, index) = Inr (s', e)" using assms(1) by simp
  show ?thesis
    using refund_flow.outflow_keeps_minimum[OF r assms(3,4)] assms(2) IxRefundWithdraw
      refund_flow.outflow_reserve_account[OF r assms(3,5,6)] by (simp add: outflow_amount_def)
qed (use assms(2) in \<open>simp_all add: outflow_amount_def\<close>)

text \<open>
  C5. No outflow digs into the protected minimum: whenever a release, a treasury withdrawal or
  a refund of some amount succeeds in a reachable state, the reserve held that amount on top
  of the protected minimum before, and still holds at least the protected minimum after.
\<close>

theorem outflows_keep_protected_minimum:
  assumes "reachable rt s" and "token_program_law rt" and "address_law rt"
    and "process_instruction rt tx cx ix s = Inr (s', e)" and "outflow_amount ix = Some amount"
    and "st_config s = Some c"
  shows "unat (bc_protected_minimum c) + unat amount \<le> balance_of s (reserve_key rt c)
    \<and> unat (bc_protected_minimum c) \<le> balance_of s' (reserve_key rt c)"
  by (rule outflow_keeps_floor[OF assms(4-6,2,3) reachable_config[OF assms(1,6)]])

theorem outflows_keep_protected_minimum_witness:
  "unat (bc_protected_minimum (sample_vault_config\<lparr>bc_obligation_count := 1\<rparr>)) + unat (100 :: u64)
      \<le> balance_of sample_s3 (reserve_key sample_runtime (sample_vault_config\<lparr>bc_obligation_count := 1\<rparr>))
    \<and> unat (bc_protected_minimum (sample_vault_config\<lparr>bc_obligation_count := 1\<rparr>))
      \<le> balance_of sample_s4 (reserve_key sample_runtime (sample_vault_config\<lparr>bc_obligation_count := 1\<rparr>))"
  by (rule outflows_keep_protected_minimum[OF sample_reachable(1) sample_token_program_law
        sample_address_law sample_step4])
    (simp_all add: outflow_amount_def sample_s3_def)

section \<open>Obligations\<close>

lemma from_zero_bytes: "\<forall>b \<in> set bs. b = 0 \<Longrightarrow> from_bytes bs = 0"
proof -
  have "\<forall>b \<in> set bs. b = 0 \<Longrightarrow> le_decode bs = 0" for bs by (induction bs) auto
  then show "\<forall>b \<in> set bs. b = 0 \<Longrightarrow> from_bytes bs = 0" by (simp add: from_bytes_def)
qed

lemma unset_record_zero:
  assumes "payout_record_is_unset ob"
  shows "from_bytes (take 32 (wo_reserved ob)) = 0"
proof (rule from_zero_bytes)
  have "take 32 (wo_reserved ob) = take 32 (take PAYOUT_RECORD_LEN (wo_reserved ob))"
    by (simp add: PAYOUT_RECORD_LEN_def)
  then show "\<forall>b \<in> set (take 32 (wo_reserved ob)). b = 0"
    using assms unfolding payout_record_is_unset_def list_all_iff by (metis in_set_takeD)
qed

text \<open>
  The obligation register is sound in every reachable state: obligations exist exactly for
  the indices below the counter, each stored under its own index with a positive amount and a
  non-empty Goldcoin address of at most 64 bytes; none is ever in the unused Broadcast status;
  a completed one carries a payout record with a non-zero transaction id and height, and a
  pending or refunded one carries none.
\<close>

theorem obligation_register_sound:
  assumes "reachable rt s"
  shows "(st_obligations s i \<noteq> None \<longleftrightarrow> i < obligation_count s)
    \<and> (\<forall>ob. st_obligations s i = Some ob \<longrightarrow>
         wo_index ob = i \<and> 0 < wo_amount ob
         \<and> 1 \<le> unat (wo_glc_address_len ob) \<and> unat (wo_glc_address_len ob) \<le> 64
         \<and> wo_status ob \<noteq> Broadcast
         \<and> (wo_status ob = Completed \<longleftrightarrow>
              (\<exists>txid height. payout_record ob = Some (txid, height) \<and> txid \<noteq> 0 \<and> 0 < height))
         \<and> (wo_status ob \<noteq> Completed \<longleftrightarrow> payout_record_is_unset ob))"
proof -
  have "wo_status ob \<noteq> Broadcast
         \<and> (wo_status ob = Completed \<longleftrightarrow>
              (\<exists>txid height. payout_record ob = Some (txid, height) \<and> txid \<noteq> 0 \<and> 0 < height))
         \<and> (wo_status ob \<noteq> Completed \<longleftrightarrow> payout_record_is_unset ob)" if "wf_obligation rt i ob" for ob
  proof (cases "wo_status ob")
    case Completed
    with that have "\<not> payout_record_is_unset ob"
      using unset_record_zero by (auto simp: wf_obligation_def payout_record_def)
    with that Completed show ?thesis by (auto simp: wf_obligation_def)
  qed (use that in \<open>auto simp: wf_obligation_def payout_record_def\<close>)
  then show ?thesis
    using obligations.inv_reachable[OF assms] unfolding obligations_inv_def
    by (meson wf_obligation_def)
qed

theorem obligation_register_sound_witness:
  "(st_obligations sample_s4 0 \<noteq> None \<longleftrightarrow> 0 < obligation_count sample_s4)
    \<and> wo_index sample_obligation = 0 \<and> 0 < wo_amount sample_obligation
    \<and> 1 \<le> unat (wo_glc_address_len sample_obligation)
    \<and> unat (wo_glc_address_len sample_obligation) \<le> 64
    \<and> (wo_status sample_obligation \<noteq> Completed \<longleftrightarrow> payout_record_is_unset sample_obligation)"
proof -
  have "st_obligations sample_s4 0 = Some sample_obligation"
    by (simp add: sample_s4_def sample_s3_def)
  then show ?thesis using obligation_register_sound[OF sample_reachable(2), of 0] by blast
qed

text \<open>
  What a depositor was promised never changes: along any execution an obligation keeps its
  index, amount, requester and Goldcoin address; its record stays as it is, except that a
  pending one may become completed or refunded, and those two are final.
\<close>

theorem obligation_lifecycle:
  assumes "exec rt s tr s'" and "st_obligations s i = Some ob"
  shows "\<exists>ob'. st_obligations s' i = Some ob' \<and> obligation_terms ob' = obligation_terms ob
    \<and> (ob' = ob \<or> wo_status ob = Pending \<and> wo_status ob' \<in> {Completed, Refunded})"
  by (rule obligation_lifecycle_exec[OF assms])

theorem obligation_lifecycle_witness:
  "\<exists>ob'. st_obligations sample_s5 0 = Some ob' \<and> obligation_terms ob' = obligation_terms sample_obligation
    \<and> (ob' = sample_obligation
       \<or> wo_status sample_obligation = Pending \<and> wo_status ob' \<in> {Completed, Refunded})"
  by (rule obligation_lifecycle[OF sample_exec_s4_s5])
    (simp add: sample_s4_def sample_s3_def)

text \<open>
  C4. No deposit is paid twice: in any execution from deployment, the completions recorded for
  an obligation and its refunds together number one if the obligation has left the pending
  status, and zero otherwise. In particular no obligation is both paid out and refunded.
\<close>

theorem settled_at_most_once:
  assumes "deployed s0" and "exec rt s0 tr s"
  shows "occurrences (settles i) tr = (if settled s i then 1 else 0)"
  by (rule settle_counts[OF assms(2,1)])

theorem settled_at_most_once_witness:
  "occurrences (settles 0) sample_trace4 = (if settled sample_s4 0 then 1 else 0)"
  by (rule settled_at_most_once[OF sample_is_deployed sample_exec4])

text \<open>
  A deposit is taken exactly: an accepted deposit moves the stated amount from the
  signer's associated account into the reserve, and records, under the next index, a pending
  obligation for that amount, requester and Goldcoin address; the counter advances by one.
\<close>

theorem deposit_recorded_exactly:
  assumes "reachable rt s" and "token_program_law rt" and "address_law rt"
    and "process_instruction rt tx cx (IxDepositToReserve amount glc) s = Inr (s', e)"
  shows "\<exists>c c'. st_config s = Some c \<and> st_config s' = Some c'
    \<and> moves_tokens (st_token_accounts s) (cx_token_account cx) (reserve_key rt c) amount
        (st_token_accounts s')
    \<and> unat (bc_obligation_count c') = unat (bc_obligation_count c) + 1
    \<and> (\<exists>ob. st_obligations s' = (st_obligations s)(bc_obligation_count c := Some ob)
         \<and> wo_amount ob = amount \<and> wo_requester ob = cx_signer cx \<and> wo_status ob = Pending
         \<and> take (unat (wo_glc_address_len ob)) (wo_glc_address ob) = glc)
    \<and> cx_signer cx \<in> set (tx_signers tx) \<and> \<not> bc_paused c \<and> \<not> bc_deposit_paused c"
proof -
  from assms(4) have r: "deposit_to_reserve rt tx cx s amount glc = Inr (s', e)" by simp
  then show ?thesis
  proof (rule deposit_elim, goal_cases)
    case (1 c w w' ua ra mint cnt ta')
    have len: "unat (word_of_nat (length glc) :: u8) = length glc"
      using 1 by (simp add: MAX_GLC_ADDRESS_LEN_def unat_of_nat)
    have "moves_tokens (st_token_accounts s) (cx_token_account cx) (reserve_key rt c) amount
        (st_token_accounts s')"
      using deposit_moves[OF r assms(2,3) config.inv_reachable[OF assms(1)]] 1 by blast
    moreover have "unat cnt = unat (bc_obligation_count c) + 1"
      using checked_add_unat 1 by fastforce
    ultimately show ?thesis
      using 1 len
      by (intro exI[of _ c] exI[of _ "c\<lparr>bc_obligation_count := cnt\<rparr>"])
        (auto intro!: exI[of _ "deposit_obligation rt tx cx c amount glc"] simp: deposit_obligation_def)
  qed
qed

theorem deposit_recorded_exactly_witness:
  "\<exists>c c'. st_config sample_s4 = Some c \<and> st_config sample_s8 = Some c'
    \<and> moves_tokens (st_token_accounts sample_s4) (cx_token_account (sample_cx 20 6005020 0))
        (reserve_key sample_runtime c) 200 (st_token_accounts sample_s8)
    \<and> unat (bc_obligation_count c') = unat (bc_obligation_count c) + 1
    \<and> (\<exists>ob. st_obligations sample_s8 = (st_obligations sample_s4)(bc_obligation_count c := Some ob)
         \<and> wo_amount ob = 200 \<and> wo_requester ob = cx_signer (sample_cx 20 6005020 0)
         \<and> wo_status ob = Pending
         \<and> take (unat (wo_glc_address_len ob)) (wo_glc_address ob) = [65, 66])
    \<and> cx_signer (sample_cx 20 6005020 0) \<in> set (tx_signers (sample_tx 20 1004 []))
    \<and> \<not> bc_paused c \<and> \<not> bc_deposit_paused c"
  by (rule deposit_recorded_exactly[OF sample_reachable(2) sample_token_program_law
        sample_address_law sample_step8])

text \<open>
  A payout is recorded only with the approval of a threshold of distinct attestation keys
  over this obligation index, payout transaction, height, amount and the hash of exactly the
  Goldcoin address the depositor gave, under the current epoch, and only for a pending
  obligation; the recorded transaction and height are the approved ones.
\<close>

theorem completion_authorized:
  assumes "reachable rt s" and "precompile_law verify rt tx"
    and "process_instruction rt tx cx
      (IxRecordGoldcoinCompletion index payout_txid payout_height amount epoch) s = Inr (s', e)"
  shows "\<exists>config ks ob ob'. st_config s = Some config \<and> st_key_set s = Some ks
    \<and> st_obligations s index = Some ob \<and> st_obligations s' = (st_obligations s)(index := Some ob')
    \<and> wo_status ob = Pending \<and> wo_status ob' = Completed
    \<and> payout_record ob' = Some (payout_txid, payout_height)
    \<and> obligation_terms ob' = obligation_terms ob \<and> epoch = ks_epoch ks \<and> \<not> bc_paused config
    \<and> approved verify tx ks (goldcoin_completion_message (bc_protocol_version config) crate_ID
        (ks_epoch ks) index payout_txid payout_height amount
        (rt_hash rt (take (unat (wo_glc_address_len ob)) (wo_glc_address ob))))"
proof -
  from assms(3) have "record_goldcoin_completion rt tx cx s index payout_txid payout_height amount epoch
    = Inr (s', e)" by simp
  then show ?thesis
  proof (rule completion_elim, goal_cases)
    case (1 config ks ob data)
    have "approved verify tx ks (completion_message rt config ks ob index payout_txid payout_height amount)"
      using threshold_approved[OF _ _ _ assms(2)] reachable_keys[OF assms(1)] 1 by metis
    with 1 show ?thesis
      by (intro exI[of _ config] exI[of _ ks] exI[of _ ob]
          exI[of _ "(set_payout_record ob payout_txid payout_height)\<lparr>wo_status := Completed\<rparr>"])
        (simp add: completion_message_def payout_record_set)
  qed
qed

theorem completion_authorized_witness:
  "\<exists>config ks ob ob'. st_config sample_s4 = Some config \<and> st_key_set sample_s4 = Some ks
    \<and> st_obligations sample_s4 0 = Some ob
    \<and> st_obligations sample_s5 = (st_obligations sample_s4)(0 := Some ob')
    \<and> wo_status ob = Pending \<and> wo_status ob' = Completed
    \<and> payout_record ob' = Some (99, 5)
    \<and> obligation_terms ob' = obligation_terms ob \<and> (0 :: u64) = ks_epoch ks \<and> \<not> bc_paused config
    \<and> approved sample_verify (sample_tx 50 1004 (sample_proof sample_completion_message)) ks
        (goldcoin_completion_message (bc_protocol_version config) crate_ID
        (ks_epoch ks) 0 99 5 490
        (rt_hash sample_runtime (take (unat (wo_glc_address_len ob)) (wo_glc_address ob))))"
  by (rule completion_authorized[OF sample_reachable(2) sample_precompile sample_step5])

section \<open>Operator withdrawals\<close>

lemma refund_nonce_bit: "and nonce NONCE_DOMAIN_REFUND = 0 \<longleftrightarrow> \<not> bit nonce 63"
  by (simp only: refund_domain_bit and_exp_eq_0_iff_not_bit)



text \<open>
  A treasury withdrawal goes only to an account on the current allowlist, which is a valid
  one (one to four distinct accounts, never the reserve itself): it needs the global pause, the
  admin's signature, a threshold of attestation keys over nonce, amount, destination and policy
  version, and a nonce outside the refund namespace.
\<close>

theorem treasury_only_to_allowlist:
  assumes "reachable rt s" and "precompile_law verify rt tx" and "address_law rt"
    and "process_instruction rt tx cx (IxTreasuryWithdraw nonce amount epoch) s = Inr (s', e)"
  shows "\<exists>config ks policy ts. st_config s = Some config \<and> st_key_set s = Some ks
    \<and> st_policy s = Some policy
    \<and> valid_allowlist ts (reserve_key rt config) \<and> (\<forall>d. is_allowlisted policy d \<longleftrightarrow> d \<in> set ts)
    \<and> cx_token_account cx \<in> set ts
    \<and> bc_paused config \<and> bc_admin config \<in> set (tx_signers tx) \<and> \<not> bit nonce 63
    \<and> st_withdrawals s nonce = None \<and> st_obligations s' = st_obligations s
    \<and> approved verify tx ks (treasury_withdraw_claim_message (bc_protocol_version config) crate_ID
        (ks_epoch ks) nonce amount (cx_token_account cx) (bc_reserve_token_mint config)
        (reserve_key rt config) (rp_version policy))"
proof -
  from assms(4) have "treasury_withdraw rt tx cx s nonce amount epoch = Inr (s', e)" by simp
  then show ?thesis
  proof (rule treasury_elim, goal_cases)
    case (1 config ks policy after ta')
    obtain ts where ts: "valid_allowlist ts (reserve_key rt config)"
      "\<And>d. is_allowlisted policy d \<longleftrightarrow> d \<in> set ts"
      using policy_allowlist_valid[OF assms(1,3) 1(3)] 1(1) by (metis option.inject)
    from assms(4) have r: "(\<lambda>(nonce, amount, epoch). treasury_withdraw rt tx cx s nonce amount epoch)
      (nonce, amount, epoch) = Inr (s', e)" by simp
    from treasury_flow.outflow_approved[OF r 1(2) reachable_keys[OF assms(1) 1(2)] assms(2)]
      treasury_flow.outflow_reserve_account[OF r 1(1) assms(3) reachable_config[OF assms(1) 1(1)]] 1 ts
    show ?thesis
      by (intro exI[of _ config] exI[of _ ks] exI[of _ policy] exI[of _ ts])
        (simp add: treasury_message_def refund_nonce_bit)
  qed
qed

theorem treasury_only_to_allowlist_witness:
  "\<exists>config ks policy ts. st_config sample_s10 = Some config \<and> st_key_set sample_s10 = Some ks
    \<and> st_policy sample_s10 = Some policy
    \<and> valid_allowlist ts (reserve_key sample_runtime config)
    \<and> (\<forall>d. is_allowlisted policy d \<longleftrightarrow> d \<in> set ts)
    \<and> cx_token_account (sample_cx 1 6005040 0) \<in> set ts
    \<and> bc_paused config \<and> bc_admin config \<in> set (tx_signers sample_treasury_tx) \<and> \<not> bit (1 :: u64) 63
    \<and> st_withdrawals sample_s10 1 = None \<and> st_obligations sample_s11 = st_obligations sample_s10
    \<and> approved sample_verify sample_treasury_tx ks
        (treasury_withdraw_claim_message (bc_protocol_version config) crate_ID
        (ks_epoch ks) 1 50 (cx_token_account (sample_cx 1 6005040 0)) (bc_reserve_token_mint config)
        (reserve_key sample_runtime config) (rp_version policy))"
  by (rule treasury_only_to_allowlist[OF sample_reachable(4) sample_precompile sample_address_law
        sample_step11])

text \<open>
  Withdrawal records are permanent and the two nonce namespaces never meet: a record stored
  under a nonce is kept unchanged by every later execution, and its class is refund exactly when
  bit 63 of its nonce is set, so a treasury nonce and a refund nonce cannot consume each other.
\<close>

theorem withdrawal_records_permanent:
  assumes "reachable rt s" and "st_withdrawals s nonce = Some w" and "exec rt s tr s'"
  shows "st_withdrawals s' nonce = Some w \<and> rw_nonce w = nonce
    \<and> (withdrawal_class w = WITHDRAWAL_CLASS_REFUND \<longleftrightarrow> bit nonce 63)
    \<and> (withdrawal_class w = WITHDRAWAL_CLASS_TREASURY \<longleftrightarrow> \<not> bit nonce 63)"
  using withdrawals.inv_reachable[OF assms(1)] assms(2) withdrawal_store.kept_exec[OF assms(3,2)]
  by (auto simp: withdrawals_inv_def nonce_class_def refund_nonce_bit
      WITHDRAWAL_CLASS_REFUND_def WITHDRAWAL_CLASS_TREASURY_def)

theorem withdrawal_records_permanent_witness:
  "st_withdrawals sample_s11 1 = Some (sample_withdrawal 1 50 6005040 1)
    \<and> rw_nonce (sample_withdrawal 1 50 6005040 1) = 1
    \<and> (withdrawal_class (sample_withdrawal 1 50 6005040 1) = WITHDRAWAL_CLASS_REFUND
       \<longleftrightarrow> bit (1 :: u64) 63)
    \<and> (withdrawal_class (sample_withdrawal 1 50 6005040 1) = WITHDRAWAL_CLASS_TREASURY
       \<longleftrightarrow> \<not> bit (1 :: u64) 63)"
  by (rule withdrawal_records_permanent[OF sample_reachable(5) _ exec_start])
    (simp add: sample_s11_def)

end
