(* ===== verification/Operator_Properties.thy ===== *)
theory Operator_Properties
  imports Governance_Properties
begin

text \<open>
  What the administrator can do alone, which instructions a pause separates, when a release
  must succeed, and two behaviours of the program that its comments do not mention: a
  cancelled proposal can be queued again with its old signatures, and the vault cannot be
  created once somebody else has created its token account.
\<close>

section \<open>The administrator\<close>

definition admin_instruction :: "Instruction \<Rightarrow> bool" where
  "admin_instruction ix = (case ix of
     IxSetPaused scope paused \<Rightarrow> True
   | IxSetLimit field v \<Rightarrow> True
   | IxTransferAdmin new_admin \<Rightarrow> True
   | IxAcceptAdmin \<Rightarrow> True
   | IxResetRollingVolumeWindow d \<Rightarrow> True
   | IxProposeUpgrade buffer \<Rightarrow> True
   | IxCancelUpgrade \<Rightarrow> True
   | _ \<Rightarrow> False)"

text \<open>
  The administrator alone cannot move a token or change who may: an instruction that needs
  only the administrator's signature (or the designated successor's, for the acceptance)
  leaves the token accounts, claims, obligations, withdrawal records, attestation keys,
  allowlist, both pending governance changes and the program's image as they are, and of the
  configuration keeps the reserve, the obligation counter, the timelocks and the window length.
\<close>

theorem admin_cannot_touch_reserve:
  assumes "process_instruction rt tx cx ix s = Inr (s', e)" and "admin_instruction ix"
  shows "st_token_accounts s' = st_token_accounts s \<and> st_claims s' = st_claims s
    \<and> st_obligations s' = st_obligations s \<and> st_withdrawals s' = st_withdrawals s
    \<and> st_key_set s' = st_key_set s \<and> st_policy s' = st_policy s
    \<and> st_pending_action s' = st_pending_action s \<and> st_pending_policy s' = st_pending_policy s
    \<and> st_program_data s' = st_program_data s
    \<and> (\<exists>c c'. st_config s = Some c \<and> st_config s' = Some c' \<and> admin_fields_only c c'
        \<and> (bc_admin c = cx_signer cx \<or> ix = IxAcceptAdmin \<and> bc_pending_admin c = Some (cx_signer cx)))"
  using assms
  by (cases ix) (auto simp: admin_instruction_def admin_fields_only_def elim!: handler_elims)

theorem admin_cannot_touch_reserve_witness:
  "st_token_accounts sample_s10 = st_token_accounts sample_s9 \<and> st_claims sample_s10 = st_claims sample_s9
    \<and> st_obligations sample_s10 = st_obligations sample_s9
    \<and> st_withdrawals sample_s10 = st_withdrawals sample_s9
    \<and> st_key_set sample_s10 = st_key_set sample_s9 \<and> st_policy sample_s10 = st_policy sample_s9
    \<and> st_pending_action sample_s10 = st_pending_action sample_s9
    \<and> st_pending_policy sample_s10 = st_pending_policy sample_s9
    \<and> st_program_data sample_s10 = st_program_data sample_s9
    \<and> (\<exists>c c'. st_config sample_s9 = Some c \<and> st_config sample_s10 = Some c' \<and> admin_fields_only c c'
        \<and> (bc_admin c = cx_signer (sample_cx 1 0 0)
          \<or> IxSetPaused Global True = IxAcceptAdmin \<and> bc_pending_admin c = Some (cx_signer (sample_cx 1 0 0))))"
  by (rule admin_cannot_touch_reserve[OF sample_step10]) (simp add: admin_instruction_def)

section \<open>The pause\<close>

text \<open>Every settlement instruction, and every operator withdrawal.\<close>

definition settlement_instruction :: "Instruction \<Rightarrow> bool" where
  "settlement_instruction ix = (case ix of
     IxReleaseFromReserve txid vout amount epoch \<Rightarrow> True
   | IxDepositToReserve amount glc \<Rightarrow> True
   | IxRecordGoldcoinCompletion index txid height amount epoch \<Rightarrow> True
   | _ \<Rightarrow> False)"

definition paused_instruction :: "Instruction \<Rightarrow> bool" where
  "paused_instruction ix = (case ix of
     IxTreasuryWithdraw nonce amount epoch \<Rightarrow> True
   | IxRefundWithdraw nonce amount epoch index \<Rightarrow> True
   | IxResetRollingVolumeWindow d \<Rightarrow> True
   | _ \<Rightarrow> False)"

text \<open>
  The global pause separates settlement from operator withdrawals: while it is on, no
  release, deposit or payout completion succeeds, and while it is off, no treasury withdrawal,
  refund or reset of a volume window does; the retired withdrawal never succeeds.
\<close>

theorem pause_separates:
  assumes "st_config s = Some c"
  shows "(bc_paused c \<and> settlement_instruction ix \<longrightarrow> \<not> is_ok (process_instruction rt tx cx ix s))
    \<and> (\<not> bc_paused c \<and> paused_instruction ix \<longrightarrow> \<not> is_ok (process_instruction rt tx cx ix s))
    \<and> \<not> is_ok (process_instruction rt tx cx (IxRebalanceWithdraw nonce amount epoch) s)"
proof -
  have "\<not> is_ok (process_instruction rt tx cx ix s)" if "bc_paused c" "settlement_instruction ix"
    using that assms
    by (cases ix) (auto simp: settlement_instruction_def is_ok_iff elim!: handler_elims)
  moreover have "\<not> is_ok (process_instruction rt tx cx ix s)" if "\<not> bc_paused c" "paused_instruction ix"
    using that assms
    by (cases ix) (auto simp: paused_instruction_def is_ok_iff elim!: handler_elims)
  ultimately show ?thesis using rebalance_withdraw_retired by simp
qed

theorem pause_separates_witness:
  "\<not> is_ok (process_instruction sample_runtime sample_release_tx (sample_cx 50 6005030 30)
       (IxReleaseFromReserve 8 0 100 0) sample_s10)
   \<and> \<not> is_ok (process_instruction sample_runtime sample_treasury_tx (sample_cx 1 6005040 0)
       (IxTreasuryWithdraw 1 50 0) sample_s9)"
proof -
  have "st_config sample_s10 = Some (sample_config2\<lparr>bc_paused := True\<rparr>)"
    "st_config sample_s9 = Some sample_config2" "\<not> bc_paused sample_config2"
    by (simp_all add: sample_s10_def sample_s9_def sample_s8_def sample_config2_def
        sample_vault_config_def sample_config_def)
  from pause_separates[OF this(1), of "IxReleaseFromReserve 8 0 100 0"]
    pause_separates[OF this(2), of "IxTreasuryWithdraw 1 50 0"] this(3)
  show ?thesis by (simp add: settlement_instruction_def paused_instruction_def)
qed

section \<open>Releases are served\<close>

definition windows_inv :: "Runtime \<Rightarrow> Chain \<Rightarrow> bool" where
  "windows_inv rt s \<longleftrightarrow>
     (\<forall>d w. st_windows s d = Some w \<longrightarrow>
        vw_bump w = find_bump rt (RollingVolumeWindowPda d) \<and> vw_direction w = d)
     \<and> (st_config s \<noteq> None \<longrightarrow> (\<forall>d. st_windows s d \<noteq> None) \<and> st_key_set s \<noteq> None)"

definition same_window :: "RollingVolumeWindow \<Rightarrow> RollingVolumeWindow \<Rightarrow> bool" where
  "same_window w w' \<longleftrightarrow> vw_bump w' = vw_bump w \<and> vw_direction w' = vw_direction w"

lemma same_window_refl [simp]: "rel_option same_window x x"
  by (rule option.rel_refl) (simp add: same_window_def)

lemma same_window_update:
  "ws d0 = Some w \<Longrightarrow> same_window w w' \<Longrightarrow> rel_option same_window (ws d) ((ws(d0 \<mapsto> w')) d)"
  by simp

lemma recorded_window:
  "enforce_and_record_rolling_volume c w amount now = Inr w' \<Longrightarrow> same_window w w'"
  by (auto simp: rolling_volume_ok Let_def same_window_def split: prod.splits)

lemma reset_same_window: "same_window w (w\<lparr>vw_window_start := t, vw_window_total := n\<rparr>)"
  by (simp add: same_window_def)

lemma windows_kept:
  assumes "process_instruction rt tx cx ix s = Inr (s', e)"
    and "\<And>k t g mi pe pr rl rw up. ix \<noteq> IxInitialize k t g mi pe pr rl rw up"
  shows "rel_option same_window (st_windows s d) (st_windows s' d)"
proof (cases ix)
  case (IxInitialize k t g mi pe pr rl rw up)
  with assms(2) show ?thesis by blast
qed (use assms(1) in \<open>auto elim!: handler_elims simp del: fun_upd_apply
    intro!: same_window_update recorded_window reset_same_window\<close>)

interpretation windows: step_invariant rt "windows_inv rt" for rt
proof (unfold_locales, goal_cases)
  case (2 s tx ix cx s' e)
  show ?case
  proof (cases "\<exists>k t g mi pe pr rl rw up. ix = IxInitialize k t g mi pe pr rl rw up")
    case True
    then obtain k t g mi pe pr rl rw up where
      "initialize rt tx cx s k t g mi pe pr rl rw up = Inr (s', e)" using 2(3) by auto
    then show ?thesis
    proof (rule initialize_elim, goal_cases)
      case (1 config ks w1 w2)
      have "\<exists>w. st_windows s' d = Some w \<and> vw_bump w = find_bump rt (RollingVolumeWindowPda d)
          \<and> vw_direction w = d" for d
        using 1 by (cases d) simp_all
      moreover have "st_key_set s' \<noteq> None" using 1 by simp
      ultimately show ?case unfolding windows_inv_def by (metis option.inject option.discI)
    qed
  next
    case False
    then have kept: "rel_option same_window (st_windows s d) (st_windows s' d)" for d
      using windows_kept[OF 2(3)] by blast
    have "st_config s \<noteq> None" if "st_config s' \<noteq> None"
      using config_changes[OF 2(3)] False that by (elim disjE exE) auto
    moreover have "st_key_set s' \<noteq> None" if "st_key_set s \<noteq> None"
      using epoch_step[OF 2(3)] that by (metis option.exhaust option.discI)
    moreover have "st_windows s' d \<noteq> None" if "st_windows s d \<noteq> None" for d
      using kept[of d] that by (cases "st_windows s d"; cases "st_windows s' d") auto
    moreover have "vw_bump w = find_bump rt (RollingVolumeWindowPda d) \<and> vw_direction w = d"
      if "st_windows s' d = Some w" for d w
      using kept[of d] that 2(1) by (cases "st_windows s d") (auto simp: windows_inv_def same_window_def)
    ultimately show ?thesis using 2(1) unfolding windows_inv_def by blast
  qed
qed (simp_all add: windows_inv_def deployed_def)

text \<open>What the chain must hold for a release: the accounts, their extensions and the funds.\<close>

definition release_accounts_ready ::
  "Runtime \<Rightarrow> Chain \<Rightarrow> BridgeConfig \<Rightarrow> pubkey \<Rightarrow> u64 \<Rightarrow> bool" where
  "release_accounts_ready rt s c wallet amount \<longleftrightarrow>
     (\<exists>m ra ua to.
        to = rt_associated_token_address rt wallet (bc_reserve_token_mint c) (bc_reserve_token_program c)
        \<and> rt_is_token_program rt (bc_reserve_token_program c)
        \<and> st_mints s (bc_reserve_token_mint c) = Some m \<and> validate_mint_extensions rt m = Inr ()
        \<and> st_token_accounts s (reserve_key rt c) = Some ra
        \<and> validate_token_account_extensions rt ra = Inr ()
        \<and> ta_program ra = bc_reserve_token_program c \<and> ta_owner ra = find_pda rt ReserveAuthorityPda
        \<and> st_token_accounts s to = Some ua \<and> validate_token_account_extensions rt ua = Inr ()
        \<and> ta_program ua = bc_reserve_token_program c \<and> ta_owner ua = wallet
        \<and> unat amount + unat (bc_protected_minimum c) \<le> unat (ta_amount ra)
        \<and> rt_transfer_checked rt (bc_reserve_token_program c) (st_mints s) (st_token_accounts s)
            (reserve_key rt c) (bc_reserve_token_mint c) to (find_pda rt ReserveAuthorityPda) amount
            (mt_decimals m) \<noteq> None)"

text \<open>The accounts a submitter lists for it.\<close>

definition release_ctx :: "Runtime \<Rightarrow> BridgeConfig \<Rightarrow> pubkey \<Rightarrow> pubkey \<Rightarrow> Ctx" where
  "release_ctx rt c payer wallet =
     \<lparr>cx_signer = payer, cx_reserve_mint = bc_reserve_token_mint c,
      cx_token_program = bc_reserve_token_program c,
      cx_reserve_token_account = reserve_key rt c,
      cx_token_account = rt_associated_token_address rt wallet (bc_reserve_token_mint c)
        (bc_reserve_token_program c),
      cx_wallet = wallet, cx_program_data = 0, cx_buffer = 0\<rparr>"

text \<open>
  C25. A confirmed deposit can always be claimed: in a reachable state, with the bridge running,
  the outpoint unclaimed, the amount inside the limits and the open volume bucket, the accounts
  in place and funded, a transaction that carries the proof the service builds from a threshold
  of distinct attestation signatures succeeds, whoever submits it, and records the claim.
\<close>

theorem release_available:
  assumes "reachable rt s" and "address_law rt"
    and "st_config s = Some c" and "st_key_set s = Some ks" and "st_windows s GoldcoinToSolana = Some w"
    and "bc_reserve_token_mint c \<noteq> pubkey_default" and "\<not> bc_paused c" and "\<not> bc_release_paused c"
    and "st_claims s (txid, vout) = None"
    and "0 < amount" and "bc_min_transfer_amount c \<le> amount" and "amount \<le> bc_per_transfer_limit c"
    and "unat (snd (current_bucket c w (tx_unix_timestamp tx))) + unat amount
        \<le> unat (bc_rolling_volume_limit c)"
    and "release_accounts_ready rt s c wallet amount"
    and "distinct (map fst sigs)" and "set (map fst sigs) \<subseteq> set (ks_keys ks)"
    and "\<forall>x \<in> set sigs. length (snd x) = 64" and "unat (ks_threshold ks) \<le> length sigs"
    and "tx_previous_instruction tx = Some (rt_ed25519_program rt, build_attestation_proof sigs
        (release_claim_message (bc_protocol_version c) crate_ID (ks_epoch ks) txid vout amount wallet
          (bc_reserve_token_mint c)))"
    and "payer \<in> set (tx_signers tx)"
  shows "\<exists>s'. process_instruction rt tx (release_ctx rt c payer wallet)
      (IxReleaseFromReserve txid vout amount (ks_epoch ks)) s
      = Inr (s', ReserveReleased txid vout wallet amount (ks_epoch ks))
    \<and> st_claims s' (txid, vout) \<noteq> None"
proof -
  let ?m = "release_claim_message (bc_protocol_version c) crate_ID (ks_epoch ks) txid vout amount
    wallet (bc_reserve_token_mint c)"
  from assms(1) have wf: "wf_config rt c" "ks_bump ks = find_bump rt AttestationKeySetPda"
    "vw_bump w = find_bump rt (RollingVolumeWindowPda GoldcoinToSolana)"
    using config.inv_reachable keys.inv_reachable windows.inv_reachable assms(3-5)
    by (fastforce simp: config_inv_def keys_inv_def windows_inv_def)+
  then have bumps: "bc_bump c = find_bump rt BridgeConfigPda"
    "bc_reserve_authority_bump c = find_bump rt ReserveAuthorityPda"
    using assms(6) by (auto simp: wf_config_def canonical_reserve_bump_def)
  have "length ?m < 2 ^ 16" by (simp add: family_lengths message_len_defs)
  from built_proof_approves[OF reachable_keys[OF assms(1,4)] assms(15-17) this assms(18)]
  have approval: "require_signer_threshold ks (build_attestation_proof sigs ?m) ?m = Inr ()" .
  have window: "enforce_and_record_rolling_volume c w amount (tx_unix_timestamp tx)
    = Inr (w\<lparr>vw_window_start := fst (current_bucket c w (tx_unix_timestamp tx)),
        vw_window_total := snd (current_bucket c w (tx_unix_timestamp tx)) + amount\<rparr>)"
    using assms(13) by (auto simp: rolling_volume_ok Let_def split: prod.splits)
  show ?thesis
    using assms(2-10,11,12,14,19,20) wf bumps approval window
    unfolding release_accounts_ready_def process_instruction.simps release_from_reserve_def
      ReleaseFromReserve_def constraint_defs release_ctx_def reserve_key_def address_law_def
    by (auto simp: Let_def enforce_transfer_amount_ok enforce_protected_minimum_ok
        get_verification_ix_ok)
qed

theorem release_available_witness:
  "\<exists>s'. process_instruction sample_runtime sample_release_tx
      (release_ctx sample_runtime (sample_vault_config\<lparr>bc_obligation_count := 1\<rparr>) 50 30)
      (IxReleaseFromReserve 7 0 100 (ks_epoch sample_keys)) sample_s3
      = Inr (s', ReserveReleased 7 0 30 100 (ks_epoch sample_keys))
    \<and> st_claims s' (7, 0) \<noteq> None"
proof -
  let ?c = "sample_vault_config\<lparr>bc_obligation_count := 1\<rparr>"
  let ?sigs = "[(101, replicate 64 1), (103, replicate 64 2)] :: (pubkey \<times> bytes) list"
  have accounts: "release_accounts_ready sample_runtime sample_s3 ?c 30 100"
    unfolding release_accounts_ready_def
    by (simp add: sample_eval reserve_key_def)
  show ?thesis
    by (rule release_available[OF sample_reachable(1) sample_address_law, where c = ?c and sigs = ?sigs
          and w = "sample_window GoldcoinToSolana"])
      (use accounts in \<open>simp_all add: sample_eval current_bucket_def sample_keys_def
        sample_release_tx_def sample_proof_def sample_release_message_def\<close>)
qed

section \<open>Cancelled proposals\<close>

text \<open>The keys cancel the rotation of the sample execution.\<close>

definition sample_cancel_tx :: Tx where
  "sample_cancel_tx = sample_tx 50 1006 (sample_proof (governance_message 1 crate_ID 0
     ACTION_CANCEL_ROTATION (rt_hash sample_runtime (cancel_params 3 1110))))"

lemma sample_cancel:
  "process_instruction sample_runtime sample_cancel_tx (sample_cx 50 0 0)
     IxCancelAttestationKeyRotation sample_s6 = Inr (sample_s4, GovernanceActionCancelled 3 1110)"
proof -
  have "length (governance_message 1 crate_ID 0 ACTION_CANCEL_ROTATION
      (rt_hash sample_runtime (cancel_params 3 1110))) < 2 ^ 16"
    by (simp add: family_lengths message_len_defs)
  from sample_proof_approves[OF this] show ?thesis
    unfolding process_instruction.simps cancel_attestation_key_rotation_def
      CancelGovernanceAction_def constraint_defs
    by (simp add: sample_eval sample_s6_def sample_pending_def sample_keys_def
        require_threshold_approval_def sample_cancel_tx_def)
qed

lemma propose_rotation_again:
  assumes "propose_attestation_key_rotation rt tx cx s keys threshold = Inr (s', e)"
    and "st_config s = Some c" "tx_previous_instruction tx' = tx_previous_instruction tx"
    and "cx_signer cx' \<in> set (tx_signers tx')"
    and "is_i64 (tx_unix_timestamp tx' + bc_governance_timelock_seconds c)"
  shows "\<exists>s'' e'. propose_attestation_key_rotation rt tx' cx' s keys threshold = Inr (s'', e')
    \<and> (\<exists>q. st_pending_action s'' = Some q \<and> pg_keys q = keys \<and> pg_threshold q = threshold)"
  using assms
  unfolding propose_attestation_key_rotation_def ProposeGovernanceAction_def constraint_defs
    require_threshold_approval_def
  by (clarsimp simp: Let_def checked_add_i64_eq_Some get_verification_ix_ok)

text \<open>
  A cancellation does not revoke the signatures of the proposal it cancels: after the keys
  have proposed and then cancelled a rotation, anybody can queue the same keys and threshold
  again, in the same epoch, by submitting the proposal's original ed25519 instruction once
  more, without any new signature.
\<close>

theorem cancelled_rotation_requeued:
  assumes "process_instruction rt tx cx (IxProposeAttestationKeyRotation keys threshold) s = Inr (s1, e1)"
    and "process_instruction rt tx2 cx2 IxCancelAttestationKeyRotation s1 = Inr (s2, e2)"
    and "tx_previous_instruction tx3 = tx_previous_instruction tx"
    and "cx_signer cx3 \<in> set (tx_signers tx3)" and "st_config s = Some c"
    and "is_i64 (tx_unix_timestamp tx3 + bc_governance_timelock_seconds c)"
  shows "\<exists>s3 e3. process_instruction rt tx3 cx3 (IxProposeAttestationKeyRotation keys threshold) s2
      = Inr (s3, e3)
    \<and> (\<exists>q. st_pending_action s3 = Some q \<and> pg_keys q = keys \<and> pg_threshold q = threshold)"
proof -
  from assms(1) have p: "propose_attestation_key_rotation rt tx cx s keys threshold = Inr (s1, e1)"
    by simp
  have "s2 = s"
    using assms(2) p by (auto elim!: propose_rotation_elim cancel_rotation_elim)
  with propose_rotation_again[OF p assms(5,3,4,6)] show ?thesis by simp
qed

theorem cancelled_rotation_requeued_witness:
  "\<exists>s3 e3. process_instruction sample_runtime (sample_rotation_tx\<lparr>tx_unix_timestamp := 1006\<rparr>)
      (sample_cx 50 0 0) (IxProposeAttestationKeyRotation [201, 202, 203] 2) sample_s4 = Inr (s3, e3)
    \<and> (\<exists>q. st_pending_action s3 = Some q \<and> pg_keys q = [201, 202, 203] \<and> pg_threshold q = 2)"
  by (rule cancelled_rotation_requeued[OF sample_step6 sample_cancel,
        where c = "sample_vault_config\<lparr>bc_obligation_count := 1\<rparr>"])
    (simp_all add: sample_rotation_tx_def sample_eval is_i64_def)

end
