(* ===== verification/Amount_Conversion.thy ===== *)
theory Amount_Conversion
  imports Prelude
begin

text \<open>
  Amounts of the settlement service, \<open>service/src/amount_conversion.rs\<close> and its
  \<open>robinhood\<close> submodule: exact conversion between the decimal precisions of the chains, the
  fee split, its inverse, and the 18-decimal amounts of the EVM chain. The newtypes
  \<open>CanonicalAtomic\<close>, \<open>SolanaAtomic\<close> and \<open>RobinhoodAtomic\<close> are named by type synonyms.
\<close>

type_synonym CanonicalAtomic = u64
type_synonym SolanaAtomic = u64
type_synonym RobinhoodAtomic = u128

section \<open>Conversion between precisions\<close>

datatype ConversionError =
    NotExactlyRepresentable u64 u32 u32 u64
  | ConversionOverflow u64
  | AccountingMismatch u64 u64 u64 u64 u64
  | FeeBpsOutOfRange u64 u64
  | InvalidBridgePrice u64 u64
  | QuoteMismatch u64 u64 u64 u64 u64 u64 u64 u64 u64
  | QuoteNotLocked i64
  | InvalidDestinationScale

definition GOLDCOIN_DECIMALS :: u32 where "GOLDCOIN_DECIMALS = 8"

definition checked_pow :: "u64 \<Rightarrow> u32 \<Rightarrow> u64 option" where
  "checked_pow base n = (if unat base ^ unat n < 2 ^ 64 then Some (base ^ unat n) else None)"

definition convert_atomic_amount :: "u64 \<Rightarrow> u32 \<Rightarrow> u32 \<Rightarrow> (ConversionError, u64) result" where
  "convert_atomic_amount amount from_decimals to_decimals =
     (if from_decimals = to_decimals then Inr amount
      else if from_decimals < to_decimals then
        try_bind (ok_or (checked_pow 10 (to_decimals - from_decimals)) (ConversionOverflow amount))
          (\<lambda>scale. ok_or (checked_mul amount scale) (ConversionOverflow amount))
      else
        try_bind (ok_or (checked_pow 10 (from_decimals - to_decimals)) (ConversionOverflow amount))
          (\<lambda>scale.
        let remainder = amount mod scale in
        require (remainder = 0)
          (NotExactlyRepresentable amount from_decimals to_decimals remainder) (
        Inr (amount div scale))))"

definition goldcoin_to_solana_atomic :: "u64 \<Rightarrow> u8 \<Rightarrow> (ConversionError, u64) result" where
  "goldcoin_to_solana_atomic goldcoin_atomic solana_decimals =
     convert_atomic_amount goldcoin_atomic GOLDCOIN_DECIMALS (ucast solana_decimals)"

definition solana_to_goldcoin_atomic :: "u64 \<Rightarrow> u8 \<Rightarrow> (ConversionError, u64) result" where
  "solana_to_goldcoin_atomic solana_atomic solana_decimals =
     convert_atomic_amount solana_atomic (ucast solana_decimals) GOLDCOIN_DECIMALS"

definition canonical_checked_add ::
  "CanonicalAtomic \<Rightarrow> CanonicalAtomic \<Rightarrow> (ConversionError, CanonicalAtomic) result" where
  "canonical_checked_add a b = ok_or (checked_add a b) (ConversionOverflow a)"

definition canonical_checked_sub ::
  "CanonicalAtomic \<Rightarrow> CanonicalAtomic \<Rightarrow> (ConversionError, CanonicalAtomic) result" where
  "canonical_checked_sub a b = ok_or (checked_sub a b) (ConversionOverflow a)"

definition to_solana :: "CanonicalAtomic \<Rightarrow> u8 \<Rightarrow> (ConversionError, SolanaAtomic) result" where
  "to_solana a solana_decimals = goldcoin_to_solana_atomic a solana_decimals"

definition to_canonical :: "SolanaAtomic \<Rightarrow> u8 \<Rightarrow> (ConversionError, CanonicalAtomic) result" where
  "to_canonical a solana_decimals = solana_to_goldcoin_atomic a solana_decimals"

section \<open>The fee split\<close>

definition BPS_DENOMINATOR :: u64 where "BPS_DENOMINATOR = 10000"

definition BRIDGE_FEE_BPS :: u64 where "BRIDGE_FEE_BPS = 300"

record FeeBreakdown =
  fb_gross :: CanonicalAtomic
  fb_fee_bps :: u64
  fb_fee :: CanonicalAtomic
  fb_net :: CanonicalAtomic

definition compute_fee_at_bps :: "CanonicalAtomic \<Rightarrow> u64 \<Rightarrow> (ConversionError, FeeBreakdown) result" where
  "compute_fee_at_bps gross fee_bps =
     require (\<not> fee_bps > BPS_DENOMINATOR) (FeeBpsOutOfRange fee_bps BPS_DENOMINATOR) (
     try_bind (ok_or (checked_mul gross fee_bps) (ConversionOverflow gross)) (\<lambda>scaled.
     let fee = scaled div BPS_DENOMINATOR in
     try_bind (ok_or (checked_sub gross fee) (ConversionOverflow gross)) (\<lambda>net.
     Inr \<lparr>fb_gross = gross, fb_fee_bps = fee_bps, fb_fee = fee, fb_net = net\<rparr>)))"

definition compute_fee :: "CanonicalAtomic \<Rightarrow> (ConversionError, FeeBreakdown) result" where
  "compute_fee gross = compute_fee_at_bps gross BRIDGE_FEE_BPS"

definition verify_fee_breakdown ::
  "u64 \<Rightarrow> u64 \<Rightarrow> u64 \<Rightarrow> u64 \<Rightarrow> (ConversionError, FeeBreakdown) result" where
  "verify_fee_breakdown gross_atomic stored_fee_bps stored_fee_atomic stored_net_atomic =
     try_bind (compute_fee_at_bps gross_atomic stored_fee_bps) (\<lambda>fb.
     require (\<not> (fb_fee fb \<noteq> stored_fee_atomic \<or> fb_net fb \<noteq> stored_net_atomic))
       (AccountingMismatch gross_atomic stored_fee_atomic (fb_fee fb) stored_net_atomic (fb_net fb)) (
     Inr fb))"

text \<open>
  The two loops of \<open>max_gross_for_net_at_bps\<close>; \<open>net_of\<close> is its closure. The first one stops
  at zero, the second one where \<open>checked_add\<close> overflows.
\<close>

function walk_down ::
  "(u64 \<Rightarrow> (ConversionError, u64) result) \<Rightarrow> u64 \<Rightarrow> u64 \<Rightarrow> (ConversionError, u64) result" where
  "walk_down net_of max_net gross =
     (if gross > 0
      then try_bind (net_of gross) (\<lambda>net.
        if net > max_net then walk_down net_of max_net (gross - 1) else Inr gross)
      else Inr gross)"
  by pat_completeness auto

termination walk_down
  by (relation "measure (\<lambda>(_, _, gross). unat gross)")
    (auto simp: word_gt_0_no unat_minus_one intro!: diff_less unat_gt_0[THEN iffD2])

function walk_up :: "(u64 \<Rightarrow> (ConversionError, u64) result) \<Rightarrow> u64 \<Rightarrow> u64 \<Rightarrow> u64" where
  "walk_up net_of max_net gross =
     (case checked_add gross 1 of
        None \<Rightarrow> gross
      | Some next \<Rightarrow>
          (case net_of next of
             Inr net \<Rightarrow> if net \<le> max_net then walk_up net_of max_net next else gross
           | Inl _ \<Rightarrow> gross))"
  by pat_completeness auto

termination walk_up
proof (relation "measure (\<lambda>(_, _, gross). 2 ^ 64 - unat gross)", goal_cases)
  case (2 net_of max_net gross n net)
  from checked_add_unat[OF 2(1)] have "unat n = unat gross + 1" by simp
  then show ?case using unat_lt2p[of gross] by simp
qed simp

definition net_of :: "u64 \<Rightarrow> u64 \<Rightarrow> (ConversionError, u64) result" where
  "net_of fee_bps gross = try_bind (compute_fee_at_bps gross fee_bps) (\<lambda>fb. Inr (fb_net fb))"

definition max_gross_for_net_at_bps ::
  "CanonicalAtomic \<Rightarrow> u64 \<Rightarrow> (ConversionError, CanonicalAtomic) result" where
  "max_gross_for_net_at_bps max_net fee_bps =
     require (\<not> fee_bps > BPS_DENOMINATOR) (FeeBpsOutOfRange fee_bps BPS_DENOMINATOR) (
     if max_net = 0 \<or> fee_bps = BPS_DENOMINATOR then Inr 0
     else
       let estimate = (ucast max_net * ucast BPS_DENOMINATOR :: u128)
             div ucast (BPS_DENOMINATOR - fee_bps) in
       try_bind (if unat estimate < 2 ^ 64 then Inr (ucast estimate) else Inl (ConversionOverflow max_net))
         (\<lambda>gross.
       try_bind (walk_down (net_of fee_bps) max_net gross) (\<lambda>gross.
       Inr (walk_up (net_of fee_bps) max_net gross))))"

declare walk_down.simps [simp del] walk_up.simps [simp del]

section \<open>The 18-decimal amounts of the EVM chain\<close>

datatype RobinhoodConversionError =
    WideningOverflow u64 u32
  | RobinhoodNotExactlyRepresentable u128 u128
  | CanonicalOverflow u128 u128
  | U256ExceedsU128 bytes32
  | RobinhoodArithmeticOverflow u128 string u128
  | DecimalsMismatch u8 u32

definition ROBINHOOD_DECIMALS :: u32 where "ROBINHOOD_DECIMALS = 18"

definition CANONICAL_TO_ROBINHOOD_SCALE :: u128 where "CANONICAL_TO_ROBINHOOD_SCALE = 10000000000"

definition ensure_robinhood_decimals :: "u8 \<Rightarrow> (RobinhoodConversionError, unit) result" where
  "ensure_robinhood_decimals observed =
     require (ucast observed = ROBINHOOD_DECIMALS) (DecimalsMismatch observed ROBINHOOD_DECIMALS) (
     Inr ())"

definition from_canonical :: "CanonicalAtomic \<Rightarrow> (RobinhoodConversionError, RobinhoodAtomic) result" where
  "from_canonical canonical =
     ok_or (checked_mul (ucast canonical) CANONICAL_TO_ROBINHOOD_SCALE)
       (WideningOverflow canonical (ROBINHOOD_DECIMALS - GOLDCOIN_DECIMALS))"

definition robinhood_to_canonical ::
  "RobinhoodAtomic \<Rightarrow> (RobinhoodConversionError, CanonicalAtomic) result" where
  "robinhood_to_canonical amount =
     (let remainder = amount mod CANONICAL_TO_ROBINHOOD_SCALE in
      require (remainder = 0) (RobinhoodNotExactlyRepresentable amount remainder) (
      let canonical = amount div CANONICAL_TO_ROBINHOOD_SCALE in
      if unat canonical < 2 ^ 64 then Inr (ucast canonical)
      else Inl (CanonicalOverflow amount canonical)))"

record CanonicalFloor =
  cf_canonical :: CanonicalAtomic
  cf_remainder :: u128

definition to_canonical_floor ::
  "RobinhoodAtomic \<Rightarrow> (RobinhoodConversionError, CanonicalFloor) result" where
  "to_canonical_floor amount =
     (let remainder = amount mod CANONICAL_TO_ROBINHOOD_SCALE in
      try_bind (robinhood_to_canonical (amount - remainder)) (\<lambda>canonical.
      Inr \<lparr>cf_canonical = canonical, cf_remainder = remainder\<rparr>))"

definition is_exact :: "CanonicalFloor \<Rightarrow> bool" where
  "is_exact f \<longleftrightarrow> cf_remainder f = 0"

definition try_from_u256 :: "bytes32 \<Rightarrow> (RobinhoodConversionError, RobinhoodAtomic) result" where
  "try_from_u256 word =
     (if unat word < 2 ^ 128 then Inr (ucast word) else Inl (U256ExceedsU128 word))"

definition to_u256 :: "RobinhoodAtomic \<Rightarrow> bytes32" where
  "to_u256 amount = ucast amount"

definition robinhood_checked_add ::
  "RobinhoodAtomic \<Rightarrow> RobinhoodAtomic \<Rightarrow> (RobinhoodConversionError, RobinhoodAtomic) result" where
  "robinhood_checked_add a b = ok_or (checked_add a b) (RobinhoodArithmeticOverflow a ''+'' b)"

definition robinhood_checked_sub ::
  "RobinhoodAtomic \<Rightarrow> RobinhoodAtomic \<Rightarrow> (RobinhoodConversionError, RobinhoodAtomic) result" where
  "robinhood_checked_sub a b = ok_or (checked_sub a b) (RobinhoodArithmeticOverflow a ''-'' b)"

section \<open>Arithmetic of the conversions\<close>

lemma checked_pow_eq_Some:
  "checked_pow 10 n = Some scale \<longleftrightarrow> 10 ^ unat n < (2 ^ 64 :: nat) \<and> scale = 10 ^ unat n"
  by (auto simp: checked_pow_def)

lemma checked_mul_eq_Some:
  "checked_mul a b = Some c \<longleftrightarrow> unat a * unat b < 2 ^ LENGTH('a) \<and> c = a * b" for a b :: "'a::len word"
  by (auto simp: checked_mul_def)

lemma unat_pow10: "10 ^ n < (2 ^ 64 :: nat) \<Longrightarrow> unat (10 ^ n :: u64) = 10 ^ n"
proof -
  have "(10 ^ n :: u64) = word_of_nat (10 ^ n)" by simp
  then show "10 ^ n < (2 ^ 64 :: nat) \<Longrightarrow> unat (10 ^ n :: u64) = 10 ^ n"
    by (simp only: unat_of_nat) (simp add: take_bit_eq_mod)
qed

lemma unat_mul_no_wrap:
  "unat a * unat b < 2 ^ LENGTH('a) \<Longrightarrow> unat (a * b) = unat a * unat b" for a b :: "'a::len word"
  by (simp add: unat_word_ariths)

lemma unat_ucast_u128 [simp]: "unat (ucast a :: u128) = unat a" for a :: u64
  using unat_lt2p[of a] by (simp add: unsigned_ucast_eq take_bit_nat_eq_self)

lemma unat_ucast_mul [simp]: "unat (ucast a * ucast b :: u128) = unat a * unat b" for a b :: u64
proof -
  have "unat a * unat b < 2 ^ 64 * 2 ^ 64"
    using unat_lt2p[of a] unat_lt2p[of b] by (intro mult_strict_mono) simp_all
  then show ?thesis by (simp add: unat_word_ariths)
qed

lemma unat_ucast_down: "unat (x :: u128) < 2 ^ 64 \<Longrightarrow> unat (ucast x :: u64) = unat x"
  by (simp add: unsigned_ucast_eq take_bit_nat_eq_self)

text \<open>A conversion is exact: it succeeds with the value that is the same number of coins.\<close>

lemma convert_up_ok:
  assumes "f < t"
  shows "convert_atomic_amount a f t = Inr b \<longleftrightarrow>
    10 ^ (unat t - unat f) < (2 ^ 64 :: nat) \<and> unat b = unat a * 10 ^ (unat t - unat f)"
proof -
  have d: "unat (t - f) = unat t - unat f" using assms by (simp add: unat_sub)
  have "convert_atomic_amount a f t = Inr b \<longleftrightarrow>
      10 ^ (unat t - unat f) < (2 ^ 64 :: nat) \<and> checked_mul a (10 ^ (unat t - unat f)) = Some b"
    using assms by (auto simp: convert_atomic_amount_def checked_pow_eq_Some d)
  also have "\<dots> \<longleftrightarrow> 10 ^ (unat t - unat f) < (2 ^ 64 :: nat) \<and> unat b = unat a * 10 ^ (unat t - unat f)"
    (is "?p \<and> _ \<longleftrightarrow> _")
  proof (rule conj_cong[OF refl])
    assume p: ?p
    note u = unat_pow10[OF p]
    show "checked_mul a (10 ^ (unat t - unat f)) = Some b
        \<longleftrightarrow> unat b = unat a * 10 ^ (unat t - unat f)"
    proof
      assume "checked_mul a (10 ^ (unat t - unat f)) = Some b"
      from checked_mul_unat[OF this] u show "unat b = unat a * 10 ^ (unat t - unat f)" by simp
    next
      assume b: "unat b = unat a * 10 ^ (unat t - unat f)"
      then have "unat a * unat (10 ^ (unat t - unat f) :: u64) < 2 ^ 64"
        using u unat_lt2p[of b] by simp
      then show "checked_mul a (10 ^ (unat t - unat f)) = Some b"
        using b u by (simp add: checked_mul_def word_unat_eq_iff unat_mul_no_wrap)
    qed
  qed
  finally show ?thesis .
qed

lemma convert_down_ok:
  assumes "t < f"
  shows "convert_atomic_amount a f t = Inr b \<longleftrightarrow>
    10 ^ (unat f - unat t) < (2 ^ 64 :: nat) \<and> unat a = unat b * 10 ^ (unat f - unat t)"
proof -
  have d: "unat (f - t) = unat f - unat t" using assms by (simp add: unat_sub)
  have "convert_atomic_amount a f t = Inr b \<longleftrightarrow>
      10 ^ (unat f - unat t) < (2 ^ 64 :: nat) \<and> a mod 10 ^ (unat f - unat t) = 0
      \<and> a div 10 ^ (unat f - unat t) = b"
    using assms
    by (simp add: convert_atomic_amount_def checked_pow_eq_Some d Let_def less_le_not_le conj_ac
        split del: if_split cong: conj_cong)
  also have "\<dots> \<longleftrightarrow> 10 ^ (unat f - unat t) < (2 ^ 64 :: nat) \<and> unat a = unat b * 10 ^ (unat f - unat t)"
    (is "?p \<and> _ \<longleftrightarrow> _")
  proof (rule conj_cong[OF refl])
    assume p: ?p
    show "a mod 10 ^ (unat f - unat t) = 0 \<and> a div 10 ^ (unat f - unat t) = b
        \<longleftrightarrow> unat a = unat b * 10 ^ (unat f - unat t)"
      unfolding word_unat_eq_iff unat_mod unat_div unat_pow10[OF p]
      by (auto simp: mod_eq_0_iff_dvd)
  qed
  finally show ?thesis .
qed

lemma convert_exact:
  "convert_atomic_amount a f t = Inr b \<longleftrightarrow>
    10 ^ (max (unat f) (unat t) - min (unat f) (unat t)) < (2 ^ 64 :: nat)
    \<and> unat a * 10 ^ unat t = unat b * 10 ^ unat f"
proof -
  consider "f = t" | "f < t" | "t < f" by fastforce
  then show ?thesis
  proof cases
    case 1
    then show ?thesis by (auto simp: convert_atomic_amount_def word_unat_eq_iff)
  next
    case 2
    then have "unat f < unat t" by (simp add: word_less_nat_alt)
    then have "(10 :: nat) ^ unat t = 10 ^ (unat t - unat f) * 10 ^ unat f"
      by (simp add: power_add[symmetric])
    with 2 \<open>unat f < unat t\<close> show ?thesis by (auto simp: convert_up_ok max_def min_def)
  next
    case 3
    then have "unat t < unat f" by (simp add: word_less_nat_alt)
    then have "(10 :: nat) ^ unat f = 10 ^ (unat f - unat t) * 10 ^ unat t"
      by (simp add: power_add[symmetric])
    with 3 \<open>unat t < unat f\<close> show ?thesis by (auto simp: convert_down_ok max_def min_def)
  qed
qed

section \<open>Fees\<close>

lemma unat_BPS [simp]: "unat BPS_DENOMINATOR = 10000"
  by (simp add: BPS_DENOMINATOR_def)

lemma fee_le_gross: "f \<le> 10000 \<Longrightarrow> (g * f) div 10000 \<le> (g :: nat)"
  by (metis div_le_mono div_mult_self_is_m mult_le_mono2 zero_less_numeral)

lemma compute_fee_ok:
  "compute_fee_at_bps gross bps = Inr fb \<longleftrightarrow>
     unat bps \<le> 10000 \<and> unat gross * unat bps < 2 ^ 64
     \<and> fb_gross fb = gross \<and> fb_fee_bps fb = bps
     \<and> unat (fb_fee fb) = (unat gross * unat bps) div 10000
     \<and> unat (fb_fee fb) + unat (fb_net fb) = unat gross"
  (is "?l \<longleftrightarrow> ?r")
proof
  assume ?l
  then obtain scaled where bps: "bps \<le> BPS_DENOMINATOR" and sc: "checked_mul gross bps = Some scaled"
    and net: "checked_sub gross (scaled div BPS_DENOMINATOR) = Some (fb_net fb)"
    and fb: "fb_gross fb = gross" "fb_fee_bps fb = bps" "fb_fee fb = scaled div BPS_DENOMINATOR"
    by (auto simp: compute_fee_at_bps_def Let_def)
  have "unat bps \<le> 10000" using bps by (simp add: word_le_nat_alt)
  moreover have "unat gross * unat bps < 2 ^ 64" using sc by (simp add: checked_mul_eq_Some)
  moreover have "unat (fb_fee fb) = (unat gross * unat bps) div 10000"
    using checked_mul_unat[OF sc] fb(3) by (simp add: unat_div)
  moreover have "unat (fb_fee fb) + unat (fb_net fb) = unat gross"
    using checked_sub_unat[OF net] fb(3) by simp
  ultimately show ?r using fb by simp
next
  assume r: ?r
  let ?fee = "gross * bps div BPS_DENOMINATOR"
  have bps: "bps \<le> BPS_DENOMINATOR" using r by (simp add: word_le_nat_alt)
  have fee: "unat ?fee = (unat gross * unat bps) div 10000"
    using r by (simp add: unat_div unat_mul_no_wrap)
  then have le: "?fee \<le> gross"
    using fee_le_gross[of "unat bps" "unat gross"] r by (simp add: word_le_nat_alt)
  have "fb_fee fb = ?fee" using fee r by (simp add: word_unat_eq_iff)
  moreover have "unat (fb_net fb) = unat gross - unat (fb_fee fb)" using r by linarith
  then have "fb_net fb = gross - ?fee"
    using le \<open>fb_fee fb = ?fee\<close> by (simp add: word_unat_eq_iff unat_sub)
  ultimately have "fb = \<lparr>fb_gross = gross, fb_fee_bps = bps, fb_fee = ?fee, fb_net = gross - ?fee\<rparr>"
    using r by (cases fb) simp
  then show ?l
    using r bps le by (simp add: compute_fee_at_bps_def checked_mul_def checked_sub_def Let_def)
qed

text \<open>The net of a gross is at most \<open>m\<close> exactly up to one gross amount.\<close>

lemma net_boundary:
  fixes g f m :: nat
  assumes "f < 10000"
  shows "g - (g * f) div 10000 \<le> m \<longleftrightarrow> g \<le> (m * 10000) div (10000 - f)"
proof -
  define q r where "q = (g * f) div 10000" and "r = (g * f) mod 10000"
  have gf: "g * f = q * 10000 + r" "r < 10000" by (simp_all add: q_def r_def)
  have "g * f \<le> g * 10000" using assms by simp
  then have "q \<le> g" using gf by linarith
  have "(g - q) * 10000 = g * (10000 - f) + r"
    using gf \<open>q \<le> g\<close> \<open>g * f \<le> g * 10000\<close> by (simp add: diff_mult_distrib diff_mult_distrib2)
  then have "g - q \<le> m \<longleftrightarrow> g * (10000 - f) \<le> m * 10000" using gf(2) by linarith
  also have "\<dots> \<longleftrightarrow> g \<le> (m * 10000) div (10000 - f)"
    using assms by (simp add: less_eq_div_iff_mult_less_eq)
  finally show ?thesis by (simp add: q_def)
qed

lemma net_of_eq:
  assumes "unat bps \<le> 10000" "unat gross * unat bps < 2 ^ 64"
  shows "\<exists>net. net_of bps gross = Inr net
    \<and> unat net = unat gross - (unat gross * unat bps) div 10000"
proof -
  define fee :: u64 where "fee = word_of_nat ((unat gross * unat bps) div 10000)"
  have le: "(unat gross * unat bps) div 10000 \<le> unat gross" using assms(1) by (rule fee_le_gross)
  then have fee: "unat fee = (unat gross * unat bps) div 10000"
    using unat_lt2p[of gross] by (simp add: fee_def unat_of_nat take_bit_nat_eq_self)
  then have net: "unat (gross - fee) = unat gross - (unat gross * unat bps) div 10000"
    using le by (simp add: unat_sub word_le_nat_alt)
  have "compute_fee_at_bps gross bps
      = Inr \<lparr>fb_gross = gross, fb_fee_bps = bps, fb_fee = fee, fb_net = gross - fee\<rparr>"
    unfolding compute_fee_ok using assms le fee net by simp
  then show ?thesis using net by (simp add: net_of_def)
qed

lemma net_of_Inr:
  assumes "net_of bps gross = Inr net"
  shows "unat net = unat gross - (unat gross * unat bps) div 10000"
  using assms unfolding net_of_def by (clarsimp simp: compute_fee_ok) linarith

section \<open>The inverse of the fee\<close>

lemma walk_down_stays:
  "f gross = Inr n \<Longrightarrow> n \<le> max_net \<Longrightarrow> walk_down f max_net gross = Inr gross"
  by (subst walk_down.simps) (auto simp: not_less)

lemma walk_down_fails:
  "0 < gross \<Longrightarrow> f gross = Inl e \<Longrightarrow> walk_down f max_net gross = Inl e"
  by (subst walk_down.simps) simp

lemma walk_up_stays:
  assumes "\<And>n net. checked_add gross 1 = Some n \<Longrightarrow> f n = Inr net \<Longrightarrow> max_net < net"
  shows "walk_up f max_net gross = gross"
  using assms by (subst walk_up.simps) (auto split: option.splits sum.splits simp: not_le[symmetric])

text \<open>Neither loop ever moves: the closed-form estimate is already the boundary.\<close>

definition estimate_gross :: "u64 \<Rightarrow> u64 \<Rightarrow> nat" where
  "estimate_gross max_net bps = (unat max_net * 10000) div (10000 - unat bps)"

lemma max_gross_closed:
  assumes bps: "unat bps < 10000"
  shows "max_gross_for_net_at_bps m bps = Inr g \<longleftrightarrow>
    estimate_gross m bps * unat bps < 2 ^ 64 \<and> unat g = estimate_gross m bps"
proof (cases "m = 0")
  case True
  then show ?thesis
    using bps by (auto simp: max_gross_for_net_at_bps_def estimate_gross_def BPS_DENOMINATOR_def
        word_less_nat_alt not_less word_le_nat_alt unat_eq_0)
next
  case m: False
  let ?E = "estimate_gross m bps"
  define est where "est = (ucast m * ucast BPS_DENOMINATOR :: u128) div ucast (BPS_DENOMINATOR - bps)"
  have le: "bps \<le> BPS_DENOMINATOR" using bps by (simp add: word_le_nat_alt)
  then have est: "unat est = ?E"
    by (simp add: est_def unat_div estimate_gross_def unat_sub)
  have mg: "max_gross_for_net_at_bps m bps =
      try_bind (if unat est < 2 ^ 64 then Inr (ucast est) else Inl (ConversionOverflow m)) (\<lambda>gross.
      try_bind (walk_down (net_of bps) m gross) (\<lambda>gross. Inr (walk_up (net_of bps) m gross)))"
    using m le bps by (auto simp: max_gross_for_net_at_bps_def est_def Let_def not_less)
  show ?thesis
  proof (cases "?E < 2 ^ 64")
    case False
    then have "unat g \<noteq> ?E" using unat_lt2p[of g] by auto
    with False est mg show ?thesis by simp
  next
    case E: True
    define gross :: u64 where "gross = ucast est"
    have gross: "unat gross = ?E" using E est by (simp add: gross_def unat_ucast_down)
    show ?thesis
    proof (cases "?E * unat bps < 2 ^ 64")
      case True
      from net_of_eq[of bps gross] bps True gross obtain n where
        n: "net_of bps gross = Inr n" "unat n = unat gross - (unat gross * unat bps) div 10000" by auto
      then have "n \<le> m"
        using net_boundary[OF bps, of "unat gross" "unat m"] gross
        by (simp add: word_le_nat_alt estimate_gross_def)
      from walk_down_stays[of "net_of bps", OF n(1) this] have "walk_down (net_of bps) m gross = Inr gross" .
      moreover have "m < net" if "checked_add gross 1 = Some n'" "net_of bps n' = Inr net" for n' net
        using net_boundary[OF bps, of "unat n'" "unat m"] net_of_Inr[OF that(2)]
          checked_add_unat[OF that(1)] gross
        by (simp add: word_less_nat_alt estimate_gross_def)
      then have "walk_up (net_of bps) m gross = gross" by (rule walk_up_stays)
      ultimately show ?thesis
        using mg E est gross True unfolding gross_def[symmetric] by (auto simp: word_unat_eq_iff)
    next
      case False
      then have "0 < gross" using gross by (auto simp: word_less_nat_alt intro!: gr0I)
      moreover have "net_of bps gross = Inl (ConversionOverflow gross)"
        using False gross le
        by (simp add: net_of_def compute_fee_at_bps_def checked_mul_def not_less)
      ultimately have "walk_down (net_of bps) m gross = Inl (ConversionOverflow gross)"
        by (simp add: walk_down_fails)
      with mg E est False gross show ?thesis unfolding gross_def[symmetric] by simp
    qed
  qed
qed

lemma max_gross_cases:
  "max_gross_for_net_at_bps m bps = Inr g \<longleftrightarrow>
    unat bps \<le> 10000 \<and> (if unat bps = 10000 then g = 0
      else estimate_gross m bps * unat bps < 2 ^ 64 \<and> unat g = estimate_gross m bps)"
proof (cases "unat bps < 10000")
  case False
  then show ?thesis
    by (auto simp: max_gross_for_net_at_bps_def not_less word_le_nat_alt word_unat_eq_iff)
qed (simp add: max_gross_closed)

lemma exact_quotient:
  fixes a c k b :: nat
  assumes "0 < k" "c < b"
  shows "a mod k = 0 \<and> a div k < b \<and> c = a div k \<longleftrightarrow> a = c * k"
  using assms by auto

lemma floor_split:
  fixes a c x k :: nat
  assumes "0 < k"
  shows "a - a mod k = c * k \<and> x = a mod k \<longleftrightarrow> c * k + x = a \<and> x < k"
proof
  assume l: "a - a mod k = c * k \<and> x = a mod k"
  then have "c * k + a mod k = a" using mod_less_eq_dividend[of a k] by linarith
  then show "c * k + x = a \<and> x < k" using l assms by simp
next
  assume r: "c * k + x = a \<and> x < k"
  then have "a mod k = x" by (metis mod_less mod_mult_self3)
  then show "a - a mod k = c * k \<and> x = a mod k" using r by auto
qed

section \<open>Properties\<close>

text \<open>
  Converting an amount between two precisions is exact or refused: it succeeds precisely
  when both amounts are the same number of coins and the scale fits, and then the conversion
  back succeeds with the original amount, so no unit is stranded or created.
\<close>

theorem conversion_exact:
  "(convert_atomic_amount a f t = Inr b \<longleftrightarrow>
      10 ^ (max (unat f) (unat t) - min (unat f) (unat t)) < (2 ^ 64 :: nat)
      \<and> unat a * 10 ^ unat t = unat b * 10 ^ unat f)
   \<and> (convert_atomic_amount a f t = Inr b \<longleftrightarrow> convert_atomic_amount b t f = Inr a)"
  unfolding convert_exact by (simp add: max.commute min.commute) (metis)

text \<open>
  The fee never takes more than its rate and never loses a unit: a fee split succeeds
  exactly when the rate is at most 100% and the product fits, the fee is the floor of gross
  times rate, and fee and net add up to the gross; and a stored record passes the settlement
  check exactly when it is this split.
\<close>

theorem fee_split_exact:
  "(compute_fee_at_bps gross bps = Inr fb \<longleftrightarrow>
      unat bps \<le> 10000 \<and> unat gross * unat bps < 2 ^ 64
      \<and> fb_gross fb = gross \<and> fb_fee_bps fb = bps
      \<and> unat (fb_fee fb) = (unat gross * unat bps) div 10000
      \<and> unat (fb_fee fb) + unat (fb_net fb) = unat gross)
   \<and> (verify_fee_breakdown gross bps fee net = Inr fb \<longleftrightarrow>
      compute_fee_at_bps gross bps = Inr fb \<and> fb_fee fb = fee \<and> fb_net fb = net)"
  by (simp only: compute_fee_ok) (auto simp: verify_fee_breakdown_def compute_fee_ok)

text \<open>
  The displayed maximum is the true one: both correction loops of
  \<open>max_gross_for_net_at_bps\<close> end, and at a rate below 100% its result is the largest gross
  amount whose net stays within the bound; every gross amount with a computable split is
  within the bound exactly up to it.
\<close>

theorem max_gross_is_boundary:
  assumes "max_gross_for_net_at_bps m bps = Inr g" and "unat bps < 10000"
    and "compute_fee_at_bps g' bps = Inr fb"
  shows "fb_net fb \<le> m \<longleftrightarrow> g' \<le> g"
proof -
  have "unat (fb_net fb) = unat g' - (unat g' * unat bps) div 10000"
    by (rule net_of_Inr) (simp add: net_of_def assms(3))
  then show ?thesis
    using assms(1) net_boundary[OF assms(2), of "unat g'" "unat m"]
    by (simp add: max_gross_closed[OF assms(2)] word_le_nat_alt estimate_gross_def)
qed

theorem max_gross_is_boundary_witness:
  "max_gross_for_net_at_bps 970 300 = Inr 1000
   \<and> ((970 :: u64) \<le> 970 \<longleftrightarrow> (1000 :: u64) \<le> 1000) \<and> ((971 :: u64) \<le> 970 \<longleftrightarrow> (1001 :: u64) \<le> 1000)"
proof -
  have g: "max_gross_for_net_at_bps 970 300 = Inr 1000"
    by (simp add: max_gross_closed estimate_gross_def)
  have c: "compute_fee_at_bps 1000 300 = Inr \<lparr>fb_gross = 1000, fb_fee_bps = 300, fb_fee = 30, fb_net = 970\<rparr>"
    "compute_fee_at_bps 1001 300 = Inr \<lparr>fb_gross = 1001, fb_fee_bps = 300, fb_fee = 30, fb_net = 971\<rparr>"
    by (simp_all add: compute_fee_ok)
  from max_gross_is_boundary[OF g _ c(1)] max_gross_is_boundary[OF g _ c(2)] g show ?thesis by simp
qed

text \<open>
  Crossing to the EVM chain and back is lossless: every canonical amount widens without
  overflow to ten decimals more, narrowing accepts exactly the widened amounts, and the floor
  conversion splits any amount in range into whole canonical units and a remainder below one
  unit that add up to it.
\<close>

theorem robinhood_amounts_exact:
  "(\<exists>r. from_canonical c = Inr r \<and> unat r = unat c * 10 ^ 10)
   \<and> (robinhood_to_canonical r' = Inr c \<longleftrightarrow> from_canonical c = Inr r')
   \<and> (to_canonical_floor r' = Inr fl \<longleftrightarrow>
        unat (cf_canonical fl) * 10 ^ 10 + unat (cf_remainder fl) = unat r'
        \<and> unat (cf_remainder fl) < 10 ^ 10)
   \<and> try_from_u256 (to_u256 r') = Inr r'"
proof -
  have scale: "unat CANONICAL_TO_ROBINHOOD_SCALE = 10 ^ 10" by (simp add: CANONICAL_TO_ROBINHOOD_SCALE_def)
  have bound: "unat c * 10 ^ 10 < (2 ^ 128 :: nat)" for c :: u64 using unat_lt2p[of c] by simp
  have wide: "from_canonical c = Inr (ucast c * CANONICAL_TO_ROBINHOOD_SCALE)"
    "unat (ucast c * CANONICAL_TO_ROBINHOOD_SCALE :: u128) = unat c * 10 ^ 10" for c :: u64
    using bound[of c] by (simp_all add: from_canonical_def checked_mul_def scale unat_mul_no_wrap)
  have narrow: "robinhood_to_canonical r = Inr c \<longleftrightarrow> unat r = unat c * 10 ^ 10" for r c
  proof -
    have "robinhood_to_canonical r = Inr c \<longleftrightarrow>
        unat r mod 10 ^ 10 = 0 \<and> unat r div 10 ^ 10 < 2 ^ 64 \<and> unat c = unat r div 10 ^ 10"
      unfolding robinhood_to_canonical_def Let_def
      by (auto simp: word_unat_eq_iff unat_mod unat_div scale unat_ucast_down)
    also have "\<dots> \<longleftrightarrow> unat r = unat c * 10 ^ 10"
      by (rule exact_quotient) (use unat_lt2p[of c] in simp_all)
    finally show ?thesis .
  qed
  have "to_canonical_floor r = Inr fl \<longleftrightarrow>
      unat (cf_canonical fl) * 10 ^ 10 + unat (cf_remainder fl) = unat r
      \<and> unat (cf_remainder fl) < 10 ^ 10" for r fl
  proof -
    have rem: "unat (r mod CANONICAL_TO_ROBINHOOD_SCALE) = unat r mod 10 ^ 10"
      by (simp add: unat_mod scale)
    then have "unat (r - r mod CANONICAL_TO_ROBINHOOD_SCALE) = unat r - unat r mod 10 ^ 10"
      by (simp add: unat_sub word_le_nat_alt)
    then have "to_canonical_floor r = Inr fl \<longleftrightarrow>
        unat r - unat r mod 10 ^ 10 = unat (cf_canonical fl) * 10 ^ 10
        \<and> unat (cf_remainder fl) = unat r mod 10 ^ 10"
      unfolding to_canonical_floor_def Let_def
      by (cases fl) (auto simp: narrow word_unat_eq_iff rem)
    also have "\<dots> \<longleftrightarrow> unat (cf_canonical fl) * 10 ^ 10 + unat (cf_remainder fl) = unat r
      \<and> unat (cf_remainder fl) < 10 ^ 10"
      by (rule floor_split) simp
    finally show ?thesis .
  qed
  moreover have "try_from_u256 (to_u256 r') = Inr r'"
    using unat_lt2p[of r']
    by (simp add: try_from_u256_def to_u256_def unsigned_ucast_eq take_bit_nat_eq_self word_unat_eq_iff
        take_bit_word_eq_self)
  moreover have "robinhood_to_canonical r' = Inr c \<longleftrightarrow> from_canonical c = Inr r'"
    unfolding wide(1) narrow by (auto simp: word_unat_eq_iff wide(2))
  ultimately show ?thesis using wide[of c] by blast
qed

end
