(* ===== verification/Rate_Math.thy ===== *)
theory Rate_Math
  imports Amount_Conversion
begin

unbundle bit_operations_syntax

text \<open>
  The 256-bit arithmetic of the rate engine, \<open>service/src/bridge_rate/bigmath.rs\<close>: a product
  of two 128-bit numbers by 64-bit limbs and a bit-by-bit long division. Both are shown equal
  to the arithmetic of natural numbers.
\<close>

record U256 =
  u_hi :: u128
  u_lo :: u128

definition U256_ZERO :: U256 where "U256_ZERO = \<lparr>u_hi = 0, u_lo = 0\<rparr>"

definition U256_from_u128 :: "u128 \<Rightarrow> U256" where
  "U256_from_u128 lo = \<lparr>u_hi = 0, u_lo = lo\<rparr>"

definition mul_u128 :: "u128 \<Rightarrow> u128 \<Rightarrow> U256" where
  "mul_u128 a b =
     (let m = mask 64;
          a_hi = drop_bit 64 a; a_lo = a AND m;
          b_hi = drop_bit 64 b; b_lo = b AND m;
          ll = a_lo * b_lo;
          lh = a_lo * b_hi;
          hl = a_hi * b_lo;
          hh = a_hi * b_hi;
          mid = drop_bit 64 ll + (lh AND m) + (hl AND m);
          lo = push_bit 64 mid OR (ll AND m);
          hi = hh + drop_bit 64 lh + drop_bit 64 hl + drop_bit 64 mid
      in \<lparr>u_hi = hi, u_lo = lo\<rparr>)"

definition U256_bit :: "U256 \<Rightarrow> nat \<Rightarrow> bool" where
  "U256_bit v i =
     (if i \<ge> 128 then (drop_bit (i - 128) (u_hi v)) AND 1 = 1 else (drop_bit i (u_lo v)) AND 1 = 1)"

text \<open>The loop of \<open>div_u128\<close>; the first argument after the divisor counts the bits left.\<close>

fun div_bits :: "U256 \<Rightarrow> u128 \<Rightarrow> nat \<Rightarrow> u128 \<Rightarrow> u128 \<Rightarrow> u128 option" where
  "div_bits v divisor 0 remainder quot = Some quot"
| "div_bits v divisor (Suc i) remainder quot =
     (let carry = drop_bit 127 remainder;
          remainder' = push_bit 1 remainder OR (if U256_bit v i then 1 else 0);
          fits = carry = 1 \<or> remainder' \<ge> divisor
      in if fits then
           (if i \<ge> 128 then None
            else div_bits v divisor i (remainder' - divisor) (quot OR push_bit i 1))
         else div_bits v divisor i remainder' quot)"

definition div_u128 :: "U256 \<Rightarrow> u128 \<Rightarrow> u128 option" where
  "div_u128 v divisor = (if divisor = 0 then None else div_bits v divisor 256 0 0)"

definition mul_div :: "u128 \<Rightarrow> u128 \<Rightarrow> u128 \<Rightarrow> u128 option" where
  "mul_div a b d = div_u128 (mul_u128 a b) d"

text \<open>The number a pair of limbs stands for.\<close>

definition U256_value :: "U256 \<Rightarrow> nat" where
  "U256_value v = unat (u_hi v) * 2 ^ 128 + unat (u_lo v)"

section \<open>The product\<close>

lemma unat_low64 [simp]: "unat (x AND mask 64 :: u128) = unat x mod 2 ^ 64"
  unfolding take_bit_eq_mask[symmetric] unsigned_take_bit_eq by (simp only: take_bit_eq_mod)

lemma unat_drop64 [simp]: "unat (drop_bit n x :: u128) = unat x div 2 ^ n"
  unfolding unsigned_drop_bit_eq
  by (simp add: drop_bit_eq_div take_bit_nat_eq_self[OF unat_lt2p[of x], simplified])

lemma unat_push: "unat (push_bit n x :: u128) = (unat x * 2 ^ n) mod 2 ^ 128"
  unfolding unsigned_push_bit_eq by (simp add: push_bit_eq_mult take_bit_eq_mod)

lemma unat_push64: "unat (push_bit 64 x :: u128) = (unat x mod 2 ^ 64) * 2 ^ 64"
proof -
  have "unat (push_bit 64 x :: u128) = (unat x * 2 ^ 64) mod (2 ^ 64 * 2 ^ 64)"
    by (simp only: unat_push) simp
  then show ?thesis by (simp only: mult_mod_left)
qed

lemma unat_or_disjoint:
  fixes x y :: "'a::len word"
  assumes "x AND y = 0" "unat x + unat y < 2 ^ LENGTH('a)"
  shows "unat (x OR y) = unat x + unat y"
  using assms by (metis disjunctive_add_eq_or unat_add_lem)

lemma len_u128: "LENGTH(128) = 128"
  by simp

lemma div64_less: "(x :: nat) < 2 ^ 128 \<Longrightarrow> x div 2 ^ 64 < 2 ^ 64"
  by (simp add: less_mult_imp_div_less)

lemma unat_add3:
  "unat (a + b + c :: u128) = (unat a + unat b + unat c) mod 2 ^ 128"
  by (simp add: unat_word_ariths mod_simps)

lemma unat_add4:
  "unat (a + b + c + d :: u128) = (unat a + unat b + unat c + unat d) mod 2 ^ 128"
  by (simp add: unat_word_ariths mod_simps)

lemma limb_sum:
  fixes B hh lh hl ll mid :: nat
  assumes "mid = ll div B + lh mod B + hl mod B"
  shows "hh * (B * B) + (lh + hl) * B + ll
    = (hh + lh div B + hl div B + mid div B) * (B * B) + (mid mod B * B + ll mod B)"
proof -
  have "(mid div B) * (B * B) + mid mod B * B = mid * B"
    by (metis add_mult_distrib div_mult_mod_eq mult.assoc)
  moreover have "(lh div B) * (B * B) + lh mod B * B = lh * B" "(hl div B) * (B * B) + hl mod B * B = hl * B"
    by (metis add_mult_distrib div_mult_mod_eq mult.assoc)+
  moreover have "ll div B * B + ll mod B = ll" by simp
  ultimately show ?thesis using assms by (simp add: algebra_simps)
qed

lemma mul_u128_value: "U256_value (mul_u128 a b) = unat a * unat b"
proof -
  define B :: nat where "B = 2 ^ 64"
  have B: "(2 ^ 128 :: nat) = B * B" "0 < B" "(2 ^ 64 :: nat) = B" by (simp_all add: B_def)
  define ah al bh bl where "ah = unat a div B" "al = unat a mod B" "bh = unat b div B" "bl = unat b mod B"
  note defs = this
  have lim: "ah < B" "al < B" "bh < B" "bl < B"
    using div64_less[of "unat a"] div64_less[of "unat b"] unat_lt2p[of a] unat_lt2p[of b] B(2)
    by (simp_all add: defs B_def)
  have ab: "unat a = ah * B + al" "unat b = bh * B + bl" by (simp_all add: defs)
  have prod: "x * y < B * B" if "x < B" "y < B" for x y using that by (simp add: mult_strict_mono)
  define ll lh hl hh where "ll = al * bl" "lh = al * bh" "hl = ah * bl" "hh = ah * bh"
  note prods = this
  define mid where "mid = ll div B + lh mod B + hl mod B"
  let ?m = "mask 64 :: u128"
  let ?ll = "(a AND ?m) * (b AND ?m)" and ?lh = "(a AND ?m) * drop_bit 64 b"
  let ?hl = "drop_bit 64 a * (b AND ?m)" and ?hh = "drop_bit 64 a * drop_bit 64 b"
  let ?mid = "drop_bit 64 ?ll + (?lh AND ?m) + (?hl AND ?m)"
  have u: "unat ?ll = ll" "unat ?lh = lh" "unat ?hl = hl" "unat ?hh = hh"
    using prod lim B
    by (simp_all add: unat_mul_no_wrap prods defs del: unat_low64 add: unat_low64[unfolded B(3)]
        unat_drop64[of 64, unfolded B(3)])
  have mid_less: "mid < 3 * B"
  proof -
    have "ll div B < B" using prod[of al bl] lim by (simp add: prods less_mult_imp_div_less)
    moreover have "lh mod B < B" "hl mod B < B" using B(2) by simp_all
    ultimately show ?thesis unfolding mid_def by linarith
  qed
  have mid: "unat ?mid = mid"
    using mid_less by (simp only: unat_add3 unat_drop64 unat_low64 u B(3) mid_def[symmetric])
      (simp add: B_def)
  have "push_bit 64 ?mid AND (?ll AND ?m) = 0"
    by (rule bit_eqI) (auto simp: bit_simps)
  moreover have lo_sum: "mid mod B * B + ll mod B < B * B"
  proof -
    have "(mid mod B + 1) * B \<le> B * B" using B(2) by (intro mult_le_mono1) (simp add: Suc_leI)
    then show ?thesis using mod_less_divisor[OF B(2), of ll] by (simp add: algebra_simps)
  qed
  ultimately have lo: "unat (push_bit 64 ?mid OR (?ll AND ?m)) = mid mod B * B + ll mod B"
    using unat_or_disjoint[of "push_bit 64 ?mid" "?ll AND ?m"]
    by (simp only: unat_push64 unat_low64 mid u(1) B len_u128)
  define H where "H = hh + lh div B + hl div B + mid div B"
  have ab_sum: "unat a * unat b = H * (B * B) + (mid mod B * B + ll mod B)"
    unfolding H_def limb_sum[OF mid_def, symmetric] by (simp add: ab prods algebra_simps)
  have "unat a * unat b < (B * B) * (B * B)"
    using unat_lt2p[of a] unat_lt2p[of b] by (intro mult_strict_mono) (simp_all add: B_def)
  with ab_sum have "H * (B * B) < (B * B) * (B * B)" by linarith
  then have "H < B * B" using B(2) by simp
  then have "unat (?hh + drop_bit 64 ?lh + drop_bit 64 ?hl + drop_bit 64 ?mid) = H"
    by (simp only: unat_add4 unat_drop64 u mid B H_def[symmetric] mod_less)
  with lo show ?thesis
    unfolding mul_u128_def Let_def U256_value_def by (simp only: U256.select_convs ab_sum B(1))
qed

section \<open>The long division\<close>

lemma low_bit_odd: "x AND 1 = 1 \<longleftrightarrow> odd (unat x)" for x :: u128
  by (simp add: and_one_eq odd_iff_mod_2_eq_one word_unat_eq_iff unat_mod)

lemma U256_bit_value:
  assumes "i < 256"
  shows "U256_bit v i \<longleftrightarrow> odd (U256_value v div 2 ^ i)"
proof (cases "128 \<le> i")
  case True
  then have "U256_value v div 2 ^ i = U256_value v div 2 ^ 128 div 2 ^ (i - 128)"
    by (metis div_mult2_eq le_add_diff_inverse power_add)
  moreover have "U256_value v div 2 ^ 128 = unat (u_hi v)"
    using unat_lt2p[of "u_lo v"] by (simp add: U256_value_def)
  ultimately show ?thesis using True by (simp add: U256_bit_def low_bit_odd)
next
  case False
  then have "(2 :: nat) ^ 128 = 2 ^ i * (2 * 2 ^ (127 - i))"
    by (simp add: power_add[symmetric] power_Suc[symmetric] del: power_Suc)
  then have "U256_value v = unat (u_lo v) + 2 ^ i * (2 * 2 ^ (127 - i) * unat (u_hi v))"
    by (simp only: U256_value_def) (simp add: algebra_simps)
  then have "U256_value v div 2 ^ i = 2 * (2 ^ (127 - i) * unat (u_hi v)) + unat (u_lo v) div 2 ^ i"
    by simp
  then show ?thesis using False by (simp add: U256_bit_def low_bit_odd)
qed

lemma shifted_remainder:
  "push_bit 1 r OR (if b then 1 else 0) = (word_of_nat (2 * unat r + of_bool b) :: u128)"
proof -
  have "push_bit 1 r AND 1 = (0 :: u128)"
    by (simp only: and_one_eq even_iff_mod_2_eq_zero[symmetric] even_push_bit_iff) simp
  then have "push_bit 1 r AND (if b then 1 else 0) = (0 :: u128)" by simp
  then have "push_bit 1 r OR (if b then 1 else 0) = push_bit 1 r + (if b then 1 else (0 :: u128))"
    by (simp only: disjunctive_add_eq_or)
  then show ?thesis by (simp add: push_bit_eq_mult)
qed

lemma quotient_bit:
  assumes "unat q = k * 2 ^ Suc i" "i < 128"
  shows "unat (q OR push_bit i 1 :: u128) = (2 * k + 1) * 2 ^ i"
proof -
  have "bit q i \<longleftrightarrow> bit (unat q) i" by (simp only: bit_unsigned_iff) simp
  then have "\<not> bit q i" unfolding assms(1) bit_iff_odd by simp
  then have "q AND push_bit i 1 = 0" by (intro bit_eqI) (auto simp: bit_simps)
  moreover have "unat (push_bit i 1 :: u128) = 2 ^ i"
  proof -
    have "(2 :: nat) ^ i < 2 ^ 128" using assms(2) by (intro power_strict_increasing) simp_all
    then show ?thesis using unat_push[of i 1] by (simp only: unat_1 mult_1 mod_less)
  qed
  moreover have "k * 2 ^ Suc i + 2 ^ i < (2 :: nat) ^ 128"
  proof -
    have p: "(2 :: nat) ^ 128 = 2 ^ (127 - i) * 2 ^ Suc i"
      using assms(2) by (simp add: power_add[symmetric] del: power_Suc)
    have "k * 2 ^ Suc i < 2 ^ (127 - i) * 2 ^ Suc i"
      using unat_lt2p[of q] assms(1) p by (simp only: len_u128)
    then have "k + 1 \<le> 2 ^ (127 - i)" by (simp del: power_Suc)
    then have "(k + 1) * 2 ^ Suc i \<le> 2 ^ (127 - i) * 2 ^ Suc i" by (rule mult_le_mono1)
    moreover have "(0 :: nat) < 2 ^ i" by simp
    moreover have "(2 :: nat) ^ Suc i = 2 ^ i + 2 ^ i" by simp
    ultimately show ?thesis unfolding p add_mult_distrib by linarith
  qed
  ultimately show ?thesis
    using unat_or_disjoint[of q "push_bit i 1"]
    by (simp only: assms(1) len_u128) (simp add: add_mult_distrib)
qed

lemma div_bits_step:
  fixes r d :: u128 and n :: nat
  assumes "unat r < unat d" and n_def: "n = 2 * unat r + of_bool b"
  shows "drop_bit 127 r = 1 \<or> (word_of_nat n :: u128) \<ge> d \<longleftrightarrow> unat d \<le> n"
    and "unat d \<le> n \<Longrightarrow> unat (word_of_nat n - d) = n - unat d"
    and "n < unat d \<Longrightarrow> unat (word_of_nat n :: u128) = n"
proof -
  have d: "unat d < 2 ^ 128" using unat_lt2p[of d] by simp
  have n: "n < 2 * unat d" using assms by (cases b) auto
  have carry: "drop_bit 127 r = 1 \<longleftrightarrow> 2 ^ 127 \<le> unat r"
  proof -
    have "drop_bit 127 r = 1 \<longleftrightarrow> unat r div 2 ^ 127 = 1"
      by (simp only: word_unat_eq_iff unat_drop64) simp
    also have "\<dots> \<longleftrightarrow> 2 ^ 127 \<le> unat r"
      using unat_lt2p[of r] by (auto simp: div_nat_eqI div_eq_0_iff not_less[symmetric])
    finally show ?thesis .
  qed
  have small: "unat (word_of_nat n :: u128) = n" if "n < 2 ^ 128"
    using that by (simp add: unat_of_nat take_bit_nat_eq_self)
  show "drop_bit 127 r = 1 \<or> (word_of_nat n :: u128) \<ge> d \<longleftrightarrow> unat d \<le> n"
  proof (cases "n < 2 ^ 128")
    case True
    then have "\<not> 2 ^ 127 \<le> unat r" by (auto simp: n_def)
    with True show ?thesis by (simp add: carry small word_le_nat_alt)
  next
    case False
    then have "2 ^ 127 \<le> unat r" by (cases b) (auto simp: n_def)
    with False d show ?thesis by (simp add: carry)
  qed
  show "unat (word_of_nat n - d) = n - unat d" if "unat d \<le> n"
  proof -
    have "word_of_nat n - d = (word_of_nat (n - unat d) :: u128)" using that by (simp add: of_nat_diff)
    moreover have "n - unat d < 2 ^ 128" using n d by linarith
    ultimately show ?thesis by (simp add: unat_of_nat take_bit_nat_eq_self)
  qed
  show "n < unat d \<Longrightarrow> unat (word_of_nat n :: u128) = n" using small d by simp
qed

text \<open>
  The invariant of the loop: the bits taken so far are \<open>k\<close> times the divisor plus the
  remainder, and the quotient is \<open>k\<close> shifted by the bits left.
\<close>

lemma div_bits_correct:
  assumes "i \<le> 256" "U256_value v div 2 ^ i = k * unat d + unat r" "unat r < unat d"
    and "unat q = k * 2 ^ i"
  shows "div_bits v d i r q =
    (if U256_value v div unat d < 2 ^ 128 then Some (word_of_nat (U256_value v div unat d)) else None)"
  using assms
proof (induction i arbitrary: k r q)
  case 0
  then have "U256_value v div unat d = k" "unat q = k" by simp_all
  then show ?case using unat_lt2p[of q] by (auto simp: word_unat_eq_iff unat_of_nat take_bit_nat_eq_self)
next
  case (Suc i)
  define b where "b = U256_bit v i"
  define n where "n = 2 * unat r + of_bool b"
  have b: "b \<longleftrightarrow> odd (U256_value v div 2 ^ i)" using U256_bit_value[of i v] Suc.prems(1) by (simp add: b_def)
  have "U256_value v div 2 ^ i = 2 * (U256_value v div 2 ^ i div 2) + of_bool b"
    unfolding b by (cases "odd (U256_value v div 2 ^ i)") simp_all
  also have "U256_value v div 2 ^ i div 2 = k * unat d + unat r"
    using Suc.prems(2) by (simp add: div_mult2_eq[symmetric] mult.commute)
  finally have taken: "U256_value v div 2 ^ i = (2 * k) * unat d + n" by (simp add: n_def)
  note step = div_bits_step[OF Suc.prems(3) n_def]
  have n_less: "n < 2 * unat d" using Suc.prems(3) by (cases b) (auto simp: n_def)
  have unfold: "div_bits v d (Suc i) r q = (if unat d \<le> n
      then (if i \<ge> 128 then None else div_bits v d i (word_of_nat n - d) (q OR push_bit i 1))
      else div_bits v d i (word_of_nat n) q)"
    by (simp only: div_bits.simps Let_def b_def[symmetric] shifted_remainder n_def[symmetric] step(1))
  show ?case
  proof (cases "unat d \<le> n")
    case False
    with Suc.IH[of "2 * k" "word_of_nat n" q] step(3) taken Suc.prems(1,4) show ?thesis
      unfolding unfold by simp
  next
    case fits: True
    show ?thesis
    proof (cases "i \<ge> 128")
      case True
      have "unat d \<le> U256_value v div 2 ^ i" using taken fits by simp
      then have "unat d * 2 ^ i \<le> U256_value v" by (simp add: less_eq_div_iff_mult_less_eq)
      then have "2 ^ i \<le> U256_value v div unat d"
        using Suc.prems(3) by (simp add: less_eq_div_iff_mult_less_eq mult.commute)
      moreover have "(2 :: nat) ^ 128 \<le> 2 ^ i" using True by (simp only: power_increasing one_le_numeral)
      ultimately show ?thesis unfolding unfold using fits True by simp
    next
      case False
      have "U256_value v div 2 ^ i = (2 * k + 1) * unat d + (n - unat d)"
        using taken fits by simp
      moreover have "unat (q OR push_bit i 1) = (2 * k + 1) * 2 ^ i"
        using quotient_bit[OF Suc.prems(4)] False by simp
      moreover have "n - unat d < unat d" using n_less by linarith
      ultimately show ?thesis
        using Suc.IH[of "2 * k + 1" "word_of_nat n - d" "q OR push_bit i 1"] step(2)[OF fits]
          Suc.prems(1) fits False unfolding unfold by simp
    qed
  qed
qed

lemma nat_add_less_bound: "x + b \<le> c \<Longrightarrow> y < b \<Longrightarrow> x + y < c" for x y b c :: nat
  by linarith

lemma div_u128_eq:
  "div_u128 v d = (if d = 0 \<or> 2 ^ 128 \<le> U256_value v div unat d then None
     else Some (word_of_nat (U256_value v div unat d)))"
proof (cases "d = 0")
  case False
  then have "0 < unat d" by (simp add: unat_gt_0)
  moreover have "U256_value v < 2 ^ 256"
  proof -
    have "unat (u_hi v) + 1 \<le> 2 ^ 128" using unat_lt2p[of "u_hi v"] by simp
    then have "(unat (u_hi v) + 1) * 2 ^ 128 \<le> 2 ^ 128 * (2 :: nat) ^ 128" by (rule mult_le_mono1)
    moreover have "(2 :: nat) ^ 256 = 2 ^ 128 * 2 ^ 128" by (simp only: power_add[symmetric]) simp
    ultimately show ?thesis
      using unat_lt2p[of "u_lo v"] unfolding U256_value_def len_u128 add_mult_distrib mult_1
      by (simp only: nat_add_less_bound)
  qed
  ultimately have "div_bits v d 256 0 0 = (if U256_value v div unat d < 2 ^ 128
      then Some (word_of_nat (U256_value v div unat d)) else None)"
    by (intro div_bits_correct[of 256 v 0 d 0 0]) (simp_all only: unsigned_0 mult_0 div_less add_0 le_refl)
  then show ?thesis using False unfolding div_u128_def not_less[symmetric] by (simp only: if_False if_not_P simp_thms split: if_split) blast
qed (simp add: div_u128_def)

lemma mul_div_eq:
  "mul_div a b d = (if d = 0 \<or> 2 ^ 128 \<le> unat a * unat b div unat d then None
     else Some (word_of_nat (unat a * unat b div unat d)))"
  by (simp only: mul_div_def div_u128_eq mul_u128_value)

text \<open>
  C30. The rate engine's wide arithmetic is exact: the limb product of two 128-bit numbers and
  the long division that follows it compute the floor of \<open>a * b / d\<close> over the integers for
  all inputs, and answer \<open>None\<close> exactly when \<open>d\<close> is zero or the result does not fit.
\<close>

theorem mul_div_exact:
  "mul_div a b d = (if d = 0 \<or> 2 ^ 128 \<le> unat a * unat b div unat d then None
     else Some (word_of_nat (unat a * unat b div unat d)))"
  by (simp only: mul_div_def div_u128_eq mul_u128_value)

end
