(* ===== verification/Bridge_Rate.thy ===== *)
theory Bridge_Rate
  imports Rate_Math
begin

text \<open>
  Quotes, \<open>service/src/bridge_rate.rs\<close>: the price of a deposit in the destination asset, the
  fee and the floor to the destination's precision, the check every settlement runs on the
  stored figures, and the largest deposit whose payout fits the destination chain's limit.
  Prices are fixed-point numbers with twelve decimals; the two prices of a quote are data.
\<close>

definition PRICE_SCALE :: u64 where "PRICE_SCALE = 1000000000000"

definition DEFAULT_QUOTE_LIFETIME_SECS :: i64 where "DEFAULT_QUOTE_LIFETIME_SECS = 60"

definition saturating_add_i64 :: "i64 \<Rightarrow> i64 \<Rightarrow> i64" where
  "saturating_add_i64 a b = max i64_min (min i64_max (a + b))"

record RailPrices =
  rp_source_price_e12 :: u64
  rp_destination_price_e12 :: u64
  rp_source_feed_at :: i64
  rp_destination_feed_at :: i64

definition unit_prices :: "i64 \<Rightarrow> RailPrices" where
  "unit_prices now =
     \<lparr>rp_source_price_e12 = PRICE_SCALE, rp_destination_price_e12 = PRICE_SCALE,
      rp_source_feed_at = now, rp_destination_feed_at = now\<rparr>"

record BridgeQuote =
  bq_source_price_e12 :: u64
  bq_destination_price_e12 :: u64
  bq_gross_in :: CanonicalAtomic
  bq_gross_out :: CanonicalAtomic
  bq_fee_bps :: u64
  bq_fee_out :: CanonicalAtomic
  bq_net_out :: CanonicalAtomic
  bq_dust_out :: CanonicalAtomic
  bq_quoted_at :: i64
  bq_quote_expires_at :: i64
  bq_source_feed_at :: i64
  bq_destination_feed_at :: i64

definition quote_rail_prices :: "BridgeQuote \<Rightarrow> RailPrices" where
  "quote_rail_prices q =
     \<lparr>rp_source_price_e12 = bq_source_price_e12 q, rp_destination_price_e12 = bq_destination_price_e12 q,
      rp_source_feed_at = bq_source_feed_at q, rp_destination_feed_at = bq_destination_feed_at q\<rparr>"

definition breakdown :: "BridgeQuote \<Rightarrow> FeeBreakdown" where
  "breakdown q =
     \<lparr>fb_gross = bq_gross_out q, fb_fee_bps = bq_fee_bps q, fb_fee = bq_fee_out q, fb_net = bq_net_out q\<rparr>"

definition is_unit_rate :: "BridgeQuote \<Rightarrow> bool" where
  "is_unit_rate q \<longleftrightarrow> bq_source_price_e12 q = bq_destination_price_e12 q"

definition gross_out_at_rate :: "CanonicalAtomic \<Rightarrow> u64 \<Rightarrow> u64 \<Rightarrow> (ConversionError, CanonicalAtomic) result" where
  "gross_out_at_rate gross_in source_price_e12 destination_price_e12 =
     require (\<not> (source_price_e12 = 0 \<or> destination_price_e12 = 0))
       (InvalidBridgePrice source_price_e12 destination_price_e12) (
     let scaled = ucast gross_in * ucast source_price_e12 :: u128;
         out = scaled div ucast destination_price_e12
     in if unat out < 2 ^ 64 then Inr (ucast out) else Inl (ConversionOverflow gross_in))"

record QuotedBreakdown =
  qb_gross_out :: CanonicalAtomic
  qb_fee_bps :: u64
  qb_fee_out :: CanonicalAtomic
  qb_net_out :: CanonicalAtomic
  qb_dust_out :: CanonicalAtomic

definition as_fee_breakdown :: "QuotedBreakdown \<Rightarrow> FeeBreakdown" where
  "as_fee_breakdown qb =
     \<lparr>fb_gross = qb_gross_out qb, fb_fee_bps = qb_fee_bps qb, fb_fee = qb_fee_out qb, fb_net = qb_net_out qb\<rparr>"

definition quoted_breakdown ::
  "CanonicalAtomic \<Rightarrow> u64 \<Rightarrow> u64 \<Rightarrow> u64 \<Rightarrow> u64 \<Rightarrow> (ConversionError, QuotedBreakdown) result" where
  "quoted_breakdown gross_in source_price_e12 destination_price_e12 fee_bps destination_scale =
     require (destination_scale \<noteq> 0) InvalidDestinationScale (
     try_bind (gross_out_at_rate gross_in source_price_e12 destination_price_e12) (\<lambda>gross_out.
     try_bind (compute_fee_at_bps gross_out fee_bps) (\<lambda>fb.
     let dust = fb_net fb mod destination_scale in
     Inr \<lparr>qb_gross_out = fb_gross fb, qb_fee_bps = fb_fee_bps fb, qb_fee_out = fb_fee fb,
          qb_net_out = fb_net fb - dust, qb_dust_out = dust\<rparr>)))"

definition compute_bridge_quote ::
  "CanonicalAtomic \<Rightarrow> RailPrices \<Rightarrow> u64 \<Rightarrow> i64 \<Rightarrow> i64 \<Rightarrow> u64 \<Rightarrow> (ConversionError, BridgeQuote) result" where
  "compute_bridge_quote gross_in prices fee_bps now quote_lifetime_secs destination_scale =
     try_bind (quoted_breakdown gross_in (rp_source_price_e12 prices) (rp_destination_price_e12 prices)
       fee_bps destination_scale) (\<lambda>qb.
     Inr \<lparr>bq_source_price_e12 = rp_source_price_e12 prices,
          bq_destination_price_e12 = rp_destination_price_e12 prices,
          bq_gross_in = gross_in, bq_gross_out = qb_gross_out qb, bq_fee_bps = fee_bps,
          bq_fee_out = qb_fee_out qb, bq_net_out = qb_net_out qb, bq_dust_out = qb_dust_out qb,
          bq_quoted_at = now, bq_quote_expires_at = saturating_add_i64 now quote_lifetime_secs,
          bq_source_feed_at = rp_source_feed_at prices,
          bq_destination_feed_at = rp_destination_feed_at prices\<rparr>)"

definition verify_quoted_breakdown ::
  "u64 \<Rightarrow> u64 \<Rightarrow> u64 \<Rightarrow> u64 \<Rightarrow> u64 \<Rightarrow> u64 \<Rightarrow> u64 \<Rightarrow> u64 \<Rightarrow> (ConversionError, FeeBreakdown) result" where
  "verify_quoted_breakdown gross_in source_price destination_price fee_bps stored_gross_out
     stored_fee_out stored_net_out destination_scale =
     try_bind (quoted_breakdown gross_in source_price destination_price fee_bps destination_scale) (\<lambda>qb.
     let fb = as_fee_breakdown qb in
     require (\<not> (fb_gross fb \<noteq> stored_gross_out \<or> fb_fee fb \<noteq> stored_fee_out \<or> fb_net fb \<noteq> stored_net_out))
       (QuoteMismatch gross_in source_price destination_price stored_gross_out (fb_gross fb)
         stored_fee_out (fb_fee fb) stored_net_out (fb_net fb)) (
     Inr fb))"

record PersistedQuote =
  pq_source_price_e12 :: u64
  pq_destination_price_e12 :: u64
  pq_gross_out_atomic :: u64
  pq_quoted_at :: i64
  pq_quote_expires_at :: i64
  pq_source_feed_at :: i64
  pq_destination_feed_at :: i64
  pq_locked_at :: "i64 option"

definition is_locked :: "PersistedQuote \<Rightarrow> bool" where
  "is_locked q \<longleftrightarrow> pq_locked_at q \<noteq> None"

definition verify_request_amounts ::
  "PersistedQuote option \<Rightarrow> u64 \<Rightarrow> u64 \<Rightarrow> u64 \<Rightarrow> u64 \<Rightarrow> u64 \<Rightarrow> (ConversionError, FeeBreakdown) result" where
  "verify_request_amounts quote gross fee_bps fee net destination_scale =
     (case quote of
        None \<Rightarrow> verify_fee_breakdown gross fee_bps fee net
      | Some q \<Rightarrow>
          require (is_locked q) (QuoteNotLocked (pq_quoted_at q)) (
          verify_quoted_breakdown gross (pq_source_price_e12 q) (pq_destination_price_e12 q) fee_bps
            (pq_gross_out_atomic q) fee net destination_scale))"

definition expected_net_for_gross ::
  "PersistedQuote option \<Rightarrow> CanonicalAtomic \<Rightarrow> u64 \<Rightarrow> u64 \<Rightarrow> (ConversionError, CanonicalAtomic) result" where
  "expected_net_for_gross quote gross_in fee_bps destination_scale =
     (case quote of
        None \<Rightarrow> try_bind (compute_fee_at_bps gross_in fee_bps) (\<lambda>fb. Inr (fb_net fb))
      | Some q \<Rightarrow> try_bind (quoted_breakdown gross_in (pq_source_price_e12 q) (pq_destination_price_e12 q)
          fee_bps destination_scale) (\<lambda>qb. Inr (qb_net_out qb)))"

definition destination_scale_for_decimals :: "u8 \<Rightarrow> u64" where
  "destination_scale_for_decimals destination_decimals =
     (let canonical = ucast GOLDCOIN_DECIMALS :: u8 in
      if destination_decimals \<ge> canonical then 1 else 10 ^ unat (canonical - destination_decimals))"

definition DEFAULT_DESTINATION_LIMIT_BUFFER_BPS :: u64 where
  "DEFAULT_DESTINATION_LIMIT_BUFFER_BPS = 2500"

definition buffered_destination_limit :: "CanonicalAtomic \<Rightarrow> u64 \<Rightarrow> CanonicalAtomic" where
  "buffered_destination_limit limit_canonical buffer_bps =
     (let keep = saturating_sub BPS_DENOMINATOR buffer_bps;
          scaled = (ucast limit_canonical * ucast keep :: u128) div ucast BPS_DENOMINATOR
      in ucast scaled)"

text \<open>The loop of the binary search; \<open>fits\<close> is the closure of \<open>max_source_for_destination_limit\<close>.\<close>

function bisect :: "(u64 \<Rightarrow> bool) \<Rightarrow> u64 \<Rightarrow> u64 \<Rightarrow> u64" where
  "bisect fits lo hi =
     (if hi - lo > 1 then
        (let mid = lo + (hi - lo) div 2 in
         if fits mid then bisect fits mid hi else bisect fits lo mid)
      else lo)"
  by pat_completeness auto

definition source_fits :: "RailPrices \<Rightarrow> u64 \<Rightarrow> u64 \<Rightarrow> CanonicalAtomic \<Rightarrow> u64 \<Rightarrow> bool" where
  "source_fits prices fee_bps destination_scale buffered gross_in =
     (case quoted_breakdown gross_in (rp_source_price_e12 prices) (rp_destination_price_e12 prices)
        fee_bps destination_scale of
        Inr qb \<Rightarrow> qb_net_out qb \<le> buffered
      | Inl _ \<Rightarrow> False)"

lemma unat_half: "unat (x div 2 :: u64) = unat x div 2"
  by (simp add: unat_div)

text \<open>The midpoint of a range of more than one is strictly inside it.\<close>

lemma midpoint:
  fixes lo hi :: u64
  assumes "hi - lo > 1"
  shows "unat (hi - (lo + (hi - lo) div 2)) < unat (hi - lo)"
    and "unat (lo + (hi - lo) div 2 - lo) < unat (hi - lo)"
    and "unat (hi - (lo + (hi - lo) div 2)) = unat (hi - lo) - unat (hi - lo) div 2"
proof -
  define d where "d = hi - lo"
  have d: "1 < unat d" using assms by (simp add: d_def word_less_nat_alt)
  have eq: "hi - (lo + d div 2) = d - d div 2" by (simp add: d_def)
  have "d div 2 \<le> d" by (simp add: word_le_nat_alt unat_half)
  then have u: "unat (hi - (lo + d div 2)) = unat d - unat d div 2"
    unfolding eq by (simp add: unat_sub unat_half)
  show "unat (hi - (lo + (hi - lo) div 2)) = unat (hi - lo) - unat (hi - lo) div 2"
    using u unfolding d_def .
  show "unat (hi - (lo + (hi - lo) div 2)) < unat (hi - lo)" using u d unfolding d_def[symmetric] by simp
  show "unat (lo + (hi - lo) div 2 - lo) < unat (hi - lo)"
    using d unfolding d_def[symmetric] by (simp add: unat_half)
qed

termination bisect
  by (relation "measure (\<lambda>(_, lo, hi). unat (hi - lo))") (use midpoint in \<open>auto simp: Let_def\<close>)

declare bisect.simps [simp del]

definition max_source_for_destination_limit ::
  "CanonicalAtomic \<Rightarrow> RailPrices \<Rightarrow> u64 \<Rightarrow> u64 \<Rightarrow> u64 \<Rightarrow> (ConversionError, CanonicalAtomic) result" where
  "max_source_for_destination_limit limit_canonical prices fee_bps destination_scale buffer_bps =
     require (destination_scale \<noteq> 0) InvalidDestinationScale (
     require (\<not> fee_bps > BPS_DENOMINATOR) (FeeBpsOutOfRange fee_bps BPS_DENOMINATOR) (
     require (\<not> (rp_source_price_e12 prices = 0 \<or> rp_destination_price_e12 prices = 0))
       (InvalidBridgePrice (rp_source_price_e12 prices) (rp_destination_price_e12 prices)) (
     let buffered = buffered_destination_limit limit_canonical buffer_bps in
     if buffered < destination_scale \<or> fee_bps = BPS_DENOMINATOR then Inr 0
     else
       let fits = source_fits prices fee_bps destination_scale buffered; lo = 0; hi = - 1 in
       if fits hi then Inr hi else Inr (bisect fits lo hi))))"

section \<open>The arithmetic of a quote\<close>

lemma gross_out_ok:
  "gross_out_at_rate g sp dp = Inr out \<longleftrightarrow>
     sp \<noteq> 0 \<and> dp \<noteq> 0 \<and> unat out = unat g * unat sp div unat dp"
proof -
  have u: "unat ((ucast g * ucast sp :: u128) div ucast dp) = unat g * unat sp div unat dp"
    by (simp add: unat_div)
  show ?thesis
  proof (cases "unat g * unat sp div unat dp < 2 ^ 64")
    case True
    with u show ?thesis
      unfolding gross_out_at_rate_def Let_def
      by (auto simp: word_unat_eq_iff unat_ucast_down)
  next
    case False
    with u unat_lt2p[of out] show ?thesis by (auto simp: gross_out_at_rate_def Let_def)
  qed
qed

lemma quoted_breakdown_ok:
  "quoted_breakdown g sp dp bps scale = Inr qb \<longleftrightarrow>
     scale \<noteq> 0 \<and> sp \<noteq> 0 \<and> dp \<noteq> 0 \<and> unat bps \<le> 10000
     \<and> unat (qb_gross_out qb) = unat g * unat sp div unat dp
     \<and> unat (qb_gross_out qb) * unat bps < 2 ^ 64
     \<and> qb_fee_bps qb = bps
     \<and> unat (qb_fee_out qb) = unat (qb_gross_out qb) * unat bps div 10000
     \<and> unat (qb_fee_out qb) + unat (qb_net_out qb) + unat (qb_dust_out qb) = unat (qb_gross_out qb)
     \<and> unat scale dvd unat (qb_net_out qb) \<and> unat (qb_dust_out qb) < unat scale"
  (is "?l \<longleftrightarrow> ?r")
proof
  assume ?l
  then obtain out fb where nz: "scale \<noteq> 0" and out: "gross_out_at_rate g sp dp = Inr out"
    and fb: "compute_fee_at_bps out bps = Inr fb"
    and qb: "qb = \<lparr>qb_gross_out = fb_gross fb, qb_fee_bps = fb_fee_bps fb, qb_fee_out = fb_fee fb,
          qb_net_out = fb_net fb - fb_net fb mod scale, qb_dust_out = fb_net fb mod scale\<rparr>"
    by (auto simp: quoted_breakdown_def Let_def)
  have "fb_net fb mod scale \<le> fb_net fb" by (simp add: word_le_nat_alt unat_mod)
  then have net: "unat (fb_net fb - fb_net fb mod scale) = unat (fb_net fb) - unat (fb_net fb) mod unat scale"
    by (simp add: unat_sub unat_mod)
  have "0 < unat scale" using nz by (simp add: unat_gt_0)
  then have dust: "unat (qb_dust_out qb) < unat scale" using qb by (simp add: unat_mod)
  have "unat (qb_net_out qb) + unat (qb_dust_out qb) = unat (fb_net fb)"
    using net qb by (simp add: unat_mod)
  moreover have "unat scale dvd unat (qb_net_out qb)" using net qb by (simp add: dvd_minus_mod)
  ultimately show ?r
    using nz out[unfolded gross_out_ok] fb[unfolded compute_fee_ok] dust qb by (simp add: add.assoc)
next
  assume r: ?r
  define fb where "fb = \<lparr>fb_gross = qb_gross_out qb, fb_fee_bps = bps, fb_fee = qb_fee_out qb,
    fb_net = qb_net_out qb + qb_dust_out qb\<rparr>"
  have sum: "unat (qb_net_out qb + qb_dust_out qb) = unat (qb_net_out qb) + unat (qb_dust_out qb)"
    using r unat_lt2p[of "qb_gross_out qb"] by (intro unat_add_lem[THEN iffD1]) linarith
  have "gross_out_at_rate g sp dp = Inr (qb_gross_out qb)" using r by (simp add: gross_out_ok)
  moreover have "compute_fee_at_bps (qb_gross_out qb) bps = Inr fb"
    unfolding compute_fee_ok fb_def FeeBreakdown.simps sum using r by (elim conjE) (simp only: add.assoc simp_thms)
  moreover have "unat ((qb_net_out qb + qb_dust_out qb) mod scale) = unat (qb_dust_out qb)"
    unfolding unat_mod sum using r by (auto elim!: dvdE)
  then have "(qb_net_out qb + qb_dust_out qb) mod scale = qb_dust_out qb" by (simp only: word_unat_eq_iff)
  ultimately show ?l using r by (simp add: quoted_breakdown_def fb_def Let_def)
qed

text \<open>Fee, floor to the destination unit and rate are all monotone, so the paid net is too.\<close>

lemma net_mono:
  fixes g g' f :: nat
  assumes "f \<le> 10000" "g' \<le> g"
  shows "g' - (g' * f) div 10000 \<le> g - (g * f) div 10000"
proof (cases "f < 10000")
  case True
  have "g \<le> ((g - (g * f) div 10000) * 10000) div (10000 - f)"
    unfolding net_boundary[OF True, symmetric] by (rule le_refl)
  with assms(2) show ?thesis unfolding net_boundary[OF True] by (rule le_trans)
qed (use assms in simp)

lemma quoted_net:
  assumes "quoted_breakdown g sp dp bps scale = Inr qb"
  defines "out \<equiv> unat g * unat sp div unat dp"
  shows "unat (qb_net_out qb) = (out - out * unat bps div 10000) div unat scale * unat scale"
proof -
  note q = assms(1)[unfolded quoted_breakdown_ok, folded out_def]
  have "out - out * unat bps div 10000 = unat (qb_net_out qb) + unat (qb_dust_out qb)"
    using q by (metis add.assoc add_diff_cancel_left')
  moreover obtain k where "unat (qb_net_out qb) = unat scale * k" using q by (elim conjE dvdE)
  ultimately show ?thesis using q by simp
qed

lemma quoted_breakdown_exists:
  assumes "scale \<noteq> 0" "sp \<noteq> 0" "dp \<noteq> 0" "unat bps \<le> 10000"
    and "unat g * unat sp div unat dp < 2 ^ 64" "unat g * unat sp div unat dp * unat bps < 2 ^ 64"
  shows "\<exists>qb. quoted_breakdown g sp dp bps scale = Inr qb"
proof -
  define out :: u64 where "out = word_of_nat (unat g * unat sp div unat dp)"
  have out: "unat out = unat g * unat sp div unat dp"
    using assms(5) by (simp add: out_def unat_of_nat take_bit_nat_eq_self)
  then have "gross_out_at_rate g sp dp = Inr out" using assms by (simp add: gross_out_ok)
  moreover have "\<exists>n. net_of bps out = Inr n" using net_of_eq[OF assms(4), of out] assms(6) out by auto
  then obtain fb where "compute_fee_at_bps out bps = Inr fb" by (auto simp: net_of_def)
  ultimately show ?thesis using assms(1) by (simp add: quoted_breakdown_def Let_def)
qed

section \<open>The binary search\<close>

text \<open>
  What the search needs of its test: what fits, fits with less. The search then finds the
  exact boundary.
\<close>

locale downward_test =
  fixes fits :: "u64 \<Rightarrow> bool"
  assumes downward: "fits b \<Longrightarrow> a \<le> b \<Longrightarrow> fits a"
begin

lemma bisect_boundary:
  "fits lo \<Longrightarrow> \<not> fits hi \<Longrightarrow> fits g \<longleftrightarrow> g \<le> bisect fits lo hi"
proof (induction "unat (hi - lo)" arbitrary: lo hi rule: less_induct)
  case less
  have lt: "lo < hi" using downward[of lo hi] less(2,3) by (auto simp: not_less[symmetric])
  let ?mid = "lo + (hi - lo) div 2"
  show ?case
  proof (cases "hi - lo > 1")
    case True
    with less.hyps[of hi ?mid] less.hyps[of ?mid lo] midpoint(1,2)[OF True] less.prems
    show ?thesis by (subst bisect.simps) (simp add: Let_def)
  next
    case False
    then have "unat hi - unat lo \<le> 1" using lt by (simp add: word_less_nat_alt unat_sub)
    then have "hi \<le> g" if "lo < g" using that lt by (simp add: word_less_nat_alt word_le_nat_alt)
    then have "fits g \<longleftrightarrow> g \<le> lo" using downward[of lo g] downward[of g hi] less.prems by (metis not_le)
    with False show ?thesis by (subst bisect.simps) simp
  qed
qed

end

lemma source_fits_iff:
  "source_fits prices bps scale limit g \<longleftrightarrow>
    (\<exists>qb. quoted_breakdown g (rp_source_price_e12 prices) (rp_destination_price_e12 prices) bps scale = Inr qb
      \<and> qb_net_out qb \<le> limit)"
  by (auto simp: source_fits_def split: sum.splits)

lemma source_fits_downward:
  assumes "source_fits prices bps scale limit b" "a \<le> b"
  shows "source_fits prices bps scale limit a"
proof -
  let ?sp = "rp_source_price_e12 prices" and ?dp = "rp_destination_price_e12 prices"
  let ?out = "\<lambda>g. unat g * unat ?sp div unat ?dp"
  from assms(1) obtain qb where qb: "quoted_breakdown b ?sp ?dp bps scale = Inr qb" "qb_net_out qb \<le> limit"
    by (auto simp: source_fits_iff)
  note q = qb(1)[unfolded quoted_breakdown_ok]
  have le: "?out a \<le> ?out b" using assms(2) by (simp add: word_le_nat_alt div_le_mono)
  then have "?out a < 2 ^ 64" using q unat_lt2p[of "qb_gross_out qb"] by simp
  moreover have "?out a * unat bps < 2 ^ 64"
  proof -
    have "?out b * unat bps < 2 ^ 64" using q by (elim conjE) (simp only:)
    with mult_le_mono1[OF le] show ?thesis by (rule le_less_trans)
  qed
  ultimately obtain qa where qa: "quoted_breakdown a ?sp ?dp bps scale = Inr qa"
    using quoted_breakdown_exists[of scale ?sp ?dp bps a] q by auto
  have "unat (qb_net_out qa) \<le> unat (qb_net_out qb)"
    unfolding quoted_net[OF qa] quoted_net[OF qb(1)]
    using net_mono[OF _ le, of "unat bps"] q by (simp add: div_le_mono)
  then have "qb_net_out qa \<le> limit" using qb(2) by (simp add: word_le_nat_alt)
  with qa show ?thesis by (auto simp: source_fits_iff)
qed

interpretation source: downward_test "source_fits prices bps scale limit" for prices bps scale limit
  by unfold_locales (rule source_fits_downward)

lemma unat_buffered_limit:
  "unat (buffered_destination_limit limit buffer) = unat limit * (10000 - unat buffer) div 10000"
proof -
  have keep: "unat (saturating_sub BPS_DENOMINATOR buffer) = 10000 - unat buffer"
    by (auto simp: saturating_sub_def unat_sub word_le_nat_alt not_le)
  have "unat limit * (10000 - unat buffer) div 10000 \<le> unat limit" by (rule fee_le_gross) simp
  then have "unat limit * (10000 - unat buffer) div 10000 < 2 ^ 64" using unat_lt2p[of limit] by simp
  then show ?thesis
    unfolding buffered_destination_limit_def Let_def
    by (simp add: unat_ucast_down unat_div keep)
qed

lemma unat_destination_scale:
  assumes "decimals \<le> 8"
  shows "unat (destination_scale_for_decimals decimals) = 10 ^ (8 - unat decimals)"
proof -
  have le: "unat decimals \<le> 8" using assms by (simp add: word_le_nat_alt)
  then have "(10 :: nat) ^ (8 - unat decimals) \<le> 10 ^ 8" by (intro power_increasing) simp_all
  then have "(10 :: nat) ^ (8 - unat decimals) < 2 ^ 64" by simp
  note pow = unat_pow10[OF this]
  have "unat (8 - decimals) = 8 - unat decimals" using assms by (simp add: unat_sub)
  then show ?thesis
    using assms pow by (auto simp: destination_scale_for_decimals_def GOLDCOIN_DECIMALS_def Let_def)
qed

lemma to_solana_dvd:
  assumes "decimals \<le> 8" "10 ^ (8 - unat decimals) dvd unat amount"
  shows "\<exists>paid. to_solana amount decimals = Inr paid
    \<and> unat paid * 10 ^ (8 - unat decimals) = unat amount"
proof -
  have le: "unat decimals \<le> 8" using assms(1) by (simp add: word_le_nat_alt)
  from assms(2) obtain k where k: "unat amount = k * 10 ^ (8 - unat decimals)" by (auto elim: dvdE)
  then have "k \<le> unat amount" by simp
  then have u: "unat (word_of_nat k :: u64) = k"
    using unat_lt2p[of amount] by (simp add: unat_of_nat take_bit_nat_eq_self)
  have "(10 :: nat) ^ (8 - unat decimals) \<le> 10 ^ 8" by (intro power_increasing) simp_all
  then have "(10 :: nat) ^ (8 - unat decimals) < 2 ^ 64" by simp
  moreover have "k * 10 ^ (8 - unat decimals) * 10 ^ unat decimals = k * 10 ^ (8 :: nat)"
    using le by (simp only: mult.assoc power_add[symmetric]) simp
  moreover have "unat (ucast decimals :: u32) = unat decimals"
    by (simp add: unsigned_ucast_eq take_bit_nat_eq_self less_le_trans[OF unat_lt2p[of decimals]])
  ultimately have "to_solana amount decimals = Inr (word_of_nat k)"
    unfolding to_solana_def goldcoin_to_solana_atomic_def convert_exact
    using le by (simp add: GOLDCOIN_DECIMALS_def u k max_def min_def)
  then show ?thesis using u k by auto
qed

lemma source_fits_zero:
  assumes "scale \<noteq> 0" "rp_source_price_e12 prices \<noteq> 0" "rp_destination_price_e12 prices \<noteq> 0" "unat bps \<le> 10000"
  shows "source_fits prices bps scale limit 0"
proof -
  from quoted_breakdown_exists[of scale _ _ bps 0] assms obtain qb where
    qb: "quoted_breakdown 0 (rp_source_price_e12 prices) (rp_destination_price_e12 prices) bps scale = Inr qb"
    by auto
  then have "qb_net_out qb = 0" using quoted_net[OF qb] by (simp add: unat_eq_0)
  with qb show ?thesis by (auto simp: source_fits_iff)
qed

section \<open>Properties\<close>

text \<open>
  C26. A quote gives away nothing and keeps nothing but its fee and less than one unit: the
  gross payout is the floor of deposit times rate, and fee, net and dust add up to it; the net
  is a whole number of units of the destination mint, so converting it to the mint's precision
  succeeds exactly, and the dust is below one such unit.
\<close>

theorem quote_conserves_value:
  assumes "compute_bridge_quote gross prices bps now lifetime scale = Inr q"
    and "scale = destination_scale_for_decimals decimals" and "decimals \<le> 8"
  shows "unat (bq_gross_out q) = unat gross * unat (rp_source_price_e12 prices)
      div unat (rp_destination_price_e12 prices)
    \<and> unat (bq_fee_out q) = unat (bq_gross_out q) * unat bps div 10000
    \<and> unat (bq_fee_out q) + unat (bq_net_out q) + unat (bq_dust_out q) = unat (bq_gross_out q)
    \<and> unat (bq_dust_out q) < 10 ^ (8 - unat decimals)
    \<and> (\<exists>paid. to_solana (bq_net_out q) decimals = Inr paid
        \<and> unat paid * 10 ^ (8 - unat decimals) = unat (bq_net_out q))"
proof -
  from assms(1) obtain qb where
    qb: "quoted_breakdown gross (rp_source_price_e12 prices) (rp_destination_price_e12 prices) bps scale = Inr qb"
    and q: "bq_gross_out q = qb_gross_out qb" "bq_fee_out q = qb_fee_out qb"
      "bq_net_out q = qb_net_out qb" "bq_dust_out q = qb_dust_out qb"
    by (auto simp: compute_bridge_quote_def)
  note r = qb[unfolded quoted_breakdown_ok]
  have scale: "unat scale = 10 ^ (8 - unat decimals)"
    unfolding assms(2) by (rule unat_destination_scale[OF assms(3)])
  have "unat scale dvd unat (qb_net_out qb)" using r by (elim conjE)
  then obtain paid where "to_solana (qb_net_out qb) decimals = Inr paid"
    "unat paid * 10 ^ (8 - unat decimals) = unat (qb_net_out qb)"
    using to_solana_dvd[OF assms(3), of "qb_net_out qb"] unfolding scale by blast
  then show ?thesis unfolding q scale[symmetric] using r by (elim conjE) (simp only: simp_thms, blast)
qed

definition sample_prices :: RailPrices where
  "sample_prices =
     \<lparr>rp_source_price_e12 = 3000000000000, rp_destination_price_e12 = 2000000000000,
      rp_source_feed_at = 90, rp_destination_feed_at = 95\<rparr>"

definition sample_quote :: BridgeQuote where
  "sample_quote =
     \<lparr>bq_source_price_e12 = 3000000000000, bq_destination_price_e12 = 2000000000000,
      bq_gross_in = 1000050, bq_gross_out = 1500075, bq_fee_bps = 30, bq_fee_out = 4500,
      bq_net_out = 1495500, bq_dust_out = 75, bq_quoted_at = 100, bq_quote_expires_at = 160,
      bq_source_feed_at = 90, bq_destination_feed_at = 95\<rparr>"

lemma sample_quote_struck: "compute_bridge_quote 1000050 sample_prices 30 100 60 100 = Inr sample_quote"
proof -
  have "quoted_breakdown 1000050 3000000000000 2000000000000 30 100 =
      Inr \<lparr>qb_gross_out = 1500075, qb_fee_bps = 30, qb_fee_out = 4500, qb_net_out = 1495500, qb_dust_out = 75\<rparr>"
    unfolding quoted_breakdown_ok by (simp add: dvd_def)
  then show ?thesis
    by (simp add: compute_bridge_quote_def sample_prices_def sample_quote_def saturating_add_i64_def
        i64_min_def i64_max_def)
qed

theorem quote_conserves_value_witness:
  "compute_bridge_quote 1000050 sample_prices 30 100 60 (destination_scale_for_decimals 6) = Inr sample_quote
   \<and> (\<exists>paid. to_solana 1495500 6 = Inr paid \<and> unat paid * 100 = 1495500)"
proof -
  have scale: "destination_scale_for_decimals 6 = 100"
    by (simp add: destination_scale_for_decimals_def GOLDCOIN_DECIMALS_def)
  from quote_conserves_value[OF sample_quote_struck, of 6] show ?thesis
    by (simp add: scale sample_quote_struck) (simp add: sample_quote_def)
qed

text \<open>
  C27. A settlement pays the quote and nothing else: once a quote is locked, the check that
  every settlement, recovery and reconciliation runs accepts a stored fee and net exactly when
  they are the quoted ones, and returns the quoted figures; while the quote is not locked it
  accepts nothing.
\<close>

theorem settlement_pays_the_quote:
  assumes "compute_bridge_quote gross prices bps now lifetime scale = Inr q"
    and "pq_source_price_e12 row = bq_source_price_e12 q"
    and "pq_destination_price_e12 row = bq_destination_price_e12 q"
    and "pq_gross_out_atomic row = bq_gross_out q"
  shows "(verify_request_amounts (Some row) gross bps fee net scale = Inr fb \<longleftrightarrow>
      pq_locked_at row \<noteq> None \<and> fee = bq_fee_out q \<and> net = bq_net_out q \<and> fb = breakdown q)
    \<and> expected_net_for_gross (Some row) gross bps scale = Inr (bq_net_out q)"
proof -
  from assms(1) obtain qb where
    qb: "quoted_breakdown gross (rp_source_price_e12 prices) (rp_destination_price_e12 prices) bps scale = Inr qb"
    and q: "bq_gross_out q = qb_gross_out qb" "bq_fee_out q = qb_fee_out qb" "bq_net_out q = qb_net_out qb"
      "bq_fee_bps q = bps" "bq_source_price_e12 q = rp_source_price_e12 prices"
      "bq_destination_price_e12 q = rp_destination_price_e12 prices"
    by (auto simp: compute_bridge_quote_def)
  have "qb_fee_bps qb = bps" using qb[unfolded quoted_breakdown_ok] by (elim conjE)
  then have fb: "as_fee_breakdown qb = breakdown q" by (simp add: as_fee_breakdown_def breakdown_def q)
  show ?thesis
    unfolding verify_request_amounts_def expected_net_for_gross_def verify_quoted_breakdown_def
    using assms(2-4) by (auto simp: qb q fb is_locked_def Let_def) (auto simp: breakdown_def q)
qed

theorem settlement_pays_the_quote_witness:
  "verify_request_amounts (Some \<lparr>pq_source_price_e12 = 3000000000000, pq_destination_price_e12 = 2000000000000,
      pq_gross_out_atomic = 1500075, pq_quoted_at = 100, pq_quote_expires_at = 160, pq_source_feed_at = 90,
      pq_destination_feed_at = 95, pq_locked_at = Some 120\<rparr>) 1000050 30 4500 1495500 100
    = Inr (breakdown sample_quote)"
  by (rule settlement_pays_the_quote[OF sample_quote_struck, THEN conjunct1, THEN iffD2])
    (simp_all add: sample_quote_def)

text \<open>
  C31. The advertised maximum is the exact boundary: the binary search ends, and when at least
  one destination unit fits under the buffered limit and the fee is below 100%, a deposit can
  be quoted with a payout within the buffered limit exactly when it is at most the maximum.
\<close>

theorem max_source_is_boundary:
  assumes "max_source_for_destination_limit limit prices bps scale buffer = Inr m"
    and "unat scale \<le> unat limit * (10000 - unat buffer) div 10000" and "unat bps < 10000"
  shows "(\<exists>q. compute_bridge_quote g prices bps now lifetime scale = Inr q
      \<and> unat (bq_net_out q) \<le> unat limit * (10000 - unat buffer) div 10000) \<longleftrightarrow> g \<le> m"
proof -
  let ?L = "buffered_destination_limit limit buffer"
  let ?fits = "source_fits prices bps scale ?L"
  have fits: "(\<exists>q. compute_bridge_quote g prices bps now lifetime scale = Inr q
      \<and> unat (bq_net_out q) \<le> unat limit * (10000 - unat buffer) div 10000) \<longleftrightarrow> ?fits g"
    unfolding source_fits_iff compute_bridge_quote_def unat_buffered_limit[symmetric] word_le_nat_alt by auto
  have c: "\<not> ?L < scale" "bps \<noteq> BPS_DENOMINATOR"
    using assms(2,3) by (auto simp: word_less_nat_alt unat_buffered_limit)
  have r: "scale \<noteq> 0" "\<not> (rp_source_price_e12 prices = 0 \<or> rp_destination_price_e12 prices = 0)"
      "(if ?fits (- 1) then - 1 else bisect ?fits 0 (- 1)) = m"
    using assms(1) c by (auto simp: max_source_for_destination_limit_def Let_def split: if_splits)
  show ?thesis
  proof (cases "?fits (- 1)")
    case True
    then have "m = - 1" using r(3) by simp
    then show ?thesis using source.downward[OF True, of g] unfolding fits by (simp add: word_order.extremum)
  next
    case False
    then show ?thesis
      using r source.bisect_boundary[OF source_fits_zero False, of g] assms(3) unfolding fits by simp
  qed
qed

text \<open>With unit prices, a limit of one million, a quarter of it as buffer and a fee of 3%.\<close>

lemma unit_net:
  "(\<exists>q. compute_bridge_quote g (unit_prices 0) 300 0 60 100 = Inr q \<and> unat (bq_net_out q) \<le> 750000)
   \<longleftrightarrow> unat g * 300 < 2 ^ 64 \<and> (unat g - unat g * 300 div 10000) div 100 * 100 \<le> 750000"
  (is "?l \<longleftrightarrow> ?r")
proof
  have ps: "PRICE_SCALE \<noteq> 0" "0 < unat PRICE_SCALE" by (simp_all add: PRICE_SCALE_def)
  {
    assume ?l
    then obtain qb where qb: "quoted_breakdown g PRICE_SCALE PRICE_SCALE 300 100 = Inr qb"
      "unat (qb_net_out qb) \<le> 750000"
      by (auto simp: compute_bridge_quote_def unit_prices_def)
    from qb(1)[unfolded quoted_breakdown_ok] quoted_net[OF qb(1)] qb(2) ps show ?r by simp
  next
    assume r: ?r
    then obtain qb where qb: "quoted_breakdown g PRICE_SCALE PRICE_SCALE 300 100 = Inr qb"
      using quoted_breakdown_exists[of 100 PRICE_SCALE PRICE_SCALE 300 g] ps unat_lt2p[of g] by auto
    with r quoted_net[OF qb] ps show ?l by (auto simp: compute_bridge_quote_def unit_prices_def)
  }
qed

theorem max_source_is_boundary_witness:
  "max_source_for_destination_limit 1000000 (unit_prices 0) 300 100 2500 = Inr 773297"
proof -
  have "is_ok (max_source_for_destination_limit 1000000 (unit_prices 0) 300 100 2500)"
    by (simp add: max_source_for_destination_limit_def unit_prices_def PRICE_SCALE_def BPS_DENOMINATOR_def Let_def)
  then obtain m where m: "max_source_for_destination_limit 1000000 (unit_prices 0) 300 100 2500 = Inr m"
    by (auto simp: is_ok_iff)
  note b = max_source_is_boundary[OF m, of _ 0 60, simplified, unfolded unit_net]
  from b[of 773297] b[of 773298] have "773297 \<le> m" "\<not> 773298 \<le> m" by simp_all
  then have "unat m = 773297" by (simp add: word_le_nat_alt)
  then have "m = 773297" by (simp add: word_unat_eq_iff)
  with m show ?thesis by simp
qed

end
