(* ===== verification/Price_History.thy ===== *)
theory Price_History
  imports Bridge_Rate
begin

text \<open>
  The smoothed price of one rail, \<open>service/src/bridge_rate/smoothing.rs\<close>: the retained samples,
  what may be forgotten, and the time-weighted average over a window. Times are seconds; the
  sums of the average are kept at their width of 128 bits.
\<close>

definition MAX_SAMPLES :: nat where "MAX_SAMPLES = 4096"

record Sample =
  feed_at :: i64
  observed_at :: i64
  price_e12 :: u64

datatype Coverage =
    CoverageOk u64
  | CoverageEmpty
  | CoverageStale i64 i64
  | CoverageWarmingUp "i64 option"

fun coverage_price :: "Coverage \<Rightarrow> u64 option" where
  "coverage_price (CoverageOk p) = Some p"
| "coverage_price _ = None"

type_synonym PriceHistory = "Sample list"

definition newest :: "PriceHistory \<Rightarrow> Sample option" where
  "newest samples = (if samples = [] then None else Some (last samples))"

definition oldest :: "PriceHistory \<Rightarrow> Sample option" where
  "oldest samples = (if samples = [] then None else Some (hd samples))"

definition history_push :: "PriceHistory \<Rightarrow> Sample \<Rightarrow> bool \<times> PriceHistory" where
  "history_push samples sample =
     (if samples \<noteq> [] \<and> feed_at sample \<le> feed_at (last samples) then (False, samples)
      else
        let samples = (if length samples \<ge> MAX_SAMPLES then tl samples else samples)
        in (True, samples @ [sample]))"

text \<open>The position of the last element that satisfies a test.\<close>

definition rposition :: "('a \<Rightarrow> bool) \<Rightarrow> 'a list \<Rightarrow> nat option" where
  "rposition P xs = List.find (\<lambda>i. P (xs ! i)) (rev [0 ..< length xs])"

definition prune :: "PriceHistory \<Rightarrow> i64 \<Rightarrow> PriceHistory" where
  "prune samples horizon =
     (case rposition (\<lambda>s. feed_at s \<le> horizon) samples of
        None \<Rightarrow> samples
      | Some keep_from \<Rightarrow> drop keep_from samples)"

text \<open>The loop of \<open>gap_free_from\<close>, over the samples older than \<open>from\<close>, newest first.\<close>

fun gap_walk :: "i64 \<Rightarrow> i64 \<Rightarrow> Sample list \<Rightarrow> i64" where
  "gap_walk max_gap from [] = from"
| "gap_walk max_gap from (older # rest) =
     (if from - feed_at older > max_gap then from else gap_walk max_gap (feed_at older) rest)"

definition gap_free_from :: "PriceHistory \<Rightarrow> i64 \<Rightarrow> i64 option" where
  "gap_free_from samples max_gap =
     (if samples = [] then None
      else Some (gap_walk max_gap (feed_at (last samples)) (tl (rev samples))))"

definition next_feed_at :: "Sample list \<Rightarrow> i64" where
  "next_feed_at rest = (case rest of [] \<Rightarrow> i64_max | n # _ \<Rightarrow> feed_at n)"

text \<open>The summing loop of \<open>twap\<close>.\<close>

fun weigh :: "i64 \<Rightarrow> i64 \<Rightarrow> u128 \<Rightarrow> Sample list \<Rightarrow> u128" where
  "weigh start end_at weighted [] = weighted"
| "weigh start end_at weighted (s # rest) =
     (let lo = max (feed_at s) start;
          hi = min (next_feed_at rest) end_at
      in weigh start end_at
           (if hi > lo then weighted + ucast (price_e12 s) * word_of_int (hi - lo) else weighted) rest)"

definition twap :: "PriceHistory \<Rightarrow> i64 \<Rightarrow> i64 \<Rightarrow> i64 \<Rightarrow> i64 \<Rightarrow> Coverage" where
  "twap samples end_at window now staleness =
     (if samples = [] then CoverageEmpty
      else
        let newest = last samples; age = now - feed_at newest in
        if age > staleness then CoverageStale (feed_at newest) age
        else
          let start = end_at - window; covered_from = gap_free_from samples staleness in
          if (case covered_from of Some from \<Rightarrow> from \<le> start | None \<Rightarrow> False) then
            let weighted = weigh start end_at 0 samples;
                span = word_of_int (end_at - start) :: u128;
                price = weighted div span
            in CoverageOk (if unat price < 2 ^ 64 then ucast price else - 1)
          else CoverageWarmingUp covered_from)"

section \<open>The price in force\<close>

text \<open>A history keeps its samples strictly ordered by the time of the feed.\<close>

definition ordered :: "PriceHistory \<Rightarrow> bool" where
  "ordered samples = sorted_wrt (\<lambda>a b. feed_at a < feed_at b) samples"

text \<open>
  The price in force at an instant is that of the last sample not later than it; the average
  that \<open>twap\<close> is to compute is the mean of that price over every second of the window.
\<close>

definition price_at :: "PriceHistory \<Rightarrow> i64 \<Rightarrow> nat" where
  "price_at samples t = unat (price_e12 (last (filter (\<lambda>s. feed_at s \<le> t) samples)))"

definition price_sum :: "PriceHistory \<Rightarrow> i64 \<Rightarrow> i64 \<Rightarrow> nat" where
  "price_sum samples start end_at = (\<Sum>t = start..<end_at. price_at samples t)"

lemma ordered_Cons [simp]:
  "ordered (s # rest) \<longleftrightarrow> (\<forall>r\<in>set rest. feed_at s < feed_at r) \<and> ordered rest"
  by (simp add: ordered_def)

lemma ordered_append:
  "ordered (xs @ ys) \<longleftrightarrow> ordered xs \<and> ordered ys \<and> (\<forall>x\<in>set xs. \<forall>y\<in>set ys. feed_at x < feed_at y)"
  by (auto simp: ordered_def sorted_wrt_append)

lemma ordered_Nil [simp]: "ordered []"
  by (simp add: ordered_def)

lemma price_at_skip:
  assumes "\<exists>r\<in>set rest. feed_at r \<le> t"
  shows "price_at (older @ rest) t = price_at rest t"
proof -
  have "filter (\<lambda>s. feed_at s \<le> t) rest \<noteq> []" using assms by (auto simp: filter_empty_conv)
  then show ?thesis by (simp add: price_at_def)
qed

lemma price_at_first:
  assumes "feed_at s \<le> t" "\<forall>r\<in>set rest. t < feed_at r"
  shows "price_at (s # rest) t = unat (price_e12 s)"
proof -
  have "filter (\<lambda>s. feed_at s \<le> t) rest = []" using assms(2) by (auto simp: filter_empty_conv)
  then show ?thesis using assms(1) by (simp add: price_at_def)
qed

text \<open>The loop of \<open>twap\<close> adds up the price in force over the window.\<close>

lemma price_sum_split:
  "a \<le> b \<Longrightarrow> b \<le> c \<Longrightarrow> price_sum xs a c = price_sum xs a b + price_sum xs b c"
  unfolding price_sum_def by (simp add: sum.union_disjoint[symmetric] ivl_disj_un)

lemma price_sum_const:
  assumes "\<And>t. a \<le> t \<Longrightarrow> t < b \<Longrightarrow> price_at xs t = p"
  shows "price_sum xs a b = p * nat (b - a)"
proof -
  have "price_sum xs a b = (\<Sum>t = a..<b. p)" unfolding price_sum_def by (rule sum.cong) (use assms in auto)
  then show ?thesis by simp
qed

lemma price_sum_cong:
  "(\<And>t. a \<le> t \<Longrightarrow> t < b \<Longrightarrow> price_at xs t = price_at ys t) \<Longrightarrow> price_sum xs a b = price_sum ys a b"
  unfolding price_sum_def by (rule sum.cong) auto

lemma price_sum_empty [simp]: "b \<le> a \<Longrightarrow> price_sum xs a b = 0"
  by (simp add: price_sum_def)

lemma price_sum_step:
  fixes s :: Sample and rest :: PriceHistory and start end_at :: i64
  assumes "ordered (s # rest)" "end_at \<le> i64_max"
  defines "lo \<equiv> max (feed_at s) start" and "hi \<equiv> min (next_feed_at rest) end_at"
  shows "price_sum (s # rest) lo end_at = unat (price_e12 s) * nat (hi - lo)
    + (case rest of [] \<Rightarrow> 0 | n # _ \<Rightarrow> price_sum rest (max (feed_at n) start) end_at)"
proof (cases rest)
  case Nil
  then have "hi = end_at" using assms(2) by (simp add: hi_def next_feed_at_def)
  moreover have "price_sum (s # rest) lo end_at = unat (price_e12 s) * nat (end_at - lo)"
    using Nil by (intro price_sum_const price_at_first) (simp_all add: lo_def)
  ultimately show ?thesis using Nil by simp
next
  case (Cons n rest')
  have hi: "hi = min (feed_at n) end_at" using Cons by (simp add: hi_def next_feed_at_def)
  have later: "feed_at n \<le> feed_at r" if "r \<in> set rest" for r using that assms(1) Cons by auto
  have sn: "feed_at s < feed_at n" using assms(1) Cons by simp
  have early: "price_sum (s # rest) lo hi = unat (price_e12 s) * nat (hi - lo)"
  proof (rule price_sum_const)
    fix t assume t: "lo \<le> t" "t < hi"
    show "price_at (s # rest) t = unat (price_e12 s)"
    proof (rule price_at_first)
      show "feed_at s \<le> t" using t by (simp add: lo_def)
      show "\<forall>r\<in>set rest. t < feed_at r" using t later by (fastforce simp: hi)
    qed
  qed
  have late: "price_sum (s # rest) (max (feed_at n) start) end_at = price_sum rest (max (feed_at n) start) end_at"
  proof (rule price_sum_cong)
    fix t assume "max (feed_at n) start \<le> t"
    then have "\<exists>r\<in>set rest. feed_at r \<le> t" using Cons by auto
    from price_at_skip[OF this, of "[s]"] show "price_at (s # rest) t = price_at rest t" by simp
  qed
  have "price_sum (s # rest) lo end_at =
      price_sum (s # rest) lo hi + price_sum (s # rest) (max (feed_at n) start) end_at"
  proof (cases "max (feed_at n) start \<le> end_at \<and> start \<le> feed_at n")
    case True
    then show ?thesis using sn price_sum_split[of lo hi end_at] by (auto simp: lo_def hi max_def min_def)
  next
    case False
    then consider "end_at < max (feed_at n) start" "start \<le> feed_at n" | "feed_at n < start" by linarith
    then show ?thesis using sn by cases (auto simp: lo_def hi max_def min_def)
  qed
  with early late Cons show ?thesis by simp
qed

lemma word_of_nat_unat_u128: "word_of_nat (unat x) = (ucast x :: u128)" for x :: u64
  by (simp add: word_unat_eq_iff unat_of_nat take_bit_nat_eq_self less_le_trans[OF unat_lt2p[of x]])

lemma weigh_sum:
  assumes "ordered (s # rest)" "end_at \<le> i64_max"
  shows "weigh start end_at w (s # rest) = w + word_of_nat (price_sum (s # rest) (max (feed_at s) start) end_at)"
  using assms
proof (induction rest arbitrary: s w)
  case Nil
  have "ucast (price_e12 s) * word_of_int (hi - lo) = (word_of_nat (unat (price_e12 s) * nat (hi - lo)) :: u128)"
    if "lo < hi" for lo hi using that by (simp add: word_of_nat_unat_u128)
  then show ?case using price_sum_step[OF Nil, of start] by (auto simp: Let_def max.commute)
next
  case (Cons n rest)
  let ?lo = "max (feed_at s) start" and ?hi = "min (next_feed_at (n # rest)) end_at"
  have "ucast (price_e12 s) * word_of_int (hi - lo) = (word_of_nat (unat (price_e12 s) * nat (hi - lo)) :: u128)"
    if "lo < hi" for lo hi using that by (simp add: word_of_nat_unat_u128)
  then have "weigh start end_at w (s # n # rest)
      = weigh start end_at (w + word_of_nat (unat (price_e12 s) * nat (?hi - ?lo))) (n # rest)"
    by (auto simp: Let_def simp del: of_nat_mult)
  also have "\<dots> = w + word_of_nat (price_sum (s # n # rest) ?lo end_at)"
    using Cons price_sum_step[of s "n # rest" end_at start] by simp
  finally show ?case .
qed

section \<open>The window is covered\<close>

lemma gap_walk_member: "gap_walk g from olders = from \<or> gap_walk g from olders \<in> feed_at ` set olders"
  by (induction g "from" olders rule: gap_walk.induct) auto

lemma gap_free_from_member:
  assumes "gap_free_from samples g = Some from"
  shows "samples \<noteq> [] \<and> from \<in> feed_at ` set samples"
proof -
  from assms have ne: "samples \<noteq> []" by (auto simp: gap_free_from_def split: if_splits)
  moreover have "set (tl (rev samples)) \<subseteq> set samples" using set_rev[of samples] by (metis list.set_sel(2) ne rev_is_Nil_conv subsetI)
  ultimately show ?thesis
    using assms gap_walk_member[of g "feed_at (last samples)" "tl (rev samples)"]
    by (auto simp: gap_free_from_def)
qed

lemma first_feed_least: "ordered (s # rest) \<Longrightarrow> r \<in> set (s # rest) \<Longrightarrow> feed_at s \<le> feed_at r"
  by auto

lemma price_at_less: "price_at samples t < 2 ^ 64"
  using unat_lt2p[of "price_e12 (last (filter (\<lambda>s. feed_at s \<le> t) samples))"] by (simp add: price_at_def)

lemma price_sum_bound: "price_sum samples a b \<le> (2 ^ 64 - 1) * nat (b - a)"
proof -
  have "price_at samples t \<le> 2 ^ 64 - 1" for t using price_at_less[of samples t] by simp
  then have "price_sum samples a b \<le> (\<Sum>t = a..<b. 2 ^ 64 - 1)" unfolding price_sum_def by (rule sum_mono)
  then show ?thesis by simp
qed

lemma twap_sum:
  assumes "twap samples end_at window now staleness = CoverageOk p"
    and "ordered samples" "0 < window" "window < 2 ^ 63" "end_at \<le> i64_max"
  shows "unat p = price_sum samples (end_at - window) end_at div nat window"
proof -
  let ?start = "end_at - window"
  from assms(1) obtain "from" where gap: "gap_free_from samples staleness = Some from" "from \<le> ?start"
    and p: "p = (let price = weigh ?start end_at 0 samples div word_of_int window
      in if unat price < 2 ^ 64 then ucast price else - 1)"
    by (auto simp: twap_def Let_def split: if_splits option.splits)
  from gap_free_from_member[OF gap(1)] obtain s rest where samples: "samples = s # rest"
    and "from \<in> feed_at ` set (s # rest)" by (cases samples) auto
  then have "feed_at s \<le> from" using assms(2) first_feed_least[of s rest] by auto
  with gap(2) have "max (feed_at s) ?start = ?start" by simp
  then have w: "weigh ?start end_at 0 samples = word_of_nat (price_sum samples ?start end_at)"
    using weigh_sum[of s rest end_at ?start 0] assms(2,5) samples by simp
  let ?S = "price_sum samples ?start end_at"
  have S: "?S \<le> (2 ^ 64 - 1) * nat window" using price_sum_bound[of samples ?start end_at] by simp
  have win: "nat window < 2 ^ 63" "0 < nat window" using assms(3,4) by simp_all
  have "(2 ^ 64 - 1) * nat window \<le> (2 ^ 64 - 1) * 2 ^ 63" using win by (intro mult_le_mono2) simp
  with S have small: "?S < 2 ^ 128" by (rule le_less_trans[OF order.trans]) simp
  have "unat (word_of_int window :: u128) = nat window"
    using assms(3,4) by (simp add: unsigned_of_int take_bit_int_eq_self)
  moreover have "unat (word_of_nat ?S :: u128) = ?S"
    using small by (simp add: unat_of_nat take_bit_nat_eq_self)
  ultimately have u: "unat (weigh ?start end_at 0 samples div word_of_int window) = ?S div nat window"
    by (simp add: w unat_div)
  have "?S div nat window \<le> (2 ^ 64 - 1) * nat window div nat window" using S by (rule div_le_mono)
  also have "\<dots> = 2 ^ 64 - 1" using win(2) by simp
  finally have "?S div nat window < 2 ^ 64" by simp
  then show ?thesis unfolding p Let_def u by (simp add: unat_ucast_down u)
qed

section \<open>Recording and forgetting\<close>

lemma ordered_push: "ordered samples \<Longrightarrow> ordered (snd (history_push samples s))"
proof -
  assume o: "ordered samples"
  have last_max: "feed_at x \<le> feed_at (last samples)" if "x \<in> set samples" for x
    using o that by (cases samples rule: rev_cases) (auto simp: ordered_append)
  have "ordered (tl samples)" using o by (cases samples) auto
  then show ?thesis
    using o last_max list.set_sel(2)[of samples] unfolding history_push_def
    by (auto simp: Let_def ordered_append not_le) (metis le_less_trans list.set_sel(2) tl_Nil)+
qed

lemma length_push: "length samples \<le> MAX_SAMPLES \<Longrightarrow> length (snd (history_push samples s)) \<le> MAX_SAMPLES"
  by (auto simp: history_push_def Let_def MAX_SAMPLES_def)

lemma rposition_Some:
  assumes "rposition P xs = Some i"
  shows "i < length xs \<and> P (xs ! i)"
  using assms unfolding rposition_def by (auto simp: find_Some_iff rev_nth)

lemma prune_drop: "\<exists>k. prune samples horizon = drop k samples
    \<and> (k = 0 \<or> k < length samples \<and> feed_at (samples ! k) \<le> horizon)"
proof (cases "rposition (\<lambda>s. feed_at s \<le> horizon) samples")
  case None
  then show ?thesis by (intro exI[of _ 0]) (simp add: prune_def)
next
  case (Some k)
  from rposition_Some[OF Some] Some show ?thesis by (intro exI[of _ k]) (simp add: prune_def)
qed

lemma ordered_prune: "ordered samples \<Longrightarrow> ordered (prune samples horizon)"
  using prune_drop[of samples horizon] by (auto simp: ordered_def sorted_wrt_drop)

lemma prune_not_Nil: "samples \<noteq> [] \<Longrightarrow> prune samples horizon \<noteq> [] \<and> last (prune samples horizon) = last samples"
  using prune_drop[of samples horizon] by (auto simp: last_drop)

text \<open>Forgetting never changes the price in force at or after the horizon.\<close>

lemma price_at_prune:
  assumes "horizon \<le> t"
  shows "price_at (prune samples horizon) t = price_at samples t"
proof -
  obtain k where k: "prune samples horizon = drop k samples"
    "k = 0 \<or> k < length samples \<and> feed_at (samples ! k) \<le> horizon"
    using prune_drop by blast
  show ?thesis
  proof (cases "k = 0")
    case False
    then have "samples ! k \<in> set (drop k samples)" "feed_at (samples ! k) \<le> t"
      using k(2) assms by (auto simp: in_set_conv_nth intro!: exI[of _ 0])
    then have "price_at (take k samples @ drop k samples) t = price_at (drop k samples) t"
      by (intro price_at_skip) auto
    then show ?thesis by (simp add: k(1))
  qed (simp add: k(1))
qed

end
