(* ===== verification/Routes.thy ===== *)
theory Routes
  imports Amount_Conversion
begin

text \<open>
  Routes, their gates and their fees: \<open>service/src/routes.rs\<close>, \<open>service/src/chains\<close> and
  \<open>service/src/fees.rs\<close>. A route is open when the configuration, the ledger and the adapters of
  both chains all say so; every route that can be executed resolves exactly one fee.
  What the ledger's table says of a route is an argument of the gate.
\<close>

section \<open>Chains and routes\<close>

datatype BridgeChain = Goldcoin | Solana | Robinhood

datatype Route = GlcToSol | SolToGlc | GlcToRhn | RhnToGlc | SolToRhn | RhnToSol

datatype RequestDirection =
  DirGlcToSol | DirSolToGlc | DirGlcToRhn | DirRhnToGlc | DirSolToRhn | DirRhnToSol

fun chain_as_str :: "BridgeChain \<Rightarrow> string" where
  "chain_as_str Goldcoin = ''goldcoin''"
| "chain_as_str Solana = ''solana''"
| "chain_as_str Robinhood = ''robinhood''"

definition chain_from_str :: "string \<Rightarrow> (string, BridgeChain) result" where
  "chain_from_str s =
     (if s = ''goldcoin'' then Inr Goldcoin
      else if s = ''solana'' then Inr Solana
      else if s = ''robinhood'' then Inr Robinhood
      else Inl s)"

definition ALL_CHAINS :: "BridgeChain list" where "ALL_CHAINS = [Goldcoin, Solana, Robinhood]"

fun route_as_str :: "Route \<Rightarrow> string" where
  "route_as_str GlcToSol = ''GlcToSol''"
| "route_as_str SolToGlc = ''SolToGlc''"
| "route_as_str GlcToRhn = ''GlcToRhn''"
| "route_as_str RhnToGlc = ''RhnToGlc''"
| "route_as_str SolToRhn = ''SolToRhn''"
| "route_as_str RhnToSol = ''RhnToSol''"

definition route_from_str :: "string \<Rightarrow> (string, Route) result" where
  "route_from_str s =
     (if s = ''GlcToSol'' then Inr GlcToSol
      else if s = ''SolToGlc'' then Inr SolToGlc
      else if s = ''GlcToRhn'' then Inr GlcToRhn
      else if s = ''RhnToGlc'' then Inr RhnToGlc
      else if s = ''SolToRhn'' then Inr SolToRhn
      else if s = ''RhnToSol'' then Inr RhnToSol
      else Inl s)"

fun source_chain :: "Route \<Rightarrow> BridgeChain" where
  "source_chain GlcToSol = Goldcoin"
| "source_chain GlcToRhn = Goldcoin"
| "source_chain SolToGlc = Solana"
| "source_chain SolToRhn = Solana"
| "source_chain RhnToGlc = Robinhood"
| "source_chain RhnToSol = Robinhood"

fun destination_chain :: "Route \<Rightarrow> BridgeChain" where
  "destination_chain GlcToSol = Solana"
| "destination_chain RhnToSol = Solana"
| "destination_chain SolToGlc = Goldcoin"
| "destination_chain RhnToGlc = Goldcoin"
| "destination_chain GlcToRhn = Robinhood"
| "destination_chain SolToRhn = Robinhood"

fun as_direction :: "Route \<Rightarrow> RequestDirection option" where
  "as_direction GlcToSol = Some DirGlcToSol"
| "as_direction SolToGlc = Some DirSolToGlc"
| "as_direction GlcToRhn = Some DirGlcToRhn"
| "as_direction RhnToGlc = Some DirRhnToGlc"
| "as_direction SolToRhn = Some DirSolToRhn"
| "as_direction RhnToSol = Some DirRhnToSol"

fun route_of_direction :: "RequestDirection \<Rightarrow> Route" where
  "route_of_direction DirGlcToSol = GlcToSol"
| "route_of_direction DirSolToGlc = SolToGlc"
| "route_of_direction DirGlcToRhn = GlcToRhn"
| "route_of_direction DirRhnToGlc = RhnToGlc"
| "route_of_direction DirSolToRhn = SolToRhn"
| "route_of_direction DirRhnToSol = RhnToSol"

definition default_enabled :: "Route \<Rightarrow> bool" where
  "default_enabled r \<longleftrightarrow> r = GlcToSol \<or> r = SolToGlc"

definition is_legacy :: "Route \<Rightarrow> bool" where
  "is_legacy r \<longleftrightarrow> r = GlcToSol \<or> r = SolToGlc"

definition is_solana_robinhood :: "Route \<Rightarrow> bool" where
  "is_solana_robinhood r \<longleftrightarrow> r = SolToRhn \<or> r = RhnToSol"

fun is_operator_settable :: "Route \<Rightarrow> bool" where
  "is_operator_settable GlcToSol = False"
| "is_operator_settable SolToGlc = False"
| "is_operator_settable _ = True"

definition ALL_ROUTES :: "Route list" where
  "ALL_ROUTES = [GlcToSol, SolToGlc, GlcToRhn, RhnToGlc, SolToRhn, RhnToSol]"

fun contract_route_id :: "Route \<Rightarrow> u8 option" where
  "contract_route_id GlcToSol = None"
| "contract_route_id SolToGlc = None"
| "contract_route_id GlcToRhn = Some 1"
| "contract_route_id RhnToGlc = Some 2"
| "contract_route_id SolToRhn = Some 3"
| "contract_route_id RhnToSol = Some 4"

section \<open>The chain adapters\<close>

datatype Capability = Operational | Unavailable string

datatype TxEnvelope = Legacy | Eip1559

record ProtocolChainPair =
  pair_source :: u64
  pair_dest :: u64

record VerifiedDeployment =
  dep_chain_id :: u64
  dep_bridge_contract :: "160 word"
  dep_token :: "160 word"
  dep_token_decimals :: u8
  dep_signers :: "160 word \<times> 160 word \<times> 160 word"
  dep_domain_separator :: bytes32
  dep_glc_to_rhn_chains :: ProtocolChainPair
  dep_rhn_to_glc_chains :: ProtocolChainPair
  dep_sol_to_rhn_chains :: ProtocolChainPair
  dep_rhn_to_sol_chains :: ProtocolChainPair
  dep_tx_envelope :: TxEnvelope
  dep_chain_has_base_fee :: bool

fun chains_for :: "VerifiedDeployment \<Rightarrow> Route \<Rightarrow> ProtocolChainPair option" where
  "chains_for d GlcToRhn = Some (dep_glc_to_rhn_chains d)"
| "chains_for d RhnToGlc = Some (dep_rhn_to_glc_chains d)"
| "chains_for d SolToRhn = Some (dep_sol_to_rhn_chains d)"
| "chains_for d RhnToSol = Some (dep_rhn_to_sol_chains d)"
| "chains_for d GlcToSol = None"
| "chains_for d SolToGlc = None"

definition NOT_A_SOLANA_ROUTE_REASON :: string where
  "NOT_A_SOLANA_ROUTE_REASON = ''this route does not touch Solana; the Solana adapter has no opinion on it''"

definition NOT_A_GOLDCOIN_ROUTE_REASON :: string where
  "NOT_A_GOLDCOIN_ROUTE_REASON = ''neither leg of this route is Goldcoin L1''"

definition NOT_A_ROBINHOOD_ROUTE_REASON :: string where
  "NOT_A_ROBINHOOD_ROUTE_REASON =
     ''this route does not touch Robinhood Network; the Robinhood adapter has no opinion on it''"

definition UNAVAILABLE_REASON :: string where
  "UNAVAILABLE_REASON =
     ''Robinhood Network settlement is not verified in this process: no [robinhood.settlement]          section, or its startup preflight against the deployed contracts did not pass''"

datatype ChainAdapter =
    GoldcoinAdapter
  | SolanaAdapter
  | RobinhoodAdapter "VerifiedDeployment option"

fun adapter_chain :: "ChainAdapter \<Rightarrow> BridgeChain" where
  "adapter_chain GoldcoinAdapter = Goldcoin"
| "adapter_chain SolanaAdapter = Solana"
| "adapter_chain (RobinhoodAdapter _) = Robinhood"

fun solana_capability :: "Route \<Rightarrow> Capability" where
  "solana_capability GlcToRhn = Unavailable NOT_A_SOLANA_ROUTE_REASON"
| "solana_capability RhnToGlc = Unavailable NOT_A_SOLANA_ROUTE_REASON"
| "solana_capability _ = Operational"

fun goldcoin_capability :: "Route \<Rightarrow> Capability" where
  "goldcoin_capability SolToRhn = Unavailable NOT_A_GOLDCOIN_ROUTE_REASON"
| "goldcoin_capability RhnToSol = Unavailable NOT_A_GOLDCOIN_ROUTE_REASON"
| "goldcoin_capability _ = Operational"

definition robinhood_capability :: "VerifiedDeployment option \<Rightarrow> Route \<Rightarrow> Capability" where
  "robinhood_capability deployment route =
     (if route = GlcToSol \<or> route = SolToGlc then Unavailable NOT_A_ROBINHOOD_ROUTE_REASON
      else case deployment of
        None \<Rightarrow> Unavailable UNAVAILABLE_REASON
      | Some d \<Rightarrow> (if chains_for d route \<noteq> None then Operational else Unavailable UNAVAILABLE_REASON))"

fun adapter_capability :: "ChainAdapter \<Rightarrow> Route \<Rightarrow> Capability" where
  "adapter_capability GoldcoinAdapter route = goldcoin_capability route"
| "adapter_capability SolanaAdapter route = solana_capability route"
| "adapter_capability (RobinhoodAdapter d) route = robinhood_capability d route"

type_synonym ChainRegistry = "BridgeChain \<rightharpoonup> ChainAdapter"

definition with_adapter :: "ChainRegistry \<Rightarrow> ChainAdapter \<Rightarrow> ChainRegistry" where
  "with_adapter registry a = registry(adapter_chain a \<mapsto> a)"

definition legacy_only_registry :: ChainRegistry where
  "legacy_only_registry =
     with_adapter (with_adapter (with_adapter Map.empty GoldcoinAdapter) SolanaAdapter) (RobinhoodAdapter None)"

definition with_verified_robinhood :: "VerifiedDeployment \<Rightarrow> ChainRegistry" where
  "with_verified_robinhood d =
     with_adapter (with_adapter (with_adapter Map.empty GoldcoinAdapter) SolanaAdapter) (RobinhoodAdapter (Some d))"

definition registry_capability :: "ChainRegistry \<Rightarrow> BridgeChain \<Rightarrow> Route \<Rightarrow> Capability" where
  "registry_capability registry chain route =
     (case registry chain of
        Some a \<Rightarrow> adapter_capability a route
      | None \<Rightarrow> Unavailable (''no adapter is registered for chain '' @ chain_as_str chain))"

section \<open>The gate\<close>

datatype DisabledBy = DisabledByConfig | DisabledByLedger | DisabledByAdapter string

datatype 'e RouteGateError =
    Disabled string DisabledBy string
  | GateLedger 'e

record RoutesConfig =
  rc_glc_to_sol :: bool
  rc_sol_to_glc :: bool
  rc_glc_to_rhn :: bool
  rc_rhn_to_glc :: bool
  rc_sol_to_rhn :: bool
  rc_rhn_to_sol :: bool

definition RoutesConfig_default :: RoutesConfig where
  "RoutesConfig_default =
     \<lparr>rc_glc_to_sol = default_enabled GlcToSol, rc_sol_to_glc = default_enabled SolToGlc,
      rc_glc_to_rhn = default_enabled GlcToRhn, rc_rhn_to_glc = default_enabled RhnToGlc,
      rc_sol_to_rhn = default_enabled SolToRhn, rc_rhn_to_sol = default_enabled RhnToSol\<rparr>"

fun config_enabled :: "RoutesConfig \<Rightarrow> Route \<Rightarrow> bool" where
  "config_enabled c GlcToSol = rc_glc_to_sol c"
| "config_enabled c SolToGlc = rc_sol_to_glc c"
| "config_enabled c GlcToRhn = rc_glc_to_rhn c"
| "config_enabled c RhnToGlc = rc_rhn_to_glc c"
| "config_enabled c SolToRhn = rc_sol_to_rhn c"
| "config_enabled c RhnToSol = rc_rhn_to_sol c"

definition with_robinhood :: "RoutesConfig \<Rightarrow> bool \<Rightarrow> bool \<Rightarrow> bool \<Rightarrow> bool \<Rightarrow> RoutesConfig" where
  "with_robinhood c glc_to_rhn rhn_to_glc sol_to_rhn rhn_to_sol =
     c\<lparr>rc_glc_to_rhn := glc_to_rhn, rc_rhn_to_glc := rhn_to_glc,
       rc_sol_to_rhn := sol_to_rhn, rc_rhn_to_sol := rhn_to_sol\<rparr>"

record RouteGate =
  gate_config :: RoutesConfig
  gate_registry :: ChainRegistry

text \<open>
  What \<open>Ledger::route_enabled\<close> returns, from the rows of the table \<open>bridge_routes\<close>; \<open>None\<close> is a
  ledger without the table.
\<close>

definition route_enabled :: "(string \<rightharpoonup> i64) option \<Rightarrow> string \<Rightarrow> bool \<Rightarrow> bool" where
  "route_enabled bridge_routes route_id dflt =
     (case bridge_routes of
        None \<Rightarrow> dflt
      | Some rows \<Rightarrow> (case rows route_id of Some flag \<Rightarrow> flag \<noteq> 0 | None \<Rightarrow> dflt))"

fun check_adapters ::
  "ChainRegistry \<Rightarrow> Route \<Rightarrow> BridgeChain list \<Rightarrow> ('e RouteGateError, unit) result" where
  "check_adapters registry route [] = Inr ()"
| "check_adapters registry route (chain # rest) =
     (case registry_capability registry chain route of
        Operational \<Rightarrow> check_adapters registry route rest
      | Unavailable reason \<Rightarrow> Inl (Disabled (route_as_str route) (DisabledByAdapter reason) reason))"

definition ensure_enabled ::
  "RouteGate \<Rightarrow> (string \<Rightarrow> bool \<Rightarrow> ('e, bool) result) \<Rightarrow> Route \<Rightarrow> ('e RouteGateError, unit) result" where
  "ensure_enabled gate ledger route =
     require (config_enabled (gate_config gate) route)
       (Disabled (route_as_str route) DisabledByConfig ''not enabled in the service configuration'') (
     try_bind (map_err GateLedger (ledger (route_as_str route) (default_enabled route))) (\<lambda>on.
     require on
       (Disabled (route_as_str route) DisabledByLedger ''disabled in the ledger's bridge_routes state'') (
     check_adapters (gate_registry gate) route [source_chain route, destination_chain route])))"

definition gate_is_enabled ::
  "RouteGate \<Rightarrow> (string \<Rightarrow> bool \<Rightarrow> ('e, bool) result) \<Rightarrow> Route \<Rightarrow> bool" where
  "gate_is_enabled gate ledger route = is_ok (ensure_enabled gate ledger route)"

section \<open>Fees\<close>

datatype FeeError =
    RouteNotExecutable string
  | RouteFeeBpsOutOfRange string u64 u64 string u64
  | DuplicateFee string
  | MissingFee string

definition MIN_FEE_BPS :: u64 where "MIN_FEE_BPS = 0"

definition MAX_FEE_BPS :: u64 where "MAX_FEE_BPS = BPS_DENOMINATOR - 1"

definition executable_routes :: "Route list" where
  "executable_routes = filter (\<lambda>r. as_direction r \<noteq> None) ALL_ROUTES"

type_synonym RouteFees = "Route \<rightharpoonup> u64"

definition fees_insert :: "RouteFees \<Rightarrow> Route \<Rightarrow> u64 \<Rightarrow> (FeeError, RouteFees) result" where
  "fees_insert fees route fee_bps =
     require (as_direction route \<noteq> None) (RouteNotExecutable (route_as_str route)) (
     require (fees route = None) (DuplicateFee (route_as_str route)) (
     require (MIN_FEE_BPS \<le> fee_bps \<and> fee_bps \<le> MAX_FEE_BPS)
       (RouteFeeBpsOutOfRange (route_as_str route) fee_bps MAX_FEE_BPS ''99.99%'' BPS_DENOMINATOR) (
     Inr (fees(route \<mapsto> fee_bps)))))"

definition fee_bps :: "RouteFees \<Rightarrow> Route \<Rightarrow> (FeeError, u64) result" where
  "fee_bps fees route =
     require (as_direction route \<noteq> None) (RouteNotExecutable (route_as_str route)) (
     ok_or (fees route) (MissingFee (route_as_str route)))"

fun covers :: "RouteFees \<Rightarrow> Route list \<Rightarrow> (FeeError, unit) result" where
  "covers fees [] = Inr ()"
| "covers fees (route # routes) =
     (if fees route = None then Inl (MissingFee (route_as_str route)) else covers fees routes)"

definition covers_every_executable_route :: "RouteFees \<Rightarrow> (FeeError, unit) result" where
  "covers_every_executable_route fees = covers fees executable_routes"

fun covers_required :: "RouteFees \<Rightarrow> RoutesConfig \<Rightarrow> Route list \<Rightarrow> (FeeError, unit) result" where
  "covers_required fees config [] = Inr ()"
| "covers_required fees config (route # routes) =
     (if is_solana_robinhood route \<and> \<not> config_enabled config route then covers_required fees config routes
      else if fees route = None then Inl (MissingFee (route_as_str route))
      else covers_required fees config routes)"

definition covers_required_routes :: "RouteFees \<Rightarrow> RoutesConfig \<Rightarrow> (FeeError, unit) result" where
  "covers_required_routes fees config = covers_required fees config executable_routes"

text \<open>A table of fees is built by inserting the configured entries one after the other.\<close>

fun insert_fees :: "RouteFees \<Rightarrow> (Route \<times> u64) list \<Rightarrow> (FeeError, RouteFees) result" where
  "insert_fees fees [] = Inr fees"
| "insert_fees fees ((route, bps) # entries) =
     try_bind (fees_insert fees route bps) (\<lambda>fees'. insert_fees fees' entries)"

section \<open>Lemmas\<close>

lemma all_routes: "P r" if "P GlcToSol" "P SolToGlc" "P GlcToRhn" "P RhnToGlc" "P SolToRhn" "P RhnToSol"
  using that by (cases r) simp_all

lemma executable_routes_all [simp]: "r \<in> set executable_routes"
  by (cases r) (simp_all add: executable_routes_def ALL_ROUTES_def)

lemma as_direction_Some [simp]: "\<exists>d. as_direction r = Some d"
  by (cases r) simp_all

lemma covers_ok: "covers fees routes = Inr () \<longleftrightarrow> (\<forall>r\<in>set routes. fees r \<noteq> None)"
  by (induction routes) auto

lemma covers_required_ok:
  "covers_required fees config routes = Inr () \<longleftrightarrow>
     (\<forall>r\<in>set routes. is_solana_robinhood r \<and> \<not> config_enabled config r \<or> fees r \<noteq> None)"
  by (induction routes) auto

lemma check_adapters_ok:
  "check_adapters registry r cs = Inr () \<longleftrightarrow> (\<forall>c\<in>set cs. registry_capability registry c r = Operational)"
  by (induction cs) (auto split: Capability.splits)

lemma ensure_enabled_ok:
  "ensure_enabled gate ledger r = Inr () \<longleftrightarrow>
     config_enabled (gate_config gate) r \<and> ledger (route_as_str r) (default_enabled r) = Inr True
     \<and> registry_capability (gate_registry gate) (source_chain r) r = Operational
     \<and> registry_capability (gate_registry gate) (destination_chain r) r = Operational"
  by (auto simp: ensure_enabled_def split: Capability.splits)

lemma registry_simps [simp]:
  "registry_capability legacy_only_registry c r = adapter_capability
     (case c of Goldcoin \<Rightarrow> GoldcoinAdapter | Solana \<Rightarrow> SolanaAdapter | Robinhood \<Rightarrow> RobinhoodAdapter None) r"
  "registry_capability (with_verified_robinhood d) c r = adapter_capability
     (case c of Goldcoin \<Rightarrow> GoldcoinAdapter | Solana \<Rightarrow> SolanaAdapter | Robinhood \<Rightarrow> RobinhoodAdapter (Some d)) r"
  by (cases c; simp add: registry_capability_def legacy_only_registry_def with_verified_robinhood_def with_adapter_def)+

definition fees_in_range :: "RouteFees \<Rightarrow> bool" where
  "fees_in_range fees \<longleftrightarrow> (\<forall>r b. fees r = Some b \<longrightarrow> unat b < 10000)"

lemma fees_insert_range: "fees_insert fees r b = Inr fees' \<Longrightarrow> fees_in_range fees \<Longrightarrow> fees_in_range fees'"
  by (auto simp: fees_insert_def fees_in_range_def MAX_FEE_BPS_def BPS_DENOMINATOR_def word_le_nat_alt
      split: if_splits)

lemma insert_fees_range: "insert_fees fees es = Inr fees' \<Longrightarrow> fees_in_range fees \<Longrightarrow> fees_in_range fees'"
  by (induction fees es rule: insert_fees.induct) (auto dest: fees_insert_range)

lemma net_positive:
  assumes "compute_fee_at_bps gross bps = Inr fb" "unat bps < 10000" "0 < gross"
  shows "0 < fb_net fb"
proof -
  from assms(1) have net: "unat (fb_net fb) = unat gross - unat gross * unat bps div 10000"
    by (intro net_of_Inr) (simp add: net_of_def)
  from net_boundary[OF assms(2), of "unat gross" 0] assms(3) have "\<not> unat gross - unat gross * unat bps div 10000 \<le> 0"
    by (simp add: word_less_nat_alt)
  then show ?thesis using net by (simp add: word_less_nat_alt)
qed

section \<open>Properties\<close>

text \<open>
  C32. The routing table is consistent: a route's wire spelling parses back to it and to no
  other, its two chains differ and determine it, it and its ledger direction determine each
  other, and the contract's route numbers are distinct and exist exactly for the routes that
  touch the contract's chain.
\<close>

theorem routes_consistent:
  "(route_from_str s = Inr r \<longleftrightarrow> s = route_as_str r)
   \<and> source_chain r \<noteq> destination_chain r
   \<and> (source_chain r = source_chain r' \<and> destination_chain r = destination_chain r' \<longleftrightarrow> r = r')
   \<and> (as_direction r = Some d \<longleftrightarrow> r = route_of_direction d)
   \<and> (contract_route_id r \<noteq> None \<longleftrightarrow> source_chain r = Robinhood \<or> destination_chain r = Robinhood)
   \<and> (contract_route_id r \<noteq> None \<and> contract_route_id r = contract_route_id r' \<longleftrightarrow>
      contract_route_id r \<noteq> None \<and> r = r')"
proof (intro conjI)
  show "route_from_str s = Inr r \<longleftrightarrow> s = route_as_str r"
    by (cases r) (auto simp: route_from_str_def)
  show "as_direction r = Some d \<longleftrightarrow> r = route_of_direction d" by (cases r; cases d) simp_all
qed (cases r; cases r'; simp)+

text \<open>
  A route is open exactly when the configuration enables it, the ledger enables it and the
  adapters of both its chains can serve it; and while the EVM deployment has not been verified,
  no configuration and no ledger row opens a route that touches that chain.
\<close>

theorem route_gate_exact:
  "(ensure_enabled gate ledger r = Inr () \<longleftrightarrow>
      config_enabled (gate_config gate) r \<and> ledger (route_as_str r) (default_enabled r) = Inr True
      \<and> registry_capability (gate_registry gate) (source_chain r) r = Operational
      \<and> registry_capability (gate_registry gate) (destination_chain r) r = Operational)
   \<and> (ensure_enabled \<lparr>gate_config = config, gate_registry = legacy_only_registry\<rparr> ledger r = Inr () \<longleftrightarrow>
      is_legacy r \<and> config_enabled config r \<and> ledger (route_as_str r) (default_enabled r) = Inr True)
   \<and> (ensure_enabled \<lparr>gate_config = config, gate_registry = with_verified_robinhood d\<rparr> ledger r = Inr () \<longleftrightarrow>
      config_enabled config r \<and> ledger (route_as_str r) (default_enabled r) = Inr True)"
  by (simp add: ensure_enabled_ok) (cases r; simp add: is_legacy_def robinhood_capability_def)

text \<open>
  Every transfer on an open route has one price and delivers something: when the configured
  fees were accepted and cover the required routes, each route the gate opens resolves a rate
  below 100%, and every positive deposit whose split is computable has a positive net.
\<close>

theorem open_routes_are_priced:
  assumes "insert_fees Map.empty entries = Inr fees"
    and "covers_required_routes fees (gate_config gate) = Inr ()"
    and "ensure_enabled gate ledger r = Inr ()"
  shows "\<exists>bps. fee_bps fees r = Inr bps \<and> unat bps < 10000
    \<and> (\<forall>gross fb. 0 < gross \<longrightarrow> compute_fee_at_bps gross bps = Inr fb \<longrightarrow> 0 < fb_net fb)"
proof -
  have "config_enabled (gate_config gate) r" using assms(3) by (simp add: ensure_enabled_ok)
  then have "fees r \<noteq> None"
    using assms(2) executable_routes_all[of r]
    unfolding covers_required_routes_def covers_required_ok by blast
  then obtain bps where bps: "fees r = Some bps" by auto
  have "unat bps < 10000" using insert_fees_range[OF assms(1)] bps by (simp add: fees_in_range_def)
  moreover have "fee_bps fees r = Inr bps" using bps by (simp add: fee_bps_def)
  ultimately show ?thesis using net_positive by blast
qed

theorem open_routes_are_priced_witness:
  "\<exists>bps. fee_bps [GlcToSol \<mapsto> 300, SolToGlc \<mapsto> 300, GlcToRhn \<mapsto> 250, RhnToGlc \<mapsto> 200] SolToGlc = Inr bps
    \<and> unat bps < 10000"
proof -
  let ?gate = "\<lparr>gate_config = RoutesConfig_default, gate_registry = legacy_only_registry\<rparr>"
  let ?fees = "[GlcToSol \<mapsto> 300, SolToGlc \<mapsto> 300, GlcToRhn \<mapsto> 250, RhnToGlc \<mapsto> (200 :: u64)]"
  have "insert_fees Map.empty [(GlcToSol, 300), (SolToGlc, 300), (GlcToRhn, 250), (RhnToGlc, 200)] = Inr ?fees"
    by (simp add: fees_insert_def MIN_FEE_BPS_def MAX_FEE_BPS_def BPS_DENOMINATOR_def)
  moreover have "covers_required_routes ?fees (gate_config ?gate) = Inr ()"
    by (simp add: covers_required_routes_def executable_routes_def ALL_ROUTES_def RoutesConfig_default_def
        is_solana_robinhood_def default_enabled_def)
  moreover have "ensure_enabled ?gate (\<lambda>_ dflt. Inr dflt :: (unit, bool) result) SolToGlc = Inr ()"
    by (simp add: ensure_enabled_ok RoutesConfig_default_def default_enabled_def)
  ultimately show ?thesis using open_routes_are_priced by blast
qed

end
