(* ===== verification/Live_Rate.thy ===== *)
theory Live_Rate
  imports Price_History Routes
begin

unbundle bit_operations_syntax

text \<open>
  The live rate book, \<open>service/src/bridge_rate/live.rs\<close>, and the pricing of deposits from it
  (\<open>RateBook\<close> and \<open>price_final_deposit\<close> of \<open>bridge_rate.rs\<close>): one price history per chain, the
  refusals, the movement of a rate against one window earlier, and what a deposit that is
  already final is parked for. The mutex of the book is taken for a whole operation, so
  operations are functions of the book.
\<close>

record LiveRateConfig =
  price_window_secs :: i64
  price_staleness_secs :: i64
  rate_band_bps :: u64

datatype RateRefusal =
    FeedUnavailable BridgeChain string
  | FeedStale BridgeChain i64 i64
  | WarmingUp BridgeChain "i64 option" i64

fun refusal_chain :: "RateRefusal \<Rightarrow> BridgeChain" where
  "refusal_chain (FeedUnavailable c _) = c"
| "refusal_chain (FeedStale c _ _) = c"
| "refusal_chain (WarmingUp c _ _) = c"

definition REASON_BAND_EXCEEDED :: string where "REASON_BAND_EXCEEDED = ''bridge_rate_band_exceeded''"

fun refusal_reason :: "RateRefusal \<Rightarrow> string" where
  "refusal_reason (FeedUnavailable _ _) = ''bridge_rate_feed_unavailable''"
| "refusal_reason (FeedStale _ _ _) = ''bridge_rate_feed_stale''"
| "refusal_reason (WarmingUp _ _ _) = ''bridge_rate_warming_up''"

record RouteRate =
  rr_prices :: RailPrices
  rr_reference_source_price_e12 :: u64
  rr_reference_destination_price_e12 :: u64
  rr_movement_bps :: u64
  rr_band_bps :: u64
  rr_band_exceeded :: bool

definition try_u64 :: "u128 \<Rightarrow> u64 option" where
  "try_u64 x = (if unat x < 2 ^ 64 then Some (ucast x) else None)"

definition rate_e12 :: "RouteRate \<Rightarrow> u64 option" where
  "rate_e12 r = Option.bind
     (mul_div (ucast (rp_source_price_e12 (rr_prices r))) (ucast PRICE_SCALE)
       (ucast (rp_destination_price_e12 (rr_prices r)))) try_u64"

section \<open>The movement of a rate\<close>

definition U256_le :: "U256 \<Rightarrow> U256 \<Rightarrow> bool" where
  "U256_le a b \<longleftrightarrow> u_hi a < u_hi b \<or> u_hi a = u_hi b \<and> u_lo a \<le> u_lo b"

definition U256_sub :: "U256 \<Rightarrow> U256 \<Rightarrow> U256" where
  "U256_sub a b =
     \<lparr>u_hi = u_hi a - u_hi b - (if u_lo a < u_lo b then 1 else 0), u_lo = u_lo a - u_lo b\<rparr>"

definition leading_zeros :: "u128 \<Rightarrow> nat" where
  "leading_zeros x = length (takeWhile (\<lambda>i. \<not> bit x i) (rev [0 ..< 128]))"

definition movement_bps :: "u64 \<Rightarrow> u64 \<Rightarrow> u64 \<Rightarrow> u64 \<Rightarrow> u64" where
  "movement_bps src_now dst_now src_ref dst_ref =
     (let lhs = mul_u128 (ucast src_now) (ucast dst_ref);
          rhs = mul_u128 (ucast src_ref) (ucast dst_now);
          diff = (if U256_le rhs lhs then U256_sub lhs rhs else U256_sub rhs lhs);
          base = rhs;
          narrow = (\<lambda>v. case Option.bind v try_u64 of Some m \<Rightarrow> m | None \<Rightarrow> - 1)
      in if base = U256_ZERO then - 1
         else if u_hi diff \<noteq> 0 \<or> u_hi base \<noteq> 0 then
           let shift = 128 - min (leading_zeros (u_hi base)) (leading_zeros (u_hi diff));
               d = push_bit (128 - shift) (u_hi diff) OR drop_bit shift (u_lo diff);
               b = push_bit (128 - shift) (u_hi base) OR drop_bit shift (u_lo base)
           in narrow (mul_div d 10000 (max b 1))
         else narrow (mul_div (u_lo diff) 10000 (u_lo base)))"

section \<open>The book\<close>

record RailState =
  rail_history :: PriceHistory
  rail_last_error :: "(i64 \<times> string) option"

record LiveBook =
  book_config :: LiveRateConfig
  book_rails :: "BridgeChain \<Rightarrow> RailState"

definition LiveBook_new :: "LiveRateConfig \<Rightarrow> LiveBook" where
  "LiveBook_new config =
     \<lparr>book_config = config, book_rails = (\<lambda>_. \<lparr>rail_history = [], rail_last_error = None\<rparr>)\<rparr>"

definition retention_horizon :: "LiveBook \<Rightarrow> i64 \<Rightarrow> i64" where
  "retention_horizon book now =
     now - 2 * price_window_secs (book_config book) - price_staleness_secs (book_config book)"

definition record_sample :: "LiveBook \<Rightarrow> BridgeChain \<Rightarrow> Sample \<Rightarrow> bool \<times> LiveBook" where
  "record_sample book chain sample =
     (let rail = book_rails book chain;
          (kept, history) = history_push (rail_history rail) sample;
          history = prune history (retention_horizon book (observed_at sample))
      in (kept, book\<lparr>book_rails := (book_rails book)(chain := rail\<lparr>rail_history := history\<rparr>)\<rparr>))"

definition record_failure :: "LiveBook \<Rightarrow> BridgeChain \<Rightarrow> i64 \<Rightarrow> string \<Rightarrow> LiveBook" where
  "record_failure book chain at detail =
     book\<lparr>book_rails := (book_rails book)(chain :=
       (book_rails book chain)\<lparr>rail_last_error := Some (at, detail)\<rparr>)\<rparr>"

text \<open>Decimal numerals.\<close>

fun show_nat :: "nat \<Rightarrow> string" where
  "show_nat n = (if n < 10 then [char_of (48 + n)] else show_nat (n div 10) @ [char_of (48 + n mod 10)])"

definition show_int :: "int \<Rightarrow> string" where
  "show_int i = (if i < 0 then CHR ''-'' # show_nat (nat (- i)) else show_nat (nat i))"

definition rail_prices :: "LiveBook \<Rightarrow> RailState \<Rightarrow> BridgeChain \<Rightarrow> i64 \<Rightarrow> (RateRefusal, u64 \<times> u64) result" where
  "rail_prices book rail chain now =
     (let w = price_window_secs (book_config book);
          staleness = price_staleness_secs (book_config book);
          current = twap (rail_history rail) now w now staleness;
          reference = twap (rail_history rail) (now - w) w now staleness;
          needed_from = now - 2 * w;
          unavailable = FeedUnavailable chain
            (case rail_last_error rail of
               Some (at, e) \<Rightarrow> ''no samples; last feed error at '' @ show_int at @ '': '' @ e
             | None \<Rightarrow> ''no samples yet'')
      in case (current, reference) of
           (CoverageOk c, CoverageOk r) \<Rightarrow> Inr (c, r)
         | (CoverageEmpty, _) \<Rightarrow> Inl unavailable
         | (_, CoverageEmpty) \<Rightarrow> Inl unavailable
         | (CoverageStale _ age, _) \<Rightarrow> Inl (FeedStale chain age staleness)
         | (_, CoverageStale _ age) \<Rightarrow> Inl (FeedStale chain age staleness)
         | (CoverageWarmingUp covered_from, _) \<Rightarrow> Inl (WarmingUp chain covered_from needed_from)
         | (_, CoverageWarmingUp covered_from) \<Rightarrow> Inl (WarmingUp chain covered_from needed_from))"

definition newest_feed_at :: "RailState \<Rightarrow> i64 \<Rightarrow> i64" where
  "newest_feed_at rail now = (case newest (rail_history rail) of Some s \<Rightarrow> feed_at s | None \<Rightarrow> now)"

definition route_rate :: "LiveBook \<Rightarrow> Route \<Rightarrow> i64 \<Rightarrow> (RateRefusal, RouteRate) result" where
  "route_rate book route now =
     (let source = book_rails book (source_chain route);
          destination = book_rails book (destination_chain route)
      in try_bind (rail_prices book source (source_chain route) now) (\<lambda>(src_now, src_ref).
         try_bind (rail_prices book destination (destination_chain route) now) (\<lambda>(dst_now, dst_ref).
         let movement = movement_bps src_now dst_now src_ref dst_ref in
         Inr \<lparr>rr_prices = \<lparr>rp_source_price_e12 = src_now, rp_destination_price_e12 = dst_now,
                rp_source_feed_at = newest_feed_at source now,
                rp_destination_feed_at = newest_feed_at destination now\<rparr>,
              rr_reference_source_price_e12 = src_ref, rr_reference_destination_price_e12 = dst_ref,
              rr_movement_bps = movement, rr_band_bps = rate_band_bps (book_config book),
              rr_band_exceeded = (movement > rate_band_bps (book_config book))\<rparr>)))"

section \<open>Pricing a deposit\<close>

datatype RateMode = FixedUnit | Live LiveBook

record RateBook =
  quote_lifetime_secs :: i64
  rate_mode :: RateMode

datatype RateError = Refused RateRefusal | RateConversion ConversionError

fun rate_error_reason :: "RateError \<Rightarrow> string" where
  "rate_error_reason (Refused r) = refusal_reason r"
| "rate_error_reason (RateConversion _) = ''bridge_quote_invalid''"

record BandBreach =
  breach_movement_bps :: u64
  breach_band_bps :: u64

record StruckQuote =
  struck_quote :: BridgeQuote
  struck_band :: "BandBreach option"
  struck_route_rate :: "RouteRate option"

definition route_status :: "RateBook \<Rightarrow> Route \<Rightarrow> i64 \<Rightarrow> (RateRefusal, RailPrices \<times> RouteRate option) result" where
  "route_status book route now =
     (case rate_mode book of
        FixedUnit \<Rightarrow> Inr (unit_prices now, None)
      | Live live \<Rightarrow> try_bind (route_rate live route now) (\<lambda>rate. Inr (rr_prices rate, Some rate)))"

definition rate_quote ::
  "RateBook \<Rightarrow> Route \<Rightarrow> CanonicalAtomic \<Rightarrow> u64 \<Rightarrow> i64 \<Rightarrow> u64 \<Rightarrow> (RateError, StruckQuote) result" where
  "rate_quote book route gross_in bps now destination_scale =
     try_bind (map_err Refused (route_status book route now)) (\<lambda>(prices, route_rate).
     try_bind (map_err RateConversion
       (compute_bridge_quote gross_in prices bps now (quote_lifetime_secs book) destination_scale)) (\<lambda>quote.
     let band = (case route_rate of
           Some r \<Rightarrow> if rr_band_exceeded r
             then Some \<lparr>breach_movement_bps = rr_movement_bps r, breach_band_bps = rr_band_bps r\<rparr> else None
         | None \<Rightarrow> None)
     in Inr \<lparr>struck_quote = quote, struck_band = band, struck_route_rate = route_rate\<rparr>))"

record FoldPricing =
  fold_quote :: "BridgeQuote option"
  fold_breakdown :: FeeBreakdown
  fold_park :: "string option"
  fold_band :: "BandBreach option"

definition price_final_deposit ::
  "RateBook \<Rightarrow> Route \<Rightarrow> CanonicalAtomic \<Rightarrow> u64 \<Rightarrow> i64 \<Rightarrow> u64 \<Rightarrow> (ConversionError, FoldPricing) result" where
  "price_final_deposit book route gross_in bps now destination_scale =
     (case rate_quote book route gross_in bps now destination_scale of
        Inr struck \<Rightarrow> Inr
          \<lparr>fold_quote = Some (struck_quote struck), fold_breakdown = breakdown (struck_quote struck),
           fold_park = map_option (\<lambda>_. REASON_BAND_EXCEEDED) (struck_band struck),
           fold_band = struck_band struck\<rparr>
      | Inl (Refused refusal) \<Rightarrow>
          try_bind (compute_fee_at_bps gross_in bps) (\<lambda>fb. Inr
          \<lparr>fold_quote = None, fold_breakdown = fb, fold_park = Some (refusal_reason refusal), fold_band = None\<rparr>)
      | Inl (RateConversion e) \<Rightarrow> Inl e)"

text \<open>Display of a rate with twelve decimals.\<close>

definition pad12 :: "string \<Rightarrow> string" where
  "pad12 s = replicate (12 - length s) (CHR ''0'') @ s"

definition format_rate_e12 :: "u64 \<Rightarrow> u64 \<Rightarrow> string" where
  "format_rate_e12 source_price destination_price =
     (if destination_price = 0 then ''0.000000000000''
      else
        let scaled = (ucast source_price * ucast PRICE_SCALE :: u128) div ucast destination_price;
            whole = scaled div ucast PRICE_SCALE;
            frac = scaled mod ucast PRICE_SCALE
        in show_nat (unat whole) @ ''.'' @ pad12 (show_nat (unat frac)))"

section \<open>Lemmas\<close>

lemma mul_u128_small:
  "mul_u128 (ucast a) (ucast b) = \<lparr>u_hi = 0, u_lo = word_of_nat (unat a * unat b)\<rparr>" for a b :: u64
proof -
  let ?p = "mul_u128 (ucast a) (ucast b)"
  have v: "unat (u_hi ?p) * 2 ^ 128 + unat (u_lo ?p) = unat a * unat b"
    using mul_u128_value[of "ucast a" "ucast b"] by (simp only: U256_value_def unat_ucast_u128)
  have lt: "unat a * unat b < 2 ^ 128"
  proof -
    have "unat a * unat b < 2 ^ 64 * 2 ^ 64"
      using unat_lt2p[of a] unat_lt2p[of b] by (intro mult_strict_mono) simp_all
    then show ?thesis by simp
  qed
  have "unat (u_hi ?p) = 0" using v lt by (cases "unat (u_hi ?p)") simp_all
  then have "u_hi ?p = 0" "unat (u_lo ?p) = unat a * unat b" using v by (simp_all add: unat_eq_0)
  then have "u_lo ?p = word_of_nat (unat a * unat b)"
    using lt by (simp add: word_unat_eq_iff unat_of_nat take_bit_nat_eq_self)
  with \<open>u_hi ?p = 0\<close> show ?thesis by (metis (full_types) U256.surjective old.unit.exhaust)
qed

lemma unat_u64_product: "unat (word_of_nat (unat a * unat b) :: u128) = unat a * unat b" for a b :: u64
proof -
  have "unat a * unat b < 2 ^ 64 * 2 ^ 64"
    using unat_lt2p[of a] unat_lt2p[of b] by (intro mult_strict_mono) simp_all
  then show ?thesis by (simp add: unat_of_nat take_bit_nat_eq_self)
qed

lemma unat_minus_one_word: "unat (- 1 :: u64) = 2 ^ 64 - 1"
  by (simp add: unsigned_minus_1_eq_mask mask_eq_exp_minus_1)

lemma narrow_value:
  "unat (case Option.bind (mul_div a b d) try_u64 of Some m \<Rightarrow> m | None \<Rightarrow> (- 1 :: u64))
    = min (2 ^ 64 - 1) (unat a * unat b div unat d)" if "d \<noteq> 0"
proof (cases "2 ^ 128 \<le> unat a * unat b div unat d")
  case True
  then show ?thesis using that by (simp add: mul_div_eq unat_minus_one_word)
next
  case False
  let ?q = "unat a * unat b div unat d"
  have "unat (word_of_nat ?q :: u128) = ?q" using False by (simp add: unat_of_nat take_bit_nat_eq_self)
  moreover have "mul_div a b d = Some (word_of_nat ?q)" using that False by (simp only: mul_div_eq simp_thms if_False)
  ultimately show ?thesis by (auto simp: try_u64_def unat_ucast_down unat_minus_one_word)
qed

lemma movement_bps_value:
  fixes src_now dst_now src_ref dst_ref :: u64
  defines "l \<equiv> unat src_now * unat dst_ref" and "r \<equiv> unat src_ref * unat dst_now"
  shows "unat (movement_bps src_now dst_now src_ref dst_ref) =
    (if r = 0 then 2 ^ 64 - 1 else min (2 ^ 64 - 1) (((if r \<le> l then l - r else r - l) * 10000) div r))"
proof -
  let ?L = "word_of_nat l :: u128" and ?R = "word_of_nat r :: u128"
  have u: "unat ?L = l" "unat ?R = r" by (simp_all only: l_def r_def unat_u64_product)
  have prods: "mul_u128 (ucast src_now) (ucast dst_ref) = \<lparr>u_hi = 0, u_lo = ?L\<rparr>"
    "mul_u128 (ucast src_ref) (ucast dst_now) = \<lparr>u_hi = 0, u_lo = ?R\<rparr>"
    by (simp_all only: mul_u128_small l_def r_def)
  have zero: "?R = 0 \<longleftrightarrow> r = 0" using u(2) by (metis unat_eq_0)
  define D where "D = (if r \<le> l then ?L - ?R else ?R - ?L)"
  have D: "unat D = (if r \<le> l then l - r else r - l)"
    unfolding D_def using u by (auto simp: unat_sub word_le_nat_alt)
  have le: "?R \<le> ?L \<longleftrightarrow> r \<le> l" by (simp only: word_le_nat_alt u)
  have m: "movement_bps src_now dst_now src_ref dst_ref = (if r = 0 then - 1
      else case Option.bind (mul_div D 10000 ?R) try_u64 of Some m \<Rightarrow> m | None \<Rightarrow> - 1)"
    unfolding movement_bps_def prods Let_def
    by (auto simp: U256_ZERO_def zero U256_le_def U256_sub_def le D_def not_le word_less_nat_alt u)
  show ?thesis
  proof (cases "r = 0")
    case False
    then have "unat (movement_bps src_now dst_now src_ref dst_ref) = min (2 ^ 64 - 1) (unat D * unat (10000 :: u128) div unat ?R)"
      using m narrow_value[of ?R D 10000] zero by simp
    with False D u show ?thesis by simp
  qed (simp add: m unat_minus_one_word)
qed

lemma floor_bps:
  fixes d r b :: nat
  assumes "(d * 10000) div r \<le> b" "0 < r"
  shows "d * 10000 < (b + 1) * r"
proof -
  have "(d * 10000) div r < b + 1" using assms(1) by simp
  then show ?thesis using assms(2) by (simp only: div_less_iff_less_mult)
qed

lemma movement_within:
  assumes "unat (movement_bps sn dn sr dr) \<le> unat band" "unat (band :: u64) < 2 ^ 64 - 1"
  shows "abs (int (unat sn) * int (unat dr) - int (unat sr) * int (unat dn)) * 10000
    < (int (unat band) + 1) * (int (unat sr) * int (unat dn))"
proof -
  define l r where "l = unat sn * unat dr" and "r = unat sr * unat dn"
  define d where "d = (if r \<le> l then l - r else r - l)"
  note v = movement_bps_value[of sn dn sr dr, folded l_def r_def, folded d_def]
  have r: "r \<noteq> 0" and m: "min (2 ^ 64 - 1) ((d * 10000) div r) \<le> unat band"
    using v assms by (auto split: if_splits)
  then have "(d * 10000) div r \<le> unat band" using assms(2) by (simp only: min_le_iff_disj) linarith
  from floor_bps[OF this] r have "d * 10000 < (unat band + 1) * r" by simp
  then have "int (d * 10000) < int ((unat band + 1) * r)" by (simp only: of_nat_less_iff)
  then have "int d * 10000 < (int (unat band) + 1) * int r"
    by (simp only: of_nat_mult of_nat_add of_nat_1 of_nat_numeral)
  moreover have "abs (int l - int r) = int d" by (simp add: d_def)
  ultimately show ?thesis by (simp add: l_def r_def)
qed

text \<open>A book keeps every history ordered and bounded.\<close>

definition book_ok :: "LiveBook \<Rightarrow> bool" where
  "book_ok book \<longleftrightarrow> (\<forall>c. ordered (rail_history (book_rails book c))
     \<and> length (rail_history (book_rails book c)) \<le> MAX_SAMPLES)"

lemma length_prune: "length (prune samples horizon) \<le> length samples"
  using prune_drop[of samples horizon] by auto

lemma record_sample_ok: "book_ok book \<Longrightarrow> book_ok (snd (record_sample book c s))"
proof -
  assume ok: "book_ok book"
  have "ordered (prune (snd (history_push (rail_history (book_rails book c)) s)) h)" for h
    using ok by (intro ordered_prune ordered_push) (simp add: book_ok_def)
  moreover have "length (prune (snd (history_push (rail_history (book_rails book c)) s)) h) \<le> MAX_SAMPLES" for h
    using ok by (intro order.trans[OF length_prune] length_push) (simp add: book_ok_def)
  ultimately show ?thesis
    using ok by (simp add: book_ok_def record_sample_def split_beta Let_def)
qed

lemma record_failure_ok: "book_ok book \<Longrightarrow> book_ok (record_failure book c at e)"
  by (simp add: book_ok_def record_failure_def)

lemma book_config_simps [simp]:
  "book_config (snd (record_sample book c s)) = book_config book"
  "book_config (record_failure book c at e) = book_config book"
  by (simp_all add: record_sample_def record_failure_def split_beta Let_def)

text \<open>The books that can arise: new ones, and what the two recording operations make of them.\<close>

inductive live_book :: "LiveRateConfig \<Rightarrow> LiveBook \<Rightarrow> bool" for config where
  live_new: "live_book config (LiveBook_new config)"
| live_sample: "live_book config book \<Longrightarrow> live_book config (snd (record_sample book c s))"
| live_failure: "live_book config book \<Longrightarrow> live_book config (record_failure book c at e)"

lemma live_book_ok: "live_book config book \<Longrightarrow> book_ok book \<and> book_config book = config"
  by (induction rule: live_book.induct)
    (auto intro: record_sample_ok record_failure_ok, simp_all add: LiveBook_new_def book_ok_def)

text \<open>When a rail gives prices: both windows are covered, and the newest sample is fresh.\<close>

lemma rail_prices_ok:
  assumes "rail_prices book rail c now = Inr (p, ref)"
  defines "w \<equiv> price_window_secs (book_config book)" and "st \<equiv> price_staleness_secs (book_config book)"
  shows "twap (rail_history rail) now w now st = CoverageOk p"
    and "twap (rail_history rail) (now - w) w now st = CoverageOk ref"
  using assms(1) unfolding rail_prices_def Let_def w_def[symmetric] st_def[symmetric]
  by (simp_all split: Coverage.splits)

lemma twap_fresh:
  "twap samples e w now st = CoverageOk p \<Longrightarrow> samples \<noteq> [] \<and> now - feed_at (last samples) \<le> st"
  by (auto simp: twap_def Let_def split: if_splits)

lemma route_rate_ok:
  assumes "route_rate book route now = Inr rate"
  shows "rail_prices book (book_rails book (source_chain route)) (source_chain route) now
      = Inr (rp_source_price_e12 (rr_prices rate), rr_reference_source_price_e12 rate)"
    and "rail_prices book (book_rails book (destination_chain route)) (destination_chain route) now
      = Inr (rp_destination_price_e12 (rr_prices rate), rr_reference_destination_price_e12 rate)"
    and "rr_movement_bps rate = movement_bps (rp_source_price_e12 (rr_prices rate))
      (rp_destination_price_e12 (rr_prices rate)) (rr_reference_source_price_e12 rate)
      (rr_reference_destination_price_e12 rate)"
    and "rr_band_exceeded rate \<longleftrightarrow> rate_band_bps (book_config book) < rr_movement_bps rate"
  using assms unfolding route_rate_def Let_def by (auto simp: split_beta)

text \<open>
  Recording a sample changes the price in force from the time of the sample on, and nothing
  else at or after the retention horizon.
\<close>

lemma recorded_price:
  assumes "ordered h" "length h < MAX_SAMPLES" "history_push h s = (True, h')" "horizon \<le> t"
  shows "price_at (prune h' horizon) t = (if feed_at s \<le> t then unat (price_e12 s) else price_at h t)"
proof -
  have h': "h' = h @ [s]" using assms(2,3) by (auto simp: history_push_def Let_def split: if_splits)
  have "price_at (h @ [s]) t = (if feed_at s \<le> t then unat (price_e12 s) else price_at h t)"
    by (simp add: price_at_def)
  then show ?thesis using price_at_prune[OF assms(4)] by (simp only: h')
qed

text \<open>A book with two samples on each of two chains; the first chain's price rises by two percent.\<close>

definition sample_rate_config :: LiveRateConfig where
  "sample_rate_config = \<lparr>price_window_secs = 10, price_staleness_secs = 30, rate_band_bps = 2500\<rparr>"

definition sample_at :: "i64 \<Rightarrow> u64 \<Rightarrow> Sample" where
  "sample_at t p = \<lparr>feed_at = t, observed_at = t, price_e12 = p\<rparr>"

definition sample_book :: LiveBook where
  "sample_book =
     snd (record_sample (snd (record_sample (snd (record_sample (snd (record_sample (LiveBook_new sample_rate_config)
       Goldcoin (sample_at 0 1000000000000))) Solana (sample_at 0 1000000000000)))
       Goldcoin (sample_at 20 1020000000000))) Solana (sample_at 20 1000000000000))"

lemma sample_book_live: "live_book sample_rate_config sample_book"
  unfolding sample_book_def by (intro live_book.intros)

lemma sample_rate_config_simps [simp]:
  "price_window_secs sample_rate_config = 10" "price_staleness_secs sample_rate_config = 30"
  "rate_band_bps sample_rate_config = 2500" "book_config sample_book = sample_rate_config"
  using live_book_ok[OF sample_book_live] by (simp_all add: sample_rate_config_def)

lemma sample_history:
  "rail_history (book_rails sample_book Goldcoin) = [sample_at 0 1000000000000, sample_at 20 1020000000000]"
  "rail_history (book_rails sample_book Solana) = [sample_at 0 1000000000000, sample_at 20 1000000000000]"
  by (simp_all add: sample_book_def record_sample_def LiveBook_new_def history_push_def MAX_SAMPLES_def
      prune_def rposition_def retention_horizon_def sample_at_def sample_rate_config_def Let_def split_beta)

lemma sample_twap:
  "twap [sample_at 0 1000000000000, sample_at 20 p] 25 10 25 30 =
     CoverageOk (ucast ((ucast (1000000000000 :: u64) * 5 + ucast p * 5 :: u128) div 10))"
  if "unat ((ucast (1000000000000 :: u64) * 5 + ucast p * 5 :: u128) div 10) < 2 ^ 64"
  using that by (simp add: twap_def gap_free_from_def sample_at_def next_feed_at_def i64_max_def Let_def)

lemma sample_rail_prices:
  "rail_prices sample_book (book_rails sample_book Goldcoin) Goldcoin 25 = Inr (1010000000000, 1000000000000)"
  "rail_prices sample_book (book_rails sample_book Solana) Solana 25 = Inr (1000000000000, 1000000000000)"
  by (simp_all add: rail_prices_def sample_history sample_twap)
    (simp_all add: twap_def gap_free_from_def sample_at_def next_feed_at_def i64_max_def Let_def)

section \<open>Properties\<close>

text \<open>
  C29. A live price is a true average: in every book built by recording samples and failures,
  when a rail answers, its current price is the floor of the mean, over every second of the
  last window, of the price in force at that second, its reference price is the same mean over
  the window before, and the newest sample is within the staleness bound.
\<close>

theorem live_price_is_mean:
  assumes "live_book config book" and "rail_prices book (book_rails book c) c now = Inr (p, ref)"
    and "w = price_window_secs config" and "0 < w" and "w < 2 ^ 63" and "now \<le> i64_max"
  shows "unat p = (\<Sum>t = now - w..<now. price_at (rail_history (book_rails book c)) t) div nat w
    \<and> unat ref = (\<Sum>t = now - w - w..<now - w. price_at (rail_history (book_rails book c)) t) div nat w
    \<and> (\<exists>s. newest (rail_history (book_rails book c)) = Some s \<and> now - feed_at s \<le> price_staleness_secs config)"
proof -
  have config: "book_config book = config" and ord: "ordered (rail_history (book_rails book c))"
    using live_book_ok[OF assms(1)] by (simp_all add: book_ok_def)
  note r = rail_prices_ok[OF assms(2), unfolded config assms(3)[symmetric]]
  have "now - w \<le> i64_max" using assms(4,6) by simp
  then show ?thesis
    using twap_sum[OF r(1) ord assms(4-6)] twap_sum[OF r(2) ord assms(4,5)] twap_fresh[OF r(1)]
    unfolding price_sum_def by (simp add: newest_def)
qed

theorem live_price_is_mean_witness:
  "(\<Sum>t = 15..<25. price_at (rail_history (book_rails sample_book Goldcoin)) t) div 10 = 1010000000000"
  using live_price_is_mean[OF sample_book_live sample_rail_prices(1), of 10]
  by (simp add: i64_max_def)

text \<open>
  C28. A final deposit is payable only at a live rate inside the band: when pricing it from the
  live book does not park it, it carries a quote at the rate the book answers, the stored
  figures are those of the quote, the rate has moved by less than the band plus one basis
  point from one window earlier, and both feeds are within the staleness bound. When the book
  refuses, the deposit carries no quote and is parked.
\<close>

theorem payable_deposit_in_band:
  assumes "price_final_deposit \<lparr>quote_lifetime_secs = lifetime, rate_mode = Live book\<rparr> route gross bps now scale = Inr fp"
    and "fold_park fp = None" and "unat (rate_band_bps (book_config book)) < 2 ^ 64 - 1"
  shows "\<exists>rate q. route_rate book route now = Inr rate
    \<and> compute_bridge_quote gross (rr_prices rate) bps now lifetime scale = Inr q
    \<and> fold_quote fp = Some q \<and> fold_breakdown fp = breakdown q
    \<and> abs (int (unat (rp_source_price_e12 (rr_prices rate))) * int (unat (rr_reference_destination_price_e12 rate))
          - int (unat (rr_reference_source_price_e12 rate)) * int (unat (rp_destination_price_e12 (rr_prices rate)))) * 10000
        < (int (unat (rate_band_bps (book_config book))) + 1)
          * (int (unat (rr_reference_source_price_e12 rate)) * int (unat (rp_destination_price_e12 (rr_prices rate))))
    \<and> (\<forall>c. c = source_chain route \<or> c = destination_chain route \<longrightarrow>
        (\<exists>s. newest (rail_history (book_rails book c)) = Some s
          \<and> now - feed_at s \<le> price_staleness_secs (book_config book)))"
proof -
  let ?st = "price_staleness_secs (book_config book)"
  from assms(1,2) obtain rate q where rate: "route_rate book route now = Inr rate"
    and q: "compute_bridge_quote gross (rr_prices rate) bps now lifetime scale = Inr q"
    and fp: "fold_quote fp = Some q" "fold_breakdown fp = breakdown q" and band: "\<not> rr_band_exceeded rate"
    by (auto simp: price_final_deposit_def rate_quote_def route_status_def Let_def split_beta
        split: sum.splits RateError.splits if_splits)
  note r = route_rate_ok[OF rate]
  have mv: "unat (rr_movement_bps rate) \<le> unat (rate_band_bps (book_config book))"
    using band r(4) by (simp add: word_le_nat_alt[symmetric] not_less)
  note in_band = movement_within[OF mv[unfolded r(3)] assms(3)]
  have fresh: "\<exists>s. newest (rail_history (book_rails book c)) = Some s \<and> now - feed_at s \<le> ?st"
    if "c = source_chain route \<or> c = destination_chain route" for c
    using that twap_fresh[OF rail_prices_ok(1)[OF r(1)]] twap_fresh[OF rail_prices_ok(1)[OF r(2)]]
    by (auto simp: newest_def)
  show ?thesis using rate q fp in_band fresh by blast
qed

lemma sample_rate:
  "\<exists>rate. route_rate sample_book GlcToSol 25 = Inr rate \<and> \<not> rr_band_exceeded rate
    \<and> rr_prices rate = \<lparr>rp_source_price_e12 = 1010000000000, rp_destination_price_e12 = 1000000000000,
      rp_source_feed_at = 20, rp_destination_feed_at = 20\<rparr>"
proof -
  have "unat (movement_bps 1010000000000 1000000000000 1000000000000 1000000000000) = 100"
    by (simp add: movement_bps_value)
  then have "movement_bps 1010000000000 1000000000000 1000000000000 1000000000000 \<le> 2500"
    by (simp add: word_le_nat_alt)
  then show ?thesis
    by (simp add: route_rate_def sample_rail_prices newest_feed_at_def newest_def sample_history)
      (simp add: sample_at_def not_less Let_def)
qed

lemma sample_deposit:
  "\<exists>fp. price_final_deposit \<lparr>quote_lifetime_secs = 60, rate_mode = Live sample_book\<rparr> GlcToSol 1000000 300 25 100 = Inr fp
    \<and> fold_park fp = None"
proof -
  obtain rate where rate: "route_rate sample_book GlcToSol 25 = Inr rate" "\<not> rr_band_exceeded rate"
    and p: "rr_prices rate = \<lparr>rp_source_price_e12 = 1010000000000, rp_destination_price_e12 = 1000000000000,
      rp_source_feed_at = 20, rp_destination_feed_at = 20\<rparr>"
    using sample_rate by blast
  obtain qb where "quoted_breakdown 1000000 1010000000000 1000000000000 300 100 = Inr qb"
    using quoted_breakdown_exists[of 100 1010000000000 1000000000000 300 1000000] by auto
  then show ?thesis
    using rate p by (simp add: price_final_deposit_def rate_quote_def route_status_def compute_bridge_quote_def Let_def)
qed

theorem payable_deposit_in_band_witness:
  "\<exists>rate q. route_rate sample_book GlcToSol 25 = Inr rate
    \<and> compute_bridge_quote 1000000 (rr_prices rate) 300 25 60 100 = Inr q"
proof -
  from sample_deposit obtain fp where fp: "price_final_deposit
      \<lparr>quote_lifetime_secs = 60, rate_mode = Live sample_book\<rparr> GlcToSol 1000000 300 25 100 = Inr fp"
    "fold_park fp = None" by blast
  from payable_deposit_in_band[OF fp] show ?thesis by (auto simp: sample_rate_config_def)
qed

end
