(* ===== verification/Ledger_Tables.thy ===== *)
theory Ledger_Tables
  imports Live_Rate
begin

text \<open>
  Tables of the service's SQLite ledger as lists of rows. \<open>find_by\<close> is the query of one row
  by its key, \<open>update_by\<close> an \<open>UPDATE ... WHERE key = ?\<close>, and \<open>next_rowid\<close> the id
  SQLite gives a row inserted into a table with an \<open>INTEGER PRIMARY KEY\<close>. The second half
  says how sums and multisets over a table change when one row does.

  A column of type \<open>INTEGER\<close> holds an \<open>i64\<close>. The sources convert a \<open>u64\<close> with
  \<open>as i64\<close> and back with \<open>as u64\<close>: \<open>as_i64\<close> and \<open>as_u64\<close> are these
  reinterpretations. Sums of columns are taken in unbounded integers.
\<close>

named_theorems ledger_simps

definition as_i64 :: "u64 \<Rightarrow> i64" where "as_i64 w = sint w"

definition as_u64 :: "i64 \<Rightarrow> u64" where "as_u64 i = word_of_int i"

lemma as_u64_as_i64 [simp]: "as_u64 (as_i64 w) = w"
  by (simp add: as_u64_def as_i64_def)

lemma as_i64_as_u64: "is_i64 i \<Longrightarrow> as_i64 (as_u64 i) = i"
proof -
  assume "is_i64 i"
  then have "- (2 ^ 63) \<le> i" "i < 2 ^ 63" by (simp_all add: is_i64_def i64_min_def i64_max_def)
  then have "signed_take_bit 63 i = i" by (simp add: signed_take_bit_int_eq_self)
  then show ?thesis by (simp add: as_u64_def as_i64_def signed_of_int)
qed

definition find_by :: "('r \<Rightarrow> 'k) \<Rightarrow> 'k \<Rightarrow> 'r list \<Rightarrow> 'r option" where
  "find_by key k rows = find (\<lambda>r. key r = k) rows"

definition update_by :: "('r \<Rightarrow> 'k) \<Rightarrow> 'k \<Rightarrow> ('r \<Rightarrow> 'r) \<Rightarrow> 'r list \<Rightarrow> 'r list" where
  "update_by key k f rows = map (\<lambda>r. if key r = k then f r else r) rows"

definition next_rowid :: "('r \<Rightarrow> i64) \<Rightarrow> 'r list \<Rightarrow> i64" where
  "next_rowid key rows = foldr (\<lambda>r m. max (key r) m) rows 0 + 1"

text \<open>\<open>String::trim\<close>, \<open>starts_with\<close>, and the part of a note before its first colon.\<close>

definition is_space :: "char \<Rightarrow> bool" where
  "is_space c \<longleftrightarrow> c \<in> {CHR '' '', CHR 0x09, CHR 0x0A, CHR 0x0B, CHR 0x0C, CHR 0x0D}"

definition trim :: "string \<Rightarrow> string" where
  "trim s = rev (dropWhile is_space (rev (dropWhile is_space s)))"

definition starts_with :: "string \<Rightarrow> string \<Rightarrow> bool" where
  "starts_with s p \<longleftrightarrow> take (length p) s = p"

definition reason_prefix :: "string \<Rightarrow> string" where
  "reason_prefix s = trim (takeWhile (\<lambda>c. c \<noteq> CHR '':'') s)"

text \<open>Decimal digits, for the numbers \<open>format!\<close> puts into notes.\<close>

fun show_nat :: "nat \<Rightarrow> string" where
  "show_nat n =
     (if n < 10 then [char_of (48 + n)] else show_nat (n div 10) @ [char_of (48 + n mod 10)])"

declare show_nat.simps [simp del]

definition show_int :: "int \<Rightarrow> string" where
  "show_int i = (if i < 0 then CHR ''-'' # show_nat (nat (- i)) else show_nat (nat i))"

text \<open>\<open>SELECT MAX(column)\<close>: null over no rows.\<close>

definition max_column :: "i64 list \<Rightarrow> i64 option" where
  "max_column xs = (case xs of [] \<Rightarrow> None | x # ys \<Rightarrow> Some (foldr max ys x))"

lemma max_column_None [simp]: "max_column xs = None \<longleftrightarrow> xs = []"
  by (simp add: max_column_def split: list.splits)

lemma max_column_Some: "max_column xs = Some m \<longleftrightarrow> m \<in> set xs \<and> (\<forall>x\<in>set xs. x \<le> m)"
proof (cases xs)
  case (Cons x ys)
  have "foldr max ys x \<in> insert x (set ys) \<and> x \<le> foldr max ys x \<and> (\<forall>y\<in>set ys. y \<le> foldr max ys x)"
    by (induction ys) (auto simp: max_def)
  with Cons show ?thesis by (auto simp: max_column_def intro: antisym)
qed (simp add: max_column_def)

section \<open>Rows and keys\<close>

lemma find_by_Nil [simp]: "find_by key k [] = None"
  and find_by_Cons [simp]:
    "find_by key k (r # rows) = (if key r = k then Some r else find_by key k rows)"
  by (simp_all add: find_by_def)

lemma update_by_Nil [simp]: "update_by key k f [] = []"
  and update_by_Cons [simp]:
    "update_by key k f (r # rows) = (if key r = k then f r else r) # update_by key k f rows"
  by (simp_all add: update_by_def)

lemma find_by_SomeD: "find_by key k rows = Some r \<Longrightarrow> r \<in> set rows \<and> key r = k"
  by (induction rows) (auto split: if_splits)

lemma find_by_None: "find_by key k rows = None \<longleftrightarrow> k \<notin> key ` set rows"
  by (induction rows) auto

lemma find_by_distinct:
  "distinct (map key rows) \<Longrightarrow> find_by key k rows = Some r \<longleftrightarrow> r \<in> set rows \<and> key r = k"
  by (induction rows) (auto simp: rev_image_eqI)

lemma find_by_append:
  "find_by key k (rows @ rows') =
     (case find_by key k rows of Some r \<Rightarrow> Some r | None \<Rightarrow> find_by key k rows')"
  by (induction rows) auto

lemma update_by_id: "find_by key k rows = None \<Longrightarrow> update_by key k f rows = rows"
  by (induction rows) (auto split: if_splits)

lemma map_update_by: "(\<And>r. key r = k \<Longrightarrow> g (f r) = g r) \<Longrightarrow> map g (update_by key k f rows) = map g rows"
  by (induction rows) auto

lemma find_update_by:
  assumes "\<And>r. key (f r) = key r"
  shows "find_by key k' (update_by key k f rows) =
    map_option (\<lambda>r. if k' = k then f r else r) (find_by key k' rows)"
  by (induction rows) (auto simp: assms)

lemma set_update_by:
  "distinct (map key rows) \<Longrightarrow> find_by key k rows = Some r \<Longrightarrow>
     set (update_by key k f rows) = insert (f r) (set rows - {r})"
proof (induction rows)
  case (Cons x rows)
  show ?case
  proof (cases "key x = k")
    case True
    then have "update_by key k f rows = rows"
      using Cons.prems by (intro update_by_id) (auto simp: find_by_None)
    with True Cons.prems show ?thesis by auto
  next
    case False
    with Cons show ?thesis by (auto dest: find_by_SomeD)
  qed
qed simp

lemma mset_update_by:
  "distinct (map key rows) \<Longrightarrow> find_by key k rows = Some r \<Longrightarrow>
     mset (update_by key k f rows) = add_mset (f r) (mset rows - {#r#})"
proof (induction rows)
  case (Cons x rows)
  show ?case
  proof (cases "key x = k")
    case True
    then have "update_by key k f rows = rows"
      using Cons.prems by (intro update_by_id) (auto simp: find_by_None)
    with True Cons.prems show ?thesis by auto
  next
    case False
    with Cons have r: "r \<in> set rows" by (auto dest: find_by_SomeD)
    with False Cons show ?thesis
      by (simp add: add_mset_commute[of x "f r"] insert_DiffM2 diff_union_swap)
  qed
qed simp

lemma mset_find_by:
  "find_by key k rows = Some r \<Longrightarrow> mset rows = add_mset r (mset rows - {#r#})"
  by (auto dest: find_by_SomeD)

lemma next_rowid_gt: "r \<in> set rows \<Longrightarrow> key r < next_rowid key rows"
proof -
  have "r \<in> set rows \<Longrightarrow> key r \<le> foldr (\<lambda>r m. max (key r) m) rows 0"
    by (induction rows) auto
  then show "r \<in> set rows \<Longrightarrow> key r < next_rowid key rows" by (simp add: next_rowid_def)
qed

lemma next_rowid_pos: "0 < next_rowid key rows"
proof -
  have "0 \<le> foldr (\<lambda>r m. max (key r) m) rows 0" by (induction rows) auto
  then show ?thesis by (simp add: next_rowid_def)
qed

lemma next_rowid_fresh: "find_by key (next_rowid key rows) rows = None"
  using next_rowid_gt[of _ rows key] by (force simp: find_by_None)

end
