(* ===== verification/Ledger_State.thy ===== *)
theory Ledger_State
  imports Ledger_Tables
begin

text \<open>
  The data of the service's ledger, \<open>service/src/ledger/types.rs\<close> and the head of
  \<open>service/src/ledger/mod.rs\<close>: directions and the reserves they draw on, the states of a
  bridge request, the row of \<open>bridge_requests\<close> with the constraints its table declares, the
  row of \<open>reserve_ledger\<close>, the append-only state log, the error values, and the ledger as a
  record of its tables. An operation of the ledger is a function from the ledger to an error or to
  its outcome with the ledger it commits; an operation that rolls back returns the ledger
  it was given. A panic of an assertion is the error \<open>LedgerPanic\<close>: the transaction is
  dropped and nothing is written.
\<close>

section \<open>Directions and reserves\<close>

datatype ReserveDirection = GoldcoinReserve | SolanaReserve | RobinhoodReserve

fun reserve_as_str :: "ReserveDirection \<Rightarrow> string" where
  "reserve_as_str GoldcoinReserve = ''GoldcoinReserve''"
| "reserve_as_str SolanaReserve = ''SolanaReserve''"
| "reserve_as_str RobinhoodReserve = ''RobinhoodReserve''"

definition reserve_from_str :: "string \<Rightarrow> (string, ReserveDirection) result" where
  "reserve_from_str s =
     (if s = ''GoldcoinReserve'' then Inr GoldcoinReserve
      else if s = ''SolanaReserve'' then Inr SolanaReserve
      else if s = ''RobinhoodReserve'' then Inr RobinhoodReserve
      else Inl s)"

fun direction_as_str :: "RequestDirection \<Rightarrow> string" where
  "direction_as_str DirGlcToSol = ''GlcToSol''"
| "direction_as_str DirSolToGlc = ''SolToGlc''"
| "direction_as_str DirGlcToRhn = ''GlcToRhn''"
| "direction_as_str DirRhnToGlc = ''RhnToGlc''"
| "direction_as_str DirSolToRhn = ''SolToRhn''"
| "direction_as_str DirRhnToSol = ''RhnToSol''"

definition direction_from_str :: "string \<Rightarrow> (string, RequestDirection) result" where
  "direction_from_str s =
     (if s = ''GlcToSol'' then Inr DirGlcToSol
      else if s = ''SolToGlc'' then Inr DirSolToGlc
      else if s = ''GlcToRhn'' then Inr DirGlcToRhn
      else if s = ''RhnToGlc'' then Inr DirRhnToGlc
      else if s = ''SolToRhn'' then Inr DirSolToRhn
      else if s = ''RhnToSol'' then Inr DirRhnToSol
      else Inl s)"

fun destination_reserve :: "RequestDirection \<Rightarrow> ReserveDirection" where
  "destination_reserve DirGlcToSol = SolanaReserve"
| "destination_reserve DirRhnToSol = SolanaReserve"
| "destination_reserve DirSolToGlc = GoldcoinReserve"
| "destination_reserve DirRhnToGlc = GoldcoinReserve"
| "destination_reserve DirGlcToRhn = RobinhoodReserve"
| "destination_reserve DirSolToRhn = RobinhoodReserve"

fun source_reserve :: "RequestDirection \<Rightarrow> ReserveDirection" where
  "source_reserve DirGlcToSol = GoldcoinReserve"
| "source_reserve DirGlcToRhn = GoldcoinReserve"
| "source_reserve DirSolToGlc = SolanaReserve"
| "source_reserve DirSolToRhn = SolanaReserve"
| "source_reserve DirRhnToGlc = RobinhoodReserve"
| "source_reserve DirRhnToSol = RobinhoodReserve"

definition source_is_goldcoin :: "RequestDirection \<Rightarrow> bool" where
  "source_is_goldcoin d \<longleftrightarrow> d \<in> {DirGlcToSol, DirGlcToRhn}"

definition destination_is_goldcoin :: "RequestDirection \<Rightarrow> bool" where
  "destination_is_goldcoin d \<longleftrightarrow> d \<in> {DirSolToGlc, DirRhnToGlc}"

definition touches_robinhood :: "RequestDirection \<Rightarrow> bool" where
  "touches_robinhood d \<longleftrightarrow> d \<in> {DirGlcToRhn, DirRhnToGlc, DirSolToRhn, DirRhnToSol}"

definition source_is_solana :: "RequestDirection \<Rightarrow> bool" where
  "source_is_solana d \<longleftrightarrow> d \<in> {DirSolToGlc, DirSolToRhn}"

definition destination_is_solana :: "RequestDirection \<Rightarrow> bool" where
  "destination_is_solana d \<longleftrightarrow> d \<in> {DirGlcToSol, DirRhnToSol}"

definition source_is_robinhood :: "RequestDirection \<Rightarrow> bool" where
  "source_is_robinhood d \<longleftrightarrow> d \<in> {DirRhnToGlc, DirRhnToSol}"

definition destination_is_robinhood :: "RequestDirection \<Rightarrow> bool" where
  "destination_is_robinhood d \<longleftrightarrow> d \<in> {DirGlcToRhn, DirSolToRhn}"

definition settles_on_release :: "RequestDirection \<Rightarrow> bool" where
  "settles_on_release d \<longleftrightarrow> d = DirGlcToSol"

definition settles_on_payout :: "RequestDirection \<Rightarrow> bool" where
  "settles_on_payout d \<longleftrightarrow> d = DirGlcToRhn"

fun destination_debited_at_destination_confirmed :: "RequestDirection \<Rightarrow> bool" where
  "destination_debited_at_destination_confirmed DirGlcToSol = True"
| "destination_debited_at_destination_confirmed DirGlcToRhn = True"
| "destination_debited_at_destination_confirmed DirSolToRhn = True"
| "destination_debited_at_destination_confirmed DirRhnToSol = True"
| "destination_debited_at_destination_confirmed DirSolToGlc = False"
| "destination_debited_at_destination_confirmed DirRhnToGlc = False"

definition direction_source_chain :: "RequestDirection \<Rightarrow> BridgeChain" where
  "direction_source_chain d = source_chain (route_of_direction d)"

definition direction_destination_chain :: "RequestDirection \<Rightarrow> BridgeChain" where
  "direction_destination_chain d = destination_chain (route_of_direction d)"

definition ALL_DIRECTIONS :: "RequestDirection list" where
  "ALL_DIRECTIONS = [DirGlcToSol, DirSolToGlc, DirGlcToRhn, DirRhnToGlc, DirSolToRhn, DirRhnToSol]"

lemmas direction_defs [ledger_simps] =
  source_is_goldcoin_def destination_is_goldcoin_def touches_robinhood_def source_is_solana_def
  destination_is_solana_def source_is_robinhood_def destination_is_robinhood_def
  settles_on_release_def settles_on_payout_def

datatype SourceChain = SrcGoldcoin | SrcSolana | SrcRobinhood

fun source_chain_as_str :: "SourceChain \<Rightarrow> string" where
  "source_chain_as_str SrcGoldcoin = ''goldcoin''"
| "source_chain_as_str SrcSolana = ''solana''"
| "source_chain_as_str SrcRobinhood = ''robinhood''"

definition source_chain_from_str :: "string \<Rightarrow> (string, SourceChain) result" where
  "source_chain_from_str s =
     (if s = ''goldcoin'' then Inr SrcGoldcoin
      else if s = ''solana'' then Inr SrcSolana
      else if s = ''robinhood'' then Inr SrcRobinhood
      else Inl s)"

fun has_contract_identity :: "SourceChain \<Rightarrow> bool" where
  "has_contract_identity SrcGoldcoin = False"
| "has_contract_identity SrcSolana = True"
| "has_contract_identity SrcRobinhood = True"

section \<open>States of a request\<close>

datatype (plugins only: code) RequestState =
    LiquidityReserved | AwaitingDeposit | DepositObserved | Confirming | SourceFinalized
  | SettlementAuthorized | DestinationSubmitted | DestinationConfirmed | Settled | Expired
  | Cancelled | Reorged | InsufficientReserveAtSettlement | DestinationSubmissionFailed
  | ManualReview | Failed | RefundPending | RefundBroadcast | Refunded | Closed

fun state_as_str :: "RequestState \<Rightarrow> string" where
  "state_as_str LiquidityReserved = ''LiquidityReserved''"
| "state_as_str AwaitingDeposit = ''AwaitingDeposit''"
| "state_as_str DepositObserved = ''DepositObserved''"
| "state_as_str Confirming = ''Confirming''"
| "state_as_str SourceFinalized = ''SourceFinalized''"
| "state_as_str SettlementAuthorized = ''SettlementAuthorized''"
| "state_as_str DestinationSubmitted = ''DestinationSubmitted''"
| "state_as_str DestinationConfirmed = ''DestinationConfirmed''"
| "state_as_str Settled = ''Settled''"
| "state_as_str Expired = ''Expired''"
| "state_as_str Cancelled = ''Cancelled''"
| "state_as_str Reorged = ''Reorged''"
| "state_as_str InsufficientReserveAtSettlement = ''InsufficientReserveAtSettlement''"
| "state_as_str DestinationSubmissionFailed = ''DestinationSubmissionFailed''"
| "state_as_str ManualReview = ''ManualReview''"
| "state_as_str Failed = ''Failed''"
| "state_as_str RefundPending = ''RefundPending''"
| "state_as_str RefundBroadcast = ''RefundBroadcast''"
| "state_as_str Refunded = ''Refunded''"
| "state_as_str Closed = ''Closed''"

definition state_from_str :: "string \<Rightarrow> (string, RequestState) result" where
  "state_from_str s =
     (if s = ''LiquidityReserved'' then Inr LiquidityReserved
      else if s = ''AwaitingDeposit'' then Inr AwaitingDeposit
      else if s = ''DepositObserved'' then Inr DepositObserved
      else if s = ''Confirming'' then Inr Confirming
      else if s = ''SourceFinalized'' then Inr SourceFinalized
      else if s = ''SettlementAuthorized'' then Inr SettlementAuthorized
      else if s = ''DestinationSubmitted'' then Inr DestinationSubmitted
      else if s = ''DestinationConfirmed'' then Inr DestinationConfirmed
      else if s = ''Settled'' then Inr Settled
      else if s = ''Expired'' then Inr Expired
      else if s = ''Cancelled'' then Inr Cancelled
      else if s = ''Reorged'' then Inr Reorged
      else if s = ''InsufficientReserveAtSettlement'' then Inr InsufficientReserveAtSettlement
      else if s = ''DestinationSubmissionFailed'' then Inr DestinationSubmissionFailed
      else if s = ''ManualReview'' then Inr ManualReview
      else if s = ''Failed'' then Inr Failed
      else if s = ''RefundPending'' then Inr RefundPending
      else if s = ''RefundBroadcast'' then Inr RefundBroadcast
      else if s = ''Refunded'' then Inr Refunded
      else if s = ''Closed'' then Inr Closed
      else Inl s)"

definition is_terminal :: "RequestState \<Rightarrow> bool" where
  "is_terminal s \<longleftrightarrow> s \<in> {Settled, Refunded, Closed}"

definition is_active :: "RequestState \<Rightarrow> bool" where
  "is_active s \<longleftrightarrow> s \<in> {LiquidityReserved, AwaitingDeposit, DepositObserved, Confirming,
     SourceFinalized, SettlementAuthorized, DestinationSubmitted}"

definition is_refund_lifecycle :: "RequestState \<Rightarrow> bool" where
  "is_refund_lifecycle s \<longleftrightarrow> s \<in> {RefundPending, RefundBroadcast, Refunded}"

datatype ManualReviewDisposition = NormalReview | OperatorHold | RapidBurstHold

fun disposition_as_str :: "ManualReviewDisposition \<Rightarrow> string" where
  "disposition_as_str NormalReview = ''normal''"
| "disposition_as_str OperatorHold = ''operator_hold''"
| "disposition_as_str RapidBurstHold = ''rapid_burst_hold''"

datatype OperatorDecision = Process | RefundDecision | Release

fun decision_as_str :: "OperatorDecision \<Rightarrow> string" where
  "decision_as_str Process = ''process''"
| "decision_as_str RefundDecision = ''refund''"
| "decision_as_str Release = ''release''"

datatype ClosureDisposition = RefundedOutOfBand | RetainedPerTerms | ReconciledToChain

fun closure_as_str :: "ClosureDisposition \<Rightarrow> string" where
  "closure_as_str RefundedOutOfBand = ''refunded_out_of_band''"
| "closure_as_str RetainedPerTerms = ''retained_per_terms''"
| "closure_as_str ReconciledToChain = ''reconciled_to_chain''"

definition closures_enabled_on :: "bool \<Rightarrow> ClosureDisposition list" where
  "closures_enabled_on retained_cancel_enabled =
     filter (\<lambda>d. retained_cancel_enabled \<or> d \<noteq> RetainedPerTerms)
       [RefundedOutOfBand, RetainedPerTerms, ReconciledToChain]"

datatype SolanaRefundState = SrPending | SrBroadcast | SrConfirmed

fun solana_refund_as_str :: "SolanaRefundState \<Rightarrow> string" where
  "solana_refund_as_str SrPending = ''Pending''"
| "solana_refund_as_str SrBroadcast = ''Broadcast''"
| "solana_refund_as_str SrConfirmed = ''Confirmed''"

datatype GoldcoinRefundState = GrBuilt | GrSigned | GrBroadcast | GrRefunded

fun goldcoin_refund_as_str :: "GoldcoinRefundState \<Rightarrow> string" where
  "goldcoin_refund_as_str GrBuilt = ''Built''"
| "goldcoin_refund_as_str GrSigned = ''Signed''"
| "goldcoin_refund_as_str GrBroadcast = ''Broadcast''"
| "goldcoin_refund_as_str GrRefunded = ''Refunded''"

text \<open>The \<open>state\<close> column of \<open>goldcoin_payouts\<close>, a string restricted by its \<open>CHECK\<close>.\<close>

datatype PayoutState = PayoutBuilt | PayoutSigned | PayoutBroadcast | PayoutConfirmed | PayoutCompleted

text \<open>The \<open>state\<close> column of \<open>vault_utxos\<close>.\<close>

datatype UtxoState = UtxoAvailable | UtxoReserved | UtxoSpent | UtxoUnconfirmed

datatype SplitState = SplitBuilt | SplitSigned | SplitBroadcast | SplitConfirmed | SplitAbandoned

section \<open>Rows\<close>

record QuoteColumns =
  qc_source_price_e12 :: "i64 option"
  qc_destination_price_e12 :: "i64 option"
  qc_gross_out_atomic :: "i64 option"
  qc_quoted_at :: "i64 option"
  qc_quote_expires_at :: "i64 option"
  qc_source_feed_at :: "i64 option"
  qc_destination_feed_at :: "i64 option"

record BridgeRequest =
  br_id :: i64
  br_direction :: RequestDirection
  br_state :: RequestState
  br_gross_amount_atomic :: i64
  br_fee_bps :: i64
  br_fee_amount_atomic :: i64
  br_net_amount_atomic :: i64
  br_net_destination_atomic :: i64
  br_recipient :: bytes
  br_requester :: "bytes option"
  br_source_wallet :: "bytes option"
  br_created_at :: i64
  br_reserved_at :: "i64 option"
  br_reservation_expires_at :: "i64 option"
  br_source_chain :: SourceChain
  br_source_contract :: "bytes option"
  br_source_txid :: "bytes32 option"
  br_source_vout :: "u32 option"
  br_source_obligation_index :: "i64 option"
  br_source_block_height :: "i64 option"
  br_source_block_hash :: "bytes32 option"
  br_source_confirmations :: i64
  br_source_finalized_at :: "i64 option"
  br_observed_amount_atomic :: "i64 option"
  br_deposit_address :: "string option"
  br_deposit_script_pubkey_hex :: "string option"
  br_deposit_redeem_script_hex :: "string option"
  br_settlement_claim_hash :: "bytes option"
  br_destination_txid :: "bytes option"
  br_destination_confirmations :: i64
  br_settled_at :: "i64 option"
  br_failure_reason :: "string option"
  br_manual_review_note :: "string option"
  br_auto_resume_hold_note :: "string option"
  br_auto_resume_hold_until :: "i64 option"
  br_manual_review_disposition :: ManualReviewDisposition
  br_hold_reason :: "string option"
  br_held_by :: "string option"
  br_hold_started_at :: "i64 option"
  br_review_after :: "i64 option"
  br_operator_decision :: "OperatorDecision option"
  br_operator_decision_at :: "i64 option"
  br_operator_note :: "string option"
  br_quote :: QuoteColumns
  br_quote_locked_at :: "i64 option"

record ReserveRow =
  rv_total_reserve_balance :: i64
  rv_balance_refreshed_at :: i64
  rv_protected_minimum :: i64
  rv_target_reserve :: i64
  rv_warning_reserve :: i64
  rv_critical_reserve :: i64
  rv_reserved_liquidity :: i64
  rv_pending_obligations :: i64
  rv_settled_liquidity_total :: i64
  rv_accrued_fees_atomic :: i64
  rv_paused :: bool
  rv_pause_reason :: "string option"
  rv_admission_closed :: bool
  rv_admission_reason :: "string option"
  rv_utxo_pool_min_available_count :: i64
  rv_utxo_pool_warning_count :: i64
  rv_admission_buffer_atomic :: i64
  rv_admission_reopen_atomic :: i64
  rv_liquidity_admission_closed :: bool
  rv_liquidity_admission_closed_at :: "i64 option"

record StateLogEntry =
  sl_request_id :: i64
  sl_from :: "RequestState option"
  sl_to :: RequestState
  sl_at :: i64
  sl_reason :: "string option"
  sl_actor :: string

record RouteAdmissionRow =
  ra_admission_closed :: bool
  ra_admission_closed_reason :: "string option"
  ra_updated_at :: i64

record RouteLedgerRow =
  rl_enabled :: bool
  rl_disabled_reason :: "string option"
  rl_updated_at :: i64

record RapidBurstPolicy =
  rb_enabled :: bool
  rb_window_secs :: i64
  rb_max_per_source_wallet :: u32
  rb_max_per_destination_wallet :: u32
  rb_max_per_pair :: u32
  rb_minimum_review_hold_secs :: i64
  rb_cap_sized_min_atomic :: u64
  rb_max_cap_sized_per_window :: u32

record VaultUtxoRow =
  vu_txid :: bytes32
  vu_vout :: u32
  vu_amount_atomic :: i64
  vu_script_pubkey_hex :: string
  vu_confirmations :: i64
  vu_first_seen_at :: i64
  vu_state :: UtxoState
  vu_reserved_by :: "i64 option"
  vu_reserved_at :: "i64 option"
  vu_spent_by_txid :: "bytes32 option"
  vu_zero_conf_hold_reason :: "string option"

record VaultUtxoSplitRow =
  vs_id :: i64
  vs_source_txid :: bytes32
  vs_source_vout :: u32
  vs_source_amount_atomic :: i64
  vs_chunk_count :: i64
  vs_chunk_target_atomic :: i64
  vs_fee_atomic :: i64
  vs_unsigned_tx_hex :: string
  vs_signed_tx_hex :: "string option"
  vs_txid :: "bytes32 option"
  vs_state :: SplitState
  vs_note :: string
  vs_built_at :: i64
  vs_signed_at :: "i64 option"
  vs_broadcast_at :: "i64 option"
  vs_confirmed_at :: "i64 option"
  vs_abandoned_at :: "i64 option"
  vs_abandon_reason :: "string option"
  vs_missing_inputs_since :: "i64 option"

record TxInputRow =
  in_request_id :: i64
  in_input_order :: i64
  in_txid :: bytes32
  in_vout :: u32
  in_amount_atomic :: i64

record ChangeOutputRow =
  co_request_id :: i64
  co_output_order :: i64
  co_amount_atomic :: i64

record ChangeOutpointRow =
  cp_txid :: bytes32
  cp_vout :: i64
  cp_request_id :: i64
  cp_amount_atomic :: i64
  cp_unconfirmed_ancestor_depth :: i64

record GoldcoinPayoutRow =
  gp_request_id :: i64
  gp_commitment_hash :: bytes32
  gp_payout_atomic :: i64
  gp_change_atomic :: i64
  gp_fee_atomic :: i64
  gp_dest_p2pkh_hash :: "160 word"
  gp_unsigned_tx_hex :: "string option"
  gp_signed_tx_hex :: "string option"
  gp_txid :: "bytes32 option"
  gp_state :: PayoutState
  gp_built_at :: i64
  gp_signed_at :: "i64 option"
  gp_broadcast_at :: "i64 option"
  gp_confirmations :: i64
  gp_mined_height :: "i64 option"
  gp_completed_at :: "i64 option"
  gp_onchain_completion_signature :: "bytes option"
  gp_onchain_completion_submitted_at :: "i64 option"
  gp_completion_submissions :: i64
  gp_onchain_completed_at :: "i64 option"

record GoldcoinRefundRow =
  gr_request_id :: i64
  gr_source_txid :: bytes32
  gr_source_vout :: u32
  gr_observed_amount_atomic :: i64
  gr_source_input_txid :: bytes32
  gr_source_input_vout :: u32
  gr_refund_dest_p2pkh_hash :: "160 word"
  gr_refund_dest_address :: string
  gr_refund_amount_atomic :: i64
  gr_fee_atomic :: i64
  gr_unsigned_tx_hex :: "string option"
  gr_signed_tx_hex :: "string option"
  gr_txid :: "bytes32 option"
  gr_confirmations :: i64
  gr_state :: GoldcoinRefundState
  gr_manual_review_reason :: string
  gr_note :: string
  gr_created_by :: string
  gr_built_at :: i64
  gr_signed_at :: "i64 option"
  gr_broadcast_at :: "i64 option"
  gr_refunded_at :: "i64 option"
  gr_reservation_released :: bool

record SolanaRefundRow =
  sr_request_id :: i64
  sr_obligation_index :: i64
  sr_nonce :: i64
  sr_amount_solana_atomic :: i64
  sr_requester :: bytes32
  sr_destination_token_account :: bytes32
  sr_reserve_mint :: bytes32
  sr_token_program :: bytes32
  sr_manual_review_reason :: string
  sr_note :: string
  sr_created_by :: string
  sr_state :: SolanaRefundState
  sr_created_at :: i64
  sr_refund_signature :: "string option"
  sr_recent_blockhash :: "string option"
  sr_attestation_epoch :: "i64 option"
  sr_broadcast_at :: "i64 option"
  sr_confirmed_at :: "i64 option"

record RequestClosure =
  rc_request_id :: i64
  rc_disposition :: ClosureDisposition
  rc_reference :: string
  rc_note :: string
  rc_actor :: string
  rc_closed_at :: i64
  rc_from_state :: RequestState
  rc_manual_review_disposition :: ManualReviewDisposition

datatype RobinhoodTxKind = KindPayout | KindSettlement | KindRefund | KindTreasuryWithdraw

text \<open>
  The columns of \<open>robinhood_transactions\<close> the request ledger reads. Its own operations, in
  \<open>robinhood_tx.rs\<close>, are not part of this theory.
\<close>

record RobinhoodTxRow =
  rt_request_id :: "i64 option"
  rt_kind :: RobinhoodTxKind
  rt_state :: string

record IndexedBlock =
  ib_height :: i64
  ib_hash :: bytes32
  ib_prev_hash :: bytes32
  ib_block_time :: i64
  ib_indexed_at :: i64

record ReorgEvent =
  re_detected_at :: i64
  re_fork_height :: i64
  re_old_tip_height :: i64
  re_old_tip_hash :: bytes32
  re_new_tip_height :: i64
  re_new_tip_hash :: bytes32
  re_orphaned_count :: i64

record PostFinalityReorgEvent =
  pf_id :: i64
  pf_detected_at :: i64
  pf_fork_height :: i64
  pf_old_tip_height :: i64
  pf_affected_request_ids :: "i64 list"

record Ledger =
  requests :: "BridgeRequest list"
  reserves :: "ReserveDirection \<Rightarrow> ReserveRow option"
  state_log :: "StateLogEntry list"
  route_admission :: "Route \<Rightarrow> RouteAdmissionRow option"
  bridge_routes :: "Route \<Rightarrow> RouteLedgerRow option"
  burst_policy :: "RapidBurstPolicy option"
  vault_utxos :: "VaultUtxoRow list"
  vault_utxo_splits :: "VaultUtxoSplitRow list"
  goldcoin_payouts :: "GoldcoinPayoutRow list"
  payout_inputs :: "TxInputRow list"
  payout_change_outputs :: "ChangeOutputRow list"
  payout_change_outpoints :: "ChangeOutpointRow list"
  goldcoin_refunds :: "GoldcoinRefundRow list"
  refund_inputs :: "TxInputRow list"
  solana_refunds :: "SolanaRefundRow list"
  request_closures :: "RequestClosure list"
  robinhood_transactions :: "RobinhoodTxRow list"
  folded_robinhood_requests :: "i64 list"
  robinhood_bound_contract :: "bytes option"
  attested_releases :: "i64 list"
  retained_cancel_enabled :: bool
  indexed_blocks :: "IndexedBlock list"
  reorg_events :: "ReorgEvent list"
  post_finality_events :: "PostFinalityReorgEvent list"

section \<open>Errors\<close>

text \<open>
  The errors of the operations below; texts with interpolated values are the fixed words of the message.
  The first four are \<open>rusqlite\<close>'s: no row, a violated constraint, a \<open>u64\<close> parameter above
  \<open>i64::MAX\<close>, and a Rust panic inside the transaction.
\<close>

datatype WalletRole = Source | Destination

datatype (plugins only: code) LedgerError =
    SqliteNoRows
  | SqliteConstraint
  | SqliteIntegerRange
  | LedgerPanic
  | ReserveNotInitialized ReserveDirection
  | RouteNotOperatorSettable Route
  | RouteStateNotInitialized Route
  | RouteAdmissionStateNotInitialized Route
  | RequestNotFound i64
  | InvariantViolated ReserveDirection i64 i64 i64
  | BridgeQuoteError
  | PayoutAlreadyExists i64
  | VaultUtxoUnavailable nat nat
  | PayoutNotFound i64
  | VaultUtxoReservationDrifted i64 bytes32 u32
  | VaultUtxoNotFound bytes32 u32
  | VaultUtxoNotSplittable bytes32 u32 UtxoState
  | VaultUtxoAlreadySplit bytes32 u32
  | VaultUtxoSplitNotFound i64
  | VaultUtxoSplitNotRecoverable i64 SplitState
  | CompletionNotSubmitted i64
  | RobinhoodTxInvalid i64 string
  | NotAGoldcoinSourcedRequest i64 RequestDirection
  | DepositAddressAlreadySet i64 string string
  | NotASolToGlcRequest i64 RequestDirection
  | NotARhnToGlcRequest i64 RequestDirection
  | ManualReviewNotRecoverable i64 string
  | RefundNotEligible i64 string
  | RefundLifecycleExists i64 string
  | RefundNotFound i64
  | RefundWrongState i64 string string
  | GoldcoinRefundExists i64 string
  | GoldcoinRefundNotFound i64
  | GoldcoinRefundWrongState i64 string string
  | GlcRefundNotEligible i64 string
  | UtxoLiquidityLow i64 i64 i64
  | AdmissionLiquidityBufferLow i64 i64 i64 i64
  | InvalidAdmissionThresholds ReserveDirection u64 u64
  | InvalidRapidBurstPolicy
  | WalletWindowActive i64 WalletRole BridgeChain bytes i64

type_synonym 'a ledger_result = "(LedgerError, 'a \<times> Ledger) result"

end
