(* ===== verification/Ledger_Core.thy ===== *)
theory Ledger_Core
  imports Ledger_State
begin

text \<open>
  The statements every operation of the ledger is made of: reading one request, writing the
  \<open>bridge_requests\<close> table under its \<open>CHECK\<close>s and unique indexes, the append to
  the state log, and updates of a \<open>reserve_ledger\<close> row; then the operations on the reserves
  themselves and the amounts of a stored request, \<open>service/src/ledger/mod.rs\<close>.
\<close>

section \<open>The \<open>bridge_requests\<close> table\<close>

definition opt_all :: "('a \<Rightarrow> bool) \<Rightarrow> 'a option \<Rightarrow> bool" where
  "opt_all p x = (case x of None \<Rightarrow> True | Some y \<Rightarrow> p y)"

definition quote_columns_ok :: "QuoteColumns \<Rightarrow> i64 option \<Rightarrow> bool" where
  "quote_columns_ok q locked_at \<longleftrightarrow>
     opt_all (\<lambda>p. p > 0) (qc_source_price_e12 q)
     \<and> opt_all (\<lambda>p. p > 0) (qc_destination_price_e12 q)
     \<and> opt_all (\<lambda>g. g \<ge> 0) (qc_gross_out_atomic q)
     \<and> (qc_source_price_e12 q = None) = (qc_destination_price_e12 q = None)
     \<and> (qc_source_price_e12 q = None) = (qc_gross_out_atomic q = None)
     \<and> (qc_source_price_e12 q = None) = (qc_quoted_at q = None)
     \<and> (qc_source_price_e12 q = None) = (qc_quote_expires_at q = None)
     \<and> (qc_source_price_e12 q = None) = (qc_source_feed_at q = None)
     \<and> (qc_source_price_e12 q = None) = (qc_destination_feed_at q = None)
     \<and> (locked_at = None \<or> qc_source_price_e12 q \<noteq> None)"

definition request_row_ok :: "BridgeRequest \<Rightarrow> bool" where
  "request_row_ok r \<longleftrightarrow>
     br_gross_amount_atomic r > 0
     \<and> opt_all (\<lambda>a. a > 0) (br_observed_amount_atomic r)
     \<and> (br_source_chain r \<noteq> SrcGoldcoin \<or> br_source_contract r = None)
     \<and> (br_source_chain r = SrcGoldcoin \<or> br_source_contract r \<noteq> None)
     \<and> opt_all (\<lambda>c. c \<noteq> []) (br_source_contract r)
     \<and> (br_source_obligation_index r = None \<or> br_source_contract r \<noteq> None)
     \<and> opt_all (\<lambda>w. w \<noteq> []) (br_source_wallet r)
     \<and> opt_all (\<lambda>n. n \<noteq> []) (br_auto_resume_hold_note r)
     \<and> opt_all (\<lambda>n. n \<noteq> []) (br_hold_reason r)
     \<and> opt_all (\<lambda>n. n \<noteq> []) (br_held_by r)
     \<and> opt_all (\<lambda>n. n \<noteq> []) (br_operator_note r)
     \<and> quote_columns_ok (br_quote r) (br_quote_locked_at r)"

fun glc_source :: "BridgeRequest \<Rightarrow> (bytes32 \<times> u32) option" where
  "glc_source r = (case (br_source_txid r, br_source_vout r) of (Some t, Some v) \<Rightarrow> Some (t, v) | _ \<Rightarrow> None)"

fun obligation_source :: "BridgeRequest \<Rightarrow> (SourceChain \<times> bytes \<times> i64) option" where
  "obligation_source r = (case (br_source_contract r, br_source_obligation_index r) of
     (Some c, Some i) \<Rightarrow> Some (br_source_chain r, c, i) | _ \<Rightarrow> None)"

fun solana_obligation :: "BridgeRequest \<Rightarrow> i64 option" where
  "solana_obligation r = (if br_source_chain r = SrcSolana then br_source_obligation_index r else None)"

text \<open>The non-null entries of an index; unique when they are distinct.\<close>

definition index_of :: "('r \<Rightarrow> 'i option) \<Rightarrow> 'r list \<Rightarrow> 'i list" where
  "index_of ix rows = map the (filter (\<lambda>x. x \<noteq> None) (map ix rows))"

definition unique_indexes :: "BridgeRequest list \<Rightarrow> bool" where
  "unique_indexes rows \<longleftrightarrow>
     distinct (index_of glc_source rows)
     \<and> distinct (index_of br_deposit_script_pubkey_hex rows)
     \<and> distinct (index_of obligation_source rows)
     \<and> distinct (index_of solana_obligation rows)"

definition write_requests :: "Ledger \<Rightarrow> BridgeRequest list \<Rightarrow> (LedgerError, Ledger) result" where
  "write_requests l rows =
     require (list_all request_row_ok rows \<and> unique_indexes rows) SqliteConstraint
       (Inr (l\<lparr>requests := rows\<rparr>))"

definition get_request :: "Ledger \<Rightarrow> i64 \<Rightarrow> BridgeRequest option" where
  "get_request l k = find_by br_id k (requests l)"

definition update_request :: "Ledger \<Rightarrow> i64 \<Rightarrow> (BridgeRequest \<Rightarrow> BridgeRequest) \<Rightarrow> (LedgerError, Ledger) result" where
  "update_request l k f = write_requests l (update_by br_id k f (requests l))"

definition insert_request :: "Ledger \<Rightarrow> BridgeRequest \<Rightarrow> (LedgerError, i64 \<times> Ledger) result" where
  "insert_request l row =
     (let id = next_rowid br_id (requests l) in
      try_bind (write_requests l (requests l @ [row\<lparr>br_id := id\<rparr>])) (\<lambda>l'. Inr (id, l')))"

definition log_transition ::
  "i64 \<Rightarrow> RequestState option \<Rightarrow> RequestState \<Rightarrow> i64 \<Rightarrow> string option \<Rightarrow> string \<Rightarrow> Ledger \<Rightarrow> Ledger" where
  "log_transition request_id from to at reason actor l =
     l\<lparr>state_log := state_log l @
       [\<lparr>sl_request_id = request_id, sl_from = from, sl_to = to, sl_at = at, sl_reason = reason,
         sl_actor = actor\<rparr>]\<rparr>"

definition no_quote_columns :: QuoteColumns where
  "no_quote_columns = \<lparr>qc_source_price_e12 = None, qc_destination_price_e12 = None,
     qc_gross_out_atomic = None, qc_quoted_at = None, qc_quote_expires_at = None,
     qc_source_feed_at = None, qc_destination_feed_at = None\<rparr>"

text \<open>A row as an \<open>INSERT\<close> leaves the columns it does not name.\<close>

definition blank_request :: BridgeRequest where
  "blank_request = \<lparr>br_id = 0, br_direction = DirGlcToSol, br_state = LiquidityReserved,
     br_gross_amount_atomic = 0, br_fee_bps = 0, br_fee_amount_atomic = 0, br_net_amount_atomic = 0,
     br_net_destination_atomic = 0, br_recipient = [], br_requester = None, br_source_wallet = None,
     br_created_at = 0, br_reserved_at = None, br_reservation_expires_at = None,
     br_source_chain = SrcGoldcoin, br_source_contract = None, br_source_txid = None,
     br_source_vout = None, br_source_obligation_index = None, br_source_block_height = None,
     br_source_block_hash = None, br_source_confirmations = 0, br_source_finalized_at = None,
     br_observed_amount_atomic = None, br_deposit_address = None,
     br_deposit_script_pubkey_hex = None, br_deposit_redeem_script_hex = None,
     br_settlement_claim_hash = None, br_destination_txid = None, br_destination_confirmations = 0,
     br_settled_at = None, br_failure_reason = None, br_manual_review_note = None,
     br_auto_resume_hold_note = None, br_auto_resume_hold_until = None,
     br_manual_review_disposition = NormalReview, br_hold_reason = None, br_held_by = None,
     br_hold_started_at = None, br_review_after = None, br_operator_decision = None,
     br_operator_decision_at = None, br_operator_note = None, br_quote = no_quote_columns,
     br_quote_locked_at = None\<rparr>"

section \<open>Amounts and quotes of a request\<close>

record RequestAmounts =
  am_gross_atomic :: u64
  am_fee_bps :: u64
  am_fee_atomic :: u64
  am_net_atomic :: u64
  am_net_destination_atomic :: u64
  am_quote :: "BridgeQuote option"

definition amounts_from_quote :: "BridgeQuote \<Rightarrow> u64 \<Rightarrow> RequestAmounts" where
  "amounts_from_quote quote net_destination_atomic =
     \<lparr>am_gross_atomic = bq_gross_in quote, am_fee_bps = bq_fee_bps quote,
      am_fee_atomic = bq_fee_out quote, am_net_atomic = bq_net_out quote,
      am_net_destination_atomic = net_destination_atomic, am_quote = Some quote\<rparr>"

definition quote_columns_of :: "BridgeQuote \<Rightarrow> QuoteColumns" where
  "quote_columns_of q =
     \<lparr>qc_source_price_e12 = Some (as_i64 (bq_source_price_e12 q)),
      qc_destination_price_e12 = Some (as_i64 (bq_destination_price_e12 q)),
      qc_gross_out_atomic = Some (as_i64 (bq_gross_out q)), qc_quoted_at = Some (bq_quoted_at q),
      qc_quote_expires_at = Some (bq_quote_expires_at q),
      qc_source_feed_at = Some (bq_source_feed_at q),
      qc_destination_feed_at = Some (bq_destination_feed_at q)\<rparr>"

definition for_new_request :: "RequestAmounts \<Rightarrow> (LedgerError, QuoteColumns) result" where
  "for_new_request amounts =
     (case am_quote amounts of
        None \<Rightarrow> Inr no_quote_columns
      | Some q \<Rightarrow>
          require (\<not> (bq_gross_in q \<noteq> am_gross_atomic amounts \<or> bq_fee_bps q \<noteq> am_fee_bps amounts
            \<or> bq_fee_out q \<noteq> am_fee_atomic amounts \<or> bq_net_out q \<noteq> am_net_atomic amounts))
            BridgeQuoteError (
          Inr (quote_columns_of q)))"

definition quote_locked_at_fold :: "QuoteColumns \<Rightarrow> i64 \<Rightarrow> i64 option" where
  "quote_locked_at_fold q now = map_option (\<lambda>_. now) (qc_source_price_e12 q)"

definition row_quote :: "BridgeRequest \<Rightarrow> PersistedQuote option" where
  "row_quote r =
     (let q = br_quote r in
      case (qc_source_price_e12 q, qc_destination_price_e12 q, qc_gross_out_atomic q, qc_quoted_at q,
            qc_quote_expires_at q, qc_source_feed_at q, qc_destination_feed_at q) of
        (Some sp, Some dp, Some g, Some qa, Some qe, Some sf, Some df) \<Rightarrow>
          Some \<lparr>pq_source_price_e12 = as_u64 sp, pq_destination_price_e12 = as_u64 dp,
            pq_gross_out_atomic = as_u64 g, pq_quoted_at = qa, pq_quote_expires_at = qe,
            pq_source_feed_at = sf, pq_destination_feed_at = df, pq_locked_at = br_quote_locked_at r\<rparr>
      | _ \<Rightarrow> None)"

definition request_destination_scale :: "BridgeRequest \<Rightarrow> u64" where
  "request_destination_scale r =
     (if \<not> destination_is_solana (br_direction r) then 1
      else let net = as_u64 (br_net_amount_atomic r); dest = as_u64 (br_net_destination_atomic r) in
        if dest > 0 \<and> net mod dest = 0 \<and> net div dest > 0 then net div dest else 1)"

definition verify_breakdown :: "BridgeRequest \<Rightarrow> (ConversionError, FeeBreakdown) result" where
  "verify_breakdown r =
     verify_request_amounts (row_quote r) (as_u64 (br_gross_amount_atomic r)) (as_u64 (br_fee_bps r))
       (as_u64 (br_fee_amount_atomic r)) (as_u64 (br_net_amount_atomic r)) (request_destination_scale r)"

definition request_expected_net_for_gross ::
  "BridgeRequest \<Rightarrow> CanonicalAtomic \<Rightarrow> (ConversionError, CanonicalAtomic) result" where
  "request_expected_net_for_gross r gross_in =
     expected_net_for_gross (row_quote r) gross_in (as_u64 (br_fee_bps r)) (request_destination_scale r)"

text \<open>\<open>i64\<close> division and remainder of Rust are on positive operands here.\<close>

definition destination_scale_of :: "RequestDirection \<Rightarrow> i64 \<Rightarrow> i64 \<Rightarrow> u64" where
  "destination_scale_of direction net_atomic net_destination_atomic =
     (if \<not> destination_is_solana direction \<or> net_destination_atomic \<le> 0 \<or> net_atomic \<le> 0 then 1
      else if net_atomic mod net_destination_atomic = 0
        then as_u64 (net_atomic div net_destination_atomic)
      else 1)"

section \<open>Reserves\<close>

definition update_reserve :: "ReserveDirection \<Rightarrow> (ReserveRow \<Rightarrow> ReserveRow) \<Rightarrow> Ledger \<Rightarrow> Ledger" where
  "update_reserve d f l = l\<lparr>reserves := (reserves l)(d := map_option f (reserves l d))\<rparr>"

text \<open>An update that reports \<open>ReserveNotInitialized\<close> when it matched no row.\<close>

definition update_reserve_or_fail ::
  "ReserveDirection \<Rightarrow> (ReserveRow \<Rightarrow> ReserveRow) \<Rightarrow> Ledger \<Rightarrow> (LedgerError, Ledger) result" where
  "update_reserve_or_fail d f l =
     require (reserves l d \<noteq> None) (ReserveNotInitialized d) (Inr (update_reserve d f l))"

definition reserve_liquidity :: "i64 \<Rightarrow> ReserveRow \<Rightarrow> ReserveRow" where
  "reserve_liquidity amount row = row\<lparr>rv_reserved_liquidity := rv_reserved_liquidity row + amount\<rparr>"

definition release_liquidity :: "i64 \<Rightarrow> ReserveRow \<Rightarrow> ReserveRow" where
  "release_liquidity amount row = row\<lparr>rv_reserved_liquidity := rv_reserved_liquidity row - amount\<rparr>"

definition add_pending :: "i64 \<Rightarrow> ReserveRow \<Rightarrow> ReserveRow" where
  "add_pending amount row = row\<lparr>rv_pending_obligations := rv_pending_obligations row + amount\<rparr>"

definition settle_liquidity :: "i64 \<Rightarrow> ReserveRow \<Rightarrow> ReserveRow" where
  "settle_liquidity amount row = row\<lparr>
     rv_reserved_liquidity := rv_reserved_liquidity row - amount,
     rv_pending_obligations := rv_pending_obligations row - amount,
     rv_settled_liquidity_total := rv_settled_liquidity_total row + amount,
     rv_total_reserve_balance := rv_total_reserve_balance row - amount\<rparr>"

definition accrue_fee :: "i64 \<Rightarrow> ReserveRow \<Rightarrow> ReserveRow" where
  "accrue_fee fee row = row\<lparr>rv_accrued_fees_atomic := rv_accrued_fees_atomic row + fee\<rparr>"

lemmas reserve_row_defs [ledger_simps] =
  reserve_liquidity_def release_liquidity_def add_pending_def settle_liquidity_def accrue_fee_def

definition configure_reserve ::
  "ReserveDirection \<Rightarrow> u64 \<Rightarrow> u64 \<Rightarrow> u64 \<Rightarrow> u64 \<Rightarrow> u64 \<Rightarrow> i64 \<Rightarrow> Ledger \<Rightarrow> (LedgerError, Ledger) result" where
  "configure_reserve direction initial_balance protected_minimum target_reserve warning_reserve
     critical_reserve now l =
     require (critical_reserve > protected_minimum) LedgerPanic (
     require (as_i64 critical_reserve > as_i64 protected_minimum) SqliteConstraint (
     Inr (l\<lparr>reserves := (reserves l)(direction := Some (
       case reserves l direction of
         None \<Rightarrow> \<lparr>rv_total_reserve_balance = as_i64 initial_balance, rv_balance_refreshed_at = now,
           rv_protected_minimum = as_i64 protected_minimum, rv_target_reserve = as_i64 target_reserve,
           rv_warning_reserve = as_i64 warning_reserve, rv_critical_reserve = as_i64 critical_reserve,
           rv_reserved_liquidity = 0, rv_pending_obligations = 0, rv_settled_liquidity_total = 0,
           rv_accrued_fees_atomic = 0, rv_paused = False, rv_pause_reason = None,
           rv_admission_closed = False, rv_admission_reason = None,
           rv_utxo_pool_min_available_count = 0, rv_utxo_pool_warning_count = 0,
           rv_admission_buffer_atomic = 0, rv_admission_reopen_atomic = 0,
           rv_liquidity_admission_closed = False, rv_liquidity_admission_closed_at = None\<rparr>
       | Some row \<Rightarrow> row\<lparr>rv_protected_minimum := as_i64 protected_minimum,
           rv_target_reserve := as_i64 target_reserve, rv_warning_reserve := as_i64 warning_reserve,
           rv_critical_reserve := as_i64 critical_reserve\<rparr>))\<rparr>)))"

definition refresh_reserve_balance ::
  "ReserveDirection \<Rightarrow> u64 \<Rightarrow> i64 \<Rightarrow> Ledger \<Rightarrow> (LedgerError, Ledger) result" where
  "refresh_reserve_balance direction observed_balance now l =
     update_reserve_or_fail direction (\<lambda>row. row\<lparr>rv_total_reserve_balance := as_i64 observed_balance,
       rv_balance_refreshed_at := now\<rparr>) l"

definition ledger_set_paused ::
  "ReserveDirection \<Rightarrow> bool \<Rightarrow> string option \<Rightarrow> Ledger \<Rightarrow> (LedgerError, Ledger) result" where
  "ledger_set_paused direction paused reason l =
     update_reserve_or_fail direction (\<lambda>row. row\<lparr>rv_paused := paused, rv_pause_reason := reason\<rparr>) l"

definition ledger_is_paused :: "ReserveDirection \<Rightarrow> Ledger \<Rightarrow> (LedgerError, bool) result" where
  "ledger_is_paused direction l =
     try_bind (ok_or (reserves l direction) (ReserveNotInitialized direction)) (\<lambda>row. Inr (rv_paused row))"

definition set_admission ::
  "ReserveDirection \<Rightarrow> bool \<Rightarrow> string option \<Rightarrow> Ledger \<Rightarrow> (LedgerError, Ledger) result" where
  "set_admission direction closed reason l =
     update_reserve_or_fail direction
       (\<lambda>row. row\<lparr>rv_admission_closed := closed, rv_admission_reason := reason\<rparr>) l"

definition is_admission_closed :: "ReserveDirection \<Rightarrow> Ledger \<Rightarrow> (LedgerError, bool) result" where
  "is_admission_closed direction l =
     try_bind (ok_or (reserves l direction) (ReserveNotInitialized direction))
       (\<lambda>row. Inr (rv_admission_closed row))"

definition set_utxo_pool_thresholds ::
  "ReserveDirection \<Rightarrow> u32 \<Rightarrow> u32 \<Rightarrow> Ledger \<Rightarrow> (LedgerError, Ledger) result" where
  "set_utxo_pool_thresholds direction min_available_count warning_count l =
     update_reserve_or_fail direction (\<lambda>row. row\<lparr>rv_utxo_pool_min_available_count := uint min_available_count,
       rv_utxo_pool_warning_count := uint warning_count\<rparr>) l"

definition reserve_row :: "ReserveDirection \<Rightarrow> Ledger \<Rightarrow> (LedgerError, i64 \<times> i64 \<times> i64) result" where
  "reserve_row direction l =
     try_bind (ok_or (reserves l direction) (ReserveNotInitialized direction)) (\<lambda>row.
     Inr (rv_total_reserve_balance row, rv_protected_minimum row, rv_reserved_liquidity row))"

definition row_headroom :: "ReserveRow \<Rightarrow> i64" where
  "row_headroom row = rv_total_reserve_balance row - rv_protected_minimum row - rv_reserved_liquidity row"

definition available_capacity :: "ReserveDirection \<Rightarrow> Ledger \<Rightarrow> (LedgerError, i64) result" where
  "available_capacity direction l =
     try_bind (reserve_row direction l) (\<lambda>(balance, protected_minimum, reserved).
     Inr (balance - protected_minimum - reserved))"

definition check_invariant :: "ReserveDirection \<Rightarrow> Ledger \<Rightarrow> (LedgerError, unit) result" where
  "check_invariant direction l =
     try_bind (reserve_row direction l) (\<lambda>(balance, protected_minimum, reserved).
     require (\<not> balance < protected_minimum + reserved)
       (InvariantViolated direction balance protected_minimum reserved) (Inr ()))"

definition route_enabled :: "Route \<Rightarrow> bool \<Rightarrow> Ledger \<Rightarrow> bool" where
  "route_enabled route if_absent l = (case bridge_routes l route of Some row \<Rightarrow> rl_enabled row | None \<Rightarrow> if_absent)"

definition set_route_enabled ::
  "Route \<Rightarrow> bool \<Rightarrow> string option \<Rightarrow> i64 \<Rightarrow> Ledger \<Rightarrow> (LedgerError, Ledger) result" where
  "set_route_enabled route enabled reason now l =
     require (is_operator_settable route) (RouteNotOperatorSettable route) (
     try_bind (ok_or (bridge_routes l route) (RouteStateNotInitialized route)) (\<lambda>row.
     Inr (l\<lparr>bridge_routes := (bridge_routes l)(route \<mapsto>
       row\<lparr>rl_enabled := enabled, rl_disabled_reason := (if enabled then None else reason),
         rl_updated_at := now\<rparr>)\<rparr>)))"

definition route_admission_closed_in :: "Route \<Rightarrow> Ledger \<Rightarrow> bool" where
  "route_admission_closed_in route l =
     (case route_admission l route of Some row \<Rightarrow> ra_admission_closed row | None \<Rightarrow> False)"

text \<open>\<open>Route::is_admission_settable\<close> holds of every route of the enumeration.\<close>

definition set_route_admission ::
  "Route \<Rightarrow> bool \<Rightarrow> string option \<Rightarrow> i64 \<Rightarrow> Ledger \<Rightarrow> (LedgerError, Ledger) result" where
  "set_route_admission route closed reason now l =
     try_bind (ok_or (route_admission l route) (RouteAdmissionStateNotInitialized route)) (\<lambda>row.
     Inr (l\<lparr>route_admission := (route_admission l)(route \<mapsto>
       row\<lparr>ra_admission_closed := closed, ra_admission_closed_reason := (if closed then reason else None),
         ra_updated_at := now\<rparr>)\<rparr>))"

end
