(* ===== verification/Ledger_Wallets.thy ===== *)
theory Ledger_Wallets
  imports Ledger_Core
begin

text \<open>
  The two anti-abuse rules of the ledger: one request per wallet, role and chain in any rolling 24
  hours (\<open>service/src/ledger/wallet_window.rs\<close>), and the rapid-burst classifier
  (\<open>service/src/ledger/rapid_burst.rs\<close>), with the notes under which a request is parked
  for manual review.
\<close>

section \<open>Reasons for manual review\<close>

definition MANUAL_REVIEW_REASON_FOREIGN_CONTRACT :: string where
  "MANUAL_REVIEW_REASON_FOREIGN_CONTRACT = ''foreign_contract''"

definition MANUAL_REVIEW_REASON_DESTINATION_PAYOUT_OUT_OF_BOUNDS :: string where
  "MANUAL_REVIEW_REASON_DESTINATION_PAYOUT_OUT_OF_BOUNDS = ''destination_payout_out_of_bounds''"

definition RESUME_DESTINATION_BOUND_REASON :: string where
  "RESUME_DESTINATION_BOUND_REASON = ''resume_destination_bound''"

definition MANUAL_REVIEW_REASON_ADMISSION_CLOSED :: string where
  "MANUAL_REVIEW_REASON_ADMISSION_CLOSED = ''admission_closed_at_fold''"

definition MANUAL_REVIEW_REASON_ROUTE_ADMISSION_CLOSED :: string where
  "MANUAL_REVIEW_REASON_ROUTE_ADMISSION_CLOSED = ''route_admission_closed_at_fold''"

definition MANUAL_REVIEW_REASON_PAUSED :: string where
  "MANUAL_REVIEW_REASON_PAUSED = ''reserve_paused_at_fold''"

definition MANUAL_REVIEW_REASON_INSUFFICIENT_CAPACITY :: string where
  "MANUAL_REVIEW_REASON_INSUFFICIENT_CAPACITY = ''insufficient_capacity_at_fold''"

definition MANUAL_REVIEW_REASON_ROUTE_DISABLED :: string where
  "MANUAL_REVIEW_REASON_ROUTE_DISABLED = ''route_disabled_at_fold''"

definition MANUAL_REVIEW_REASON_UTXO_LIQUIDITY_LOW :: string where
  "MANUAL_REVIEW_REASON_UTXO_LIQUIDITY_LOW = ''utxo_liquidity_low_at_fold''"

definition MANUAL_REVIEW_REASON_LIQUIDITY_BUFFER_LOW :: string where
  "MANUAL_REVIEW_REASON_LIQUIDITY_BUFFER_LOW = ''liquidity_buffer_low_at_fold''"

definition MANUAL_REVIEW_REASON_WALLET_SOURCE_24H_LIMIT :: string where
  "MANUAL_REVIEW_REASON_WALLET_SOURCE_24H_LIMIT = ''wallet_source_24h_limit''"

definition MANUAL_REVIEW_REASON_WALLET_DESTINATION_24H_LIMIT :: string where
  "MANUAL_REVIEW_REASON_WALLET_DESTINATION_24H_LIMIT = ''wallet_destination_24h_limit''"

definition LEGACY_MANUAL_REVIEW_REASON_RECIPIENT_RATE_LIMITED :: string where
  "LEGACY_MANUAL_REVIEW_REASON_RECIPIENT_RATE_LIMITED = ''recipient_rate_limited''"

definition LEGACY_MANUAL_REVIEW_REASON_SOURCE_WALLET_RATE_LIMITED :: string where
  "LEGACY_MANUAL_REVIEW_REASON_SOURCE_WALLET_RATE_LIMITED = ''source_wallet_rate_limited''"

definition MANUAL_REVIEW_REASON_RAPID_BURST_HOLD :: string where
  "MANUAL_REVIEW_REASON_RAPID_BURST_HOLD = ''rapid_burst_hold''"

definition MANUAL_REVIEW_REASON_INSUFFICIENT_CAPACITY_AT_LOCK :: string where
  "MANUAL_REVIEW_REASON_INSUFFICIENT_CAPACITY_AT_LOCK = ''insufficient_capacity_at_lock''"

definition REASON_FEED_UNAVAILABLE :: string where "REASON_FEED_UNAVAILABLE = ''bridge_rate_feed_unavailable''"

definition REASON_FEED_STALE :: string where "REASON_FEED_STALE = ''bridge_rate_feed_stale''"

definition REASON_WARMING_UP :: string where "REASON_WARMING_UP = ''bridge_rate_warming_up''"

definition LATE_DEPOSIT_NO_CAPACITY :: string where
  "LATE_DEPOSIT_NO_CAPACITY = ''late_deposit_no_capacity''"

lemmas review_reason_defs =
  MANUAL_REVIEW_REASON_FOREIGN_CONTRACT_def MANUAL_REVIEW_REASON_DESTINATION_PAYOUT_OUT_OF_BOUNDS_def
  RESUME_DESTINATION_BOUND_REASON_def MANUAL_REVIEW_REASON_ADMISSION_CLOSED_def
  MANUAL_REVIEW_REASON_ROUTE_ADMISSION_CLOSED_def MANUAL_REVIEW_REASON_PAUSED_def
  MANUAL_REVIEW_REASON_INSUFFICIENT_CAPACITY_def MANUAL_REVIEW_REASON_ROUTE_DISABLED_def
  MANUAL_REVIEW_REASON_UTXO_LIQUIDITY_LOW_def MANUAL_REVIEW_REASON_LIQUIDITY_BUFFER_LOW_def
  MANUAL_REVIEW_REASON_WALLET_SOURCE_24H_LIMIT_def MANUAL_REVIEW_REASON_WALLET_DESTINATION_24H_LIMIT_def
  LEGACY_MANUAL_REVIEW_REASON_RECIPIENT_RATE_LIMITED_def
  LEGACY_MANUAL_REVIEW_REASON_SOURCE_WALLET_RATE_LIMITED_def MANUAL_REVIEW_REASON_RAPID_BURST_HOLD_def
  MANUAL_REVIEW_REASON_INSUFFICIENT_CAPACITY_AT_LOCK_def REASON_FEED_UNAVAILABLE_def
  REASON_FEED_STALE_def REASON_WARMING_UP_def REASON_BAND_EXCEEDED_def LATE_DEPOSIT_NO_CAPACITY_def

definition BRIDGE_RATE_MANUAL_REVIEW_REASONS :: "string list" where
  "BRIDGE_RATE_MANUAL_REVIEW_REASONS =
     [REASON_FEED_UNAVAILABLE, REASON_FEED_STALE, REASON_WARMING_UP, REASON_BAND_EXCEEDED,
      MANUAL_REVIEW_REASON_INSUFFICIENT_CAPACITY_AT_LOCK]"

definition is_bridge_rate_manual_review_reason :: "string option \<Rightarrow> bool" where
  "is_bridge_rate_manual_review_reason note =
     (case note of None \<Rightarrow> False | Some n \<Rightarrow> n \<in> set BRIDGE_RATE_MANUAL_REVIEW_REASONS)"

definition is_wallet_window_manual_review_reason :: "string \<Rightarrow> bool" where
  "is_wallet_window_manual_review_reason note \<longleftrightarrow>
     note \<in> {MANUAL_REVIEW_REASON_WALLET_SOURCE_24H_LIMIT, MANUAL_REVIEW_REASON_WALLET_DESTINATION_24H_LIMIT,
       LEGACY_MANUAL_REVIEW_REASON_RECIPIENT_RATE_LIMITED, LEGACY_MANUAL_REVIEW_REASON_SOURCE_WALLET_RATE_LIMITED}"

definition RECOVERABLE_MANUAL_REVIEW_REASONS :: "string list" where
  "RECOVERABLE_MANUAL_REVIEW_REASONS =
     [REASON_BAND_EXCEEDED, MANUAL_REVIEW_REASON_ADMISSION_CLOSED,
      MANUAL_REVIEW_REASON_ROUTE_ADMISSION_CLOSED, MANUAL_REVIEW_REASON_PAUSED,
      MANUAL_REVIEW_REASON_INSUFFICIENT_CAPACITY, MANUAL_REVIEW_REASON_UTXO_LIQUIDITY_LOW,
      MANUAL_REVIEW_REASON_LIQUIDITY_BUFFER_LOW, MANUAL_REVIEW_REASON_WALLET_SOURCE_24H_LIMIT,
      MANUAL_REVIEW_REASON_WALLET_DESTINATION_24H_LIMIT,
      LEGACY_MANUAL_REVIEW_REASON_RECIPIENT_RATE_LIMITED,
      LEGACY_MANUAL_REVIEW_REASON_SOURCE_WALLET_RATE_LIMITED, MANUAL_REVIEW_REASON_RAPID_BURST_HOLD]"

definition is_recoverable_manual_review_reason :: "string option \<Rightarrow> bool" where
  "is_recoverable_manual_review_reason note =
     (case note of None \<Rightarrow> False | Some n \<Rightarrow> n \<in> set RECOVERABLE_MANUAL_REVIEW_REASONS)"

definition is_auto_resumable_manual_review_reason :: "string option \<Rightarrow> bool \<Rightarrow> bool" where
  "is_auto_resumable_manual_review_reason note liquidity_admission_open =
     (case note of
        None \<Rightarrow> False
      | Some n \<Rightarrow>
          if n = MANUAL_REVIEW_REASON_UTXO_LIQUIDITY_LOW then True
          else if n = MANUAL_REVIEW_REASON_LIQUIDITY_BUFFER_LOW then liquidity_admission_open
          else is_wallet_window_manual_review_reason n)"

definition is_held :: "BridgeRequest \<Rightarrow> bool" where
  "is_held r \<longleftrightarrow>
     (br_auto_resume_hold_note r \<noteq> None \<or> br_manual_review_disposition r \<noteq> NormalReview)
     \<and> br_operator_decision r = None"

definition excluded_from_auto_resume :: "BridgeRequest \<Rightarrow> bool" where
  "excluded_from_auto_resume r \<longleftrightarrow> br_auto_resume_hold_note r \<noteq> None \<or> is_held r"

datatype ManualReviewClass = Technical | OperatorHoldClass | AbuseHoldClass | Foreign

definition manual_review_class :: "BridgeRequest \<Rightarrow> ManualReviewClass" where
  "manual_review_class r =
     (case br_manual_review_disposition r of
        RapidBurstHold \<Rightarrow> AbuseHoldClass
      | OperatorHold \<Rightarrow> OperatorHoldClass
      | NormalReview \<Rightarrow>
          if br_auto_resume_hold_note r \<noteq> None then OperatorHoldClass
          else (case br_manual_review_note r of
              None \<Rightarrow> Technical
            | Some note \<Rightarrow>
                if note = MANUAL_REVIEW_REASON_RAPID_BURST_HOLD then AbuseHoldClass
                else if starts_with note MANUAL_REVIEW_REASON_FOREIGN_CONTRACT then Foreign
                else Technical))"

datatype AutoResumeBlockReason =
  GlobalDisabled | BlockOperatorHold | BlockAbuseHold | UnsupportedReason | NotInManualReview

definition auto_resume_block_reason :: "BridgeRequest \<Rightarrow> bool \<Rightarrow> bool \<Rightarrow> AutoResumeBlockReason option" where
  "auto_resume_block_reason r global_enabled liquidity_admission_open =
     (if br_state r \<noteq> ManualReview then Some NotInManualReview
      else (case manual_review_class r of
          AbuseHoldClass \<Rightarrow> Some BlockAbuseHold
        | OperatorHoldClass \<Rightarrow> Some BlockOperatorHold
        | Foreign \<Rightarrow> Some UnsupportedReason
        | Technical \<Rightarrow>
            if excluded_from_auto_resume r then Some BlockOperatorHold
            else if \<not> global_enabled then Some GlobalDisabled
            else if \<not> is_auto_resumable_manual_review_reason (br_manual_review_note r)
                liquidity_admission_open then Some UnsupportedReason
            else None))"

definition review_available :: "BridgeRequest \<Rightarrow> i64 \<Rightarrow> bool" where
  "review_available r now = (case br_review_after r of None \<Rightarrow> True | Some t \<Rightarrow> now \<ge> t)"

section \<open>The wallet window\<close>

definition WALLET_WINDOW_SECS :: i64 where "WALLET_WINDOW_SECS = 86400"

fun role_column :: "WalletRole \<Rightarrow> BridgeRequest \<Rightarrow> bytes option" where
  "role_column Source r = br_source_wallet r"
| "role_column Destination r = Some (br_recipient r)"

fun limit_reason :: "WalletRole \<Rightarrow> string" where
  "limit_reason Source = MANUAL_REVIEW_REASON_WALLET_SOURCE_24H_LIMIT"
| "limit_reason Destination = MANUAL_REVIEW_REASON_WALLET_DESTINATION_24H_LIMIT"

datatype WalletWindowScope = NewRequest | ExcludingRequest i64 | StrictPredecessorOf i64 i64

record RouteWalletEligibility =
  el_source_retry_after :: "i64 option"
  el_destination_retry_after :: "i64 option"

definition eligibility_blocker :: "RouteWalletEligibility \<Rightarrow> (WalletRole \<times> i64) option" where
  "eligibility_blocker e =
     (case (el_source_retry_after e, el_destination_retry_after e) of
        (Some t, _) \<Rightarrow> Some (Source, t)
      | (None, Some t) \<Rightarrow> Some (Destination, t)
      | (None, None) \<Rightarrow> None)"

definition is_eligible :: "RouteWalletEligibility \<Rightarrow> bool" where
  "is_eligible e \<longleftrightarrow> eligibility_blocker e = None"

definition eligibility_blocked_reasons :: "RouteWalletEligibility \<Rightarrow> string list" where
  "eligibility_blocked_reasons e =
     (if el_source_retry_after e \<noteq> None then [limit_reason Source] else [])
     @ (if el_destination_retry_after e \<noteq> None then [limit_reason Destination] else [])"

definition eligibility_review_note :: "RouteWalletEligibility \<Rightarrow> string option" where
  "eligibility_review_note e = map_option (\<lambda>(role, _). limit_reason role) (eligibility_blocker e)"

fun wallet_window_directions :: "BridgeChain \<Rightarrow> WalletRole \<Rightarrow> RequestDirection list" where
  "wallet_window_directions Goldcoin Source = [DirGlcToSol, DirGlcToRhn]"
| "wallet_window_directions Goldcoin Destination = [DirSolToGlc, DirRhnToGlc]"
| "wallet_window_directions Solana Source = [DirSolToGlc, DirSolToRhn]"
| "wallet_window_directions Solana Destination = [DirGlcToSol, DirRhnToSol]"
| "wallet_window_directions Robinhood Source = [DirRhnToGlc, DirRhnToSol]"
| "wallet_window_directions Robinhood Destination = [DirGlcToRhn, DirSolToRhn]"

definition RATE_LIMIT_EXCLUDED_STATES :: "RequestState list" where
  "RATE_LIMIT_EXCLUDED_STATES = [Failed, DestinationSubmissionFailed, InsufficientReserveAtSettlement,
     Cancelled, Expired, Reorged]"

fun in_scope :: "WalletWindowScope \<Rightarrow> BridgeRequest \<Rightarrow> bool" where
  "in_scope NewRequest r = True"
| "in_scope (ExcludingRequest own_id) r = (br_id r \<noteq> own_id)"
| "in_scope (StrictPredecessorOf created_at i) r =
     (br_created_at r < created_at \<or> br_created_at r = created_at \<and> br_id r < i)"

definition in_wallet_window ::
  "BridgeChain \<Rightarrow> WalletRole \<Rightarrow> bytes \<Rightarrow> i64 \<Rightarrow> WalletWindowScope \<Rightarrow> BridgeRequest \<Rightarrow> bool" where
  "in_wallet_window chain role wallet now scope r \<longleftrightarrow>
     br_direction r \<in> set (wallet_window_directions chain role)
     \<and> role_column role r = Some wallet
     \<and> br_created_at r > now - WALLET_WINDOW_SECS
     \<and> in_scope scope r
     \<and> br_state r \<notin> set RATE_LIMIT_EXCLUDED_STATES"

definition wallet_window_blocker_created_at ::
  "Ledger \<Rightarrow> BridgeChain \<Rightarrow> WalletRole \<Rightarrow> bytes \<Rightarrow> i64 \<Rightarrow> WalletWindowScope \<Rightarrow> i64 option" where
  "wallet_window_blocker_created_at l chain role wallet now scope =
     (if wallet = [] then None
      else max_column (map br_created_at (filter (in_wallet_window chain role wallet now scope) (requests l))))"

definition wallet_window_retry_after_in ::
  "Ledger \<Rightarrow> BridgeChain \<Rightarrow> WalletRole \<Rightarrow> bytes \<Rightarrow> i64 \<Rightarrow> WalletWindowScope \<Rightarrow> i64 option" where
  "wallet_window_retry_after_in l chain role wallet now scope =
     map_option (\<lambda>created_at. created_at + WALLET_WINDOW_SECS)
       (wallet_window_blocker_created_at l chain role wallet now scope)"

definition route_wallet_eligibility_in ::
  "Ledger \<Rightarrow> RequestDirection \<Rightarrow> bytes option \<Rightarrow> bytes option \<Rightarrow> i64 \<Rightarrow> WalletWindowScope \<Rightarrow> RouteWalletEligibility" where
  "route_wallet_eligibility_in l direction source destination now scope =
     \<lparr>el_source_retry_after = (case source of
        Some wallet \<Rightarrow> wallet_window_retry_after_in l (direction_source_chain direction) Source wallet now scope
      | None \<Rightarrow> None),
      el_destination_retry_after = (case destination of
        Some wallet \<Rightarrow> wallet_window_retry_after_in l (direction_destination_chain direction) Destination wallet now scope
      | None \<Rightarrow> None)\<rparr>"

section \<open>The rapid-burst classifier\<close>

datatype RapidBurstRule =
  SameSourceWallet | SameDestinationWallet | SameSourceDestinationPair | RepeatedCapSizedAmount

definition ALL_BURST_RULES :: "RapidBurstRule list" where
  "ALL_BURST_RULES = [SameSourceDestinationPair, SameSourceWallet, SameDestinationWallet, RepeatedCapSizedAmount]"

fun burst_rule_as_str :: "RapidBurstRule \<Rightarrow> string" where
  "burst_rule_as_str SameSourceWallet = ''same_source_wallet''"
| "burst_rule_as_str SameDestinationWallet = ''same_destination_wallet''"
| "burst_rule_as_str SameSourceDestinationPair = ''same_source_destination_pair''"
| "burst_rule_as_str RepeatedCapSizedAmount = ''repeated_cap_sized_amount''"

definition burst_hold_reason :: "RapidBurstRule \<Rightarrow> string" where
  "burst_hold_reason rule = ''rapid_burst:'' @ burst_rule_as_str rule"

record RapidBurstMatch =
  bm_rule :: RapidBurstRule
  bm_observed :: u32
  bm_limit :: u32
  bm_window_secs :: i64

definition burst_note :: "RapidBurstMatch \<Rightarrow> string" where
  "burst_note m = ''rapid-burst hold: '' @ burst_rule_as_str (bm_rule m) @ '' ''
     @ [CHR 0xE2, CHR 0x80, CHR 0x94] @ '' '' @ show_nat (unat (bm_observed m)) @ '' requests within ''
     @ show_int (bm_window_secs m) @ ''s (limit '' @ show_nat (unat (bm_limit m)) @ '')''"

definition burst_policy_ok :: "RapidBurstPolicy \<Rightarrow> bool" where
  "burst_policy_ok p \<longleftrightarrow>
     \<not> (rb_window_secs p \<le> 0
        \<or> rb_max_per_source_wallet p = 0
        \<or> rb_max_per_destination_wallet p = 0
        \<or> rb_max_per_pair p = 0
        \<or> rb_minimum_review_hold_secs p < 0
        \<or> ((rb_cap_sized_min_atomic p = 0) \<noteq> (rb_max_cap_sized_per_window p = 0)))"

definition set_rapid_burst_policy :: "RapidBurstPolicy \<Rightarrow> Ledger \<Rightarrow> (LedgerError, Ledger) result" where
  "set_rapid_burst_policy p l =
     require (burst_policy_ok p) InvalidRapidBurstPolicy (
     require (as_i64 (rb_cap_sized_min_atomic p) \<ge> 0) SqliteConstraint (
     Inr (l\<lparr>burst_policy := Some p\<rparr>)))"

definition in_burst_window :: "i64 \<Rightarrow> i64 \<Rightarrow> i64 \<Rightarrow> BridgeRequest \<Rightarrow> bool" where
  "in_burst_window since now excluded r \<longleftrightarrow>
     br_created_at r > since \<and> br_created_at r \<le> now \<and> br_id r \<noteq> excluded"

text \<open>One arm of the classifier's loop: the prior requests and the limit, or nothing to check.\<close>

fun burst_rule_count ::
  "Ledger \<Rightarrow> RapidBurstPolicy \<Rightarrow> RequestDirection \<Rightarrow> bytes option \<Rightarrow> bytes option \<Rightarrow> u64 \<Rightarrow> i64 \<Rightarrow> i64
    \<Rightarrow> RapidBurstRule \<Rightarrow> (nat \<times> u32) option" where
  "burst_rule_count l p direction source recipient gross now excluded SameSourceDestinationPair =
     (case (source, recipient) of
        (Some s, Some d) \<Rightarrow> Some (length (filter (\<lambda>r. br_direction r = direction
          \<and> br_source_wallet r = Some s \<and> br_recipient r = d
          \<and> in_burst_window (now - rb_window_secs p) now excluded r) (requests l)), rb_max_per_pair p)
      | _ \<Rightarrow> None)"
| "burst_rule_count l p direction source recipient gross now excluded SameSourceWallet =
     (case source of
        Some s \<Rightarrow> Some (length (filter (\<lambda>r.
          br_direction r \<in> set (wallet_window_directions (direction_source_chain direction) Source)
          \<and> br_source_wallet r = Some s
          \<and> in_burst_window (now - rb_window_secs p) now excluded r) (requests l)), rb_max_per_source_wallet p)
      | None \<Rightarrow> None)"
| "burst_rule_count l p direction source recipient gross now excluded SameDestinationWallet =
     (case recipient of
        Some d \<Rightarrow> Some (length (filter (\<lambda>r.
          br_direction r \<in> set (wallet_window_directions (direction_destination_chain direction) Destination)
          \<and> br_recipient r = d
          \<and> in_burst_window (now - rb_window_secs p) now excluded r) (requests l)), rb_max_per_destination_wallet p)
      | None \<Rightarrow> None)"
| "burst_rule_count l p direction source recipient gross now excluded RepeatedCapSizedAmount =
     (if rb_cap_sized_min_atomic p = 0 \<or> rb_max_cap_sized_per_window p = 0 \<or> gross < rb_cap_sized_min_atomic p
      then None
      else Some (length (filter (\<lambda>r. br_direction r = direction
          \<and> br_gross_amount_atomic r \<ge> as_i64 (rb_cap_sized_min_atomic p)
          \<and> in_burst_window (now - rb_window_secs p) now excluded r) (requests l)), rb_max_cap_sized_per_window p))"

definition observed_count :: "nat \<Rightarrow> u32" where
  "observed_count prior = word_of_nat (min (2 ^ 32 - 1) (prior + 1))"

primrec first_burst :: "(RapidBurstRule \<Rightarrow> (nat \<times> u32) option) \<Rightarrow> i64 \<Rightarrow> RapidBurstRule list \<Rightarrow> RapidBurstMatch option" where
  "first_burst cnt window [] = None"
| "first_burst cnt window (rule # rules) =
     (case cnt rule of
        None \<Rightarrow> first_burst cnt window rules
      | Some (prior, limit) \<Rightarrow>
          let observed = observed_count prior in
          if observed > limit
          then Some \<lparr>bm_rule = rule, bm_observed = observed, bm_limit = limit, bm_window_secs = window\<rparr>
          else first_burst cnt window rules)"

definition non_empty :: "bytes option \<Rightarrow> bytes option" where
  "non_empty w = (case w of Some (b # bs) \<Rightarrow> Some (b # bs) | _ \<Rightarrow> None)"

fun scope_excluded_id :: "WalletWindowScope \<Rightarrow> i64" where
  "scope_excluded_id (ExcludingRequest i) = i"
| "scope_excluded_id _ = - 1"

definition rapid_burst_verdict_in ::
  "Ledger \<Rightarrow> RequestDirection \<Rightarrow> bytes option \<Rightarrow> bytes option \<Rightarrow> u64 \<Rightarrow> i64 \<Rightarrow> WalletWindowScope \<Rightarrow> RapidBurstMatch option" where
  "rapid_burst_verdict_in l direction source_wallet recipient gross_amount_atomic now scope =
     (case burst_policy l of
        None \<Rightarrow> None
      | Some p \<Rightarrow>
          if \<not> rb_enabled p then None
          else first_burst (burst_rule_count l p direction (non_empty source_wallet) (non_empty recipient)
            gross_amount_atomic now (scope_excluded_id scope)) (rb_window_secs p) ALL_BURST_RULES)"

definition RAPID_BURST_HOLD_TRANSITION_REASON :: string where
  "RAPID_BURST_HOLD_TRANSITION_REASON = ''rapid_burst_hold''"

definition mark_rapid_burst_hold_in ::
  "i64 \<Rightarrow> RapidBurstMatch \<Rightarrow> i64 \<Rightarrow> Ledger \<Rightarrow> (LedgerError, Ledger) result" where
  "mark_rapid_burst_hold_in request_id matched now l =
     try_bind (ok_or (burst_policy l) InvalidRapidBurstPolicy) (\<lambda>p.
     let review_after = now + rb_minimum_review_hold_secs p in
     try_bind (update_request l request_id (\<lambda>r.
       if br_state r = ManualReview then
         r\<lparr>br_manual_review_disposition := RapidBurstHold, br_hold_reason := Some (burst_hold_reason (bm_rule matched)),
           br_held_by := Some ''system'', br_hold_started_at := Some now, br_review_after := Some review_after,
           br_auto_resume_hold_note := Some (burst_note matched),
           br_auto_resume_hold_until := Some review_after\<rparr>
       else r)) (\<lambda>l.
     Inr (log_transition request_id (Some ManualReview) ManualReview now
       (Some RAPID_BURST_HOLD_TRANSITION_REASON) ''system'' l)))"

end
