(* ===== verification/Ledger_Admission.thy ===== *)
theory Ledger_Admission
  imports Ledger_Wallets
begin

text \<open>
  Admission of inbound deposits, \<open>service/src/ledger/admission.rs\<close> and the liquidity gate of
  \<open>service/src/ledger/mod.rs\<close>: the gates of a route are read from the reserve's row, the
  first one that blocks names the reason a deposit is parked under, and a safety buffer with
  hysteresis closes and reopens admission as the unreserved headroom falls and recovers.
\<close>

section \<open>The vault's spendable coins\<close>

definition unfinalized_goldcoin_deposit :: "Ledger \<Rightarrow> VaultUtxoRow \<Rightarrow> bool" where
  "unfinalized_goldcoin_deposit l v \<longleftrightarrow>
     list_ex (\<lambda>b. source_is_goldcoin (br_direction b)
       \<and> br_source_txid b = Some (vu_txid v) \<and> br_source_vout b = Some (vu_vout v)
       \<and> br_state b \<in> {DepositObserved, Confirming}) (requests l)"

definition live_split_claim :: "Ledger \<Rightarrow> VaultUtxoRow \<Rightarrow> bool" where
  "live_split_claim l v \<longleftrightarrow>
     list_ex (\<lambda>s. vs_source_txid s = vu_txid v \<and> vs_source_vout s = vu_vout v
       \<and> vs_state s \<in> {SplitBuilt, SplitSigned, SplitBroadcast}) (vault_utxo_splits l)"

definition count_available_vault_utxos :: "Ledger \<Rightarrow> i64" where
  "count_available_vault_utxos l =
     int (length (filter (\<lambda>v. vu_state v = UtxoAvailable \<and> \<not> unfinalized_goldcoin_deposit l v
       \<and> \<not> live_split_claim l v) (vault_utxos l)))"

section \<open>The liquidity gate\<close>

definition next_liquidity_admission_closed :: "bool \<Rightarrow> i64 \<Rightarrow> i64 \<Rightarrow> i64 \<Rightarrow> bool" where
  "next_liquidity_admission_closed currently_closed headroom buffer_atomic reopen_atomic =
     (if buffer_atomic \<le> 0 then False
      else if currently_closed then headroom < reopen_atomic
      else headroom < buffer_atomic)"

definition set_admission_liquidity_thresholds ::
  "ReserveDirection \<Rightarrow> u64 \<Rightarrow> u64 \<Rightarrow> Ledger \<Rightarrow> (LedgerError, Ledger) result" where
  "set_admission_liquidity_thresholds direction buffer_atomic reopen_atomic l =
     require (\<not> reopen_atomic < buffer_atomic)
       (InvalidAdmissionThresholds direction buffer_atomic reopen_atomic) (
     update_reserve_or_fail direction (\<lambda>row. row\<lparr>rv_admission_buffer_atomic := as_i64 buffer_atomic,
       rv_admission_reopen_atomic := as_i64 reopen_atomic\<rparr>) l)"

definition reserve_headroom :: "ReserveDirection \<Rightarrow> Ledger \<Rightarrow> (LedgerError, i64) result" where
  "reserve_headroom direction l =
     try_bind (ok_or (reserves l direction) (ReserveNotInitialized direction)) (\<lambda>row. Inr (row_headroom row))"

definition read_liquidity_admission_row ::
  "ReserveDirection \<Rightarrow> Ledger \<Rightarrow> (LedgerError, i64 \<times> i64 \<times> bool) result" where
  "read_liquidity_admission_row direction l =
     try_bind (ok_or (reserves l direction) SqliteNoRows) (\<lambda>row.
     Inr (rv_admission_buffer_atomic row, rv_admission_reopen_atomic row, rv_liquidity_admission_closed row))"

definition write_liquidity_admission_state ::
  "ReserveDirection \<Rightarrow> bool \<Rightarrow> bool \<Rightarrow> i64 \<Rightarrow> Ledger \<Rightarrow> Ledger" where
  "write_liquidity_admission_state direction was_closed now_closed now l =
     (if was_closed = now_closed then l
      else update_reserve direction (\<lambda>row. row\<lparr>rv_liquidity_admission_closed := now_closed,
        rv_liquidity_admission_closed_at := Some now\<rparr>) l)"

record LiquidityAdmissionGate =
  lg_direction :: ReserveDirection
  lg_closed :: bool
  lg_transitioned :: bool
  lg_headroom :: i64
  lg_buffer_atomic :: i64
  lg_reopen_atomic :: i64

definition evaluate_liquidity_admission_gate ::
  "ReserveDirection \<Rightarrow> i64 \<Rightarrow> Ledger \<Rightarrow> LiquidityAdmissionGate ledger_result" where
  "evaluate_liquidity_admission_gate direction now l =
     try_bind (map_err (\<lambda>e. if e = SqliteNoRows then ReserveNotInitialized direction else e)
       (read_liquidity_admission_row direction l)) (\<lambda>(buffer_atomic, reopen_atomic, was_closed).
     try_bind (available_capacity direction l) (\<lambda>headroom.
     let now_closed = (if direction = GoldcoinReserve
           then next_liquidity_admission_closed was_closed headroom buffer_atomic reopen_atomic else False)
     in Inr (\<lparr>lg_direction = direction, lg_closed = now_closed, lg_transitioned = (was_closed \<noteq> now_closed),
              lg_headroom = headroom, lg_buffer_atomic = buffer_atomic, lg_reopen_atomic = reopen_atomic\<rparr>,
             write_liquidity_admission_state direction was_closed now_closed now l)))"

section \<open>The gates of a route\<close>

record InboundRateLimits =
  il_source_wallet_rate_limited :: bool
  il_recipient_rate_limited :: bool

definition rate_limits_of :: "RouteWalletEligibility \<Rightarrow> InboundRateLimits" where
  "rate_limits_of e = \<lparr>il_source_wallet_rate_limited = (el_source_retry_after e \<noteq> None),
     il_recipient_rate_limited = (el_destination_retry_after e \<noteq> None)\<rparr>"

definition no_rate_limits :: InboundRateLimits where
  "no_rate_limits = \<lparr>il_source_wallet_rate_limited = False, il_recipient_rate_limited = False\<rparr>"

datatype InboundAdmissionBlocker =
    RouteAdmissionClosed | AdmissionClosed | ReservePaused | SourceWalletRateLimited
  | RecipientRateLimited | BlockUtxoLiquidityLow | LiquidityBufferLow | InsufficientCapacity

fun blocker_as_str :: "InboundAdmissionBlocker \<Rightarrow> string" where
  "blocker_as_str RouteAdmissionClosed = ''route_admission_closed''"
| "blocker_as_str AdmissionClosed = ''reserve_admission_closed''"
| "blocker_as_str ReservePaused = ''reserve_paused''"
| "blocker_as_str SourceWalletRateLimited = MANUAL_REVIEW_REASON_WALLET_SOURCE_24H_LIMIT"
| "blocker_as_str RecipientRateLimited = MANUAL_REVIEW_REASON_WALLET_DESTINATION_24H_LIMIT"
| "blocker_as_str BlockUtxoLiquidityLow = ''utxo_liquidity_low''"
| "blocker_as_str LiquidityBufferLow = ''liquidity_buffer_low''"
| "blocker_as_str InsufficientCapacity = ''insufficient_capacity''"

fun blocker_review_note :: "InboundAdmissionBlocker \<Rightarrow> string" where
  "blocker_review_note RouteAdmissionClosed = MANUAL_REVIEW_REASON_ROUTE_ADMISSION_CLOSED"
| "blocker_review_note AdmissionClosed = MANUAL_REVIEW_REASON_ADMISSION_CLOSED"
| "blocker_review_note ReservePaused = MANUAL_REVIEW_REASON_PAUSED"
| "blocker_review_note SourceWalletRateLimited = MANUAL_REVIEW_REASON_WALLET_SOURCE_24H_LIMIT"
| "blocker_review_note RecipientRateLimited = MANUAL_REVIEW_REASON_WALLET_DESTINATION_24H_LIMIT"
| "blocker_review_note BlockUtxoLiquidityLow = MANUAL_REVIEW_REASON_UTXO_LIQUIDITY_LOW"
| "blocker_review_note LiquidityBufferLow = MANUAL_REVIEW_REASON_LIQUIDITY_BUFFER_LOW"
| "blocker_review_note InsufficientCapacity = MANUAL_REVIEW_REASON_INSUFFICIENT_CAPACITY"

record InboundAdmissionGates =
  ig_route_admission_closed :: bool
  ig_paused :: bool
  ig_admission_closed :: bool
  ig_liquidity_admission_closed :: bool
  ig_confirmed_headroom_atomic :: i64
  ig_admission_buffer_atomic :: i64
  ig_min_available_utxo_count :: i64
  ig_available_utxo_count :: i64

definition read_gates ::
  "Ledger \<Rightarrow> RequestDirection \<Rightarrow> bool \<Rightarrow> (LedgerError, InboundAdmissionGates) result" where
  "read_gates l direction liquidity_admission_closed =
     (let reserve = destination_reserve direction in
      try_bind (ok_or (reserves l reserve) (ReserveNotInitialized reserve)) (\<lambda>row.
      try_bind (read_liquidity_admission_row reserve l) (\<lambda>(buffer, _, _).
      Inr \<lparr>ig_route_admission_closed = route_admission_closed_in (route_of_direction direction) l,
           ig_paused = rv_paused row, ig_admission_closed = rv_admission_closed row,
           ig_liquidity_admission_closed = liquidity_admission_closed,
           ig_confirmed_headroom_atomic = row_headroom row,
           ig_admission_buffer_atomic = buffer,
           ig_min_available_utxo_count =
             (if reserve = GoldcoinReserve then rv_utxo_pool_min_available_count row else 0),
           ig_available_utxo_count =
             (if reserve = GoldcoinReserve \<and> rv_utxo_pool_min_available_count row > 0
              then count_available_vault_utxos l else 0)\<rparr>)))"

definition read_persisted_gates :: "Ledger \<Rightarrow> RequestDirection \<Rightarrow> (LedgerError, InboundAdmissionGates) result" where
  "read_persisted_gates l direction =
     (let reserve = destination_reserve direction in
      try_bind (map_err (\<lambda>e. if e = SqliteNoRows then ReserveNotInitialized reserve else e)
        (read_liquidity_admission_row reserve l)) (\<lambda>(_, _, persisted_closed).
      read_gates l direction persisted_closed))"

definition utxo_liquidity_ok :: "InboundAdmissionGates \<Rightarrow> bool" where
  "utxo_liquidity_ok g \<longleftrightarrow>
     ig_min_available_utxo_count g = 0 \<or> ig_available_utxo_count g > ig_min_available_utxo_count g"

definition liquidity_buffer_ok :: "InboundAdmissionGates \<Rightarrow> i64 \<Rightarrow> bool" where
  "liquidity_buffer_ok g net_destination_atomic \<longleftrightarrow>
     ig_admission_buffer_atomic g \<le> 0
     \<or> ig_confirmed_headroom_atomic g - net_destination_atomic \<ge> ig_admission_buffer_atomic g"

definition admission_blocker ::
  "InboundAdmissionGates \<Rightarrow> i64 \<Rightarrow> InboundRateLimits \<Rightarrow> InboundAdmissionBlocker option" where
  "admission_blocker g net_destination_atomic limits =
     (if ig_route_admission_closed g then Some RouteAdmissionClosed
      else if ig_admission_closed g then Some AdmissionClosed
      else if ig_paused g then Some ReservePaused
      else if il_source_wallet_rate_limited limits then Some SourceWalletRateLimited
      else if il_recipient_rate_limited limits then Some RecipientRateLimited
      else if \<not> utxo_liquidity_ok g then Some BlockUtxoLiquidityLow
      else if ig_liquidity_admission_closed g \<or> \<not> liquidity_buffer_ok g net_destination_atomic
        then Some LiquidityBufferLow
      else if net_destination_atomic > ig_confirmed_headroom_atomic g then Some InsufficientCapacity
      else None)"

definition route_blocker_at :: "InboundAdmissionGates \<Rightarrow> i64 \<Rightarrow> InboundAdmissionBlocker option" where
  "route_blocker_at g probe = admission_blocker g probe no_rate_limits"

definition route_blocker :: "InboundAdmissionGates \<Rightarrow> InboundAdmissionBlocker option" where
  "route_blocker g = route_blocker_at g 1"

definition max_admissible_net_destination_atomic :: "InboundAdmissionGates \<Rightarrow> i64" where
  "max_admissible_net_destination_atomic g =
     (if route_blocker g \<noteq> None then 0
      else max 0 (if ig_admission_buffer_atomic g > 0
        then ig_confirmed_headroom_atomic g - ig_admission_buffer_atomic g
        else ig_confirmed_headroom_atomic g))"

text \<open>Open gates with a buffer, for the concrete instances.\<close>

definition open_gates :: InboundAdmissionGates where
  "open_gates = \<lparr>ig_route_admission_closed = False, ig_paused = False, ig_admission_closed = False,
     ig_liquidity_admission_closed = False, ig_confirmed_headroom_atomic = 900, ig_admission_buffer_atomic = 250,
     ig_min_available_utxo_count = 0, ig_available_utxo_count = 0\<rparr>"

section \<open>What the gates admit\<close>

lemma admission_blocker_None:
  "admission_blocker g net limits = None \<longleftrightarrow>
     \<not> ig_route_admission_closed g \<and> \<not> ig_admission_closed g \<and> \<not> ig_paused g
     \<and> \<not> il_source_wallet_rate_limited limits \<and> \<not> il_recipient_rate_limited limits
     \<and> utxo_liquidity_ok g \<and> \<not> ig_liquidity_admission_closed g \<and> liquidity_buffer_ok g net
     \<and> net \<le> ig_confirmed_headroom_atomic g"
  by (auto simp: admission_blocker_def not_less)

text \<open>
  The maximum a route publishes is exact: an amount of at least one unit passes the gates if and only if
  it is at most that maximum, with or without a safety buffer.
\<close>

theorem max_admissible_exact:
  assumes "net > 0"
  shows "route_blocker_at g net = None \<longleftrightarrow> net \<le> max_admissible_net_destination_atomic g"
proof (cases "ig_admission_buffer_atomic g > 0")
  case True
  with assms show ?thesis
    by (auto simp: max_admissible_net_destination_atomic_def route_blocker_def route_blocker_at_def
        admission_blocker_None liquidity_buffer_ok_def max_def)
next
  case False
  with assms show ?thesis
    by (auto simp: max_admissible_net_destination_atomic_def route_blocker_def route_blocker_at_def
        admission_blocker_None liquidity_buffer_ok_def max_def)
qed

theorem max_admissible_exact_witness:
  "route_blocker_at open_gates 650 = None \<and> route_blocker_at open_gates 651 \<noteq> None"
proof -
  have "max_admissible_net_destination_atomic open_gates = 650" by code_simp
  then show ?thesis using max_admissible_exact[of 650 open_gates] max_admissible_exact[of 651 open_gates] by simp
qed

text \<open>
  Over a sequence of headroom readings, the hysteresis gate is closed exactly when the latest
  reading outside the band between the two thresholds was below the buffer (or the gate was
  closed to begin with and no reading was outside).
\<close>

theorem gate_after_readings:
  assumes "0 < buffer" "buffer \<le> reopen"
  shows "fold (\<lambda>h c. next_liquidity_admission_closed c h buffer reopen) hs closed =
    (case filter (\<lambda>h. h < buffer \<or> reopen \<le> h) (rev hs) of [] \<Rightarrow> closed | h # _ \<Rightarrow> h < buffer)"
proof (induction hs rule: rev_induct)
  case (snoc h hs)
  with assms show ?case
    by (cases "h < buffer"; cases "reopen \<le> h") (auto simp: next_liquidity_admission_closed_def)
qed simp

theorem gate_after_readings_witness:
  "fold (\<lambda>h c. next_liquidity_admission_closed c h 250 350) [400, 240, 300, 349] False"
  using gate_after_readings[of 250 350 "[400, 240, 300, 349]" False] by simp

end
