(* ===== verification/Ledger_Goldcoin_Source.thy ===== *)
theory Ledger_Goldcoin_Source
  imports Ledger_Admission
begin

text \<open>
  Requests funded by a Goldcoin deposit, \<open>service/src/ledger/mod.rs\<close>: the reservation at
  creation, its expiry and cancellation, the observation of the deposit (with the lock of its quote,
  the wallet window and the burst rule), its finality, the parks for manual review, and the
  rollback of a reorganised chain.
\<close>

section \<open>Creation, expiry, cancellation\<close>

datatype CreateRequestOutcome =
    CreateReserved i64
  | InsufficientLiquidity i64
  | CreatePaused
  | CreateRouteAdmissionClosed
  | CreateWalletLimited RouteWalletEligibility

definition awaiting_row ::
  "RequestDirection \<Rightarrow> RequestAmounts \<Rightarrow> QuoteColumns \<Rightarrow> bytes \<Rightarrow> bytes32 option \<Rightarrow> bytes option \<Rightarrow> i64 \<Rightarrow> i64 \<Rightarrow> BridgeRequest" where
  "awaiting_row direction amounts quote recipient requester source_wallet reservation_ttl_secs now =
     blank_request\<lparr>br_direction := direction, br_state := AwaitingDeposit,
       br_gross_amount_atomic := as_i64 (am_gross_atomic amounts), br_fee_bps := as_i64 (am_fee_bps amounts),
       br_fee_amount_atomic := as_i64 (am_fee_atomic amounts),
       br_net_amount_atomic := as_i64 (am_net_atomic amounts),
       br_net_destination_atomic := as_i64 (am_net_destination_atomic amounts),
       br_recipient := recipient, br_requester := map_option to_bytes requester,
       br_created_at := now, br_reserved_at := Some now,
       br_reservation_expires_at := Some (now + reservation_ttl_secs),
       br_source_chain := SrcGoldcoin, br_source_wallet := source_wallet, br_quote := quote\<rparr>"

definition create_request_from ::
  "RequestDirection \<Rightarrow> RequestAmounts \<Rightarrow> bytes \<Rightarrow> bytes32 option \<Rightarrow> bytes option \<Rightarrow> i64 \<Rightarrow> i64 \<Rightarrow> Ledger
    \<Rightarrow> CreateRequestOutcome ledger_result" where
  "create_request_from direction amounts recipient requester source_wallet reservation_ttl_secs now l =
     (let reserve = destination_reserve direction in
      try_bind (for_new_request amounts) (\<lambda>quote.
      try_bind (ok_or (reserves l reserve) SqliteNoRows) (\<lambda>row.
      if rv_paused row then Inr (CreatePaused, l)
      else if route_admission_closed_in (route_of_direction direction) l
        then Inr (CreateRouteAdmissionClosed, l)
      else
        let source_wallet = non_empty source_wallet;
            eligibility = route_wallet_eligibility_in l direction source_wallet (Some recipient) now NewRequest
        in if \<not> is_eligible eligibility then Inr (CreateWalletLimited eligibility, l)
        else if as_i64 (am_net_destination_atomic amounts) > row_headroom row
          then Inr (InsufficientLiquidity (row_headroom row), l)
        else
          try_bind (insert_request l (awaiting_row direction amounts quote recipient requester source_wallet
            reservation_ttl_secs now)) (\<lambda>(request_id, l).
          Inr (CreateReserved request_id,
            update_reserve reserve (reserve_liquidity (as_i64 (am_net_destination_atomic amounts)))
              (log_transition request_id (Some LiquidityReserved) AwaitingDeposit now None ''system''
                (log_transition request_id None LiquidityReserved now None ''system'' l)))))))"

primrec expire_rows :: "BridgeRequest list \<Rightarrow> i64 \<Rightarrow> Ledger \<Rightarrow> (LedgerError, Ledger) result" where
  "expire_rows [] now l = Inr l"
| "expire_rows (r # rows) now l =
     try_bind (update_request l (br_id r) (\<lambda>row. row\<lparr>br_state := Expired\<rparr>)) (\<lambda>l.
     expire_rows rows now
       (update_reserve (destination_reserve (br_direction r))
         (release_liquidity (br_net_destination_atomic r))
         (log_transition (br_id r) (Some AwaitingDeposit) Expired now
           (Some ''reservation_ttl_elapsed'') ''system'' l)))"

definition reservation_elapsed :: "i64 \<Rightarrow> BridgeRequest \<Rightarrow> bool" where
  "reservation_elapsed now r \<longleftrightarrow>
     br_state r = AwaitingDeposit
     \<and> (case br_reservation_expires_at r of None \<Rightarrow> False | Some t \<Rightarrow> t \<le> now)"

definition expire_reservations :: "i64 \<Rightarrow> Ledger \<Rightarrow> nat ledger_result" where
  "expire_reservations now l =
     (let rows = filter (reservation_elapsed now) (requests l) in
      try_bind (expire_rows rows now l) (\<lambda>l. Inr (length rows, l)))"

definition cancel_request :: "i64 \<Rightarrow> i64 \<Rightarrow> string \<Rightarrow> Ledger \<Rightarrow> (LedgerError, Ledger) result" where
  "cancel_request request_id now note l =
     try_bind (ok_or (get_request l request_id) (RequestNotFound request_id)) (\<lambda>r.
     require (br_state r \<in> {LiquidityReserved, AwaitingDeposit}) LedgerPanic (
     try_bind (update_request l request_id
       (\<lambda>row. row\<lparr>br_state := Cancelled, br_manual_review_note := Some note\<rparr>)) (\<lambda>l.
     Inr (update_reserve (destination_reserve (br_direction r))
       (release_liquidity (br_net_destination_atomic r))
       (log_transition request_id (Some (br_state r)) Cancelled now (Some note) ''operator'' l)))))"

definition set_goldcoin_deposit_address ::
  "i64 \<Rightarrow> string \<Rightarrow> string \<Rightarrow> string \<Rightarrow> Ledger \<Rightarrow> (LedgerError, Ledger) result" where
  "set_goldcoin_deposit_address request_id address script_pubkey_hex redeem_script_hex l =
     try_bind (ok_or (get_request l request_id) (RequestNotFound request_id)) (\<lambda>r.
     require (source_is_goldcoin (br_direction r)) (NotAGoldcoinSourcedRequest request_id (br_direction r)) (
     case br_deposit_address r of
       Some existing \<Rightarrow>
         if existing = address then Inr l
         else Inl (DepositAddressAlreadySet request_id existing address)
     | None \<Rightarrow> update_request l request_id (\<lambda>row. row\<lparr>br_deposit_address := Some address,
         br_deposit_script_pubkey_hex := Some script_pubkey_hex,
         br_deposit_redeem_script_hex := Some redeem_script_hex\<rparr>)))"

section \<open>The deposit is observed\<close>

datatype GlcObservationOutcome =
    ObservationRecorded
  | AlreadyRecorded
  | NoMatchingRequest
  | AmountMismatch u64 u64
  | LateDepositRecreated
  | LateDepositNoCapacity
  | ObservedWalletLimited string i64
  | BridgeRateParked string
  | RapidBurstHeld RapidBurstRule i64

record GlcDeposit =
  gd_txid :: bytes32
  gd_vout :: u32
  gd_observed_amount :: u64
  gd_block_height :: i64
  gd_block_hash :: bytes32
  gd_source_wallets :: "bytes list"

type_synonym quote_lock =
  "RequestDirection \<Rightarrow> CanonicalAtomic \<Rightarrow> u64 \<Rightarrow> i64 \<Rightarrow> u64 \<Rightarrow> (RateError, StruckQuote) result"

text \<open>A \<open>u64\<close> bound as a parameter without a cast: \<open>rusqlite\<close> refuses it above \<open>i64::MAX\<close>.\<close>

definition u64_param :: "u64 \<Rightarrow> (LedgerError, i64) result" where
  "u64_param w = require (unat w < 2 ^ 63) SqliteIntegerRange (Inr (uint w))"

definition with_deposit :: "GlcDeposit \<Rightarrow> BridgeRequest \<Rightarrow> BridgeRequest" where
  "with_deposit d r = r\<lparr>br_source_txid := Some (gd_txid d), br_source_vout := Some (gd_vout d),
     br_source_block_height := Some (gd_block_height d), br_source_block_hash := Some (gd_block_hash d)\<rparr>"

definition late_deposit_no_capacity ::
  "i64 \<Rightarrow> GlcDeposit \<Rightarrow> i64 \<Rightarrow> Ledger \<Rightarrow> GlcObservationOutcome ledger_result" where
  "late_deposit_no_capacity request_id d now l =
     try_bind (update_request l request_id (\<lambda>r. (with_deposit d r)\<lparr>br_state := ManualReview,
       br_manual_review_note := Some LATE_DEPOSIT_NO_CAPACITY\<rparr>)) (\<lambda>l.
     Inr (LateDepositNoCapacity, log_transition request_id (Some Expired) ManualReview now
       (Some LATE_DEPOSIT_NO_CAPACITY) ''system'' l))"

definition recreate_expired :: "BridgeRequest \<Rightarrow> i64 \<Rightarrow> Ledger \<Rightarrow> (LedgerError, Ledger) result" where
  "recreate_expired r now l =
     try_bind (update_request l (br_id r) (\<lambda>row. row\<lparr>br_state := AwaitingDeposit,
       br_reserved_at := Some now, br_reservation_expires_at := None\<rparr>)) (\<lambda>l.
     Inr (update_reserve (destination_reserve (br_direction r)) (reserve_liquidity (br_net_destination_atomic r))
       (log_transition (br_id r) (Some LiquidityReserved) AwaitingDeposit now None ''system''
         (log_transition (br_id r) (Some Expired) LiquidityReserved now (Some ''late_deposit_recreated'')
           ''system'' l))))"

definition mismatch_note :: "i64 \<Rightarrow> u64 \<Rightarrow> string" where
  "mismatch_note expected observed =
     ''deposit_amount_mismatch: expected '' @ show_int expected @ '' observed '' @ show_nat (unat observed)"

definition park_amount_mismatch ::
  "BridgeRequest \<Rightarrow> GlcDeposit \<Rightarrow> i64 \<Rightarrow> Ledger \<Rightarrow> GlcObservationOutcome ledger_result" where
  "park_amount_mismatch r d now l =
     try_bind (u64_param (gd_observed_amount d)) (\<lambda>observed.
     try_bind (update_request l (br_id r) (\<lambda>row. (with_deposit d row)\<lparr>br_state := ManualReview,
       br_manual_review_note := Some (mismatch_note (br_gross_amount_atomic r) (gd_observed_amount d)),
       br_observed_amount_atomic := Some observed\<rparr>)) (\<lambda>l.
     Inr (AmountMismatch (as_u64 (br_gross_amount_atomic r)) (gd_observed_amount d),
       log_transition (br_id r) (Some AwaitingDeposit) ManualReview now
         (Some ''deposit_amount_mismatch'') ''system'' l)))"

text \<open>
  The quote is struck at the deposit and locked. When it moved the payout, the reservation
  follows, if the reserve can absorb the difference; the result is the reason to park, if any.
\<close>

definition lock_moved_quote ::
  "BridgeRequest \<Rightarrow> BridgeQuote \<Rightarrow> u64 \<Rightarrow> Ledger \<Rightarrow> string option ledger_result" where
  "lock_moved_quote r q destination_scale l =
     (let reserve = destination_reserve (br_direction r);
          new_destination = as_i64 (bq_net_out q div destination_scale);
          delta = new_destination - br_net_destination_atomic r
      in if \<not> (bq_fee_out q \<noteq> as_u64 (br_fee_amount_atomic r) \<or> bq_net_out q \<noteq> as_u64 (br_net_amount_atomic r)
              \<or> new_destination \<noteq> br_net_destination_atomic r)
        then Inr (None, l)
        else
          try_bind (if delta > 0
            then try_bind (ok_or (reserves l reserve) SqliteNoRows) (\<lambda>row. Inr (delta \<le> row_headroom row))
            else Inr True) (\<lambda>absorbed.
          if absorbed then
            try_bind (update_request l (br_id r) (\<lambda>row. row\<lparr>br_fee_amount_atomic := as_i64 (bq_fee_out q),
              br_net_amount_atomic := as_i64 (bq_net_out q),
              br_net_destination_atomic := new_destination\<rparr>)) (\<lambda>l.
            Inr (None, update_reserve reserve (reserve_liquidity delta) l))
          else Inr (Some MANUAL_REVIEW_REASON_INSUFFICIENT_CAPACITY_AT_LOCK, l)))"

definition lock_glc_quote :: "BridgeRequest \<Rightarrow> quote_lock \<Rightarrow> i64 \<Rightarrow> Ledger \<Rightarrow> string option ledger_result" where
  "lock_glc_quote r lock now l =
     (let destination_scale = destination_scale_of (br_direction r) (br_net_amount_atomic r)
            (br_net_destination_atomic r)
      in case lock (br_direction r) (as_u64 (br_gross_amount_atomic r)) (as_u64 (br_fee_bps r)) now
          destination_scale of
        Inl (Refused refusal) \<Rightarrow> Inr (Some (refusal_reason refusal), l)
      | Inl (RateConversion _) \<Rightarrow> Inr (None, l)
      | Inr struck \<Rightarrow>
          let q = struck_quote struck in
          try_bind (update_request l (br_id r) (\<lambda>row. row\<lparr>br_quote := quote_columns_of q,
            br_quote_locked_at := Some now\<rparr>)) (\<lambda>l.
          try_bind (lock_moved_quote r q destination_scale l) (\<lambda>(rate_park, l).
          Inr (if struck_band struck \<noteq> None
               then (case rate_park of Some reason \<Rightarrow> Some reason | None \<Rightarrow> Some REASON_BAND_EXCEEDED)
               else rate_park, l))))"

text \<open>The non-empty wallets that funded the deposit, in order, without repetitions.\<close>

primrec traced_wallets :: "bytes list \<Rightarrow> bytes list \<Rightarrow> bytes list" where
  "traced_wallets seen [] = seen"
| "traced_wallets seen (w # ws) = traced_wallets (if w \<noteq> [] \<and> w \<notin> set seen then seen @ [w] else seen) ws"

definition observed_eligibility :: "BridgeRequest \<Rightarrow> bytes list \<Rightarrow> i64 \<Rightarrow> Ledger \<Rightarrow> RouteWalletEligibility" where
  "observed_eligibility r traced now l =
     \<lparr>el_source_retry_after = max_column (List.map_filter (\<lambda>wallet. wallet_window_retry_after_in l
        (direction_source_chain (br_direction r)) Source wallet now (ExcludingRequest (br_id r))) traced),
      el_destination_retry_after = wallet_window_retry_after_in l
        (direction_destination_chain (br_direction r)) Destination (br_recipient r) now
        (ExcludingRequest (br_id r))\<rparr>"

primrec first_wallet_burst ::
  "BridgeRequest \<Rightarrow> u64 \<Rightarrow> i64 \<Rightarrow> Ledger \<Rightarrow> bytes option list \<Rightarrow> RapidBurstMatch option" where
  "first_wallet_burst r amount now l [] = None"
| "first_wallet_burst r amount now l (w # ws) =
     (case rapid_burst_verdict_in l (br_direction r) w (Some (br_recipient r)) amount now
        (ExcludingRequest (br_id r)) of
        Some m \<Rightarrow> Some m
      | None \<Rightarrow> first_wallet_burst r amount now l ws)"

definition park_observed ::
  "BridgeRequest \<Rightarrow> GlcDeposit \<Rightarrow> bytes option \<Rightarrow> string \<Rightarrow> i64 \<Rightarrow> Ledger \<Rightarrow> (LedgerError, Ledger) result" where
  "park_observed r d primary_source_wallet reason now l =
     try_bind (u64_param (gd_observed_amount d)) (\<lambda>observed.
     try_bind (update_request l (br_id r) (\<lambda>row. (with_deposit d row)\<lparr>br_state := ManualReview,
       br_manual_review_note := Some reason, br_observed_amount_atomic := Some observed,
       br_source_wallet := (case primary_source_wallet of Some w \<Rightarrow> Some w | None \<Rightarrow> br_source_wallet row)\<rparr>)) (\<lambda>l.
     Inr (log_transition (br_id r) (Some AwaitingDeposit) ManualReview now (Some reason) ''system'' l)))"

definition confirm_observed ::
  "BridgeRequest \<Rightarrow> GlcDeposit \<Rightarrow> bytes option \<Rightarrow> i64 \<Rightarrow> Ledger \<Rightarrow> (LedgerError, Ledger) result" where
  "confirm_observed r d primary_source_wallet now l =
     try_bind (update_request l (br_id r) (\<lambda>row. (with_deposit d row)\<lparr>br_state := DepositObserved,
       br_source_confirmations := 1,
       br_source_wallet := (case primary_source_wallet of Some w \<Rightarrow> Some w | None \<Rightarrow> br_source_wallet row)\<rparr>)) (\<lambda>l.
     update_request (log_transition (br_id r) (Some DepositObserved) Confirming now None ''system''
         (log_transition (br_id r) (Some AwaitingDeposit) DepositObserved now None ''system'' l))
       (br_id r) (\<lambda>row. row\<lparr>br_state := Confirming\<rparr>))"

definition glc_deposit_locked ::
  "BridgeRequest \<Rightarrow> GlcDeposit \<Rightarrow> string option \<Rightarrow> bool \<Rightarrow> i64 \<Rightarrow> Ledger \<Rightarrow> GlcObservationOutcome ledger_result" where
  "glc_deposit_locked r d rate_park recreated_from_expired now l =
     (let traced = traced_wallets [] (gd_source_wallets d);
          eligibility = observed_eligibility r traced now l;
          primary_source_wallet = (case traced of [] \<Rightarrow> None | w # _ \<Rightarrow> Some w)
      in case first_wallet_burst r (gd_observed_amount d) now l
           (if traced = [] then [None] else map Some traced) of
        Some matched \<Rightarrow>
          try_bind (park_observed r d primary_source_wallet MANUAL_REVIEW_REASON_RAPID_BURST_HOLD now l) (\<lambda>l.
          try_bind (mark_rapid_burst_hold_in (br_id r) matched now l) (\<lambda>l.
          try_bind (ok_or (Option.bind (get_request l (br_id r)) br_review_after) SqliteNoRows) (\<lambda>review_after.
          Inr (RapidBurstHeld (bm_rule matched) review_after, l))))
      | None \<Rightarrow> (case eligibility_blocker eligibility of
          Some (role, retry_after) \<Rightarrow>
            try_bind (park_observed r d primary_source_wallet (limit_reason role) now l) (\<lambda>l.
            Inr (ObservedWalletLimited (limit_reason role) retry_after, l))
        | None \<Rightarrow> (case rate_park of
            Some reason \<Rightarrow>
              try_bind (park_observed r d primary_source_wallet reason now l) (\<lambda>l.
              Inr (BridgeRateParked reason, l))
          | None \<Rightarrow>
              try_bind (confirm_observed r d primary_source_wallet now l) (\<lambda>l.
              Inr (if recreated_from_expired then LateDepositRecreated else ObservationRecorded, l)))))"

definition glc_deposit_awaiting ::
  "BridgeRequest \<Rightarrow> GlcDeposit \<Rightarrow> quote_lock \<Rightarrow> bool \<Rightarrow> i64 \<Rightarrow> Ledger \<Rightarrow> GlcObservationOutcome ledger_result" where
  "glc_deposit_awaiting r d lock recreated_from_expired now l =
     (if gd_observed_amount d \<noteq> as_u64 (br_gross_amount_atomic r) then park_amount_mismatch r d now l
      else
        try_bind (lock_glc_quote r lock now l) (\<lambda>(rate_park, l).
        glc_deposit_locked r d rate_park recreated_from_expired now l))"

definition record_glc_deposit_observed_from ::
  "i64 \<Rightarrow> GlcDeposit \<Rightarrow> quote_lock \<Rightarrow> i64 \<Rightarrow> Ledger \<Rightarrow> GlcObservationOutcome ledger_result" where
  "record_glc_deposit_observed_from request_id d lock now l =
     (case get_request l request_id of
        None \<Rightarrow> Inr (NoMatchingRequest, l)
      | Some r \<Rightarrow>
          if br_state r \<in> {DepositObserved, Confirming} \<and> br_source_txid r = Some (gd_txid d)
            then Inr (AlreadyRecorded, l)
          else if \<not> source_is_goldcoin (br_direction r) then Inr (NoMatchingRequest, l)
          else if br_state r = Expired then
            try_bind (ok_or (reserves l (destination_reserve (br_direction r))) SqliteNoRows) (\<lambda>row.
            if br_net_destination_atomic r > row_headroom row
              then late_deposit_no_capacity request_id d now l
            else
              try_bind (recreate_expired r now l) (\<lambda>l. glc_deposit_awaiting r d lock True now l))
          else if br_state r \<noteq> AwaitingDeposit then Inr (NoMatchingRequest, l)
          else glc_deposit_awaiting r d lock False now l)"

section \<open>Finality, parks and reorganisations\<close>

definition update_glc_confirmations :: "i64 \<Rightarrow> i64 \<Rightarrow> Ledger \<Rightarrow> (LedgerError, Ledger) result" where
  "update_glc_confirmations request_id confirmations l =
     update_request l request_id (\<lambda>r. if br_state r = Confirming \<and> br_source_confirmations r < confirmations
       then r\<lparr>br_source_confirmations := confirmations\<rparr> else r)"

definition mark_glc_source_finalized :: "i64 \<Rightarrow> i64 \<Rightarrow> Ledger \<Rightarrow> (LedgerError, Ledger) result" where
  "mark_glc_source_finalized request_id now l =
     try_bind (ok_or (get_request l request_id) (RequestNotFound request_id)) (\<lambda>r.
     if br_state r = SourceFinalized then Inr l
     else
       require (br_state r = Confirming) LedgerPanic (
       try_bind (update_request l request_id (\<lambda>row. row\<lparr>br_state := SourceFinalized,
         br_source_finalized_at := Some now\<rparr>)) (\<lambda>l.
       Inr (update_reserve (destination_reserve (br_direction r)) (add_pending (br_net_destination_atomic r))
         (log_transition request_id (Some (br_state r)) SourceFinalized now None ''system'' l)))))"

definition mark_glc_deposit_spent_before_finalized :: "i64 \<Rightarrow> i64 \<Rightarrow> Ledger \<Rightarrow> (LedgerError, Ledger) result" where
  "mark_glc_deposit_spent_before_finalized request_id now l =
     try_bind (ok_or (get_request l request_id) (RequestNotFound request_id)) (\<lambda>r.
     if br_state r = ManualReview then Inr l
     else
       require (br_state r = Confirming) LedgerPanic (
       try_bind (update_request l request_id (\<lambda>row. row\<lparr>br_state := ManualReview,
         br_manual_review_note := Some ''deposit_spent_before_finalized''\<rparr>)) (\<lambda>l.
       Inr (log_transition request_id (Some (br_state r)) ManualReview now
         (Some ''deposit_spent_before_finalized'') ''system'' l))))"

definition park_for_destination_bounds :: "i64 \<Rightarrow> string \<Rightarrow> i64 \<Rightarrow> Ledger \<Rightarrow> bool ledger_result" where
  "park_for_destination_bounds request_id detail now l =
     try_bind (ok_or (get_request l request_id) (RequestNotFound request_id)) (\<lambda>r.
     if br_state r \<noteq> SourceFinalized then Inr (False, l)
     else
       let amount = br_net_destination_atomic r;
           l = (if \<not> source_is_goldcoin (br_direction r)
             then update_reserve (destination_reserve (br_direction r))
               (\<lambda>row. add_pending (- amount) (release_liquidity amount row)) l
             else l)
       in try_bind (update_request l request_id (\<lambda>row. row\<lparr>br_state := ManualReview,
            br_manual_review_note := Some MANUAL_REVIEW_REASON_DESTINATION_PAYOUT_OUT_OF_BOUNDS\<rparr>)) (\<lambda>l.
          Inr (True, log_transition request_id (Some (br_state r)) ManualReview now
            (Some (MANUAL_REVIEW_REASON_DESTINATION_PAYOUT_OUT_OF_BOUNDS @ '': '' @ detail)) ''system'' l)))"

definition park_for_foreign_contract :: "i64 \<Rightarrow> string \<Rightarrow> i64 \<Rightarrow> Ledger \<Rightarrow> bool ledger_result" where
  "park_for_foreign_contract request_id detail now l =
     try_bind (ok_or (get_request l request_id) (RequestNotFound request_id)) (\<lambda>r.
     if \<not> source_is_robinhood (br_direction r) \<or> br_state r \<noteq> SourceFinalized then Inr (False, l)
     else
       try_bind (update_request l request_id (\<lambda>row. row\<lparr>br_state := ManualReview,
         br_manual_review_note := Some MANUAL_REVIEW_REASON_FOREIGN_CONTRACT\<rparr>)) (\<lambda>l.
       Inr (True, log_transition request_id (Some (br_state r)) ManualReview now
         (Some (MANUAL_REVIEW_REASON_FOREIGN_CONTRACT @ '': '' @ detail)) ''system'' l)))"

definition reorged_row :: "BridgeRequest \<Rightarrow> BridgeRequest" where
  "reorged_row row = row\<lparr>br_state := AwaitingDeposit, br_source_txid := None, br_source_vout := None,
     br_source_block_height := None, br_source_block_hash := None, br_source_confirmations := 0,
     br_quote_locked_at := None\<rparr>"

text \<open>Both rollbacks log the orphaned block, reset the row and log the wait for a new deposit.\<close>

definition reorg_request :: "BridgeRequest \<Rightarrow> i64 \<Rightarrow> Ledger \<Rightarrow> (LedgerError, Ledger) result" where
  "reorg_request r now l =
     try_bind (update_request (log_transition (br_id r) (Some (br_state r)) Reorged now (Some ''block_orphaned'')
       ''system'' l) (br_id r) reorged_row) (\<lambda>l.
     Inr (log_transition (br_id r) (Some Reorged) AwaitingDeposit now None ''system'' l))"

definition mark_glc_reorged :: "i64 \<Rightarrow> i64 \<Rightarrow> Ledger \<Rightarrow> (LedgerError, Ledger) result" where
  "mark_glc_reorged request_id now l =
     try_bind (ok_or (get_request l request_id) (RequestNotFound request_id)) (\<lambda>r.
     require (br_state r \<in> {DepositObserved, Confirming}) LedgerPanic (reorg_request r now l))"

definition orphaned_by :: "i64 \<Rightarrow> BridgeRequest \<Rightarrow> bool" where
  "orphaned_by fork_height r \<longleftrightarrow>
     source_is_goldcoin (br_direction r) \<and> br_state r \<in> {DepositObserved, Confirming}
     \<and> (case br_source_block_height r of None \<Rightarrow> False | Some h \<Rightarrow> h > fork_height)"

primrec reorg_rows :: "BridgeRequest list \<Rightarrow> i64 \<Rightarrow> Ledger \<Rightarrow> (LedgerError, Ledger) result" where
  "reorg_rows [] now l = Inr l"
| "reorg_rows (r # rows) now l = try_bind (reorg_request r now l) (\<lambda>l. reorg_rows rows now l)"

definition goldcoin_rollback_reorg ::
  "i64 \<Rightarrow> bytes32 \<Rightarrow> i64 \<Rightarrow> bytes32 \<Rightarrow> i64 \<Rightarrow> Ledger \<Rightarrow> nat ledger_result" where
  "goldcoin_rollback_reorg fork_height fork_hash old_tip_height old_tip_hash now l =
     (let affected = filter (orphaned_by fork_height) (requests l) in
      try_bind (reorg_rows affected now l) (\<lambda>l.
      Inr (length affected, l\<lparr>indexed_blocks := filter (\<lambda>b. \<not> ib_height b > fork_height) (indexed_blocks l),
        reorg_events := reorg_events l @ [\<lparr>re_detected_at = now, re_fork_height = fork_height,
          re_old_tip_height = old_tip_height, re_old_tip_hash = old_tip_hash,
          re_new_tip_height = fork_height, re_new_tip_hash = fork_hash,
          re_orphaned_count = int (length affected)\<rparr>]\<rparr>)))"

definition goldcoin_ingest_block :: "i64 \<Rightarrow> bytes32 \<Rightarrow> bytes32 \<Rightarrow> i64 \<Rightarrow> i64 \<Rightarrow> Ledger \<Rightarrow> Ledger" where
  "goldcoin_ingest_block height hash prev_hash block_time now l =
     (let block = \<lparr>ib_height = height, ib_hash = hash, ib_prev_hash = prev_hash,
        ib_block_time = block_time, ib_indexed_at = now\<rparr>
      in l\<lparr>indexed_blocks :=
        (if find_by ib_height height (indexed_blocks l) = None then indexed_blocks l @ [block]
         else update_by ib_height height (\<lambda>_. block) (indexed_blocks l))\<rparr>)"

definition detect_post_finality_reorg :: "i64 \<Rightarrow> Ledger \<Rightarrow> i64 list" where
  "detect_post_finality_reorg fork_height l =
     map br_id (filter (\<lambda>r. source_is_goldcoin (br_direction r) \<and> br_source_finalized_at r \<noteq> None
       \<and> (case br_source_block_height r of None \<Rightarrow> False | Some h \<Rightarrow> h > fork_height)) (requests l))"

text \<open>
  The event is committed before the two pauses, each of them its own statement: the ledger a
  failing pause leaves behind still holds the event, and the first pause when the second fails.
\<close>

definition record_post_finality_reorg ::
  "i64 \<Rightarrow> i64 \<Rightarrow> i64 list \<Rightarrow> i64 \<Rightarrow> Ledger \<Rightarrow> (LedgerError, i64) result \<times> Ledger" where
  "record_post_finality_reorg fork_height old_tip_height affected_request_ids now l =
     (let i = next_rowid pf_id (post_finality_events l);
          l = l\<lparr>post_finality_events := post_finality_events l @ [\<lparr>pf_id = i, pf_detected_at = now,
            pf_fork_height = fork_height, pf_old_tip_height = old_tip_height,
            pf_affected_request_ids = affected_request_ids\<rparr>]\<rparr>;
          reason = ''post-finality Goldcoin reorg detected: fork_height='' @ show_int fork_height
            @ '' (old tip '' @ show_int old_tip_height @ ''), '' @ show_nat (length affected_request_ids)
            @ '' already-finalized request(s) affected '' @ [CHR 0xE2, CHR 0x80, CHR 0x94]
            @ '' see post_finality_reorg_events #'' @ show_int i
      in case ledger_set_paused GoldcoinReserve True (Some reason) l of
           Inl e \<Rightarrow> (Inl e, l)
         | Inr l \<Rightarrow> (case ledger_set_paused SolanaReserve True (Some reason) l of
             Inl e \<Rightarrow> (Inl e, l)
           | Inr l \<Rightarrow> (Inr i, l)))"

end
