(* ===== verification/Goldcoin_Address.thy ===== *)
theory Goldcoin_Address
  imports Prelude
begin

text \<open>
  Hexadecimal and Base58Check text (\<open>goldcoin/hex.rs\<close>, \<open>goldcoin/address.rs\<close>). A \<open>str\<close> is the list of its characters'
  code points. Both directions of the base conversion are one fold over digits, whose value and canonical form
  give the round trips. Hashes are arguments.
\<close>

section \<open>Hexadecimal\<close>

datatype HexError = OddLength nat | HexWrongLength nat nat nat | InvalidDigit string | HexPanic

definition hex_digit :: "nat \<Rightarrow> char" where
  "hex_digit n = (''0123456789abcdef'') ! n"

definition hex_encode :: "bytes \<Rightarrow> string" where
  "hex_encode bs = concat (map (\<lambda>b. [hex_digit (unat b div 16), hex_digit (unat b mod 16)]) bs)"

definition digit_value :: "char \<Rightarrow> nat option" where
  "digit_value c =
     (let n = of_char c :: nat in
      if 48 \<le> n \<and> n \<le> 57 then Some (n - 48)
      else if 97 \<le> n \<and> n \<le> 102 then Some (n - 87)
      else if 65 \<le> n \<and> n \<le> 70 then Some (n - 55)
      else None)"

text \<open>\<open>u8::from_str_radix\<close> of two characters in base sixteen, which allows a leading plus sign.\<close>

definition from_str_radix :: "char \<Rightarrow> char \<Rightarrow> u8 option" where
  "from_str_radix a b =
     (if a = CHR ''+'' then map_option word_of_nat (digit_value b)
      else case (digit_value a, digit_value b) of
        (Some x, Some y) \<Rightarrow> Some (word_of_nat (16 * x + y))
      | _ \<Rightarrow> None)"

definition is_continuation :: "char \<Rightarrow> bool" where
  "is_continuation c \<longleftrightarrow> 0x80 \<le> (of_char c :: nat) \<and> (of_char c :: nat) < 0xc0"

text \<open>The loop over pairs of bytes; slicing a \<open>str\<close> inside a character panics.\<close>

fun decode_pairs :: "string \<Rightarrow> (HexError, bytes) result" where
  "decode_pairs (a # b # rest) =
     require (\<not> is_continuation a \<and> (rest = [] \<or> \<not> is_continuation (hd rest))) HexPanic (
     try_bind (ok_or (from_str_radix a b) (InvalidDigit [a, b])) (\<lambda>v.
     try_bind (decode_pairs rest) (\<lambda>vs. Inr (v # vs))))"
| "decode_pairs _ = Inr []"

definition decode_vec :: "string \<Rightarrow> (HexError, bytes) result" where
  "decode_vec s = require (even (length s)) (OddLength (length s)) (decode_pairs s)"

definition decode_exact :: "nat \<Rightarrow> string \<Rightarrow> (HexError, bytes) result" where
  "decode_exact n s =
     require (even (length s)) (OddLength (length s)) (
     require (length s = n * 2) (HexWrongLength (n * 2) n (length s)) (
     decode_pairs s))"

section \<open>Base conversion\<close>

type_synonym chars = "nat list"

definition of_ascii :: "string \<Rightarrow> chars" where
  "of_ascii s = map of_char s"

definition ALPHABET :: chars where
  "ALPHABET = of_ascii ''123456789ABCDEFGHJKLMNPQRSTUVWXYZabcdefghijkmnopqrstuvwxyz''"

text \<open>The carry loops of both codecs: what is left of the carry is pushed digit by digit.\<close>

function digits_of :: "nat \<Rightarrow> nat \<Rightarrow> nat list" where
  "digits_of base carry = (if base < 2 \<or> carry = 0 then [] else carry mod base # digits_of base (carry div base))"
  by pat_completeness auto
termination by (relation "measure snd") auto

declare digits_of.simps [simp del]

primrec carry_through :: "nat \<Rightarrow> nat \<Rightarrow> nat list \<Rightarrow> nat \<Rightarrow> nat list" where
  "carry_through factor base [] carry = digits_of base carry"
| "carry_through factor base (d # ds) carry =
     (carry + d * factor) mod base # carry_through factor base ds ((carry + d * factor) div base)"

datatype AddressError =
    EmptyAddress
  | InvalidChar nat
  | WrongLength nat
  | BadChecksum
  | WrongVersion u8 u8
  | ScriptNotHex HexError
  | NotP2pkhScript nat string

definition base58_encode :: "bytes \<Rightarrow> chars" where
  "base58_encode bs =
     (let leading_zeros = length (takeWhile (\<lambda>b. b = 0) bs);
          digits = foldl (\<lambda>ds byte. carry_through 256 58 ds (unat byte)) [] bs
      in replicate leading_zeros (ALPHABET ! 0) @ map ((!) ALPHABET) (rev digits))"

primrec base58_digits :: "nat list \<Rightarrow> chars \<Rightarrow> (AddressError, nat list) result" where
  "base58_digits ds [] = Inr ds"
| "base58_digits ds (c # cs) =
     try_bind (ok_or (position (c mod 256) ALPHABET) (InvalidChar c)) (\<lambda>digit.
     base58_digits (carry_through 58 256 ds digit) cs)"

definition base58_decode :: "chars \<Rightarrow> (AddressError, bytes) result" where
  "base58_decode s =
     require (s \<noteq> []) EmptyAddress (
     let leading_ones = length (takeWhile (\<lambda>c. c = 49) s) in
     try_bind (base58_digits [] s) (\<lambda>ds.
     Inr (replicate leading_ones 0 @ map word_of_nat (rev ds))))"

section \<open>Addresses\<close>

type_synonym hash20 = "160 word"

definition bytes_of_hash20 :: "hash20 \<Rightarrow> bytes" where
  "bytes_of_hash20 h = rev (le_encode 20 (unat h))"

definition hash20_of_bytes :: "bytes \<Rightarrow> hash20" where
  "hash20_of_bytes bs = word_of_nat (le_decode (rev bs))"

datatype Network = Mainnet | Testnet

primrec p2pkh_version :: "Network \<Rightarrow> u8" where
  "p2pkh_version Mainnet = 0x20"
| "p2pkh_version Testnet = 0x6f"

primrec p2sh_version :: "Network \<Rightarrow> u8" where
  "p2sh_version Mainnet = 0x32"
| "p2sh_version Testnet = 0x3a"

definition hash160 :: "(bytes \<Rightarrow> bytes32) \<Rightarrow> (bytes \<Rightarrow> hash20) \<Rightarrow> bytes \<Rightarrow> hash20" where
  "hash160 sha256 ripemd160 data = ripemd160 (to_bytes (sha256 data))"

definition checksum :: "(bytes \<Rightarrow> bytes32) \<Rightarrow> bytes \<Rightarrow> bytes" where
  "checksum sha256 payload = take 4 (to_bytes (sha256 (to_bytes (sha256 payload))))"

definition base58check_encode :: "(bytes \<Rightarrow> bytes32) \<Rightarrow> u8 \<Rightarrow> hash20 \<Rightarrow> chars" where
  "base58check_encode sha256 version hash =
     (let payload = version # bytes_of_hash20 hash in base58_encode (payload @ checksum sha256 payload))"

definition base58check_decode :: "(bytes \<Rightarrow> bytes32) \<Rightarrow> chars \<Rightarrow> (AddressError, u8 \<times> hash20) result" where
  "base58check_decode sha256 s =
     try_bind (base58_decode s) (\<lambda>decoded.
     require (length decoded = 25) (WrongLength (length decoded)) (
     let payload = take 21 decoded; given_checksum = drop 21 decoded in
     require (checksum sha256 payload = given_checksum) BadChecksum (
     Inr (payload ! 0, hash20_of_bytes (drop 1 payload)))))"

definition encode_p2pkh :: "(bytes \<Rightarrow> bytes32) \<Rightarrow> hash20 \<Rightarrow> Network \<Rightarrow> chars" where
  "encode_p2pkh sha256 hash network = base58check_encode sha256 (p2pkh_version network) hash"

definition encode_p2sh :: "(bytes \<Rightarrow> bytes32) \<Rightarrow> hash20 \<Rightarrow> Network \<Rightarrow> chars" where
  "encode_p2sh sha256 hash network = base58check_encode sha256 (p2sh_version network) hash"

definition decode_versioned :: "(bytes \<Rightarrow> bytes32) \<Rightarrow> u8 \<Rightarrow> chars \<Rightarrow> (AddressError, hash20) result" where
  "decode_versioned sha256 expected s =
     try_bind (base58check_decode sha256 s) (\<lambda>(version, hash).
     require (version = expected) (WrongVersion expected version) (Inr hash))"

definition decode_p2pkh :: "(bytes \<Rightarrow> bytes32) \<Rightarrow> chars \<Rightarrow> Network \<Rightarrow> (AddressError, hash20) result" where
  "decode_p2pkh sha256 s network = decode_versioned sha256 (p2pkh_version network) s"

definition decode_p2sh :: "(bytes \<Rightarrow> bytes32) \<Rightarrow> chars \<Rightarrow> Network \<Rightarrow> (AddressError, hash20) result" where
  "decode_p2sh sha256 s network = decode_versioned sha256 (p2sh_version network) s"

definition p2pkh_script :: "hash20 \<Rightarrow> bytes" where
  "p2pkh_script hash = [0x76, 0xa9, 0x14] @ bytes_of_hash20 hash @ [0x88, 0xac]"

definition p2pkh_script_hex :: "hash20 \<Rightarrow> string" where
  "p2pkh_script_hex hash = hex_encode (p2pkh_script hash)"

definition address_from_script_hex :: "(bytes \<Rightarrow> bytes32) \<Rightarrow> string \<Rightarrow> Network \<Rightarrow> chars option" where
  "address_from_script_hex sha256 script_hex network =
     (case decode_vec script_hex of
        Inl _ \<Rightarrow> None
      | Inr bs \<Rightarrow>
          if length bs = 25 \<and> take 3 bs = [0x76, 0xa9, 0x14] \<and> drop 23 bs = [0x88, 0xac]
          then Some (encode_p2pkh sha256 (hash20_of_bytes (take 20 (drop 3 bs))) network)
          else if length bs = 23 \<and> take 2 bs = [0xa9, 0x14] \<and> drop 22 bs = [0x87]
          then Some (encode_p2sh sha256 (hash20_of_bytes (take 20 (drop 2 bs))) network)
          else None)"

definition canonical_standard_address :: "(bytes \<Rightarrow> bytes32) \<Rightarrow> chars \<Rightarrow> Network \<Rightarrow> (AddressError, chars) result" where
  "canonical_standard_address sha256 address network =
     (case decode_p2pkh sha256 address network of
        Inr hash \<Rightarrow> Inr (encode_p2pkh sha256 hash network)
      | Inl _ \<Rightarrow>
          try_bind (decode_p2sh sha256 address network) (\<lambda>hash. Inr (encode_p2sh sha256 hash network)))"

definition p2pkh_hash_from_script_hex :: "string \<Rightarrow> (AddressError, hash20) result" where
  "p2pkh_hash_from_script_hex script_hex =
     try_bind (map_err ScriptNotHex (decode_vec script_hex)) (\<lambda>bs.
     let malformed = NotP2pkhScript (length bs) (take 8 script_hex) in
     require (length bs = 25) malformed (
     require (bs ! 0 = 0x76 \<and> bs ! 1 = 0xa9 \<and> bs ! 2 = 0x14) malformed (
     require (bs ! 23 = 0x88 \<and> bs ! 24 = 0xac) malformed (
     Inr (hash20_of_bytes (take 20 (drop 3 bs)))))))"

section \<open>Digits\<close>

primrec digits_value :: "nat \<Rightarrow> nat list \<Rightarrow> nat" where
  "digits_value base [] = 0"
| "digits_value base (d # ds) = d + base * digits_value base ds"

definition canonical_digits :: "nat \<Rightarrow> nat list \<Rightarrow> bool" where
  "canonical_digits base ds \<longleftrightarrow> list_all (\<lambda>d. d < base) ds \<and> (ds \<noteq> [] \<longrightarrow> last ds \<noteq> 0)"

definition leading :: "nat list \<Rightarrow> nat" where
  "leading xs = length (takeWhile (\<lambda>d. d = 0) xs)"

definition spelled :: "nat \<Rightarrow> nat \<Rightarrow> nat \<Rightarrow> nat list" where
  "spelled base zeros v = replicate zeros 0 @ rev (digits_of base v)"

lemma digits_value_append:
  "digits_value b (xs @ ys) = digits_value b xs + b ^ length xs * digits_value b ys"
  by (induction xs) (simp_all add: algebra_simps)

lemma digits_value_zeros [simp]: "digits_value b (replicate n 0) = 0"
  by (induction n) simp_all

text \<open>
  A number has one spelling without leading zeros in a base, and the carry loop keeps it: it multiplies by
  the other base and adds the next digit.
\<close>

locale radix =
  fixes base factor :: nat
  assumes base: "2 \<le> base" and factor: "0 < factor"
begin

lemma digits_of_0 [simp]: "digits_of base 0 = []"
  by (simp add: digits_of.simps)

lemma digits_of_pos: "0 < v \<Longrightarrow> digits_of base v = v mod base # digits_of base (v div base)"
  using base by (subst digits_of.simps) simp

lemma digits_of_eq_Nil [simp]: "digits_of base v = [] \<longleftrightarrow> v = 0"
  using digits_of_pos[of v] by (cases "v = 0") simp_all

lemma value_digits_of [simp]: "digits_value base (digits_of base v) = v"
proof (induction v rule: less_induct)
  case (less v)
  have "v div base < v" if "0 < v" using base that by simp
  then show ?case using less by (cases "v = 0") (simp_all add: digits_of_pos)
qed

lemma canonical_digits_of: "canonical_digits base (digits_of base v)"
proof (induction v rule: less_induct)
  case (less v)
  have "v div base < v" if "0 < v" using base that by simp
  moreover have "v mod base < base" using base by simp
  moreover have "v mod base \<noteq> 0" if "v div base = 0" "0 < v" using that base by (simp add: div_eq_0_iff)
  ultimately show ?case
    using less by (cases "v = 0") (auto simp: digits_of_pos canonical_digits_def)
qed

lemma digits_of_value: "canonical_digits base ds \<Longrightarrow> digits_of base (digits_value base ds) = ds"
proof (induction ds)
  case (Cons d ds)
  have d: "d < base" and rest: "canonical_digits base ds"
    using Cons.prems by (auto simp: canonical_digits_def split: if_splits)
  have "0 < d + base * digits_value base ds"
  proof (cases "ds = []")
    case False
    then have "digits_value base ds \<noteq> 0" using Cons.IH[OF rest] digits_of_0 by metis
    then show ?thesis using base by simp
  qed (use Cons.prems in \<open>simp add: canonical_digits_def\<close>)
  then show ?case using Cons.IH[OF rest] d by (simp add: digits_of_pos)
qed simp

lemma carry_through_value: "digits_value base (carry_through factor base ds c) = digits_value base ds * factor + c"
proof (induction ds arbitrary: c)
  case (Cons d ds)
  have "(c + d * factor) mod base + base * ((c + d * factor) div base) = c + d * factor" by simp
  then show ?case using Cons.IH by (simp add: algebra_simps)
qed simp

lemma carry_through_canonical: "canonical_digits base ds \<Longrightarrow> canonical_digits base (carry_through factor base ds c)"
proof (induction ds arbitrary: c)
  case Nil
  show ?case using canonical_digits_of by simp
next
  case (Cons d ds)
  let ?v = "c + d * factor"
  have rest: "canonical_digits base ds" using Cons.prems by (auto simp: canonical_digits_def split: if_splits)
  have "carry_through factor base ds (?v div base) = [] \<Longrightarrow> ?v mod base \<noteq> 0"
  proof -
    assume nil: "carry_through factor base ds (?v div base) = []"
    then have "ds = []" by (cases ds) simp_all
    then have "d \<noteq> 0" "?v div base = 0" using Cons.prems nil by (simp_all add: canonical_digits_def)
    then show ?thesis using factor base by (simp add: div_eq_0_iff)
  qed
  then show ?case using Cons.IH[OF rest, of "?v div base"] base by (auto simp: canonical_digits_def)
qed

lemma carry_through_digits: "carry_through factor base (digits_of base v) c = digits_of base (v * factor + c)"
  using digits_of_value[OF carry_through_canonical[OF canonical_digits_of, of v c]] by (simp add: carry_through_value)

lemma spelled_value [simp]: "digits_value base (rev (spelled base z v)) = v"
  by (simp add: spelled_def digits_value_append)

lemma spelled_leading [simp]: "leading (spelled base z v) = z"
proof -
  have "takeWhile (\<lambda>d. d = 0) (rev (digits_of base v)) = []"
    using canonical_digits_of[of v] by (cases "digits_of base v" rule: rev_cases) (auto simp: canonical_digits_def)
  then show ?thesis by (simp add: spelled_def leading_def takeWhile_append)
qed

lemma spelled_bound: "d \<in> set (spelled base z v) \<Longrightarrow> d < base"
  using canonical_digits_of[of v] base by (auto simp: spelled_def canonical_digits_def list_all_iff)

lemma respelled:
  assumes "\<And>d. d \<in> set xs \<Longrightarrow> d < base"
  shows "spelled base (leading xs) (digits_value base (rev xs)) = xs"
proof -
  let ?z = "takeWhile (\<lambda>d. d = 0) xs" and ?rest = "dropWhile (\<lambda>d. d = 0) xs"
  have z: "?z = replicate (leading xs) 0" 
    unfolding leading_def by (rule replicate_length_same[symmetric]) (auto dest: set_takeWhileD)
  have "canonical_digits base (rev ?rest)"
    using assms hd_dropWhile[of "\<lambda>d. d = 0" xs] set_dropWhileD[of _ "\<lambda>d. d = 0" xs]
    by (auto simp: canonical_digits_def list_all_iff last_rev)
  moreover have "digits_value base (rev xs) = digits_value base (rev ?rest)"
  proof -
    have "rev xs = rev ?rest @ replicate (leading xs) 0" 
      using arg_cong[OF takeWhile_dropWhile_id[of "\<lambda>d. d = 0" xs], of rev] by (simp only: rev_append z rev_replicate)
    then show ?thesis by (simp add: digits_value_append)
  qed
  ultimately have "spelled base (leading xs) (digits_value base (rev xs)) = ?z @ ?rest"
    using digits_of_value z by (simp add: spelled_def)
  then show ?thesis by simp
qed

end

interpretation r58: radix 58 256 by unfold_locales simp_all
interpretation r256: radix 256 58 by unfold_locales simp_all

section \<open>The codecs\<close>

lemma ALPHABET_codes: "ALPHABET = [49, 50, 51, 52, 53, 54, 55, 56, 57, 65, 66, 67, 68, 69, 70, 71, 72, 74, 75, 76,
    77, 78, 80, 81, 82, 83, 84, 85, 86, 87, 88, 89, 90, 97, 98, 99, 100, 101, 102, 103,
    104, 105, 106, 107, 109, 110, 111, 112, 113, 114, 115, 116, 117, 118, 119, 120, 121, 122]"
  by (simp add: ALPHABET_def of_ascii_def)

lemma ALPHABET_distinct: "distinct ALPHABET"
proof -
  have "sorted_wrt (<) ALPHABET" unfolding ALPHABET_codes by (simp del: sorted_wrt.simps add: sorted_wrt2_simps)
  then show ?thesis by (simp add: strict_sorted_iff)
qed

lemma ALPHABET_facts:
  "length ALPHABET = 58" "list_all (\<lambda>c. c < 256) ALPHABET" "ALPHABET ! 0 = 49"
  by (simp_all add: ALPHABET_codes)

lemma ALPHABET_nth: "i < 58 \<Longrightarrow> ALPHABET ! i < 256"
  using ALPHABET_facts(1,2) by (simp add: list_all_length)

lemma ALPHABET_one: "i < 58 \<Longrightarrow> ALPHABET ! i = 49 \<longleftrightarrow> i = 0"
  using nth_eq_iff_index_eq[OF ALPHABET_distinct, of i 0] ALPHABET_facts(1,3) by simp

lemma ALPHABET_position: "position c ALPHABET = Some i \<longleftrightarrow> i < 58 \<and> ALPHABET ! i = c"
proof
  assume at: "i < 58 \<and> ALPHABET ! i = c"
  then have "c \<in> set ALPHABET" using nth_mem[of i ALPHABET] by (auto simp: ALPHABET_facts(1))
  then obtain j where "position c ALPHABET = Some j" by (metis position_eq_None option.exhaust)
  then show "position c ALPHABET = Some i"
    using at position_eq_Some[of c ALPHABET j] nth_eq_iff_index_eq[OF ALPHABET_distinct, of i j] by (simp add: ALPHABET_facts(1))
qed (auto dest: position_eq_Some simp: ALPHABET_facts(1))

lemma foldl_value: "foldl (\<lambda>v d. v * b + d) v xs = v * b ^ length xs + digits_value b (rev xs)"
  by (induction xs arbitrary: v) (simp_all add: digits_value_append algebra_simps)

lemma encode_digits:
  "foldl (\<lambda>ds byte. carry_through 256 58 ds (unat byte)) (digits_of 58 v) bs
     = digits_of 58 (foldl (\<lambda>v d. v * 256 + d) v (map unat (bs :: bytes)))"
  by (induction bs arbitrary: v) (simp_all add: r58.carry_through_digits)

lemma decode_digits:
  "base58_digits (digits_of 256 v) cs = Inr ds \<longleftrightarrow>
     (\<exists>xs. map (\<lambda>c. position (c mod 256) ALPHABET) cs = map Some xs
        \<and> ds = digits_of 256 (foldl (\<lambda>v d. v * 58 + d) v xs))"
proof (induction cs arbitrary: v)
  case (Cons c cs)
  show ?case
    by (cases "position (c mod 256) ALPHABET") (auto simp: r256.carry_through_digits Cons.IH Cons_eq_map_conv)
qed auto

lemma leading_bytes: "length (takeWhile (\<lambda>b. b = 0) bs) = leading (map unat bs)" for bs :: bytes
  by (simp add: leading_def takeWhile_map comp_def unat_eq_zero)

lemma base58_encode_spelled:
  "base58_encode bs = map ((!) ALPHABET) (spelled 58 (leading (map unat bs)) (digits_value 256 (rev (map unat bs))))"
  using encode_digits[of 0 bs]
  by (simp add: base58_encode_def Let_def leading_bytes spelled_def foldl_value rev_map)

lemma base58_decode_spelled:
  assumes "xs \<noteq> []" "\<And>d. d \<in> set xs \<Longrightarrow> d < 58"
  shows "base58_decode (map ((!) ALPHABET) xs) = Inr (map word_of_nat (spelled 256 (leading xs) (digits_value 58 (rev xs))))"
proof -
  have "map (\<lambda>c. position (c mod 256) ALPHABET) (map ((!) ALPHABET) xs) = map Some xs"
    using assms(2) ALPHABET_nth by (simp add: ALPHABET_position)
  then have "base58_digits [] (map ((!) ALPHABET) xs) = Inr (digits_of 256 (digits_value 58 (rev xs)))"
    using decode_digits[of 0 "map ((!) ALPHABET) xs" "digits_of 256 (digits_value 58 (rev xs))"]
    unfolding foldl_value by (simp only: r256.digits_of_0) auto
  moreover have "takeWhile (\<lambda>c. c = 49) (map ((!) ALPHABET) xs) = map ((!) ALPHABET) (takeWhile (\<lambda>d. d = 0) xs)"
    unfolding takeWhile_map comp_def using assms(2) by (intro arg_cong[where f = "map _"] takeWhile_cong) (simp_all add: ALPHABET_one)
  ultimately show ?thesis using assms(1) by (simp add: base58_decode_def spelled_def leading_def rev_map)
qed

text \<open>
  Among texts of single-byte characters, the one that decodes to given bytes is exactly their
  encoding, so decoding inverts encoding and no byte string has a second spelling.
\<close>

lemma base58_canonical:
  assumes "\<forall>c\<in>set s. c < 256"
  shows "base58_decode s = Inr bs \<longleftrightarrow> bs \<noteq> [] \<and> s = base58_encode bs"
proof
  assume s: "bs \<noteq> [] \<and> s = base58_encode bs"
  let ?v = "digits_value 256 (rev (map unat bs))" and ?z = "leading (map unat bs)"
  have u: "spelled 256 ?z ?v = map unat bs"
    by (rule r256.respelled) (auto intro: less_le_trans[OF unat_lt2p])
  have "spelled 58 ?z ?v = [] \<longleftrightarrow> spelled 256 ?z ?v = []" by (simp add: spelled_def)
  then have "spelled 58 ?z ?v \<noteq> []" using s u by simp
  then have "base58_decode s = Inr (map word_of_nat (spelled 256 ?z ?v))"
    using s base58_decode_spelled[of "spelled 58 ?z ?v"] r58.spelled_bound by (simp add: base58_encode_spelled)
  then show "base58_decode s = Inr bs" by (simp add: u comp_def)
next
  assume dec: "base58_decode s = Inr bs"
  then obtain ds where ds: "s \<noteq> []" "base58_digits (digits_of 256 0) s = Inr ds"
    and bs: "bs = replicate (length (takeWhile (\<lambda>c. c = 49) s)) 0 @ map word_of_nat (rev ds)"
    by (auto simp: base58_decode_def)
  then obtain xs where pos: "map (\<lambda>c. position (c mod 256) ALPHABET) s = map Some xs"
    and dsv: "ds = digits_of 256 (digits_value 58 (rev xs))"
    using decode_digits[of 0 s ds] by (auto simp: foldl_value)
  have "list_all2 (\<lambda>c x. x < 58 \<and> ALPHABET ! x = c) s xs"
    using pos assms unfolding list_all2_conv_all_nth
    by (metis (no_types, lifting) ALPHABET_position length_map mod_less nth_map nth_mem)
  then have xs: "s = map ((!) ALPHABET) xs" "\<And>d. d \<in> set xs \<Longrightarrow> d < 58"
    by (auto simp: list_all2_conv_all_nth in_set_conv_nth intro: nth_equalityI)
  have "bs = map word_of_nat (spelled 256 (leading xs) (digits_value 58 (rev xs)))"
    using base58_decode_spelled[OF _ xs(2)] ds(1) dec xs(1) by simp
  then have u: "map unat bs = spelled 256 (leading xs) (digits_value 58 (rev xs))"
    by (auto simp: unat_of_nat take_bit_nat_eq_self r256.spelled_bound intro!: map_idI)
  have "base58_encode bs = map ((!) ALPHABET) (spelled 58 (leading xs) (digits_value 58 (rev xs)))"
    unfolding base58_encode_spelled u by simp
  also have "\<dots> = s" using xs by (simp add: r58.respelled)
  finally have "s = base58_encode bs" by simp
  moreover have "bs \<noteq> []" using \<open>s \<noteq> []\<close> calculation by (auto simp: base58_encode_def)
  ultimately show "bs \<noteq> [] \<and> s = base58_encode bs" by blast
qed

lemma base58_encode_bounded: "\<forall>c\<in>set (base58_encode bs). c < 256"
  by (auto simp: base58_encode_spelled ALPHABET_nth r58.spelled_bound)

lemma length_hash20 [simp]: "length (bytes_of_hash20 h) = 20"
  by (simp add: bytes_of_hash20_def)

lemma hash20_roundtrip [simp]: "hash20_of_bytes (bytes_of_hash20 h) = h"
  using unat_lt2p[of h] by (simp add: hash20_of_bytes_def bytes_of_hash20_def le_decode_encode)

lemma bytes_hash20: "length bs = 20 \<Longrightarrow> bytes_of_hash20 (hash20_of_bytes bs) = bs"
  using le_decode_less[of "rev bs"] le_encode_decode[of "rev bs"]
  by (simp add: hash20_of_bytes_def bytes_of_hash20_def unat_of_nat take_bit_nat_eq_self)

lemma length_checksum [simp]: "length (checksum sha256 p) = 4"
  by (simp add: checksum_def)

lemma base58check_canonical:
  assumes "\<forall>c\<in>set s. c < 256"
  shows "base58check_decode sha256 s = Inr (version, h) \<longleftrightarrow> s = base58check_encode sha256 version h"
proof
  assume "base58check_decode sha256 s = Inr (version, h)"
  then obtain bs where dec: "base58_decode s = Inr bs" and len: "length bs = 25"
    and sum: "checksum sha256 (take 21 bs) = drop 21 bs" and out: "version = take 21 bs ! 0" "h = hash20_of_bytes (drop 1 (take 21 bs))"
    by (auto simp: base58check_decode_def Let_def)
  have "take 21 bs = version # drop 1 (take 21 bs)"
    using len out(1) by (cases bs) simp_all
  then have "take 21 bs = version # bytes_of_hash20 h" using bytes_hash20[of "drop 1 (take 21 bs)"] len out(2) by simp
  then have "bs = (version # bytes_of_hash20 h) @ checksum sha256 (version # bytes_of_hash20 h)"
    using sum append_take_drop_id[of 21 bs] by metis
  then show "s = base58check_encode sha256 version h"
    using base58_canonical[OF assms, of bs] dec by (simp add: base58check_encode_def Let_def)
next
  let ?p = "version # bytes_of_hash20 h"
  assume "s = base58check_encode sha256 version h"
  then have "base58_decode s = Inr (?p @ checksum sha256 ?p)"
    using base58_canonical[OF assms] by (simp add: base58check_encode_def Let_def)
  then show "base58check_decode sha256 s = Inr (version, h)" by (simp add: base58check_decode_def Let_def)
qed

lemma decode_versioned_iff:
  "\<forall>c\<in>set s. c < 256 \<Longrightarrow> decode_versioned sha256 expected s = Inr h \<longleftrightarrow> s = base58check_encode sha256 expected h"
  by (auto simp: decode_versioned_def base58check_canonical)

lemma base58check_bounded: "\<forall>c\<in>set (base58check_encode sha256 version h). c < 256"
  by (simp add: base58check_encode_def Let_def base58_encode_bounded)

lemma versions_differ: "p2pkh_version n \<noteq> p2sh_version m"
  by (cases n; cases m) simp_all

text \<open>
  C39. An address has one spelling: among texts of single-byte characters, the one read as a
  pay-to-key-hash address of a network is exactly the text that is written for the hash, for the
  other address kind and the other network it is refused, and the canonical form of an accepted
  address is the address itself.
\<close>

theorem address_text_canonical:
  assumes "\<forall>c\<in>set s. c < 256"
  shows "(decode_p2pkh sha256 s network = Inr h \<longleftrightarrow> s = encode_p2pkh sha256 h network)
    \<and> (decode_p2sh sha256 s network = Inr h \<longleftrightarrow> s = encode_p2sh sha256 h network)
    \<and> decode_p2pkh sha256 (encode_p2sh sha256 h network) network' = Inl (WrongVersion (p2pkh_version network') (p2sh_version network))
    \<and> (canonical_standard_address sha256 s network = Inr s' \<longrightarrow> s' = s)"
proof -
  have "base58check_decode sha256 (encode_p2sh sha256 h network) = Inr (p2sh_version network, h)"
    by (simp add: encode_p2sh_def base58check_canonical base58check_bounded)
  then have "decode_p2pkh sha256 (encode_p2sh sha256 h network) network' = Inl (WrongVersion (p2pkh_version network') (p2sh_version network))"
    using versions_differ[of network' network] by (simp add: decode_p2pkh_def decode_versioned_def require_def)
  moreover have "s' = s" if "canonical_standard_address sha256 s network = Inr s'"
    using that assms by (auto simp: canonical_standard_address_def decode_p2pkh_def decode_p2sh_def decode_versioned_iff
        encode_p2pkh_def encode_p2sh_def split: sum.splits)
  ultimately show ?thesis
    using assms by (simp add: decode_p2pkh_def decode_p2sh_def encode_p2pkh_def encode_p2sh_def decode_versioned_iff)
qed

definition sample_sha256 :: "bytes \<Rightarrow> bytes32" where
  "sample_sha256 bs = from_bytes (take 32 (rev bs @ replicate 32 1))"

theorem address_text_canonical_witness:
  "decode_p2pkh sample_sha256 (encode_p2pkh sample_sha256 5 Mainnet) Mainnet = Inr 5
     \<and> decode_p2pkh sample_sha256 (encode_p2sh sample_sha256 5 Mainnet) Testnet = Inl (WrongVersion 0x6f 0x32)"
  using address_text_canonical[of "encode_p2pkh sample_sha256 5 Mainnet" sample_sha256 Mainnet 5 Testnet]
    base58check_bounded[of sample_sha256 "p2pkh_version Mainnet" 5]
  by (simp add: encode_p2pkh_def)

section \<open>Scripts\<close>

lemma digit_value_hex: "n < 16 \<Longrightarrow> digit_value (hex_digit n) = Some n"
proof -
  have "list_all (\<lambda>n. digit_value (hex_digit n) = Some n) [0..<16]" by code_simp
  then show "n < 16 \<Longrightarrow> ?thesis" by (simp add: list_all_iff)
qed

lemma hex_digit_ascii: "n < 16 \<Longrightarrow> \<not> is_continuation (hex_digit n) \<and> hex_digit n \<noteq> CHR ''+''"
proof -
  have "list_all (\<lambda>n. \<not> is_continuation (hex_digit n) \<and> hex_digit n \<noteq> CHR ''+'') [0..<16]" by code_simp
  then show "n < 16 \<Longrightarrow> ?thesis" by (simp add: list_all_iff)
qed

lemma from_str_radix_hex: "from_str_radix (hex_digit (unat b div 16)) (hex_digit (unat b mod 16)) = Some b" for b :: u8
proof -
  have "unat b div 16 < 16" "unat b mod 16 < 16" using unat_lt2p[of b] by (simp_all add: less_mult_imp_div_less)
  then show ?thesis by (simp add: from_str_radix_def digit_value_hex hex_digit_ascii)
qed

lemma decode_pairs_hex [simp]: "decode_pairs (hex_encode bs) = Inr bs"
proof (induction bs)
  case (Cons b bs)
  have small: "unat b div 16 < 16" "unat c div 16 < 16" for c :: u8
    using unat_lt2p[of b] unat_lt2p[of c] by (simp_all add: less_mult_imp_div_less)
  then have "hex_encode bs = [] \<or> \<not> is_continuation (hd (hex_encode bs))"
    by (cases bs) (simp_all add: hex_encode_def hex_digit_ascii)
  then show ?case using Cons small(1) hex_digit_ascii[of "unat b div 16"]
    by (simp add: hex_encode_def from_str_radix_hex)
qed (simp add: hex_encode_def)

lemma length_hex_encode [simp]: "length (hex_encode bs) = 2 * length bs"
  by (induction bs) (simp_all add: hex_encode_def)

lemma decode_vec_hex [simp]: "decode_vec (hex_encode bs) = Inr bs"
  by (simp add: decode_vec_def)

text \<open>
  A refund destination is read from a script exactly when the script is a pay-to-key-hash script, and
  then it is the hash the script was made from; hexadecimal text decodes to the bytes it was made from.
\<close>

theorem refund_destination_exact:
  "(\<exists>s. decode_vec s = Inr bs \<and> p2pkh_hash_from_script_hex s = Inr h) \<longleftrightarrow> bs = p2pkh_script h"
proof
  assume "\<exists>s. decode_vec s = Inr bs \<and> p2pkh_hash_from_script_hex s = Inr h"
  then have len: "length bs = 25" and fixed: "bs ! 0 = 0x76" "bs ! 1 = 0xa9" "bs ! 2 = 0x14" "bs ! 23 = 0x88" "bs ! 24 = 0xac"
    and h: "h = hash20_of_bytes (take 20 (drop 3 bs))"
    by (auto simp: p2pkh_hash_from_script_hex_def Let_def)
  have "take 3 bs = [0x76, 0xa9, 0x14]" using len fixed by (simp add: list_eq_iff_nth_eq less_Suc_eq numeral_nat)
  moreover have "drop 23 bs = [0x88, 0xac]" using len fixed by (simp add: list_eq_iff_nth_eq less_Suc_eq numeral_nat)
  moreover have "bs = take 3 bs @ take 20 (drop 3 bs) @ drop 23 bs"
    using append_take_drop_id[of 3 bs] append_take_drop_id[of 20 "drop 3 bs"] by simp
  ultimately show "bs = p2pkh_script h" using bytes_hash20[of "take 20 (drop 3 bs)"] len by (simp add: p2pkh_script_def h)
next
  assume "bs = p2pkh_script h"
  moreover have "p2pkh_hash_from_script_hex (hex_encode (p2pkh_script h)) = Inr h"
    by (simp add: p2pkh_hash_from_script_hex_def p2pkh_script_def Let_def nth_append)
  ultimately show "\<exists>s. decode_vec s = Inr bs \<and> p2pkh_hash_from_script_hex s = Inr h"
    using decode_vec_hex by blast
qed

end
