(* ===== verification/Goldcoin_Tx.thy ===== *)
theory Goldcoin_Tx
  imports Prelude
begin

text \<open>
  Transactions of the Goldcoin chain (\<open>goldcoin/tx.rs\<close>): the wire format, script pushes, the
  transaction id and the legacy signature hash. The hash function is an argument. Locale
  \<open>self_delimiting\<close> has what the encodings of inputs and outputs share: the end of one is
  determined by its bytes, so lists of them can be read back. A serialized transaction determines
  the transaction, and a signed preimage everything in it but the other inputs' scripts.
\<close>

section \<open>Transactions\<close>

text \<open>The bits of the \<open>i32\<close> version are kept as a word.\<close>

record TxIn =
  ti_prev_txid :: bytes32
  ti_prev_vout :: u32
  ti_script_sig :: bytes
  ti_sequence :: u32

record TxOut =
  to_value_atomic :: u64
  to_script_pubkey :: bytes

record Transaction =
  tx_version :: u32
  tx_inputs :: "TxIn list"
  tx_outputs :: "TxOut list"
  tx_locktime :: u32

definition unsigned_input :: "bytes32 \<Rightarrow> u32 \<Rightarrow> TxIn" where
  "unsigned_input prev_txid prev_vout =
     \<lparr>ti_prev_txid = prev_txid, ti_prev_vout = prev_vout, ti_script_sig = [], ti_sequence = 0xffffffff\<rparr>"

definition write_varint :: "u64 \<Rightarrow> bytes" where
  "write_varint n =
     (if n < 0xfd then [ucast n]
      else if n \<le> 0xffff then 0xfd # le_encode 2 (unat n)
      else if n \<le> 0xffffffff then 0xfe # le_encode 4 (unat n)
      else 0xff # u64_to_le_bytes n)"

text \<open>The push of a longer script than the code supports is a panic.\<close>

definition push_data :: "bytes \<Rightarrow> bytes option" where
  "push_data data =
     (let len = length data in
      if len < 0x4c then Some (word_of_nat len # data)
      else if len \<le> 0xff then Some (0x4c # word_of_nat len # data)
      else if len \<le> 0xffff then Some (0x4d # le_encode 2 len @ data)
      else None)"

definition write_script :: "bytes \<Rightarrow> bytes" where
  "write_script script = write_varint (word_of_nat (length script)) @ script"

definition serialize_input :: "TxIn \<Rightarrow> bytes" where
  "serialize_input i = rev (to_bytes (ti_prev_txid i)) @ u32_to_le_bytes (ti_prev_vout i)
     @ write_script (ti_script_sig i) @ u32_to_le_bytes (ti_sequence i)"

definition serialize_output :: "TxOut \<Rightarrow> bytes" where
  "serialize_output o' = u64_to_le_bytes (to_value_atomic o') @ write_script (to_script_pubkey o')"

definition serialize :: "Transaction \<Rightarrow> bytes" where
  "serialize tx = u32_to_le_bytes (tx_version tx)
     @ write_varint (word_of_nat (length (tx_inputs tx))) @ concat (map serialize_input (tx_inputs tx))
     @ write_varint (word_of_nat (length (tx_outputs tx))) @ concat (map serialize_output (tx_outputs tx))
     @ u32_to_le_bytes (tx_locktime tx)"

definition txid_of_serialized :: "(bytes \<Rightarrow> bytes32) \<Rightarrow> bytes \<Rightarrow> bytes32" where
  "txid_of_serialized sha256 raw = from_bytes (rev (to_bytes (sha256 (to_bytes (sha256 raw)))))"

definition transaction_txid :: "(bytes \<Rightarrow> bytes32) \<Rightarrow> Transaction \<Rightarrow> bytes32" where
  "transaction_txid sha256 tx = txid_of_serialized sha256 (serialize tx)"

definition SIGHASH_ALL :: u32 where "SIGHASH_ALL = 0x01"

definition sighash_stripped :: "Transaction \<Rightarrow> nat \<Rightarrow> bytes \<Rightarrow> Transaction" where
  "sighash_stripped tx input_index redeem_script =
     tx\<lparr>tx_inputs := map (\<lambda>(i, inp). inp\<lparr>ti_script_sig := if i = input_index then redeem_script else []\<rparr>)
       (enumerate 0 (tx_inputs tx))\<rparr>"

definition sighash_preimage :: "Transaction \<Rightarrow> nat \<Rightarrow> bytes \<Rightarrow> bytes" where
  "sighash_preimage tx input_index redeem_script =
     serialize (sighash_stripped tx input_index redeem_script) @ u32_to_le_bytes SIGHASH_ALL"

definition sighash_all :: "(bytes \<Rightarrow> bytes32) \<Rightarrow> Transaction \<Rightarrow> nat \<Rightarrow> bytes \<Rightarrow> bytes32" where
  "sighash_all sha256 tx input_index redeem_script =
     sha256 (to_bytes (sha256 (sighash_preimage tx input_index redeem_script)))"

section \<open>Self-delimiting encodings\<close>

locale self_delimiting =
  fixes enc :: "'a \<Rightarrow> bytes" and sized :: "'a \<Rightarrow> bool"
  assumes enc_split: "\<lbrakk>enc x @ r = enc y @ s; sized x; sized y\<rbrakk> \<Longrightarrow> x = y \<and> r = s"
begin

lemma list_split:
  "\<lbrakk>concat (map enc xs) @ r = concat (map enc ys) @ s; length xs = length ys;
    list_all sized xs; list_all sized ys\<rbrakk> \<Longrightarrow> xs = ys \<and> r = s"
proof (induction xs arbitrary: ys)
  case (Cons x xs)
  then obtain y ys' where ys: "ys = y # ys'" by (cases ys) auto
  have "enc x @ (concat (map enc xs) @ r) = enc y @ (concat (map enc ys') @ s)"
    using Cons.prems(1) by (simp add: ys)
  then have "x = y \<and> concat (map enc xs) @ r = concat (map enc ys') @ s"
    using Cons.prems(3,4) by (intro enc_split) (simp_all add: ys)
  then show ?case using Cons.IH[of ys'] Cons.prems by (simp add: ys)
qed simp

end

lemma append_split: "length a = length b \<Longrightarrow> a @ r = b @ s \<longleftrightarrow> a = b \<and> r = s"
  by simp

lemma le_encode_split: "le_encode k m @ r = le_encode k n @ s \<longleftrightarrow> le_encode k m = le_encode k n \<and> r = s"
  by (intro append_split) simp

lemma le_encode_word_inject:
  "\<lbrakk>unat x < 256 ^ k; unat y < 256 ^ k\<rbrakk> \<Longrightarrow> le_encode k (unat x) = le_encode k (unat y) \<longleftrightarrow> x = y"
  using le_encode_inj[of k "unat x" "unat y"] by (auto simp: word_unat_eq_iff)

lemma varint_small: "n < 0xfd \<Longrightarrow> (ucast n :: u8) \<noteq> 0xfd \<and> (ucast n :: u8) \<noteq> 0xfe \<and> (ucast n :: u8) \<noteq> 0xff" for n :: u64
  by (simp add: word_unat_eq_iff unsigned_ucast_eq word_less_nat_alt take_bit_eq_mod)

lemma varint_byte_inject: "n < 0xfd \<Longrightarrow> m < 0xfd \<Longrightarrow> (ucast n :: u8) = ucast m \<longleftrightarrow> n = m" for n m :: u64
  by (simp add: word_unat_eq_iff unsigned_ucast_eq word_less_nat_alt take_bit_eq_mod)

lemma of_nat_u64_inject: "\<lbrakk>a < 2 ^ 64; b < 2 ^ 64\<rbrakk> \<Longrightarrow> (word_of_nat a :: u64) = word_of_nat b \<longleftrightarrow> a = b"
  by (simp add: word_of_nat_eq_iff take_bit_nat_eq_self)

interpretation varint: self_delimiting write_varint "\<lambda>_. True"
proof
  fix x y :: u64 and r s
  assume eq: "write_varint x @ r = write_varint y @ s"
  have "unat x < 256 ^ 8" "unat y < 256 ^ 8" using unat_lt2p[of x] unat_lt2p[of y] by simp_all
  then show "x = y \<and> r = s"
    using eq varint_small[of x] varint_small[of y] varint_byte_inject[of x y]
    by (auto simp: write_varint_def le_encode_split le_encode_word_inject word_le_nat_alt u64_to_le_bytes_def
        word_less_nat_alt split: if_splits)
qed

lemma write_script_split:
  "\<lbrakk>write_script a @ r = write_script b @ s; length a < 2 ^ 64; length b < 2 ^ 64\<rbrakk> \<Longrightarrow> a = b \<and> r = s"
proof -
  assume eq: "write_script a @ r = write_script b @ s" and len: "length a < 2 ^ 64" "length b < 2 ^ 64"
  have "word_of_nat (length a) = (word_of_nat (length b) :: u64)" and rest: "a @ r = b @ s"
    using varint.enc_split[of "word_of_nat (length a)" "a @ r" "word_of_nat (length b)" "b @ s"] eq
    by (simp_all add: write_script_def)
  then have "length a = length b" using len by (simp add: of_nat_u64_inject)
  then show "a = b \<and> r = s" using rest by simp
qed

definition sized_input :: "TxIn \<Rightarrow> bool" where
  "sized_input i \<longleftrightarrow> length (ti_script_sig i) < 2 ^ 64"

definition sized_output :: "TxOut \<Rightarrow> bool" where
  "sized_output o' \<longleftrightarrow> length (to_script_pubkey o') < 2 ^ 64"

definition sized_tx :: "Transaction \<Rightarrow> bool" where
  "sized_tx tx \<longleftrightarrow> length (tx_inputs tx) < 2 ^ 64 \<and> length (tx_outputs tx) < 2 ^ 64
     \<and> list_all sized_input (tx_inputs tx) \<and> list_all sized_output (tx_outputs tx)"

interpretation tx_in: self_delimiting serialize_input sized_input
proof
  fix x y r s
  assume eq: "serialize_input x @ r = serialize_input y @ s" and sized: "sized_input x" "sized_input y"
  have head: "ti_prev_txid x = ti_prev_txid y" "ti_prev_vout x = ti_prev_vout y"
    and "write_script (ti_script_sig x) @ u32_to_le_bytes (ti_sequence x) @ r
       = write_script (ti_script_sig y) @ u32_to_le_bytes (ti_sequence y) @ s"
    using eq by (auto simp: serialize_input_def)
  then have "ti_script_sig x = ti_script_sig y \<and> u32_to_le_bytes (ti_sequence x) @ r = u32_to_le_bytes (ti_sequence y) @ s"
    using sized by (intro write_script_split) (simp_all add: sized_input_def)
  with head show "x = y \<and> r = s" by simp
qed

interpretation tx_out: self_delimiting serialize_output sized_output
proof
  fix x y r s
  assume eq: "serialize_output x @ r = serialize_output y @ s" and sized: "sized_output x" "sized_output y"
  have head: "to_value_atomic x = to_value_atomic y"
    and "write_script (to_script_pubkey x) @ r = write_script (to_script_pubkey y) @ s"
    using eq by (auto simp: serialize_output_def)
  then have "to_script_pubkey x = to_script_pubkey y \<and> r = s"
    using sized by (intro write_script_split) (simp_all add: sized_output_def)
  with head show "x = y \<and> r = s" by simp
qed

lemma counted_split:
  "\<lbrakk>write_varint (word_of_nat (length xs)) @ r = write_varint (word_of_nat (length ys)) @ s;
    length xs < 2 ^ 64; length ys < 2 ^ 64\<rbrakk> \<Longrightarrow> length xs = length ys \<and> r = s"
  using varint.enc_split[of "word_of_nat (length xs)" r "word_of_nat (length ys)" s] of_nat_u64_inject by blast

interpretation tx: self_delimiting serialize sized_tx
proof
  fix x y r s
  assume eq: "serialize x @ r = serialize y @ s" and sized: "sized_tx x" "sized_tx y"
  let ?out = "\<lambda>t. write_varint (word_of_nat (length (tx_outputs t))) @ concat (map serialize_output (tx_outputs t))
     @ u32_to_le_bytes (tx_locktime t)"
  have v: "tx_version x = tx_version y" and
    "write_varint (word_of_nat (length (tx_inputs x))) @ (concat (map serialize_input (tx_inputs x)) @ ?out x @ r)
     = write_varint (word_of_nat (length (tx_inputs y))) @ (concat (map serialize_input (tx_inputs y)) @ ?out y @ s)"
    using eq by (auto simp: serialize_def)
  then have "length (tx_inputs x) = length (tx_inputs y)"
    "concat (map serialize_input (tx_inputs x)) @ ?out x @ r = concat (map serialize_input (tx_inputs y)) @ ?out y @ s"
    using counted_split sized by (auto simp: sized_tx_def)
  then have ins: "tx_inputs x = tx_inputs y" and "?out x @ r = ?out y @ s"
    using tx_in.list_split sized unfolding sized_tx_def by blast+
  then have "length (tx_outputs x) = length (tx_outputs y)"
    "concat (map serialize_output (tx_outputs x)) @ u32_to_le_bytes (tx_locktime x) @ r
     = concat (map serialize_output (tx_outputs y)) @ u32_to_le_bytes (tx_locktime y) @ s"
    using counted_split[of "tx_outputs x" _ "tx_outputs y"] sized by (auto simp: sized_tx_def)
  then have "tx_outputs x = tx_outputs y" and "u32_to_le_bytes (tx_locktime x) @ r = u32_to_le_bytes (tx_locktime y) @ s"
    using tx_out.list_split sized unfolding sized_tx_def by blast+
  with v ins show "x = y \<and> r = s" by simp
qed

section \<open>What bytes and signatures determine\<close>

text \<open>
  The wire format is unambiguous: two transactions with the same bytes are the same
  transaction, and no serialized transaction is a proper prefix of another.
\<close>

theorem serialization_unambiguous:
  assumes "sized_tx a" "sized_tx b"
  shows "serialize a = serialize b @ rest \<longleftrightarrow> a = b \<and> rest = []"
  using tx.enc_split[of a "[]" b rest] assms by auto

definition sample_transaction :: Transaction where
  "sample_transaction = \<lparr>tx_version = 1, tx_inputs = [unsigned_input 7 1, unsigned_input 8 0],
     tx_outputs = [\<lparr>to_value_atomic = 5, to_script_pubkey = [0x51]\<rparr>], tx_locktime = 0\<rparr>"

theorem serialization_unambiguous_witness:
  "serialize sample_transaction \<noteq> serialize (sample_transaction\<lparr>tx_locktime := 1\<rparr>) \<and> length (serialize sample_transaction) = 102"
  using serialization_unambiguous[of sample_transaction "sample_transaction\<lparr>tx_locktime := 1\<rparr>" "[]"]
  by (simp add: sample_transaction_def sized_tx_def sized_input_def sized_output_def unsigned_input_def serialize_def
      serialize_input_def serialize_output_def write_script_def write_varint_def)

lemma sized_stripped:
  assumes "sized_tx tx" "length redeem < 2 ^ 64"
  shows "sized_tx (sighash_stripped tx i redeem)"
proof -
  have "list_all sized_input (map (\<lambda>(j, inp). inp\<lparr>ti_script_sig := if j = i then redeem else []\<rparr>) (enumerate k xs))" for k xs
    using assms(2) by (induction xs arbitrary: k) (simp_all add: sized_input_def)
  then show ?thesis using assms by (simp add: sized_tx_def sighash_stripped_def)
qed

lemma stripped_nth:
  "k < length (tx_inputs tx) \<Longrightarrow> tx_inputs (sighash_stripped tx i redeem) ! k
     = (tx_inputs tx ! k)\<lparr>ti_script_sig := if k = i then redeem else []\<rparr>"
  by (simp add: sighash_stripped_def nth_enumerate_eq)

lemma stripped_sel:
  "length (tx_inputs (sighash_stripped tx i redeem)) = length (tx_inputs tx)"
  "tx_version (sighash_stripped tx i redeem) = tx_version tx"
  "tx_outputs (sighash_stripped tx i redeem) = tx_outputs tx"
  "tx_locktime (sighash_stripped tx i redeem) = tx_locktime tx"
  by (simp_all add: sighash_stripped_def)

text \<open>
  C38. What a vault key signs for an input determines the transaction: two transactions with the
  same preimage have the same version, outputs and lock time and spend the same outpoints with the same
  sequence numbers in the same order, and the preimage is for the same input and the same redeem
  script. The value of an input is not part of it.
\<close>

theorem sighash_binds_transaction:
  assumes eq: "sighash_preimage a i redeem = sighash_preimage b j redeem'"
    and sized: "sized_tx a" "sized_tx b" "length redeem < 2 ^ 64" "length redeem' < 2 ^ 64"
    and idx: "i < length (tx_inputs a)" "redeem \<noteq> []"
  shows "tx_version a = tx_version b \<and> tx_outputs a = tx_outputs b \<and> tx_locktime a = tx_locktime b
    \<and> map (\<lambda>x. (ti_prev_txid x, ti_prev_vout x, ti_sequence x)) (tx_inputs a)
      = map (\<lambda>x. (ti_prev_txid x, ti_prev_vout x, ti_sequence x)) (tx_inputs b)
    \<and> i = j \<and> redeem = redeem'"
proof -
  let ?a = "sighash_stripped a i redeem" and ?b = "sighash_stripped b j redeem'"
  have same: "?a = ?b"
    using tx.enc_split[of ?a "u32_to_le_bytes SIGHASH_ALL" ?b "u32_to_le_bytes SIGHASH_ALL"] eq sized sized_stripped
    by (simp add: sighash_preimage_def)
  then have fields: "tx_version a = tx_version b" "tx_outputs a = tx_outputs b" "tx_locktime a = tx_locktime b"
    and len: "length (tx_inputs a) = length (tx_inputs b)"
    by (metis stripped_sel)+
  have nth: "(tx_inputs a ! k)\<lparr>ti_script_sig := if k = i then redeem else []\<rparr>
      = (tx_inputs b ! k)\<lparr>ti_script_sig := if k = j then redeem' else []\<rparr>" if "k < length (tx_inputs a)" for k
    using same that len by (metis stripped_nth)
  have "map (\<lambda>x. (ti_prev_txid x, ti_prev_vout x, ti_sequence x)) (tx_inputs a)
      = map (\<lambda>x. (ti_prev_txid x, ti_prev_vout x, ti_sequence x)) (tx_inputs b)"
  proof (rule nth_equalityI)
    fix k assume "k < length (map (\<lambda>x. (ti_prev_txid x, ti_prev_vout x, ti_sequence x)) (tx_inputs a))"
    then show "map (\<lambda>x. (ti_prev_txid x, ti_prev_vout x, ti_sequence x)) (tx_inputs a) ! k
      = map (\<lambda>x. (ti_prev_txid x, ti_prev_vout x, ti_sequence x)) (tx_inputs b) ! k"
      using nth[of k] len by (cases "tx_inputs a ! k"; cases "tx_inputs b ! k") simp
  qed (use len in simp)
  moreover have "i = j \<and> redeem = redeem'"
    using arg_cong[OF nth[OF idx(1)], of ti_script_sig] idx(2) by (simp split: if_splits)
  ultimately show ?thesis using fields by blast
qed

theorem sighash_binds_transaction_witness:
  "sighash_preimage sample_transaction 0 [0x51] \<noteq> sighash_preimage sample_transaction 1 [0x51]"
  using sighash_binds_transaction[of sample_transaction 0 "[0x51]" sample_transaction 1 "[0x51]"]
  by (auto simp: sample_transaction_def sized_tx_def sized_input_def sized_output_def unsigned_input_def)

end
