(* ===== verification/Goldcoin_Vault.thy ===== *)
theory Goldcoin_Vault
  imports Goldcoin_Address Goldcoin_Tx
begin

text \<open>
  The multisig vault (\<open>goldcoin/vault.rs\<close>), the assembly of partial signatures into an input script
  (\<open>goldcoin/multisig.rs\<close>) and the derivation of one vault per request (\<open>goldcoin/derivation.rs\<close>). The
  elliptic curve library is the record \<open>Secp256k1\<close> of the functions the code calls.
\<close>

section \<open>The vault\<close>

type_synonym pubkey33 = "264 word"

definition bytes_of_pubkey :: "pubkey33 \<Rightarrow> bytes" where
  "bytes_of_pubkey pk = rev (le_encode 33 (unat pk))"

definition pubkey_of_bytes :: "bytes \<Rightarrow> pubkey33" where
  "pubkey_of_bytes bs = word_of_nat (le_decode (rev bs))"

definition MAX_VAULT_SIGNERS :: nat where "MAX_VAULT_SIGNERS = 8"
definition VAULT_MIN_THRESHOLD :: u8 where "VAULT_MIN_THRESHOLD = 2"

text \<open>\<open>VaultPanic\<close> is the panic of the hexadecimal decoder on a string that is not ASCII.\<close>

datatype VaultError =
    EmptySignerSet
  | TooManySigners
  | VaultThresholdBelowMinimum
  | VaultThresholdExceedsSignerCount u8 nat
  | InvalidPubkey nat
  | VaultDuplicatePubkey
  | MalformedRedeemScript string
  | AddressMismatch chars chars
  | VaultPanic

definition OP_CHECKMULTISIG :: u8 where "OP_CHECKMULTISIG = 0xae"
definition PUBKEY_PUSH_LEN :: u8 where "PUBKEY_PUSH_LEN = 0x21"

definition op_n :: "u8 \<Rightarrow> u8" where
  "op_n n = 0x50 + n"

record MultisigVault =
  mv_signer_pubkeys :: "pubkey33 list"
  mv_threshold :: u8
  mv_address :: chars
  mv_script_hash :: hash20

definition validate_signer_set :: "pubkey33 list \<Rightarrow> u8 \<Rightarrow> (VaultError, unit) result" where
  "validate_signer_set pubkeys threshold =
     require (pubkeys \<noteq> []) EmptySignerSet (
     require (\<not> length pubkeys > MAX_VAULT_SIGNERS) TooManySigners (
     require (\<not> threshold < VAULT_MIN_THRESHOLD) VaultThresholdBelowMinimum (
     require (\<not> unat threshold > length pubkeys) (VaultThresholdExceedsSignerCount threshold (length pubkeys)) (
     case find (\<lambda>(i, pk). hd (bytes_of_pubkey pk) \<noteq> 0x02 \<and> hd (bytes_of_pubkey pk) \<noteq> 0x03) (enumerate 0 pubkeys) of
       Some (i, _) \<Rightarrow> Inl (InvalidPubkey i)
     | None \<Rightarrow> require (distinct pubkeys) VaultDuplicatePubkey (Inr ())))))"

definition build_redeem_script :: "pubkey33 list \<Rightarrow> u8 \<Rightarrow> bytes" where
  "build_redeem_script pubkeys threshold =
     op_n threshold # concat (map (\<lambda>pk. PUBKEY_PUSH_LEN # bytes_of_pubkey pk) pubkeys)
       @ [op_n (word_of_nat (length pubkeys)), OP_CHECKMULTISIG]"

definition new_vault ::
  "(bytes \<Rightarrow> bytes32) \<Rightarrow> (bytes \<Rightarrow> hash20) \<Rightarrow> pubkey33 list \<Rightarrow> u8 \<Rightarrow> Network \<Rightarrow> (VaultError, MultisigVault) result" where
  "new_vault sha256 ripemd160 signer_pubkeys threshold network =
     try_bind (validate_signer_set signer_pubkeys threshold) (\<lambda>_.
     let redeem_script = build_redeem_script signer_pubkeys threshold;
         script_hash = hash160 sha256 ripemd160 redeem_script;
         address = base58check_encode sha256 (p2sh_version network) script_hash
     in Inr \<lparr>mv_signer_pubkeys = signer_pubkeys, mv_threshold = threshold, mv_address = address,
        mv_script_hash = script_hash\<rparr>)"

definition redeem_script :: "MultisigVault \<Rightarrow> bytes" where
  "redeem_script v = build_redeem_script (mv_signer_pubkeys v) (mv_threshold v)"

definition redeem_script_hex :: "MultisigVault \<Rightarrow> string" where
  "redeem_script_hex v = hex_encode (redeem_script v)"

definition p2sh_script :: "hash20 \<Rightarrow> bytes" where
  "p2sh_script h = [0xa9, 0x14] @ bytes_of_hash20 h @ [0x87]"

definition script_pubkey :: "MultisigVault \<Rightarrow> bytes" where
  "script_pubkey v = p2sh_script (mv_script_hash v)"

definition script_pubkey_hex :: "MultisigVault \<Rightarrow> string" where
  "script_pubkey_hex v = hex_encode (script_pubkey v)"

definition signer_position :: "MultisigVault \<Rightarrow> pubkey33 \<Rightarrow> nat option" where
  "signer_position v pubkey = position pubkey (mv_signer_pubkeys v)"

text \<open>The loop over key pushes: what it read and what is left of the script.\<close>

function parse_pubkeys :: "bytes \<Rightarrow> (VaultError, pubkey33 list \<times> bytes) result" where
  "parse_pubkeys [] = Inr ([], [])"
| "parse_pubkeys (b # rest) =
     (if b = PUBKEY_PUSH_LEN then
        require (\<not> length rest < 33) (MalformedRedeemScript ''truncated pubkey push'') (
        try_bind (parse_pubkeys (drop 33 rest)) (\<lambda>(pks, trailer).
        Inr (pubkey_of_bytes (take 33 rest) # pks, trailer)))
      else Inr ([], b # rest))"
  by pat_completeness auto
termination by (relation "measure length") auto

definition from_redeem_script_hex ::
  "(bytes \<Rightarrow> bytes32) \<Rightarrow> (bytes \<Rightarrow> hash20) \<Rightarrow> string \<Rightarrow> Network \<Rightarrow> (VaultError, MultisigVault) result" where
  "from_redeem_script_hex sha256 ripemd160 text network =
     try_bind (map_err (\<lambda>e. if e = HexPanic then VaultPanic else MalformedRedeemScript ''not hexadecimal'') (decode_vec text)) (\<lambda>script.
     require (\<not> length script < 3) (MalformedRedeemScript ''too short'') (
     try_bind (ok_or (checked_sub (hd script) 0x50) (MalformedRedeemScript ''bad OP_M'')) (\<lambda>m.
     try_bind (parse_pubkeys (tl script)) (\<lambda>(pubkeys, trailer).
     require (length trailer = 2) (MalformedRedeemScript ''unexpected trailer length'') (
     require (trailer ! 1 = OP_CHECKMULTISIG) (MalformedRedeemScript ''missing OP_CHECKMULTISIG'') (
     try_bind (ok_or (checked_sub (trailer ! 0) 0x50) (MalformedRedeemScript ''bad OP_N'')) (\<lambda>n.
     require (unat n = length pubkeys) (MalformedRedeemScript ''OP_N does not match the pubkeys'') (
     new_vault sha256 ripemd160 pubkeys m network))))))))"

definition require_address :: "MultisigVault \<Rightarrow> chars \<Rightarrow> (VaultError, unit) result" where
  "require_address v expected = require (mv_address v = expected) (AddressMismatch expected (mv_address v)) (Inr ())"

definition validate_quorum :: "MultisigVault \<Rightarrow> nat list \<Rightarrow> (VaultError, unit) result" where
  "validate_quorum v indices =
     require (length indices = unat (mv_threshold v)) (MalformedRedeemScript ''quorum size'') (
     require (\<not> list_ex (\<lambda>(a, b). a \<ge> b) (zip indices (tl indices)))
       (MalformedRedeemScript ''quorum indices must be strictly ascending'') (
     require (indices = [] \<or> \<not> last indices \<ge> length (mv_signer_pubkeys v))
       (MalformedRedeemScript ''quorum index out of range'') (Inr ())))"

section \<open>Signatures\<close>

text \<open>
  The elliptic curve library. A transformation that can fail returns an option.
\<close>

record ('sk, 'pk, 'sg) Secp256k1 =
  secp_parse_secret :: "bytes32 \<Rightarrow> 'sk option"
  secp_public :: "'sk \<Rightarrow> 'pk"
  secp_parse_compressed :: "pubkey33 \<Rightarrow> 'pk option"
  secp_serialize_compressed :: "'pk \<Rightarrow> pubkey33"
  secp_tweak_secret :: "'sk \<Rightarrow> 'sk \<Rightarrow> 'sk option"
  secp_tweak_public :: "'pk \<Rightarrow> 'sk \<Rightarrow> 'pk option"
  secp_sign :: "bytes32 \<Rightarrow> 'sk \<Rightarrow> 'sg"
  secp_verify :: "bytes32 \<Rightarrow> 'sg \<Rightarrow> 'pk \<Rightarrow> bool"
  secp_normalize_s :: "'sg \<Rightarrow> 'sg"
  secp_parse_der :: "bytes \<Rightarrow> 'sg option"
  secp_serialize_der :: "'sg \<Rightarrow> bytes"

datatype MultisigError =
    SignerNotInVault
  | DuplicateSigner
  | MultisigThresholdNotMet nat nat
  | TooManySignatures nat nat
  | InvalidSignature
  | MultisigPanic

record PartialSignature =
  ps_vault_pubkey :: pubkey33
  ps_der_signature :: bytes

definition SIGHASH_ALL_BYTE :: u8 where "SIGHASH_ALL_BYTE = 0x01"

definition sign_low_s :: "('sk, 'pk, 'sg) Secp256k1 \<Rightarrow> bytes32 \<Rightarrow> 'sk \<Rightarrow> bytes" where
  "sign_low_s secp sighash secret_key =
     secp_serialize_der secp (secp_normalize_s secp (secp_sign secp sighash secret_key))"

definition verify_partial :: "('sk, 'pk, 'sg) Secp256k1 \<Rightarrow> pubkey33 \<Rightarrow> bytes32 \<Rightarrow> bytes \<Rightarrow> bool" where
  "verify_partial secp pubkey sighash der_signature =
     (case secp_parse_compressed secp pubkey of
        None \<Rightarrow> False
      | Some pk \<Rightarrow> (case secp_parse_der secp der_signature of
          None \<Rightarrow> False
        | Some sig \<Rightarrow> secp_verify secp sighash sig pk))"

primrec place_partials ::
  "('sk, 'pk, 'sg) Secp256k1 \<Rightarrow> MultisigVault \<Rightarrow> bytes32 \<Rightarrow> PartialSignature list \<Rightarrow> nat set \<Rightarrow> (nat \<times> bytes) list
    \<Rightarrow> (MultisigError, (nat \<times> bytes) list) result" where
  "place_partials secp vault sighash [] seen_positions placed = Inr placed"
| "place_partials secp vault sighash (partial # rest) seen_positions placed =
     try_bind (ok_or (signer_position vault (ps_vault_pubkey partial)) SignerNotInVault) (\<lambda>position.
     require (position \<notin> seen_positions) DuplicateSigner (
     require (verify_partial secp (ps_vault_pubkey partial) sighash (ps_der_signature partial)) InvalidSignature (
     case secp_parse_der secp (ps_der_signature partial) of
       None \<Rightarrow> Inl MultisigPanic
     | Some sig \<Rightarrow> place_partials secp vault sighash rest (insert position seen_positions)
         (placed @ [(position, secp_serialize_der secp (secp_normalize_s secp sig))]))))"

primrec push_all :: "bytes list \<Rightarrow> (MultisigError, bytes) result" where
  "push_all [] = Inr []"
| "push_all (d # ds) =
     try_bind (ok_or (push_data d) MultisigPanic) (\<lambda>pushed. try_bind (push_all ds) (\<lambda>rest. Inr (pushed @ rest)))"

definition assemble ::
  "('sk, 'pk, 'sg) Secp256k1 \<Rightarrow> MultisigVault \<Rightarrow> bytes32 \<Rightarrow> PartialSignature list \<Rightarrow> (MultisigError, bytes) result" where
  "assemble secp vault sighash partials =
     try_bind (place_partials secp vault sighash partials {} []) (\<lambda>placed.
     let threshold = unat (mv_threshold vault) in
     require (\<not> length placed < threshold) (MultisigThresholdNotMet (length placed) threshold) (
     require (\<not> length placed > threshold) (TooManySignatures (length placed) threshold) (
     let placed = sort_key fst placed in
     try_bind (push_all (map (\<lambda>(_, der). der @ [SIGHASH_ALL_BYTE]) placed @ [redeem_script vault])) (\<lambda>pushes.
     Inr (0x00 # pushes)))))"

section \<open>One vault per request\<close>

datatype DerivationError = DerivationVault VaultError | TweakFailed i64 | DerivationPanic

definition TWEAK_DOMAIN :: bytes where
  "TWEAK_DOMAIN = map of_char ''glc-bridge-deposit''"

definition request_tweak :: "(bytes \<Rightarrow> bytes32) \<Rightarrow> ('sk, 'pk, 'sg) Secp256k1 \<Rightarrow> i64 \<Rightarrow> (DerivationError, 'sk) result" where
  "request_tweak sha256 secp request_id =
     ok_or (secp_parse_secret secp (sha256 (TWEAK_DOMAIN @ u64_to_le_bytes (word_of_int request_id)))) DerivationPanic"

primrec tweak_pubkeys ::
  "('sk, 'pk, 'sg) Secp256k1 \<Rightarrow> i64 \<Rightarrow> 'sk \<Rightarrow> pubkey33 list \<Rightarrow> (DerivationError, pubkey33 list) result" where
  "tweak_pubkeys secp request_id tweak [] = Inr []"
| "tweak_pubkeys secp request_id tweak (pk_bytes # rest) =
     try_bind (ok_or (secp_parse_compressed secp pk_bytes) (TweakFailed request_id)) (\<lambda>pk.
     try_bind (ok_or (secp_tweak_public secp pk tweak) (TweakFailed request_id)) (\<lambda>pk.
     try_bind (tweak_pubkeys secp request_id tweak rest) (\<lambda>pks.
     Inr (secp_serialize_compressed secp pk # pks))))"

definition derive_request_vault ::
  "(bytes \<Rightarrow> bytes32) \<Rightarrow> (bytes \<Rightarrow> hash20) \<Rightarrow> ('sk, 'pk, 'sg) Secp256k1 \<Rightarrow> MultisigVault \<Rightarrow> i64 \<Rightarrow> Network
    \<Rightarrow> (DerivationError, MultisigVault) result" where
  "derive_request_vault sha256 ripemd160 secp root request_id network =
     try_bind (request_tweak sha256 secp request_id) (\<lambda>tweak.
     try_bind (tweak_pubkeys secp request_id tweak (mv_signer_pubkeys root)) (\<lambda>tweaked_pubkeys.
     map_err DerivationVault (new_vault sha256 ripemd160 tweaked_pubkeys (mv_threshold root) network)))"

definition derive_request_seckey ::
  "(bytes \<Rightarrow> bytes32) \<Rightarrow> ('sk, 'pk, 'sg) Secp256k1 \<Rightarrow> 'sk \<Rightarrow> i64 \<Rightarrow> (DerivationError, 'sk) result" where
  "derive_request_seckey sha256 secp root_seckey request_id =
     try_bind (request_tweak sha256 secp request_id) (\<lambda>tweak.
     ok_or (secp_tweak_secret secp root_seckey tweak) (TweakFailed request_id))"

section \<open>Redeem scripts\<close>

lemma length_bytes_of_pubkey [simp]: "length (bytes_of_pubkey pk) = 33"
  by (simp add: bytes_of_pubkey_def)

lemma pubkey_roundtrip [simp]: "pubkey_of_bytes (bytes_of_pubkey pk) = pk"
  using unat_lt2p[of pk] by (simp add: pubkey_of_bytes_def bytes_of_pubkey_def le_decode_encode)

lemma bytes_pubkey: "length bs = 33 \<Longrightarrow> bytes_of_pubkey (pubkey_of_bytes bs) = bs"
  using le_decode_less[of "rev bs"] le_encode_decode[of "rev bs"]
  by (simp add: pubkey_of_bytes_def bytes_of_pubkey_def unat_of_nat take_bit_nat_eq_self)

lemma parse_pubkeys_Inr:
  "parse_pubkeys bs = Inr (pks, trailer) \<longleftrightarrow>
     bs = concat (map (\<lambda>pk. PUBKEY_PUSH_LEN # bytes_of_pubkey pk) pks) @ trailer
     \<and> (trailer = [] \<or> hd trailer \<noteq> PUBKEY_PUSH_LEN)"
proof (induction bs arbitrary: pks rule: parse_pubkeys.induct)
  case 1
  then show ?case by (cases pks) auto
next
  case (2 b rest)
  show ?case
  proof (cases "b = PUBKEY_PUSH_LEN \<and> 33 \<le> length rest")
    case True
    then have "parse_pubkeys (b # rest) = Inr (pks, trailer) \<longleftrightarrow>
        (\<exists>pks'. pks = pubkey_of_bytes (take 33 rest) # pks' \<and> parse_pubkeys (drop 33 rest) = Inr (pks', trailer))"
      by (auto simp: try_bind_def split: sum.splits)
    also have "\<dots> \<longleftrightarrow> (\<exists>pks'. pks = pubkey_of_bytes (take 33 rest) # pks'
        \<and> drop 33 rest = concat (map (\<lambda>pk. PUBKEY_PUSH_LEN # bytes_of_pubkey pk) pks') @ trailer
        \<and> (trailer = [] \<or> hd trailer \<noteq> PUBKEY_PUSH_LEN))"
      using 2 True by auto
    also have "\<dots> \<longleftrightarrow> b # rest = concat (map (\<lambda>pk. PUBKEY_PUSH_LEN # bytes_of_pubkey pk) pks) @ trailer
        \<and> (trailer = [] \<or> hd trailer \<noteq> PUBKEY_PUSH_LEN)"
    proof (cases pks)
      case Nil
      then show ?thesis using True by auto
    next
      case (Cons pk pks')
      let ?r = "concat (map (\<lambda>pk. PUBKEY_PUSH_LEN # bytes_of_pubkey pk) pks') @ trailer"
      have "pk = pubkey_of_bytes (take 33 rest) \<longleftrightarrow> take 33 rest = bytes_of_pubkey pk"
        using True bytes_pubkey[of "take 33 rest"] pubkey_roundtrip[of pk] by (auto simp: min_absorb2)
      moreover have "rest = bytes_of_pubkey pk @ ?r \<longleftrightarrow> take 33 rest = bytes_of_pubkey pk \<and> drop 33 rest = ?r"
        using append_eq_conv_conj[of "bytes_of_pubkey pk" ?r rest] by auto
      ultimately show ?thesis unfolding Cons using True by simp
    qed
    finally show ?thesis .
  next
    case False
    then show ?thesis
      by (cases pks; cases "b = PUBKEY_PUSH_LEN") (auto simp: require_def)
  qed
qed

lemma new_vault_Inr:
  "new_vault sha256 ripemd160 pks t network = Inr v \<Longrightarrow> mv_signer_pubkeys v = pks \<and> mv_threshold v = t
     \<and> validate_signer_set pks t = Inr ()"
  by (auto simp: new_vault_def Let_def try_bind_def split: sum.splits)

lemma set_enumerate_snd: "pk \<in> set pks \<longleftrightarrow> (\<exists>i. (i, pk) \<in> set (enumerate 0 pks))"
  by (simp add: in_set_enumerate_eq in_set_conv_nth[of pk])

lemma validate_signer_set_Inr:
  "validate_signer_set pks t = Inr () \<longleftrightarrow> 2 \<le> t \<and> unat t \<le> length pks \<and> length pks \<le> 8 \<and> distinct pks
     \<and> (\<forall>pk\<in>set pks. hd (bytes_of_pubkey pk) \<in> {0x02, 0x03})"
proof -
  let ?bad = "\<lambda>(i :: nat, pk). hd (bytes_of_pubkey pk) \<noteq> 0x02 \<and> hd (bytes_of_pubkey pk) \<noteq> 0x03"
  have find: "find ?bad (enumerate 0 pks) = None \<longleftrightarrow> (\<forall>pk\<in>set pks. hd (bytes_of_pubkey pk) \<in> {0x02, 0x03})"
    unfolding find_None_iff using set_enumerate_snd[of _ pks] by fastforce
  have "2 \<le> t \<Longrightarrow> unat t \<le> length pks \<Longrightarrow> pks \<noteq> []" by (auto simp: word_le_nat_alt)
  then show ?thesis unfolding find[symmetric]
    by (auto simp: validate_signer_set_def require_def MAX_VAULT_SIGNERS_def VAULT_MIN_THRESHOLD_def not_less split: option.splits)
qed

lemma op_n_decode: "unat n \<le> 8 \<Longrightarrow> checked_sub (op_n n) 0x50 = Some n"
proof -
  assume n: "unat n \<le> 8"
  then have "unat (op_n n) = 0x50 + unat n" by (simp add: op_n_def unat_word_ariths)
  then show ?thesis by (simp add: checked_sub_def word_le_nat_alt) (simp add: op_n_def)
qed

lemma op_n_inverse: "checked_sub b 0x50 = Some n \<Longrightarrow> b = op_n n"
  by (auto simp: checked_sub_def op_n_def split: if_splits)

lemma op_n_trailer: "length pks \<le> 8 \<Longrightarrow> op_n (word_of_nat (length pks)) \<noteq> PUBKEY_PUSH_LEN"
proof -
  assume "length pks \<le> 8"
  then have "unat (op_n (word_of_nat (length pks))) = 0x50 + length pks"
    by (simp add: op_n_def unat_word_ariths unat_of_nat take_bit_eq_mod)
  then show ?thesis by (simp add: PUBKEY_PUSH_LEN_def word_unat_eq_iff)
qed

lemma from_redeem_script_Inr:
  "from_redeem_script_hex sha256 ripemd160 text network = Inr v \<longleftrightarrow>
     (\<exists>m pks n. decode_vec text = Inr (m # concat (map (\<lambda>pk. PUBKEY_PUSH_LEN # bytes_of_pubkey pk) pks) @ [n, OP_CHECKMULTISIG])
        \<and> n \<noteq> PUBKEY_PUSH_LEN \<and> checked_sub n 0x50 = Some (word_of_nat (length pks)) \<and> length pks < 256
        \<and> (\<exists>t. checked_sub m 0x50 = Some t \<and> new_vault sha256 ripemd160 pks t network = Inr v))"
  (is "_ \<longleftrightarrow> ?parsed")
proof
  assume "from_redeem_script_hex sha256 ripemd160 text network = Inr v"
  then obtain script pks trailer t n where "decode_vec text = Inr script" "3 \<le> length script"
    "checked_sub (hd script) 0x50 = Some t" "parse_pubkeys (tl script) = Inr (pks, trailer)"
    "length trailer = 2" "trailer ! 1 = OP_CHECKMULTISIG" "checked_sub (trailer ! 0) 0x50 = Some n"
    "unat n = length pks" "new_vault sha256 ripemd160 pks t network = Inr v"
    by (auto simp: from_redeem_script_hex_def try_bind_def require_def ok_or_def map_err_def
        split: sum.splits if_splits option.splits)
  note parsed = this
  then obtain b where trailer: "trailer = [b, OP_CHECKMULTISIG]"
    by (cases trailer; cases "tl trailer") auto
  obtain m where script: "script = m # concat (map (\<lambda>pk. PUBKEY_PUSH_LEN # bytes_of_pubkey pk) pks) @ [b, OP_CHECKMULTISIG]"
    "b \<noteq> PUBKEY_PUSH_LEN"
    using parsed(2,4) unfolding parse_pubkeys_Inr trailer by (cases script) auto
  have "n = word_of_nat (length pks)" "length pks < 256"
    using parsed(8) unat_lt2p[of n] by (auto simp: word_unat_eq_iff unat_of_nat take_bit_nat_eq_self)
  then show ?parsed using parsed script trailer by auto
next
  assume ?parsed
  then obtain m pks n t where p: "decode_vec text = Inr (m # concat (map (\<lambda>pk. PUBKEY_PUSH_LEN # bytes_of_pubkey pk) pks) @ [n, OP_CHECKMULTISIG])"
    "n \<noteq> PUBKEY_PUSH_LEN" "checked_sub n 0x50 = Some (word_of_nat (length pks))" "length pks < 256"
    "checked_sub m 0x50 = Some t" "new_vault sha256 ripemd160 pks t network = Inr v" by blast
  moreover have "parse_pubkeys (concat (map (\<lambda>pk. PUBKEY_PUSH_LEN # bytes_of_pubkey pk) pks) @ [n, OP_CHECKMULTISIG])
      = Inr (pks, [n, OP_CHECKMULTISIG])" using p(2) by (simp add: parse_pubkeys_Inr)
  moreover have "unat (word_of_nat (length pks) :: u8) = length pks" using p(4) by (simp add: unat_of_nat take_bit_nat_eq_self)
  ultimately show "from_redeem_script_hex sha256 ripemd160 text network = Inr v"
    by (simp add: from_redeem_script_hex_def)
qed

text \<open>
  A redeem script and the vault it defines determine each other: a text is read as a vault if and only if it
  is the hexadecimal form of that vault's own script and the vault is one the constructor accepts, so what a
  stored script is taken to control is exactly what its bytes say.
\<close>

theorem redeem_script_exact:
  "from_redeem_script_hex sha256 ripemd160 text network = Inr v \<longleftrightarrow>
     decode_vec text = Inr (redeem_script v)
     \<and> new_vault sha256 ripemd160 (mv_signer_pubkeys v) (mv_threshold v) network = Inr v"
proof
  assume "from_redeem_script_hex sha256 ripemd160 text network = Inr v"
  then show "decode_vec text = Inr (redeem_script v)
     \<and> new_vault sha256 ripemd160 (mv_signer_pubkeys v) (mv_threshold v) network = Inr v"
    unfolding from_redeem_script_Inr
    by (auto dest!: op_n_inverse dest: new_vault_Inr simp: redeem_script_def build_redeem_script_def)
next
  assume v: "decode_vec text = Inr (redeem_script v)
     \<and> new_vault sha256 ripemd160 (mv_signer_pubkeys v) (mv_threshold v) network = Inr v"
  then have ok: "unat (mv_threshold v) \<le> length (mv_signer_pubkeys v)" "length (mv_signer_pubkeys v) \<le> 8"
    using new_vault_Inr validate_signer_set_Inr by blast+
  then have n: "unat (word_of_nat (length (mv_signer_pubkeys v)) :: u8) \<le> 8" by (simp add: unat_of_nat take_bit_eq_mod)
  have "checked_sub (op_n (mv_threshold v)) 0x50 = Some (mv_threshold v)" using ok by (intro op_n_decode) simp
  with v op_n_decode[OF n] op_n_trailer[OF ok(2)] ok(2)
  show "from_redeem_script_hex sha256 ripemd160 text network = Inr v"
    unfolding from_redeem_script_Inr redeem_script_def build_redeem_script_def by fastforce
qed

section \<open>Assembly\<close>

definition canonical_der :: "('sk, 'pk, 'sg) Secp256k1 \<Rightarrow> PartialSignature \<Rightarrow> bytes" where
  "canonical_der secp p = (case secp_parse_der secp (ps_der_signature p) of
     None \<Rightarrow> [] | Some sig \<Rightarrow> secp_serialize_der secp (secp_normalize_s secp sig))"

text \<open>The contributions in the order of the keys in the redeem script.\<close>

definition in_script_order :: "MultisigVault \<Rightarrow> PartialSignature list \<Rightarrow> PartialSignature list" where
  "in_script_order vault partials =
     concat (map (\<lambda>pk. filter (\<lambda>p. ps_vault_pubkey p = pk) partials) (mv_signer_pubkeys vault))"

definition acceptable :: "('sk, 'pk, 'sg) Secp256k1 \<Rightarrow> MultisigVault \<Rightarrow> bytes32 \<Rightarrow> PartialSignature list \<Rightarrow> bool" where
  "acceptable secp vault sighash partials \<longleftrightarrow>
     distinct (map ps_vault_pubkey partials) \<and> ps_vault_pubkey ` set partials \<subseteq> set (mv_signer_pubkeys vault)
     \<and> (\<forall>p\<in>set partials. verify_partial secp (ps_vault_pubkey p) sighash (ps_der_signature p))
     \<and> length partials = unat (mv_threshold vault)"

lemma position_distinct: "distinct xs \<Longrightarrow> i < length xs \<Longrightarrow> position (xs ! i) xs = Some i"
proof (cases "position (xs ! i) xs")
  case (Some j)
  assume "distinct xs" "i < length xs"
  with position_eq_Some[OF Some] show ?thesis using nth_eq_iff_index_eq[of xs j i] Some by auto
qed (auto simp: position_eq_None)

abbreviation place :: "MultisigVault \<Rightarrow> PartialSignature \<Rightarrow> nat" where
  "place vault p \<equiv> the (signer_position vault (ps_vault_pubkey p))"

lemma place_partials_Inr:
  "place_partials secp vault sighash ps seen placed = Inr r \<longleftrightarrow>
     ps_vault_pubkey ` set ps \<subseteq> set (mv_signer_pubkeys vault)
     \<and> distinct (map (place vault) ps) \<and> place vault ` set ps \<inter> seen = {}
     \<and> (\<forall>p\<in>set ps. verify_partial secp (ps_vault_pubkey p) sighash (ps_der_signature p))
     \<and> r = placed @ map (\<lambda>p. (place vault p, canonical_der secp p)) ps"
proof (induction ps arbitrary: seen placed)
  case (Cons p ps)
  have parsed: "verify_partial secp (ps_vault_pubkey p) sighash (ps_der_signature p) \<Longrightarrow>
      \<exists>sig. secp_parse_der secp (ps_der_signature p) = Some sig"
    by (auto simp: verify_partial_def split: option.splits)
  show ?case
  proof (cases "signer_position vault (ps_vault_pubkey p)")
    case None
    then have "ps_vault_pubkey p \<notin> set (mv_signer_pubkeys vault)" by (simp add: signer_position_def position_eq_None)
    then show ?thesis using None by (simp add: ok_or_def)
  next
    case (Some i)
    then have "ps_vault_pubkey p \<in> set (mv_signer_pubkeys vault)"
      using position_eq_Some unfolding signer_position_def by (metis nth_mem)
    then show ?thesis
      using Some parsed by (auto simp: Cons.IH canonical_der_def require_def split: option.splits)
  qed
qed auto

lemma sort_key_map: "sort_key f (map g xs) = map g (sort_key (f \<circ> g) xs)"
proof -
  have "insort_key f (g x) (map g ys) = map g (insort_key (f \<circ> g) x ys)" for x ys by (induction ys) auto
  then show ?thesis by (induction xs) simp_all
qed

lemma mset_grouped:
  "distinct ks \<Longrightarrow> mset (concat (map (\<lambda>k. filter (\<lambda>p. key p = k) ps) ks)) = filter_mset (\<lambda>p. key p \<in> set ks) (mset ps)"
proof (induction ks)
  case (Cons k ks)
  then show ?case by (auto intro!: multiset_eqI)
qed simp

lemma sorted_grouped:
  "sorted_wrt (\<lambda>a b. idx a \<le> idx b) ks \<Longrightarrow> sorted (map (\<lambda>p. idx (key p)) (concat (map (\<lambda>k. filter (\<lambda>p. key p = k) ps) ks)))"
proof (induction ks)
  case (Cons k ks)
  have "sorted (map (\<lambda>p. idx (key p)) (filter (\<lambda>p. key p = k) ps))"
    by (rule sorted_wrt_map[THEN iffD2], rule sorted_wrt_mono_rel[OF _ sorted_wrt_true]) auto
  with Cons show ?case by (auto simp: sorted_append)
qed simp

lemma place_inj:
  assumes "a \<in> set (mv_signer_pubkeys vault)" "b \<in> set (mv_signer_pubkeys vault)"
    and "the (signer_position vault a) = the (signer_position vault b)"
  shows "a = b"
proof -
  obtain i j where "position a (mv_signer_pubkeys vault) = Some i" "position b (mv_signer_pubkeys vault) = Some j"
    using assms(1,2) by (metis position_eq_None not_Some_eq)
  with assms(3) show ?thesis
    using position_eq_Some[of a] position_eq_Some[of b] by (fastforce simp: signer_position_def)
qed

lemma placed_order:
  assumes "distinct (mv_signer_pubkeys vault)" "ps_vault_pubkey ` set ps \<subseteq> set (mv_signer_pubkeys vault)"
    and "distinct (map ps_vault_pubkey ps)"
  shows "sort_key (place vault) ps = in_script_order vault ps"
proof (rule sort_key_inj_key_eq)
  have "filter_mset (\<lambda>p. ps_vault_pubkey p \<in> set (mv_signer_pubkeys vault)) (mset ps) = mset ps"
    using assms(2) by (auto simp: filter_mset_eq_conv)
  then show "mset ps = mset (in_script_order vault ps)"
    using mset_grouped[OF assms(1), of ps_vault_pubkey ps] by (simp add: in_script_order_def)
  show "inj_on (place vault) (set ps)"
    using assms(2,3) place_inj[of _ vault] by (auto simp: inj_on_def distinct_map image_subset_iff)
  have "sorted_wrt (\<lambda>a b. the (signer_position vault a) \<le> the (signer_position vault b)) (mv_signer_pubkeys vault)"
    using position_distinct[OF assms(1)] by (simp add: sorted_wrt_iff_nth_less signer_position_def)
  from sorted_grouped[OF this, of ps_vault_pubkey ps] show "sorted (map (place vault) (in_script_order vault ps))"
    by (simp add: in_script_order_def)
qed

lemma distinct_places:
  assumes "ps_vault_pubkey ` set ps \<subseteq> set (mv_signer_pubkeys vault)"
  shows "distinct (map (place vault) ps) \<longleftrightarrow> distinct (map ps_vault_pubkey ps)"
  using assms place_inj[of _ vault] by (auto simp: distinct_map inj_on_def image_subset_iff)

lemma assemble_Inr:
  assumes "distinct (mv_signer_pubkeys vault)"
  shows "assemble secp vault sighash ps = Inr s \<longleftrightarrow> acceptable secp vault sighash ps
    \<and> (\<exists>pushes. push_all (map (\<lambda>p. canonical_der secp p @ [SIGHASH_ALL_BYTE]) (in_script_order vault ps) @ [redeem_script vault])
        = Inr pushes \<and> s = 0x00 # pushes)"
proof (cases "place_partials secp vault sighash ps {} []")
  case (Inl e)
  then have "\<not> acceptable secp vault sighash ps"
    using place_partials_Inr[of secp vault sighash ps "{}" "[]"] distinct_places[of ps vault]
    by (auto simp: acceptable_def)
  then show ?thesis by (simp add: assemble_def Inl)
next
  case (Inr placed)
  then have ok: "ps_vault_pubkey ` set ps \<subseteq> set (mv_signer_pubkeys vault)" "distinct (map ps_vault_pubkey ps)"
    "\<forall>p\<in>set ps. verify_partial secp (ps_vault_pubkey p) sighash (ps_der_signature p)"
    and placed: "placed = map (\<lambda>p. (place vault p, canonical_der secp p)) ps"
    unfolding place_partials_Inr using distinct_places by auto
  have "sort_key fst placed = map (\<lambda>p. (place vault p, canonical_der secp p)) (in_script_order vault ps)"
    unfolding placed sort_key_map using placed_order[OF assms ok(1,2)] by (simp add: comp_def)
  then have ders: "map (\<lambda>(_, der). der @ [SIGHASH_ALL_BYTE]) (sort_key fst placed)
      = map (\<lambda>p. canonical_der secp p @ [SIGHASH_ALL_BYTE]) (in_script_order vault ps)" by simp
  have "length placed = length ps" by (simp add: placed)
  then show ?thesis
    using ok by (auto simp: assemble_def Inr Let_def ders acceptable_def require_def try_bind_def split: sum.splits)
qed

lemma vault_signers_distinct: "new_vault sha256 ripemd160 pks t network = Inr v \<Longrightarrow> distinct (mv_signer_pubkeys v)"
  using new_vault_Inr validate_signer_set_Inr by blast

lemma in_script_order_perm:
  assumes "acceptable secp vault sighash ps" "mset ps' = mset ps" "distinct (mv_signer_pubkeys vault)"
  shows "acceptable secp vault sighash ps' \<and> in_script_order vault ps' = in_script_order vault ps"
proof -
  have same: "set ps' = set ps" "length ps' = length ps" using assms(2) by (metis set_mset_mset, metis size_mset)
  have keys: "distinct (map ps_vault_pubkey ps')"
    using assms(1,2) by (metis acceptable_def distinct_count_atmost_1 mset_map set_mset_mset)
  have "acceptable secp vault sighash ps'" using assms(1) same keys by (auto simp: acceptable_def)
  moreover have "sort_key (place vault) ps' = sort_key (place vault) ps"
  proof (rule sort_key_inj_key_eq)
    show "inj_on (place vault) (set ps')"
      using assms(1) same keys distinct_places[of ps' vault] by (auto simp: acceptable_def distinct_map)
  qed (use assms(2) in simp_all)
  ultimately show ?thesis
    using placed_order[OF assms(3), of ps] placed_order[OF assms(3), of ps'] assms(1) by (simp add: acceptable_def)
qed

text \<open>
  C35. The input script is assembled exactly from a threshold of valid signatures: assembly succeeds only when the
  contributions are from distinct signers of the vault, each valid for its key and the message, and exactly as
  many as the vault requires; the result is the dummy element, the signatures in canonical form in the order of
  the keys in the redeem script, and the script itself; and it does not depend on the order in which the
  contributions arrived.
\<close>

theorem assembly_exact:
  assumes "new_vault sha256 ripemd160 pks t network = Inr vault"
  shows "(assemble secp vault sighash ps = Inr s \<longleftrightarrow> acceptable secp vault sighash ps
      \<and> (\<exists>pushes. push_all (map (\<lambda>p. canonical_der secp p @ [SIGHASH_ALL_BYTE]) (in_script_order vault ps) @ [redeem_script vault])
          = Inr pushes \<and> s = 0x00 # pushes))
    \<and> (assemble secp vault sighash ps = Inr s \<and> mset ps' = mset ps \<longrightarrow> assemble secp vault sighash ps' = Inr s)"
proof -
  note exact = assemble_Inr[OF vault_signers_distinct[OF assms]]
  have "assemble secp vault sighash ps' = Inr s" if "assemble secp vault sighash ps = Inr s" "mset ps' = mset ps"
    using that(1) in_script_order_perm[OF _ that(2) vault_signers_distinct[OF assms], of secp sighash]
    unfolding exact by auto
  then show ?thesis using exact by blast
qed

section \<open>Keys of derived vaults\<close>

text \<open>
  What the curve library documents of tweaking: a secret key tweaked by a scalar has the public key tweaked
  by the same scalar, and a serialized public key is read back.
\<close>

definition tweak_law :: "('sk, 'pk, 'sg) Secp256k1 \<Rightarrow> bool" where
  "tweak_law secp \<longleftrightarrow>
     (\<forall>sk t sk'. secp_tweak_secret secp sk t = Some sk' \<longrightarrow> secp_tweak_public secp (secp_public secp sk) t = Some (secp_public secp sk'))
     \<and> (\<forall>pk. secp_parse_compressed secp (secp_serialize_compressed secp pk) = Some pk)"

lemma tweak_pubkeys_nth:
  assumes "tweak_pubkeys secp k tweak pks = Inr tweaked" "i < length pks"
  shows "length tweaked = length pks \<and> (\<exists>pk pk'. secp_parse_compressed secp (pks ! i) = Some pk
    \<and> secp_tweak_public secp pk tweak = Some pk' \<and> tweaked ! i = secp_serialize_compressed secp pk')"
  using assms
proof (induction pks arbitrary: tweaked i)
  case (Cons a pks)
  then obtain pk pk' rest where a: "secp_parse_compressed secp a = Some pk" "secp_tweak_public secp pk tweak = Some pk'"
    "tweak_pubkeys secp k tweak pks = Inr rest" "tweaked = secp_serialize_compressed secp pk' # rest"
    by (auto simp: try_bind_def ok_or_def split: sum.splits option.splits)
  then have "length rest = length pks" using Cons.IH[of rest 0] by (cases pks) auto
  with a Cons.IH[of rest "i - 1"] Cons.prems(2) show ?case by (cases i) auto
qed simp

text \<open>
  The key that a signer derives for a request is the key the request's vault expects in that signer's place:
  from its own root secret alone, a signer of the root vault can sign for every vault derived from it.
\<close>

theorem derived_key_matches_vault:
  assumes "tweak_law secp" "derive_request_vault sha256 ripemd160 secp root k network = Inr vault"
    and "i < length (mv_signer_pubkeys root)"
    and "mv_signer_pubkeys root ! i = secp_serialize_compressed secp (secp_public secp sk)"
    and "derive_request_seckey sha256 secp sk k = Inr sk'"
  shows "signer_position vault (secp_serialize_compressed secp (secp_public secp sk')) = Some i
    \<and> mv_threshold vault = mv_threshold root \<and> length (mv_signer_pubkeys vault) = length (mv_signer_pubkeys root)"
proof -
  obtain tweak tweaked where t: "request_tweak sha256 secp k = Inr tweak"
    "tweak_pubkeys secp k tweak (mv_signer_pubkeys root) = Inr tweaked"
    and vault: "new_vault sha256 ripemd160 tweaked (mv_threshold root) network = Inr vault"
    using assms(2) by (auto simp: derive_request_vault_def try_bind_def map_err_def split: sum.splits)
  have "secp_tweak_secret secp sk tweak = Some sk'"
    using assms(5) t(1) by (auto simp: derive_request_seckey_def ok_or_def split: option.splits)
  then have "length tweaked = length (mv_signer_pubkeys root)"
    "tweaked ! i = secp_serialize_compressed secp (secp_public secp sk')"
    using tweak_pubkeys_nth[OF t(2) assms(3)] assms(1,4) by (auto simp: tweak_law_def)
  moreover have "mv_signer_pubkeys vault = tweaked" "mv_threshold vault = mv_threshold root" "distinct tweaked"
    using new_vault_Inr[OF vault] vault_signers_distinct[OF vault] by auto
  ultimately show ?thesis using position_distinct[of tweaked i] assms(3) by (simp add: signer_position_def)
qed

section \<open>A sample vault\<close>

lemma hd_bytes_of_pubkey: "hd (bytes_of_pubkey pk) = word_of_nat (unat pk div 2 ^ 256)"
proof -
  have "last (le_encode (Suc n) v) = word_of_nat (v div 256 ^ n)" for n v
    by (induction n arbitrary: v) (auto simp: div_mult2_eq word_of_nat_eq_iff take_bit_eq_mod)
  from this[of 32] show ?thesis by (simp add: bytes_of_pubkey_def hd_rev flip: numeral_2_eq_2 eval_nat_numeral)
qed

definition sample_vault_keys :: "pubkey33 list" where
  "sample_vault_keys = [0x02 * 2 ^ 256 + 1, 0x03 * 2 ^ 256 + 2, 0x02 * 2 ^ 256 + 3]"

definition sample_secp :: "(pubkey33, pubkey33, bytes) Secp256k1" where
  "sample_secp = \<lparr>secp_parse_secret = (\<lambda>h. Some (word_of_nat (unat h mod 256))), secp_public = id,
     secp_parse_compressed = Some, secp_serialize_compressed = id,
     secp_tweak_secret = (\<lambda>sk t. Some (sk + t)), secp_tweak_public = (\<lambda>pk t. Some (pk + t)),
     secp_sign = (\<lambda>h sk. to_bytes h @ bytes_of_pubkey sk), secp_verify = (\<lambda>h sig pk. sig = to_bytes h @ bytes_of_pubkey pk),
     secp_normalize_s = id, secp_parse_der = Some, secp_serialize_der = id\<rparr>"

lemma hd_add_small:
  assumes "unat x mod 2 ^ 256 + unat t < 2 ^ 256"
  shows "hd (bytes_of_pubkey (x + t)) = hd (bytes_of_pubkey x)"
proof -
  let ?m = "2 ^ 256 :: nat" and ?q = "unat x div 2 ^ 256" and ?r = "unat x mod 2 ^ 256"
  have x: "unat x = ?q * ?m + ?r" by (rule div_mod_decomp)
  have "?q < 256" using unat_lt2p[of x] by (intro less_mult_imp_div_less) simp
  then have "?q * ?m \<le> 255 * ?m" by (intro mult_right_mono) simp_all
  moreover have "255 * ?m + ?m = 2 ^ 264" by simp
  ultimately have "unat x + unat t < 2 ^ 264" using x assms by linarith
  then have "unat (x + t) = (?r + unat t) + ?q * ?m" using x by (simp add: unat_word_ariths)
  moreover have "(r + q * m) div m = q" if "r < m" for r q m :: nat using that by simp
  from this[OF assms] have "((?r + unat t) + ?q * ?m) div ?m = ?q" .
  ultimately show ?thesis unfolding hd_bytes_of_pubkey by (simp only:)
qed

lemma sample_keys_valid:
  assumes "unat t < 256"
  shows "validate_signer_set (map (\<lambda>k. k + t) sample_vault_keys) 2 = Inr ()"
  unfolding validate_signer_set_Inr using assms by (auto simp: sample_vault_keys_def hd_add_small) (simp_all add: hd_bytes_of_pubkey)

lemma new_vault_valid: "validate_signer_set pks t = Inr () \<Longrightarrow> \<exists>v. new_vault sha256 ripemd160 pks t network = Inr v"
  by (simp add: new_vault_def Let_def)

definition sample_ripemd160 :: "bytes \<Rightarrow> hash20" where
  "sample_ripemd160 bs = hash20_of_bytes (take 20 (bs @ replicate 20 0))"

lemma sample_root: "\<exists>v. new_vault sample_sha256 sample_ripemd160 sample_vault_keys 2 Testnet = Inr v"
  using sample_keys_valid[of 0] by (intro new_vault_valid) simp

definition sample_partial :: "nat \<Rightarrow> bytes32 \<Rightarrow> PartialSignature" where
  "sample_partial i h = \<lparr>ps_vault_pubkey = sample_vault_keys ! i, ps_der_signature = sign_low_s sample_secp h (sample_vault_keys ! i)\<rparr>"

theorem assembly_exact_witness:
  "\<exists>vault s. new_vault sample_sha256 sample_ripemd160 sample_vault_keys 2 Testnet = Inr vault
     \<and> assemble sample_secp vault 7 [sample_partial 2 7, sample_partial 0 7] = Inr s
     \<and> assemble sample_secp vault 7 [sample_partial 0 7, sample_partial 2 7] = Inr s"
proof -
  obtain vault where vault: "new_vault sample_sha256 sample_ripemd160 sample_vault_keys 2 Testnet = Inr vault"
    using sample_root by blast
  have v: "mv_signer_pubkeys vault = sample_vault_keys" "mv_threshold vault = 2" using new_vault_Inr[OF vault] by auto
  let ?ps = "[sample_partial 2 7, sample_partial 0 7]"
  have ok: "acceptable sample_secp vault 7 ?ps"
    by (simp add: acceptable_def v sample_partial_def sample_vault_keys_def verify_partial_def sample_secp_def sign_low_s_def)
  have "push_all (map (\<lambda>p. canonical_der sample_secp p @ [SIGHASH_ALL_BYTE]) (in_script_order vault ?ps) @ [redeem_script vault])
      \<noteq> Inl e" for e
    by (simp add: in_script_order_def v sample_partial_def sample_vault_keys_def canonical_der_def sample_secp_def sign_low_s_def
        push_data_def redeem_script_def build_redeem_script_def Let_def)
  then obtain pushes where "push_all (map (\<lambda>p. canonical_der sample_secp p @ [SIGHASH_ALL_BYTE]) (in_script_order vault ?ps)
      @ [redeem_script vault]) = Inr pushes" using old.sum.exhaust by metis
  with ok have "assemble sample_secp vault 7 ?ps = Inr (0x00 # pushes)" using assembly_exact[OF vault] by blast
  moreover from this have "assemble sample_secp vault 7 [sample_partial 0 7, sample_partial 2 7] = Inr (0x00 # pushes)"
    using assembly_exact[OF vault, of sample_secp 7 ?ps "0x00 # pushes" "[sample_partial 0 7, sample_partial 2 7]"]
    by (simp add: add_mset_commute)
  ultimately show ?thesis using vault by blast
qed

theorem derived_key_matches_vault_witness:
  "\<exists>root vault sk'. new_vault sample_sha256 sample_ripemd160 sample_vault_keys 2 Testnet = Inr root
     \<and> derive_request_vault sample_sha256 sample_ripemd160 sample_secp root 5 Testnet = Inr vault
     \<and> derive_request_seckey sample_sha256 sample_secp (sample_vault_keys ! 1) 5 = Inr sk'
     \<and> signer_position vault (secp_serialize_compressed sample_secp (secp_public sample_secp sk')) = Some 1"
proof -
  obtain root where root: "new_vault sample_sha256 sample_ripemd160 sample_vault_keys 2 Testnet = Inr root"
    using sample_root by blast
  have r: "mv_signer_pubkeys root = sample_vault_keys" "mv_threshold root = 2" using new_vault_Inr[OF root] by auto
  let ?t = "word_of_nat (unat (sample_sha256 (TWEAK_DOMAIN @ u64_to_le_bytes (word_of_int 5))) mod 256) :: pubkey33"
  have tweak: "request_tweak sample_sha256 sample_secp 5 = Inr ?t" by (simp add: request_tweak_def sample_secp_def ok_or_def)
  have "unat ?t < 256" by (simp add: unat_of_nat take_bit_eq_mod)
  then obtain vault where "new_vault sample_sha256 sample_ripemd160 (map (\<lambda>k. k + ?t) sample_vault_keys) 2 Testnet = Inr vault"
    using new_vault_valid[OF sample_keys_valid] by blast
  moreover have "tweak_pubkeys sample_secp k t pks = Inr (map (\<lambda>k. k + t) pks)" for k t pks
    by (induction pks) (simp_all add: sample_secp_def ok_or_def)
  ultimately have vault: "derive_request_vault sample_sha256 sample_ripemd160 sample_secp root 5 Testnet = Inr vault"
    by (simp add: derive_request_vault_def tweak r)
  have key: "derive_request_seckey sample_sha256 sample_secp (sample_vault_keys ! 1) 5 = Inr (sample_vault_keys ! 1 + ?t)"
    by (simp add: derive_request_seckey_def tweak) (simp add: sample_secp_def ok_or_def)
  have "tweak_law sample_secp" by (simp add: tweak_law_def sample_secp_def)
  from derived_key_matches_vault[OF this vault _ _ key, of 1] root vault key show ?thesis
    by (auto simp: r sample_vault_keys_def sample_secp_def)
qed

end
