(* ===== verification/Goldcoin_Coins.thy ===== *)
theory Goldcoin_Coins
  imports Prelude "HOL-Library.Product_Lexorder" "HOL-Library.Multiset"
begin

text \<open>
  Coin selection, fee sizing and the division of change (\<open>goldcoin/coin.rs\<close>) with the even split
  they share (\<open>goldcoin/split.rs\<close>). Amounts are words and every sum wraps as in the code; the
  lemmas compare them with natural numbers under a bound that keeps the sums in range.
\<close>

section \<open>Selection\<close>

record VaultUtxo =
  utxo_txid :: bytes32
  utxo_vout :: u32
  utxo_amount_atomic :: u64
  utxo_script_pubkey_hex :: string

datatype CoinSelectionError = InsufficientFunds u64 u64 | TooManyInputs nat

definition TX_OVERHEAD_BYTES :: u64 where "TX_OVERHEAD_BYTES = 10"
definition P2PKH_OUTPUT_BYTES :: u64 where "P2PKH_OUTPUT_BYTES = 34"
definition MAX_SIGNATURE_BYTES :: u64 where "MAX_SIGNATURE_BYTES = 73"

definition multisig_input_bytes :: "u8 \<Rightarrow> nat \<Rightarrow> u64" where
  "multisig_input_bytes threshold redeem_script_len =
     (let redeem_push_prefix = (if redeem_script_len < 0x4c then 1 else if redeem_script_len \<le> 0xff then 2 else 3);
          script_sig_len = 1 + ucast threshold * (1 + MAX_SIGNATURE_BYTES) + redeem_push_prefix
            + word_of_nat redeem_script_len;
          script_sig_varint_bytes = (if script_sig_len < 0xfd then 1 else 3)
      in 36 + script_sig_varint_bytes + script_sig_len + 4)"

definition div_ceil :: "u64 \<Rightarrow> u64 \<Rightarrow> u64" where
  "div_ceil a b = (if a mod b > 0 then a div b + 1 else a div b)"

definition fee_for :: "nat \<Rightarrow> nat \<Rightarrow> u64 \<Rightarrow> u64 \<Rightarrow> u64" where
  "fee_for num_inputs num_outputs fee_rate_per_kb input_bytes =
     (let size = TX_OVERHEAD_BYTES + word_of_nat num_inputs * input_bytes + word_of_nat num_outputs * P2PKH_OUTPUT_BYTES
      in div_ceil (size * fee_rate_per_kb) 1000)"

record SelectionResult =
  sel_selected :: "VaultUtxo list"
  sel_total_selected :: u64
  sel_fee_atomic :: u64

definition utxo_key :: "VaultUtxo \<Rightarrow> u64 \<times> bytes32 \<times> u32" where
  "utxo_key u = (utxo_amount_atomic u, utxo_txid u, utxo_vout u)"

definition min_by_key :: "('a \<Rightarrow> 'b::linorder) \<Rightarrow> 'a list \<Rightarrow> 'a option" where
  "min_by_key f xs = (case xs of [] \<Rightarrow> None | x # ys \<Rightarrow> Some (foldl (\<lambda>m y. if f y < f m then y else m) x ys))"

definition change_of :: "SelectionResult \<Rightarrow> u64 \<Rightarrow> u64" where
  "change_of result amount_atomic =
     saturating_sub (saturating_sub (sel_total_selected result) amount_atomic) (sel_fee_atomic result)"

text \<open>The loops over candidates, with what was selected so far and its running total.\<close>

primrec accumulate ::
  "(nat \<Rightarrow> u64) \<Rightarrow> u64 \<Rightarrow> nat \<Rightarrow> VaultUtxo list \<Rightarrow> VaultUtxo list \<Rightarrow> u64 \<Rightarrow> SelectionResult option" where
  "accumulate fee amount_atomic max_inputs [] selected running = None"
| "accumulate fee amount_atomic max_inputs (u # us) selected running =
     (if length selected \<ge> max_inputs then None
      else let selected = selected @ [u]; running = running + utxo_amount_atomic u in
        if running \<ge> amount_atomic + fee (length selected)
        then Some \<lparr>sel_selected = selected, sel_total_selected = running, sel_fee_atomic = fee (length selected)\<rparr>
        else accumulate fee amount_atomic max_inputs us selected running)"

definition smallest_first_combination ::
  "VaultUtxo list \<Rightarrow> u64 \<Rightarrow> u64 \<Rightarrow> u64 \<Rightarrow> u64 \<Rightarrow> nat \<Rightarrow> SelectionResult option" where
  "smallest_first_combination candidates exclude_at_or_above amount_atomic fee_rate_per_kb input_bytes max_inputs =
     accumulate (\<lambda>n. fee_for n 2 fee_rate_per_kb input_bytes) amount_atomic max_inputs
       (sort_key utxo_key (filter (\<lambda>u. utxo_amount_atomic u < exclude_at_or_above) candidates)) [] 0"

primrec greedy ::
  "(nat \<Rightarrow> u64) \<Rightarrow> u64 \<Rightarrow> nat \<Rightarrow> VaultUtxo list \<Rightarrow> VaultUtxo list \<Rightarrow> u64
    \<Rightarrow> (CoinSelectionError, SelectionResult) result option" where
  "greedy fee amount_atomic max_inputs [] selected running = None"
| "greedy fee amount_atomic max_inputs (u # us) selected running =
     (let selected = selected @ [u]; running = running + utxo_amount_atomic u in
      if length selected > max_inputs then Some (Inl (TooManyInputs max_inputs))
      else if running \<ge> amount_atomic + fee (length selected)
      then Some (Inr \<lparr>sel_selected = selected, sel_total_selected = running, sel_fee_atomic = fee (length selected)\<rparr>)
      else greedy fee amount_atomic max_inputs us selected running)"

definition single_selection :: "VaultUtxo \<Rightarrow> u64 \<Rightarrow> SelectionResult" where
  "single_selection u fee = \<lparr>sel_selected = [u], sel_total_selected = utxo_amount_atomic u, sel_fee_atomic = fee\<rparr>"

definition select ::
  "VaultUtxo list \<Rightarrow> u64 \<Rightarrow> u64 \<Rightarrow> u8 \<Rightarrow> nat \<Rightarrow> nat \<Rightarrow> (CoinSelectionError, SelectionResult) result" where
  "select candidates amount_atomic fee_rate_per_kb threshold redeem_script_len max_inputs =
     (let input_bytes = multisig_input_bytes threshold redeem_script_len;
          fee_single_no_change = fee_for 1 1 fee_rate_per_kb input_bytes
      in case find (\<lambda>u. utxo_amount_atomic u = amount_atomic + fee_single_no_change) candidates of
        Some u \<Rightarrow> Inr (single_selection u fee_single_no_change)
      | None \<Rightarrow>
          let fee_single_with_change = fee_for 1 2 fee_rate_per_kb input_bytes;
              target = amount_atomic + fee_single_with_change
          in case min_by_key utxo_key (filter (\<lambda>u. utxo_amount_atomic u \<ge> target) candidates) of
            Some single \<Rightarrow>
              let single_result = single_selection single fee_single_with_change
              in Inr (case smallest_first_combination candidates (utxo_amount_atomic single) amount_atomic
                      fee_rate_per_kb input_bytes max_inputs of
                    Some combo \<Rightarrow>
                      if change_of combo amount_atomic < change_of single_result amount_atomic then combo
                      else single_result
                  | None \<Rightarrow> single_result)
          | None \<Rightarrow>
              (case greedy (\<lambda>n. fee_for n 2 fee_rate_per_kb input_bytes) amount_atomic max_inputs candidates [] 0 of
                 Some result \<Rightarrow> result
               | None \<Rightarrow> Inl (InsufficientFunds
                   (amount_atomic + fee_for (max (length candidates) 1) 2 fee_rate_per_kb input_bytes)
                   (sum_list (map utxo_amount_atomic candidates)))))"

section \<open>Change\<close>

definition distribute_evenly :: "u64 \<Rightarrow> u64 \<Rightarrow> u64 list" where
  "distribute_evenly distributable_atomic chunk_count =
     (if chunk_count = 0 then []
      else let base = distributable_atomic div chunk_count; remainder = distributable_atomic mod chunk_count
        in map (\<lambda>i. if i < unat remainder then base + 1 else base) [0..<unat chunk_count])"

definition finalize_change :: "SelectionResult \<Rightarrow> u64 \<Rightarrow> u64 \<Rightarrow> u64 \<times> u64" where
  "finalize_change result amount_atomic dust_threshold =
     (let raw_change = saturating_sub (saturating_sub (sel_total_selected result) amount_atomic) (sel_fee_atomic result) in
      if raw_change > 0 \<and> raw_change < dust_threshold then (0, sel_fee_atomic result + raw_change)
      else (raw_change, sel_fee_atomic result))"

primrec fanout :: "nat \<Rightarrow> u64 \<Rightarrow> u64 \<Rightarrow> u64 \<Rightarrow> u64 \<Rightarrow> nat \<Rightarrow> u64 list \<times> u64" where
  "fanout num_inputs input_bytes fee_rate_per_kb dust_threshold leftover 0 = ([], leftover)"
| "fanout num_inputs input_bytes fee_rate_per_kb dust_threshold leftover (Suc n) =
     (let fee = fee_for num_inputs (1 + Suc n) fee_rate_per_kb input_bytes in
      case checked_sub leftover fee of
        None \<Rightarrow> fanout num_inputs input_bytes fee_rate_per_kb dust_threshold leftover n
      | Some distributable \<Rightarrow>
          let amounts = distribute_evenly distributable (word_of_nat (Suc n));
              smallest = (if amounts = [] then 0 else Min (set amounts))
          in if smallest < dust_threshold
             then fanout num_inputs input_bytes fee_rate_per_kb dust_threshold leftover n
             else (amounts, fee))"

definition finalize_fanout ::
  "SelectionResult \<Rightarrow> u64 \<Rightarrow> nat \<Rightarrow> u64 \<Rightarrow> u64 \<Rightarrow> u64 \<Rightarrow> u64 \<Rightarrow> nat \<Rightarrow> u64 list \<times> u64" where
  "finalize_fanout result amount_atomic num_inputs input_bytes fee_rate_per_kb dust_threshold
       target_output_atomic max_outputs =
     (let max_outputs = max max_outputs 1;
          leftover = saturating_sub (sel_total_selected result) amount_atomic;
          num_change_outputs = (if leftover = 0 then 0
            else unat (max 1 (min (word_of_nat max_outputs) (div_ceil leftover (max target_output_atomic 1)))))
      in fanout num_inputs input_bytes fee_rate_per_kb dust_threshold leftover num_change_outputs)"

section \<open>Arithmetic\<close>

definition fee_nat :: "nat \<Rightarrow> nat \<Rightarrow> nat \<Rightarrow> nat \<Rightarrow> nat" where
  "fee_nat n m rate input_bytes = ((10 + n * input_bytes + m * 34) * rate + 999) div 1000"

definition total_of :: "VaultUtxo list \<Rightarrow> nat" where
  "total_of us = sum_list (map (\<lambda>u. unat (utxo_amount_atomic u)) us)"

lemma unat_add_bounded: "unat a + unat b < 2 ^ 64 \<Longrightarrow> unat (a + b) = unat a + unat b" for a b :: u64
  by (simp add: unat_word_ariths)

lemma unat_mult_bounded: "unat a * unat b < 2 ^ 64 \<Longrightarrow> unat (a * b) = unat a * unat b" for a b :: u64
  by (simp add: unat_word_ariths)

lemma unat_of_nat_bounded: "n < 2 ^ 64 \<Longrightarrow> unat (word_of_nat n :: u64) = n"
  by (simp add: unat_of_nat take_bit_nat_eq_self)

lemma nat_div_ceil: "0 < b \<Longrightarrow> (a + b - 1) div b = (if 0 < a mod b then a div b + 1 else a div b)" for a b :: nat
proof -
  assume b: "0 < b"
  have "a = a mod b + a div b * b" by simp
  then have "a + b - 1 = (a mod b + b - 1) + a div b * b" using b by linarith
  then have split: "(a + b - 1) div b = (a mod b + b - 1) div b + a div b" using b by (metis div_mult_self1 add.commute neq0_conv)
  show ?thesis
  proof (cases "0 < a mod b")
    case True
    have "a mod b < b" using b by simp
    then have "(a mod b + b - 1) div b = 1" using True by (intro div_nat_eqI) simp_all
    with split True show ?thesis by simp
  next
    case False
    then have "(a mod b + b - 1) div b = 0" using b by simp
    with split False show ?thesis by simp
  qed
qed

lemma unat_div_plus_1:
  fixes a b :: u64
  assumes "0 < unat a mod unat b"
  shows "unat (a div b + 1) = unat a div unat b + 1"
proof -
  have "unat b \<noteq> 1" using assms by auto
  then have "unat a div unat b \<le> unat a div 2 \<or> unat b = 0" by (cases "unat b = 0") (simp_all add: div_le_mono2)
  then have "unat a div unat b + 1 < 2 ^ 64" using unat_lt2p[of a] by auto
  then show ?thesis by (simp add: unat_add_bounded unat_div)
qed

lemma unat_div_ceil: "0 < b \<Longrightarrow> unat (div_ceil a b) = (unat a + unat b - 1) div unat b"
proof -
  assume "0 < b"
  then have b: "0 < unat b" by (simp add: word_less_nat_alt)
  show ?thesis
    unfolding nat_div_ceil[OF b] using unat_div_plus_1[of a b]
    by (simp add: div_ceil_def word_less_nat_alt unat_mod unat_div)
qed

lemma fee_for_unat:
  assumes "(10 + n * unat ib + m * 34) * unat rate < 2 ^ 64"
  shows "unat (fee_for n m rate ib) = fee_nat n m (unat rate) (unat ib)"
proof -
  let ?size = "10 + n * unat ib + m * 34"
  have "fee_for n m rate ib = div_ceil (word_of_nat (?size * unat rate)) 1000"
    by (simp add: fee_for_def TX_OVERHEAD_BYTES_def P2PKH_OUTPUT_BYTES_def)
  then show ?thesis
    using unat_of_nat_bounded[OF assms] unat_div_ceil[of 1000 "word_of_nat (?size * unat rate)"] by (simp add: fee_nat_def)
qed

lemma fee_nat_mono: "n \<le> n' \<Longrightarrow> m \<le> m' \<Longrightarrow> fee_nat n m rate ib \<le> fee_nat n' m' rate ib"
  unfolding fee_nat_def by (intro div_le_mono add_mono mult_le_mono) simp_all

section \<open>Selection covers the payout whenever a choice of coins can\<close>

text \<open>All sums of the selection stay below the width of the words.\<close>

definition selection_in_range :: "VaultUtxo list \<Rightarrow> u64 \<Rightarrow> u64 \<Rightarrow> u64 \<Rightarrow> bool" where
  "selection_in_range candidates amount rate ib \<longleftrightarrow>
     (10 + (length candidates + 1) * unat ib + 2 * 34) * unat rate < 2 ^ 64
     \<and> total_of candidates < 2 ^ 64
     \<and> unat amount + fee_nat (length candidates + 1) 2 (unat rate) (unat ib) < 2 ^ 64"

lemma in_range_fee:
  assumes "selection_in_range candidates amount rate ib" "n \<le> length candidates + 1" "m \<le> 2"
  shows "unat (fee_for n m rate ib) = fee_nat n m (unat rate) (unat ib)"
    and "unat (amount + fee_for n m rate ib) = unat amount + fee_nat n m (unat rate) (unat ib)"
proof -
  have "(10 + n * unat ib + m * 34) * unat rate \<le> (10 + (length candidates + 1) * unat ib + 2 * 34) * unat rate"
    using assms(2,3) by (intro mult_le_mono add_mono) simp_all
  from le_less_trans[OF this] show fee: "unat (fee_for n m rate ib) = fee_nat n m (unat rate) (unat ib)"
    using assms(1) unfolding selection_in_range_def by (intro fee_for_unat) blast
  have "fee_nat n m (unat rate) (unat ib) \<le> fee_nat (length candidates + 1) 2 (unat rate) (unat ib)"
    using assms(2,3) by (intro fee_nat_mono) simp_all
  then have "unat amount + unat (fee_for n m rate ib) < 2 ^ 64"
    using assms(1) fee by (simp add: selection_in_range_def)
  then show "unat (amount + fee_for n m rate ib) = unat amount + fee_nat n m (unat rate) (unat ib)"
    using fee by (simp add: unat_add_bounded)
qed

lemma total_of_append [simp]: "total_of (a @ b) = total_of a + total_of b"
  by (simp add: total_of_def)

lemma total_of_Cons [simp]: "total_of (u # us) = unat (utxo_amount_atomic u) + total_of us" "total_of [] = 0"
  by (simp_all add: total_of_def)

lemma total_of_mset: "mset a \<subseteq># mset b \<Longrightarrow> total_of a \<le> total_of b"
proof -
  assume "mset a \<subseteq># mset b"
  then obtain c where c: "mset b = mset a + c" by (auto simp: mset_subset_eq_exists_conv)
  have "total_of us = sum_mset (image_mset (\<lambda>u. unat (utxo_amount_atomic u)) (mset us))" for us
    unfolding total_of_def by (metis mset_map sum_mset_sum_list)
  then show ?thesis by (simp add: c)
qed

text \<open>What a loop returns: coins it was given, their sum, and a fee that the sum covers.\<close>

definition selection_covers :: "(nat \<Rightarrow> u64) \<Rightarrow> u64 \<Rightarrow> VaultUtxo list \<Rightarrow> SelectionResult \<Rightarrow> bool" where
  "selection_covers fee amount coins r \<longleftrightarrow> mset (sel_selected r) \<subseteq># mset coins \<and> sel_selected r \<noteq> []
     \<and> unat (sel_total_selected r) = total_of (sel_selected r)
     \<and> sel_fee_atomic r = fee (length (sel_selected r)) \<and> amount + sel_fee_atomic r \<le> sel_total_selected r"

lemma accumulate_covers:
  assumes "accumulate fee amount k us selected running = Some r"
    and "unat running = total_of selected" "total_of (selected @ us) < 2 ^ 64" "length selected \<le> k"
  shows "selection_covers fee amount (selected @ us) r \<and> length (sel_selected r) \<le> k"
  using assms
proof (induction us arbitrary: selected running)
  case (Cons u us)
  have running: "unat (running + utxo_amount_atomic u) = total_of (selected @ [u])"
    using Cons.prems(2,3) by (simp add: unat_add_bounded)
  show ?case
  proof (cases "running + utxo_amount_atomic u \<ge> amount + fee (Suc (length selected))")
    case True
    with Cons.prems running show ?thesis by (auto simp: selection_covers_def Let_def split: if_splits)
  next
    case False
    with Cons.prems have "accumulate fee amount k us (selected @ [u]) (running + utxo_amount_atomic u) = Some r"
      and "length (selected @ [u]) \<le> k" by (auto simp: Let_def not_le split: if_splits)
    from Cons.IH[OF this(1) running _ this(2)] Cons.prems(3) show ?thesis by simp
  qed
qed simp

lemma greedy_covers:
  assumes "greedy fee amount k us selected running = Some (Inr r)"
    and "unat running = total_of selected" "total_of (selected @ us) < 2 ^ 64"
  shows "selection_covers fee amount (selected @ us) r \<and> length (sel_selected r) \<le> k"
  using assms
proof (induction us arbitrary: selected running)
  case (Cons u us)
  have running: "unat (running + utxo_amount_atomic u) = total_of (selected @ [u])"
    using Cons.prems(2,3) by (simp add: unat_add_bounded)
  show ?case
  proof (cases "running + utxo_amount_atomic u \<ge> amount + fee (Suc (length selected))")
    case True
    with Cons.prems running show ?thesis by (auto simp: selection_covers_def Let_def split: if_splits)
  next
    case False
    with Cons.prems have "greedy fee amount k us (selected @ [u]) (running + utxo_amount_atomic u) = Some (Inr r)"
      by (auto simp: Let_def not_le split: if_splits)
    from Cons.IH[OF this running] Cons.prems(3) show ?thesis by simp
  qed
qed simp

lemma greedy_finds:
  assumes "k \<le> max_inputs" "length selected < k" "k \<le> length (selected @ us)"
    and "unat running = total_of selected" "total_of (selected @ us) < 2 ^ 64"
    and "unat (amount + fee k) \<le> total_of (take k (selected @ us))"
  shows "\<exists>r. greedy fee amount max_inputs us selected running = Some (Inr r)"
  using assms(2-)
proof (induction us arbitrary: selected running)
  case (Cons u us)
  have running: "unat (running + utxo_amount_atomic u) = total_of (selected @ [u])"
    using Cons.prems(3,4) by (simp add: unat_add_bounded)
  show ?case
  proof (cases "Suc (length selected) = k")
    case True
    then have "unat (amount + fee k) \<le> unat (running + utxo_amount_atomic u)"
      using Cons.prems(5) running unfolding True[symmetric] by simp
    then show ?thesis using True assms(1) by (simp add: Let_def word_le_nat_alt)
  next
    case False
    then show ?thesis
      using Cons.IH[of "selected @ [u]" "running + utxo_amount_atomic u"] Cons.prems running assms(1)
      by (auto simp: Let_def)
  qed
qed simp

text \<open>The largest coins are the best choice of their number.\<close>

lemma take_largest:
  assumes "sorted_wrt (\<lambda>a b. utxo_amount_atomic a \<ge> utxo_amount_atomic b) xs" "mset s \<subseteq># mset xs"
  shows "total_of s \<le> total_of (take (length s) xs)"
  using assms
proof (induction xs arbitrary: s)
  case (Cons x xs)
  show ?case
  proof (cases "x \<in> set s")
    case True
    then have ms: "mset s = add_mset x (mset (remove1 x s))" by simp
    then have sub: "mset (remove1 x s) \<subseteq># mset xs" using Cons.prems(2) by (simp add: subset_eq_diff_conv)
    have len: "length s = Suc (length (remove1 x s))" using True by (simp add: length_remove1) (metis Suc_pred length_pos_if_in_set)
    have "total_of s = unat (utxo_amount_atomic x) + total_of (remove1 x s)"
      unfolding total_of_def using ms by (metis (no_types, lifting) image_mset_add_mset mset_map sum_mset.add_mset sum_mset_sum_list)
    then show ?thesis using Cons.IH[OF _ sub] Cons.prems(1) by (simp add: len)
  next
    case False
    then have sub: "mset s \<subseteq># mset xs" using Cons.prems(2)
      by (metis add_mset_add_single diff_single_trivial mset.simps(2) set_mset_mset subset_eq_diff_conv)
    show ?thesis
    proof (cases s)
      case (Cons y ys)
      let ?k = "length ys"
      have "Suc ?k \<le> length xs" using size_mset_mono[OF sub] Cons by simp
      then have "take (Suc ?k) xs = take ?k xs @ [xs ! ?k]" by (simp add: take_Suc_conv_app_nth)
      moreover have "unat (utxo_amount_atomic (xs ! ?k)) \<le> unat (utxo_amount_atomic x)"
        using Cons.prems \<open>Suc ?k \<le> length xs\<close> by (simp add: word_le_nat_alt)
      ultimately show ?thesis using Cons.IH[OF _ sub] Cons.prems(1) Cons by simp
    qed simp
  qed
qed simp

lemma min_by_key_None: "min_by_key f xs = None \<longleftrightarrow> xs = []"
  by (simp add: min_by_key_def split: list.splits)

lemma min_by_key_member: "min_by_key f xs = Some m \<Longrightarrow> m \<in> set xs"
proof -
  have "foldl (\<lambda>m y. if f y < f m then y else m) x ys \<in> insert x (set ys)" for x ys
    by (induction ys arbitrary: x) auto
  then show "min_by_key f xs = Some m \<Longrightarrow> ?thesis" by (auto simp: min_by_key_def split: list.splits)
qed

text \<open>What a selection is worth, in natural numbers.\<close>

definition funds :: "VaultUtxo list \<Rightarrow> u64 \<Rightarrow> nat \<Rightarrow> u64 \<Rightarrow> u64 \<Rightarrow> VaultUtxo list \<Rightarrow> nat \<Rightarrow> bool" where
  "funds candidates amount max_inputs rate ib s fee \<longleftrightarrow>
     mset s \<subseteq># mset candidates \<and> s \<noteq> [] \<and> length s \<le> max_inputs
     \<and> (fee = fee_nat (length s) 2 (unat rate) (unat ib) \<and> unat amount + fee \<le> total_of s
        \<or> length s = 1 \<and> fee = fee_nat 1 1 (unat rate) (unat ib) \<and> total_of s = unat amount + fee)"

lemma covers_funds:
  assumes "selection_covers (\<lambda>n. fee_for n 2 rate ib) amount coins r" "mset coins \<subseteq># mset candidates"
    and "selection_in_range candidates amount rate ib" "length (sel_selected r) \<le> max_inputs"
  shows "funds candidates amount max_inputs rate ib (sel_selected r) (unat (sel_fee_atomic r))
    \<and> unat (sel_total_selected r) = total_of (sel_selected r)"
proof -
  have sub: "mset (sel_selected r) \<subseteq># mset candidates" using assms(1,2) by (auto simp: selection_covers_def dest: subset_mset.order_trans)
  then have "length (sel_selected r) \<le> length candidates" using size_mset_mono by fastforce
  note fee = in_range_fee[OF assms(3), of "length (sel_selected r)" 2]
  then show ?thesis
    using assms(1,4) sub \<open>length (sel_selected r) \<le> length candidates\<close>
    unfolding selection_covers_def funds_def word_le_nat_alt by auto
qed

lemma single_funds:
  assumes "u \<in> set candidates" "1 \<le> max_inputs"
    and "fee = fee_nat 1 2 (unat rate) (unat ib) \<and> unat amount + fee \<le> unat (utxo_amount_atomic u)
       \<or> fee = fee_nat 1 1 (unat rate) (unat ib) \<and> unat (utxo_amount_atomic u) = unat amount + fee"
  shows "funds candidates amount max_inputs rate ib [u] fee"
  using assms by (auto simp: funds_def)

lemma select_funds:
  assumes sel: "select candidates amount rate threshold len max_inputs = Inr r" and k: "1 \<le> max_inputs"
    and range: "selection_in_range candidates amount rate (multisig_input_bytes threshold len)"
  shows "funds candidates amount max_inputs rate (multisig_input_bytes threshold len) (sel_selected r) (unat (sel_fee_atomic r))
    \<and> unat (sel_total_selected r) = total_of (sel_selected r)"
proof -
  let ?ib = "multisig_input_bytes threshold len"
  let ?exact = "find (\<lambda>u. utxo_amount_atomic u = amount + fee_for 1 1 rate ?ib) candidates"
  let ?single = "min_by_key utxo_key (filter (\<lambda>u. utxo_amount_atomic u \<ge> amount + fee_for 1 2 rate ?ib) candidates)"
  have total: "total_of candidates < 2 ^ 64" using range by (simp add: selection_in_range_def)
  consider (exact) u where "?exact = Some u" | (single) u where "?exact = None" "?single = Some u"
    | (greedy) "?exact = None" "?single = None" by (cases ?exact; cases ?single) auto
  then show ?thesis
  proof cases
    case exact
    then have "u \<in> set candidates" "utxo_amount_atomic u = amount + fee_for 1 1 rate ?ib" by (auto simp: find_Some_iff in_set_conv_nth)
    then have "funds candidates amount max_inputs rate ?ib [u] (unat (fee_for 1 1 rate ?ib))"
      using in_range_fee[OF range, of 1 1] k by (intro single_funds) simp_all
    then show ?thesis using sel exact by (auto simp: select_def single_selection_def)
  next
    case single
    have u: "u \<in> set candidates" "utxo_amount_atomic u \<ge> amount + fee_for 1 2 rate ?ib"
      using min_by_key_member[OF single(2)] by auto
    have one: "funds candidates amount max_inputs rate ?ib [u] (unat (fee_for 1 2 rate ?ib))"
      using u in_range_fee[OF range, of 1 2] k by (intro single_funds) (simp_all add: word_le_nat_alt)
    let ?small = "sort_key utxo_key (filter (\<lambda>w. utxo_amount_atomic w < utxo_amount_atomic u) candidates)"
    have small: "mset ?small \<subseteq># mset candidates" by simp
    have combo: "funds candidates amount max_inputs rate ?ib (sel_selected c) (unat (sel_fee_atomic c))
        \<and> unat (sel_total_selected c) = total_of (sel_selected c)"
      if "smallest_first_combination candidates (utxo_amount_atomic u) amount rate ?ib max_inputs = Some c" for c
    proof -
      have "total_of ?small < 2 ^ 64" using total_of_mset[OF small] total by simp
      with that have "selection_covers (\<lambda>n. fee_for n 2 rate ?ib) amount ?small c \<and> length (sel_selected c) \<le> max_inputs"
        unfolding smallest_first_combination_def by (auto dest: accumulate_covers)
      with covers_funds[OF _ small range] show ?thesis by blast
    qed
    then show ?thesis using sel single one
      by (auto simp: select_def Let_def single_selection_def split: option.splits if_splits)
  next
    case greedy
    then have "greedy (\<lambda>n. fee_for n 2 rate ?ib) amount max_inputs candidates [] 0 = Some (Inr r)"
      using sel by (auto simp: select_def Let_def split: option.splits)
    from greedy_covers[OF this] total have "selection_covers (\<lambda>n. fee_for n 2 rate ?ib) amount candidates r \<and> length (sel_selected r) \<le> max_inputs"
      by simp
    with covers_funds[OF _ _ range] show ?thesis by blast
  qed
qed

lemma select_finds:
  assumes f: "funds candidates amount max_inputs rate (multisig_input_bytes threshold len) s fee"
    and sorted: "sorted_wrt (\<lambda>a b. utxo_amount_atomic a \<ge> utxo_amount_atomic b) candidates"
    and range: "selection_in_range candidates amount rate (multisig_input_bytes threshold len)"
  shows "\<exists>r. select candidates amount rate threshold len max_inputs = Inr r"
proof -
  let ?ib = "multisig_input_bytes threshold len"
  let ?exact = "find (\<lambda>u. utxo_amount_atomic u = amount + fee_for 1 1 rate ?ib) candidates"
  let ?single = "min_by_key utxo_key (filter (\<lambda>u. utxo_amount_atomic u \<ge> amount + fee_for 1 2 rate ?ib) candidates)"
  have "\<exists>r. greedy (\<lambda>n. fee_for n 2 rate ?ib) amount max_inputs candidates [] 0 = Some (Inr r)" if none: "?exact = None"
  proof (rule greedy_finds[of "length s"])
    have "length s \<le> length candidates" using f size_mset_mono by (fastforce simp: funds_def)
    then show "length s \<le> length ([] @ candidates)" by simp
    have "fee = fee_nat (length s) 2 (unat rate) (unat ?ib) \<and> unat amount + fee \<le> total_of s"
    proof (rule ccontr)
      assume "\<not> ?thesis"
      then have one: "length s = 1" "total_of s = unat amount + fee_nat 1 1 (unat rate) (unat ?ib)" and sub: "mset s \<subseteq># mset candidates"
        using f by (auto simp: funds_def)
      then obtain u where "s = [u]" by (auto simp: length_Suc_conv)
      then have "u \<in> set candidates" "utxo_amount_atomic u = amount + fee_for 1 1 rate ?ib"
        using one sub in_range_fee[OF range, of 1 1] by (auto simp: word_unat_eq_iff)
      then show False using none by (auto simp: find_None_iff)
    qed
    then show "unat (amount + fee_for (length s) 2 rate ?ib) \<le> total_of (take (length s) ([] @ candidates))"
      using take_largest[OF sorted, of s] f in_range_fee[OF range, of "length s" 2] \<open>length s \<le> length candidates\<close>
      by (simp add: funds_def)
  qed (use f range in \<open>auto simp: funds_def selection_in_range_def\<close>)
  then show ?thesis by (cases ?exact; cases ?single) (auto simp: select_def Let_def)
qed

text \<open>
  C36. Coin selection is exact: it succeeds if and only if some choice of at most the permitted number of
  coins funds the payout and the miner fee for its own size, and what it returns is such a choice, with its
  sum and its fee. The candidates are in the order the ledger lists them, largest first.
\<close>

theorem selection_exact:
  assumes "sorted_wrt (\<lambda>a b. utxo_amount_atomic a \<ge> utxo_amount_atomic b) candidates" "1 \<le> max_inputs"
    and "selection_in_range candidates amount rate (multisig_input_bytes threshold len)"
  shows "((\<exists>r. select candidates amount rate threshold len max_inputs = Inr r) \<longleftrightarrow>
      (\<exists>s fee. funds candidates amount max_inputs rate (multisig_input_bytes threshold len) s fee))
    \<and> (\<forall>r. select candidates amount rate threshold len max_inputs = Inr r \<longrightarrow>
      funds candidates amount max_inputs rate (multisig_input_bytes threshold len) (sel_selected r) (unat (sel_fee_atomic r))
      \<and> unat (sel_total_selected r) = total_of (sel_selected r))"
  using select_funds[OF _ assms(2,3)] select_finds[OF _ assms(1,3)] by blast

definition sample_coins :: "VaultUtxo list" where
  "sample_coins = [\<lparr>utxo_txid = 1, utxo_vout = 0, utxo_amount_atomic = 9000, utxo_script_pubkey_hex = []\<rparr>,
     \<lparr>utxo_txid = 2, utxo_vout = 0, utxo_amount_atomic = 8000, utxo_script_pubkey_hex = []\<rparr>]"

theorem selection_exact_witness:
  "\<exists>r. select sample_coins 10000 1000 2 105 5 = Inr r \<and> total_of (sel_selected r) = 17000
     \<and> unat (sel_total_selected r) = total_of (sel_selected r)"
proof -
  let ?r = "\<lparr>sel_selected = sample_coins, sel_total_selected = 17000, sel_fee_atomic = 676\<rparr>"
  have bytes: "multisig_input_bytes 2 105 = 299" by (simp add: multisig_input_bytes_def MAX_SIGNATURE_BYTES_def)
  have fees: "fee_for (Suc 0) (Suc 0) 1000 299 = 343" "fee_for (Suc 0) 2 1000 299 = 377" "fee_for (Suc (Suc 0)) 2 1000 299 = 676"
    by (simp_all add: fee_for_def div_ceil_def TX_OVERHEAD_BYTES_def P2PKH_OUTPUT_BYTES_def)
  have sel: "select sample_coins 10000 1000 2 105 5 = Inr ?r"
    by (simp add: select_def bytes fees sample_coins_def min_by_key_def Let_def)
  have sorted: "sorted_wrt (\<lambda>a b. utxo_amount_atomic a \<ge> utxo_amount_atomic b) sample_coins" by (simp add: sample_coins_def)
  have range: "selection_in_range sample_coins 10000 1000 (multisig_input_bytes 2 105)"
    unfolding bytes by (simp add: selection_in_range_def sample_coins_def fee_nat_def)
  from selection_exact[OF sorted _ range, of 5] sel show ?thesis by (auto simp: sample_coins_def)
qed

section \<open>The division of change\<close>

lemma distribute_evenly_unat:
  "0 < n \<Longrightarrow> map unat (distribute_evenly d n) =
     map (\<lambda>i. unat d div unat n + of_bool (i < unat d mod unat n)) [0..<unat n]"
  using unat_div_plus_1[of d n] by (auto simp: distribute_evenly_def Let_def unat_div unat_mod)

lemma sum_remainder_first: "sum_list (map (\<lambda>i. b + of_bool (i < r)) [0..<n]) = n * b + min r n" for b r n :: nat
  by (induction n) (auto simp: min_def)

lemma distribute_evenly_sum: "0 < n \<Longrightarrow> sum_list (map unat (distribute_evenly d n)) = unat d"
  by (simp add: distribute_evenly_unat sum_remainder_first min_def word_less_nat_alt)

lemma distribute_evenly_length: "length (distribute_evenly d n) = unat n"
  by (simp add: distribute_evenly_def Let_def)

lemma distribute_evenly_base:
  assumes "c \<in> set (distribute_evenly d n)"
  shows "unat c = unat d div unat n \<or> unat c = unat d div unat n + 1"
proof -
  have "0 < n" using assms by (auto simp: distribute_evenly_def word_neq_0_conv split: if_splits)
  moreover have "unat c \<in> set (map unat (distribute_evenly d n))" using assms by simp
  ultimately show ?thesis unfolding distribute_evenly_unat[OF \<open>0 < n\<close>] by auto
qed

text \<open>How much a transaction with a given number of change outputs leaves to share out, if anything.\<close>

definition dust_free :: "nat \<Rightarrow> u64 \<Rightarrow> u64 \<Rightarrow> u64 \<Rightarrow> nat \<Rightarrow> nat \<Rightarrow> bool" where
  "dust_free inputs ib rate dust leftover k \<longleftrightarrow>
     fee_nat inputs (1 + k) (unat rate) (unat ib) \<le> leftover
     \<and> unat dust \<le> (leftover - fee_nat inputs (1 + k) (unat rate) (unat ib)) div k"

lemma distribute_evenly_smallest:
  assumes "0 < n"
  shows "distribute_evenly d n \<noteq> [] \<and> unat (Min (set (distribute_evenly d n))) = unat d div unat n"
proof -
  let ?cs = "distribute_evenly d n"
  have n: "0 < unat n" using assms by (simp add: word_less_nat_alt)
  then have ne: "?cs \<noteq> []" using distribute_evenly_length[of d n] by auto
  have "unat (?cs ! (unat n - 1)) = map unat ?cs ! (unat n - 1)" using n by (simp add: distribute_evenly_length)
  also have "\<dots> = unat d div unat n"
    unfolding distribute_evenly_unat[OF assms] using n mod_less_divisor[of "unat n" "unat d"] by (auto simp del: mod_less_divisor)
  finally have last: "unat (?cs ! (unat n - 1)) = unat d div unat n" .
  have "?cs ! (unat n - 1) \<in> set ?cs" using n by (simp add: distribute_evenly_length)
  moreover have "?cs ! (unat n - 1) \<le> c" if "c \<in> set ?cs" for c
    using distribute_evenly_base[OF that] last by (auto simp: word_le_nat_alt)
  ultimately have "Min (set ?cs) = ?cs ! (unat n - 1)" by (intro Min_eqI) auto
  with ne last show ?thesis by simp
qed

lemma fanout_Suc:
  assumes "(10 + inputs * unat ib + (2 + n) * 34) * unat rate < 2 ^ 64" "Suc n < 2 ^ 64"
  shows "fanout inputs ib rate dust leftover (Suc n) =
    (if dust_free inputs ib rate dust (unat leftover) (Suc n)
     then (distribute_evenly (leftover - fee_for inputs (2 + n) rate ib) (word_of_nat (Suc n)), fee_for inputs (2 + n) rate ib)
     else fanout inputs ib rate dust leftover n)"
proof -
  have pos: "0 < (word_of_nat (Suc n) :: u64)" and n: "unat (word_of_nat (Suc n) :: u64) = Suc n"
    using unat_of_nat_bounded[OF assms(2)] by (simp_all add: word_less_nat_alt)
  note fee = fee_for_unat[OF assms(1)] and small = distribute_evenly_smallest[OF pos]
  show ?thesis
    using small[of "leftover - fee_for inputs (2 + n) rate ib"] fee n
    by (simp add: Let_def checked_sub_def dust_free_def word_le_nat_alt word_less_nat_alt unat_sub not_less
        del: of_nat_Suc split: option.splits)
qed

text \<open>The loop stops at the largest number of outputs that are all worth spending, or gives the rest to the miner.\<close>

definition fanout_spec :: "nat \<Rightarrow> u64 \<Rightarrow> u64 \<Rightarrow> u64 \<Rightarrow> nat \<Rightarrow> nat \<Rightarrow> u64 list \<Rightarrow> u64 \<Rightarrow> bool" where
  "fanout_spec inputs ib rate dust leftover n change fee \<longleftrightarrow>
     sum_list (map unat change) + unat fee = leftover \<and> length change \<le> n
     \<and> (\<forall>k\<in>{length change<..n}. \<not> dust_free inputs ib rate dust leftover k)
     \<and> (change \<noteq> [] \<longrightarrow> unat fee = fee_nat inputs (1 + length change) (unat rate) (unat ib)
         \<and> dust_free inputs ib rate dust leftover (length change))
     \<and> (\<forall>c\<in>set change. dust \<le> c \<and> (\<forall>d\<in>set change. unat c \<le> unat d + 1))"

lemma fanout_meets_spec:
  assumes "(10 + inputs * unat ib + (1 + n) * 34) * unat rate < 2 ^ 64" "n < 2 ^ 64"
  shows "case_prod (fanout_spec inputs ib rate dust (unat leftover) n) (fanout inputs ib rate dust leftover n)"
  using assms
proof (induction n)
  case (Suc n)
  let ?n = "word_of_nat (Suc n) :: u64" and ?fee = "fee_for inputs (2 + n) rate ib"
  have range: "(10 + inputs * unat ib + (2 + n) * 34) * unat rate < 2 ^ 64" using Suc.prems(1) by simp
  have smaller: "(10 + inputs * unat ib + (1 + n) * 34) * unat rate \<le> (10 + inputs * unat ib + (2 + n) * 34) * unat rate"
    by (intro mult_le_mono) simp_all
  have n: "unat ?n = Suc n" using unat_of_nat_bounded[OF Suc.prems(2)] .
  then have pos: "0 < ?n" by (simp add: word_less_nat_alt)
  show ?case
  proof (cases "dust_free inputs ib rate dust (unat leftover) (Suc n)")
    case True
    let ?cs = "distribute_evenly (leftover - ?fee) ?n"
    have fee: "unat ?fee = fee_nat inputs (2 + n) (unat rate) (unat ib)" by (rule fee_for_unat[OF range])
    have le: "?fee \<le> leftover" using True fee by (simp add: dust_free_def word_le_nat_alt)
    have base: "unat dust \<le> unat (leftover - ?fee) div unat ?n"
      using True fee le n by (simp add: dust_free_def unat_sub)
    have "sum_list (map unat ?cs) + unat ?fee = unat leftover"
      using distribute_evenly_sum[OF pos] le by (simp add: unat_sub word_le_nat_alt)
    moreover have "dust \<le> c" "unat c \<le> unat d + 1" if "c \<in> set ?cs" "d \<in> set ?cs" for c d
      using distribute_evenly_base[OF that(1)] distribute_evenly_base[OF that(2)] base by (auto simp: word_le_nat_alt)
    ultimately show ?thesis
      unfolding fanout_Suc[OF range Suc.prems(2)] fanout_spec_def using True n fee by (simp add: distribute_evenly_length)
  next
    case False
    have IH: "case_prod (fanout_spec inputs ib rate dust (unat leftover) n) (fanout inputs ib rate dust leftover n)"
      using Suc.prems smaller range by (intro Suc.IH) linarith+
    have "\<not> dust_free inputs ib rate dust (unat leftover) k" if "k \<in> {j<..Suc n}"
      "\<forall>k\<in>{j<..n}. \<not> dust_free inputs ib rate dust (unat leftover) k" for j k
      using that False by (cases "k = Suc n") auto
    with IH show ?thesis
      unfolding fanout_Suc[OF range Suc.prems(2)] fanout_spec_def using False by fastforce
  qed
qed (simp add: fanout_spec_def)

definition planned_change_outputs :: "nat \<Rightarrow> nat \<Rightarrow> nat \<Rightarrow> nat" where
  "planned_change_outputs leftover target max_outputs =
     (if leftover = 0 then 0 else max 1 (min (max max_outputs 1) ((leftover + max target 1 - 1) div max target 1)))"

lemma planned_change_outputs_le: "planned_change_outputs leftover target max_outputs \<le> max max_outputs 1"
  by (simp add: planned_change_outputs_def)

lemma unat_max: "unat (max a b) = max (unat a) (unat b)" and unat_min: "unat (min a b) = min (unat a) (unat b)"
  by (simp_all add: max_def min_def word_le_nat_alt)

lemma finalize_fanout_eq:
  assumes "amount \<le> sel_total_selected r" "max max_outputs 1 < 2 ^ 64"
  shows "finalize_fanout r amount inputs ib rate dust target max_outputs =
    fanout inputs ib rate dust (sel_total_selected r - amount)
      (planned_change_outputs (unat (sel_total_selected r) - unat amount) (unat target) max_outputs)"
proof -
  let ?left = "sel_total_selected r - amount"
  have left: "unat ?left = unat (sel_total_selected r) - unat amount" using assms(1) by (simp add: unat_sub)
  have target: "unat (max target 1) = max (unat target) 1" "0 < max target 1"
    by (simp_all add: unat_max word_less_nat_alt)
  have count: "unat (max 1 (min (word_of_nat (max max_outputs 1)) (div_ceil ?left (max target 1))))
      = max 1 (min (max max_outputs 1) ((unat ?left + max (unat target) 1 - 1) div max (unat target) 1))"
    by (simp only: unat_max[of 1] unat_min unat_of_nat_bounded[OF assms(2)] unat_div_ceil[OF target(2)] target(1) unat_1)
  have zero: "?left = 0 \<longleftrightarrow> unat ?left = 0" by (simp add: unat_eq_0)
  show ?thesis
    unfolding finalize_fanout_def planned_change_outputs_def Let_def left[symmetric] saturating_sub_def
    using assms(1) count zero by (simp only: if_True if_False split: if_split)
qed

lemma finalize_fanout_meets_spec:
  assumes "amount \<le> sel_total_selected r" "max max_outputs 1 < 2 ^ 64"
    and "(10 + inputs * unat ib + (1 + max max_outputs 1) * 34) * unat rate < 2 ^ 64"
  shows "\<exists>change fee. finalize_fanout r amount inputs ib rate dust target max_outputs = (change, fee)
    \<and> unat amount + sum_list (map unat change) + unat fee = unat (sel_total_selected r)
    \<and> fanout_spec inputs ib rate dust (unat (sel_total_selected r) - unat amount)
        (planned_change_outputs (unat (sel_total_selected r) - unat amount) (unat target) max_outputs) change fee"
proof -
  let ?n = "planned_change_outputs (unat (sel_total_selected r) - unat amount) (unat target) max_outputs"
  have left: "unat (sel_total_selected r - amount) = unat (sel_total_selected r) - unat amount"
    "unat amount \<le> unat (sel_total_selected r)" using assms(1) by (simp_all add: unat_sub word_le_nat_alt)
  have "(10 + inputs * unat ib + (1 + ?n) * 34) * unat rate \<le> (10 + inputs * unat ib + (1 + max max_outputs 1) * 34) * unat rate"
    using planned_change_outputs_le by (intro mult_le_mono add_mono) simp_all
  with assms(3) have "(10 + inputs * unat ib + (1 + ?n) * 34) * unat rate < 2 ^ 64" by linarith
  moreover have "?n < 2 ^ 64" using planned_change_outputs_le[of _ _ max_outputs] assms(2) by (rule le_less_trans)
  ultimately have "case_prod (fanout_spec inputs ib rate dust (unat (sel_total_selected r) - unat amount) ?n)
      (finalize_fanout r amount inputs ib rate dust target max_outputs)"
    unfolding finalize_fanout_eq[OF assms(1,2)] using fanout_meets_spec[of inputs ib ?n rate dust "sel_total_selected r - amount"] left(1) by simp
  then show ?thesis using left(2) by (cases "finalize_fanout r amount inputs ib rate dust target max_outputs") (auto simp: fanout_spec_def)
qed

text \<open>
  C37. Change is divided without loss and without waste: payout, change and miner fee add up to what was
  selected; every change output is worth at least the dust threshold and no two differ by more than one unit;
  there are as many of them as the target size asks for, less only those that would leave some output below
  the threshold after the fee for the whole transaction; and only when none would survive does the rest
  go to the miner.
\<close>

theorem change_fanout_exact:
  assumes "amount \<le> sel_total_selected r" "max max_outputs 1 < 2 ^ 64"
    and "(10 + inputs * unat ib + (1 + max max_outputs 1) * 34) * unat rate < 2 ^ 64"
  shows "\<exists>change fee. finalize_fanout r amount inputs ib rate dust target max_outputs = (change, fee)
    \<and> unat amount + sum_list (map unat change) + unat fee = unat (sel_total_selected r)
    \<and> fanout_spec inputs ib rate dust (unat (sel_total_selected r) - unat amount)
        (planned_change_outputs (unat (sel_total_selected r) - unat amount) (unat target) max_outputs) change fee"
  using assms by (rule finalize_fanout_meets_spec)

theorem change_fanout_exact_witness:
  "\<exists>change fee. finalize_fanout \<lparr>sel_selected = sample_coins, sel_total_selected = 17000, sel_fee_atomic = 676\<rparr>
      10000 2 299 1000 1000 2000 3 = (change, fee) \<and> sum_list (map unat change) + unat fee = 7000"
proof -
  let ?r = "\<lparr>sel_selected = sample_coins, sel_total_selected = 17000, sel_fee_atomic = 676\<rparr> :: SelectionResult"
  have "10000 \<le> sel_total_selected ?r" by simp
  from change_fanout_exact[OF this, of 3 2 299 1000 1000 2000] show ?thesis by (simp, elim exE conjE) (intro exI conjI, assumption, simp)
qed

end
