(* ===== verification/Goldcoin_Payout.thy ===== *)
theory Goldcoin_Payout
  imports Goldcoin_Vault Goldcoin_Coins
begin

text \<open>
  The payout transaction (\<open>goldcoin/payout.rs\<close>) and the split of a large coin of the vault
  (\<open>goldcoin/split.rs\<close>): the plan, the transaction built from it, and the check every signer makes of a
  transaction against its own plan.
\<close>

section \<open>Payouts\<close>

record PayoutInputContext =
  pic_vault :: MultisigVault
  pic_funding_request_id :: "i64 option"

datatype ZeroConfChangeMode = DepthLimited | BridgeOwnedRecursive

record PayoutPolicy =
  pol_fee_rate_per_kb :: u64
  pol_dust_threshold :: u64
  pol_max_inputs :: nat
  pol_change_fanout_target_atomic :: u64
  pol_zero_conf_change_max_depth :: u32
  pol_zero_conf_change_mode :: ZeroConfChangeMode
  pol_zero_conf_change_recursive_chain_limit :: u32
  pol_change_fanout_max_outputs :: nat

definition effective_zero_conf_depth :: "PayoutPolicy \<Rightarrow> u32" where
  "effective_zero_conf_depth policy =
     (if pol_zero_conf_change_max_depth policy = 0 then 0
      else case pol_zero_conf_change_mode policy of
        DepthLimited \<Rightarrow> pol_zero_conf_change_max_depth policy
      | BridgeOwnedRecursive \<Rightarrow> pol_zero_conf_change_recursive_chain_limit policy)"

record PayoutPlan =
  pp_inputs :: "VaultUtxo list"
  pp_input_contexts :: "PayoutInputContext list"
  pp_dest_p2pkh_hash :: hash20
  pp_payout_atomic :: u64
  pp_change_outputs :: "u64 list"
  pp_vault_script_pubkey :: bytes
  pp_fee_atomic :: u64

definition total_change_atomic :: "PayoutPlan \<Rightarrow> u64" where
  "total_change_atomic plan = sum_list (pp_change_outputs plan)"

datatype PayoutVerifyError =
    InputCountMismatch nat nat
  | InputMismatch nat
  | OutputCountMismatch nat nat
  | MissingDestinationOutput
  | AmbiguousDestinationOutput
  | ChangeOutputScriptMismatch nat
  | ChangeOutputAmountMismatch nat u64 u64
  | ValueNotConserved u64 u64 u64 u64

text \<open>The destination script is written in hexadecimal and read back.\<close>

definition dest_script :: "hash20 \<Rightarrow> bytes" where
  "dest_script hash = (case decode_vec (p2pkh_script_hex hash) of Inr bs \<Rightarrow> bs | Inl _ \<Rightarrow> [])"

definition build_unsigned_tx :: "PayoutPlan \<Rightarrow> Transaction" where
  "build_unsigned_tx plan =
     \<lparr>tx_version = 1,
      tx_inputs = map (\<lambda>u. unsigned_input (utxo_txid u) (utxo_vout u)) (pp_inputs plan),
      tx_outputs = \<lparr>to_value_atomic = pp_payout_atomic plan, to_script_pubkey = dest_script (pp_dest_p2pkh_hash plan)\<rparr>
        # map (\<lambda>change_atomic. \<lparr>to_value_atomic = change_atomic, to_script_pubkey = pp_vault_script_pubkey plan\<rparr>)
            (pp_change_outputs plan),
      tx_locktime = 0\<rparr>"

definition spends_coin :: "TxIn \<Rightarrow> VaultUtxo \<Rightarrow> bool" where
  "spends_coin tx_in u \<longleftrightarrow> \<not> (ti_prev_txid tx_in \<noteq> utxo_txid u \<or> ti_prev_vout tx_in \<noteq> utxo_vout u)"

primrec verify_inputs :: "nat \<Rightarrow> (TxIn \<times> VaultUtxo) list \<Rightarrow> (PayoutVerifyError, unit) result" where
  "verify_inputs i [] = Inr ()"
| "verify_inputs i (p # rest) = require (spends_coin (fst p) (snd p)) (InputMismatch i) (verify_inputs (Suc i) rest)"

primrec verify_change :: "bytes \<Rightarrow> nat \<Rightarrow> (u64 \<times> TxOut) list \<Rightarrow> (PayoutVerifyError, unit) result" where
  "verify_change script i [] = Inr ()"
| "verify_change script i (p # rest) =
     require (to_script_pubkey (snd p) = script) (ChangeOutputScriptMismatch i) (
     require (to_value_atomic (snd p) = fst p) (ChangeOutputAmountMismatch i (fst p) (to_value_atomic (snd p))) (
     verify_change script (Suc i) rest))"

definition verify_payout_tx :: "Transaction \<Rightarrow> PayoutPlan \<Rightarrow> (PayoutVerifyError, unit) result" where
  "verify_payout_tx tx plan =
     require (length (tx_inputs tx) = length (pp_inputs plan))
       (InputCountMismatch (length (pp_inputs plan)) (length (tx_inputs tx))) (
     try_bind (verify_inputs 0 (zip (tx_inputs tx) (pp_inputs plan))) (\<lambda>_.
     let expected_output_count = 1 + length (pp_change_outputs plan) in
     require (length (tx_outputs tx) = expected_output_count)
       (OutputCountMismatch expected_output_count (length (tx_outputs tx))) (
     let dest_matches = filter (\<lambda>out. to_script_pubkey out = dest_script (pp_dest_p2pkh_hash plan)) (tx_outputs tx) in
     require (dest_matches \<noteq> []) MissingDestinationOutput (
     require (\<not> length dest_matches > 1) AmbiguousDestinationOutput (
     require (to_value_atomic (hd dest_matches) = pp_payout_atomic plan) MissingDestinationOutput (
     try_bind (verify_change (pp_vault_script_pubkey plan) 0 (zip (pp_change_outputs plan) (tl (tx_outputs tx)))) (\<lambda>_.
     let total_in = sum_list (map utxo_amount_atomic (pp_inputs plan)); total_change = total_change_atomic plan in
     require (total_in = pp_payout_atomic plan + total_change + pp_fee_atomic plan)
       (ValueNotConserved total_in (pp_payout_atomic plan) total_change (pp_fee_atomic plan)) (
     Inr ()))))))))"

section \<open>Splits\<close>

definition MIN_SPLIT_OUTPUTS :: nat where "MIN_SPLIT_OUTPUTS = 2"
definition MIN_CHUNK_FLOOR_ATOMIC :: u64 where "MIN_CHUNK_FLOOR_ATOMIC = 1000 * 100000000"

record SplitPlan =
  sp_source :: VaultUtxo
  sp_vault_script_pubkey :: bytes
  sp_output_amounts :: "u64 list"
  sp_fee_atomic :: u64

definition output_count :: "SplitPlan \<Rightarrow> nat" where
  "output_count plan = length (sp_output_amounts plan)"

definition total_output_atomic :: "SplitPlan \<Rightarrow> u64" where
  "total_output_atomic plan = sum_list (sp_output_amounts plan)"

datatype SplitError =
    InvalidChunkTarget
  | NotWorthSplitting u64 u64
  | InsufficientForFee u64 u64
  | ChunkBelowFloor u64 u64

definition plan_split :: "VaultUtxo \<Rightarrow> MultisigVault \<Rightarrow> u64 \<Rightarrow> u64 \<Rightarrow> (SplitError, SplitPlan) result" where
  "plan_split source vault chunk_target_atomic fee_rate_per_kb =
     require (chunk_target_atomic \<noteq> 0) InvalidChunkTarget (
     let num_outputs = div_ceil (utxo_amount_atomic source) chunk_target_atomic in
     require (\<not> num_outputs < word_of_nat MIN_SPLIT_OUTPUTS)
       (NotWorthSplitting (utxo_amount_atomic source) chunk_target_atomic) (
     let input_bytes = multisig_input_bytes (mv_threshold vault) (length (redeem_script vault));
         fee_atomic = fee_for 1 (unat num_outputs) fee_rate_per_kb input_bytes in
     try_bind (ok_or (checked_sub (utxo_amount_atomic source) fee_atomic)
       (InsufficientForFee (utxo_amount_atomic source) fee_atomic)) (\<lambda>distributable.
     let base = distributable div num_outputs in
     require (\<not> base < MIN_CHUNK_FLOOR_ATOMIC) (ChunkBelowFloor base MIN_CHUNK_FLOOR_ATOMIC) (
     Inr \<lparr>sp_source = source, sp_vault_script_pubkey = script_pubkey vault,
       sp_output_amounts = distribute_evenly distributable num_outputs, sp_fee_atomic = fee_atomic\<rparr>))))"

definition reconstruct_plan :: "VaultUtxo \<Rightarrow> MultisigVault \<Rightarrow> u64 \<Rightarrow> u64 \<Rightarrow> (SplitError, SplitPlan) result" where
  "reconstruct_plan source vault chunk_count fee_atomic =
     try_bind (ok_or (checked_sub (utxo_amount_atomic source) fee_atomic)
       (InsufficientForFee (utxo_amount_atomic source) fee_atomic)) (\<lambda>distributable.
     Inr \<lparr>sp_source = source, sp_vault_script_pubkey = script_pubkey vault,
       sp_output_amounts = distribute_evenly distributable chunk_count, sp_fee_atomic = fee_atomic\<rparr>)"

definition matches_expected_split_output :: "u64 \<Rightarrow> u64 \<Rightarrow> u64 \<Rightarrow> u32 \<Rightarrow> u64 \<Rightarrow> bool" where
  "matches_expected_split_output source_amount_atomic fee_atomic chunk_count vout amount_atomic =
     (if ucast vout \<ge> chunk_count then False
      else case checked_sub source_amount_atomic fee_atomic of
        None \<Rightarrow> False
      | Some distributable \<Rightarrow>
          let amounts = distribute_evenly distributable chunk_count
          in unat vout < length amounts \<and> amounts ! unat vout = amount_atomic)"

definition build_unsigned_split_tx :: "SplitPlan \<Rightarrow> Transaction" where
  "build_unsigned_split_tx plan =
     \<lparr>tx_version = 1, tx_inputs = [unsigned_input (utxo_txid (sp_source plan)) (utxo_vout (sp_source plan))],
      tx_outputs = map (\<lambda>amount. \<lparr>to_value_atomic = amount, to_script_pubkey = sp_vault_script_pubkey plan\<rparr>)
        (sp_output_amounts plan),
      tx_locktime = 0\<rparr>"

datatype SplitVerifyError =
    SplitInputCountMismatch nat
  | SplitInputMismatch
  | SplitOutputCountMismatch nat nat
  | SplitOutputScriptMismatch nat
  | SplitOutputAmountMismatch nat u64 u64
  | SplitValueNotConserved u64 u64 u64

primrec verify_split_outputs :: "bytes \<Rightarrow> nat \<Rightarrow> (TxOut \<times> u64) list \<Rightarrow> (SplitVerifyError, unit) result" where
  "verify_split_outputs script i [] = Inr ()"
| "verify_split_outputs script i (p # rest) =
     require (to_script_pubkey (fst p) = script) (SplitOutputScriptMismatch i) (
     require (to_value_atomic (fst p) = snd p) (SplitOutputAmountMismatch i (snd p) (to_value_atomic (fst p))) (
     verify_split_outputs script (Suc i) rest))"

definition verify_split_tx :: "Transaction \<Rightarrow> SplitPlan \<Rightarrow> (SplitVerifyError, unit) result" where
  "verify_split_tx tx plan =
     require (length (tx_inputs tx) = 1) (SplitInputCountMismatch (length (tx_inputs tx))) (
     require (spends_coin (hd (tx_inputs tx)) (sp_source plan)) SplitInputMismatch (
     require (length (tx_outputs tx) = length (sp_output_amounts plan))
       (SplitOutputCountMismatch (length (sp_output_amounts plan)) (length (tx_outputs tx))) (
     try_bind (verify_split_outputs (sp_vault_script_pubkey plan) 0 (zip (tx_outputs tx) (sp_output_amounts plan))) (\<lambda>_.
     let outputs_total = total_output_atomic plan in
     require (utxo_amount_atomic (sp_source plan) = outputs_total + sp_fee_atomic plan)
       (SplitValueNotConserved (utxo_amount_atomic (sp_source plan)) outputs_total (sp_fee_atomic plan)) (
     Inr ())))))"

section \<open>Verification of a transaction\<close>

lemma dest_script_eq [simp]: "dest_script h = p2pkh_script h"
  by (simp add: dest_script_def p2pkh_script_hex_def)

lemma scripts_differ: "script_pubkey v \<noteq> p2pkh_script h"
  using arg_cong[of "script_pubkey v" "p2pkh_script h" length] by (auto simp: script_pubkey_def p2sh_script_def p2pkh_script_def)

lemma txout_eq_iff: "o' = \<lparr>to_value_atomic = a, to_script_pubkey = s\<rparr> \<longleftrightarrow> to_value_atomic o' = a \<and> to_script_pubkey o' = s"
  by (cases o') auto

lemma verify_inputs_ok:
  "length ins = length us \<Longrightarrow> verify_inputs i (zip ins us) = Inr () \<longleftrightarrow> list_all2 spends_coin ins us"
  by (induction ins us arbitrary: i rule: list_induct2) (auto simp: require_def)

lemma verify_change_ok:
  "length amounts = length outs \<Longrightarrow> verify_change script i (zip amounts outs) = Inr ()
     \<longleftrightarrow> outs = map (\<lambda>a. \<lparr>to_value_atomic = a, to_script_pubkey = script\<rparr>) amounts"
  by (induction amounts outs arbitrary: i rule: list_induct2) (auto simp: require_def txout_eq_iff)

lemma verify_split_outputs_ok:
  "length outs = length amounts \<Longrightarrow> verify_split_outputs script i (zip outs amounts) = Inr ()
     \<longleftrightarrow> outs = map (\<lambda>a. \<lparr>to_value_atomic = a, to_script_pubkey = script\<rparr>) amounts"
  by (induction outs amounts arbitrary: i rule: list_induct2) (auto simp: require_def txout_eq_iff)

lemma only_first_pays_destination:
  "script \<noteq> dest \<Longrightarrow> filter (\<lambda>out. to_script_pubkey out = dest)
     (map (\<lambda>a. \<lparr>to_value_atomic = a, to_script_pubkey = script\<rparr>) amounts) = []"
  by (induction amounts) auto

lemma verify_payout_tx_Inr:
  assumes "pp_vault_script_pubkey plan = script_pubkey vault"
  shows "verify_payout_tx tx plan = Inr () \<longleftrightarrow>
    list_all2 spends_coin (tx_inputs tx) (pp_inputs plan) \<and> tx_outputs tx = tx_outputs (build_unsigned_tx plan)
    \<and> sum_list (map utxo_amount_atomic (pp_inputs plan)) = pp_payout_atomic plan + sum_list (pp_change_outputs plan) + pp_fee_atomic plan"
proof (cases "length (tx_inputs tx) = length (pp_inputs plan) \<and> length (tx_outputs tx) = Suc (length (pp_change_outputs plan))")
  case True
  then obtain first rest where outs: "tx_outputs tx = first # rest" "length (pp_change_outputs plan) = length rest"
    by (cases "tx_outputs tx") auto
  let ?dest = "p2pkh_script (pp_dest_p2pkh_hash plan)" and ?rest = "map (\<lambda>a. \<lparr>to_value_atomic = a, to_script_pubkey = script_pubkey vault\<rparr>) (pp_change_outputs plan)"
  have none: "filter (\<lambda>out. to_script_pubkey out = ?dest) ?rest = []"
    using only_first_pays_destination[OF scripts_differ] .
  have ins: "verify_inputs 0 (zip (tx_inputs tx) (pp_inputs plan)) = Inr () \<longleftrightarrow> list_all2 spends_coin (tx_inputs tx) (pp_inputs plan)"
    using True by (intro verify_inputs_ok) simp
  have change: "verify_change (script_pubkey vault) 0 (zip (pp_change_outputs plan) rest) = Inr () \<longleftrightarrow> rest = ?rest"
    using outs(2) by (rule verify_change_ok)
  have first: "tx_outputs tx = tx_outputs (build_unsigned_tx plan) \<longleftrightarrow>
      to_script_pubkey first = ?dest \<and> to_value_atomic first = pp_payout_atomic plan \<and> rest = ?rest"
    by (auto simp: outs build_unsigned_tx_def assms txout_eq_iff)
  have dest: "filter (\<lambda>out. to_script_pubkey out = ?dest) (tx_outputs tx) = (if to_script_pubkey first = ?dest then [first] else [])"
    if "rest = ?rest"
    using none unfolding outs(1) that by simp
  have "verify_payout_tx tx plan = Inr () \<longleftrightarrow> list_all2 spends_coin (tx_inputs tx) (pp_inputs plan) \<and> rest = ?rest
      \<and> to_script_pubkey first = ?dest \<and> to_value_atomic first = pp_payout_atomic plan
      \<and> sum_list (map utxo_amount_atomic (pp_inputs plan)) = pp_payout_atomic plan + sum_list (pp_change_outputs plan) + pp_fee_atomic plan"
    unfolding verify_payout_tx_def Let_def using True ins change dest
    by (cases "rest = ?rest") (auto simp: outs(1) assms total_change_atomic_def split: if_splits)
  then show ?thesis unfolding first by blast
next
  case False
  then show ?thesis
    by (auto simp: verify_payout_tx_def build_unsigned_tx_def Let_def dest: list_all2_lengthD)
qed

lemma built_spends_plan: "list_all2 spends_coin (tx_inputs (build_unsigned_tx plan)) (pp_inputs plan)"
  by (simp add: build_unsigned_tx_def list_all2_map1 spends_coin_def unsigned_input_def list_all2_same)

lemma built_payout_verifies:
  assumes "pp_vault_script_pubkey plan = script_pubkey vault"
  shows "verify_payout_tx (build_unsigned_tx plan) plan = Inr () \<longleftrightarrow>
    sum_list (map utxo_amount_atomic (pp_inputs plan)) = pp_payout_atomic plan + sum_list (pp_change_outputs plan) + pp_fee_atomic plan"
  using verify_payout_tx_Inr[OF assms] built_spends_plan by simp


definition sample_vault :: MultisigVault where
  "sample_vault = \<lparr>mv_signer_pubkeys = sample_vault_keys, mv_threshold = 2, mv_address = [], mv_script_hash = 4\<rparr>"



section \<open>Splits conserve the coin\<close>

lemma sum_list_words: "sum_list ws = word_of_nat (sum_list (map unat ws))" for ws :: "'a::len word list"
  by (induction ws) simp_all

lemma distribute_evenly_sum_word: "0 < n \<Longrightarrow> sum_list (distribute_evenly d n) = d"
  using distribute_evenly_sum[of n d] by (simp add: sum_list_words)

lemma plan_split_Inr:
  assumes "plan_split source vault target rate = Inr plan"
  defines "n \<equiv> div_ceil (utxo_amount_atomic source) target"
  shows "target \<noteq> 0" "2 \<le> unat n" "sp_source plan = source" "sp_vault_script_pubkey plan = script_pubkey vault"
    "sp_fee_atomic plan \<le> utxo_amount_atomic source"
    "sp_output_amounts plan = distribute_evenly (utxo_amount_atomic source - sp_fee_atomic plan) n"
    "MIN_CHUNK_FLOOR_ATOMIC \<le> (utxo_amount_atomic source - sp_fee_atomic plan) div n"
  using assms(1) unfolding n_def
  by (auto simp: plan_split_def Let_def checked_sub_def ok_or_def MIN_SPLIT_OUTPUTS_def not_less word_le_nat_alt
      split: if_splits)

text \<open>
  A split loses nothing and leaves no scrap: the outputs and the fee add up to the coin; all outputs are worth at
  least a thousand coins; there are as many as whole chunks cover the coin; each pays the vault; the built
  transaction passes the signers' check; the plan is rebuilt from the stored figures; and the indexer
  recognises exactly these outputs as the vault's own.
\<close>

theorem split_conserves_coin:
  assumes "plan_split source vault target rate = Inr plan"
  shows "sum_list (map unat (sp_output_amounts plan)) + unat (sp_fee_atomic plan) = unat (utxo_amount_atomic source)
    \<and> (\<forall>a\<in>set (sp_output_amounts plan). 100000000000 \<le> unat a)
    \<and> output_count plan = (unat (utxo_amount_atomic source) + unat target - 1) div unat target \<and> 2 \<le> output_count plan
    \<and> (\<forall>out\<in>set (tx_outputs (build_unsigned_split_tx plan)). to_script_pubkey out = script_pubkey vault)
    \<and> verify_split_tx (build_unsigned_split_tx plan) plan = Inr ()
    \<and> reconstruct_plan source vault (word_of_nat (output_count plan)) (sp_fee_atomic plan) = Inr plan
    \<and> (matches_expected_split_output (utxo_amount_atomic source) (sp_fee_atomic plan) (word_of_nat (output_count plan)) vout amount
        \<longleftrightarrow> unat vout < output_count plan \<and> sp_output_amounts plan ! unat vout = amount)"
proof -
  let ?n = "div_ceil (utxo_amount_atomic source) target" and ?d = "utxo_amount_atomic source - sp_fee_atomic plan"
  note p = plan_split_Inr[OF assms]
  have pos: "0 < ?n" using p(2) by (simp add: word_less_nat_alt)
  have target: "0 < target" using p(1) by (simp add: word_neq_0_conv)
  have count: "output_count plan = unat ?n" by (simp add: output_count_def p(6) distribute_evenly_length)
  then have count_word: "word_of_nat (output_count plan) = ?n" by simp
  have sum: "sum_list (map unat (sp_output_amounts plan)) + unat (sp_fee_atomic plan) = unat (utxo_amount_atomic source)"
    using p(5) by (simp add: p(6) distribute_evenly_sum[OF pos] unat_sub word_le_nat_alt)
  have least: "100000000000 \<le> unat ?d div unat ?n"
    using p(7) by (simp add: MIN_CHUNK_FLOOR_ATOMIC_def word_le_nat_alt unat_div)
  have "\<forall>a\<in>set (sp_output_amounts plan). 100000000000 \<le> unat a"
    using distribute_evenly_base[of _ ?d ?n] least unfolding p(6) by fastforce
  moreover have "verify_split_tx (build_unsigned_split_tx plan) plan = Inr ()"
    by (simp add: verify_split_tx_def build_unsigned_split_tx_def spends_coin_def unsigned_input_def verify_split_outputs_ok
        total_output_atomic_def p(3) p(6) distribute_evenly_sum_word[OF pos] Let_def)
  moreover have "reconstruct_plan source vault (word_of_nat (output_count plan)) (sp_fee_atomic plan) = Inr plan"
    using p(3-6) unfolding count_word by (cases plan) (simp add: reconstruct_plan_def checked_sub_def ok_or_def)
  moreover have "matches_expected_split_output (utxo_amount_atomic source) (sp_fee_atomic plan) (word_of_nat (output_count plan)) vout amount
        \<longleftrightarrow> unat vout < output_count plan \<and> sp_output_amounts plan ! unat vout = amount"
    using p(5) unfolding count_word count
    by (auto simp: matches_expected_split_output_def checked_sub_def p(6) distribute_evenly_length Let_def word_le_nat_alt unsigned_ucast_eq
        take_bit_nat_eq_self unat_lt2p[of vout, THEN less_trans])
  ultimately show ?thesis
    using sum p(2) unat_div_ceil[OF target, of "utxo_amount_atomic source"]
    by (simp add: count build_unsigned_split_tx_def p(4))
qed

theorem split_conserves_coin_witness:
  "\<exists>plan. plan_split \<lparr>utxo_txid = 3, utxo_vout = 1, utxo_amount_atomic = 9000000000000, utxo_script_pubkey_hex = []\<rparr>
       sample_vault 2000000000000 100000 = Inr plan \<and> output_count plan = 5
     \<and> matches_expected_split_output 9000000000000 (sp_fee_atomic plan) 5 4 (sp_output_amounts plan ! 4)"
proof -
  let ?coin = "\<lparr>utxo_txid = 3, utxo_vout = 1, utxo_amount_atomic = 9000000000000, utxo_script_pubkey_hex = []\<rparr>"
  have "length (redeem_script sample_vault) = 105" "mv_threshold sample_vault = 2"
    by (simp_all add: redeem_script_def build_redeem_script_def sample_vault_def sample_vault_keys_def)
  then have "\<exists>plan. plan_split ?coin sample_vault 2000000000000 100000 = Inr plan"
    by (simp add: plan_split_def div_ceil_def MIN_SPLIT_OUTPUTS_def multisig_input_bytes_def MAX_SIGNATURE_BYTES_def
        fee_for_def TX_OVERHEAD_BYTES_def P2PKH_OUTPUT_BYTES_def checked_sub_def ok_or_def
        MIN_CHUNK_FLOOR_ATOMIC_def Let_def)
  then obtain plan where plan: "plan_split ?coin sample_vault 2000000000000 100000 = Inr plan" by blast
  from split_conserves_coin[OF plan, of 4 "sp_output_amounts plan ! 4"] plan show ?thesis by (intro exI[of _ plan]) auto
qed

end
