(* ===== verification/Ledger_Settlement.thy ===== *)
theory Ledger_Settlement
  imports Ledger_Admission Goldcoin_Payout
begin

text \<open>
  The destination legs recorded in the ledger, \<open>service/src/ledger/mod.rs\<close>: the release from
  the Solana reserve, and the Goldcoin payout with its transaction, its confirmations and
  the completion recorded on Solana. Settling a request takes its amount out of the reservation,
  the pending obligations and the balance of the destination reserve in one statement.
\<close>

section \<open>The Solana release\<close>

definition record_release_submitted :: "i64 \<Rightarrow> bytes \<Rightarrow> i64 \<Rightarrow> Ledger \<Rightarrow> (LedgerError, Ledger) result" where
  "record_release_submitted request_id signature now l =
     try_bind (ok_or (get_request l request_id) SqliteNoRows) (\<lambda>r.
     require (destination_is_solana (br_direction r)) LedgerPanic (
     if br_state r \<noteq> SourceFinalized then Inr l
     else
       try_bind (update_request l request_id (\<lambda>row. row\<lparr>br_state := DestinationSubmitted,
         br_destination_txid := Some signature\<rparr>)) (\<lambda>l.
       Inr (log_transition request_id (Some (br_state r)) DestinationSubmitted now None ''system'' l))))"

definition release_confirmed_in ::
  "i64 \<Rightarrow> i64 \<Rightarrow> string option \<Rightarrow> string \<Rightarrow> Ledger \<Rightarrow> bool ledger_result" where
  "release_confirmed_in request_id now reason actor l =
     try_bind (ok_or (get_request l request_id) SqliteNoRows) (\<lambda>r.
     require (destination_is_solana (br_direction r)) LedgerPanic (
     if br_state r = Settled \<or> (br_state r = DestinationConfirmed \<and> \<not> settles_on_release (br_direction r))
       then Inr (False, l)
     else
       require (br_state r = DestinationSubmitted) LedgerPanic (
       try_bind (update_request l request_id (\<lambda>row. row\<lparr>br_state := DestinationConfirmed\<rparr>)) (\<lambda>l.
       let l = log_transition request_id (Some (br_state r)) DestinationConfirmed now reason actor l in
       try_bind (if settles_on_release (br_direction r)
         then try_bind (update_request l request_id (\<lambda>row. row\<lparr>br_state := Settled, br_settled_at := Some now\<rparr>)) (\<lambda>l.
           Inr (log_transition request_id (Some DestinationConfirmed) Settled now reason actor l))
         else Inr l) (\<lambda>l.
       Inr (True, update_reserve (source_reserve (br_direction r)) (accrue_fee (br_fee_amount_atomic r))
         (update_reserve SolanaReserve (settle_liquidity (br_net_destination_atomic r)) l)))))))"

definition mark_release_confirmed :: "i64 \<Rightarrow> i64 \<Rightarrow> Ledger \<Rightarrow> (LedgerError, Ledger) result" where
  "mark_release_confirmed request_id now l =
     try_bind (release_confirmed_in request_id now None ''system'' l) (\<lambda>(_, l). Inr l)"

datatype ReconcileOutcome = Reconciled | AlreadyReconciled

definition CHAIN_TERMINAL_RECONCILIATION_REASON :: string where
  "CHAIN_TERMINAL_RECONCILIATION_REASON = ''chain_terminal_reconciliation''"

definition reconcile_release_from_chain :: "i64 \<Rightarrow> string \<Rightarrow> i64 \<Rightarrow> Ledger \<Rightarrow> ReconcileOutcome ledger_result" where
  "reconcile_release_from_chain request_id actor now l =
     try_bind (ok_or (get_request l request_id) SqliteNoRows) (\<lambda>r.
     if br_state r \<noteq> DestinationSubmitted then
       (if br_state r \<in> {DestinationConfirmed, Settled} then Inr (AlreadyReconciled, l)
        else Inl (RobinhoodTxInvalid request_id ''reconcile: only DestinationSubmitted is behind a finalized release''))
     else
       try_bind (release_confirmed_in request_id now (Some CHAIN_TERMINAL_RECONCILIATION_REASON) actor l)
         (\<lambda>(_, l). Inr (Reconciled, l)))"

section \<open>The Goldcoin payout\<close>

definition get_goldcoin_payout :: "Ledger \<Rightarrow> i64 \<Rightarrow> GoldcoinPayoutRow option" where
  "get_goldcoin_payout l request_id = find_by gp_request_id request_id (goldcoin_payouts l)"

definition get_solana_refund :: "Ledger \<Rightarrow> i64 \<Rightarrow> SolanaRefundRow option" where
  "get_solana_refund l request_id = find_by sr_request_id request_id (solana_refunds l)"

definition update_payout :: "i64 \<Rightarrow> (GoldcoinPayoutRow \<Rightarrow> GoldcoinPayoutRow) \<Rightarrow> Ledger \<Rightarrow> Ledger" where
  "update_payout request_id f l = l\<lparr>goldcoin_payouts := update_by gp_request_id request_id f (goldcoin_payouts l)\<rparr>"

definition input_rows :: "i64 \<Rightarrow> VaultUtxo list \<Rightarrow> TxInputRow list" where
  "input_rows request_id inputs = map (\<lambda>(i, u). \<lparr>in_request_id = request_id, in_input_order = int i,
     in_txid = utxo_txid u, in_vout = utxo_vout u, in_amount_atomic = as_i64 (utxo_amount_atomic u)\<rparr>)
     (enumerate 0 inputs)"

definition outpoint :: "TxInputRow \<Rightarrow> bytes32 \<times> u32" where
  "outpoint r = (in_txid r, in_vout r)"

text \<open>
  \<open>goldcoin_payout_inputs\<close> is unique in \<open>(txid, vout)\<close>: an input an earlier payout
  uses fails the insert. The plan's change total is the sum of its outputs.
\<close>

definition record_goldcoin_payout_built ::
  "i64 \<Rightarrow> PayoutPlan \<Rightarrow> bytes32 \<Rightarrow> string \<Rightarrow> i64 \<Rightarrow> Ledger \<Rightarrow> (LedgerError, Ledger) result" where
  "record_goldcoin_payout_built request_id plan commitment_hash unsigned_tx_hex now l =
     require (get_goldcoin_payout l request_id = None) (PayoutAlreadyExists request_id) (
     case get_solana_refund l request_id of
       Some refund \<Rightarrow> Inl (RefundLifecycleExists request_id (solana_refund_as_str (sr_state refund)))
     | None \<Rightarrow>
         let inputs = payout_inputs l @ input_rows request_id (pp_inputs plan) in
         require (distinct (map outpoint inputs)) SqliteConstraint (
         Inr (l\<lparr>goldcoin_payouts := goldcoin_payouts l @ [\<lparr>gp_request_id = request_id,
             gp_commitment_hash = commitment_hash, gp_payout_atomic = as_i64 (pp_payout_atomic plan),
             gp_change_atomic = as_i64 (total_change_atomic plan),
             gp_fee_atomic = as_i64 (pp_fee_atomic plan), gp_dest_p2pkh_hash = pp_dest_p2pkh_hash plan,
             gp_unsigned_tx_hex = Some unsigned_tx_hex, gp_signed_tx_hex = None, gp_txid = None,
             gp_state = PayoutBuilt, gp_built_at = now, gp_signed_at = None, gp_broadcast_at = None,
             gp_confirmations = 0, gp_mined_height = None, gp_completed_at = None,
             gp_onchain_completion_signature = None, gp_onchain_completion_submitted_at = None,
             gp_completion_submissions = 0, gp_onchain_completed_at = None\<rparr>],
           payout_inputs := inputs,
           payout_change_outputs := payout_change_outputs l @ map (\<lambda>(i, a). \<lparr>co_request_id = request_id,
             co_output_order = int i, co_amount_atomic = as_i64 a\<rparr>) (enumerate 0 (pp_change_outputs plan))\<rparr>)))"

definition record_goldcoin_payout_signed :: "i64 \<Rightarrow> string \<Rightarrow> i64 \<Rightarrow> Ledger \<Rightarrow> (LedgerError, Ledger) result" where
  "record_goldcoin_payout_signed request_id signed_tx_hex now l =
     require (case get_goldcoin_payout l request_id of None \<Rightarrow> False | Some p \<Rightarrow> gp_state p = PayoutBuilt)
       (PayoutNotFound request_id) (
     try_bind (ok_or (get_request l request_id) SqliteNoRows) (\<lambda>r.
     require (br_state r = SourceFinalized) LedgerPanic (
     try_bind (update_request (update_payout request_id (\<lambda>p. p\<lparr>gp_signed_tx_hex := Some signed_tx_hex,
         gp_state := PayoutSigned, gp_signed_at := Some now\<rparr>) l) request_id
       (\<lambda>row. row\<lparr>br_state := SettlementAuthorized\<rparr>)) (\<lambda>l.
     Inr (log_transition request_id (Some (br_state r)) SettlementAuthorized now None ''system'' l)))))"

definition record_goldcoin_payout_resigned :: "i64 \<Rightarrow> string \<Rightarrow> i64 \<Rightarrow> Ledger \<Rightarrow> (LedgerError, Ledger) result" where
  "record_goldcoin_payout_resigned request_id signed_tx_hex now l =
     require (case get_goldcoin_payout l request_id of None \<Rightarrow> False | Some p \<Rightarrow> gp_state p = PayoutSigned)
       (PayoutNotFound request_id) (
     Inr (update_payout request_id (\<lambda>p. p\<lparr>gp_signed_tx_hex := Some signed_tx_hex,
       gp_signed_at := Some now\<rparr>) l))"

text \<open>The deepest unconfirmed ancestor among the change outputs the payout spends.\<close>

definition unconfirmed_parent_depth :: "i64 \<Rightarrow> Ledger \<Rightarrow> i64" where
  "unconfirmed_parent_depth request_id l =
     (case max_column [cp_unconfirmed_ancestor_depth cp .
         i \<leftarrow> payout_inputs l, in_request_id i = request_id,
         cp \<leftarrow> payout_change_outpoints l, cp_txid cp = in_txid i \<and> cp_vout cp = uint (in_vout i),
         p \<leftarrow> goldcoin_payouts l, gp_request_id p = cp_request_id cp \<and> gp_confirmations p = 0] of
        None \<Rightarrow> 0 | Some d \<Rightarrow> d)"

definition payout_change_amounts :: "i64 \<Rightarrow> Ledger \<Rightarrow> i64 list" where
  "payout_change_amounts request_id l =
     (case map co_amount_atomic (sort_key co_output_order
         (filter (\<lambda>c. co_request_id c = request_id) (payout_change_outputs l))) of
        [] \<Rightarrow> (case get_goldcoin_payout l request_id of
            Some p \<Rightarrow> if gp_change_atomic p > 0 then [gp_change_atomic p] else []
          | None \<Rightarrow> [])
      | amounts \<Rightarrow> amounts)"

text \<open>\<open>INSERT OR IGNORE\<close>, keyed by the outpoint.\<close>

definition insert_change_outpoint :: "ChangeOutpointRow \<Rightarrow> ChangeOutpointRow list \<Rightarrow> ChangeOutpointRow list" where
  "insert_change_outpoint c cs =
     (if list_ex (\<lambda>d. cp_txid d = cp_txid c \<and> cp_vout d = cp_vout c) cs then cs else cs @ [c])"

definition record_change_outpoints :: "i64 \<Rightarrow> bytes32 \<Rightarrow> Ledger \<Rightarrow> Ledger" where
  "record_change_outpoints request_id txid l =
     (let depth = unconfirmed_parent_depth request_id l in
      l\<lparr>payout_change_outpoints := fold insert_change_outpoint
        (map (\<lambda>(i, amount). \<lparr>cp_txid = txid, cp_vout = int i + 1, cp_request_id = request_id,
           cp_amount_atomic = amount, cp_unconfirmed_ancestor_depth = depth + 1\<rparr>)
          (enumerate 0 (payout_change_amounts request_id l)))
        (payout_change_outpoints l)\<rparr>)"

definition record_goldcoin_payout_broadcast :: "i64 \<Rightarrow> bytes32 \<Rightarrow> i64 \<Rightarrow> Ledger \<Rightarrow> (LedgerError, Ledger) result" where
  "record_goldcoin_payout_broadcast request_id txid now l =
     try_bind (ok_or (get_goldcoin_payout l request_id) (PayoutNotFound request_id)) (\<lambda>p.
     if gp_state p \<in> {PayoutBroadcast, PayoutConfirmed, PayoutCompleted} then Inr l
     else
       require (gp_state p = PayoutSigned) LedgerPanic (
       let l = record_change_outpoints request_id txid (update_payout request_id (\<lambda>p. p\<lparr>gp_state := PayoutBroadcast,
             gp_txid := Some txid, gp_broadcast_at := Some now\<rparr>) l)
       in try_bind (ok_or (get_request l request_id) SqliteNoRows) (\<lambda>r.
          require (br_state r = SettlementAuthorized) LedgerPanic (
          try_bind (update_request l request_id (\<lambda>row. row\<lparr>br_state := DestinationSubmitted,
            br_destination_txid := Some (to_bytes txid)\<rparr>)) (\<lambda>l.
          Inr (log_transition request_id (Some (br_state r)) DestinationSubmitted now None ''system'' l))))))"

definition update_goldcoin_payout_confirmations ::
  "i64 \<Rightarrow> i64 \<Rightarrow> i64 \<Rightarrow> i64 \<Rightarrow> i64 \<Rightarrow> Ledger \<Rightarrow> bool ledger_result" where
  "update_goldcoin_payout_confirmations request_id confirmations tip_height required_depth now l =
     (let l = update_payout request_id (\<lambda>p. if gp_state p \<in> {PayoutBroadcast, PayoutConfirmed}
            \<and> gp_confirmations p < confirmations then p\<lparr>gp_confirmations := confirmations\<rparr> else p) l in
      try_bind (update_request l request_id (\<lambda>r. if br_state r \<in> {DestinationSubmitted, DestinationConfirmed}
        \<and> br_destination_confirmations r < confirmations
        then r\<lparr>br_destination_confirmations := confirmations\<rparr> else r)) (\<lambda>l.
      let l = (if confirmations > 0 then update_payout request_id (\<lambda>p. if gp_mined_height p = None
            then p\<lparr>gp_mined_height := Some (tip_height - confirmations + 1)\<rparr> else p) l else l) in
      if confirmations \<ge> required_depth \<and>
         (case get_goldcoin_payout l request_id of None \<Rightarrow> False | Some p \<Rightarrow> gp_state p = PayoutBroadcast) then
        let l = update_payout request_id (\<lambda>p. p\<lparr>gp_state := PayoutConfirmed\<rparr>) l in
        try_bind (ok_or (get_request l request_id) SqliteNoRows) (\<lambda>r.
        try_bind (update_request l request_id (\<lambda>row. row\<lparr>br_state := DestinationConfirmed\<rparr>)) (\<lambda>l.
        Inr (True, log_transition request_id (Some (br_state r)) DestinationConfirmed now None ''system'' l)))
      else Inr (False, l)))"

definition record_goldcoin_completion_submitted :: "i64 \<Rightarrow> bytes \<Rightarrow> i64 \<Rightarrow> Ledger \<Rightarrow> (LedgerError, Ledger) result" where
  "record_goldcoin_completion_submitted request_id signature now l =
     try_bind (ok_or (get_goldcoin_payout l request_id) (PayoutNotFound request_id)) (\<lambda>p.
     if gp_state p = PayoutCompleted then Inr l
     else
       require (gp_state p = PayoutConfirmed) LedgerPanic (
       Inr (update_payout request_id (\<lambda>p. p\<lparr>gp_onchain_completion_signature := Some signature,
         gp_onchain_completion_submitted_at := Some now,
         gp_completion_submissions := gp_completion_submissions p + 1\<rparr>) l)))"

definition goldcoin_completion_confirmed_in ::
  "i64 \<Rightarrow> i64 \<Rightarrow> string option \<Rightarrow> string \<Rightarrow> bool \<Rightarrow> Ledger \<Rightarrow> bool ledger_result" where
  "goldcoin_completion_confirmed_in request_id now reason actor require_submission l =
     try_bind (ok_or (get_request l request_id) SqliteNoRows) (\<lambda>r.
     if br_state r = Settled then Inr (False, l)
     else
       require (br_state r = DestinationConfirmed) LedgerPanic (
       require (require_submission \<longrightarrow> (case get_goldcoin_payout l request_id of
           None \<Rightarrow> False | Some p \<Rightarrow> gp_onchain_completion_signature p \<noteq> None))
         (CompletionNotSubmitted request_id) (
       let txid = Option.bind (get_goldcoin_payout l request_id) gp_txid;
           l = update_payout request_id (\<lambda>p. p\<lparr>gp_state := PayoutCompleted, gp_completed_at := Some now,
             gp_onchain_completed_at := Some now\<rparr>) l
       in try_bind (update_request l request_id (\<lambda>row. row\<lparr>br_state := Settled, br_settled_at := Some now\<rparr>)) (\<lambda>l.
          let l = update_reserve SolanaReserve (accrue_fee (br_fee_amount_atomic r))
            (update_reserve GoldcoinReserve (settle_liquidity (br_net_destination_atomic r))
              (log_transition request_id (Some (br_state r)) Settled now reason actor l))
          in Inr (True, l\<lparr>vault_utxos := map (\<lambda>v. if vu_reserved_by v = Some request_id
            then v\<lparr>vu_state := UtxoSpent, vu_spent_by_txid := txid\<rparr> else v) (vault_utxos l)\<rparr>)))))"

definition mark_goldcoin_completion_confirmed :: "i64 \<Rightarrow> i64 \<Rightarrow> Ledger \<Rightarrow> (LedgerError, Ledger) result" where
  "mark_goldcoin_completion_confirmed request_id now l =
     try_bind (goldcoin_completion_confirmed_in request_id now None ''system'' True l) (\<lambda>(_, l). Inr l)"

definition reconcile_goldcoin_completion_from_chain ::
  "i64 \<Rightarrow> string \<Rightarrow> i64 \<Rightarrow> Ledger \<Rightarrow> ReconcileOutcome ledger_result" where
  "reconcile_goldcoin_completion_from_chain request_id actor now l =
     try_bind (ok_or (get_request l request_id) SqliteNoRows) (\<lambda>r.
     if br_state r = Settled then Inr (AlreadyReconciled, l)
     else if br_state r \<noteq> DestinationConfirmed then
       Inl (RobinhoodTxInvalid request_id ''reconcile: only DestinationConfirmed is behind a chain-side Completed obligation'')
     else
       try_bind (goldcoin_completion_confirmed_in request_id now (Some CHAIN_TERMINAL_RECONCILIATION_REASON)
         actor False l) (\<lambda>(_, l). Inr (Reconciled, l)))"

end
