(* ===== verification/Ledger_Review.thy ===== *)
theory Ledger_Review
  imports Ledger_Goldcoin_Source Ledger_Settlement
begin

text \<open>
  Manual review, \<open>service/src/ledger/mod.rs\<close>: operator holds and decisions, the three paths
  that put a parked request back on its route, and the closure that ends one. Every path
  re-checks, inside its transaction, the hold, the refund lifecycles, the quote, the wallet window
  and the capacity of the reserve.
\<close>

section \<open>What blocks a resume\<close>

definition robinhood_refund :: "Ledger \<Rightarrow> i64 \<Rightarrow> RobinhoodTxRow option" where
  "robinhood_refund l request_id =
     find (\<lambda>t. rt_request_id t = Some request_id \<and> rt_kind t = KindRefund) (robinhood_transactions l)"

definition robinhood_payout_begun :: "Ledger \<Rightarrow> i64 \<Rightarrow> bool" where
  "robinhood_payout_begun l request_id =
     list_ex (\<lambda>t. rt_request_id t = Some request_id \<and> rt_kind t = KindPayout) (robinhood_transactions l)"

definition get_goldcoin_refund :: "Ledger \<Rightarrow> i64 \<Rightarrow> GoldcoinRefundRow option" where
  "get_goldcoin_refund l request_id = find_by gr_request_id request_id (goldcoin_refunds l)"

definition refund_lifecycle_exists_in :: "Ledger \<Rightarrow> i64 \<Rightarrow> bool" where
  "refund_lifecycle_exists_in l request_id \<longleftrightarrow>
     get_solana_refund l request_id \<noteq> None \<or> get_goldcoin_refund l request_id \<noteq> None
     \<or> robinhood_refund l request_id \<noteq> None"

definition refuse_if_auto_resume_held :: "Ledger \<Rightarrow> i64 \<Rightarrow> (LedgerError, unit) result" where
  "refuse_if_auto_resume_held l request_id =
     (case get_request l request_id of
        None \<Rightarrow> Inr ()
      | Some r \<Rightarrow>
          require (\<not> (br_manual_review_disposition r = RapidBurstHold \<and> br_operator_decision r = None))
            (ManualReviewNotRecoverable request_id ''held: rapid-burst hold'') (
          require (br_auto_resume_hold_note r = None)
            (ManualReviewNotRecoverable request_id ''held by operator'') (
          require (\<not> (br_manual_review_disposition r \<noteq> NormalReview \<and> br_operator_decision r = None))
            (ManualReviewNotRecoverable request_id ''held with no operator decision recorded'') (
          Inr ()))))"

definition refuse_if_foreign_contract :: "Ledger \<Rightarrow> i64 \<Rightarrow> (LedgerError, unit) result" where
  "refuse_if_foreign_contract l request_id =
     (case robinhood_bound_contract l of
        None \<Rightarrow> Inr ()
      | Some bound \<Rightarrow> (case get_request l request_id of
          None \<Rightarrow> Inr ()
        | Some r \<Rightarrow>
            if \<not> source_is_robinhood (br_direction r) then Inr ()
            else if br_source_contract r = Some bound then Inr ()
            else Inl (ManualReviewNotRecoverable request_id MANUAL_REVIEW_REASON_FOREIGN_CONTRACT)))"

definition refuse_unless_quote_locked_in :: "Ledger \<Rightarrow> i64 \<Rightarrow> string option \<Rightarrow> (LedgerError, unit) result" where
  "refuse_unless_quote_locked_in l request_id note =
     try_bind (ok_or (get_request l request_id) SqliteNoRows) (\<lambda>r.
     let quoted = (qc_source_price_e12 (br_quote r) \<noteq> None); locked = (br_quote_locked_at r \<noteq> None) in
     require (\<not> (is_bridge_rate_manual_review_reason note \<and> note \<noteq> Some REASON_BAND_EXCEEDED))
       (ManualReviewNotRecoverable request_id ''no bridge quote could be struck for this deposit'') (
     require (\<not> (quoted \<and> \<not> locked))
       (ManualReviewNotRecoverable request_id ''the bridge quote is indicative, not locked'') (
     require (\<not> (note = Some REASON_BAND_EXCEEDED \<and> \<not> quoted))
       (ManualReviewNotRecoverable request_id ''parked for a band breach but carrying no bridge quote'') (
     Inr ()))))"

definition previously_resumed :: "Ledger \<Rightarrow> i64 \<Rightarrow> bool" where
  "previously_resumed l request_id =
     list_ex (\<lambda>e. sl_request_id e = request_id \<and> sl_from e = Some ManualReview \<and> sl_to e = SourceFinalized)
       (state_log l)"

definition resume_wallet_windows ::
  "Ledger \<Rightarrow> RequestDirection \<Rightarrow> i64 \<Rightarrow> i64 \<Rightarrow> bytes \<Rightarrow> bytes \<Rightarrow> i64 \<Rightarrow> (LedgerError, unit) result" where
  "resume_wallet_windows l direction request_id candidate_created_at source_wallet recipient now =
     (let scope = StrictPredecessorOf candidate_created_at request_id;
          chain = direction_source_chain direction; chain' = direction_destination_chain direction
      in case wallet_window_retry_after_in l chain Source source_wallet now scope of
           Some retry_after \<Rightarrow> Inl (WalletWindowActive request_id Source chain source_wallet retry_after)
         | None \<Rightarrow> (case wallet_window_retry_after_in l chain' Destination recipient now scope of
             Some retry_after \<Rightarrow> Inl (WalletWindowActive request_id Destination chain' recipient retry_after)
           | None \<Rightarrow> Inr ()))"

datatype ResumeManualReviewOutcome = Resumed | AlreadyResumed RequestState

text \<open>
  The checks on the row the inbound and the cross-route resume share: a known source wallet, no
  refund, the state, a recoverable reason, a locked quote, a final deposit. The two paths differ
  in the order of the first two and in what they check next.
\<close>

definition resume_state_check :: "Ledger \<Rightarrow> BridgeRequest \<Rightarrow> (LedgerError, unit) result" where
  "resume_state_check l r =
     require (is_recoverable_manual_review_reason (br_manual_review_note r))
       (ManualReviewNotRecoverable (br_id r) ''manual_review_note is not a known recoverable reason'') (
     try_bind (refuse_unless_quote_locked_in l (br_id r) (br_manual_review_note r)) (\<lambda>_.
     require (br_source_finalized_at r \<noteq> None)
       (ManualReviewNotRecoverable (br_id r) ''source deposit is not finalized'') (
     Inr ())))"

definition source_refund_state :: "Ledger \<Rightarrow> bool \<Rightarrow> i64 \<Rightarrow> string option" where
  "source_refund_state l robinhood request_id =
     (if robinhood then map_option rt_state (robinhood_refund l request_id)
      else map_option (\<lambda>s. solana_refund_as_str (sr_state s)) (get_solana_refund l request_id))"

section \<open>Resuming\<close>

definition resume_inbound_capacity ::
  "BridgeRequest \<Rightarrow> bytes \<Rightarrow> i64 \<Rightarrow> Ledger \<Rightarrow> (LedgerError, unit) result" where
  "resume_inbound_capacity r source_wallet now l =
     require (br_destination_txid r = None)
       (ManualReviewNotRecoverable (br_id r) ''a destination transaction already exists'') (
     require (get_goldcoin_payout l (br_id r) = None)
       (ManualReviewNotRecoverable (br_id r) ''a Goldcoin payout already exists for this request'') (
     try_bind (resume_wallet_windows l (br_direction r) (br_id r) (br_created_at r) source_wallet
       (br_recipient r) now) (\<lambda>_.
     try_bind (ok_or (reserves l GoldcoinReserve) SqliteNoRows) (\<lambda>row.
     let available_utxo_count = count_available_vault_utxos l;
         min_available = rv_utxo_pool_min_available_count row;
         available = row_headroom row; amount = br_net_destination_atomic r
     in require (min_available = 0 \<or> available_utxo_count > min_available)
          (UtxoLiquidityLow (br_id r) available_utxo_count min_available) (
        require (\<not> amount > available)
          (InvariantViolated GoldcoinReserve (rv_total_reserve_balance row) (rv_protected_minimum row)
            (rv_reserved_liquidity row + amount)) (
        try_bind (read_liquidity_admission_row GoldcoinReserve l) (\<lambda>(buffer, _, _).
        require (\<not> (buffer > 0 \<and> available - amount < buffer))
          (AdmissionLiquidityBufferLow (br_id r) available amount buffer) (
        Inr ()))))))))"

definition resume_manual_review_inbound ::
  "RequestDirection \<Rightarrow> i64 \<Rightarrow> string \<Rightarrow> string \<Rightarrow> i64 \<Rightarrow> Ledger \<Rightarrow> ResumeManualReviewOutcome ledger_result" where
  "resume_manual_review_inbound expected_direction request_id note actor now l =
     try_bind (refuse_if_auto_resume_held l request_id) (\<lambda>_.
     try_bind (refuse_if_foreign_contract l request_id) (\<lambda>_.
     try_bind (ok_or (get_request l request_id) (RequestNotFound request_id)) (\<lambda>r.
     require (br_direction r = expected_direction)
       (if expected_direction = DirRhnToGlc then NotARhnToGlcRequest request_id (br_direction r)
        else NotASolToGlcRequest request_id (br_direction r)) (
     case source_refund_state l (expected_direction = DirRhnToGlc) request_id of
       Some refund_state \<Rightarrow> Inl (RefundLifecycleExists request_id refund_state)
     | None \<Rightarrow>
         try_bind (ok_or (non_empty (br_source_wallet r))
           (ManualReviewNotRecoverable request_id ''no source wallet recorded'')) (\<lambda>source_wallet.
         if br_state r \<noteq> ManualReview then
           (if previously_resumed l request_id then Inr (AlreadyResumed (br_state r), l)
            else Inl (ManualReviewNotRecoverable request_id ''state is not ManualReview''))
         else
           try_bind (resume_state_check l r) (\<lambda>_.
           try_bind (resume_inbound_capacity r source_wallet now l) (\<lambda>_.
           try_bind (update_request l request_id (\<lambda>row. row\<lparr>br_state := SourceFinalized,
             br_manual_review_note := None\<rparr>)) (\<lambda>l.
           Inr (Resumed, update_reserve GoldcoinReserve (\<lambda>rv. add_pending (br_net_destination_atomic r)
               (reserve_liquidity (br_net_destination_atomic r) rv))
             (log_transition request_id (Some ManualReview) SourceFinalized now (Some note) actor l))))))))))"

definition resume_manual_review_sol_to_glc ::
  "i64 \<Rightarrow> string \<Rightarrow> string \<Rightarrow> i64 \<Rightarrow> Ledger \<Rightarrow> ResumeManualReviewOutcome ledger_result" where
  "resume_manual_review_sol_to_glc request_id note actor now l =
     resume_manual_review_inbound DirSolToGlc request_id note actor now l"

definition resume_manual_review_rhn_to_glc ::
  "i64 \<Rightarrow> string \<Rightarrow> string \<Rightarrow> i64 \<Rightarrow> Ledger \<Rightarrow> ResumeManualReviewOutcome ledger_result" where
  "resume_manual_review_rhn_to_glc request_id note actor now l =
     resume_manual_review_inbound DirRhnToGlc request_id note actor now l"

text \<open>The gate state the capacity check re-evaluates is committed with a resume only.\<close>

definition resume_cross_capacity ::
  "BridgeRequest \<Rightarrow> bytes \<Rightarrow> i64 \<Rightarrow> Ledger \<Rightarrow> (LedgerError, Ledger) result" where
  "resume_cross_capacity r source_wallet now l =
     require (\<not> (br_destination_txid r \<noteq> None \<or> robinhood_payout_begun l (br_id r)))
       (ManualReviewNotRecoverable (br_id r) ''a destination payout already exists'') (
     require (\<not> br_net_destination_atomic r \<le> 0)
       (ManualReviewNotRecoverable (br_id r) ''the request carries no destination amount'') (
     try_bind (resume_wallet_windows l (br_direction r) (br_id r) (br_created_at r) source_wallet
       (br_recipient r) now) (\<lambda>_.
     let reserve = destination_reserve (br_direction r); amount = br_net_destination_atomic r in
     try_bind (reserve_headroom reserve l) (\<lambda>available.
     try_bind (read_liquidity_admission_row reserve l) (\<lambda>(buffer, reopen, was_closed).
     let l = write_liquidity_admission_state reserve was_closed
           (next_liquidity_admission_closed was_closed available buffer reopen) now l
     in try_bind (ok_or (reserves l reserve) SqliteNoRows) (\<lambda>row.
        require (\<not> amount > available)
          (InvariantViolated reserve (rv_total_reserve_balance row) (rv_protected_minimum row)
            (rv_reserved_liquidity row + amount)) (
        require (\<not> (buffer > 0 \<and> available - amount < buffer))
          (AdmissionLiquidityBufferLow (br_id r) available amount buffer) (
        Inr l))))))))"

definition resume_manual_review_cross_route ::
  "RequestDirection \<Rightarrow> i64 \<Rightarrow> string \<Rightarrow> string \<Rightarrow> i64 \<Rightarrow> Ledger \<Rightarrow> ResumeManualReviewOutcome ledger_result" where
  "resume_manual_review_cross_route expected_direction request_id note actor now l =
     try_bind (refuse_if_auto_resume_held l request_id) (\<lambda>_.
     try_bind (refuse_if_foreign_contract l request_id) (\<lambda>_.
     try_bind (ok_or (get_request l request_id) (RequestNotFound request_id)) (\<lambda>r.
     require (br_direction r = expected_direction)
       (ManualReviewNotRecoverable request_id ''request is on another route'') (
     try_bind (ok_or (non_empty (br_source_wallet r))
       (ManualReviewNotRecoverable request_id ''no source wallet recorded'')) (\<lambda>source_wallet.
     case source_refund_state l (source_is_robinhood (br_direction r)) request_id of
       Some refund_state \<Rightarrow> Inl (RefundLifecycleExists request_id refund_state)
     | None \<Rightarrow>
         if br_state r \<noteq> ManualReview then
           (if previously_resumed l request_id then Inr (AlreadyResumed (br_state r), l)
            else Inl (ManualReviewNotRecoverable request_id ''state is not ManualReview''))
         else
           try_bind (resume_state_check l r) (\<lambda>_.
           try_bind (resume_cross_capacity r source_wallet now l) (\<lambda>l.
           try_bind (update_request l request_id (\<lambda>row. row\<lparr>br_state := SourceFinalized,
             br_reserved_at := Some now\<rparr>)) (\<lambda>l.
           Inr (Resumed, update_reserve (destination_reserve (br_direction r))
               (\<lambda>rv. add_pending (br_net_destination_atomic r)
                 (reserve_liquidity (br_net_destination_atomic r) rv))
             (log_transition request_id (Some ManualReview) SourceFinalized now (Some note) actor l))))))))))"

record LiveSolanaBounds =
  sb_min_transfer_amount :: u64
  sb_per_transfer_limit :: u64
  sb_solana_decimals :: u8

text \<open>The row is read before the transaction and re-read inside it; nothing else writes between.\<close>

definition resume_bound_checks :: "Ledger \<Rightarrow> BridgeRequest \<Rightarrow> LiveSolanaBounds \<Rightarrow> (LedgerError, u64) result" where
  "resume_bound_checks l r live =
     (let refuse = ManualReviewNotRecoverable (br_id r) in
      require (br_manual_review_note r = Some MANUAL_REVIEW_REASON_DESTINATION_PAYOUT_OUT_OF_BOUNDS)
        (refuse ''manual_review_note is not destination_payout_out_of_bounds'') (
      require (br_destination_txid r = None) (refuse ''a destination transaction already exists'') (
      require (br_id r \<notin> set (attested_releases l)) (refuse ''a release attestation was already recorded'') (
      require (\<not> refund_lifecycle_exists_in l (br_id r)) (refuse ''a refund lifecycle exists'') (
      require (find_by rc_request_id (br_id r) (request_closures l) = None)
        (refuse ''a closure is recorded for this request'') (
      require (\<not> (br_source_finalized_at r = None \<or> br_source_txid r = None \<or> br_source_vout r = None))
        (refuse ''source deposit is not finalized'') (
      try_bind (refuse_unless_quote_locked_in l (br_id r) (br_manual_review_note r)) (\<lambda>_.
      require (Option.bind (row_quote r) pq_locked_at \<noteq> None)
        (refuse ''the request carries no locked bridge quote'') (
      try_bind (map_err (\<lambda>_. refuse ''stored amounts do not verify against the locked quote'')
        (verify_breakdown r)) (\<lambda>breakdown.
      try_bind (map_err (\<lambda>_. refuse ''locked net is not representable at the mint's precision'')
        (to_solana (fb_net breakdown) (sb_solana_decimals live))) (\<lambda>payout.
      require (\<not> payout < sb_min_transfer_amount live)
        (refuse ''locked payout is below the live min_transfer_amount'') (
      require (\<not> payout > sb_per_transfer_limit live)
        (refuse ''locked payout exceeds the live per_transfer_limit'') (
      require (\<not> (br_net_destination_atomic r < 0 \<or> as_u64 (br_net_destination_atomic r) \<noteq> payout))
        (refuse ''net_destination_atomic does not equal the recomputed payout'') (
      Inr payout))))))))))))))"

definition resume_glc_to_sol_destination_bound ::
  "i64 \<Rightarrow> LiveSolanaBounds \<Rightarrow> string \<Rightarrow> string \<Rightarrow> i64 \<Rightarrow> Ledger \<Rightarrow> ResumeManualReviewOutcome ledger_result" where
  "resume_glc_to_sol_destination_bound request_id live note actor now l =
     try_bind (ok_or (get_request l request_id) (RequestNotFound request_id)) (\<lambda>r.
     try_bind (refuse_if_auto_resume_held l request_id) (\<lambda>_.
     require (br_direction r = DirGlcToSol) (ManualReviewNotRecoverable request_id ''request is not GlcToSol'') (
     if br_state r \<noteq> ManualReview then
       (if list_ex (\<lambda>e. sl_request_id e = request_id \<and> sl_from e = Some ManualReview \<and> sl_to e = SourceFinalized
             \<and> (case sl_reason e of None \<Rightarrow> False
                | Some reason \<Rightarrow> starts_with reason RESUME_DESTINATION_BOUND_REASON)) (state_log l)
        then Inr (AlreadyResumed (br_state r), l)
        else Inl (ManualReviewNotRecoverable request_id ''state is not ManualReview''))
     else
       try_bind (resume_bound_checks l r live) (\<lambda>payout.
       try_bind (ok_or (reserves l SolanaReserve) (ReserveNotInitialized SolanaReserve)) (\<lambda>row.
       require (\<not> (rv_reserved_liquidity row < br_net_destination_atomic r
           \<or> rv_pending_obligations row < br_net_destination_atomic r))
         (ManualReviewNotRecoverable request_id ''the Solana reserve no longer holds this request's reservation'') (
       require (\<not> rv_total_reserve_balance row < rv_protected_minimum row + rv_reserved_liquidity row)
         (InvariantViolated SolanaReserve (rv_total_reserve_balance row) (rv_protected_minimum row)
           (rv_reserved_liquidity row)) (
       try_bind (update_request l request_id (\<lambda>row. row\<lparr>br_state := SourceFinalized,
         br_manual_review_note := None\<rparr>)) (\<lambda>l.
       Inr (Resumed, log_transition request_id (Some ManualReview) SourceFinalized now
         (Some (RESUME_DESTINATION_BOUND_REASON @ '': locked payout '' @ show_nat (unat payout)
           @ '' mint units within live bounds ['' @ show_nat (unat (sb_min_transfer_amount live)) @ '', ''
           @ show_nat (unat (sb_per_transfer_limit live)) @ '']; '' @ note)) actor l)))))))))"

section \<open>Holds and decisions\<close>

definition refuse_unless_holdable :: "Ledger \<Rightarrow> i64 \<Rightarrow> (LedgerError, ManualReviewDisposition) result" where
  "refuse_unless_holdable l request_id =
     try_bind (ok_or (get_request l request_id) (RequestNotFound request_id)) (\<lambda>r.
     require (br_state r = ManualReview) (ManualReviewNotRecoverable request_id ''state is not ManualReview'') (
     require (br_destination_txid r = None)
       (ManualReviewNotRecoverable request_id ''a destination txid is recorded'') (
     require (\<not> (get_goldcoin_payout l request_id \<noteq> None \<or> list_ex (\<lambda>t. rt_request_id t = Some request_id
         \<and> rt_kind t \<noteq> KindRefund) (robinhood_transactions l)))
       (ManualReviewNotRecoverable request_id ''a destination payout row already exists'') (
     Inr (br_manual_review_disposition r)))))"

definition set_manual_review_hold ::
  "i64 \<Rightarrow> i64 option \<Rightarrow> string \<Rightarrow> string \<Rightarrow> i64 \<Rightarrow> Ledger \<Rightarrow> (LedgerError, Ledger) result" where
  "set_manual_review_hold request_id review_after note actor now l =
     (let note = trim note in
      require (note \<noteq> []) (ManualReviewNotRecoverable request_id ''a hold needs a non-empty note'') (
      try_bind (refuse_unless_holdable l request_id) (\<lambda>disposition.
      require (disposition \<noteq> RapidBurstHold) (ManualReviewNotRecoverable request_id ''this is a rapid-burst hold'') (
      try_bind (update_request l request_id (\<lambda>r. r\<lparr>br_auto_resume_hold_note := Some note,
        br_auto_resume_hold_until := review_after, br_manual_review_disposition := OperatorHold,
        br_hold_reason := Some ''operator_hold'', br_held_by := Some actor,
        br_hold_started_at := (case br_hold_started_at r of Some t \<Rightarrow> Some t | None \<Rightarrow> Some now),
        br_review_after := review_after, br_operator_decision := None, br_operator_decision_at := None,
        br_operator_note := None\<rparr>)) (\<lambda>l.
      Inr (log_transition request_id (Some ManualReview) ManualReview now (Some ''auto_resume_hold'') actor l))))))"

definition clear_manual_review_hold :: "i64 \<Rightarrow> string \<Rightarrow> string \<Rightarrow> i64 \<Rightarrow> Ledger \<Rightarrow> bool ledger_result" where
  "clear_manual_review_hold request_id note actor now l =
     (let note = trim note in
      try_bind (ok_or (get_request l request_id) (RequestNotFound request_id)) (\<lambda>r.
      require (br_manual_review_disposition r \<noteq> RapidBurstHold)
        (ManualReviewNotRecoverable request_id ''a rapid-burst hold cannot be released'') (
      if br_auto_resume_hold_note r = None \<and> br_manual_review_disposition r = NormalReview then Inr (False, l)
      else
        try_bind (update_request l request_id (\<lambda>row. row\<lparr>br_auto_resume_hold_note := None,
          br_auto_resume_hold_until := None, br_manual_review_disposition := NormalReview,
          br_operator_decision := Some Release, br_operator_decision_at := Some now,
          br_operator_note := (if note = [] then None else Some note)\<rparr>)) (\<lambda>l.
        Inr (True, log_transition request_id (Some ManualReview) ManualReview now
          (Some ''auto_resume_hold_released'') actor l)))))"

definition record_operator_decision ::
  "i64 \<Rightarrow> OperatorDecision \<Rightarrow> string \<Rightarrow> string \<Rightarrow> bool \<Rightarrow> i64 \<Rightarrow> Ledger \<Rightarrow> BridgeRequest ledger_result" where
  "record_operator_decision request_id decision note actor emergency now l =
     (let refuse = ManualReviewNotRecoverable request_id; note = trim note in
      require (note \<noteq> []) (refuse ''an operator decision needs a non-empty note'') (
      require (decision \<noteq> Release) (refuse ''release is recorded by clear_manual_review_hold'') (
      require (\<not> (emergency \<and> decision \<noteq> RefundDecision)) (refuse ''the emergency override applies to refund only'') (
      try_bind (refuse_unless_holdable l request_id) (\<lambda>_.
      try_bind (ok_or (get_request l request_id) (RequestNotFound request_id)) (\<lambda>before.
      require (is_held before) (refuse ''not held'') (
      require (\<not> refund_lifecycle_exists_in l request_id) (refuse ''a refund lifecycle already exists for this request'') (
      require (\<not> (br_manual_review_disposition before = RapidBurstHold \<and> \<not> review_available before now \<and> \<not> emergency))
        (refuse ''rapid-burst hold: the minimum review hold has not elapsed'') (
      let stored_note = (if emergency then ''EMERGENCY (before review_after): '' @ note else note) in
      try_bind (update_request l request_id (\<lambda>r.
        if decision = Process then r\<lparr>br_operator_decision := Some decision, br_operator_decision_at := Some now,
          br_operator_note := Some stored_note, br_auto_resume_hold_note := None, br_auto_resume_hold_until := None\<rparr>
        else r\<lparr>br_operator_decision := Some decision, br_operator_decision_at := Some now,
          br_operator_note := Some stored_note\<rparr>)) (\<lambda>l.
      Inr (before, log_transition request_id (Some ManualReview) ManualReview now
        (Some (if decision = Process then ''operator_decision_process'' else ''operator_decision_refund''))
        actor l)))))))))))"

definition process_held_manual_review ::
  "i64 \<Rightarrow> string \<Rightarrow> string \<Rightarrow> i64 \<Rightarrow> Ledger \<Rightarrow> ResumeManualReviewOutcome ledger_result" where
  "process_held_manual_review request_id note actor now l =
     try_bind (record_operator_decision request_id Process note actor False now l) (\<lambda>(before, l).
     case br_direction before of
       DirSolToGlc \<Rightarrow> resume_manual_review_sol_to_glc request_id note actor now l
     | DirRhnToGlc \<Rightarrow> resume_manual_review_rhn_to_glc request_id note actor now l
     | DirSolToRhn \<Rightarrow> resume_manual_review_cross_route DirSolToRhn request_id note actor now l
     | DirRhnToSol \<Rightarrow> resume_manual_review_cross_route DirRhnToSol request_id note actor now l
     | DirGlcToSol \<Rightarrow> Inl (ManualReviewNotRecoverable request_id ''direction has no ManualReview resume path'')
     | DirGlcToRhn \<Rightarrow> Inl (ManualReviewNotRecoverable request_id ''direction has no ManualReview resume path''))"

section \<open>Closure\<close>

datatype CloseOutcome = ClosedNow RequestClosure | AlreadyClosed RequestClosure

definition request_closure_in :: "Ledger \<Rightarrow> i64 \<Rightarrow> RequestClosure option" where
  "request_closure_in l request_id = find_by rc_request_id request_id (request_closures l)"

definition closable :: "Ledger \<Rightarrow> BridgeRequest \<Rightarrow> ClosureDisposition \<Rightarrow> i64 \<Rightarrow> (LedgerError, unit) result" where
  "closable l before disposition now =
     (let refuse = ManualReviewNotRecoverable (br_id before) in
      require (br_state before = ManualReview) (refuse ''state is not ManualReview'') (
      require (br_destination_txid before = None) (refuse ''a destination transaction was submitted for this request'') (
      require (Option.bind (get_goldcoin_payout l (br_id before)) gp_txid = None)
        (refuse ''a Goldcoin payout reached the chain for this request'') (
      require (\<not> refund_lifecycle_exists_in l (br_id before)) (refuse ''a refund lifecycle exists for this request'') (
      require (\<not> (br_manual_review_disposition before = RapidBurstHold \<and> \<not> review_available before now))
        (refuse ''rapid-burst hold: the minimum review hold has not elapsed'') (
      if disposition = RetainedPerTerms then
        require (retained_cancel_enabled l) (refuse ''retained_per_terms is not enabled on this deployment'') (
        require (\<not> (br_manual_review_disposition before \<noteq> RapidBurstHold \<or> \<not> is_held before))
          (refuse ''retained_per_terms applies to an abuse-classified request only'') (
        Inr ()))
      else Inr ()))))))"

definition close_manual_review ::
  "i64 \<Rightarrow> ClosureDisposition \<Rightarrow> string \<Rightarrow> string \<Rightarrow> string \<Rightarrow> i64 \<Rightarrow> Ledger \<Rightarrow> CloseOutcome ledger_result" where
  "close_manual_review request_id disposition reference note actor now l =
     (let refuse = ManualReviewNotRecoverable request_id; reference = trim reference; note = trim note in
      require (reference \<noteq> []) (refuse ''a closure needs a non-empty --reference'') (
      require (note \<noteq> []) (refuse ''a closure needs a non-empty note'') (
      case request_closure_in l request_id of
        Some existing \<Rightarrow>
          if rc_disposition existing = disposition then Inr (AlreadyClosed existing, l)
          else Inl (refuse ''already closed: a closure is recorded once and never rewritten'')
      | None \<Rightarrow>
          try_bind (ok_or (get_request l request_id) (RequestNotFound request_id)) (\<lambda>before.
          try_bind (closable l before disposition now) (\<lambda>_.
          require (actor \<noteq> []) SqliteConstraint (
          let closure = \<lparr>rc_request_id = request_id, rc_disposition = disposition, rc_reference = reference,
                rc_note = note, rc_actor = actor, rc_closed_at = now, rc_from_state = br_state before,
                rc_manual_review_disposition = br_manual_review_disposition before\<rparr>
          in try_bind (update_request (l\<lparr>request_closures := request_closures l @ [closure]\<rparr>) request_id
               (\<lambda>r. r\<lparr>br_state := Closed\<rparr>)) (\<lambda>l.
             Inr (ClosedNow closure, log_transition request_id (Some (br_state before)) Closed now
               (Some (''closed:'' @ closure_as_str disposition @ '' reference='' @ reference)) actor l))))))))"

end
