(* ===== verification/Ledger_Refunds.thy ===== *)
theory Ledger_Refunds
  imports Ledger_Review
begin

text \<open>
  Refunds recorded in the ledger, \<open>service/src/ledger/mod.rs\<close>: the Goldcoin transaction that
  returns a Goldcoin deposit, from its build to its confirmation, and the withdrawal that returns a
  Solana deposit. Each lifecycle has one row per request, and each begins only from manual
  review.
\<close>

section \<open>Eligibility\<close>

definition refund_hold_blocker_in :: "Ledger \<Rightarrow> i64 \<Rightarrow> string option" where
  "refund_hold_blocker_in l request_id =
     (case get_request l request_id of
        None \<Rightarrow> None
      | Some r \<Rightarrow>
          if \<not> (br_auto_resume_hold_note r \<noteq> None \<or> br_manual_review_disposition r \<noteq> NormalReview) then None
          else (case br_operator_decision r of
              Some RefundDecision \<Rightarrow> None
            | Some other \<Rightarrow> Some ''held with another operator decision recorded''
            | None \<Rightarrow> Some ''held: record the operator decision first''))"

definition REFUNDABLE_GLC_MANUAL_REVIEW_REASONS :: "string list" where
  "REFUNDABLE_GLC_MANUAL_REVIEW_REASONS =
     [''deposit_amount_mismatch'', REASON_FEED_UNAVAILABLE, REASON_FEED_STALE, REASON_WARMING_UP,
      REASON_BAND_EXCEEDED, MANUAL_REVIEW_REASON_INSUFFICIENT_CAPACITY_AT_LOCK,
      MANUAL_REVIEW_REASON_DESTINATION_PAYOUT_OUT_OF_BOUNDS, MANUAL_REVIEW_REASON_WALLET_SOURCE_24H_LIMIT,
      MANUAL_REVIEW_REASON_WALLET_DESTINATION_24H_LIMIT]"

definition REFUNDABLE_MANUAL_REVIEW_REASONS :: "string list" where
  "REFUNDABLE_MANUAL_REVIEW_REASONS =
     [REASON_FEED_UNAVAILABLE, REASON_FEED_STALE, REASON_WARMING_UP, REASON_BAND_EXCEEDED,
      MANUAL_REVIEW_REASON_DESTINATION_PAYOUT_OUT_OF_BOUNDS, MANUAL_REVIEW_REASON_ADMISSION_CLOSED,
      MANUAL_REVIEW_REASON_ROUTE_ADMISSION_CLOSED, MANUAL_REVIEW_REASON_PAUSED,
      MANUAL_REVIEW_REASON_INSUFFICIENT_CAPACITY, MANUAL_REVIEW_REASON_UTXO_LIQUIDITY_LOW,
      MANUAL_REVIEW_REASON_LIQUIDITY_BUFFER_LOW, MANUAL_REVIEW_REASON_WALLET_SOURCE_24H_LIMIT,
      MANUAL_REVIEW_REASON_WALLET_DESTINATION_24H_LIMIT,
      LEGACY_MANUAL_REVIEW_REASON_RECIPIENT_RATE_LIMITED,
      LEGACY_MANUAL_REVIEW_REASON_SOURCE_WALLET_RATE_LIMITED, MANUAL_REVIEW_REASON_RAPID_BURST_HOLD]"

definition is_refundable_manual_review_reason :: "RequestDirection \<Rightarrow> string option \<Rightarrow> bool" where
  "is_refundable_manual_review_reason direction note =
     (case note of
        None \<Rightarrow> False
      | Some n \<Rightarrow>
          n \<in> set REFUNDABLE_MANUAL_REVIEW_REASONS
          \<or> direction = DirSolToRhn \<and> (n = MANUAL_REVIEW_REASON_ROUTE_DISABLED
              \<or> starts_with n ''undeliverable destination''))"

text \<open>Any Robinhood operation or folded deposit recorded for the request.\<close>

definition robinhood_payout_evidence :: "Ledger \<Rightarrow> i64 \<Rightarrow> bool" where
  "robinhood_payout_evidence l request_id \<longleftrightarrow>
     list_ex (\<lambda>t. rt_request_id t = Some request_id) (robinhood_transactions l)
     \<or> request_id \<in> set (folded_robinhood_requests l)"

section \<open>Refund of a Goldcoin deposit\<close>

definition goldcoin_refund_row_ok :: "GoldcoinRefundRow \<Rightarrow> bool" where
  "goldcoin_refund_row_ok g \<longleftrightarrow>
     gr_observed_amount_atomic g > 0 \<and> gr_refund_dest_address g \<noteq> [] \<and> gr_refund_amount_atomic g > 0
     \<and> gr_fee_atomic g \<ge> 0 \<and> gr_note g \<noteq> [] \<and> gr_created_by g \<noteq> []
     \<and> gr_refund_amount_atomic g = gr_observed_amount_atomic g
     \<and> (\<not> gr_reservation_released g \<or> gr_state g = GrRefunded)
     \<and> (gr_state g = GrBuilt \<or> gr_signed_tx_hex g \<noteq> None)
     \<and> (gr_state g = GrBuilt \<or> gr_signed_at g \<noteq> None)
     \<and> (gr_state g \<in> {GrBuilt, GrSigned} \<or> gr_txid g \<noteq> None)
     \<and> (gr_state g \<in> {GrBuilt, GrSigned} \<or> gr_broadcast_at g \<noteq> None)
     \<and> (gr_state g \<noteq> GrRefunded \<or> gr_refunded_at g \<noteq> None)"

definition write_goldcoin_refunds :: "GoldcoinRefundRow list \<Rightarrow> Ledger \<Rightarrow> (LedgerError, Ledger) result" where
  "write_goldcoin_refunds rows l =
     require (list_all goldcoin_refund_row_ok rows \<and> distinct (map gr_request_id rows)
         \<and> distinct (map (\<lambda>g. (gr_source_txid g, gr_source_vout g)) rows)) SqliteConstraint
       (Inr (l\<lparr>goldcoin_refunds := rows\<rparr>))"

definition update_goldcoin_refund ::
  "i64 \<Rightarrow> (GoldcoinRefundRow \<Rightarrow> GoldcoinRefundRow) \<Rightarrow> Ledger \<Rightarrow> (LedgerError, Ledger) result" where
  "update_goldcoin_refund request_id f l =
     write_goldcoin_refunds (update_by gr_request_id request_id f (goldcoin_refunds l)) l"

definition glc_refund_checks :: "Ledger \<Rightarrow> BridgeRequest \<Rightarrow> u64 \<Rightarrow> (LedgerError, bytes32 \<times> u32 \<times> string) result" where
  "glc_refund_checks l r observed_amount_atomic =
     (let reason = (case br_manual_review_note r of None \<Rightarrow> [] | Some n \<Rightarrow> reason_prefix n) in
      require (source_is_goldcoin (br_direction r)) (NotAGoldcoinSourcedRequest (br_id r) (br_direction r)) (
      require (br_state r = ManualReview) (GlcRefundNotEligible (br_id r) ''state is not ManualReview'') (
      require (reason \<in> set REFUNDABLE_GLC_MANUAL_REVIEW_REASONS)
        (GlcRefundNotEligible (br_id r) ''manual_review_note reason is not refundable'') (
      require (\<not> (br_destination_txid r \<noteq> None \<or> br_settlement_claim_hash r \<noteq> None))
        (GlcRefundNotEligible (br_id r) ''a Solana settlement has already begun for this request'') (
      require (\<not> robinhood_payout_evidence l (br_id r))
        (GlcRefundNotEligible (br_id r) ''a Robinhood operation is recorded for this request'') (
      require (get_goldcoin_payout l (br_id r) = None)
        (GlcRefundNotEligible (br_id r) ''a goldcoin_payouts row already exists'') (
      case get_goldcoin_refund l (br_id r) of
        Some existing \<Rightarrow> Inl (GoldcoinRefundExists (br_id r) (goldcoin_refund_as_str (gr_state existing)))
      | None \<Rightarrow> (case (br_source_txid r, br_source_vout r) of
          (Some txid, Some vout) \<Rightarrow>
            require (case br_observed_amount_atomic r of None \<Rightarrow> True
                | Some durable \<Rightarrow> as_u64 durable = observed_amount_atomic)
              (GlcRefundNotEligible (br_id r) ''observed amount does not equal the durable ledger witness'') (
            Inr (txid, vout, reason))
        | _ \<Rightarrow> Inl (GlcRefundNotEligible (br_id r) ''no recorded source txid/vout'')))))))))"

definition vault_utxo_at :: "bytes32 \<Rightarrow> u32 \<Rightarrow> VaultUtxoRow \<Rightarrow> bool" where
  "vault_utxo_at txid vout v \<longleftrightarrow> vu_txid v = txid \<and> vu_vout v = vout"

text \<open>
  Each input is recorded and reserved in turn. The primary key of \<open>vault_utxos\<close> is the
  outpoint, so at most one row matches.
\<close>

primrec reserve_refund_inputs ::
  "i64 \<Rightarrow> i64 \<Rightarrow> (nat \<times> VaultUtxo) list \<Rightarrow> Ledger \<Rightarrow> (LedgerError, Ledger) result" where
  "reserve_refund_inputs request_id now [] l = Inr l"
| "reserve_refund_inputs request_id now (iu # rest) l =
     (let u = snd iu;
          rows = refund_inputs l @ [\<lparr>in_request_id = request_id, in_input_order = int (fst iu),
            in_txid = utxo_txid u, in_vout = utxo_vout u, in_amount_atomic = as_i64 (utxo_amount_atomic u)\<rparr>]
      in require (distinct (map outpoint rows)) SqliteConstraint (
         require (list_ex (\<lambda>v. vault_utxo_at (utxo_txid u) (utxo_vout u) v \<and> vu_state v = UtxoAvailable) (vault_utxos l))
           (GlcRefundNotEligible request_id ''vault UTXO was not Available at reservation time'') (
         reserve_refund_inputs request_id now rest
           (l\<lparr>refund_inputs := rows,
              vault_utxos := map (\<lambda>v. if vault_utxo_at (utxo_txid u) (utxo_vout u) v \<and> vu_state v = UtxoAvailable
                then v\<lparr>vu_state := UtxoReserved, vu_reserved_by := Some request_id, vu_reserved_at := Some now\<rparr>
                else v) (vault_utxos l)\<rparr>))))"

record GoldcoinRefundTx =
  gx_observed_amount_atomic :: u64
  gx_source_input_txid :: bytes32
  gx_source_input_vout :: u32
  gx_refund_dest_p2pkh_hash :: "160 word"
  gx_refund_dest_address :: string
  gx_fee_atomic :: u64
  gx_inputs :: "VaultUtxo list"
  gx_unsigned_tx_hex :: string

definition begin_goldcoin_refund ::
  "i64 \<Rightarrow> GoldcoinRefundTx \<Rightarrow> string \<Rightarrow> string \<Rightarrow> i64 \<Rightarrow> Ledger \<Rightarrow> (LedgerError, Ledger) result" where
  "begin_goldcoin_refund request_id t note created_by now l =
     require (trim note \<noteq> []) (GlcRefundNotEligible request_id ''an operator note is required'') (
     require (gx_inputs t \<noteq> []) (GlcRefundNotEligible request_id ''refund transaction has no inputs'') (
     case refund_hold_blocker_in l request_id of
       Some detail \<Rightarrow> Inl (GlcRefundNotEligible request_id detail)
     | None \<Rightarrow>
         try_bind (ok_or (get_request l request_id) (RequestNotFound request_id)) (\<lambda>r.
         try_bind (glc_refund_checks l r (gx_observed_amount_atomic t)) (\<lambda>(source_txid, source_vout, reason).
         try_bind (write_goldcoin_refunds (goldcoin_refunds l @ [\<lparr>gr_request_id = request_id,
             gr_source_txid = source_txid, gr_source_vout = source_vout,
             gr_observed_amount_atomic = as_i64 (gx_observed_amount_atomic t),
             gr_source_input_txid = gx_source_input_txid t, gr_source_input_vout = gx_source_input_vout t,
             gr_refund_dest_p2pkh_hash = gx_refund_dest_p2pkh_hash t,
             gr_refund_dest_address = gx_refund_dest_address t,
             gr_refund_amount_atomic = as_i64 (gx_observed_amount_atomic t),
             gr_fee_atomic = as_i64 (gx_fee_atomic t), gr_unsigned_tx_hex = Some (gx_unsigned_tx_hex t),
             gr_signed_tx_hex = None, gr_txid = None, gr_confirmations = 0, gr_state = GrBuilt,
             gr_manual_review_reason = reason, gr_note = note, gr_created_by = created_by, gr_built_at = now,
             gr_signed_at = None, gr_broadcast_at = None, gr_refunded_at = None,
             gr_reservation_released = False\<rparr>]) l) (\<lambda>l.
         try_bind (reserve_refund_inputs request_id now (enumerate 0 (gx_inputs t)) l) (\<lambda>l.
         try_bind (update_request l request_id (\<lambda>row. row\<lparr>br_state := RefundPending\<rparr>)) (\<lambda>l.
         Inr (log_transition request_id (Some ManualReview) RefundPending now (Some ''glc_refund_started'')
           created_by l))))))))"

definition record_goldcoin_refund_signed :: "i64 \<Rightarrow> string \<Rightarrow> i64 \<Rightarrow> Ledger \<Rightarrow> (LedgerError, Ledger) result" where
  "record_goldcoin_refund_signed request_id signed_tx_hex now l =
     try_bind (ok_or (get_goldcoin_refund l request_id) (GoldcoinRefundNotFound request_id)) (\<lambda>g.
     if gr_state g \<noteq> GrBuilt then
       (if gr_state g = GrSigned then Inr l
        else Inl (GoldcoinRefundWrongState request_id ''Built'' (goldcoin_refund_as_str (gr_state g))))
     else update_goldcoin_refund request_id (\<lambda>g. g\<lparr>gr_signed_tx_hex := Some signed_tx_hex,
       gr_signed_at := Some now, gr_state := GrSigned\<rparr>) l)"

definition spend_refund_inputs :: "i64 \<Rightarrow> bytes32 \<Rightarrow> Ledger \<Rightarrow> Ledger" where
  "spend_refund_inputs request_id txid l =
     (let ins = filter (\<lambda>i. in_request_id i = request_id) (refund_inputs l) in
      l\<lparr>vault_utxos := map (\<lambda>v. if vu_txid v \<in> set (map in_txid ins) \<and> vu_vout v \<in> set (map in_vout ins)
          \<and> vu_reserved_by v = Some request_id
        then v\<lparr>vu_state := UtxoSpent, vu_spent_by_txid := Some txid\<rparr> else v) (vault_utxos l)\<rparr>)"

definition record_goldcoin_refund_broadcast :: "i64 \<Rightarrow> bytes32 \<Rightarrow> i64 \<Rightarrow> Ledger \<Rightarrow> (LedgerError, Ledger) result" where
  "record_goldcoin_refund_broadcast request_id txid now l =
     try_bind (ok_or (get_goldcoin_refund l request_id) (GoldcoinRefundNotFound request_id)) (\<lambda>g.
     case gr_txid g of
       Some existing \<Rightarrow>
         if existing \<noteq> txid then Inl (GlcRefundNotEligible request_id ''refund already recorded another txid'')
         else Inr l
     | None \<Rightarrow>
         require (gr_state g = GrSigned)
           (GoldcoinRefundWrongState request_id ''Signed'' (goldcoin_refund_as_str (gr_state g))) (
         try_bind (update_goldcoin_refund request_id (\<lambda>g. g\<lparr>gr_txid := Some txid,
           gr_broadcast_at := Some now, gr_state := GrBroadcast\<rparr>) l) (\<lambda>l.
         try_bind (update_request (spend_refund_inputs request_id txid l) request_id
           (\<lambda>r. r\<lparr>br_state := RefundBroadcast\<rparr>)) (\<lambda>l.
         Inr (log_transition request_id (Some RefundPending) RefundBroadcast now
           (Some ''glc_refund_broadcast'') ''operator'' l)))))"

definition update_goldcoin_refund_confirmations :: "i64 \<Rightarrow> i64 \<Rightarrow> Ledger \<Rightarrow> (LedgerError, Ledger) result" where
  "update_goldcoin_refund_confirmations request_id confirmations l =
     update_goldcoin_refund request_id (\<lambda>g. g\<lparr>gr_confirmations := confirmations\<rparr>) l"

definition commit_goldcoin_refund_terminal ::
  "i64 \<Rightarrow> i64 \<Rightarrow> bool \<Rightarrow> i64 \<Rightarrow> Ledger \<Rightarrow> (LedgerError, Ledger) result" where
  "commit_goldcoin_refund_terminal request_id confirmations released now l =
     try_bind (update_goldcoin_refund request_id (\<lambda>g. g\<lparr>gr_state := GrRefunded, gr_refunded_at := Some now,
       gr_confirmations := confirmations, gr_reservation_released := True\<rparr>) l) (\<lambda>l.
     try_bind (if \<not> released
       then try_bind (ok_or (get_request l request_id) SqliteNoRows) (\<lambda>r.
         Inr (update_reserve (destination_reserve (br_direction r))
           (release_liquidity (br_net_destination_atomic r)) l))
       else Inr l) (\<lambda>l.
     try_bind (update_request l request_id (\<lambda>r. r\<lparr>br_state := Refunded\<rparr>)) (\<lambda>l.
     Inr (log_transition request_id (Some RefundBroadcast) Refunded now (Some ''glc_refund_confirmed'')
       ''system'' l))))"

definition record_goldcoin_refund_confirmed :: "i64 \<Rightarrow> i64 \<Rightarrow> i64 \<Rightarrow> Ledger \<Rightarrow> (LedgerError, Ledger) result" where
  "record_goldcoin_refund_confirmed request_id confirmations now l =
     try_bind (ok_or (get_goldcoin_refund l request_id) (GoldcoinRefundNotFound request_id)) (\<lambda>g.
     if gr_state g = GrRefunded then
       update_goldcoin_refund request_id (\<lambda>g. g\<lparr>gr_confirmations := confirmations\<rparr>) l
     else
       require (gr_state g = GrBroadcast)
         (GoldcoinRefundWrongState request_id ''Broadcast'' (goldcoin_refund_as_str (gr_state g))) (
       commit_goldcoin_refund_terminal request_id confirmations (gr_reservation_released g) now l))"

definition reconcile_goldcoin_refund_confirmations ::
  "i64 \<Rightarrow> i64 \<Rightarrow> i64 \<Rightarrow> i64 \<Rightarrow> Ledger \<Rightarrow> bool ledger_result" where
  "reconcile_goldcoin_refund_confirmations request_id confirmations required_confirmations now l =
     try_bind (ok_or (get_goldcoin_refund l request_id) (GoldcoinRefundNotFound request_id)) (\<lambda>g.
     if gr_state g = GrRefunded then
       try_bind (update_goldcoin_refund request_id (\<lambda>g. g\<lparr>gr_confirmations := confirmations\<rparr>) l)
         (\<lambda>l. Inr (False, l))
     else
       require (gr_state g = GrBroadcast)
         (GoldcoinRefundWrongState request_id ''Broadcast'' (goldcoin_refund_as_str (gr_state g))) (
       if confirmations < required_confirmations then
         try_bind (update_goldcoin_refund request_id (\<lambda>g. g\<lparr>gr_confirmations := confirmations\<rparr>) l)
           (\<lambda>l. Inr (False, l))
       else
         try_bind (commit_goldcoin_refund_terminal request_id confirmations (gr_reservation_released g) now l)
           (\<lambda>l. Inr (True, l))))"

section \<open>Refund of a Solana deposit\<close>

definition SOLANA_REFUND_NONCE_DOMAIN :: u64 where "SOLANA_REFUND_NONCE_DOMAIN = 2 ^ 63"

definition solana_refund_nonce :: "i64 \<Rightarrow> (LedgerError, u64) result" where
  "solana_refund_nonce request_id =
     require (\<not> request_id \<le> 0) (RefundNotEligible request_id ''request id must be positive'') (
     Inr (or SOLANA_REFUND_NONCE_DOMAIN (as_u64 request_id)))"

record SolanaRefundDbChecks =
  sc_direction :: RequestDirection
  sc_direction_ok :: bool
  sc_state :: RequestState
  sc_state_is_manual_review :: bool
  sc_manual_review_reason :: "string option"
  sc_reason_whitelisted :: bool
  sc_source_finalized :: bool
  sc_has_obligation_index :: bool
  sc_has_requester :: bool
  sc_no_destination_txid :: bool
  sc_not_settled :: bool
  sc_no_goldcoin_payout :: bool
  sc_never_advanced_past_manual_review :: bool
  sc_hold_blocker :: "string option"
  sc_existing_refund :: "SolanaRefundState option"

definition never_advanced_past_manual_review :: "Ledger \<Rightarrow> i64 \<Rightarrow> bool" where
  "never_advanced_past_manual_review l request_id =
     (\<not> list_ex (\<lambda>e. sl_request_id e = request_id \<and> sl_to e \<in> {SourceFinalized, SettlementAuthorized,
        DestinationSubmitted, DestinationConfirmed, Settled}) (state_log l))"

definition evaluate_solana_refund_db_checks :: "Ledger \<Rightarrow> i64 \<Rightarrow> (LedgerError, SolanaRefundDbChecks) result" where
  "evaluate_solana_refund_db_checks l request_id =
     try_bind (ok_or (get_request l request_id) (RequestNotFound request_id)) (\<lambda>r.
     Inr \<lparr>sc_direction = br_direction r, sc_direction_ok = source_is_solana (br_direction r),
       sc_state = br_state r, sc_state_is_manual_review = (br_state r = ManualReview),
       sc_manual_review_reason = br_manual_review_note r,
       sc_reason_whitelisted = is_refundable_manual_review_reason (br_direction r) (br_manual_review_note r),
       sc_source_finalized = (br_source_finalized_at r \<noteq> None),
       sc_has_obligation_index = (br_source_obligation_index r \<noteq> None),
       sc_has_requester = (case br_requester r of None \<Rightarrow> False | Some q \<Rightarrow> length q = 32),
       sc_no_destination_txid = (br_destination_txid r = None),
       sc_not_settled = (br_settled_at r = None),
       sc_no_goldcoin_payout = (get_goldcoin_payout l request_id = None \<and> \<not> robinhood_payout_begun l request_id),
       sc_never_advanced_past_manual_review = never_advanced_past_manual_review l request_id,
       sc_hold_blocker = refund_hold_blocker_in l request_id,
       sc_existing_refund = map_option sr_state (get_solana_refund l request_id)\<rparr>)"

definition first_failure_for_begin :: "SolanaRefundDbChecks \<Rightarrow> string option" where
  "first_failure_for_begin c =
     (if sc_existing_refund c \<noteq> None then Some ''a refund lifecycle already exists''
      else if \<not> sc_direction_ok c then Some ''only a Solana-side deposit can be refunded on Solana''
      else if \<not> sc_state_is_manual_review c then Some ''state is not ManualReview''
      else if \<not> sc_reason_whitelisted c then Some ''manual_review_note is not a whitelisted fold-time refund reason''
      else if \<not> sc_source_finalized c then Some ''source deposit is not finalized''
      else if \<not> sc_has_obligation_index c then Some ''no source_obligation_index recorded''
      else if \<not> sc_has_requester c then Some ''no requester (original sender) recorded''
      else if \<not> sc_no_destination_txid c then Some ''a destination transaction already exists''
      else if \<not> sc_not_settled c then Some ''the request has a settled_at timestamp''
      else if \<not> sc_no_goldcoin_payout c then Some ''a destination payout row already exists''
      else if \<not> sc_never_advanced_past_manual_review c
        then Some ''the state log shows this request once advanced to SourceFinalized or beyond''
      else sc_hold_blocker c)"

record SolanaRefundCapacityCheck =
  cc_amount_solana_atomic :: u64
  cc_total_reserve_balance :: i64
  cc_protected_minimum :: i64
  cc_reserved_liquidity :: i64
  cc_other_open_refunds_atomic :: i64
  cc_ok :: bool

definition other_open_refunds :: "Ledger \<Rightarrow> i64 \<Rightarrow> i64" where
  "other_open_refunds l request_id =
     sum_list (map sr_amount_solana_atomic (filter (\<lambda>s. sr_state s \<in> {SrPending, SrBroadcast}
       \<and> sr_request_id s \<noteq> request_id) (solana_refunds l)))"

definition evaluate_solana_refund_capacity ::
  "Ledger \<Rightarrow> i64 \<Rightarrow> u64 \<Rightarrow> (LedgerError, SolanaRefundCapacityCheck) result" where
  "evaluate_solana_refund_capacity l request_id amount_solana_atomic =
     try_bind (ok_or (reserves l SolanaReserve) (ReserveNotInitialized SolanaReserve)) (\<lambda>row.
     let available = row_headroom row - other_open_refunds l request_id in
     Inr \<lparr>cc_amount_solana_atomic = amount_solana_atomic,
       cc_total_reserve_balance = rv_total_reserve_balance row,
       cc_protected_minimum = rv_protected_minimum row, cc_reserved_liquidity = rv_reserved_liquidity row,
       cc_other_open_refunds_atomic = other_open_refunds l request_id,
       cc_ok = (as_i64 amount_solana_atomic \<le> available \<and> amount_solana_atomic > 0)\<rparr>)"

record VerifiedRefundInputs =
  vr_obligation_index :: u64
  vr_requester :: bytes32
  vr_gross_canonical_atomic :: u64
  vr_amount_solana_atomic :: u64
  vr_destination_token_account :: bytes32
  vr_reserve_mint :: bytes32
  vr_token_program :: bytes32

definition solana_refund_row_ok :: "SolanaRefundRow \<Rightarrow> bool" where
  "solana_refund_row_ok s \<longleftrightarrow>
     sr_amount_solana_atomic s > 0 \<and> sr_note s \<noteq> [] \<and> sr_created_by s \<noteq> []
     \<and> (sr_state s = SrPending \<or> sr_refund_signature s \<noteq> None)
     \<and> (sr_state s = SrPending \<or> sr_recent_blockhash s \<noteq> None)
     \<and> (sr_state s = SrPending \<or> sr_broadcast_at s \<noteq> None)
     \<and> (sr_state s \<noteq> SrConfirmed \<or> sr_confirmed_at s \<noteq> None)"

definition write_solana_refunds :: "SolanaRefundRow list \<Rightarrow> Ledger \<Rightarrow> (LedgerError, Ledger) result" where
  "write_solana_refunds rows l =
     require (list_all solana_refund_row_ok rows \<and> distinct (map sr_request_id rows)
         \<and> distinct (map sr_obligation_index rows) \<and> distinct (map sr_nonce rows)) SqliteConstraint
       (Inr (l\<lparr>solana_refunds := rows\<rparr>))"

definition refund_inputs_match :: "BridgeRequest \<Rightarrow> VerifiedRefundInputs \<Rightarrow> (LedgerError, unit) result" where
  "refund_inputs_match r v =
     require (case br_source_obligation_index r of None \<Rightarrow> False | Some i \<Rightarrow> as_u64 i = vr_obligation_index v)
       (RefundNotEligible (br_id r) ''stored source_obligation_index does not match'') (
     require (br_requester r = Some (to_bytes (vr_requester v)))
       (RefundNotEligible (br_id r) ''stored requester does not match'') (
     require (as_u64 (br_gross_amount_atomic r) = vr_gross_canonical_atomic v)
       (RefundNotEligible (br_id r) ''stored gross_amount_atomic does not match'') (
     Inr ())))"

definition begin_solana_refund ::
  "i64 \<Rightarrow> VerifiedRefundInputs \<Rightarrow> string \<Rightarrow> string \<Rightarrow> i64 \<Rightarrow> Ledger \<Rightarrow> (LedgerError, Ledger) result" where
  "begin_solana_refund request_id verified note actor now l =
     try_bind (solana_refund_nonce request_id) (\<lambda>nonce.
     require (trim note \<noteq> []) LedgerPanic (
     try_bind (evaluate_solana_refund_db_checks l request_id) (\<lambda>checks.
     case first_failure_for_begin checks of
       Some detail \<Rightarrow> Inl (RefundNotEligible request_id detail)
     | None \<Rightarrow>
         try_bind (ok_or (get_request l request_id) SqliteNoRows) (\<lambda>r.
         try_bind (refund_inputs_match r verified) (\<lambda>_.
         try_bind (evaluate_solana_refund_capacity l request_id (vr_amount_solana_atomic verified)) (\<lambda>capacity.
         require (cc_ok capacity)
           (InvariantViolated SolanaReserve (cc_total_reserve_balance capacity) (cc_protected_minimum capacity)
             (cc_reserved_liquidity capacity + cc_other_open_refunds_atomic capacity
               + as_i64 (vr_amount_solana_atomic verified))) (
         try_bind (ok_or (sc_manual_review_reason checks) LedgerPanic) (\<lambda>reason.
         try_bind (write_solana_refunds (solana_refunds l @ [\<lparr>sr_request_id = request_id,
             sr_obligation_index = as_i64 (vr_obligation_index verified), sr_nonce = as_i64 nonce,
             sr_amount_solana_atomic = as_i64 (vr_amount_solana_atomic verified),
             sr_requester = vr_requester verified,
             sr_destination_token_account = vr_destination_token_account verified,
             sr_reserve_mint = vr_reserve_mint verified, sr_token_program = vr_token_program verified,
             sr_manual_review_reason = reason, sr_note = trim note, sr_created_by = actor,
             sr_state = SrPending, sr_created_at = now, sr_refund_signature = None,
             sr_recent_blockhash = None, sr_attestation_epoch = None, sr_broadcast_at = None,
             sr_confirmed_at = None\<rparr>]) l) (\<lambda>l.
         try_bind (update_request l request_id (\<lambda>row. row\<lparr>br_state := RefundPending\<rparr>)) (\<lambda>l.
         Inr (log_transition request_id (Some ManualReview) RefundPending now (Some (trim note)) actor l)))))))))))"

definition record_solana_refund_broadcast ::
  "i64 \<Rightarrow> string \<Rightarrow> string \<Rightarrow> u64 \<Rightarrow> i64 \<Rightarrow> Ledger \<Rightarrow> (LedgerError, Ledger) result" where
  "record_solana_refund_broadcast request_id refund_signature recent_blockhash attestation_epoch now l =
     try_bind (ok_or (get_solana_refund l request_id) (RefundNotFound request_id)) (\<lambda>s.
     try_bind (ok_or (get_request l request_id) SqliteNoRows) (\<lambda>r.
     require (sr_state s \<noteq> SrConfirmed)
       (RefundWrongState request_id ''Pending or Broadcast'' (solana_refund_as_str (sr_state s))) (
     require (br_state r \<in> {RefundPending, RefundBroadcast}) LedgerPanic (
     try_bind (write_solana_refunds (update_by sr_request_id request_id (\<lambda>s. s\<lparr>sr_state := SrBroadcast,
       sr_refund_signature := Some refund_signature, sr_recent_blockhash := Some recent_blockhash,
       sr_attestation_epoch := Some (as_i64 attestation_epoch), sr_broadcast_at := Some now\<rparr>)
       (solana_refunds l)) l) (\<lambda>l.
     if br_state r = RefundPending then
       try_bind (update_request l request_id (\<lambda>row. row\<lparr>br_state := RefundBroadcast\<rparr>)) (\<lambda>l.
       Inr (log_transition request_id (Some RefundPending) RefundBroadcast now
         (Some (''refund tx '' @ refund_signature)) ''system'' l))
     else Inr l)))))"

definition mark_solana_refund_confirmed :: "i64 \<Rightarrow> i64 \<Rightarrow> Ledger \<Rightarrow> (LedgerError, Ledger) result" where
  "mark_solana_refund_confirmed request_id now l =
     try_bind (ok_or (get_solana_refund l request_id) (RefundNotFound request_id)) (\<lambda>s.
     if sr_state s = SrConfirmed then Inr l
     else
       require (sr_state s = SrBroadcast)
         (RefundWrongState request_id ''Broadcast'' (solana_refund_as_str (sr_state s))) (
       try_bind (ok_or (get_request l request_id) SqliteNoRows) (\<lambda>r.
       require (br_state r = RefundBroadcast) LedgerPanic (
       try_bind (write_solana_refunds (update_by sr_request_id request_id (\<lambda>s. s\<lparr>sr_state := SrConfirmed,
         sr_confirmed_at := Some now\<rparr>) (solana_refunds l)) l) (\<lambda>l.
       try_bind (update_request l request_id (\<lambda>row. row\<lparr>br_state := Refunded\<rparr>)) (\<lambda>l.
       Inr (update_reserve SolanaReserve
         (\<lambda>row. row\<lparr>rv_total_reserve_balance := rv_total_reserve_balance row - sr_amount_solana_atomic s\<rparr>)
         (log_transition request_id (Some RefundBroadcast) Refunded now (sr_refund_signature s) ''system'' l))))))))"

end
