(* ===== verification/Ledger_Vault.thy ===== *)
theory Ledger_Vault
  imports Ledger_Refunds
begin

text \<open>
  The coins of the vault in the ledger: what a scan of the chain does to them, which may be spent, their
  reservation for a payout, and the life of a split (\<open>ledger/mod.rs\<close>, the sections on the vault and on splits).
  Then what holds however these operations interleave: a coin serves one request, for ever.
\<close>

section \<open>Scanning and listing\<close>

type_synonym Observed = "VaultUtxo \<times> i64 \<times> string"

definition observed_row :: "i64 \<Rightarrow> i64 \<Rightarrow> Observed \<Rightarrow> VaultUtxoRow" where
  "observed_row min_confirmations now o' =
     (case o' of (utxo, confirmations, script) \<Rightarrow>
       \<lparr>vu_txid = utxo_txid utxo, vu_vout = utxo_vout utxo, vu_amount_atomic = as_i64 (utxo_amount_atomic utxo),
        vu_script_pubkey_hex = script, vu_confirmations = confirmations, vu_first_seen_at = now,
        vu_state = (if confirmations \<ge> min_confirmations then UtxoAvailable else UtxoUnconfirmed),
        vu_reserved_by = None, vu_reserved_at = None, vu_spent_by_txid = None, vu_zero_conf_hold_reason = None\<rparr>)"

text \<open>On conflict the row keeps everything but its confirmations and, unless it is pinned, its state.\<close>

definition rescan_row :: "VaultUtxoRow \<Rightarrow> VaultUtxoRow \<Rightarrow> VaultUtxoRow" where
  "rescan_row excluded v = v\<lparr>vu_confirmations := vu_confirmations excluded,
     vu_state := (if vu_state v = UtxoReserved then UtxoReserved
       else if vu_state v = UtxoSpent \<and> (vu_spent_by_txid v \<noteq> None \<or> vu_reserved_by v \<noteq> None) then UtxoSpent
       else vu_state excluded)\<rparr>"

definition upsert_by :: "(VaultUtxoRow \<Rightarrow> VaultUtxoRow \<Rightarrow> VaultUtxoRow) \<Rightarrow> VaultUtxoRow \<Rightarrow> VaultUtxoRow list \<Rightarrow> VaultUtxoRow list" where
  "upsert_by on_conflict new rows =
     (if list_ex (vault_utxo_at (vu_txid new) (vu_vout new)) rows
      then map (\<lambda>v. if vault_utxo_at (vu_txid new) (vu_vout new) v then on_conflict new v else v) rows
      else rows @ [new])"

definition chunk_of_broadcast_split :: "Ledger \<Rightarrow> VaultUtxoRow \<Rightarrow> bool" where
  "chunk_of_broadcast_split l v \<longleftrightarrow> list_ex (\<lambda>s. vs_txid s = Some (vu_txid v) \<and> vs_state s = SplitBroadcast) (vault_utxo_splits l)"

definition mark_absent :: "Ledger \<Rightarrow> Observed list \<Rightarrow> VaultUtxoRow \<Rightarrow> VaultUtxoRow" where
  "mark_absent l observed v =
     (if vu_state v \<in> {UtxoAvailable, UtxoUnconfirmed}
        \<and> \<not> list_ex (\<lambda>(utxo, _). vault_utxo_at (utxo_txid utxo) (utxo_vout utxo) v) observed
        \<and> \<not> chunk_of_broadcast_split l v
      then v\<lparr>vu_state := UtxoSpent\<rparr> else v)"

definition sync_vault_utxos :: "Observed list \<Rightarrow> i64 \<Rightarrow> i64 \<Rightarrow> Ledger \<Rightarrow> Ledger" where
  "sync_vault_utxos observed min_confirmations now l =
     l\<lparr>vault_utxos := map (mark_absent l observed)
       (foldl (\<lambda>rows o'. upsert_by rescan_row (observed_row min_confirmations now o') rows) (vault_utxos l) observed)\<rparr>"

definition coin_of_row :: "VaultUtxoRow \<Rightarrow> VaultUtxo" where
  "coin_of_row v = \<lparr>utxo_txid = vu_txid v, utxo_vout = vu_vout v, utxo_amount_atomic = as_u64 (vu_amount_atomic v),
     utxo_script_pubkey_hex = vu_script_pubkey_hex v\<rparr>"

definition listing_key :: "VaultUtxoRow \<Rightarrow> i64 \<times> bytes32 \<times> u32" where
  "listing_key v = (- vu_amount_atomic v, vu_txid v, vu_vout v)"

definition available_vault_utxos :: "Ledger \<Rightarrow> VaultUtxo list" where
  "available_vault_utxos l = map coin_of_row (sort_key listing_key
     (filter (\<lambda>v. vu_state v = UtxoAvailable \<and> \<not> unfinalized_goldcoin_deposit l v \<and> \<not> live_split_claim l v) (vault_utxos l)))"

record ZeroConfChangeCandidate =
  zc_utxo :: VaultUtxo
  zc_unconfirmed_ancestor_depth :: u32
  zc_confirmations :: i64

definition outpoint_of_row :: "VaultUtxoRow \<Rightarrow> ChangeOutpointRow \<Rightarrow> bool" where
  "outpoint_of_row v c \<longleftrightarrow> cp_txid c = vu_txid v \<and> cp_vout c = uint (vu_vout v)"

definition within_depth :: "u32 \<Rightarrow> VaultUtxoRow \<Rightarrow> ChangeOutpointRow \<Rightarrow> bool" where
  "within_depth max_depth v c \<longleftrightarrow> vu_confirmations v \<ge> 1 \<or> cp_unconfirmed_ancestor_depth c \<le> uint max_depth"

definition zero_conf_change_vault_utxos_with_depth :: "u32 \<Rightarrow> Ledger \<Rightarrow> ZeroConfChangeCandidate list" where
  "zero_conf_change_vault_utxos_with_depth max_depth l =
     (if max_depth = 0 then []
      else map (\<lambda>(v, c). \<lparr>zc_utxo = coin_of_row v,
          zc_unconfirmed_ancestor_depth = word_of_int (cp_unconfirmed_ancestor_depth c), zc_confirmations = vu_confirmations v\<rparr>)
        (sort_key (\<lambda>(v, c). listing_key v)
          [(v, c). v \<leftarrow> vault_utxos l, c \<leftarrow> payout_change_outpoints l, outpoint_of_row v c \<and> vu_state v = UtxoUnconfirmed
             \<and> vu_zero_conf_hold_reason v = None \<and> within_depth max_depth v c \<and> \<not> unfinalized_goldcoin_deposit l v]))"

definition zero_conf_change_vault_utxos :: "u32 \<Rightarrow> Ledger \<Rightarrow> VaultUtxo list" where
  "zero_conf_change_vault_utxos max_depth l = map zc_utxo (zero_conf_change_vault_utxos_with_depth max_depth l)"

definition zero_conf_parent_txids :: "Ledger \<Rightarrow> bytes32 list" where
  "zero_conf_parent_txids l = remdups [vu_txid v. v \<leftarrow> vault_utxos l,
     vu_state v = UtxoUnconfirmed \<and> vu_confirmations v = 0 \<and> list_ex (outpoint_of_row v) (payout_change_outpoints l)]"

definition set_zero_conf_hold :: "bytes32 \<Rightarrow> string option \<Rightarrow> Ledger \<Rightarrow> Ledger" where
  "set_zero_conf_hold txid reason l =
     l\<lparr>vault_utxos := map (\<lambda>v. if vu_txid v = txid \<and> vu_state v = UtxoUnconfirmed
       then v\<lparr>vu_zero_conf_hold_reason := reason\<rparr> else v) (vault_utxos l)\<rparr>"

section \<open>Reservation\<close>

definition reservable :: "u32 \<Rightarrow> Ledger \<Rightarrow> VaultUtxo \<Rightarrow> VaultUtxoRow \<Rightarrow> bool" where
  "reservable zero_conf_max_depth l u v \<longleftrightarrow>
     vault_utxo_at (utxo_txid u) (utxo_vout u) v
     \<and> (vu_state v = UtxoAvailable
        \<or> zero_conf_max_depth > 0 \<and> vu_state v = UtxoUnconfirmed \<and> vu_zero_conf_hold_reason v = None
          \<and> list_ex (\<lambda>c. outpoint_of_row v c \<and> within_depth zero_conf_max_depth v c) (payout_change_outpoints l))
     \<and> \<not> live_split_claim l v"

definition reserve_coin_row :: "i64 \<Rightarrow> i64 \<Rightarrow> VaultUtxoRow \<Rightarrow> VaultUtxoRow" where
  "reserve_coin_row request_id now v = v\<lparr>vu_state := UtxoReserved, vu_reserved_by := Some request_id, vu_reserved_at := Some now\<rparr>"

text \<open>The loop with its count of rows; the reserving request must exist (a foreign key).\<close>

primrec reserve_each :: "i64 \<Rightarrow> u32 \<Rightarrow> i64 \<Rightarrow> VaultUtxo list \<Rightarrow> nat \<Rightarrow> Ledger \<Rightarrow> (LedgerError, nat \<times> Ledger) result" where
  "reserve_each request_id zero_conf_max_depth now [] reserved_count l = Inr (reserved_count, l)"
| "reserve_each request_id zero_conf_max_depth now (u # us) reserved_count l =
     (let n = length (filter (reservable zero_conf_max_depth l u) (vault_utxos l)) in
      require (n = 0 \<or> get_request l request_id \<noteq> None) SqliteConstraint (
      reserve_each request_id zero_conf_max_depth now us (reserved_count + n)
        (l\<lparr>vault_utxos := map (\<lambda>v. if reservable zero_conf_max_depth l u v then reserve_coin_row request_id now v else v)
          (vault_utxos l)\<rparr>)))"

definition reserve_vault_utxos :: "i64 \<Rightarrow> VaultUtxo list \<Rightarrow> u32 \<Rightarrow> i64 \<Rightarrow> Ledger \<Rightarrow> (LedgerError, Ledger) result" where
  "reserve_vault_utxos request_id selected zero_conf_max_depth now l =
     try_bind (reserve_each request_id zero_conf_max_depth now selected 0 l) (\<lambda>(reserved_count, l).
     require (reserved_count = length selected) (VaultUtxoUnavailable (length selected) reserved_count) (Inr l))"

definition get_vault_utxo :: "bytes32 \<Rightarrow> u32 \<Rightarrow> Ledger \<Rightarrow> VaultUtxoRow option" where
  "get_vault_utxo txid vout l = find (vault_utxo_at txid vout) (vault_utxos l)"

section \<open>Splits\<close>

definition split_of :: "bytes32 \<Rightarrow> u32 \<Rightarrow> VaultUtxoSplitRow \<Rightarrow> bool" where
  "split_of txid vout s \<longleftrightarrow> vs_source_txid s = txid \<and> vs_source_vout s = vout \<and> vs_state s \<noteq> SplitAbandoned"

definition get_vault_utxo_split :: "bytes32 \<Rightarrow> u32 \<Rightarrow> Ledger \<Rightarrow> VaultUtxoSplitRow option" where
  "get_vault_utxo_split source_txid source_vout l = find (split_of source_txid source_vout) (vault_utxo_splits l)"

definition get_split :: "i64 \<Rightarrow> Ledger \<Rightarrow> VaultUtxoSplitRow option" where
  "get_split split_id l = find_by vs_id split_id (vault_utxo_splits l)"

definition update_split :: "i64 \<Rightarrow> (VaultUtxoSplitRow \<Rightarrow> VaultUtxoSplitRow) \<Rightarrow> Ledger \<Rightarrow> Ledger" where
  "update_split split_id f l = l\<lparr>vault_utxo_splits := update_by vs_id split_id f (vault_utxo_splits l)\<rparr>"

definition record_vault_utxo_split_built ::
  "SplitPlan \<Rightarrow> u64 \<Rightarrow> string \<Rightarrow> string \<Rightarrow> i64 \<Rightarrow> Ledger \<Rightarrow> i64 ledger_result" where
  "record_vault_utxo_split_built plan chunk_target_atomic unsigned_tx_hex note now l =
     (let txid = utxo_txid (sp_source plan); vout = utxo_vout (sp_source plan) in
      require (get_vault_utxo_split txid vout l = None) (VaultUtxoAlreadySplit txid vout) (
      case get_vault_utxo txid vout l of
        None \<Rightarrow> Inl (VaultUtxoNotFound txid vout)
      | Some v \<Rightarrow>
          require (vu_state v = UtxoAvailable) (VaultUtxoNotSplittable txid vout (vu_state v)) (
          let split_id = next_rowid vs_id (vault_utxo_splits l) in
          Inr (split_id, l\<lparr>vault_utxo_splits := vault_utxo_splits l @ [\<lparr>vs_id = split_id, vs_source_txid = txid,
            vs_source_vout = vout, vs_source_amount_atomic = as_i64 (utxo_amount_atomic (sp_source plan)),
            vs_chunk_count = int (output_count plan), vs_chunk_target_atomic = as_i64 chunk_target_atomic,
            vs_fee_atomic = as_i64 (sp_fee_atomic plan), vs_unsigned_tx_hex = unsigned_tx_hex, vs_signed_tx_hex = None,
            vs_txid = None, vs_state = SplitBuilt, vs_note = note, vs_built_at = now, vs_signed_at = None,
            vs_broadcast_at = None, vs_confirmed_at = None, vs_abandoned_at = None, vs_abandon_reason = None,
            vs_missing_inputs_since = None\<rparr>]\<rparr>))))"

definition record_vault_utxo_split_signed :: "i64 \<Rightarrow> string \<Rightarrow> i64 \<Rightarrow> Ledger \<Rightarrow> (LedgerError, Ledger) result" where
  "record_vault_utxo_split_signed split_id signed_tx_hex now l =
     require (case get_split split_id l of None \<Rightarrow> False | Some s \<Rightarrow> vs_state s = SplitBuilt) (VaultUtxoSplitNotFound split_id) (
     Inr (update_split split_id (\<lambda>s. s\<lparr>vs_signed_tx_hex := Some signed_tx_hex, vs_state := SplitSigned, vs_signed_at := Some now\<rparr>) l))"

definition chunk_row :: "bytes32 \<Rightarrow> string \<Rightarrow> i64 \<Rightarrow> nat \<times> u64 \<Rightarrow> VaultUtxoRow" where
  "chunk_row txid script now chunk =
     \<lparr>vu_txid = txid, vu_vout = word_of_nat (fst chunk), vu_amount_atomic = as_i64 (snd chunk), vu_script_pubkey_hex = script,
      vu_confirmations = 0, vu_first_seen_at = now, vu_state = UtxoUnconfirmed, vu_reserved_by = None, vu_reserved_at = None,
      vu_spent_by_txid = None, vu_zero_conf_hold_reason = None\<rparr>"

definition spend_source :: "bytes32 \<Rightarrow> VaultUtxoRow \<Rightarrow> VaultUtxoRow" where
  "spend_source txid v =
     (if vu_state v = UtxoAvailable then v\<lparr>vu_state := UtxoSpent, vu_spent_by_txid := Some txid\<rparr>
      else if vu_spent_by_txid v = None then v\<lparr>vu_spent_by_txid := Some txid\<rparr> else v)"

definition record_vault_utxo_split_broadcast ::
  "i64 \<Rightarrow> bytes32 \<Rightarrow> u64 list \<Rightarrow> string \<Rightarrow> i64 \<Rightarrow> Ledger \<Rightarrow> (LedgerError, Ledger) result" where
  "record_vault_utxo_split_broadcast split_id txid output_amounts vault_script_pubkey_hex now l =
     try_bind (ok_or (get_split split_id l) (VaultUtxoSplitNotFound split_id)) (\<lambda>s.
     require (vs_state s \<in> {SplitSigned, SplitBroadcast}) (VaultUtxoSplitNotRecoverable split_id (vs_state s)) (
     let l = update_split split_id (\<lambda>s. s\<lparr>vs_state := SplitBroadcast, vs_txid := Some txid,
           vs_broadcast_at := (case vs_broadcast_at s of None \<Rightarrow> Some now | at \<Rightarrow> at)\<rparr>) l
     in case get_vault_utxo (vs_source_txid s) (vs_source_vout s) l of
       None \<Rightarrow> Inl (VaultUtxoNotFound (vs_source_txid s) (vs_source_vout s))
     | Some v \<Rightarrow>
         require (vu_state v \<in> {UtxoAvailable, UtxoSpent})
           (VaultUtxoNotSplittable (vs_source_txid s) (vs_source_vout s) (vu_state v)) (
         let rows = map (\<lambda>v. if vault_utxo_at (vs_source_txid s) (vs_source_vout s) v then spend_source txid v else v) (vault_utxos l)
         in Inr (l\<lparr>vault_utxos := foldl (\<lambda>rows chunk. upsert_by (\<lambda>_ v. v) (chunk_row txid vault_script_pubkey_hex now chunk) rows)
              rows (enumerate 0 output_amounts)\<rparr>))))"

definition record_vault_utxo_split_confirmed :: "i64 \<Rightarrow> i64 \<Rightarrow> Ledger \<Rightarrow> (LedgerError, Ledger) result" where
  "record_vault_utxo_split_confirmed split_id now l =
     try_bind (ok_or (get_split split_id l) (VaultUtxoSplitNotFound split_id)) (\<lambda>s.
     require (vs_state s = SplitBroadcast) (VaultUtxoSplitNotRecoverable split_id (vs_state s)) (
     Inr (update_split split_id (\<lambda>s. s\<lparr>vs_state := SplitConfirmed, vs_confirmed_at := Some now, vs_missing_inputs_since := None\<rparr>) l)))"

definition drop_chunk :: "bytes32 \<Rightarrow> VaultUtxoRow \<Rightarrow> VaultUtxoRow" where
  "drop_chunk txid v =
     (if vu_txid v = txid \<and> vu_state v \<in> {UtxoUnconfirmed, UtxoAvailable} then v\<lparr>vu_state := UtxoSpent\<rparr> else v)"

definition abandon_vault_utxo_split ::
  "i64 \<Rightarrow> string \<Rightarrow> bytes32 option \<Rightarrow> i64 \<Rightarrow> Ledger \<Rightarrow> (LedgerError, Ledger) result" where
  "abandon_vault_utxo_split split_id reason observed_txid now l =
     try_bind (ok_or (get_split split_id l) (VaultUtxoSplitNotFound split_id)) (\<lambda>s.
     if vs_state s = SplitAbandoned then Inr l
     else
       require (vs_state s \<in> {SplitBuilt, SplitSigned, SplitBroadcast}) (VaultUtxoSplitNotRecoverable split_id (vs_state s)) (
       let effective_txid = (case vs_txid s of None \<Rightarrow> observed_txid | t \<Rightarrow> t);
           l = update_split split_id (\<lambda>s. s\<lparr>vs_state := SplitAbandoned, vs_abandoned_at := Some now,
             vs_abandon_reason := Some reason, vs_txid := (case vs_txid s of None \<Rightarrow> observed_txid | t \<Rightarrow> t)\<rparr>) l
       in Inr (case effective_txid of
           None \<Rightarrow> l
         | Some txid \<Rightarrow> l\<lparr>vault_utxos := map (drop_chunk txid) (vault_utxos l)\<rparr>)))"

text \<open>The unique index on the source of a split that is not abandoned refuses a second one.\<close>

definition readopt_vault_utxo_split :: "i64 \<Rightarrow> Ledger \<Rightarrow> (LedgerError, Ledger) result" where
  "readopt_vault_utxo_split split_id l =
     try_bind (ok_or (get_split split_id l) (VaultUtxoSplitNotFound split_id)) (\<lambda>s.
     require (vs_state s = SplitAbandoned \<and> vs_txid s \<noteq> None) (VaultUtxoSplitNotRecoverable split_id (vs_state s)) (
     require (get_vault_utxo_split (vs_source_txid s) (vs_source_vout s) l = None) SqliteConstraint (
     Inr (update_split split_id (\<lambda>s. s\<lparr>vs_state := SplitBroadcast, vs_missing_inputs_since := None\<rparr>) l))))"

definition set_split_missing_inputs :: "i64 \<Rightarrow> i64 \<Rightarrow> Ledger \<Rightarrow> Ledger" where
  "set_split_missing_inputs split_id now l = update_split split_id (\<lambda>s. if vs_state s = SplitBroadcast \<and> vs_missing_inputs_since s = None
     then s\<lparr>vs_missing_inputs_since := Some now\<rparr> else s) l"

definition clear_split_missing_inputs :: "i64 \<Rightarrow> Ledger \<Rightarrow> Ledger" where
  "clear_split_missing_inputs split_id l = update_split split_id (\<lambda>s. s\<lparr>vs_missing_inputs_since := None\<rparr>) l"

definition SPLIT_MISSING_INPUTS_GRACE_SECS :: i64 where "SPLIT_MISSING_INPUTS_GRACE_SECS = 600"

definition past_grace :: "i64 \<Rightarrow> VaultUtxoSplitRow \<Rightarrow> bool" where
  "past_grace now s \<longleftrightarrow> (case vs_missing_inputs_since s of None \<Rightarrow> False | Some since \<Rightarrow> since + SPLIT_MISSING_INPUTS_GRACE_SECS \<le> now)"

definition split_chunks_still_explainable :: "i64 \<Rightarrow> VaultUtxoSplitRow \<Rightarrow> bool" where
  "split_chunks_still_explainable now s \<longleftrightarrow> vs_state s \<in> {SplitBroadcast, SplitConfirmed} \<and> \<not> past_grace now s"

definition flagged_dead_splits :: "i64 \<Rightarrow> Ledger \<Rightarrow> (i64 \<times> bytes32 option) list" where
  "flagged_dead_splits now l = map (\<lambda>s. (vs_id s, vs_txid s))
     (sort_key vs_id (filter (\<lambda>s. vs_state s = SplitBroadcast \<and> past_grace now s) (vault_utxo_splits l)))"

definition own_change :: "i64 \<Rightarrow> Ledger \<Rightarrow> VaultUtxoRow \<Rightarrow> bool" where
  "own_change now l v \<longleftrightarrow> vu_state v = UtxoUnconfirmed
     \<and> (list_ex (\<lambda>p. gp_txid p = Some (vu_txid v)) (goldcoin_payouts l)
        \<or> list_ex (\<lambda>s. vs_txid s = Some (vu_txid v) \<and> split_chunks_still_explainable now s) (vault_utxo_splits l))"

definition own_unconfirmed_change_atomic :: "i64 \<Rightarrow> Ledger \<Rightarrow> u64" where
  "own_unconfirmed_change_atomic now l = as_u64 (sum_list (map vu_amount_atomic (filter (own_change now l) (vault_utxos l))))"

definition immature_vault_utxo_total :: "Ledger \<Rightarrow> u64" where
  "immature_vault_utxo_total l =
     as_u64 (sum_list (map vu_amount_atomic (filter (\<lambda>v. vu_state v = UtxoUnconfirmed) (vault_utxos l))))"

definition max_confirmations_for_txid :: "bytes32 \<Rightarrow> Ledger \<Rightarrow> i64 option" where
  "max_confirmations_for_txid txid l =
     (case map vu_confirmations (filter (\<lambda>v. vu_txid v = txid) (vault_utxos l)) of [] \<Rightarrow> None | cs \<Rightarrow> Some (Max (set cs)))"

definition pending_vault_utxo_splits :: "Ledger \<Rightarrow> VaultUtxoSplitRow list" where
  "pending_vault_utxo_splits l = sort_key vs_id (filter (\<lambda>s. vs_state s \<in> {SplitBuilt, SplitSigned}) (vault_utxo_splits l))"

definition broadcast_vault_utxo_splits :: "Ledger \<Rightarrow> VaultUtxoSplitRow list" where
  "broadcast_vault_utxo_splits l = sort_key vs_id (filter (\<lambda>s. vs_state s = SplitBroadcast) (vault_utxo_splits l))"

section \<open>What a payout left behind\<close>

definition goldcoin_payout_change_outputs :: "Ledger \<Rightarrow> i64 \<Rightarrow> u64 \<Rightarrow> u64 list" where
  "goldcoin_payout_change_outputs l request_id legacy_change_atomic =
     (let rows = map (\<lambda>c. as_u64 (co_amount_atomic c))
        (sort_key co_output_order (filter (\<lambda>c. co_request_id c = request_id) (payout_change_outputs l)))
      in if rows \<noteq> [] then rows else if legacy_change_atomic > 0 then [legacy_change_atomic] else [])"

primrec check_reserved :: "i64 \<Rightarrow> (TxInputRow \<times> VaultUtxoRow) list \<Rightarrow> (LedgerError, VaultUtxo list) result" where
  "check_reserved request_id [] = Inr []"
| "check_reserved request_id (p # rest) =
     require (\<not> (vu_state (snd p) \<noteq> UtxoReserved \<or> vu_reserved_by (snd p) \<noteq> Some request_id))
       (VaultUtxoReservationDrifted request_id (in_txid (fst p)) (in_vout (fst p))) (
     try_bind (check_reserved request_id rest) (\<lambda>coins.
     Inr (\<lparr>utxo_txid = in_txid (fst p), utxo_vout = in_vout (fst p), utxo_amount_atomic = as_u64 (in_amount_atomic (fst p)),
       utxo_script_pubkey_hex = vu_script_pubkey_hex (snd p)\<rparr> # coins)))"

definition get_goldcoin_payout_inputs :: "i64 \<Rightarrow> Ledger \<Rightarrow> (LedgerError, VaultUtxo list) result" where
  "get_goldcoin_payout_inputs request_id l =
     (let rows = sort_key (\<lambda>(i, v). in_input_order i) [(i, v). i \<leftarrow> payout_inputs l, v \<leftarrow> vault_utxos l,
        in_request_id i = request_id \<and> vault_utxo_at (in_txid i) (in_vout i) v]
      in require (rows \<noteq> []) (PayoutNotFound request_id) (check_reserved request_id rows))"

end
