(* ===== verification/Goldcoin_Signing.thy ===== *)
theory Goldcoin_Signing
  imports Ledger_Vault
begin

text \<open>
  How a vault signer arrives at the transaction it signs (\<open>signing/goldcoin_vault.rs\<close>,
  \<open>goldcoin/payout_recovery.rs\<close>): every signer derives the plan from the ledger,
  chooses coins within the policy on unconfirmed change, checks the transaction it builds and signs each input
  with the key of the vault that holds the coin. A signer is the record of its two signing operations.
\<close>

section \<open>The recipient\<close>

text \<open>
  \<open>String::from_utf8_lossy\<close>: the longest prefix of a bad sequence that could begin a character becomes one
  replacement character.
\<close>

definition REPLACEMENT :: nat where "REPLACEMENT = 0xfffd"

definition continues :: "u8 \<Rightarrow> bool" where
  "continues b \<longleftrightarrow> 0x80 \<le> b \<and> b < 0xc0"

definition second_ok :: "u8 \<Rightarrow> u8 \<Rightarrow> bool" where
  "second_ok a b \<longleftrightarrow>
     (if a = 0xe0 then 0xa0 \<le> b \<and> b \<le> 0xbf
      else if a = 0xed then 0x80 \<le> b \<and> b \<le> 0x9f
      else if a = 0xf0 then 0x90 \<le> b \<and> b \<le> 0xbf
      else if a = 0xf4 then 0x80 \<le> b \<and> b \<le> 0x8f
      else continues b)"

definition utf8_width :: "u8 \<Rightarrow> nat" where
  "utf8_width b = (if 0xc2 \<le> b \<and> b \<le> 0xdf then 2 else if 0xe0 \<le> b \<and> b \<le> 0xef then 3 else if 0xf0 \<le> b \<and> b \<le> 0xf4 then 4 else 1)"

definition low6 :: "u8 \<Rightarrow> nat" where "low6 b = unat b mod 64"

definition utf8_char :: "u8 \<Rightarrow> bytes \<Rightarrow> nat \<times> nat" where
  "utf8_char a rest =
     (if a < 0x80 then (unat a, 0)
      else if utf8_width a = 1 then (REPLACEMENT, 0)
      else case rest of
        [] \<Rightarrow> (REPLACEMENT, 0)
      | b # rest2 \<Rightarrow>
          if \<not> second_ok a b then (REPLACEMENT, 0)
          else if utf8_width a = 2 then ((unat a mod 32) * 64 + low6 b, 1)
          else (case rest2 of
              [] \<Rightarrow> (REPLACEMENT, 1)
            | c # rest3 \<Rightarrow>
                if \<not> continues c then (REPLACEMENT, 1)
                else if utf8_width a = 3 then ((unat a mod 16) * 4096 + low6 b * 64 + low6 c, 2)
                else (case rest3 of
                    [] \<Rightarrow> (REPLACEMENT, 2)
                  | d # _ \<Rightarrow>
                      if \<not> continues d then (REPLACEMENT, 2)
                      else ((unat a mod 8) * 262144 + low6 b * 4096 + low6 c * 64 + low6 d, 3))))"

function from_utf8_lossy :: "bytes \<Rightarrow> chars" where
  "from_utf8_lossy [] = []"
| "from_utf8_lossy (a # rest) = (case utf8_char a rest of (c, used) \<Rightarrow> c # from_utf8_lossy (drop used rest))"
  by pat_completeness auto
termination by (relation "measure length") auto

definition trim_end_nul :: "chars \<Rightarrow> chars" where
  "trim_end_nul s = rev (dropWhile (\<lambda>c. c = 0) (rev s))"

definition payout_hash :: "(bytes \<Rightarrow> bytes32) \<Rightarrow> bytes \<Rightarrow> Network \<Rightarrow> (AddressError, hash20) result" where
  "payout_hash sha256 recipient network = decode_p2pkh sha256 (trim_end_nul (from_utf8_lossy recipient)) network"

section \<open>Choosing coins\<close>

datatype SignerError = SignerUnavailable | SignerRejected | SignerTimeout | SignerUntrustworthy

datatype SigningError =
    SigningRequestNotFound i64
  | NotSourceFinalized i64 RequestState
  | SigningWrongDirection i64
  | InvalidDestination AddressError
  | CoinSelection CoinSelectionError
  | PlanVerificationFailed PayoutVerifyError
  | SigningLedger LedgerError
  | SigningConversion i64 ConversionError
  | SigningSigner SignerError
  | SigningDerivation DerivationError
  | UnknownVaultUtxoScript string
  | NotSettlementAuthorized i64 RequestState
  | PayoutNotRecoverable i64 "PayoutState option"
  | PayoutFieldMismatch i64 string
  | ReconstructedTxMismatch i64
  | SigningPanic

definition pool_key :: "VaultUtxo \<Rightarrow> int \<times> bytes32 \<times> u32" where
  "pool_key u = (- uint (utxo_amount_atomic u), utxo_txid u, utxo_vout u)"

definition unconfirmed_depth :: "ZeroConfChangeCandidate list \<Rightarrow> VaultUtxo \<Rightarrow> u64 option" where
  "unconfirmed_depth zero_conf u =
     (case find (\<lambda>c. utxo_txid (zc_utxo c) = utxo_txid u \<and> utxo_vout (zc_utxo c) = utxo_vout u) zero_conf of
        None \<Rightarrow> None
      | Some c \<Rightarrow> if zc_confirmations c = 0 then Some (ucast (zc_unconfirmed_ancestor_depth c)) else None)"

definition budget_used :: "ZeroConfChangeCandidate list \<Rightarrow> SelectionResult \<Rightarrow> u64" where
  "budget_used zero_conf selection = sum_list (List.map_filter (unconfirmed_depth zero_conf) (sel_selected selection))"

definition within_budget :: "PayoutPolicy \<Rightarrow> u64 \<Rightarrow> bool" where
  "within_budget policy used = (case pol_zero_conf_change_mode policy of
     DepthLimited \<Rightarrow> True
   | BridgeOwnedRecursive \<Rightarrow> used \<le> ucast (pol_zero_conf_change_recursive_chain_limit policy))"

definition depth_key :: "ZeroConfChangeCandidate \<Rightarrow> u32 \<times> bytes32 \<times> u32" where
  "depth_key c = (zc_unconfirmed_ancestor_depth c, utxo_txid (zc_utxo c), utxo_vout (zc_utxo c))"

definition deepest :: "ZeroConfChangeCandidate list \<Rightarrow> nat option" where
  "deepest zero_conf =
     (case filter (\<lambda>(i, c). zc_confirmations c = 0) (enumerate 0 zero_conf) of
        [] \<Rightarrow> None
      | x # xs \<Rightarrow> Some (fst (foldl (\<lambda>m y. if depth_key (snd y) \<ge> depth_key (snd m) then y else m) x xs)))"

lemma deepest_less:
  assumes "deepest zc = Some i"
  shows "i < length zc"
proof -
  let ?xs = "filter (\<lambda>(i, c). zc_confirmations c = 0) (enumerate 0 zc)"
    and ?f = "\<lambda>m y. if depth_key (snd y) \<ge> depth_key (snd m) then y else m"
  obtain x xs where xs: "?xs = x # xs" and i: "i = fst (foldl ?f x xs)"
    using assms by (auto simp: deepest_def split: list.splits)
  have "foldl ?f x xs \<in> insert x (set xs)" by (induction xs arbitrary: x) auto
  then have "foldl ?f x xs \<in> set ?xs" unfolding xs by simp
  then show ?thesis unfolding i by (auto simp: in_set_enumerate_eq)
qed

text \<open>The loop: each round has one candidate fewer.\<close>

function select_within_budget ::
  "PayoutPolicy \<Rightarrow> (VaultUtxo list \<Rightarrow> (CoinSelectionError, SelectionResult) result) \<Rightarrow> u64 \<Rightarrow> VaultUtxo list
    \<Rightarrow> ZeroConfChangeCandidate list \<Rightarrow> (CoinSelectionError, SelectionResult) result" where
  "select_within_budget policy select_from payout_atomic confirmed zero_conf =
     (let pool = sort_key pool_key (confirmed @ map zc_utxo zero_conf) in
      case select_from pool of
        Inl e \<Rightarrow> Inl e
      | Inr candidate_selection \<Rightarrow>
          if within_budget policy (budget_used zero_conf candidate_selection) then Inr candidate_selection
          else (case deepest zero_conf of
              None \<Rightarrow> Inl (InsufficientFunds payout_atomic 0)
            | Some i \<Rightarrow> select_within_budget policy select_from payout_atomic confirmed (take i zero_conf @ drop (Suc i) zero_conf)))"
  by pat_completeness auto
termination by (relation "measure (\<lambda>(_, _, _, _, zero_conf). length zero_conf)") (auto dest: deepest_less)

declare select_within_budget.simps [simp del]

definition is_insufficient :: "CoinSelectionError \<Rightarrow> bool" where
  "is_insufficient e = (case e of InsufficientFunds _ _ \<Rightarrow> True | _ \<Rightarrow> False)"

definition choose_coins ::
  "PayoutPolicy \<Rightarrow> MultisigVault \<Rightarrow> u64 \<Rightarrow> Ledger \<Rightarrow> (CoinSelectionError, SelectionResult) result" where
  "choose_coins policy vault payout_atomic l =
     (let effective_depth = effective_zero_conf_depth policy;
          confirmed = available_vault_utxos l;
          select_from = (\<lambda>candidates. select candidates payout_atomic (pol_fee_rate_per_kb policy) (mv_threshold vault)
            (length (redeem_script vault)) (pol_max_inputs policy))
      in case select_from confirmed of
        Inr s \<Rightarrow> Inr s
      | Inl e \<Rightarrow>
          if is_insufficient e \<and> effective_depth > 0
          then select_within_budget policy select_from payout_atomic confirmed (zero_conf_change_vault_utxos_with_depth effective_depth l)
          else Inl e)"

section \<open>The plan\<close>

definition ascii_lower :: "char \<Rightarrow> char" where
  "ascii_lower c = (if 65 \<le> (of_char c :: nat) \<and> (of_char c :: nat) \<le> 90 then char_of (of_char c + 32 :: nat) else c)"

definition eq_ignore_ascii_case :: "string \<Rightarrow> string \<Rightarrow> bool" where
  "eq_ignore_ascii_case a b \<longleftrightarrow> map ascii_lower a = map ascii_lower b"

definition find_goldcoin_deposit_request_by_script :: "string \<Rightarrow> Ledger \<Rightarrow> (i64 \<times> RequestDirection) option" where
  "find_goldcoin_deposit_request_by_script script l =
     map_option (\<lambda>r. (br_id r, br_direction r))
       (find (\<lambda>r. source_is_goldcoin (br_direction r) \<and> br_deposit_script_pubkey_hex r = Some script) (requests l))"

text \<open>What the repository does not contain: the hash functions and the curve.\<close>

record ('sk, 'pk, 'sg) Crypto =
  cr_sha256 :: "bytes \<Rightarrow> bytes32"
  cr_ripemd160 :: "bytes \<Rightarrow> hash20"
  cr_secp :: "('sk, 'pk, 'sg) Secp256k1"

primrec input_contexts ::
  "('sk, 'pk, 'sg) Crypto \<Rightarrow> MultisigVault \<Rightarrow> Network \<Rightarrow> Ledger \<Rightarrow> VaultUtxo list \<Rightarrow> (SigningError, PayoutInputContext list) result" where
  "input_contexts cr vault network l [] = Inr []"
| "input_contexts cr vault network l (utxo # rest) =
     try_bind
       (if eq_ignore_ascii_case (utxo_script_pubkey_hex utxo) (script_pubkey_hex vault)
        then Inr \<lparr>pic_vault = vault, pic_funding_request_id = None\<rparr>
        else
          try_bind (ok_or (find_goldcoin_deposit_request_by_script (utxo_script_pubkey_hex utxo) l)
            (UnknownVaultUtxoScript (utxo_script_pubkey_hex utxo))) (\<lambda>(funding_request_id, _).
          try_bind (map_err SigningDerivation
            (derive_request_vault (cr_sha256 cr) (cr_ripemd160 cr) (cr_secp cr) vault funding_request_id network)) (\<lambda>derived_vault.
          Inr \<lparr>pic_vault = derived_vault, pic_funding_request_id = Some funding_request_id\<rparr>)))
       (\<lambda>ctx. try_bind (input_contexts cr vault network l rest) (\<lambda>ctxs. Inr (ctx # ctxs)))"

definition rederive_plan ::
  "('sk, 'pk, 'sg) Crypto \<Rightarrow> i64 \<Rightarrow> MultisigVault \<Rightarrow> PayoutPolicy \<Rightarrow> Network \<Rightarrow> Ledger \<Rightarrow> (SigningError, PayoutPlan) result" where
  "rederive_plan cr request_id vault policy network l =
     try_bind (ok_or (get_request l request_id) (SigningRequestNotFound request_id)) (\<lambda>request.
     require (destination_is_goldcoin (br_direction request)) (SigningWrongDirection request_id) (
     require (br_state request = SourceFinalized) (NotSourceFinalized request_id (br_state request)) (
     try_bind (map_err InvalidDestination (payout_hash (cr_sha256 cr) (br_recipient request) network)) (\<lambda>dest_p2pkh_hash.
     try_bind (map_err (SigningConversion request_id) (verify_breakdown request)) (\<lambda>fee_breakdown.
     let payout_atomic = fb_net fee_breakdown in
     try_bind (map_err CoinSelection (choose_coins policy vault payout_atomic l)) (\<lambda>selection.
     let input_bytes = multisig_input_bytes (mv_threshold vault) (length (redeem_script vault));
         (change_outputs, fee_atomic) = finalize_fanout selection payout_atomic (length (sel_selected selection)) input_bytes
           (pol_fee_rate_per_kb policy) (pol_dust_threshold policy) (pol_change_fanout_target_atomic policy)
           (pol_change_fanout_max_outputs policy) in
     try_bind (input_contexts cr vault network l (sel_selected selection)) (\<lambda>contexts.
     Inr \<lparr>pp_inputs = sel_selected selection, pp_input_contexts = contexts, pp_dest_p2pkh_hash = dest_p2pkh_hash,
       pp_payout_atomic = payout_atomic, pp_change_outputs = change_outputs,
       pp_vault_script_pubkey = script_pubkey vault, pp_fee_atomic = fee_atomic\<rparr>)))))))"

definition recover_plan ::
  "('sk, 'pk, 'sg) Crypto \<Rightarrow> i64 \<Rightarrow> MultisigVault \<Rightarrow> Network \<Rightarrow> Ledger \<Rightarrow> (SigningError, PayoutPlan) result" where
  "recover_plan cr request_id vault network l =
     try_bind (ok_or (get_request l request_id) (SigningRequestNotFound request_id)) (\<lambda>request.
     require (destination_is_goldcoin (br_direction request)) (SigningWrongDirection request_id) (
     require (br_state request = SettlementAuthorized) (NotSettlementAuthorized request_id (br_state request)) (
     try_bind (map_err InvalidDestination (payout_hash (cr_sha256 cr) (br_recipient request) network)) (\<lambda>dest_p2pkh_hash.
     try_bind (map_err (SigningConversion request_id) (verify_breakdown request)) (\<lambda>fee_breakdown.
     let payout_atomic = fb_net fee_breakdown in
     try_bind (ok_or (get_goldcoin_payout l request_id) (PayoutNotRecoverable request_id None)) (\<lambda>payout_row.
     require (gp_state payout_row = PayoutSigned) (PayoutNotRecoverable request_id (Some (gp_state payout_row))) (
     require (as_u64 (gp_payout_atomic payout_row) = payout_atomic) (PayoutFieldMismatch request_id ''payout_atomic'') (
     require (gp_dest_p2pkh_hash payout_row = dest_p2pkh_hash) (PayoutFieldMismatch request_id ''dest_p2pkh_hash'') (
     try_bind (map_err SigningLedger (get_goldcoin_payout_inputs request_id l)) (\<lambda>inputs.
     try_bind (input_contexts cr vault network l inputs) (\<lambda>contexts.
     let plan = \<lparr>pp_inputs = inputs, pp_input_contexts = contexts, pp_dest_p2pkh_hash = dest_p2pkh_hash,
           pp_payout_atomic = payout_atomic,
           pp_change_outputs = goldcoin_payout_change_outputs l request_id (as_u64 (gp_change_atomic payout_row)),
           pp_vault_script_pubkey = script_pubkey vault, pp_fee_atomic = as_u64 (gp_fee_atomic payout_row)\<rparr>;
         rebuilt = build_unsigned_tx plan in
     require (Some (hex_encode (serialize rebuilt)) = gp_unsigned_tx_hex payout_row) (ReconstructedTxMismatch request_id) (
     try_bind (map_err PlanVerificationFailed (verify_payout_tx rebuilt plan)) (\<lambda>_. Inr plan)))))))))))))"

section \<open>Signing\<close>

record VaultSigner =
  signer_public_key :: pubkey33
  signer_sign_sighash :: "bytes32 \<Rightarrow> (SignerError, bytes) result"
  signer_sign_derived :: "i64 \<Rightarrow> bytes32 \<Rightarrow> (SignerError, pubkey33 \<times> bytes) result"

definition dev_vault_signer :: "('sk, 'pk, 'sg) Crypto \<Rightarrow> 'sk \<Rightarrow> VaultSigner" where
  "dev_vault_signer cr secret_key =
     (let secp = cr_secp cr in
      \<lparr>signer_public_key = secp_serialize_compressed secp (secp_public secp secret_key),
       signer_sign_sighash = (\<lambda>sighash. Inr (sign_low_s secp sighash secret_key)),
       signer_sign_derived = (\<lambda>request_id sighash.
         try_bind (map_err (\<lambda>_. SignerRejected) (derive_request_seckey (cr_sha256 cr) secp secret_key request_id)) (\<lambda>derived_sk.
         Inr (secp_serialize_compressed secp (secp_public secp derived_sk), sign_low_s secp sighash derived_sk)))\<rparr>)"

definition independently_sign ::
  "('sk, 'pk, 'sg) Crypto \<Rightarrow> VaultSigner \<Rightarrow> (SigningError, PayoutPlan) result \<Rightarrow> nat
    \<Rightarrow> (SigningError, PartialSignature \<times> PayoutPlan \<times> Transaction) result" where
  "independently_sign cr signer rederived input_index =
     try_bind rederived (\<lambda>plan.
     let unsigned_tx = build_unsigned_tx plan in
     try_bind (map_err PlanVerificationFailed (verify_payout_tx unsigned_tx plan)) (\<lambda>_.
     require (input_index < length (pp_input_contexts plan)) SigningPanic (
     let ctx = pp_input_contexts plan ! input_index;
         sighash = sighash_all (cr_sha256 cr) unsigned_tx input_index (redeem_script (pic_vault ctx)) in
     try_bind (map_err SigningSigner (case pic_funding_request_id ctx of
         None \<Rightarrow> try_bind (signer_sign_sighash signer sighash) (\<lambda>der. Inr (signer_public_key signer, der))
       | Some funding_request_id \<Rightarrow> signer_sign_derived signer funding_request_id sighash)) (\<lambda>(vault_pubkey, der).
     Inr (\<lparr>ps_vault_pubkey = vault_pubkey, ps_der_signature = der\<rparr>, plan, unsigned_tx)))))"

end
