(* ===== verification/Payout_Flow.thy ===== *)
theory Payout_Flow
  imports Goldcoin_Signing
begin

text \<open>
  From a finalized deposit to a transaction on the Goldcoin network: \<open>independently_sign_all_inputs\<close> of
  \<open>signing/goldcoin_vault.rs\<close>, \<open>build_and_broadcast_payout\<close> of \<open>orchestrator.rs\<close> and
  \<open>recover_stuck_goldcoin_payout\<close> of \<open>goldcoin/payout_recovery.rs\<close>. A flow commits to the ledger several times
  before it can fail, so it returns its result, the ledger it leaves behind in either case, and the text it handed to the
  node, if it came that far. The node's answer is an argument. The audit log of signature grants, whose failure the
  code ignores, is left out.
\<close>

section \<open>Signing every input\<close>

primrec sign_each ::
  "('sk, 'pk, 'sg) Crypto \<Rightarrow> VaultSigner \<Rightarrow> (SigningError, PayoutPlan) result \<Rightarrow> nat list \<Rightarrow> (SigningError, PartialSignature list) result" where
  "sign_each cr signer rederived [] = Inr []"
| "sign_each cr signer rederived (input_index # rest) =
     try_bind (independently_sign cr signer rederived input_index) (\<lambda>(partial, _, _).
     try_bind (sign_each cr signer rederived rest) (\<lambda>partials. Inr (partial # partials)))"

primrec sign_with_others ::
  "('sk, 'pk, 'sg) Crypto \<Rightarrow> (SigningError, PayoutPlan) result \<Rightarrow> VaultSigner list \<Rightarrow> PartialSignature list list
    \<Rightarrow> (SigningError, PartialSignature list list) result" where
  "sign_with_others cr rederived [] partials = Inr partials"
| "sign_with_others cr rederived (signer # rest) partials =
     try_bind (sign_each cr signer rederived [0..<length partials]) (\<lambda>ps.
     sign_with_others cr rederived rest (map2 (\<lambda>slot p. slot @ [p]) partials ps))"

definition independently_sign_all_inputs ::
  "('sk, 'pk, 'sg) Crypto \<Rightarrow> VaultSigner list \<Rightarrow> (SigningError, PayoutPlan) result \<Rightarrow> nat
    \<Rightarrow> (SigningError, PayoutPlan \<times> Transaction \<times> PartialSignature list list) result" where
  "independently_sign_all_inputs cr vault_signers rederived threshold =
     require (vault_signers \<noteq> []) SigningPanic (
     try_bind (independently_sign cr (hd vault_signers) rederived 0) (\<lambda>(first_partial, plan, tx).
     try_bind (sign_each cr (hd vault_signers) rederived [1..<length (pp_inputs plan)]) (\<lambda>others.
     require (1 \<le> threshold \<and> threshold \<le> length vault_signers) SigningPanic (
     try_bind (sign_with_others cr rederived (take (threshold - 1) (tl vault_signers)) (map (\<lambda>p. [p]) (first_partial # others)))
       (\<lambda>partials. Inr (plan, tx, partials))))))"

definition set_script_sig :: "nat \<Rightarrow> bytes \<Rightarrow> Transaction \<Rightarrow> Transaction" where
  "set_script_sig i s tx = tx\<lparr>tx_inputs := (tx_inputs tx)[i := (tx_inputs tx ! i)\<lparr>ti_script_sig := s\<rparr>]\<rparr>"

primrec assemble_inputs ::
  "('sk, 'pk, 'sg) Crypto \<Rightarrow> PayoutPlan \<Rightarrow> (nat \<times> PartialSignature list) list \<Rightarrow> Transaction \<Rightarrow> (MultisigError, Transaction) result" where
  "assemble_inputs cr plan [] tx = Inr tx"
| "assemble_inputs cr plan (slot # rest) tx =
     (case slot of (input_index, input_partials) \<Rightarrow>
       require (input_index < length (pp_input_contexts plan) \<and> input_index < length (tx_inputs tx)) MultisigPanic (
       let input_vault = pic_vault (pp_input_contexts plan ! input_index);
           sighash = sighash_all (cr_sha256 cr) tx input_index (redeem_script input_vault)
       in try_bind (assemble (cr_secp cr) input_vault sighash input_partials) (\<lambda>script_sig.
          assemble_inputs cr plan rest (set_script_sig input_index script_sig tx))))"

section \<open>The flows\<close>

datatype BroadcastOutcome = Accepted string | AlreadyInChain | AlreadyInMempool | MissingInputs

datatype FlowError =
    FlowSigning SigningError
  | FlowMultisig MultisigError
  | FlowLedger LedgerError
  | FlowRpc
  | BroadcastConflict i64

type_synonym 'a flow = "(FlowError, 'a) result \<times> Ledger \<times> string option"

text \<open>A statement that commits: its failure ends the flow and leaves the ledger as it was before the statement.\<close>

definition commit_or_stop :: "(LedgerError, Ledger) result \<Rightarrow> Ledger \<Rightarrow> string option \<Rightarrow> (Ledger \<Rightarrow> 'a flow) \<Rightarrow> 'a flow" where
  "commit_or_stop statement l sent k = (case statement of Inl e \<Rightarrow> (Inl (FlowLedger e), l, sent) | Inr l' \<Rightarrow> k l')"

definition broadcast_signed ::
  "('sk, 'pk, 'sg) Crypto \<Rightarrow> (string \<Rightarrow> BroadcastOutcome option) \<Rightarrow> i64 \<Rightarrow> Transaction \<Rightarrow> (bytes32 \<Rightarrow> 'a) \<Rightarrow> i64 \<Rightarrow> Ledger \<Rightarrow> 'a flow" where
  "broadcast_signed cr send_raw_transaction request_id tx outcome now l =
     (let signed_hex = hex_encode (serialize tx); txid = transaction_txid (cr_sha256 cr) tx in
      case send_raw_transaction signed_hex of
        None \<Rightarrow> (Inl FlowRpc, l, Some signed_hex)
      | Some MissingInputs \<Rightarrow> (Inl (BroadcastConflict request_id), l, Some signed_hex)
      | Some _ \<Rightarrow> commit_or_stop (record_goldcoin_payout_broadcast request_id txid now l) l (Some signed_hex)
          (\<lambda>l. (Inr (outcome txid), l, Some signed_hex)))"

definition build_and_broadcast_payout ::
  "('sk, 'pk, 'sg) Crypto \<Rightarrow> VaultSigner list \<Rightarrow> MultisigVault \<Rightarrow> nat \<Rightarrow> PayoutPolicy \<Rightarrow> Network
    \<Rightarrow> (string \<Rightarrow> BroadcastOutcome option) \<Rightarrow> i64 \<Rightarrow> i64 \<Rightarrow> Ledger \<Rightarrow> unit flow" where
  "build_and_broadcast_payout cr vault_signers vault threshold policy network send_raw_transaction request_id now l =
     (case independently_sign_all_inputs cr vault_signers (rederive_plan cr request_id vault policy network l) threshold of
        Inl e \<Rightarrow> (Inl (FlowSigning e), l, None)
      | Inr (plan, tx, partials) \<Rightarrow>
          commit_or_stop (reserve_vault_utxos request_id (pp_inputs plan) (effective_zero_conf_depth policy) now l) l None (\<lambda>l.
          commit_or_stop (record_goldcoin_payout_built request_id plan (cr_sha256 cr (serialize tx)) (hex_encode (serialize tx)) now l) l None (\<lambda>l.
          case assemble_inputs cr plan (enumerate 0 partials) tx of
            Inl e \<Rightarrow> (Inl (FlowMultisig e), l, None)
          | Inr tx \<Rightarrow>
              commit_or_stop (record_goldcoin_payout_signed request_id (hex_encode (serialize tx)) now l) l None (\<lambda>l.
              broadcast_signed cr send_raw_transaction request_id tx (\<lambda>_. ()) now l))))"

datatype RecoveryOutcome = RecoveryBroadcast bytes32 bool | RecoveryAlreadyDone PayoutState

definition recover_stuck_goldcoin_payout ::
  "('sk, 'pk, 'sg) Crypto \<Rightarrow> VaultSigner list \<Rightarrow> MultisigVault \<Rightarrow> nat \<Rightarrow> Network
    \<Rightarrow> (string \<Rightarrow> BroadcastOutcome option) \<Rightarrow> i64 \<Rightarrow> i64 \<Rightarrow> Ledger \<Rightarrow> RecoveryOutcome flow" where
  "recover_stuck_goldcoin_payout cr vault_signers vault threshold network send_raw_transaction request_id now l =
     (case get_goldcoin_payout l request_id of
        None \<Rightarrow> (Inl (FlowSigning (PayoutNotRecoverable request_id None)), l, None)
      | Some payout \<Rightarrow>
          if gp_state payout \<in> {PayoutBroadcast, PayoutConfirmed, PayoutCompleted}
          then (Inr (RecoveryAlreadyDone (gp_state payout)), l, None)
          else if gp_state payout \<noteq> PayoutSigned
          then (Inl (FlowSigning (PayoutNotRecoverable request_id (Some (gp_state payout)))), l, None)
          else (case independently_sign_all_inputs cr vault_signers (recover_plan cr request_id vault network l) threshold of
              Inl e \<Rightarrow> (Inl (FlowSigning e), l, None)
            | Inr (plan, tx, partials) \<Rightarrow>
                (case assemble_inputs cr plan (enumerate 0 partials) tx of
                   Inl e \<Rightarrow> (Inl (FlowMultisig e), l, None)
                 | Inr tx \<Rightarrow>
                     let signed_hex = hex_encode (serialize tx);
                         resigned_hex_changed = (gp_signed_tx_hex payout \<noteq> Some signed_hex) in
                     commit_or_stop (record_goldcoin_payout_resigned request_id signed_hex now l) l None (\<lambda>l.
                     broadcast_signed cr send_raw_transaction request_id tx (\<lambda>txid. RecoveryBroadcast txid resigned_hex_changed) now l))))"

end
