(* ===== verification/Ledger_Solana_Source.thy ===== *)
theory Ledger_Solana_Source
  imports Ledger_Admission Claim_Messages
begin

text \<open>
  Deposits into the Solana program folded into the ledger, \<open>fold_sol_deposit\<close> and
  \<open>fold_sol_deposit_to_robinhood\<close> of \<open>service/src/ledger/mod.rs\<close>. A deposit is
  already final when it is folded, so it is always recorded: with its reservation when the gates
  admit it, parked for manual review without one when they do not.
\<close>

datatype SolFoldOutcome = FoldedFinalized i64 | AlreadyFolded i64 | FoldedManualReview i64

definition folded_solana_request :: "u64 \<Rightarrow> Ledger \<Rightarrow> BridgeRequest option" where
  "folded_solana_request obligation_index l =
     find (\<lambda>r. br_source_chain r = SrcSolana \<and> br_source_obligation_index r = Some (as_i64 obligation_index))
       (requests l)"

definition folded_row ::
  "RequestDirection \<Rightarrow> RequestState \<Rightarrow> u64 \<Rightarrow> RequestAmounts \<Rightarrow> QuoteColumns \<Rightarrow> bytes32 \<Rightarrow> bytes
    \<Rightarrow> string option \<Rightarrow> i64 \<Rightarrow> BridgeRequest" where
  "folded_row direction state obligation_index amounts quote requester recipient note now =
     blank_request\<lparr>br_direction := direction, br_state := state,
       br_gross_amount_atomic := as_i64 (am_gross_atomic amounts), br_fee_bps := as_i64 (am_fee_bps amounts),
       br_fee_amount_atomic := as_i64 (am_fee_atomic amounts),
       br_net_amount_atomic := as_i64 (am_net_atomic amounts),
       br_net_destination_atomic := as_i64 (am_net_destination_atomic amounts),
       br_recipient := recipient, br_requester := Some (to_bytes requester), br_created_at := now,
       br_reserved_at := Some now, br_source_obligation_index := Some (as_i64 obligation_index),
       br_source_confirmations := 1, br_source_finalized_at := Some now, br_manual_review_note := note,
       br_source_chain := SrcSolana, br_source_contract := Some PROGRAM_ID_BYTES,
       br_source_wallet := Some (to_bytes requester), br_quote := quote,
       br_quote_locked_at := quote_locked_at_fold quote now\<rparr>"

text \<open>
  Both folds evaluate the liquidity gate of the destination reserve inside the transaction and
  commit its new state with the row.
\<close>

definition evaluate_gate_in :: "ReserveDirection \<Rightarrow> i64 \<Rightarrow> Ledger \<Rightarrow> bool ledger_result" where
  "evaluate_gate_in reserve now l =
     try_bind (reserve_headroom reserve l) (\<lambda>available.
     try_bind (read_liquidity_admission_row reserve l) (\<lambda>(buffer_atomic, reopen_atomic, was_liquidity_closed).
     let closed = next_liquidity_admission_closed was_liquidity_closed available buffer_atomic reopen_atomic
     in Inr (closed, write_liquidity_admission_state reserve was_liquidity_closed closed now l)))"

text \<open>The insert both folds end with: the row, its log entry, the burst hold, the reservation.\<close>

definition commit_fold ::
  "BridgeRequest \<Rightarrow> string \<Rightarrow> RapidBurstMatch option \<Rightarrow> bool \<Rightarrow> i64 \<Rightarrow> Ledger \<Rightarrow> SolFoldOutcome ledger_result" where
  "commit_fold row log_reason burst admitted now l =
     try_bind (insert_request l row) (\<lambda>(request_id, l).
     let l = log_transition request_id None (br_state row) now (Some log_reason) ''system'' l in
     try_bind (case burst of None \<Rightarrow> Inr l | Some matched \<Rightarrow> mark_rapid_burst_hold_in request_id matched now l) (\<lambda>l.
     if admitted then
       Inr (FoldedFinalized request_id, update_reserve (destination_reserve (br_direction row))
         (\<lambda>rv. add_pending (br_net_destination_atomic row)
           (reserve_liquidity (br_net_destination_atomic row) rv)) l)
     else Inr (FoldedManualReview request_id, l)))"

definition fold_sol_deposit ::
  "u64 \<Rightarrow> RequestAmounts \<Rightarrow> bytes32 \<Rightarrow> bytes \<Rightarrow> string option \<Rightarrow> i64 \<Rightarrow> Ledger \<Rightarrow> SolFoldOutcome ledger_result" where
  "fold_sol_deposit obligation_index amounts requester recipient_glc_address refusal now l =
     try_bind (for_new_request amounts) (\<lambda>quote.
     case folded_solana_request obligation_index l of
       Some r \<Rightarrow> Inr (AlreadyFolded (br_id r), l)
     | None \<Rightarrow>
         try_bind (evaluate_gate_in GoldcoinReserve now l) (\<lambda>(liquidity_admission_closed, l).
         let eligibility = route_wallet_eligibility_in l DirSolToGlc (Some (to_bytes requester))
               (Some recipient_glc_address) now NewRequest
         in try_bind (read_gates l DirSolToGlc liquidity_admission_closed) (\<lambda>gates.
         let blocker = admission_blocker gates (as_i64 (am_net_destination_atomic amounts))
               (rate_limits_of eligibility);
             burst = rapid_burst_verdict_in l DirSolToGlc (Some (to_bytes requester))
               (Some recipient_glc_address) (am_gross_atomic amounts) now NewRequest;
             capacity_ok = (blocker = None \<and> refusal = None \<and> burst = None);
             manual_review_reason =
               (if burst \<noteq> None then MANUAL_REVIEW_REASON_RAPID_BURST_HOLD
                else case refusal of
                  Some reason \<Rightarrow> reason
                | None \<Rightarrow> (case blocker of
                    Some b \<Rightarrow> blocker_review_note b
                  | None \<Rightarrow> MANUAL_REVIEW_REASON_INSUFFICIENT_CAPACITY))
         in commit_fold (folded_row DirSolToGlc (if capacity_ok then SourceFinalized else ManualReview)
              obligation_index amounts quote requester recipient_glc_address
              (if capacity_ok then None else Some manual_review_reason) now)
              ''retroactive_fold_sol_deposit'' burst capacity_ok now l)))"

definition fold_sol_deposit_to_robinhood ::
  "u64 \<Rightarrow> RequestAmounts \<Rightarrow> bytes32 \<Rightarrow> bytes option \<Rightarrow> bytes \<Rightarrow> bool \<Rightarrow> string option \<Rightarrow> i64 \<Rightarrow> Ledger
    \<Rightarrow> SolFoldOutcome ledger_result" where
  "fold_sol_deposit_to_robinhood obligation_index amounts requester recipient_evm raw_destination route_open
     refusal now l =
     require (am_net_destination_atomic amounts = am_net_atomic amounts) LedgerPanic (
     try_bind (for_new_request amounts) (\<lambda>quote.
     case folded_solana_request obligation_index l of
       Some r \<Rightarrow> Inr (AlreadyFolded (br_id r), l)
     | None \<Rightarrow>
         try_bind (evaluate_gate_in RobinhoodReserve now l) (\<lambda>(liquidity_admission_closed, l).
         let eligibility = route_wallet_eligibility_in l DirSolToRhn (Some (to_bytes requester))
               recipient_evm now NewRequest
         in try_bind (read_gates l DirSolToRhn liquidity_admission_closed) (\<lambda>gates.
         let reserve_blocker = admission_blocker gates (as_i64 (am_net_destination_atomic amounts))
               (rate_limits_of eligibility);
             burst = rapid_burst_verdict_in l DirSolToRhn (Some (to_bytes requester)) recipient_evm
               (am_gross_atomic amounts) now NewRequest;
             payable = (route_open \<and> refusal = None \<and> recipient_evm \<noteq> None \<and> reserve_blocker = None
               \<and> burst = None);
             note =
               (if payable then None
                else if burst \<noteq> None then Some MANUAL_REVIEW_REASON_RAPID_BURST_HOLD
                else case refusal of
                  Some explicit \<Rightarrow> Some explicit
                | None \<Rightarrow>
                    if recipient_evm = None then Some ''undeliverable destination''
                    else if \<not> route_open then Some MANUAL_REVIEW_REASON_ROUTE_DISABLED
                    else Some (case reserve_blocker of
                      Some b \<Rightarrow> blocker_review_note b
                    | None \<Rightarrow> MANUAL_REVIEW_REASON_INSUFFICIENT_CAPACITY))
         in commit_fold (folded_row DirSolToRhn (if payable then SourceFinalized else ManualReview)
              obligation_index amounts quote requester
              (case recipient_evm of Some address \<Rightarrow> address | None \<Rightarrow> raw_destination) note now)
              ''retroactive_fold_sol_deposit_to_robinhood'' burst payable now l))))"

end
