(* ===== verification/Escrow.thy ===== *)
theory Escrow
  imports Main "HOL-Library.Multiset"
begin

text \<open>
  The contract of a reserve: an escrow that keeps, for every account, a balance, a protected floor
  and the promises made against it. A promise is of a non-negative amount and is made only when the balance above the floor and the
  other promises covers it, it may be lowered, a promise that is kept is paid out of the balance, and
  one that is given up is forgotten. Refinement proofs map the ledger onto this machine; the locale states
  once how steps of an implementation are followed by runs of a specification.
\<close>

section \<open>The machine\<close>

record ('acc, 'key) escrow =
  es_balance :: "'acc \<Rightarrow> int"
  es_floor :: "'acc \<Rightarrow> int"
  es_promises :: "('key \<times> 'acc \<times> int) multiset"

definition promised :: "('acc, 'key) escrow \<Rightarrow> 'acc \<Rightarrow> int" where
  "promised e d = (\<Sum>(k, a, n) \<in># es_promises e. if a = d then n else 0)"

definition uncommitted :: "('acc, 'key) escrow \<Rightarrow> 'acc \<Rightarrow> int" where
  "uncommitted e d = es_balance e d - es_floor e d - promised e d"

inductive escrow_step :: "('acc, 'key) escrow \<Rightarrow> ('acc, 'key) escrow \<Rightarrow> bool" where
  promise: "0 \<le> n \<Longrightarrow> n \<le> uncommitted e d \<Longrightarrow> escrow_step e (e\<lparr>es_promises := add_mset (k, d, n) (es_promises e)\<rparr>)"
| lower: "0 \<le> n' \<Longrightarrow> n' \<le> n \<Longrightarrow> escrow_step (e\<lparr>es_promises := add_mset (k, d, n) ps\<rparr>)
    (e\<lparr>es_promises := add_mset (k, d, n') ps\<rparr>)"
| give_up: "escrow_step (e\<lparr>es_promises := add_mset (k, d, n) ps\<rparr>) (e\<lparr>es_promises := ps\<rparr>)"
| keep: "escrow_step (e\<lparr>es_promises := add_mset (k, d, n) ps\<rparr>)
    (e\<lparr>es_promises := ps, es_balance := (es_balance e)(d := es_balance e d - n)\<rparr>)"

text \<open>What is outside the escrow's control: a balance is observed on the chain, a floor is set.\<close>

inductive escrow_environment :: "('acc, 'key) escrow \<Rightarrow> ('acc, 'key) escrow \<Rightarrow> bool" where
  observe: "escrow_environment e (e\<lparr>es_balance := (es_balance e)(d := b)\<rparr>)"
| set_floor: "escrow_environment e (e\<lparr>es_floor := (es_floor e)(d := f)\<rparr>)"

lemma promised_add [simp]:
  "promised (e\<lparr>es_promises := add_mset (k, d, n) ps\<rparr>) d' =
     (if d' = d then n else 0) + promised (e\<lparr>es_promises := ps\<rparr>) d'"
  by (simp add: promised_def)

lemma promised_balance [simp]: "promised (e\<lparr>es_balance := b\<rparr>) d = promised e d"
  by (simp add: promised_def)

text \<open>
  A step never takes an account below its floor: what is uncommitted only shrinks as far as zero.
\<close>

definition covered :: "('acc, 'key) escrow \<Rightarrow> bool" where
  "covered e \<longleftrightarrow> (\<forall>d. 0 \<le> uncommitted e d)"

definition lawful :: "('acc, 'key) escrow \<Rightarrow> bool" where
  "lawful e \<longleftrightarrow> (\<forall>(k, d, n) \<in># es_promises e. 0 \<le> n)"

lemma escrow_step_covered:
  assumes "escrow_step e e'" "covered e" "lawful e"
  shows "covered e'"
  using assms
proof induction
  case (promise n e d k)
  then show ?case by (simp add: covered_def uncommitted_def promised_def)
next
  case (lower n' n k d ps e)
  show ?case
    unfolding covered_def
  proof
    fix d'
    have "0 \<le> uncommitted (e\<lparr>es_promises := add_mset (k, d, n) ps\<rparr>) d'"
      using lower.prems(1) by (simp only: covered_def)
    with lower.hyps(2) show "0 \<le> uncommitted (e\<lparr>es_promises := add_mset (k, d, n') ps\<rparr>) d'"
      by (simp add: uncommitted_def promised_def split: if_splits)
  qed
next
  case (give_up k d n ps e)
  have n: "0 \<le> n" using give_up.prems(2) by (simp add: lawful_def)
  show ?case
    unfolding covered_def
  proof
    fix d'
    have "0 \<le> uncommitted (e\<lparr>es_promises := add_mset (k, d, n) ps\<rparr>) d'"
      using give_up.prems(1) by (simp only: covered_def)
    with n show "0 \<le> uncommitted (e\<lparr>es_promises := ps\<rparr>) d'"
      by (simp add: uncommitted_def promised_def split: if_splits)
  qed
next
  case (keep k d n ps e)
  have "uncommitted (e\<lparr>es_promises := ps, es_balance := (es_balance e)(d := es_balance e d - n)\<rparr>) d' =
      uncommitted (e\<lparr>es_promises := add_mset (k, d, n) ps\<rparr>) d'" for d'
    by (simp add: uncommitted_def promised_def)
  with keep.prems(1) show ?case by (simp add: covered_def)
qed

text \<open>
  Moving between two states that differ in one promise: the old one is given up and the new one, if
  any, is covered by what that leaves uncommitted; or the promise is paid.
\<close>

lemma escrow_reprice:
  assumes p: "es_promises e = (if h then add_mset (k, d, n) rest else rest)"
    and p': "es_promises e' = (if h' then add_mset (k, d, n') rest else rest)"
    and same: "es_balance e' = es_balance e" "es_floor e' = es_floor e"
    and nonneg: "h' \<Longrightarrow> 0 \<le> n'"
    and ok: "h' \<Longrightarrow> h \<and> n' \<le> n \<or> n' \<le> uncommitted e d + (if h then n else 0)"
  shows "escrow_step\<^sup>*\<^sup>* e (e' :: ('acc, 'key) escrow)"
proof -
  let ?mid = "e\<lparr>es_promises := rest\<rparr>"
  have to_mid: "escrow_step\<^sup>*\<^sup>* e ?mid"
  proof (cases h)
    case True
    then have "e = e\<lparr>es_promises := add_mset (k, d, n) rest\<rparr>" by (simp add: p)
    then show ?thesis by (metis give_up r_into_rtranclp)
  next
    case False
    then have "?mid = e" by (simp add: p)
    then show ?thesis by simp
  qed
  have u: "uncommitted ?mid d = uncommitted e d + (if h then n else 0)"
    by (simp add: uncommitted_def promised_def p)
  consider "\<not> h'" | "h" "h'" "n' \<le> n" | "h'" "n' \<le> uncommitted ?mid d"
    using ok u by auto
  then show ?thesis
  proof cases
    case 1
    then have "e' = ?mid" using p' same by simp
    with to_mid show ?thesis by simp
  next
    case 2
    have "e = e\<lparr>es_promises := add_mset (k, d, n) rest\<rparr>" "e' = e\<lparr>es_promises := add_mset (k, d, n') rest\<rparr>"
      using 2 p p' same by simp_all
    then show ?thesis by (metis lower[OF nonneg[OF 2(2)] 2(3)] r_into_rtranclp)
  next
    case 3
    have "e' = ?mid\<lparr>es_promises := add_mset (k, d, n') (es_promises ?mid)\<rparr>" using 3 p' same by simp
    with promise[OF nonneg[OF 3(1)] 3(2), of k] to_mid show ?thesis by simp
  qed
qed

lemma escrow_pay:
  assumes "es_promises e = add_mset (k, d, n) (es_promises e')" "es_floor e' = es_floor e"
    and "es_balance e' = (es_balance e)(d := es_balance e d - n)"
  shows "escrow_step e (e' :: ('acc, 'key) escrow)"
proof -
  have "e = e\<lparr>es_promises := add_mset (k, d, n) (es_promises e')\<rparr>"
    and "e' = e\<lparr>es_promises := es_promises e', es_balance := (es_balance e)(d := es_balance e d - n)\<rparr>"
    using assms by simp_all
  then show ?thesis by (metis keep)
qed

lemma escrow_step_lawful: "escrow_step e e' \<Longrightarrow> lawful e \<Longrightarrow> lawful e'"
  by (induction rule: escrow_step.induct) (auto simp: lawful_def)

lemma escrow_run_covered: "escrow_step\<^sup>*\<^sup>* e e' \<Longrightarrow> covered e \<Longrightarrow> lawful e \<Longrightarrow> covered e' \<and> lawful e'"
  by (induction rule: rtranclp_induct) (auto intro: escrow_step_covered escrow_step_lawful)

section \<open>Simulation\<close>

locale simulation =
  fixes step :: "'c \<Rightarrow> 'c \<Rightarrow> bool"
    and spec :: "'a \<Rightarrow> 'a \<Rightarrow> bool"
    and abs :: "'c \<Rightarrow> 'a"
    and inv :: "'c \<Rightarrow> bool"
  assumes step_inv: "inv c \<Longrightarrow> step c c' \<Longrightarrow> inv c'"
    and step_sim: "inv c \<Longrightarrow> step c c' \<Longrightarrow> spec\<^sup>*\<^sup>* (abs c) (abs c')"
begin

lemma run_inv: "step\<^sup>*\<^sup>* c c' \<Longrightarrow> inv c \<Longrightarrow> inv c'"
  by (induction rule: rtranclp_induct) (auto intro: step_inv)

lemma run_refines: "step\<^sup>*\<^sup>* c c' \<Longrightarrow> inv c \<Longrightarrow> spec\<^sup>*\<^sup>* (abs c) (abs c')"
proof (induction rule: rtranclp_induct)
  case (step c' c'')
  then have "spec\<^sup>*\<^sup>* (abs c') (abs c'')" using run_inv step_sim by blast
  with step show ?case by (meson rtranclp_trans)
qed simp

end

end
