(* ===== verification/Ledger_Accounting.thy ===== *)
theory Ledger_Accounting
  imports Ledger_Refunds Ledger_Solana_Source Escrow
begin

text \<open>
  The accounting of the ledger. \<open>holds_reservation\<close> says which rows have liquidity set aside for
  them; the invariant says that the \<open>reserved_liquidity\<close> column of each reserve is exactly the sum of
  their amounts, and that payouts and refunds agree with the state of the request they belong to.
  \<open>escrow_of\<close> forgets the column and keeps the promises: the ledger refines the escrow of
  theory \<open>Escrow\<close>. The lemmas here follow one row through one statement; the theories that import
  this one follow the operations.
\<close>

section \<open>What a row holds\<close>

definition parked_with_reservation :: "BridgeRequest \<Rightarrow> bool" where
  "parked_with_reservation r \<longleftrightarrow>
     source_is_goldcoin (br_direction r) \<and> br_manual_review_note r \<noteq> Some LATE_DEPOSIT_NO_CAPACITY
     \<or> source_is_robinhood (br_direction r) \<and> br_manual_review_note r = Some MANUAL_REVIEW_REASON_FOREIGN_CONTRACT"

fun state_holds :: "RequestState \<Rightarrow> bool \<Rightarrow> bool \<Rightarrow> bool" where
  "state_holds LiquidityReserved _ _ = True"
| "state_holds AwaitingDeposit _ _ = True"
| "state_holds DepositObserved _ _ = True"
| "state_holds Confirming _ _ = True"
| "state_holds SourceFinalized _ _ = True"
| "state_holds SettlementAuthorized _ _ = True"
| "state_holds DestinationSubmitted _ _ = True"
| "state_holds DestinationConfirmed debited _ = (\<not> debited)"
| "state_holds ManualReview _ parked = parked"
| "state_holds RefundPending _ parked = parked"
| "state_holds RefundBroadcast _ parked = parked"
| "state_holds Closed _ parked = parked"
| "state_holds _ _ _ = False"

definition holds_reservation :: "BridgeRequest \<Rightarrow> bool" where
  "holds_reservation r = state_holds (br_state r)
     (destination_debited_at_destination_confirmed (br_direction r)) (parked_with_reservation r)"

definition request_reserve :: "BridgeRequest \<Rightarrow> ReserveDirection" where
  "request_reserve r = destination_reserve (br_direction r)"

definition held_amount :: "BridgeRequest \<Rightarrow> int" where
  "held_amount r = (if holds_reservation r then br_net_destination_atomic r else 0)"

definition held_total :: "ReserveDirection \<Rightarrow> BridgeRequest list \<Rightarrow> int" where
  "held_total d rows = sum_list (map (\<lambda>r. if request_reserve r = d then held_amount r else 0) rows)"

definition promise_of :: "BridgeRequest \<Rightarrow> i64 \<times> ReserveDirection \<times> int" where
  "promise_of r = (br_id r, request_reserve r, br_net_destination_atomic r)"

definition escrow_of :: "Ledger \<Rightarrow> (ReserveDirection, i64) escrow" where
  "escrow_of l =
     \<lparr>es_balance = (\<lambda>d. case reserves l d of None \<Rightarrow> 0 | Some row \<Rightarrow> rv_total_reserve_balance row),
      es_floor = (\<lambda>d. case reserves l d of None \<Rightarrow> 0 | Some row \<Rightarrow> rv_protected_minimum row),
      es_promises = image_mset promise_of (filter_mset holds_reservation (mset (requests l)))\<rparr>"

section \<open>Payouts, refunds and the state of their request\<close>

fun payout_matches :: "GoldcoinPayoutRow \<Rightarrow> BridgeRequest \<Rightarrow> bool" where
  "payout_matches p r \<longleftrightarrow> destination_is_goldcoin (br_direction r)
     \<and> (case gp_state p of
          PayoutBuilt \<Rightarrow> True
        | PayoutSigned \<Rightarrow> br_state r = SettlementAuthorized
        | PayoutBroadcast \<Rightarrow> br_state r = DestinationSubmitted
        | PayoutConfirmed \<Rightarrow> br_state r = DestinationConfirmed
        | PayoutCompleted \<Rightarrow> br_state r = Settled)"

fun glc_refund_matches :: "GoldcoinRefundRow \<Rightarrow> BridgeRequest \<Rightarrow> bool" where
  "glc_refund_matches g r \<longleftrightarrow> source_is_goldcoin (br_direction r)
     \<and> (gr_state g \<noteq> GrRefunded \<longrightarrow> br_manual_review_note r \<noteq> Some LATE_DEPOSIT_NO_CAPACITY)
     \<and> (gr_reservation_released g \<longrightarrow> gr_state g = GrRefunded)
     \<and> (gr_txid g = None \<longleftrightarrow> gr_state g \<in> {GrBuilt, GrSigned})
     \<and> (case gr_state g of
          GrBuilt \<Rightarrow> br_state r = RefundPending
        | GrSigned \<Rightarrow> br_state r = RefundPending
        | GrBroadcast \<Rightarrow> br_state r = RefundBroadcast
        | GrRefunded \<Rightarrow> br_state r = Refunded)"

fun sol_refund_matches :: "SolanaRefundRow \<Rightarrow> BridgeRequest \<Rightarrow> bool" where
  "sol_refund_matches s r \<longleftrightarrow> source_is_solana (br_direction r)
     \<and> (case sr_state s of
          SrPending \<Rightarrow> br_state r = RefundPending
        | SrBroadcast \<Rightarrow> br_state r = RefundBroadcast
        | SrConfirmed \<Rightarrow> br_state r = Refunded)"

declare payout_matches.simps [simp del] glc_refund_matches.simps [simp del] sol_refund_matches.simps [simp del]

text \<open>A row of another table, found by request id, agrees with the request.\<close>

definition agrees :: "('x \<Rightarrow> i64) \<Rightarrow> ('x \<Rightarrow> BridgeRequest \<Rightarrow> bool) \<Rightarrow> 'x list \<Rightarrow> BridgeRequest list \<Rightarrow> bool" where
  "agrees key match xs rows \<longleftrightarrow>
     (\<forall>k x. find_by key k xs = Some x \<longrightarrow> (\<exists>r. find_by br_id k rows = Some r \<and> match x r))"

definition books_agree :: "Ledger \<Rightarrow> bool" where
  "books_agree l \<longleftrightarrow>
     agrees gp_request_id payout_matches (goldcoin_payouts l) (requests l)
     \<and> agrees gr_request_id glc_refund_matches (goldcoin_refunds l) (requests l)
     \<and> agrees sr_request_id sol_refund_matches (solana_refunds l) (requests l)
     \<and> (\<forall>k. get_goldcoin_payout l k = None \<or> get_solana_refund l k = None)"

definition reserve_accounted :: "Ledger \<Rightarrow> bool" where
  "reserve_accounted l \<longleftrightarrow>
     (\<forall>d row. reserves l d = Some row \<longrightarrow> rv_reserved_liquidity row = held_total d (requests l))"

text \<open>A deposit is awaited and confirmed by the ledger on the Goldcoin side only.\<close>

definition awaits_deposit :: "RequestState \<Rightarrow> bool" where
  "awaits_deposit s \<longleftrightarrow> s \<in> {LiquidityReserved, AwaitingDeposit, DepositObserved, Confirming}"

definition row_sound :: "Ledger \<Rightarrow> BridgeRequest \<Rightarrow> bool" where
  "row_sound l r \<longleftrightarrow> reserves l (request_reserve r) \<noteq> None \<and> 0 \<le> br_net_destination_atomic r
     \<and> (awaits_deposit (br_state r) \<longrightarrow> source_is_goldcoin (br_direction r))"

definition ledger_inv :: "Ledger \<Rightarrow> bool" where
  "ledger_inv l \<longleftrightarrow>
     distinct (map br_id (requests l)) \<and> list_all (row_sound l) (requests l)
     \<and> reserve_accounted l \<and> books_agree l"

section \<open>Sums over the table\<close>

lemma sum_list_update_by:
  fixes h :: "'r \<Rightarrow> int"
  assumes "distinct (map key rows)" "find_by key k rows = Some r"
  shows "sum_list (map h (update_by key k f rows)) = sum_list (map h rows) - h r + h (f r)"
proof -
  obtain M where M: "mset rows = add_mset r M" using mset_find_by[OF assms(2)] by blast
  then have u: "mset (update_by key k f rows) = add_mset (f r) M" using mset_update_by[OF assms, of f] by simp
  have "sum_list (map h xs) = \<Sum>\<^sub># (image_mset h (mset xs))" for xs
    by (simp add: sum_mset_sum_list flip: mset_map)
  then show ?thesis using M u by simp
qed

lemma held_total_append: "held_total d (rows @ rows') = held_total d rows + held_total d rows'"
  by (simp add: held_total_def)

lemma held_total_update:
  assumes "distinct (map br_id rows)" "find_by br_id k rows = Some r" "br_direction (f r) = br_direction r"
  shows "held_total d (update_by br_id k f rows) =
    held_total d rows + (if d = request_reserve r then held_amount (f r) - held_amount r else 0)"
  using assms(3) unfolding held_total_def sum_list_update_by[OF assms(1,2)] by (auto simp: request_reserve_def)

text \<open>The promises of a table, and how they change with one row.\<close>

definition promises :: "BridgeRequest list \<Rightarrow> (i64 \<times> ReserveDirection \<times> int) multiset" where
  "promises rows = image_mset promise_of (filter_mset holds_reservation (mset rows))"

lemma promises_update:
  assumes "distinct (map br_id rows)" "find_by br_id k rows = Some r"
  obtains rest where
    "promises rows = (if holds_reservation r then add_mset (promise_of r) rest else rest)"
    "\<And>f. promises (update_by br_id k f rows) = (if holds_reservation (f r) then add_mset (promise_of (f r)) rest else rest)"
proof -
  obtain M where M: "mset rows = add_mset r M" using mset_find_by[OF assms(2)] by blast
  then have u: "mset (update_by br_id k f rows) = add_mset (f r) M" for f
    using mset_update_by[OF assms, of f] by simp
  show ?thesis
    by (rule that[of "image_mset promise_of (filter_mset holds_reservation M)"])
      (simp_all add: promises_def M u)
qed

lemma promised_escrow_of: "promised (escrow_of l) d = held_total d (requests l)"
proof -
  have "(\<Sum>(k, a, n) \<in># promises rows. if a = d then n else 0) = held_total d rows" for rows
    by (induction rows) (auto simp: held_total_def held_amount_def promise_of_def promises_def)
  then show ?thesis by (simp add: promised_def escrow_of_def promises_def)
qed

lemma escrow_of_balance: "reserves l d = Some row \<Longrightarrow> es_balance (escrow_of l) d = rv_total_reserve_balance row"
  and escrow_of_floor: "reserves l d = Some row \<Longrightarrow> es_floor (escrow_of l) d = rv_protected_minimum row"
  and escrow_of_promises: "es_promises (escrow_of l) = promises (requests l)"
  by (simp_all add: escrow_of_def promises_def)

lemma uncommitted_is_headroom:
  assumes "ledger_inv l" "reserves l d = Some row"
  shows "uncommitted (escrow_of l) d = row_headroom row"
  using assms
  unfolding uncommitted_def promised_escrow_of escrow_of_balance[OF assms(2)] escrow_of_floor[OF assms(2)]
  by (simp add: ledger_inv_def reserve_accounted_def row_headroom_def)

section \<open>Rows evolve\<close>

text \<open>
  What no operation changes of a request: its identity, route, deposit amount and recipient; and, of
  a terminal one, its state, its note and its payout.
\<close>

definition row_evolves :: "BridgeRequest \<Rightarrow> BridgeRequest \<Rightarrow> bool" where
  "row_evolves r r' \<longleftrightarrow>
     br_id r' = br_id r \<and> br_direction r' = br_direction r
     \<and> br_gross_amount_atomic r' = br_gross_amount_atomic r \<and> br_recipient r' = br_recipient r
     \<and> br_requester r' = br_requester r \<and> br_created_at r' = br_created_at r
     \<and> (is_terminal (br_state r) \<longrightarrow> br_state r' = br_state r
          \<and> br_manual_review_note r' = br_manual_review_note r
          \<and> br_net_destination_atomic r' = br_net_destination_atomic r)"

definition requests_evolve :: "Ledger \<Rightarrow> Ledger \<Rightarrow> bool" where
  "requests_evolve l l' \<longleftrightarrow>
     (\<forall>k r. get_request l k = Some r \<longrightarrow> (\<exists>r'. get_request l' k = Some r' \<and> row_evolves r r'))"

lemma row_evolves_refl [simp, intro]: "row_evolves r r"
  by (simp add: row_evolves_def)

lemma row_evolves_trans: "row_evolves r r' \<Longrightarrow> row_evolves r' r'' \<Longrightarrow> row_evolves r r''"
  by (simp add: row_evolves_def)

lemma requests_evolve_trans: "requests_evolve l l' \<Longrightarrow> requests_evolve l' l'' \<Longrightarrow> requests_evolve l l''"
  unfolding requests_evolve_def by (meson row_evolves_trans)

lemma requests_evolve_same: "requests l' = requests l \<Longrightarrow> requests_evolve l l'"
  by (auto simp: requests_evolve_def get_request_def)

section \<open>One transition of the ledger\<close>

definition moves_to :: "Ledger \<Rightarrow> Ledger \<Rightarrow> bool" where
  "moves_to l l' \<longleftrightarrow>
     ledger_inv l' \<and> escrow_step\<^sup>*\<^sup>* (escrow_of l) (escrow_of l') \<and> requests_evolve l l'"

lemma moves_to_refl: "ledger_inv l \<Longrightarrow> moves_to l l"
  by (simp add: moves_to_def requests_evolve_same)

lemma moves_to_trans: "moves_to l l' \<Longrightarrow> moves_to l' l'' \<Longrightarrow> moves_to l l''"
  by (auto simp: moves_to_def intro: requests_evolve_trans)

lemma moves_to_inv: "moves_to l l' \<Longrightarrow> ledger_inv l'"
  by (simp add: moves_to_def)

text \<open>The change of one reserve row the accounting sees: of the reservation and of the balance.\<close>

definition row_shift :: "int \<Rightarrow> int \<Rightarrow> ReserveRow \<Rightarrow> ReserveRow \<Rightarrow> bool" where
  "row_shift reserved balance row row' \<longleftrightarrow>
     rv_total_reserve_balance row' = rv_total_reserve_balance row + balance
     \<and> rv_protected_minimum row' = rv_protected_minimum row
     \<and> rv_reserved_liquidity row' = rv_reserved_liquidity row + reserved"

definition reserves_shift :: "ReserveDirection \<Rightarrow> int \<Rightarrow> int \<Rightarrow> Ledger \<Rightarrow> Ledger \<Rightarrow> bool" where
  "reserves_shift d reserved balance l l' \<longleftrightarrow>
     (\<forall>e. rel_option (row_shift (if e = d then reserved else 0) (if e = d then balance else 0))
       (reserves l e) (reserves l' e))"

lemma reserves_shift_refl: "reserves l' = reserves l \<Longrightarrow> reserves_shift d 0 0 l l'"
  by (auto simp: reserves_shift_def row_shift_def option.rel_refl)

lemma reserves_shift_update:
  assumes "reserves l' = (reserves l)(d := map_option g (reserves l d))" "\<And>row. row_shift reserved balance row (g row)"
  shows "reserves_shift d reserved balance l l'"
  using assms by (auto simp: reserves_shift_def row_shift_def option.rel_refl rel_option_iff split: option.splits)

lemma reserves_shift_then:
  assumes "reserves_shift d reserved balance l l1" "\<And>row. row_shift 0 0 row (g row)"
    and "reserves l' = (reserves l1)(e := map_option g (reserves l1 e))"
  shows "reserves_shift d reserved balance l l'"
  unfolding reserves_shift_def
proof
  fix a
  show "rel_option (row_shift (if a = d then reserved else 0) (if a = d then balance else 0))
    (reserves l a) (reserves l' a)"
    using assms(1)[unfolded reserves_shift_def, rule_format, of a] assms(2)
    by (cases "reserves l a"; cases "reserves l1 a") (auto simp: assms(3) row_shift_def)
qed

lemma reserves_shift_None:
  "reserves_shift d reserved balance l l' \<Longrightarrow> reserves l' e = None \<longleftrightarrow> reserves l e = None"
  unfolding reserves_shift_def by (erule allE[of _ e]) (cases "reserves l e"; cases "reserves l' e"; simp)

lemma reserves_shift_Some:
  assumes "reserves_shift d reserved balance l l'" "reserves l' e = Some row'"
  obtains row where "reserves l e = Some row"
    "row_shift (if e = d then reserved else 0) (if e = d then balance else 0) row row'"
  using assms unfolding reserves_shift_def by (elim allE[of _ e]) (cases "reserves l e"; auto)

lemma escrow_of_shift:
  assumes "reserves_shift d reserved balance l l'" "reserves l d \<noteq> None"
  shows "es_floor (escrow_of l') = es_floor (escrow_of l)"
    and "es_balance (escrow_of l') = (es_balance (escrow_of l))(d := es_balance (escrow_of l) d + balance)"
proof -
  have "es_floor (escrow_of l') e = es_floor (escrow_of l) e \<and>
      es_balance (escrow_of l') e = es_balance (escrow_of l) e + (if e = d then balance else 0)" for e
  proof (cases "reserves l' e")
    case None
    then have "reserves l e = None" "e \<noteq> d" using reserves_shift_None[OF assms(1)] assms(2) by auto
    with None show ?thesis by (simp add: escrow_of_def)
  next
    case (Some row')
    then obtain row where "reserves l e = Some row"
      "row_shift (if e = d then reserved else 0) (if e = d then balance else 0) row row'"
      by (rule reserves_shift_Some[OF assms(1)])
    with Some show ?thesis by (simp add: escrow_of_def row_shift_def)
  qed
  then show "es_floor (escrow_of l') = es_floor (escrow_of l)"
    and "es_balance (escrow_of l') = (es_balance (escrow_of l))(d := es_balance (escrow_of l) d + balance)"
    by auto
qed

text \<open>
  One row is rewritten: the reserve it draws on shifts by what it holds more or less, and what it
  newly holds is covered, or what it held is paid.
\<close>

definition covered_by :: "Ledger \<Rightarrow> BridgeRequest \<Rightarrow> BridgeRequest \<Rightarrow> int \<Rightarrow> bool" where
  "covered_by l r r' paid \<longleftrightarrow>
     (if paid = 0
      then (holds_reservation r' \<longrightarrow>
        holds_reservation r \<and> br_net_destination_atomic r' \<le> br_net_destination_atomic r
        \<or> (\<forall>row. reserves l (request_reserve r) = Some row \<longrightarrow> held_amount r' \<le> row_headroom row + held_amount r))
      else holds_reservation r \<and> \<not> holds_reservation r' \<and> paid = br_net_destination_atomic r)"

lemma row_moves_escrow:
  assumes "ledger_inv l" "get_request l k = Some r" "requests l' = update_by br_id k f (requests l)"
    and "row_evolves r (f r)" "covered_by l r (f r) paid" and nonneg: "0 \<le> br_net_destination_atomic (f r)"
    and shift: "reserves_shift (request_reserve r) (held_amount (f r) - held_amount r) (- paid) l l'"
  shows "escrow_step\<^sup>*\<^sup>* (escrow_of l) (escrow_of l')"
proof -
  let ?d = "request_reserve r" and ?e = "escrow_of l" and ?e' = "escrow_of l'"
  have dist: "distinct (map br_id (requests l))" using assms(1) by (simp add: ledger_inv_def)
  obtain rest where p: "es_promises ?e = (if holds_reservation r then add_mset (promise_of r) rest else rest)"
    and p': "es_promises ?e' = (if holds_reservation (f r) then add_mset (promise_of (f r)) rest else rest)"
    using promises_update[OF dist assms(2)[unfolded get_request_def]] by (metis assms(3) escrow_of_promises)
  obtain row where row: "reserves l ?d = Some row"
    using assms(1,2) by (auto simp: ledger_inv_def list_all_iff row_sound_def get_request_def dest: find_by_SomeD)
  then have "reserves l ?d \<noteq> None" by simp
  note bal = escrow_of_shift(2)[OF shift this] and flo = escrow_of_shift(1)[OF shift this]
  have pr: "promise_of r = (br_id r, ?d, br_net_destination_atomic r)"
    and pr': "promise_of (f r) = (br_id r, ?d, br_net_destination_atomic (f r))"
    using assms(4) by (simp_all add: promise_of_def row_evolves_def request_reserve_def)
  show ?thesis
  proof (cases "paid = 0")
    case True
    have "holds_reservation (f r) \<Longrightarrow>
      holds_reservation r \<and> br_net_destination_atomic (f r) \<le> br_net_destination_atomic r
      \<or> br_net_destination_atomic (f r) \<le> uncommitted ?e ?d
          + (if holds_reservation r then br_net_destination_atomic r else 0)"
      using assms(5) True row uncommitted_is_headroom[OF assms(1) row]
      by (auto simp: covered_by_def held_amount_def)
    then show ?thesis
      using bal flo True nonneg by (intro escrow_reprice[OF p[unfolded pr] p'[unfolded pr']]) simp_all
  next
    case False
    then have h: "holds_reservation r" "\<not> holds_reservation (f r)" "paid = br_net_destination_atomic r"
      using assms(5) by (simp_all add: covered_by_def)
    have "escrow_step ?e ?e'"
      using bal flo by (intro escrow_pay[of _ "br_id r" ?d "br_net_destination_atomic r"]) (simp_all add: p p' pr h)
    then show ?thesis by simp
  qed
qed

text \<open>A row keeps its payout, or gets one that is not negative.\<close>

definition row_net_kept :: "BridgeRequest \<Rightarrow> BridgeRequest \<Rightarrow> bool" where
  "row_net_kept r r' \<longleftrightarrow>
     br_net_destination_atomic r' = br_net_destination_atomic r \<or> 0 \<le> br_net_destination_atomic r'"

lemma row_net_nonneg:
  "ledger_inv l \<Longrightarrow> get_request l k = Some r \<Longrightarrow> row_net_kept r r' \<Longrightarrow> 0 \<le> br_net_destination_atomic r'"
  by (auto simp: ledger_inv_def list_all_iff row_sound_def row_net_kept_def get_request_def dest!: find_by_SomeD)

lemma row_moves_inv:
  assumes inv: "ledger_inv l" and r: "get_request l k = Some r"
    and reqs: "requests l' = update_by br_id k f (requests l)" and keeps: "\<And>x. br_id (f x) = br_id x"
    and ev: "row_evolves r (f r)" and net: "row_net_kept r (f r)"
    and early: "awaits_deposit (br_state (f r)) \<Longrightarrow> source_is_goldcoin (br_direction r)"
    and books: "books_agree l'"
    and shift: "reserves_shift (request_reserve r) (held_amount (f r) - held_amount r) balance l l'"
  shows "ledger_inv l'"
proof -
  have dist: "distinct (map br_id (requests l))" using inv by (simp add: ledger_inv_def)
  have find: "find_by br_id k (requests l) = Some r" using r by (simp add: get_request_def)
  have dir: "br_direction (f r) = br_direction r" using ev by (simp add: row_evolves_def)
  have "list_all (row_sound l') (requests l')"
  proof -
    have "row_sound l' x \<longleftrightarrow> row_sound l x" for x by (simp add: row_sound_def reserves_shift_None[OF shift])
    moreover have "row_sound l (f r)"
      using inv r early dir row_net_nonneg[OF inv r net]
      by (auto simp: ledger_inv_def list_all_iff row_sound_def get_request_def request_reserve_def dest: find_by_SomeD)
    ultimately show ?thesis
      using inv by (auto simp: ledger_inv_def list_all_iff reqs set_update_by[OF dist find])
  qed
  moreover have "reserve_accounted l'"
    unfolding reserve_accounted_def
  proof (intro allI impI)
    fix d row' assume "reserves l' d = Some row'"
    then obtain row where row: "reserves l d = Some row"
      "row_shift (if d = request_reserve r then held_amount (f r) - held_amount r else 0)
        (if d = request_reserve r then balance else 0) row row'"
      by (rule reserves_shift_Some[OF shift])
    then have "rv_reserved_liquidity row = held_total d (requests l)"
      using inv by (simp add: ledger_inv_def reserve_accounted_def)
    with row(2) show "rv_reserved_liquidity row' = held_total d (requests l')"
      by (simp add: reqs held_total_update[where f = f, OF dist find dir] row_shift_def)
  qed
  moreover have "distinct (map br_id (requests l'))"
    using dist by (simp add: reqs map_update_by[of br_id k br_id f, OF keeps])
  ultimately show ?thesis using books by (simp add: ledger_inv_def)
qed

lemma row_moves:
  assumes inv: "ledger_inv l" and r: "get_request l k = Some r"
    and reqs: "requests l' = update_by br_id k f (requests l)" and keeps: "\<And>x. br_id (f x) = br_id x"
    and ev: "row_evolves r (f r)" and net: "row_net_kept r (f r)"
    and early: "awaits_deposit (br_state (f r)) \<Longrightarrow> source_is_goldcoin (br_direction r)"
    and books: "books_agree l'" and cover: "covered_by l r (f r) paid"
    and shift: "reserves_shift (request_reserve r) (held_amount (f r) - held_amount r) (- paid) l l'"
  shows "moves_to l l'"
  unfolding moves_to_def
proof (intro conjI)
  show "ledger_inv l'" by (rule row_moves_inv[OF inv r reqs keeps ev net early books shift])
  show "escrow_step\<^sup>*\<^sup>* (escrow_of l) (escrow_of l')"
    by (rule row_moves_escrow[OF inv r reqs ev cover row_net_nonneg[OF inv r net] shift])
  show "requests_evolve l l'"
    using ev r by (auto simp: requests_evolve_def get_request_def reqs find_update_by[of br_id f, OF keeps])
qed

section \<open>Rows outside a payout or a refund\<close>

text \<open>The states in which a signed payout or a refund of the request can exist.\<close>

definition in_lifecycle :: "RequestState \<Rightarrow> bool" where
  "in_lifecycle s \<longleftrightarrow> s \<in> {SettlementAuthorized, DestinationSubmitted, DestinationConfirmed, Settled,
     RefundPending, RefundBroadcast, Refunded}"

definition same_books :: "Ledger \<Rightarrow> Ledger \<Rightarrow> bool" where
  "same_books l l' \<longleftrightarrow> goldcoin_payouts l' = goldcoin_payouts l \<and> goldcoin_refunds l' = goldcoin_refunds l
     \<and> solana_refunds l' = solana_refunds l"

lemma agrees_update:
  assumes "agrees key match xs rows" "find_by br_id k rows = Some r" "\<And>x. br_id (f x) = br_id x"
    and "\<And>x. match x r \<Longrightarrow> match x (f r)"
  shows "agrees key match xs (update_by br_id k f rows)"
  unfolding agrees_def
proof (intro allI impI)
  fix k' x assume "find_by key k' xs = Some x"
  then obtain r' where "find_by br_id k' rows = Some r'" "match x r'" using assms(1) by (auto simp: agrees_def)
  with assms(2,4) show "\<exists>r. find_by br_id k' (update_by br_id k f rows) = Some r \<and> match x r"
    by (auto simp: find_update_by[of br_id f, OF assms(3)])
qed

lemma agrees_insert:
  "agrees key match xs rows \<Longrightarrow> agrees key match xs (rows @ rows')"
  by (fastforce simp: agrees_def find_by_append)

lemma books_update:
  assumes "books_agree l" "same_books l l'" "get_request l k = Some r"
    and "requests l' = update_by br_id k f (requests l)" "\<And>x. br_id (f x) = br_id x"
    and "\<And>p. payout_matches p r \<Longrightarrow> payout_matches p (f r)"
    and "\<And>g. glc_refund_matches g r \<Longrightarrow> glc_refund_matches g (f r)"
    and "\<And>s. sol_refund_matches s r \<Longrightarrow> sol_refund_matches s (f r)"
  shows "books_agree l'"
  using assms(1,2,3)
  by (auto simp: books_agree_def same_books_def assms(4) get_request_def get_goldcoin_payout_def get_solana_refund_def
      intro!: agrees_update[where f = f, OF _ _ assms(5)] assms(6-8))

lemma outside_lifecycle:
  assumes "\<not> in_lifecycle (br_state r)" "br_direction r' = br_direction r"
  shows "payout_matches p r \<Longrightarrow> payout_matches p r'" "\<not> glc_refund_matches g r" "\<not> sol_refund_matches s r"
  using assms
  by (auto simp: in_lifecycle_def payout_matches.simps glc_refund_matches.simps sol_refund_matches.simps
      split: PayoutState.splits GoldcoinRefundState.splits SolanaRefundState.splits)

lemma books_quiet:
  assumes "books_agree l" "same_books l l'" "get_request l k = Some r"
    and "requests l' = update_by br_id k f (requests l)" "\<And>x. br_id (f x) = br_id x"
    and q: "\<not> in_lifecycle (br_state r)" "br_direction (f r) = br_direction r"
  shows "books_agree l'"
proof (rule books_update[OF assms(1-5)])
  show "payout_matches p (f r)" if "payout_matches p r" for p using outside_lifecycle(1)[OF q that] .
qed (simp_all add: outside_lifecycle(2,3)[OF q])

lemma row_moves_quiet:
  assumes inv: "ledger_inv l" and r: "get_request l k = Some r" and q: "\<not> in_lifecycle (br_state r)"
    and books: "same_books l l'"
    and reqs: "requests l' = update_by br_id k f (requests l)" and keeps: "\<And>x. br_id (f x) = br_id x"
    and ev: "row_evolves r (f r)" and net: "row_net_kept r (f r)"
    and early: "awaits_deposit (br_state (f r)) \<Longrightarrow> source_is_goldcoin (br_direction r)"
    and cover: "covered_by l r (f r) 0"
    and shift: "reserves_shift (request_reserve r) (held_amount (f r) - held_amount r) 0 l l'"
  shows "moves_to l l'"
proof (rule row_moves[OF inv r reqs keeps ev net early _ cover])
  show "books_agree l'"
    using inv ev by (intro books_quiet[OF _ books r reqs keeps q]) (simp_all add: ledger_inv_def row_evolves_def)
  show "reserves_shift (request_reserve r) (held_amount (f r) - held_amount r) (- 0) l l'" using shift by simp
qed

text \<open>A row whose state, note and payout stay is rewritten.\<close>

definition row_touched :: "BridgeRequest \<Rightarrow> BridgeRequest \<Rightarrow> bool" where
  "row_touched r r' \<longleftrightarrow> row_evolves r r' \<and> br_state r' = br_state r
     \<and> br_manual_review_note r' = br_manual_review_note r
     \<and> br_net_destination_atomic r' = br_net_destination_atomic r"

lemma touched_holds: "row_touched r r' \<Longrightarrow> holds_reservation r' = holds_reservation r"
  by (simp add: row_touched_def row_evolves_def holds_reservation_def parked_with_reservation_def)

lemma touched_matches:
  assumes "row_touched r r'"
  shows "payout_matches p r \<Longrightarrow> payout_matches p r'" "glc_refund_matches g r \<Longrightarrow> glc_refund_matches g r'"
    "sol_refund_matches s r \<Longrightarrow> sol_refund_matches s r'"
proof -
  have "br_state r' = br_state r" "br_direction r' = br_direction r" "br_manual_review_note r' = br_manual_review_note r"
    using assms by (simp_all add: row_touched_def row_evolves_def)
  then show "payout_matches p r \<Longrightarrow> payout_matches p r'" "glc_refund_matches g r \<Longrightarrow> glc_refund_matches g r'"
    "sol_refund_matches s r \<Longrightarrow> sol_refund_matches s r'"
    by (simp_all add: payout_matches.simps glc_refund_matches.simps sol_refund_matches.simps
        split: PayoutState.splits GoldcoinRefundState.splits SolanaRefundState.splits)
qed

lemma row_moves_touched:
  assumes inv: "ledger_inv l" and r: "get_request l k = Some r" and books: "same_books l l'"
    and reqs: "requests l' = update_by br_id k f (requests l)" and keeps: "\<And>x. br_id (f x) = br_id x"
    and touched: "row_touched r (f r)" and shift: "reserves_shift (request_reserve r) 0 0 l l'"
  shows "moves_to l l'"
proof (rule row_moves[OF inv r reqs keeps, where paid = 0])
  show "row_evolves r (f r)" "row_net_kept r (f r)" using touched by (simp_all add: row_touched_def row_net_kept_def)
  show "source_is_goldcoin (br_direction r)" if "awaits_deposit (br_state (f r))"
    using that touched inv r
    by (auto simp: row_touched_def ledger_inv_def list_all_iff row_sound_def get_request_def dest: find_by_SomeD)
  show "books_agree l'"
    using inv by (intro books_update[OF _ books r reqs keeps] touched_matches[OF touched]) (simp_all add: ledger_inv_def)
  show "covered_by l r (f r) 0" using touched touched_holds[OF touched] by (simp add: covered_by_def row_touched_def)
  show "reserves_shift (request_reserve r) (held_amount (f r) - held_amount r) (- 0) l l'"
    using shift touched touched_holds[OF touched] by (simp add: held_amount_def row_touched_def)
qed

section \<open>No row changes, or a row is inserted\<close>

lemma moves_to_accounts:
  assumes inv: "ledger_inv l" and reqs: "requests l' = requests l" and shift: "reserves_shift d 0 0 l l'"
    and books: "books_agree l'"
  shows "moves_to l l'"
proof -
  have "row_sound l' x \<longleftrightarrow> row_sound l x" for x by (simp add: row_sound_def reserves_shift_None[OF shift])
  moreover have "reserve_accounted l'"
    unfolding reserve_accounted_def
  proof (intro allI impI)
    fix e row' assume "reserves l' e = Some row'"
    then obtain row where "reserves l e = Some row"
      "row_shift (if e = d then 0 else 0) (if e = d then 0 else 0) row row'" by (rule reserves_shift_Some[OF shift])
    with inv show "rv_reserved_liquidity row' = held_total e (requests l')"
      by (simp add: reqs row_shift_def ledger_inv_def reserve_accounted_def)
  qed
  ultimately have "ledger_inv l'" using inv books by (simp add: ledger_inv_def reqs list_all_iff)
  moreover have "escrow_of l' = escrow_of l"
  proof (rule escrow.equality)
    show "es_promises (escrow_of l') = es_promises (escrow_of l)" by (simp add: escrow_of_promises reqs)
    have "es_floor (escrow_of l') e = es_floor (escrow_of l) e \<and> es_balance (escrow_of l') e = es_balance (escrow_of l) e" for e
      using shift[unfolded reserves_shift_def, rule_format, of e]
      by (cases "reserves l e"; cases "reserves l' e") (auto simp: escrow_of_def row_shift_def split: if_splits)
    then show "es_floor (escrow_of l') = es_floor (escrow_of l)" "es_balance (escrow_of l') = es_balance (escrow_of l)"
      by auto
  qed simp
  ultimately show ?thesis by (simp add: moves_to_def requests_evolve_same reqs)
qed

lemma books_same: "books_agree l \<Longrightarrow> same_books l l' \<Longrightarrow> requests l' = requests l \<Longrightarrow> books_agree l'"
  by (simp add: books_agree_def same_books_def get_goldcoin_payout_def get_solana_refund_def)

lemma moves_to_unaccounted:
  "ledger_inv l \<Longrightarrow> requests l' = requests l \<Longrightarrow> same_books l l' \<Longrightarrow> reserves_shift d 0 0 l l' \<Longrightarrow> moves_to l l'"
  by (rule moves_to_accounts) (auto simp: ledger_inv_def intro: books_same)

lemma insert_moves:
  assumes inv: "ledger_inv l" and reqs: "requests l' = requests l @ [r]" and fresh: "get_request l (br_id r) = None"
    and books: "same_books l l'" and row: "reserves l (request_reserve r) = Some row"
    and net: "0 \<le> br_net_destination_atomic r"
    and early: "awaits_deposit (br_state r) \<Longrightarrow> source_is_goldcoin (br_direction r)"
    and cover: "holds_reservation r \<Longrightarrow> br_net_destination_atomic r \<le> row_headroom row"
    and shift: "reserves_shift (request_reserve r) (held_amount r) 0 l l'"
  shows "moves_to l l'"
proof -
  have sound: "row_sound l' x \<longleftrightarrow> row_sound l x" for x by (simp add: row_sound_def reserves_shift_None[OF shift])
  have "reserve_accounted l'"
    unfolding reserve_accounted_def
  proof (intro allI impI)
    fix d row' assume "reserves l' d = Some row'"
    then obtain row where "reserves l d = Some row"
      "row_shift (if d = request_reserve r then held_amount r else 0) (if d = request_reserve r then 0 else 0) row row'"
      by (rule reserves_shift_Some[OF shift])
    with inv show "rv_reserved_liquidity row' = held_total d (requests l')"
      by (auto simp: reqs row_shift_def ledger_inv_def reserve_accounted_def held_total_append held_total_def)
  qed
  moreover have "books_agree l'"
    using inv books
    by (auto simp: ledger_inv_def books_agree_def same_books_def reqs get_goldcoin_payout_def get_solana_refund_def
        intro: agrees_insert)
  moreover have "row_sound l r" using early row net by (simp add: row_sound_def)
  ultimately have "ledger_inv l'"
    using inv fresh by (auto simp: ledger_inv_def reqs sound list_all_iff get_request_def find_by_None)
  moreover have "escrow_step\<^sup>*\<^sup>* (escrow_of l) (escrow_of l')"
  proof (rule escrow_reprice[where h = False])
    show "es_promises (escrow_of l) = (if False then add_mset (br_id r, request_reserve r, 0) (promises (requests l))
        else promises (requests l))" by (simp add: escrow_of_promises)
    show "es_promises (escrow_of l') = (if holds_reservation r
        then add_mset (br_id r, request_reserve r, br_net_destination_atomic r) (promises (requests l))
        else promises (requests l))" by (simp add: escrow_of_promises reqs promises_def promise_of_def)
    show "es_balance (escrow_of l') = es_balance (escrow_of l)" "es_floor (escrow_of l') = es_floor (escrow_of l)"
      using escrow_of_shift[OF shift] row by simp_all
  qed (use cover net uncommitted_is_headroom[OF inv row] in simp_all)
  moreover have "requests_evolve l l'"
    by (auto simp: requests_evolve_def get_request_def reqs find_by_append)
  ultimately show ?thesis by (simp add: moves_to_def)
qed

end
