(* ===== verification/Ledger_Moves.thy ===== *)
theory Ledger_Moves
  imports Ledger_Accounting
begin

text \<open>
  Every operation of the ledger that commits is a move: it keeps the accounting invariant, is
  followed by a run of the escrow, and lets the requests only evolve. The operations on requests
  funded by a Goldcoin deposit, the folds of Solana deposits and the settlements are here; reviews and
  refunds follow in \<open>Ledger_Review_Moves\<close>.
\<close>

section \<open>Statements\<close>

lemma log_transition_sel [simp]:
  "requests (log_transition i a b at reason actor l) = requests l"
  "reserves (log_transition i a b at reason actor l) = reserves l"
  "goldcoin_payouts (log_transition i a b at reason actor l) = goldcoin_payouts l"
  "goldcoin_refunds (log_transition i a b at reason actor l) = goldcoin_refunds l"
  "solana_refunds (log_transition i a b at reason actor l) = solana_refunds l"
  by (simp_all add: log_transition_def)

lemma update_reserve_sel [simp]:
  "requests (update_reserve d f l) = requests l"
  "reserves (update_reserve d f l) = (reserves l)(d := map_option f (reserves l d))"
  "goldcoin_payouts (update_reserve d f l) = goldcoin_payouts l"
  "goldcoin_refunds (update_reserve d f l) = goldcoin_refunds l"
  "solana_refunds (update_reserve d f l) = solana_refunds l"
  by (simp_all add: update_reserve_def)

lemma as_i64_nonneg:
  assumes "unat w < 2 ^ 63"
  shows "0 \<le> as_i64 w"
proof -
  have "int (unat w) < int (2 ^ 63)" using assms by (simp only: of_nat_less_iff)
  then have "uint w < 2 ^ 63" by simp
  moreover have "0 \<le> uint w" by simp
  ultimately have "is_i64 (uint w)" unfolding is_i64_def i64_min_def i64_max_def by linarith
  then have "as_i64 (as_u64 (uint w)) = uint w" by (rule as_i64_as_u64)
  then show ?thesis by (simp add: as_u64_def)
qed

lemma update_requestD:
  assumes "update_request l k f = Inr l'"
  shows "requests l' = update_by br_id k f (requests l)" "reserves l' = reserves l" "same_books l l'"
    "goldcoin_payouts l' = goldcoin_payouts l" "goldcoin_refunds l' = goldcoin_refunds l"
    "solana_refunds l' = solana_refunds l"
  using assms by (auto simp: update_request_def write_requests_def same_books_def)

lemma get_request_update:
  assumes "update_request l k f = Inr l'" "\<And>x. br_id (f x) = br_id x"
  shows "get_request l' k' = map_option (\<lambda>r. if k' = k then f r else r) (get_request l k')"
  by (simp add: get_request_def update_requestD(1)[OF assms(1)] find_update_by[of br_id f, OF assms(2)])

lemma get_request_other:
  "update_request l k f = Inr l' \<Longrightarrow> (\<And>x. br_id (f x) = br_id x) \<Longrightarrow> k' \<noteq> k \<Longrightarrow> get_request l' k' = get_request l k'"
  by (simp add: get_request_update option.map_ident)

lemma get_request_cong: "requests l' = requests l \<Longrightarrow> get_request l' k = get_request l k"
  by (simp add: get_request_def)

lemma get_request_id: "get_request l k = Some r \<Longrightarrow> br_id r = k"
  by (auto simp: get_request_def dest: find_by_SomeD)

lemma insert_requestD:
  assumes "insert_request l row = Inr (i, l')"
  shows "requests l' = requests l @ [row\<lparr>br_id := i\<rparr>]" "get_request l i = None" "reserves l' = reserves l"
    "same_books l l'"
  using assms
  by (auto simp: insert_request_def Let_def write_requests_def same_books_def get_request_def next_rowid_fresh)

lemma same_books_eq [simp]:
  "goldcoin_payouts l' = goldcoin_payouts l \<Longrightarrow> goldcoin_refunds l' = goldcoin_refunds l \<Longrightarrow>
     solana_refunds l' = solana_refunds l \<Longrightarrow> same_books l l'"
  by (simp add: same_books_def)

text \<open>An operation that rewrites one row outside the lifecycles and shifts its reserve.\<close>

lemma update_moves:
  assumes inv: "ledger_inv l" and r: "get_request l k = Some r" and up: "update_request l0 k f = Inr l1"
    and same0: "requests l0 = requests l" and same1: "requests l' = requests l1" and books: "same_books l l'"
    and q: "\<not> in_lifecycle (br_state r)" and keeps: "\<And>x. br_id (f x) = br_id x" and ev: "row_evolves r (f r)"
    and net: "row_net_kept r (f r)"
    and early: "awaits_deposit (br_state (f r)) \<Longrightarrow> source_is_goldcoin (br_direction r)"
    and cover: "covered_by l r (f r) 0"
    and shift: "reserves_shift (request_reserve r) (held_amount (f r) - held_amount r) 0 l l'"
  shows "moves_to l l'"
proof (rule row_moves_quiet[OF inv r q books _ keeps ev net early cover shift])
  show "requests l' = update_by br_id k f (requests l)" by (simp add: same0 same1 update_requestD(1)[OF up])
qed

text \<open>An operation that rewrites columns the accounting does not read.\<close>

lemma touch_moves:
  assumes inv: "ledger_inv l" and up: "update_request l0 k f = Inr l1"
    and same0: "requests l0 = requests l" and same1: "requests l' = requests l1" and books: "same_books l l'"
    and keeps: "\<And>x. br_id (f x) = br_id x" and touched: "\<And>r. row_touched r (f r)"
    and shift: "reserves_shift d 0 0 l l'"
  shows "moves_to l l'"
proof (cases "get_request l k")
  case None
  then have "requests l' = requests l"
    by (simp add: same0 same1 update_requestD(1)[OF up] get_request_def update_by_id)
  then show ?thesis using inv books shift by (intro moves_to_unaccounted)
next
  case (Some r)
  show ?thesis
  proof (rule row_moves_touched[OF inv Some books _ keeps touched])
    show "requests l' = update_by br_id k f (requests l)" by (simp add: same0 same1 update_requestD(1)[OF up])
    show "reserves_shift (request_reserve r) 0 0 l l'" using shift by (simp add: reserves_shift_def)
  qed
qed

lemmas move_simps = in_lifecycle_def row_evolves_def row_net_kept_def is_terminal_def awaits_deposit_def covered_by_def
  holds_reservation_def held_amount_def request_reserve_def

lemmas shift_rules = reserves_shift_update reserves_shift_refl

lemma inv_early:
  "ledger_inv l \<Longrightarrow> get_request l k = Some r \<Longrightarrow> awaits_deposit (br_state r) \<Longrightarrow> source_is_goldcoin (br_direction r)"
  by (auto simp: ledger_inv_def list_all_iff row_sound_def get_request_def dest: find_by_SomeD)

lemma inv_reserve:
  "ledger_inv l \<Longrightarrow> get_request l k = Some r \<Longrightarrow> \<exists>row. reserves l (request_reserve r) = Some row"
  by (auto simp: ledger_inv_def list_all_iff row_sound_def get_request_def dest: find_by_SomeD)

section \<open>Creation, expiry, cancellation\<close>

lemma create_request_moves:
  assumes "create_request_from direction amounts recipient requester wallet ttl now l = Inr (out, l')"
    and inv: "ledger_inv l" and "source_is_goldcoin direction" and range: "unat (am_net_destination_atomic amounts) < 2 ^ 63"
  shows "moves_to l l'"
proof (cases "requests l' = requests l")
  case True
  then have "l' = l"
    using assms(1) by (auto simp: create_request_from_def Let_def dest: insert_requestD(1) split: if_splits)
  then show ?thesis using inv by (simp add: moves_to_refl)
next
  case False
  let ?net = "as_i64 (am_net_destination_atomic amounts)"
  obtain quote row i l1 where row: "reserves l (destination_reserve direction) = Some row" "\<not> ?net > row_headroom row"
    and ins: "insert_request l (awaiting_row direction amounts quote recipient requester (non_empty wallet) ttl now) = Inr (i, l1)"
    and l': "l' = update_reserve (destination_reserve direction) (reserve_liquidity ?net)
      (log_transition i (Some LiquidityReserved) AwaitingDeposit now None ''system''
        (log_transition i None LiquidityReserved now None ''system'' l1))"
    using assms(1) False by (auto simp: create_request_from_def Let_def split: if_splits)
  note D = insert_requestD[OF ins]
  show ?thesis
    using row D(2-4) assms(3) l' D(1) as_i64_nonneg[OF range]
    by (intro insert_moves[OF inv, of _ "(awaiting_row direction amounts quote recipient requester (non_empty wallet) ttl now)\<lparr>br_id := i\<rparr>" row])
      (auto simp: awaiting_row_def move_simps same_books_def row_shift_def ledger_simps intro!: shift_rules)
qed

lemma cancel_request_moves:
  assumes "cancel_request k now note l = Inr l'" and inv: "ledger_inv l"
  shows "moves_to l l'"
proof -
  obtain r l1 where r: "get_request l k = Some r" and st: "br_state r \<in> {LiquidityReserved, AwaitingDeposit}"
    and up: "update_request l k (\<lambda>row. row\<lparr>br_state := Cancelled, br_manual_review_note := Some note\<rparr>) = Inr l1"
    and l': "l' = update_reserve (destination_reserve (br_direction r)) (release_liquidity (br_net_destination_atomic r))
       (log_transition k (Some (br_state r)) Cancelled now (Some note) ''operator'' l1)"
    using assms(1) by (auto simp: cancel_request_def)
  show ?thesis
    using st by (intro update_moves[OF inv r up])
      (auto simp: l' update_requestD[OF up] move_simps row_shift_def ledger_simps intro!: shift_rules)
qed

lemma expire_row_moves:
  assumes up: "update_request l (br_id r) (\<lambda>row. row\<lparr>br_state := Expired\<rparr>) = Inr l1" and inv: "ledger_inv l"
    and r: "get_request l (br_id r) = Some r" and st: "br_state r = AwaitingDeposit"
  shows "moves_to l (update_reserve (destination_reserve (br_direction r)) (release_liquidity (br_net_destination_atomic r))
    (log_transition (br_id r) (Some AwaitingDeposit) Expired now reason actor l1))"
  using st by (intro update_moves[OF inv r up])
    (auto simp: update_requestD[OF up] move_simps row_shift_def ledger_simps intro!: shift_rules)

lemma expire_rows_moves:
  "expire_rows rows now l = Inr l' \<Longrightarrow> ledger_inv l \<Longrightarrow> distinct (map br_id rows) \<Longrightarrow>
     \<forall>r\<in>set rows. get_request l (br_id r) = Some r \<and> br_state r = AwaitingDeposit \<Longrightarrow> moves_to l l'"
proof (induction rows arbitrary: l)
  case Nil
  then show ?case by (simp add: moves_to_refl)
next
  case (Cons r rows)
  let ?expired = "\<lambda>l. update_reserve (destination_reserve (br_direction r)) (release_liquidity (br_net_destination_atomic r))
    (log_transition (br_id r) (Some AwaitingDeposit) Expired now (Some ''reservation_ttl_elapsed'') ''system'' l)"
  obtain l1 where up: "update_request l (br_id r) (\<lambda>row. row\<lparr>br_state := Expired\<rparr>) = Inr l1"
    and rest: "expire_rows rows now (?expired l1) = Inr l'" using Cons.prems(1) by auto
  have first: "moves_to l (?expired l1)" using Cons.prems by (intro expire_row_moves[OF up]) auto
  have "get_request (?expired l1) (br_id x) = get_request l (br_id x)" if "x \<in> set rows" for x
  proof -
    have "br_id r \<notin> br_id ` set rows" using Cons.prems(3) by simp
    then have "br_id x \<noteq> br_id r" using that by (metis imageI)
    then show ?thesis using get_request_other[OF up] by (simp add: get_request_cong[of "?expired l1" l1])
  qed
  then have "moves_to (?expired l1) l'"
    using Cons.prems(3,4) moves_to_inv[OF first] by (intro Cons.IH[OF rest]) auto
  with first show ?case by (rule moves_to_trans)
qed

lemma filtered_rows:
  assumes "ledger_inv l"
  shows "distinct (map br_id (filter P (requests l)))"
    and "r \<in> set (filter P (requests l)) \<Longrightarrow> get_request l (br_id r) = Some r"
  using assms by (auto simp: ledger_inv_def get_request_def find_by_distinct distinct_map_filter)

lemma expire_reservations_moves:
  assumes "expire_reservations now l = Inr (n, l')" and inv: "ledger_inv l"
  shows "moves_to l l'"
proof (rule expire_rows_moves[OF _ inv])
  show "expire_rows (filter (reservation_elapsed now) (requests l)) now l = Inr l'"
    using assms(1) by (auto simp: expire_reservations_def Let_def)
qed (use filtered_rows[OF inv, where P = "reservation_elapsed now"] in \<open>auto simp: reservation_elapsed_def\<close>)

lemma set_goldcoin_deposit_address_moves:
  assumes "set_goldcoin_deposit_address k address script redeem l = Inr l'" and inv: "ledger_inv l"
  shows "moves_to l l'"
proof -
  consider "l' = l" | "update_request l k (\<lambda>row. row\<lparr>br_deposit_address := Some address,
         br_deposit_script_pubkey_hex := Some script, br_deposit_redeem_script_hex := Some redeem\<rparr>) = Inr l'"
    using assms(1) by (auto simp: set_goldcoin_deposit_address_def split: option.splits if_splits)
  then show ?thesis
  proof cases
    case 2
    then show ?thesis by (rule touch_moves[OF inv]) (auto simp: update_requestD[OF 2] row_touched_def row_evolves_def intro!: shift_rules)
  qed (simp add: inv moves_to_refl)
qed

section \<open>The deposit is observed\<close>

lemma late_deposit_moves:
  assumes "late_deposit_no_capacity k d now l = Inr (out, l')" and inv: "ledger_inv l"
    and r: "get_request l k = Some r" and st: "br_state r = Expired" "source_is_goldcoin (br_direction r)"
  shows "moves_to l l'"
proof -
  obtain l1 where up: "update_request l k (\<lambda>r. (with_deposit d r)\<lparr>br_state := ManualReview,
       br_manual_review_note := Some LATE_DEPOSIT_NO_CAPACITY\<rparr>) = Inr l1"
    and l': "requests l' = requests l1" "reserves l' = reserves l" "same_books l l'"
    using assms(1) by (auto simp: late_deposit_no_capacity_def update_requestD)
  show ?thesis
    using st by (intro update_moves[OF inv r up])
      (auto simp: l' with_deposit_def move_simps parked_with_reservation_def direction_defs intro!: shift_rules)
qed

lemma recreate_expired_moves:
  assumes "recreate_expired r now l = Inr l'" and inv: "ledger_inv l" and r: "get_request l (br_id r) = Some r"
    and st: "br_state r = Expired" "source_is_goldcoin (br_direction r)"
    and row: "reserves l (destination_reserve (br_direction r)) = Some row" "br_net_destination_atomic r \<le> row_headroom row"
  shows "moves_to l l'"
    and "get_request l' (br_id r) = Some (r\<lparr>br_state := AwaitingDeposit, br_reserved_at := Some now, br_reservation_expires_at := None\<rparr>)"
proof -
  obtain l1 where up: "update_request l (br_id r) (\<lambda>row. row\<lparr>br_state := AwaitingDeposit,
       br_reserved_at := Some now, br_reservation_expires_at := None\<rparr>) = Inr l1"
    and l': "requests l' = requests l1" "same_books l l'"
      "reserves l' = (reserves l)(destination_reserve (br_direction r) :=
        map_option (reserve_liquidity (br_net_destination_atomic r)) (reserves l (destination_reserve (br_direction r))))"
    using assms(1) by (auto simp: recreate_expired_def update_requestD)
  show "moves_to l l'"
    using st row by (intro update_moves[OF inv r up])
      (auto simp: l' move_simps row_shift_def ledger_simps intro!: shift_rules)
  show "get_request l' (br_id r) = Some (r\<lparr>br_state := AwaitingDeposit, br_reserved_at := Some now, br_reservation_expires_at := None\<rparr>)"
    using r by (simp add: get_request_cong[OF l'(1)] get_request_update[OF up])
qed

text \<open>
  While the deposit of \<open>r\<close> is processed its stored row awaits it; only columns the steps do
  not read again differ from \<open>r\<close>.
\<close>

definition awaiting :: "Ledger \<Rightarrow> BridgeRequest \<Rightarrow> BridgeRequest \<Rightarrow> bool" where
  "awaiting l r r1 \<longleftrightarrow> get_request l (br_id r) = Some r1 \<and> br_state r1 = AwaitingDeposit
     \<and> br_direction r1 = br_direction r"

lemma park_moves:
  assumes inv: "ledger_inv l" and a: "awaiting l r r1"
    and up: "update_request l (br_id r) f = Inr l1" and keeps: "\<And>x. br_id (f x) = br_id x"
    and ev: "row_evolves r1 (f r1)" and st: "br_state (f r1) = ManualReview"
    and nt: "br_manual_review_note (f r1) \<noteq> Some LATE_DEPOSIT_NO_CAPACITY"
    and net: "br_net_destination_atomic (f r1) = br_net_destination_atomic r1"
    and l': "requests l' = requests l1" "reserves l' = reserves l" "same_books l l'"
  shows "moves_to l l'"
proof -
  have r1: "get_request l (br_id r) = Some r1" "br_state r1 = AwaitingDeposit" using a by (simp_all add: awaiting_def)
  then have "source_is_goldcoin (br_direction r1)" using inv_early[OF inv r1(1)] by (simp add: awaits_deposit_def)
  with ev st nt net r1(2) have holds: "holds_reservation (f r1)" "holds_reservation r1"
    by (simp_all add: holds_reservation_def parked_with_reservation_def row_evolves_def)
  show ?thesis
    using st r1(2) holds net ev
    by (intro update_moves[OF inv r1(1) up])
      (auto simp: l' keeps row_net_kept_def covered_by_def held_amount_def in_lifecycle_def awaits_deposit_def intro!: shift_rules)
qed

lemma park_amount_mismatch_moves:
  assumes "park_amount_mismatch r d now l = Inr (out, l')" and inv: "ledger_inv l" and a: "awaiting l r r1"
  shows "moves_to l l'"
proof -
  obtain observed l1 where up: "update_request l (br_id r) (\<lambda>row. (with_deposit d row)\<lparr>br_state := ManualReview,
       br_manual_review_note := Some (mismatch_note (br_gross_amount_atomic r) (gd_observed_amount d)),
       br_observed_amount_atomic := Some observed\<rparr>) = Inr l1"
    and l': "requests l' = requests l1" "reserves l' = reserves l" "same_books l l'"
    using assms(1) by (auto simp: park_amount_mismatch_def update_requestD)
  show ?thesis
    using a by (intro park_moves[OF inv a up _ _ _ _ _ l'])
      (auto simp: with_deposit_def awaiting_def row_evolves_def is_terminal_def mismatch_note_def LATE_DEPOSIT_NO_CAPACITY_def)
qed

lemma park_observed_moves:
  assumes "park_observed r d wallet reason now l = Inr l'" and inv: "ledger_inv l" and a: "awaiting l r r1"
    and reason: "reason \<noteq> LATE_DEPOSIT_NO_CAPACITY"
  shows "moves_to l l'"
proof -
  obtain observed l1 where up: "update_request l (br_id r) (\<lambda>row. (with_deposit d row)\<lparr>br_state := ManualReview,
       br_manual_review_note := Some reason, br_observed_amount_atomic := Some observed,
       br_source_wallet := (case wallet of Some w \<Rightarrow> Some w | None \<Rightarrow> br_source_wallet row)\<rparr>) = Inr l1"
    and l': "requests l' = requests l1" "reserves l' = reserves l" "same_books l l'"
    using assms(1) by (auto simp: park_observed_def update_requestD)
  show ?thesis
    using a reason by (intro park_moves[OF inv a up _ _ _ _ _ l'])
      (auto simp: with_deposit_def awaiting_def row_evolves_def is_terminal_def)
qed

lemma mark_rapid_burst_hold_moves:
  assumes "mark_rapid_burst_hold_in k matched now l = Inr l'" and inv: "ledger_inv l"
  shows "moves_to l l'"
proof -
  obtain f l1 where up: "update_request l k f = Inr l1" and "\<And>x. br_id (f x) = br_id x" "\<And>r. row_touched r (f r)"
    and l': "requests l' = requests l1" "reserves l' = reserves l" "same_books l l'"
    using assms(1) by (fastforce simp: mark_rapid_burst_hold_in_def Let_def update_requestD row_touched_def row_evolves_def)
  then show ?thesis by (intro touch_moves[OF inv up]) (auto intro!: shift_rules)
qed

lemma confirm_observed_moves:
  assumes "confirm_observed r d wallet now l = Inr l'" and inv: "ledger_inv l" and a: "awaiting l r r1"
  shows "moves_to l l'"
proof -
  let ?f = "\<lambda>row. (with_deposit d row)\<lparr>br_state := DepositObserved, br_source_confirmations := 1,
       br_source_wallet := (case wallet of Some w \<Rightarrow> Some w | None \<Rightarrow> br_source_wallet row)\<rparr>"
  let ?g = "\<lambda>row. row\<lparr>br_state := Confirming\<rparr>"
  let ?l2 = "\<lambda>l1. log_transition (br_id r) (Some DepositObserved) Confirming now None ''system''
    (log_transition (br_id r) (Some AwaitingDeposit) DepositObserved now None ''system'' l1)"
  obtain l1 where up: "update_request l (br_id r) ?f = Inr l1" and up2: "update_request (?l2 l1) (br_id r) ?g = Inr l'"
    using assms(1) by (auto simp: confirm_observed_def)
  have r1: "get_request l (br_id r) = Some r1" "br_state r1 = AwaitingDeposit" using a by (simp_all add: awaiting_def)
  note early = inv_early[OF inv r1(1)]
  have 1: "moves_to l l1"
    using r1(2) early by (intro update_moves[OF inv r1(1) up])
      (auto simp: update_requestD[OF up] with_deposit_def move_simps intro!: shift_rules)
  have r2: "get_request l1 (br_id r) = Some (?f r1)" using r1(1) by (simp add: get_request_update[OF up] with_deposit_def)
  have "moves_to l1 l'"
    using r1(2) early
    by (intro update_moves[OF moves_to_inv[OF 1] r2 up2])
      (auto simp: update_requestD[OF up2] with_deposit_def move_simps intro!: shift_rules)
  with 1 show ?thesis by (rule moves_to_trans)
qed

text \<open>The amounts of a quote fit the \<open>i64\<close> columns they are stored in.\<close>

definition quotes_in_range :: "quote_lock \<Rightarrow> bool" where
  "quotes_in_range lock \<longleftrightarrow>
     (\<forall>d g f t s q. lock d g f t s = Inr q \<longrightarrow> unat (bq_net_out (struck_quote q)) < 2 ^ 63)"

lemma div_in_range:
  assumes "unat (w :: u64) < 2 ^ 63"
  shows "0 \<le> as_i64 (w div s)"
proof (rule as_i64_nonneg)
  have "unat (w div s) \<le> unat w" by (simp add: unat_div)
  with assms show "unat (w div s) < 2 ^ 63" by simp
qed

text \<open>The lock strikes the quote, and moves the reservation with the payout when the reserve absorbs it.\<close>

lemma lock_moved_quote_moves:
  assumes "lock_moved_quote r q scale l = Inr (park, l')" and inv: "ledger_inv l" and a: "awaiting l r r1"
    and net: "br_net_destination_atomic r1 = br_net_destination_atomic r"
    and range: "unat (bq_net_out q) < 2 ^ 63"
  shows "moves_to l l' \<and> (\<exists>r2. awaiting l' r r2)"
proof (cases "l' = l")
  case True
  then show ?thesis using inv a by (auto simp: moves_to_refl)
next
  case False
  let ?d = "destination_reserve (br_direction r)" and ?new = "as_i64 (bq_net_out q div scale)"
  let ?delta = "?new - br_net_destination_atomic r"
  let ?f = "\<lambda>row. row\<lparr>br_fee_amount_atomic := as_i64 (bq_fee_out q), br_net_amount_atomic := as_i64 (bq_net_out q),
              br_net_destination_atomic := ?new\<rparr>"
  obtain l1 where up: "update_request l (br_id r) ?f = Inr l1"
    and room: "?delta \<le> 0 \<or> (\<exists>row. reserves l ?d = Some row \<and> ?delta \<le> row_headroom row)"
    and l': "requests l' = requests l1" "same_books l l'"
      "reserves l' = (reserves l)(?d := map_option (reserve_liquidity ?delta) (reserves l ?d))"
    using assms(1) False by (auto simp: lock_moved_quote_def Let_def update_requestD split: if_splits)
  have r1: "get_request l (br_id r) = Some r1" "br_state r1 = AwaitingDeposit" "br_direction r1 = br_direction r"
    using a by (simp_all add: awaiting_def)
  have "moves_to l l'"
    using r1(2,3) net room inv_early[OF inv r1(1)] div_in_range[OF range, of scale]
    by (intro update_moves[OF inv r1(1) up])
      (auto simp: l' move_simps row_shift_def ledger_simps intro!: shift_rules)
  moreover have "awaiting l' r (?f r1)"
    using r1 by (simp add: awaiting_def get_request_cong[OF l'(1)] get_request_update[OF up])
  ultimately show ?thesis by blast
qed

lemma lock_moved_quote_park:
  "lock_moved_quote r q scale l = Inr (park, l') \<Longrightarrow> park \<in> {None, Some MANUAL_REVIEW_REASON_INSUFFICIENT_CAPACITY_AT_LOCK}"
  by (auto simp: lock_moved_quote_def Let_def split: if_splits)

lemma lock_glc_quote_park:
  assumes "lock_glc_quote r lock now l = Inr (park, l')"
  shows "park \<noteq> Some LATE_DEPOSIT_NO_CAPACITY"
proof -
  have "refusal_reason refusal \<noteq> LATE_DEPOSIT_NO_CAPACITY" for refusal
    by (cases refusal) (simp_all add: LATE_DEPOSIT_NO_CAPACITY_def)
  moreover have "REASON_BAND_EXCEEDED \<noteq> LATE_DEPOSIT_NO_CAPACITY"
    "MANUAL_REVIEW_REASON_INSUFFICIENT_CAPACITY_AT_LOCK \<noteq> LATE_DEPOSIT_NO_CAPACITY"
    by (simp_all add: LATE_DEPOSIT_NO_CAPACITY_def REASON_BAND_EXCEEDED_def
        MANUAL_REVIEW_REASON_INSUFFICIENT_CAPACITY_AT_LOCK_def)
  ultimately show ?thesis
    using assms
    by (auto simp: lock_glc_quote_def Let_def dest!: lock_moved_quote_park
        split: sum.splits RateError.splits if_splits option.splits)
qed

lemma lock_glc_quote_moves:
  assumes "lock_glc_quote r lock now l = Inr (park, l')" and inv: "ledger_inv l" and a: "awaiting l r r1"
    and net: "br_net_destination_atomic r1 = br_net_destination_atomic r"
    and range: "quotes_in_range lock"
  shows "moves_to l l' \<and> (\<exists>r2. awaiting l' r r2)"
proof (cases "l' = l")
  case True
  then show ?thesis using inv a by (auto simp: moves_to_refl)
next
  case False
  let ?scale = "destination_scale_of (br_direction r) (br_net_amount_atomic r) (br_net_destination_atomic r)"
  obtain struck where struck: "lock (br_direction r) (as_u64 (br_gross_amount_atomic r)) (as_u64 (br_fee_bps r)) now ?scale = Inr struck"
    using assms(1) False by (auto simp: lock_glc_quote_def Let_def split: sum.splits RateError.splits)
  obtain l1 park' where up: "update_request l (br_id r) (\<lambda>row. row\<lparr>br_quote := quote_columns_of (struck_quote struck),
            br_quote_locked_at := Some now\<rparr>) = Inr l1"
    and moved: "lock_moved_quote r (struck_quote struck) ?scale l1 = Inr (park', l')"
    using assms(1) by (auto simp: lock_glc_quote_def Let_def struck)
  have 1: "moves_to l l1"
    by (rule touch_moves[OF inv up]) (auto simp: update_requestD[OF up] row_touched_def row_evolves_def intro!: shift_rules)
  have "awaiting l1 r (r1\<lparr>br_quote := quote_columns_of (struck_quote struck), br_quote_locked_at := Some now\<rparr>)"
    using a by (simp add: awaiting_def get_request_update[OF up])
  from lock_moved_quote_moves[OF moved moves_to_inv[OF 1] this] net range struck
  show ?thesis using moves_to_trans[OF 1] by (auto simp: quotes_in_range_def)
qed

lemma glc_deposit_locked_moves:
  assumes "glc_deposit_locked r d park recreated now l = Inr (out, l')" and inv: "ledger_inv l"
    and a: "awaiting l r r1" and park: "park \<noteq> Some LATE_DEPOSIT_NO_CAPACITY"
  shows "moves_to l l'"
proof -
  have burst: "MANUAL_REVIEW_REASON_RAPID_BURST_HOLD \<noteq> LATE_DEPOSIT_NO_CAPACITY"
    by (simp add: LATE_DEPOSIT_NO_CAPACITY_def MANUAL_REVIEW_REASON_RAPID_BURST_HOLD_def)
  have limit: "limit_reason role \<noteq> LATE_DEPOSIT_NO_CAPACITY" for role
    by (cases role) (simp_all add: LATE_DEPOSIT_NO_CAPACITY_def
        MANUAL_REVIEW_REASON_WALLET_SOURCE_24H_LIMIT_def MANUAL_REVIEW_REASON_WALLET_DESTINATION_24H_LIMIT_def)
  consider wallet matched l1 where "park_observed r d wallet MANUAL_REVIEW_REASON_RAPID_BURST_HOLD now l = Inr l1"
      "mark_rapid_burst_hold_in (br_id r) matched now l1 = Inr l'"
    | wallet reason where "park_observed r d wallet reason now l = Inr l'" "reason \<noteq> LATE_DEPOSIT_NO_CAPACITY"
    | wallet where "confirm_observed r d wallet now l = Inr l'"
    using assms(1) park limit
    by (auto simp: glc_deposit_locked_def Let_def split: option.splits prod.splits)
  then show ?thesis
  proof cases
    case 1
    from park_observed_moves[OF 1(1) inv a burst] show ?thesis
      using mark_rapid_burst_hold_moves[OF 1(2)] by (blast intro: moves_to_trans moves_to_inv)
  next
    case 2
    then show ?thesis using park_observed_moves[OF _ inv a] by blast
  next
    case 3
    then show ?thesis using confirm_observed_moves[OF _ inv a] by blast
  qed
qed

lemma glc_deposit_awaiting_moves:
  assumes "glc_deposit_awaiting r d lock recreated now l = Inr (out, l')" and inv: "ledger_inv l"
    and a: "awaiting l r r1" and net: "br_net_destination_atomic r1 = br_net_destination_atomic r"
    and range: "quotes_in_range lock"
  shows "moves_to l l'"
proof (cases "gd_observed_amount d = as_u64 (br_gross_amount_atomic r)")
  case True
  then obtain park l1 where lock: "lock_glc_quote r lock now l = Inr (park, l1)"
    and rest: "glc_deposit_locked r d park recreated now l1 = Inr (out, l')"
    using assms(1) by (auto simp: glc_deposit_awaiting_def)
  obtain r2 where 1: "moves_to l l1" "awaiting l1 r r2" using lock_glc_quote_moves[OF lock inv a net range] by blast
  with glc_deposit_locked_moves[OF rest moves_to_inv[OF 1(1)] 1(2) lock_glc_quote_park[OF lock]]
  show ?thesis by (blast intro: moves_to_trans)
next
  case False
  then show ?thesis using assms(1) park_amount_mismatch_moves[OF _ inv a] by (auto simp: glc_deposit_awaiting_def)
qed

lemma record_glc_deposit_observed_moves:
  assumes "record_glc_deposit_observed_from k d lock now l = Inr (out, l')" and inv: "ledger_inv l"
    and range: "quotes_in_range lock"
  shows "moves_to l l'"
proof (cases "l' = l")
  case True
  then show ?thesis using inv by (simp add: moves_to_refl)
next
  case False
  then obtain r where r: "get_request l k = Some r" using assms(1)
    by (auto simp: record_glc_deposit_observed_from_def split: option.splits)
  then have id: "br_id r = k" by (rule get_request_id)
  show ?thesis
  proof (cases "br_state r = Expired")
    case True
    then obtain row where g: "source_is_goldcoin (br_direction r)" and row: "reserves l (destination_reserve (br_direction r)) = Some row"
      and cases: "if br_net_destination_atomic r > row_headroom row then late_deposit_no_capacity k d now l = Inr (out, l')
        else \<exists>l1. recreate_expired r now l = Inr l1 \<and> glc_deposit_awaiting r d lock True now l1 = Inr (out, l')"
      using assms(1) False r by (auto simp: record_glc_deposit_observed_from_def split: if_splits)
    show ?thesis
    proof (cases "br_net_destination_atomic r > row_headroom row")
      case late: True
      then show ?thesis using cases late_deposit_moves[OF _ inv r True g] by simp
    next
      case room: False
      then obtain l1 where re: "recreate_expired r now l = Inr l1" and rest: "glc_deposit_awaiting r d lock True now l1 = Inr (out, l')"
        using cases by auto
      have "get_request l (br_id r) = Some r" using r id by simp
      note 1 = recreate_expired_moves[OF re inv this True g row]
      let ?r1 = "r\<lparr>br_state := AwaitingDeposit, br_reserved_at := Some now, br_reservation_expires_at := None\<rparr>"
      have "awaiting l1 r ?r1" using 1(2) room by (simp add: awaiting_def)
      have "moves_to l1 l'"
        using 1(1) room range by (intro glc_deposit_awaiting_moves[OF rest _ \<open>awaiting l1 r ?r1\<close>]) (auto intro: moves_to_inv)
      then show ?thesis using 1(1) room by (auto intro: moves_to_trans)
    qed
  next
    case expired: False
    then have "glc_deposit_awaiting r d lock False now l = Inr (out, l')" "br_state r = AwaitingDeposit"
      using assms(1) False r by (auto simp: record_glc_deposit_observed_from_def split: if_splits)
    then show ?thesis using r id range by (intro glc_deposit_awaiting_moves[OF _ inv]) (auto simp: awaiting_def)
  qed
qed

section \<open>Finality, parks and reorganisations\<close>

lemma update_glc_confirmations_moves:
  assumes "update_glc_confirmations k confirmations l = Inr l'" and inv: "ledger_inv l"
  shows "moves_to l l'"
proof -
  note up = assms(1)[unfolded update_glc_confirmations_def]
  show ?thesis by (rule touch_moves[OF inv up]) (auto simp: update_requestD[OF up] row_touched_def row_evolves_def intro!: shift_rules)
qed

lemma mark_glc_source_finalized_moves:
  assumes "mark_glc_source_finalized k now l = Inr l'" and inv: "ledger_inv l"
  shows "moves_to l l'"
proof (cases "l' = l")
  case False
  then obtain r l1 where r: "get_request l k = Some r" and st: "br_state r = Confirming"
    and up: "update_request l k (\<lambda>row. row\<lparr>br_state := SourceFinalized, br_source_finalized_at := Some now\<rparr>) = Inr l1"
    and l': "l' = update_reserve (destination_reserve (br_direction r)) (add_pending (br_net_destination_atomic r))
         (log_transition k (Some (br_state r)) SourceFinalized now None ''system'' l1)"
    using assms(1) by (auto simp: mark_glc_source_finalized_def split: if_splits)
  show ?thesis
    using st by (intro update_moves[OF inv r up])
      (auto simp: l' update_requestD[OF up] move_simps row_shift_def ledger_simps intro!: reserves_shift_update)
qed (simp add: inv moves_to_refl)

lemma mark_glc_deposit_spent_moves:
  assumes "mark_glc_deposit_spent_before_finalized k now l = Inr l'" and inv: "ledger_inv l"
  shows "moves_to l l'"
proof (cases "l' = l")
  case False
  then obtain r l1 where r: "get_request l k = Some r" and st: "br_state r = Confirming"
    and up: "update_request l k (\<lambda>row. row\<lparr>br_state := ManualReview,
         br_manual_review_note := Some ''deposit_spent_before_finalized''\<rparr>) = Inr l1"
    and l': "requests l' = requests l1" "reserves l' = reserves l" "same_books l l'"
    using assms(1) by (auto simp: mark_glc_deposit_spent_before_finalized_def update_requestD split: if_splits)
  have "source_is_goldcoin (br_direction r)" using inv_early[OF inv r] st by (simp add: awaits_deposit_def)
  then show ?thesis
    using st by (intro update_moves[OF inv r up])
      (auto simp: l' move_simps parked_with_reservation_def LATE_DEPOSIT_NO_CAPACITY_def intro!: shift_rules)
qed (simp add: inv moves_to_refl)

lemma park_for_destination_bounds_moves:
  assumes "park_for_destination_bounds k detail now l = Inr (out, l')" and inv: "ledger_inv l"
  shows "moves_to l l'"
proof (cases "l' = l")
  case False
  let ?release = "\<lambda>r l. if \<not> source_is_goldcoin (br_direction r)
    then update_reserve (destination_reserve (br_direction r))
      (\<lambda>row. add_pending (- br_net_destination_atomic r) (release_liquidity (br_net_destination_atomic r) row)) l else l"
  obtain r l1 where r: "get_request l k = Some r" and st: "br_state r = SourceFinalized"
    and up: "update_request (?release r l) k (\<lambda>row. row\<lparr>br_state := ManualReview,
            br_manual_review_note := Some MANUAL_REVIEW_REASON_DESTINATION_PAYOUT_OUT_OF_BOUNDS\<rparr>) = Inr l1"
    and l': "requests l' = requests l1" "reserves l' = reserves l1" "same_books l1 l'"
    using assms(1) False by (auto simp: park_for_destination_bounds_def Let_def split: if_splits)
  have books: "same_books l l'" using l'(3) update_requestD(3)[OF up] by (simp add: same_books_def)
  have reqs: "requests (?release r l) = requests l" by simp
  have distinct_notes: "MANUAL_REVIEW_REASON_DESTINATION_PAYOUT_OUT_OF_BOUNDS \<noteq> LATE_DEPOSIT_NO_CAPACITY"
    "MANUAL_REVIEW_REASON_DESTINATION_PAYOUT_OUT_OF_BOUNDS \<noteq> MANUAL_REVIEW_REASON_FOREIGN_CONTRACT"
    by (simp_all add: LATE_DEPOSIT_NO_CAPACITY_def MANUAL_REVIEW_REASON_DESTINATION_PAYOUT_OUT_OF_BOUNDS_def
        MANUAL_REVIEW_REASON_FOREIGN_CONTRACT_def)
  show ?thesis
    using st distinct_notes
    by (intro update_moves[OF inv r up reqs l'(1) books])
      (auto simp: l' update_requestD[OF up] move_simps parked_with_reservation_def row_shift_def reserve_row_defs
        intro!: shift_rules)
qed (simp add: inv moves_to_refl)

lemma park_for_foreign_contract_moves:
  assumes "park_for_foreign_contract k detail now l = Inr (out, l')" and inv: "ledger_inv l"
  shows "moves_to l l'"
proof (cases "l' = l")
  case False
  then obtain r l1 where r: "get_request l k = Some r" and st: "br_state r = SourceFinalized" "source_is_robinhood (br_direction r)"
    and up: "update_request l k (\<lambda>row. row\<lparr>br_state := ManualReview,
         br_manual_review_note := Some MANUAL_REVIEW_REASON_FOREIGN_CONTRACT\<rparr>) = Inr l1"
    and l': "requests l' = requests l1" "reserves l' = reserves l" "same_books l l'"
    using assms(1) by (auto simp: park_for_foreign_contract_def update_requestD split: if_splits)
  then show ?thesis
    by (intro update_moves[OF inv r up]) (auto simp: l' move_simps parked_with_reservation_def intro!: shift_rules)
qed (simp add: inv moves_to_refl)

lemma reorg_request_moves:
  assumes "reorg_request r now l = Inr l'" and inv: "ledger_inv l" and r: "get_request l (br_id r) = Some r"
    and st: "br_state r \<in> {DepositObserved, Confirming}"
  shows "moves_to l l'" and "k \<noteq> br_id r \<Longrightarrow> get_request l' k = get_request l k"
proof -
  obtain l1 where up: "update_request (log_transition (br_id r) (Some (br_state r)) Reorged now (Some ''block_orphaned'')
       ''system'' l) (br_id r) reorged_row = Inr l1"
    and l': "l' = log_transition (br_id r) (Some Reorged) AwaitingDeposit now None ''system'' l1"
    using assms(1) by (auto simp: reorg_request_def)
  have "source_is_goldcoin (br_direction r)" using inv_early[OF inv r] st by (auto simp: awaits_deposit_def)
  then show "moves_to l l'"
    using st by (intro update_moves[OF inv r up])
      (auto simp: l' update_requestD[OF up] reorged_row_def move_simps intro!: shift_rules)
  show "get_request l' k = get_request l k" if "k \<noteq> br_id r"
    using get_request_other[OF up _ that] by (simp add: reorged_row_def l' get_request_def)
qed

lemma mark_glc_reorged_moves:
  assumes "mark_glc_reorged k now l = Inr l'" and inv: "ledger_inv l"
  shows "moves_to l l'"
proof -
  obtain r where r: "get_request l k = Some r" "br_state r \<in> {DepositObserved, Confirming}" "reorg_request r now l = Inr l'"
    using assms(1) by (auto simp: mark_glc_reorged_def)
  then show ?thesis using reorg_request_moves(1)[OF r(3) inv] get_request_id by fastforce
qed

lemma reorg_rows_moves:
  "reorg_rows rows now l = Inr l' \<Longrightarrow> ledger_inv l \<Longrightarrow> distinct (map br_id rows) \<Longrightarrow>
     \<forall>r\<in>set rows. get_request l (br_id r) = Some r \<and> br_state r \<in> {DepositObserved, Confirming} \<Longrightarrow> moves_to l l'"
proof (induction rows arbitrary: l)
  case Nil
  then show ?case by (simp add: moves_to_refl)
next
  case (Cons r rows)
  obtain l1 where one: "reorg_request r now l = Inr l1" and rest: "reorg_rows rows now l1 = Inr l'"
    using Cons.prems(1) by auto
  have r: "get_request l (br_id r) = Some r" "br_state r \<in> {DepositObserved, Confirming}" using Cons.prems(4) by auto
  note first = reorg_request_moves[OF one Cons.prems(2) r]
  have "get_request l1 (br_id x) = get_request l (br_id x)" if "x \<in> set rows" for x
  proof (rule first(2))
    have "br_id r \<notin> br_id ` set rows" using Cons.prems(3) by simp
    then show "br_id x \<noteq> br_id r" using that by (metis imageI)
  qed
  then have "moves_to l1 l'"
    using Cons.prems(3,4) moves_to_inv[OF first(1)] by (intro Cons.IH[OF rest]) auto
  with first(1) show ?case by (rule moves_to_trans)
qed

lemma goldcoin_rollback_reorg_moves:
  assumes "goldcoin_rollback_reorg fork fork_hash tip tip_hash now l = Inr (n, l')" and inv: "ledger_inv l"
  shows "moves_to l l'"
proof -
  obtain l1 where rows: "reorg_rows (filter (orphaned_by fork) (requests l)) now l = Inr l1"
    and l': "requests l' = requests l1" "reserves l' = reserves l1" "same_books l1 l'"
    using assms(1) by (auto simp: goldcoin_rollback_reorg_def Let_def)
  have 1: "moves_to l l1"
    by (rule reorg_rows_moves[OF rows inv])
      (use filtered_rows[OF inv, where P = "orphaned_by fork"] in \<open>auto simp: orphaned_by_def\<close>)
  have "moves_to l1 l'" using l' by (intro moves_to_unaccounted moves_to_inv[OF 1] reserves_shift_refl)
  with 1 show ?thesis by (rule moves_to_trans)
qed

end
