(* ===== verification/Ledger_Settlement_Moves.thy ===== *)
theory Ledger_Settlement_Moves
  imports Ledger_Moves
begin

text \<open>
  The moves of the operations that fold a Solana deposit and that settle a request on its destination
  chain, and of the operations that only set a switch, a threshold or a column the accounting
  does not read.
\<close>

section \<open>Switches and gates\<close>

lemma update_reserve_moves:
  assumes "update_reserve_or_fail d f l = Inr l'" and inv: "ledger_inv l" and f: "\<And>row. row_shift 0 0 row (f row)"
  shows "moves_to l l'"
proof -
  have "l' = update_reserve d f l" using assms(1) by (simp add: update_reserve_or_fail_def)
  then show ?thesis using inv f by (intro moves_to_unaccounted[where d = d]) (auto intro!: reserves_shift_update)
qed

lemma ledger_set_paused_moves:
  "ledger_set_paused d paused reason l = Inr l' \<Longrightarrow> ledger_inv l \<Longrightarrow> moves_to l l'"
  unfolding ledger_set_paused_def by (erule update_reserve_moves) (simp_all add: row_shift_def)

lemma set_admission_moves:
  "set_admission d closed reason l = Inr l' \<Longrightarrow> ledger_inv l \<Longrightarrow> moves_to l l'"
  unfolding set_admission_def by (erule update_reserve_moves) (simp_all add: row_shift_def)

lemma set_utxo_pool_thresholds_moves:
  "set_utxo_pool_thresholds d minimum warning l = Inr l' \<Longrightarrow> ledger_inv l \<Longrightarrow> moves_to l l'"
  unfolding set_utxo_pool_thresholds_def by (erule update_reserve_moves) (simp_all add: row_shift_def)

lemma set_admission_liquidity_thresholds_moves:
  "set_admission_liquidity_thresholds d buffer reopen l = Inr l' \<Longrightarrow> ledger_inv l \<Longrightarrow> moves_to l l'"
  unfolding set_admission_liquidity_thresholds_def require_eq_Inr
  by (elim conjE, erule update_reserve_moves) (simp_all add: row_shift_def)

lemma set_route_enabled_moves:
  "set_route_enabled route enabled reason now l = Inr l' \<Longrightarrow> ledger_inv l \<Longrightarrow> moves_to l l'"
  by (rule moves_to_unaccounted[where d = SolanaReserve])
    (auto simp: set_route_enabled_def intro!: reserves_shift_refl)

lemma set_route_admission_moves:
  "set_route_admission route closed reason now l = Inr l' \<Longrightarrow> ledger_inv l \<Longrightarrow> moves_to l l'"
  by (rule moves_to_unaccounted[where d = SolanaReserve])
    (auto simp: set_route_admission_def intro!: reserves_shift_refl)

lemma set_rapid_burst_policy_moves:
  "set_rapid_burst_policy policy l = Inr l' \<Longrightarrow> ledger_inv l \<Longrightarrow> moves_to l l'"
  by (rule moves_to_unaccounted[where d = SolanaReserve])
    (auto simp: set_rapid_burst_policy_def intro!: reserves_shift_refl)

lemma goldcoin_ingest_block_moves:
  "ledger_inv l \<Longrightarrow> moves_to l (goldcoin_ingest_block height hash prev time now l)"
  by (rule moves_to_unaccounted[where d = SolanaReserve])
    (auto simp: goldcoin_ingest_block_def Let_def intro!: reserves_shift_refl)

lemma write_liquidity_admission_state_sel [simp]:
  "requests (write_liquidity_admission_state d was closed now l) = requests l"
  "same_books l (write_liquidity_admission_state d was closed now l)"
  "reserves_shift d 0 0 l (write_liquidity_admission_state d was closed now l)"
proof -
  show "requests (write_liquidity_admission_state d was closed now l) = requests l"
    "same_books l (write_liquidity_admission_state d was closed now l)"
    by (simp_all add: write_liquidity_admission_state_def)
  show "reserves_shift d 0 0 l (write_liquidity_admission_state d was closed now l)"
    unfolding write_liquidity_admission_state_def
    by (simp add: reserves_shift_refl, intro impI reserves_shift_update, rule update_reserve_sel, simp add: row_shift_def)
qed

lemma write_liquidity_admission_state_moves:
  "ledger_inv l \<Longrightarrow> moves_to l (write_liquidity_admission_state d was closed now l)"
  by (rule moves_to_unaccounted[where d = d]) simp_all

lemma evaluate_liquidity_admission_gate_moves:
  "evaluate_liquidity_admission_gate d now l = Inr (gate, l') \<Longrightarrow> ledger_inv l \<Longrightarrow> moves_to l l'"
  by (auto simp: evaluate_liquidity_admission_gate_def Let_def intro: write_liquidity_admission_state_moves)

lemma record_post_finality_reorg_moves:
  assumes "record_post_finality_reorg fork tip affected now l = (result, l')" and inv: "ledger_inv l"
  shows "moves_to l l'"
proof -
  let ?l1 = "l\<lparr>post_finality_events := post_finality_events l @ [\<lparr>pf_id = next_rowid pf_id (post_finality_events l),
    pf_detected_at = now, pf_fork_height = fork, pf_old_tip_height = tip, pf_affected_request_ids = affected\<rparr>]\<rparr>"
  have 1: "moves_to l ?l1" using inv by (intro moves_to_unaccounted[where d = SolanaReserve]) (auto intro: reserves_shift_refl)
  consider "l' = ?l1"
    | reason where "ledger_set_paused GoldcoinReserve True reason ?l1 = Inr l'"
    | reason l2 where "ledger_set_paused GoldcoinReserve True reason ?l1 = Inr l2"
        "ledger_set_paused SolanaReserve True reason l2 = Inr l'"
    using assms(1) unfolding record_post_finality_reorg_def Let_def by (auto split: sum.splits)
  then show ?thesis
  proof cases
    case 1
    with \<open>moves_to l ?l1\<close> show ?thesis by simp
  next
    case 2
    from ledger_set_paused_moves[OF this moves_to_inv[OF \<open>moves_to l ?l1\<close>]]
    show ?thesis using \<open>moves_to l ?l1\<close> by (blast intro: moves_to_trans)
  next
    case 3
    from ledger_set_paused_moves[OF 3(1) moves_to_inv[OF \<open>moves_to l ?l1\<close>]]
    show ?thesis using \<open>moves_to l ?l1\<close> ledger_set_paused_moves[OF 3(2)] by (blast intro: moves_to_trans moves_to_inv)
  qed
qed

section \<open>Folded Solana deposits\<close>

lemma evaluate_gate_moves:
  assumes "evaluate_gate_in d now l = Inr (closed, l')" and inv: "ledger_inv l"
  shows "moves_to l l'" "reserves l' d \<noteq> None"
proof -
  obtain was where l': "l' = write_liquidity_admission_state d was closed now l" and "reserves l d \<noteq> None"
    using assms(1) by (auto simp: evaluate_gate_in_def Let_def reserve_headroom_def)
  then show "moves_to l l'" "reserves l' d \<noteq> None"
    using inv write_liquidity_admission_state_moves reserves_shift_None[OF write_liquidity_admission_state_sel(3)] by auto
qed

lemma commit_fold_moves:
  assumes "commit_fold row reason burst admitted now l = Inr (out, l')" and inv: "ledger_inv l"
    and st: "br_state row = (if admitted then SourceFinalized else ManualReview)"
    and src: "source_is_solana (br_direction row)" and burst: "admitted \<Longrightarrow> burst = None"
    and rv: "reserves l (destination_reserve (br_direction row)) = Some rv"
    and room: "admitted \<Longrightarrow> br_net_destination_atomic row \<le> row_headroom rv"
    and nonneg: "0 \<le> br_net_destination_atomic row"
  shows "moves_to l l'"
proof -
  obtain i l1 where ins: "insert_request l row = Inr (i, l1)" using assms(1) by (auto simp: commit_fold_def)
  note D = insert_requestD[OF ins]
  let ?r = "row\<lparr>br_id := i\<rparr>"
  let ?logged = "log_transition i None (br_state row) now (Some reason) ''system'' l1"
  have parked: "\<not> parked_with_reservation ?r"
    using src by (auto simp: parked_with_reservation_def direction_defs)
  show ?thesis
  proof (cases admitted)
    case True
    then have l': "l' = update_reserve (destination_reserve (br_direction row))
         (\<lambda>rv. add_pending (br_net_destination_atomic row) (reserve_liquidity (br_net_destination_atomic row) rv)) ?logged"
      using assms(1) burst by (auto simp: commit_fold_def Let_def ins)
    show ?thesis
      using D rv room True st nonneg
      by (intro insert_moves[OF inv, of l' ?r rv])
        (auto simp: l' move_simps same_books_def row_shift_def ledger_simps intro!: reserves_shift_update)
  next
    case False
    have 1: "moves_to l ?logged"
      using D rv False st parked nonneg
      by (intro insert_moves[OF inv, of _ ?r rv])
        (auto simp: move_simps same_books_def intro!: reserves_shift_refl)
    have "l' = ?logged \<or> (\<exists>matched. mark_rapid_burst_hold_in i matched now ?logged = Inr l')"
      using assms(1) False by (auto simp: commit_fold_def Let_def ins split: option.splits)
    then show ?thesis using 1 mark_rapid_burst_hold_moves moves_to_inv moves_to_trans by blast
  qed
qed

lemma read_gates_headroom:
  "read_gates l direction closed = Inr gates \<Longrightarrow>
     \<exists>rv. reserves l (destination_reserve direction) = Some rv \<and> ig_confirmed_headroom_atomic gates = row_headroom rv"
  by (auto simp: read_gates_def Let_def)

lemma gated_fold_moves:
  assumes gate: "evaluate_gate_in (destination_reserve dir) now l = Inr (closed, l1)" and inv: "ledger_inv l"
    and gates: "read_gates l1 dir closed = Inr gates" and src: "source_is_solana dir"
    and commit: "commit_fold (folded_row dir (if ok then SourceFinalized else ManualReview) index amounts quote requester
        recipient why now) reason burst ok now l1 = Inr (out, l')"
    and ok: "ok \<Longrightarrow> burst = None" "ok \<Longrightarrow> admission_blocker gates (as_i64 (am_net_destination_atomic amounts)) limits = None"
    and range: "unat (am_net_destination_atomic amounts) < 2 ^ 63"
  shows "moves_to l l'"
proof -
  note 1 = evaluate_gate_moves[OF gate inv]
  obtain rv where rv: "reserves l1 (destination_reserve dir) = Some rv" "ig_confirmed_headroom_atomic gates = row_headroom rv"
    using read_gates_headroom[OF gates] by auto
  have "moves_to l1 l'"
    by (rule commit_fold_moves[OF commit moves_to_inv[OF 1(1)], where rv = rv])
      (use rv ok src as_i64_nonneg[OF range] in \<open>simp_all add: folded_row_def blank_request_def admission_blocker_None\<close>)
  with 1(1) show ?thesis by (rule moves_to_trans)
qed

lemma fold_sol_deposit_commits:
  assumes "fold_sol_deposit index amounts requester recipient refusal now l = Inr (out, l')"
    and none: "folded_solana_request index l = None"
  obtains quote closed l1 gates burst why limits ok where "evaluate_gate_in GoldcoinReserve now l = Inr (closed, l1)"
    and "read_gates l1 DirSolToGlc closed = Inr gates"
    and "ok = (admission_blocker gates (as_i64 (am_net_destination_atomic amounts)) limits = None \<and> refusal = None \<and> burst = None)"
    and "commit_fold (folded_row DirSolToGlc (if ok then SourceFinalized else ManualReview) index amounts quote requester
        recipient (if ok then None else Some why) now) ''retroactive_fold_sol_deposit'' burst ok now l1 = Inr (out, l')"
  using assms unfolding fold_sol_deposit_def Let_def
  by (simp only: try_bind_eq_Inr ok_or_eq_Inr require_eq_Inr option.case split_beta) (metis prod.collapse)

lemma fold_sol_deposit_moves:
  assumes "fold_sol_deposit index amounts requester recipient refusal now l = Inr (out, l')" and inv: "ledger_inv l"
    and range: "unat (am_net_destination_atomic amounts) < 2 ^ 63"
  shows "moves_to l l'"
proof (cases "folded_solana_request index l")
  case None
  from fold_sol_deposit_commits[OF assms(1) None]
  obtain quote closed l1 gates burst why limits ok where gate: "evaluate_gate_in GoldcoinReserve now l = Inr (closed, l1)"
    and gates: "read_gates l1 DirSolToGlc closed = Inr gates"
    and ok: "ok = (admission_blocker gates (as_i64 (am_net_destination_atomic amounts)) limits = None \<and> refusal = None \<and> burst = None)"
    and commit: "commit_fold (folded_row DirSolToGlc (if ok then SourceFinalized else ManualReview) index amounts quote requester
        recipient (if ok then None else Some why) now) ''retroactive_fold_sol_deposit'' burst ok now l1 = Inr (out, l')" .
  show ?thesis
    by (rule gated_fold_moves[OF _ inv gates _ commit, where limits = limits])
      (use range in \<open>simp_all add: gate ok direction_defs\<close>)
next
  case (Some r)
  then show ?thesis using assms(1) inv by (auto simp: fold_sol_deposit_def moves_to_refl)
qed

lemma fold_sol_deposit_to_robinhood_moves:
  assumes "fold_sol_deposit_to_robinhood index amounts requester recipient raw open refusal now l = Inr (out, l')"
    and inv: "ledger_inv l" and range: "unat (am_net_destination_atomic amounts) < 2 ^ 63"
  shows "moves_to l l'"
proof (cases "folded_solana_request index l")
  case None
  then obtain quote closed l1 gates burst why limits to where gate: "evaluate_gate_in RobinhoodReserve now l = Inr (closed, l1)"
    and gates: "read_gates l1 DirSolToRhn closed = Inr gates"
    and commit: "let ok = (open \<and> refusal = None \<and> recipient \<noteq> None
        \<and> admission_blocker gates (as_i64 (am_net_destination_atomic amounts)) limits = None \<and> burst = None) in
      commit_fold (folded_row DirSolToRhn (if ok then SourceFinalized else ManualReview) index amounts quote requester
        to why now) ''retroactive_fold_sol_deposit_to_robinhood'' burst ok now l1 = Inr (out, l')"
    using assms(1) unfolding fold_sol_deposit_to_robinhood_def Let_def
    by (simp only: try_bind_eq_Inr ok_or_eq_Inr require_eq_Inr option.case split_beta) (metis prod.collapse)
  show ?thesis
    by (rule gated_fold_moves[OF _ inv gates _ commit[unfolded Let_def], where limits = limits])
      (use range in \<open>simp_all add: gate direction_defs\<close>)
next
  case (Some r)
  then show ?thesis using assms(1) inv by (auto simp: fold_sol_deposit_to_robinhood_def moves_to_refl)
qed

section \<open>Rows with a payout or a refund\<close>

lemma agrees_both:
  assumes "agrees key match xs rows" "find_by br_id k rows = Some r" "\<And>x. br_id (f x) = br_id x" "\<And>x. key (g x) = key x"
    and "\<And>x. find_by key k xs = Some x \<Longrightarrow> match x r \<Longrightarrow> match (g x) (f r)"
  shows "agrees key match (update_by key k g xs) (update_by br_id k f rows)"
  unfolding agrees_def
proof (intro allI impI)
  fix k' x assume "find_by key k' (update_by key k g xs) = Some x"
  then obtain y where y: "find_by key k' xs = Some y" "x = (if k' = k then g y else y)"
    by (auto simp: find_update_by[of key g, OF assms(4)])
  then obtain r' where "find_by br_id k' rows = Some r'" "match y r'" using assms(1) by (auto simp: agrees_def)
  with y assms(2,5) show "\<exists>r. find_by br_id k' (update_by br_id k f rows) = Some r \<and> match x r"
    by (auto simp: find_update_by[of br_id f, OF assms(3)])
qed

text \<open>
  One request is rewritten together with its payout and its refunds. The functions on the other
  tables are the identity where an operation does not write them.
\<close>

lemma update_by_ident [simp]: "update_by key k (\<lambda>x. x) rows = rows"
  by (simp add: update_by_def)

lemma books_rewrite:
  assumes "books_agree l" "get_request l k = Some r"
    and "requests l' = update_by br_id k f (requests l)" "\<And>x. br_id (f x) = br_id x"
    and "goldcoin_payouts l' = update_by gp_request_id k p (goldcoin_payouts l)" "\<And>x. gp_request_id (p x) = gp_request_id x"
    and "goldcoin_refunds l' = update_by gr_request_id k g (goldcoin_refunds l)" "\<And>x. gr_request_id (g x) = gr_request_id x"
    and "solana_refunds l' = update_by sr_request_id k s (solana_refunds l)" "\<And>x. sr_request_id (s x) = sr_request_id x"
    and "\<And>x. get_goldcoin_payout l k = Some x \<Longrightarrow> payout_matches x r \<Longrightarrow> payout_matches (p x) (f r)"
    and "\<And>x. get_goldcoin_refund l k = Some x \<Longrightarrow> glc_refund_matches x r \<Longrightarrow> glc_refund_matches (g x) (f r)"
    and "\<And>x. get_solana_refund l k = Some x \<Longrightarrow> sol_refund_matches x r \<Longrightarrow> sol_refund_matches (s x) (f r)"
  shows "books_agree l'"
proof -
  have "find_by br_id k (requests l) = Some r" using assms(2) by (simp add: get_request_def)
  then show ?thesis
    using assms(1,11,12,13)
    by (auto simp: books_agree_def assms(3,5,7,9) get_goldcoin_payout_def get_goldcoin_refund_def get_solana_refund_def
        find_update_by[of gp_request_id p, OF assms(6)] find_update_by[of sr_request_id s, OF assms(10)]
        intro!: agrees_both[where f = f, OF _ _ assms(4)] assms(6,8,10))
qed

lemma update_payout_sel [simp]:
  "requests (update_payout k g l) = requests l" "reserves (update_payout k g l) = reserves l"
  "goldcoin_payouts (update_payout k g l) = update_by gp_request_id k g (goldcoin_payouts l)"
  "goldcoin_refunds (update_payout k g l) = goldcoin_refunds l" "solana_refunds (update_payout k g l) = solana_refunds l"
  by (simp_all add: update_payout_def)

lemma payout_row:
  assumes "ledger_inv l" "get_goldcoin_payout l k = Some p"
  obtains r where "get_request l k = Some r" "payout_matches p r"
proof -
  have "agrees gp_request_id payout_matches (goldcoin_payouts l) (requests l)"
    using assms(1) by (simp add: ledger_inv_def books_agree_def)
  then show thesis using that assms(2) by (auto simp: agrees_def get_request_def get_goldcoin_payout_def)
qed

text \<open>No refund row belongs to a request in one of the states of a payout, and no payout to a request of another destination.\<close>

lemma no_refund_in_payout:
  "br_state r \<notin> {RefundPending, RefundBroadcast, Refunded} \<Longrightarrow> \<not> glc_refund_matches g r \<and> \<not> sol_refund_matches s r"
  by (auto simp: glc_refund_matches.simps sol_refund_matches.simps split: GoldcoinRefundState.splits SolanaRefundState.splits)

text \<open>Moves that rewrite a request and its payout, and shift the reserve by what the request held.\<close>

lemma payout_moves:
  assumes inv: "ledger_inv l" and r: "get_request l k = Some r" and reqs: "requests l' = update_by br_id k f (requests l)"
    and keeps: "\<And>x. br_id (f x) = br_id x" "\<And>x. gp_request_id (p x) = gp_request_id x"
    and pay: "goldcoin_payouts l' = update_by gp_request_id k p (goldcoin_payouts l)"
      "goldcoin_refunds l' = goldcoin_refunds l" "solana_refunds l' = solana_refunds l"
    and st: "br_state r \<notin> {RefundPending, RefundBroadcast, Refunded}"
    and matches: "\<And>x. get_goldcoin_payout l k = Some x \<Longrightarrow> payout_matches x r \<Longrightarrow> payout_matches (p x) (f r)"
    and ev: "row_evolves r (f r)" and net: "row_net_kept r (f r)" and early: "\<not> awaits_deposit (br_state (f r))"
    and cover: "covered_by l r (f r) paid"
    and shift: "reserves_shift (request_reserve r) (held_amount (f r) - held_amount r) (- paid) l l'"
  shows "moves_to l l'"
proof (rule row_moves[OF inv r reqs keeps(1) ev net _ _ cover shift])
  show "books_agree l'"
    using inv no_refund_in_payout[OF st]
    by (intro books_rewrite[OF _ r reqs keeps(1) pay(1) keeps(2), where g = "\<lambda>x. x" and s = "\<lambda>x. x"] matches)
      (auto simp: ledger_inv_def pay)
qed (simp add: early)

lemma settle_shift:
  assumes "reserves l2 = reserves l"
  shows "reserves_shift d (- n) (- n) l (update_reserve e (accrue_fee fee) (update_reserve d (settle_liquidity n) l2))"
proof (rule reserves_shift_then[where e = e and g = "accrue_fee fee"])
  show "reserves_shift d (- n) (- n) l (update_reserve d (settle_liquidity n) l2)"
    by (rule reserves_shift_update[where g = "settle_liquidity n"]) (simp_all add: assms row_shift_def settle_liquidity_def)
qed (simp_all add: row_shift_def accrue_fee_def)

section \<open>The Solana release\<close>

lemma record_release_submitted_moves:
  assumes "record_release_submitted k signature now l = Inr l'" and inv: "ledger_inv l"
  shows "moves_to l l'"
proof (cases "l' = l")
  case False
  then obtain r l1 where r: "get_request l k = Some r" and st: "br_state r = SourceFinalized"
    and up: "update_request l k (\<lambda>row. row\<lparr>br_state := DestinationSubmitted, br_destination_txid := Some signature\<rparr>) = Inr l1"
    and l': "requests l' = requests l1" "reserves l' = reserves l" "same_books l l'"
    using assms(1) by (auto simp: record_release_submitted_def update_requestD split: if_splits)
  then show ?thesis by (intro update_moves[OF inv r up]) (auto simp: l' move_simps intro!: reserves_shift_refl)
qed (simp add: inv moves_to_refl)

lemma release_confirmed_moves:
  assumes "release_confirmed_in k now reason actor l = Inr (out, l')" and inv: "ledger_inv l"
  shows "moves_to l l'"
proof (cases "l' = l")
  case False
  let ?f = "\<lambda>row. row\<lparr>br_state := DestinationConfirmed\<rparr>" and ?g = "\<lambda>row. row\<lparr>br_state := Settled, br_settled_at := Some now\<rparr>"
  obtain r where r: "get_request l k = Some r" and st: "br_state r = DestinationSubmitted"
    and dst: "destination_is_solana (br_direction r)"
    using assms(1) False by (auto simp: release_confirmed_in_def split: if_splits)
  let ?log = "log_transition k (Some (br_state r)) DestinationConfirmed now reason actor"
  have "\<exists>l1 l2. update_request l k ?f = Inr l1
    \<and> (if settles_on_release (br_direction r)
       then try_bind (update_request (?log l1) k ?g) (\<lambda>l. Inr (log_transition k (Some DestinationConfirmed) Settled now reason actor l))
       else Inr (?log l1)) = Inr l2
    \<and> l' = update_reserve (source_reserve (br_direction r)) (accrue_fee (br_fee_amount_atomic r))
         (update_reserve SolanaReserve (settle_liquidity (br_net_destination_atomic r)) l2)"
    using assms(1) unfolding release_confirmed_in_def r ok_or_Some try_bind_Inr Let_def
    by (auto simp: st dst split del: if_split)
  then obtain l1 l2 where up: "update_request l k ?f = Inr l1"
    and l2: "(if settles_on_release (br_direction r)
       then try_bind (update_request (?log l1) k ?g) (\<lambda>l. Inr (log_transition k (Some DestinationConfirmed) Settled now reason actor l))
       else Inr (?log l1)) = Inr l2"
    and l': "l' = update_reserve (source_reserve (br_direction r)) (accrue_fee (br_fee_amount_atomic r))
         (update_reserve SolanaReserve (settle_liquidity (br_net_destination_atomic r)) l2)"
    by blast
  let ?h = "\<lambda>row. if settles_on_release (br_direction r) then ?g (?f row) else ?f row"
  have reqs: "requests l' = update_by br_id k ?h (requests l)"
    using l2 by (auto simp: l' update_requestD(1)[OF up] update_by_def dest: update_requestD(1) split: if_splits)
  have rest: "goldcoin_payouts l' = goldcoin_payouts l" "goldcoin_refunds l' = goldcoin_refunds l"
    "solana_refunds l' = solana_refunds l" "reserves l2 = reserves l"
    using l2 by (auto simp: l' update_requestD[OF up] dest: update_requestD(2,4-6) split: if_splits)
  have dirs: "br_direction r \<in> {DirGlcToSol, DirRhnToSol}" using dst by (simp add: destination_is_solana_def)
  show ?thesis
  proof (rule payout_moves[OF inv r reqs, where p = "\<lambda>x. x" and paid = "br_net_destination_atomic r"])
    have held: "held_amount (?h r) = 0" "held_amount r = br_net_destination_atomic r"
      using dirs st by (auto simp: held_amount_def holds_reservation_def settles_on_release_def)
    show "covered_by l r (?h r) (br_net_destination_atomic r)"
      using dirs st by (auto simp: covered_by_def holds_reservation_def settles_on_release_def)
    show "reserves_shift (request_reserve r) (held_amount (?h r) - held_amount r) (- br_net_destination_atomic r) l l'"
    proof -
      have "request_reserve r = SolanaReserve" using dirs by (auto simp: request_reserve_def)
      then show ?thesis unfolding held l' using settle_shift[OF rest(4)] by simp
    qed
  qed (use dirs st in \<open>auto simp: rest payout_matches.simps row_evolves_def row_net_kept_def is_terminal_def awaits_deposit_def destination_is_goldcoin_def\<close>)
qed (simp add: inv moves_to_refl)

lemma mark_release_confirmed_moves:
  "mark_release_confirmed k now l = Inr l' \<Longrightarrow> ledger_inv l \<Longrightarrow> moves_to l l'"
  by (auto simp: mark_release_confirmed_def intro: release_confirmed_moves)

lemma reconcile_release_moves:
  "reconcile_release_from_chain k actor now l = Inr (out, l') \<Longrightarrow> ledger_inv l \<Longrightarrow> moves_to l l'"
  by (auto simp: reconcile_release_from_chain_def moves_to_refl intro: release_confirmed_moves split: if_splits)

section \<open>The Goldcoin payout\<close>

lemma agrees_new:
  assumes "agrees key match xs rows" "find_by br_id (key x) rows = Some r" "match x r"
  shows "agrees key match (xs @ [x]) rows"
  using assms by (auto simp: agrees_def find_by_append split: option.splits)

lemma payout_built_moves:
  assumes "record_goldcoin_payout_built k plan commitment tx now l = Inr l'" and inv: "ledger_inv l"
    and r: "get_request l k = Some r" "destination_is_goldcoin (br_direction r)"
  shows "moves_to l l'"
proof -
  define p where "p = last (goldcoin_payouts l')"
  have p: "gp_request_id p = k" "gp_state p = PayoutBuilt" and pay: "goldcoin_payouts l' = goldcoin_payouts l @ [p]"
    and rest: "requests l' = requests l" "reserves l' = reserves l" "goldcoin_refunds l' = goldcoin_refunds l"
      "solana_refunds l' = solana_refunds l"
    and none: "get_solana_refund l k = None"
    using assms(1) by (auto simp: record_goldcoin_payout_built_def Let_def p_def split: option.splits)
  have "payout_matches p r" using p(2) r(2) by (simp add: payout_matches.simps)
  then have "agrees gp_request_id payout_matches (goldcoin_payouts l @ [p]) (requests l)"
    using inv r(1) p(1) by (intro agrees_new[of _ _ _ _ _ r]) (auto simp: ledger_inv_def books_agree_def get_request_def)
  moreover have "get_goldcoin_payout l' k' = None \<or> get_solana_refund l' k' = None" for k'
  proof -
    have "get_goldcoin_payout l k' = None \<or> get_solana_refund l k' = None"
      using inv by (simp add: ledger_inv_def books_agree_def)
    with none p(1) show ?thesis
      by (auto simp: pay rest get_goldcoin_payout_def get_solana_refund_def find_by_append)
  qed
  ultimately have "books_agree l'" using inv by (simp add: ledger_inv_def books_agree_def pay rest)
  then show ?thesis using inv rest by (intro moves_to_accounts reserves_shift_refl)
qed

lemma payout_signed_moves:
  assumes "record_goldcoin_payout_signed k tx now l = Inr l'" and inv: "ledger_inv l"
  shows "moves_to l l'"
proof -
  let ?p = "\<lambda>p. p\<lparr>gp_signed_tx_hex := Some tx, gp_state := PayoutSigned, gp_signed_at := Some now\<rparr>"
  obtain r l1 where r: "get_request l k = Some r" and st: "br_state r = SourceFinalized"
    and up: "update_request (update_payout k ?p l) k (\<lambda>row. row\<lparr>br_state := SettlementAuthorized\<rparr>) = Inr l1"
    and l': "l' = log_transition k (Some (br_state r)) SettlementAuthorized now None ''system'' l1"
    using assms(1) by (auto simp: record_goldcoin_payout_signed_def split: option.splits)
  show ?thesis
    by (rule payout_moves[OF inv r, where p = ?p and paid = 0 and f = "\<lambda>row. row\<lparr>br_state := SettlementAuthorized\<rparr>"])
      (use st in \<open>auto simp: l' update_requestD[OF up] move_simps payout_matches.simps intro!: reserves_shift_refl\<close>)
qed

text \<open>A payout that keeps its state.\<close>

lemma update_payout_moves:
  assumes inv: "ledger_inv l" and keeps: "\<And>x. gp_request_id (p x) = gp_request_id x" "\<And>x. gp_state (p x) = gp_state x"
  shows "moves_to l (update_payout k p l)"
proof (cases "get_request l k")
  case None
  have "get_goldcoin_payout l k = None"
  proof (rule ccontr)
    assume "get_goldcoin_payout l k \<noteq> None"
    then obtain x where "get_goldcoin_payout l k = Some x" by auto
    then show False using payout_row[OF inv] None by fastforce
  qed
  then have "goldcoin_payouts (update_payout k p l) = goldcoin_payouts l" by (simp add: get_goldcoin_payout_def update_by_id)
  then show ?thesis using inv by (intro moves_to_unaccounted[where d = GoldcoinReserve]) (auto intro: reserves_shift_refl)
next
  case (Some r)
  have "books_agree (update_payout k p l)"
    by (rule books_rewrite[OF _ Some, where f = "\<lambda>x. x" and p = p and g = "\<lambda>x. x" and s = "\<lambda>x. x"])
      (use inv in \<open>simp_all add: ledger_inv_def keeps payout_matches.simps\<close>)
  then show ?thesis using inv by (intro moves_to_accounts[where d = GoldcoinReserve]) (auto intro: reserves_shift_refl)
qed

lemma payout_resigned_moves:
  "record_goldcoin_payout_resigned k tx now l = Inr l' \<Longrightarrow> ledger_inv l \<Longrightarrow> moves_to l l'"
  by (auto simp: record_goldcoin_payout_resigned_def intro!: update_payout_moves)

lemma completion_submitted_moves:
  "record_goldcoin_completion_submitted k signature now l = Inr l' \<Longrightarrow> ledger_inv l \<Longrightarrow> moves_to l l'"
  by (auto simp: record_goldcoin_completion_submitted_def moves_to_refl intro!: update_payout_moves split: if_splits)

lemma record_change_outpoints_sel [simp]:
  "requests (record_change_outpoints k txid l) = requests l" "reserves (record_change_outpoints k txid l) = reserves l"
  "goldcoin_payouts (record_change_outpoints k txid l) = goldcoin_payouts l"
  "goldcoin_refunds (record_change_outpoints k txid l) = goldcoin_refunds l"
  "solana_refunds (record_change_outpoints k txid l) = solana_refunds l"
  by (simp_all add: record_change_outpoints_def Let_def)

lemma payout_broadcast_moves:
  assumes "record_goldcoin_payout_broadcast k txid now l = Inr l'" and inv: "ledger_inv l"
  shows "moves_to l l'"
proof (cases "l' = l")
  case False
  let ?p = "\<lambda>p. p\<lparr>gp_state := PayoutBroadcast, gp_txid := Some txid, gp_broadcast_at := Some now\<rparr>"
  let ?f = "\<lambda>row. row\<lparr>br_state := DestinationSubmitted, br_destination_txid := Some (to_bytes txid)\<rparr>"
  obtain r l1 where r: "get_request l k = Some r" and st: "br_state r = SettlementAuthorized"
    and up: "update_request (record_change_outpoints k txid (update_payout k ?p l)) k ?f = Inr l1"
    and l': "l' = log_transition k (Some (br_state r)) DestinationSubmitted now None ''system'' l1"
    using assms(1) False
    by (auto simp: record_goldcoin_payout_broadcast_def Let_def get_request_def split: if_splits)
  show ?thesis
    by (rule payout_moves[OF inv r, where p = ?p and paid = 0 and f = ?f])
      (use st in \<open>auto simp: l' update_requestD[OF up] move_simps payout_matches.simps intro!: reserves_shift_refl\<close>)
qed (simp add: inv moves_to_refl)

lemma payout_confirmed_moves:
  assumes inv: "ledger_inv l" and p: "get_goldcoin_payout l k = Some p" "gp_state p = PayoutBroadcast"
    and r: "get_request l k = Some r"
    and up: "update_request (update_payout k (\<lambda>p. p\<lparr>gp_state := PayoutConfirmed\<rparr>) l) k
        (\<lambda>row. row\<lparr>br_state := DestinationConfirmed\<rparr>) = Inr l1"
    and l': "requests l' = requests l1" "reserves l' = reserves l1" "same_books l1 l'"
  shows "moves_to l l'"
proof -
  have m: "br_state r = DestinationSubmitted" "destination_is_goldcoin (br_direction r)"
    using payout_row[OF inv p(1)] r p(2) by (auto simp: payout_matches.simps)
  then have d: "\<not> destination_debited_at_destination_confirmed (br_direction r)"
    by (auto simp: destination_is_goldcoin_def)
  show ?thesis
    by (rule payout_moves[OF inv r, where p = "\<lambda>p. p\<lparr>gp_state := PayoutConfirmed\<rparr>" and paid = 0
          and f = "\<lambda>row. row\<lparr>br_state := DestinationConfirmed\<rparr>"])
      (use m d l'(3)[unfolded same_books_def] in \<open>auto simp: l' update_requestD[OF up] move_simps payout_matches.simps
        intro!: reserves_shift_refl\<close>)
qed

lemma payout_confirmations_moves:
  assumes "update_goldcoin_payout_confirmations k confirmations tip required now l = Inr (out, l')" and inv: "ledger_inv l"
  shows "moves_to l l'"
proof -
  let ?p1 = "\<lambda>p. if gp_state p \<in> {PayoutBroadcast, PayoutConfirmed} \<and> gp_confirmations p < confirmations
    then p\<lparr>gp_confirmations := confirmations\<rparr> else p"
  let ?p2 = "\<lambda>p. if gp_mined_height p = None then p\<lparr>gp_mined_height := Some (tip - confirmations + 1)\<rparr> else p"
  let ?f = "\<lambda>r. if br_state r \<in> {DestinationSubmitted, DestinationConfirmed} \<and> br_destination_confirmations r < confirmations
    then r\<lparr>br_destination_confirmations := confirmations\<rparr> else r"
  obtain l1 where up: "update_request (update_payout k ?p1 l) k ?f = Inr l1"
    and rest: "let l2 = (if confirmations > 0 then update_payout k ?p2 l1 else l1) in
      l' = l2 \<or> (\<exists>p r l3. get_goldcoin_payout l2 k = Some p \<and> gp_state p = PayoutBroadcast \<and> get_request l2 k = Some r
        \<and> update_request (update_payout k (\<lambda>p. p\<lparr>gp_state := PayoutConfirmed\<rparr>) l2) k
            (\<lambda>row. row\<lparr>br_state := DestinationConfirmed\<rparr>) = Inr l3
        \<and> l' = log_transition k (Some (br_state r)) DestinationConfirmed now None ''system'' l3)"
    using assms(1) unfolding update_goldcoin_payout_confirmations_def Let_def
    by (fastforce simp: get_request_def split: if_splits option.splits)
  have 1: "moves_to l (update_payout k ?p1 l)" by (rule update_payout_moves[OF inv]) simp_all
  have 2: "moves_to (update_payout k ?p1 l) l1"
    by (rule touch_moves[OF moves_to_inv[OF 1] up])
      (auto simp: update_requestD[OF up] row_touched_def row_evolves_def intro!: reserves_shift_refl)
  let ?l2 = "if confirmations > 0 then update_payout k ?p2 l1 else l1"
  have 3: "moves_to l1 ?l2" using update_payout_moves[OF moves_to_inv[OF 2], of ?p2 k] moves_to_refl[OF moves_to_inv[OF 2]] by simp
  have "moves_to ?l2 l'"
    using rest[unfolded Let_def]
  proof (elim disjE exE conjE)
    assume "l' = ?l2"
    then show ?thesis using moves_to_refl[OF moves_to_inv[OF 3]] by (simp only:)
  next
    fix p r l3
    assume a: "get_goldcoin_payout ?l2 k = Some p" "gp_state p = PayoutBroadcast" "get_request ?l2 k = Some r"
      "update_request (update_payout k (\<lambda>p. p\<lparr>gp_state := PayoutConfirmed\<rparr>) ?l2) k
            (\<lambda>row. row\<lparr>br_state := DestinationConfirmed\<rparr>) = Inr l3"
      "l' = log_transition k (Some (br_state r)) DestinationConfirmed now None ''system'' l3"
    show ?thesis by (rule payout_confirmed_moves[OF moves_to_inv[OF 3] a(1-4)]) (simp_all add: a(5))
  qed
  then show ?thesis using 1 2 3 by (blast intro: moves_to_trans)
qed

lemma completion_confirmed_moves:
  assumes "goldcoin_completion_confirmed_in k now reason actor submitted l = Inr (out, l')" and inv: "ledger_inv l"
    and dst: "\<And>r. get_request l k = Some r \<Longrightarrow> submitted \<or> destination_is_goldcoin (br_direction r)"
  shows "moves_to l l'"
proof (cases "l' = l")
  case False
  let ?p = "\<lambda>p. p\<lparr>gp_state := PayoutCompleted, gp_completed_at := Some now, gp_onchain_completed_at := Some now\<rparr>"
  let ?f = "\<lambda>row. row\<lparr>br_state := Settled, br_settled_at := Some now\<rparr>"
  obtain r l1 where r: "get_request l k = Some r" and st: "br_state r = DestinationConfirmed"
    and sub: "submitted \<Longrightarrow> get_goldcoin_payout l k \<noteq> None" and up: "update_request (update_payout k ?p l) k ?f = Inr l1"
    and l': "requests l' = requests l1" "same_books l1 l'" "reserves l' = reserves (update_reserve SolanaReserve (accrue_fee (br_fee_amount_atomic r))
        (update_reserve GoldcoinReserve (settle_liquidity (br_net_destination_atomic r)) l1))"
    using assms(1) False
    by (auto simp: goldcoin_completion_confirmed_in_def Let_def split: if_splits option.splits)
  have "destination_is_goldcoin (br_direction r)"
    using dst[OF r] sub payout_row[OF inv] r by (fastforce simp: payout_matches.simps)
  then have dirs: "br_direction r \<in> {DirSolToGlc, DirRhnToGlc}" by (simp add: destination_is_goldcoin_def)
  show ?thesis
  proof (rule payout_moves[OF inv r, where p = ?p and f = ?f and paid = "br_net_destination_atomic r"])
    have held: "held_amount (?f r) = 0" "held_amount r = br_net_destination_atomic r" "request_reserve r = GoldcoinReserve"
      using dirs st by (auto simp: held_amount_def holds_reservation_def request_reserve_def)
    show "covered_by l r (?f r) (br_net_destination_atomic r)"
      using dirs st by (auto simp: covered_by_def holds_reservation_def)
    have "reserves_shift GoldcoinReserve (- br_net_destination_atomic r) (- br_net_destination_atomic r) l
      (update_reserve SolanaReserve (accrue_fee (br_fee_amount_atomic r))
        (update_reserve GoldcoinReserve (settle_liquidity (br_net_destination_atomic r)) l1))"
      by (rule settle_shift) (simp add: update_requestD[OF up])
    then show "reserves_shift (request_reserve r) (held_amount (?f r) - held_amount r) (- br_net_destination_atomic r) l l'"
      by (simp add: held reserves_shift_def l'(3))
  qed (use dirs st l'(2)[unfolded same_books_def] in \<open>auto simp: l' update_requestD[OF up] payout_matches.simps
      row_evolves_def row_net_kept_def is_terminal_def awaits_deposit_def\<close>)
qed (simp add: inv moves_to_refl)

lemma mark_completion_confirmed_moves:
  "mark_goldcoin_completion_confirmed k now l = Inr l' \<Longrightarrow> ledger_inv l \<Longrightarrow> moves_to l l'"
  by (auto simp: mark_goldcoin_completion_confirmed_def intro: completion_confirmed_moves)

lemma reconcile_completion_moves:
  "reconcile_goldcoin_completion_from_chain k actor now l = Inr (out, l') \<Longrightarrow> ledger_inv l \<Longrightarrow>
     get_request l k = Some r \<Longrightarrow> destination_is_goldcoin (br_direction r) \<Longrightarrow> moves_to l l'"
  by (auto simp: reconcile_goldcoin_completion_from_chain_def moves_to_refl
      intro: completion_confirmed_moves split: if_splits)

end
