(* ===== verification/Ledger_Review_Moves.thy ===== *)
theory Ledger_Review_Moves
  imports Ledger_Settlement_Moves
begin

text \<open>
  The moves of manual review and of the refunds: a parked deposit that is resumed reserves its
  amount under the headroom it was checked against, one that is refunded gives up what it still
  held.
\<close>

section \<open>Resuming\<close>

lemma recoverable_not_parked:
  assumes "is_recoverable_manual_review_reason (br_manual_review_note r)" "\<not> source_is_goldcoin (br_direction r)"
  shows "\<not> parked_with_reservation r"
proof -
  have "MANUAL_REVIEW_REASON_FOREIGN_CONTRACT \<notin> set RECOVERABLE_MANUAL_REVIEW_REASONS" by code_simp
  then show ?thesis using assms
    by (auto simp: is_recoverable_manual_review_reason_def parked_with_reservation_def split: option.splits)
qed

lemma resume_moves:
  assumes inv: "ledger_inv l" and r: "get_request l k = Some r" and st: "br_state r = ManualReview"
    and ok: "is_recoverable_manual_review_reason (br_manual_review_note r)" "\<not> source_is_goldcoin (br_direction r)"
    and row: "reserves l (request_reserve r) = Some row" "br_net_destination_atomic r \<le> row_headroom row"
    and up: "update_request l k f = Inr l1" and keeps: "\<And>x. br_id (f x) = br_id x"
    and f: "row_evolves r (f r)" "br_state (f r) = SourceFinalized" "br_net_destination_atomic (f r) = br_net_destination_atomic r"
    and l': "l' = update_reserve (request_reserve r) (\<lambda>rv. add_pending (br_net_destination_atomic r)
               (reserve_liquidity (br_net_destination_atomic r) rv))
             (log_transition k (Some ManualReview) SourceFinalized now reason actor l1)"
  shows "moves_to l l'"
proof -
  have h: "\<not> holds_reservation r" "holds_reservation (f r)"
    using st f(2) recoverable_not_parked[OF ok] by (simp_all add: holds_reservation_def)
  show ?thesis
    using st f row h
    by (intro update_moves[OF inv r up])
      (auto simp: l' update_requestD[OF up] keeps row_net_kept_def covered_by_def held_amount_def in_lifecycle_def awaits_deposit_def
        row_shift_def reserve_row_defs intro!: reserves_shift_update)
qed

lemma resume_inbound_moves:
  assumes "resume_manual_review_inbound dir k note actor now l = Inr (out, l')" and inv: "ledger_inv l"
    and dir: "dir \<in> {DirSolToGlc, DirRhnToGlc}"
  shows "moves_to l l'"
proof (cases "l' = l")
  case False
  then obtain r wallet l1 where r: "get_request l k = Some r" and d: "br_direction r = dir" and st: "br_state r = ManualReview"
    and check: "resume_state_check l r = Inr ()" and capacity: "resume_inbound_capacity r wallet now l = Inr ()"
    and up: "update_request l k (\<lambda>row. row\<lparr>br_state := SourceFinalized, br_manual_review_note := None\<rparr>) = Inr l1"
    and l': "l' = update_reserve GoldcoinReserve (\<lambda>rv. add_pending (br_net_destination_atomic r)
               (reserve_liquidity (br_net_destination_atomic r) rv))
             (log_transition k (Some ManualReview) SourceFinalized now (Some note) actor l1)"
    using assms(1) by (auto simp: resume_manual_review_inbound_def split: option.splits if_splits)
  have g: "request_reserve r = GoldcoinReserve" "\<not> source_is_goldcoin (br_direction r)"
    using d dir by (auto simp: request_reserve_def source_is_goldcoin_def)
  obtain row where row: "reserves l GoldcoinReserve = Some row" "br_net_destination_atomic r \<le> row_headroom row"
    using capacity by (auto simp: resume_inbound_capacity_def Let_def)
  have rec: "is_recoverable_manual_review_reason (br_manual_review_note r)" using check by (simp add: resume_state_check_def)
  show ?thesis
    by (rule resume_moves[OF inv r st rec g(2) _ _ up])
      (use row l' st in \<open>auto simp: g(1) row_evolves_def is_terminal_def\<close>)
qed (simp add: inv moves_to_refl)

lemma resume_cross_capacityD:
  assumes "resume_cross_capacity r wallet now l = Inr l1"
  shows "\<exists>was closed. l1 = write_liquidity_admission_state (destination_reserve (br_direction r)) was closed now l"
    and "\<exists>row. reserves l (destination_reserve (br_direction r)) = Some row \<and> br_net_destination_atomic r \<le> row_headroom row"
  using assms by (auto simp: resume_cross_capacity_def Let_def reserve_headroom_def)

lemma resume_cross_moves:
  assumes "resume_manual_review_cross_route dir k note actor now l = Inr (out, l')" and inv: "ledger_inv l"
    and dir: "dir \<in> {DirSolToRhn, DirRhnToSol}"
  shows "moves_to l l'"
proof (cases "l' = l")
  case False
  then obtain r wallet l1 l2 where r: "get_request l k = Some r" and d: "br_direction r = dir" and st: "br_state r = ManualReview"
    and check: "resume_state_check l r = Inr ()" and capacity: "resume_cross_capacity r wallet now l = Inr l1"
    and up: "update_request l1 k (\<lambda>row. row\<lparr>br_state := SourceFinalized, br_reserved_at := Some now\<rparr>) = Inr l2"
    and l': "l' = update_reserve (destination_reserve (br_direction r)) (\<lambda>rv. add_pending (br_net_destination_atomic r)
               (reserve_liquidity (br_net_destination_atomic r) rv))
             (log_transition k (Some ManualReview) SourceFinalized now (Some note) actor l2)"
    using assms(1) by (auto simp: resume_manual_review_cross_route_def split: option.splits if_splits)
  obtain was closed where l1: "l1 = write_liquidity_admission_state (request_reserve r) was closed now l"
    using resume_cross_capacityD(1)[OF capacity] by (auto simp: request_reserve_def)
  have 1: "moves_to l l1" unfolding l1 by (rule write_liquidity_admission_state_moves[OF inv])
  obtain row where "reserves l (request_reserve r) = Some row" "br_net_destination_atomic r \<le> row_headroom row"
    using resume_cross_capacityD(2)[OF capacity] by (auto simp: request_reserve_def)
  moreover have "reserves_shift (request_reserve r) 0 0 l l1" by (simp add: l1)
  ultimately obtain row1 where row: "reserves l1 (request_reserve r) = Some row1" "br_net_destination_atomic r \<le> row_headroom row1"
    unfolding reserves_shift_def
    by (elim allE[of _ "request_reserve r"]) (cases "reserves l1 (request_reserve r)"; auto simp: row_shift_def row_headroom_def)
  have r1: "get_request l1 k = Some r" using r by (simp add: l1 get_request_def)
  have g: "\<not> source_is_goldcoin (br_direction r)" using d dir by (auto simp: source_is_goldcoin_def)
  have rec: "is_recoverable_manual_review_reason (br_manual_review_note r)" using check by (simp add: resume_state_check_def)
  have "moves_to l1 l'"
    by (rule resume_moves[OF moves_to_inv[OF 1] r1 st rec g row up])
      (use l' st in \<open>auto simp: request_reserve_def row_evolves_def is_terminal_def\<close>)
  with 1 show ?thesis by (rule moves_to_trans)
qed (simp add: inv moves_to_refl)

lemma resume_bound_moves:
  assumes "resume_glc_to_sol_destination_bound k live note actor now l = Inr (out, l')" and inv: "ledger_inv l"
  shows "moves_to l l'"
proof (cases "l' = l")
  case False
  then obtain r payout l1 where r: "get_request l k = Some r" and d: "br_direction r = DirGlcToSol" and st: "br_state r = ManualReview"
    and checks: "resume_bound_checks l r live = Inr payout"
    and up: "update_request l k (\<lambda>row. row\<lparr>br_state := SourceFinalized, br_manual_review_note := None\<rparr>) = Inr l1"
    and l': "requests l' = requests l1" "reserves l' = reserves l" "same_books l l'"
    using assms(1)
    by (auto simp: resume_glc_to_sol_destination_bound_def update_requestD split: option.splits if_splits)
  have "br_manual_review_note r = Some MANUAL_REVIEW_REASON_DESTINATION_PAYOUT_OUT_OF_BOUNDS"
    using checks by (simp add: resume_bound_checks_def Let_def)
  then have "holds_reservation r"
    using d st by (simp add: holds_reservation_def parked_with_reservation_def source_is_goldcoin_def
        LATE_DEPOSIT_NO_CAPACITY_def MANUAL_REVIEW_REASON_DESTINATION_PAYOUT_OUT_OF_BOUNDS_def)
  then show ?thesis
    using st d by (intro update_moves[OF inv r up])
      (auto simp: l' row_net_kept_def covered_by_def held_amount_def holds_reservation_def in_lifecycle_def awaits_deposit_def
        row_evolves_def is_terminal_def source_is_goldcoin_def intro!: reserves_shift_refl)
qed (simp add: inv moves_to_refl)

section \<open>Holds, decisions and closure\<close>

lemma set_manual_review_hold_moves:
  assumes "set_manual_review_hold k after note actor now l = Inr l'" and inv: "ledger_inv l"
  shows "moves_to l l'"
proof -
  let ?f = "\<lambda>r. r\<lparr>br_auto_resume_hold_note := Some (trim note),
        br_auto_resume_hold_until := after, br_manual_review_disposition := OperatorHold,
        br_hold_reason := Some ''operator_hold'', br_held_by := Some actor,
        br_hold_started_at := (case br_hold_started_at r of Some t \<Rightarrow> Some t | None \<Rightarrow> Some now),
        br_review_after := after, br_operator_decision := None, br_operator_decision_at := None,
        br_operator_note := None\<rparr>"
  obtain l1 where up: "update_request l k ?f = Inr l1"
    and l': "requests l' = requests l1" "reserves l' = reserves l" "same_books l l'"
    using assms(1) by (auto simp: set_manual_review_hold_def Let_def update_requestD)
  then show ?thesis
    by (intro touch_moves[OF inv up]) (auto simp: row_touched_def row_evolves_def intro!: reserves_shift_refl)
qed

lemma clear_manual_review_hold_moves:
  assumes "clear_manual_review_hold k note actor now l = Inr (out, l')" and inv: "ledger_inv l"
  shows "moves_to l l'"
proof (cases "l' = l")
  case False
  let ?f = "\<lambda>row. row\<lparr>br_auto_resume_hold_note := None,
          br_auto_resume_hold_until := None, br_manual_review_disposition := NormalReview,
          br_operator_decision := Some Release, br_operator_decision_at := Some now,
          br_operator_note := (if trim note = [] then None else Some (trim note))\<rparr>"
  obtain l1 where up: "update_request l k ?f = Inr l1"
    and l': "requests l' = requests l1" "reserves l' = reserves l" "same_books l l'"
    using assms(1) False
    unfolding clear_manual_review_hold_def Let_def by (auto simp: update_requestD split: if_splits)
  then show ?thesis
    by (intro touch_moves[OF inv up]) (auto simp: row_touched_def row_evolves_def intro!: reserves_shift_refl)
qed (simp add: inv moves_to_refl)

lemma record_operator_decision_moves:
  assumes "record_operator_decision k decision note actor emergency now l = Inr (before, l')" and inv: "ledger_inv l"
  shows "moves_to l l'"
proof -
  let ?note = "if emergency then ''EMERGENCY (before review_after): '' @ trim note else trim note"
  let ?f = "\<lambda>r. if decision = Process then r\<lparr>br_operator_decision := Some decision, br_operator_decision_at := Some now,
          br_operator_note := Some ?note, br_auto_resume_hold_note := None, br_auto_resume_hold_until := None\<rparr>
        else r\<lparr>br_operator_decision := Some decision, br_operator_decision_at := Some now,
          br_operator_note := Some ?note\<rparr>"
  obtain l1 where up: "update_request l k ?f = Inr l1"
    and l': "l' = log_transition k (Some ManualReview) ManualReview now
        (Some (if decision = Process then ''operator_decision_process'' else ''operator_decision_refund'')) actor l1"
    using assms(1) unfolding record_operator_decision_def Let_def by (auto split del: if_split)
  then show ?thesis
    by (intro touch_moves[OF inv up])
      (auto simp: update_requestD[OF up] row_touched_def row_evolves_def intro!: reserves_shift_refl)
qed

lemma process_held_moves:
  assumes "process_held_manual_review k note actor now l = Inr (out, l')" and inv: "ledger_inv l"
  shows "moves_to l l'"
proof -
  obtain before l1 where d: "record_operator_decision k Process note actor False now l = Inr (before, l1)"
    and rest: "(case br_direction before of
       DirSolToGlc \<Rightarrow> resume_manual_review_sol_to_glc k note actor now l1
     | DirRhnToGlc \<Rightarrow> resume_manual_review_rhn_to_glc k note actor now l1
     | DirSolToRhn \<Rightarrow> resume_manual_review_cross_route DirSolToRhn k note actor now l1
     | DirRhnToSol \<Rightarrow> resume_manual_review_cross_route DirRhnToSol k note actor now l1
     | DirGlcToSol \<Rightarrow> Inl (ManualReviewNotRecoverable k ''direction has no ManualReview resume path'')
     | DirGlcToRhn \<Rightarrow> Inl (ManualReviewNotRecoverable k ''direction has no ManualReview resume path'')) = Inr (out, l')"
    using assms(1) by (auto simp: process_held_manual_review_def)
  have 1: "moves_to l l1" by (rule record_operator_decision_moves[OF d inv])
  have "moves_to l1 l'"
    using rest resume_inbound_moves[OF _ moves_to_inv[OF 1]] resume_cross_moves[OF _ moves_to_inv[OF 1]]
    by (cases "br_direction before") (auto simp: resume_manual_review_sol_to_glc_def resume_manual_review_rhn_to_glc_def)
  with 1 show ?thesis by (rule moves_to_trans)
qed

lemma close_manual_review_moves:
  assumes "close_manual_review k disposition reference note actor now l = Inr (out, l')" and inv: "ledger_inv l"
  shows "moves_to l l'"
proof (cases "l' = l")
  case False
  then obtain r closures l1 where r: "get_request l k = Some r" and st: "br_state r = ManualReview"
    and up: "update_request (l\<lparr>request_closures := closures\<rparr>) k (\<lambda>r. r\<lparr>br_state := Closed\<rparr>) = Inr l1"
    and l': "requests l' = requests l1" "reserves l' = reserves l1" "same_books l1 l'"
    using assms(1) by (fastforce simp: close_manual_review_def closable_def Let_def split: option.splits if_splits)
  have "same_books l l'" using l'(3) update_requestD(3)[OF up] by (simp add: same_books_def)
  then show ?thesis
    using st by (intro update_moves[OF inv r up])
      (auto simp: l' update_requestD[OF up] move_simps parked_with_reservation_def intro!: reserves_shift_refl)
qed (simp add: inv moves_to_refl)

section \<open>Refunds\<close>

lemma refund_moves:
  assumes inv: "ledger_inv l" and r: "get_request l k = Some r" and reqs: "requests l' = update_by br_id k f (requests l)"
    and keeps: "\<And>x. br_id (f x) = br_id x" and books: "books_agree l'"
    and ev: "row_evolves r (f r)" and early: "\<not> awaits_deposit (br_state (f r))"
    and cover: "holds_reservation (f r) \<Longrightarrow> holds_reservation r"
    and net: "br_net_destination_atomic (f r) = br_net_destination_atomic r"
    and shift: "reserves_shift (request_reserve r) (held_amount (f r) - held_amount r) 0 l l'"
  shows "moves_to l l'"
  by (rule row_moves[OF inv r reqs keeps ev _, where paid = 0])
    (use books early cover net shift in \<open>auto simp: covered_by_def row_net_kept_def\<close>)

lemma write_goldcoin_refundsD:
  assumes "write_goldcoin_refunds rows l = Inr l'"
  shows "goldcoin_refunds l' = rows" "requests l' = requests l" "reserves l' = reserves l"
    "goldcoin_payouts l' = goldcoin_payouts l" "solana_refunds l' = solana_refunds l"
  using assms by (auto simp: write_goldcoin_refunds_def)

lemma write_solana_refundsD:
  assumes "write_solana_refunds rows l = Inr l'"
  shows "solana_refunds l' = rows" "requests l' = requests l" "reserves l' = reserves l"
    "goldcoin_payouts l' = goldcoin_payouts l" "goldcoin_refunds l' = goldcoin_refunds l"
  using assms by (auto simp: write_solana_refunds_def)

lemma reserve_refund_inputsD:
  "reserve_refund_inputs k now inputs l = Inr l' \<Longrightarrow>
     requests l' = requests l \<and> reserves l' = reserves l \<and> same_books l l'"
  by (induction inputs arbitrary: l) (auto simp: Let_def same_books_def)

lemma glc_refund_row:
  assumes "ledger_inv l" "get_goldcoin_refund l k = Some g"
  obtains r where "get_request l k = Some r" "glc_refund_matches g r"
proof -
  have "agrees gr_request_id glc_refund_matches (goldcoin_refunds l) (requests l)"
    using assms(1) by (simp add: ledger_inv_def books_agree_def)
  then show thesis using that assms(2) by (auto simp: agrees_def get_request_def get_goldcoin_refund_def)
qed

lemma sol_refund_row:
  assumes "ledger_inv l" "get_solana_refund l k = Some s"
  obtains r where "get_request l k = Some r" "sol_refund_matches s r"
proof -
  have "agrees sr_request_id sol_refund_matches (solana_refunds l) (requests l)"
    using assms(1) by (simp add: ledger_inv_def books_agree_def)
  then show thesis using that assms(2) by (auto simp: agrees_def get_request_def get_solana_refund_def)
qed

text \<open>A refundable Goldcoin reason is not the one of a late deposit, which has no reservation.\<close>

lemma late_not_refundable: "reason_prefix LATE_DEPOSIT_NO_CAPACITY \<notin> set REFUNDABLE_GLC_MANUAL_REVIEW_REASONS"
  by code_simp

lemma glc_refund_checksD:
  assumes "glc_refund_checks l r amount = Inr x"
  shows "source_is_goldcoin (br_direction r)" "br_state r = ManualReview"
    "br_manual_review_note r \<noteq> Some LATE_DEPOSIT_NO_CAPACITY"
proof -
  have "(case br_manual_review_note r of None \<Rightarrow> [] | Some n \<Rightarrow> reason_prefix n) \<in> set REFUNDABLE_GLC_MANUAL_REVIEW_REASONS"
    and "source_is_goldcoin (br_direction r)" "br_state r = ManualReview"
    using assms by (simp_all add: glc_refund_checks_def Let_def)
  then show "source_is_goldcoin (br_direction r)" "br_state r = ManualReview"
    "br_manual_review_note r \<noteq> Some LATE_DEPOSIT_NO_CAPACITY" using late_not_refundable by auto
qed

lemma begin_goldcoin_refund_moves:
  assumes "begin_goldcoin_refund k t note creator now l = Inr l'" and inv: "ledger_inv l"
  shows "moves_to l l'"
proof -
  obtain r src g l1 l2 l3 where r: "get_request l k = Some r" and checks: "glc_refund_checks l r (gx_observed_amount_atomic t) = Inr src"
    and wr: "write_goldcoin_refunds (goldcoin_refunds l @ [g]) l = Inr l1"
    and g: "gr_request_id g = k" "gr_state g = GrBuilt" "\<not> gr_reservation_released g" "gr_txid g = None"
    and inputs: "reserve_refund_inputs k now (enumerate 0 (gx_inputs t)) l1 = Inr l2"
    and up: "update_request l2 k (\<lambda>row. row\<lparr>br_state := RefundPending\<rparr>) = Inr l3"
    and l': "l' = log_transition k (Some ManualReview) RefundPending now (Some ''glc_refund_started'') creator l3"
    using assms(1) by (fastforce simp: begin_goldcoin_refund_def split: option.splits prod.splits)
  note W = write_goldcoin_refundsD[OF wr] and I = reserve_refund_inputsD[OF inputs, unfolded same_books_def]
    and C = glc_refund_checksD[OF checks]
  let ?f = "\<lambda>row. row\<lparr>br_state := RefundPending\<rparr>"
  have reqs: "requests l' = update_by br_id k ?f (requests l)" by (simp add: l' update_requestD[OF up] I W)
  have old: "books_agree (l\<lparr>requests := requests l'\<rparr>)"
    by (rule books_quiet[OF _ _ r, where f = ?f]) (use inv C(2) in \<open>simp_all add: ledger_inv_def reqs in_lifecycle_def\<close>)
  have "glc_refund_matches g (?f r)" using g C by (simp add: glc_refund_matches.simps)
  moreover have "find_by br_id (gr_request_id g) (requests l') = Some (?f r)"
    using r by (simp add: g(1) reqs get_request_def find_update_by)
  ultimately have "agrees gr_request_id glc_refund_matches (goldcoin_refunds l @ [g]) (requests l')"
    using old by (intro agrees_new) (simp_all add: books_agree_def)
  then have "books_agree l'"
    using old by (simp add: books_agree_def l' update_requestD[OF up] I W get_goldcoin_payout_def get_solana_refund_def)
  then show ?thesis
    using C by (intro refund_moves[OF inv r reqs])
      (auto simp: l' update_requestD[OF up] I W row_evolves_def is_terminal_def awaits_deposit_def holds_reservation_def
        held_amount_def parked_with_reservation_def intro!: reserves_shift_refl)
qed

text \<open>A Goldcoin refund row is rewritten and its request stays as it is.\<close>

lemma glc_refund_row_moves:
  assumes up: "update_goldcoin_refund k g l = Inr l'" and inv: "ledger_inv l"
    and keeps: "\<And>x. gr_request_id (g x) = gr_request_id x"
    and same: "\<And>x r. get_goldcoin_refund l k = Some x \<Longrightarrow> glc_refund_matches x r \<Longrightarrow> glc_refund_matches (g x) r"
  shows "moves_to l l'"
proof (cases "get_goldcoin_refund l k")
  case None
  then have "goldcoin_refunds l' = goldcoin_refunds l"
    using write_goldcoin_refundsD(1)[OF up[unfolded update_goldcoin_refund_def]]
    by (simp add: get_goldcoin_refund_def update_by_id)
  then show ?thesis
    using inv write_goldcoin_refundsD[OF up[unfolded update_goldcoin_refund_def]]
    by (intro moves_to_unaccounted[where d = GoldcoinReserve]) (auto intro: reserves_shift_refl)
next
  case (Some x)
  then obtain r where r: "get_request l k = Some r" by (rule glc_refund_row[OF inv])
  note W = write_goldcoin_refundsD[OF up[unfolded update_goldcoin_refund_def]]
  have "books_agree l'"
    by (rule books_rewrite[OF _ r, where f = "\<lambda>x. x" and p = "\<lambda>x. x" and g = g and s = "\<lambda>x. x"])
      (use inv in \<open>simp_all add: W ledger_inv_def keeps same\<close>)
  then show ?thesis using inv W by (intro moves_to_accounts reserves_shift_refl)
qed

lemma glc_refund_signed_moves:
  assumes "record_goldcoin_refund_signed k tx now l = Inr l'" and inv: "ledger_inv l"
  shows "moves_to l l'"
proof (cases "l' = l")
  case False
  then obtain g where g: "get_goldcoin_refund l k = Some g" "gr_state g = GrBuilt"
    and up: "update_goldcoin_refund k (\<lambda>g. g\<lparr>gr_signed_tx_hex := Some tx, gr_signed_at := Some now, gr_state := GrSigned\<rparr>) l = Inr l'"
    using assms(1) by (auto simp: record_goldcoin_refund_signed_def split: if_splits)
  then show ?thesis by (intro glc_refund_row_moves[OF up inv]) (auto simp: glc_refund_matches.simps)
qed (simp add: inv moves_to_refl)

lemma glc_refund_confirmations_moves:
  "update_goldcoin_refund k (\<lambda>g. g\<lparr>gr_confirmations := confirmations\<rparr>) l = Inr l' \<Longrightarrow> ledger_inv l \<Longrightarrow> moves_to l l'"
  by (erule glc_refund_row_moves) (simp_all add: glc_refund_matches.simps)

lemma update_glc_refund_confirmations_moves:
  "update_goldcoin_refund_confirmations k confirmations l = Inr l' \<Longrightarrow> ledger_inv l \<Longrightarrow> moves_to l l'"
  unfolding update_goldcoin_refund_confirmations_def by (rule glc_refund_confirmations_moves)

lemma spend_refund_inputs_sel [simp]:
  "requests (spend_refund_inputs k txid l) = requests l" "reserves (spend_refund_inputs k txid l) = reserves l"
  "goldcoin_payouts (spend_refund_inputs k txid l) = goldcoin_payouts l"
  "goldcoin_refunds (spend_refund_inputs k txid l) = goldcoin_refunds l"
  "solana_refunds (spend_refund_inputs k txid l) = solana_refunds l"
  by (simp_all add: spend_refund_inputs_def Let_def)

lemma holds_while_glc_refunding:
  assumes "glc_refund_matches g r" "gr_state g \<noteq> GrRefunded"
  shows "holds_reservation r"
  using assms
  by (auto simp: glc_refund_matches.simps holds_reservation_def parked_with_reservation_def split: GoldcoinRefundState.splits)

lemma not_paid_while_refunding:
  assumes "glc_refund_matches g r"
  shows "\<not> payout_matches p r" "\<not> sol_refund_matches s r"
  using assms by (auto simp: glc_refund_matches.simps payout_matches.simps sol_refund_matches.simps direction_defs)

lemma glc_refund_broadcast_moves:
  assumes "record_goldcoin_refund_broadcast k txid now l = Inr l'" and inv: "ledger_inv l"
  shows "moves_to l l'"
proof (cases "l' = l")
  case False
  let ?g = "\<lambda>g. g\<lparr>gr_txid := Some txid, gr_broadcast_at := Some now, gr_state := GrBroadcast\<rparr>"
    and ?f = "\<lambda>r. r\<lparr>br_state := RefundBroadcast\<rparr>"
  obtain g l1 l2 where g: "get_goldcoin_refund l k = Some g" "gr_state g = GrSigned"
    and wr: "update_goldcoin_refund k ?g l = Inr l1" and up: "update_request (spend_refund_inputs k txid l1) k ?f = Inr l2"
    and l': "l' = log_transition k (Some RefundPending) RefundBroadcast now (Some ''glc_refund_broadcast'') ''operator'' l2"
    using assms(1) False by (auto simp: record_goldcoin_refund_broadcast_def split: option.splits if_splits)
  obtain r where r: "get_request l k = Some r" and m: "glc_refund_matches g r" using glc_refund_row[OF inv g(1)] by blast
  note W = write_goldcoin_refundsD[OF wr[unfolded update_goldcoin_refund_def]]
  have reqs: "requests l' = update_by br_id k ?f (requests l)" by (simp add: l' update_requestD[OF up] W)
  have st: "br_state r = RefundPending" using m g(2) by (simp add: glc_refund_matches.simps)
  have holds: "holds_reservation r" "holds_reservation (?f r)"
    using holds_while_glc_refunding[OF m] g(2) st by (simp_all add: holds_reservation_def parked_with_reservation_def)
  have "books_agree l'"
    by (rule books_rewrite[OF _ r reqs, where p = "\<lambda>x. x" and g = ?g and s = "\<lambda>x. x"])
      (use inv g m not_paid_while_refunding[OF m] in
        \<open>simp_all add: ledger_inv_def l' update_requestD[OF up] W glc_refund_matches.simps\<close>)
  then show ?thesis
    using st holds by (intro refund_moves[OF inv r reqs])
      (auto simp: l' update_requestD[OF up] W row_evolves_def is_terminal_def awaits_deposit_def held_amount_def
        intro!: reserves_shift_refl)
qed (simp add: inv moves_to_refl)

lemma glc_refund_terminal_moves:
  assumes "commit_goldcoin_refund_terminal k confirmations (gr_reservation_released g) now l = Inr l'" and inv: "ledger_inv l"
    and g: "get_goldcoin_refund l k = Some g" "gr_state g = GrBroadcast"
  shows "moves_to l l'"
proof -
  let ?g = "\<lambda>g. g\<lparr>gr_state := GrRefunded, gr_refunded_at := Some now, gr_confirmations := confirmations, gr_reservation_released := True\<rparr>"
    and ?f = "\<lambda>r. r\<lparr>br_state := Refunded\<rparr>"
  obtain r where r: "get_request l k = Some r" and m: "glc_refund_matches g r" using glc_refund_row[OF inv g(1)] by blast
  have st: "br_state r = RefundBroadcast" and rel: "\<not> gr_reservation_released g" and tx: "gr_txid g \<noteq> None"
    using m g(2) by (simp_all add: glc_refund_matches.simps)
  let ?release = "update_reserve (destination_reserve (br_direction r)) (release_liquidity (br_net_destination_atomic r))"
  obtain l1 l2 where wr: "update_goldcoin_refund k ?g l = Inr l1" and up: "update_request (?release l1) k ?f = Inr l2"
    and l': "l' = log_transition k (Some RefundBroadcast) Refunded now (Some ''glc_refund_confirmed'') ''system'' l2"
    using assms(1) rel r
    by (auto simp: commit_goldcoin_refund_terminal_def get_request_def write_goldcoin_refundsD update_goldcoin_refund_def)
  note W = write_goldcoin_refundsD[OF wr[unfolded update_goldcoin_refund_def]]
  have reqs: "requests l' = update_by br_id k ?f (requests l)" by (simp add: l' update_requestD[OF up] W)
  have holds: "holds_reservation r" "\<not> holds_reservation (?f r)"
    using holds_while_glc_refunding[OF m] g(2) by (simp_all add: holds_reservation_def)
  have "books_agree l'"
    by (rule books_rewrite[OF _ r reqs, where p = "\<lambda>x. x" and g = ?g and s = "\<lambda>x. x"])
      (use inv g m tx not_paid_while_refunding[OF m] in
        \<open>simp_all add: ledger_inv_def l' update_requestD[OF up] W glc_refund_matches.simps\<close>)
  then show ?thesis
    using st holds by (intro refund_moves[OF inv r reqs])
      (auto simp: l' update_requestD[OF up] W row_evolves_def is_terminal_def awaits_deposit_def held_amount_def
        request_reserve_def row_shift_def release_liquidity_def intro!: reserves_shift_update)
qed

lemma glc_refund_confirmed_moves:
  "record_goldcoin_refund_confirmed k confirmations now l = Inr l' \<Longrightarrow> ledger_inv l \<Longrightarrow> moves_to l l'"
  by (auto simp: record_goldcoin_refund_confirmed_def intro: glc_refund_confirmations_moves glc_refund_terminal_moves
      split: if_splits)

lemma reconcile_glc_refund_moves:
  "reconcile_goldcoin_refund_confirmations k confirmations required now l = Inr (out, l') \<Longrightarrow> ledger_inv l \<Longrightarrow> moves_to l l'"
  by (auto simp: reconcile_goldcoin_refund_confirmations_def
      intro: glc_refund_confirmations_moves glc_refund_terminal_moves split: if_splits)

lemma solana_holds_nothing:
  "source_is_solana (br_direction r) \<Longrightarrow> br_state r \<in> {ManualReview, RefundPending, RefundBroadcast, Refunded} \<Longrightarrow>
     \<not> holds_reservation r"
  by (auto simp: holds_reservation_def parked_with_reservation_def direction_defs)

lemma begin_solana_refund_moves:
  assumes "begin_solana_refund k verified note actor now l = Inr l'" and inv: "ledger_inv l"
  shows "moves_to l l'"
proof -
  let ?f = "\<lambda>row. row\<lparr>br_state := RefundPending\<rparr>"
  obtain checks where "evaluate_solana_refund_db_checks l k = Inr checks" "first_failure_for_begin checks = None"
    using assms(1) by (auto simp: begin_solana_refund_def split: option.splits)
  then obtain r where r: "get_request l k = Some r" and st: "br_state r = ManualReview" "source_is_solana (br_direction r)"
    and none: "get_goldcoin_payout l k = None"
    by (auto simp: evaluate_solana_refund_db_checks_def first_failure_for_begin_def split: if_splits)
  obtain s l1 l2 where wr: "write_solana_refunds (solana_refunds l @ [s]) l = Inr l1"
    and s: "sr_request_id s = k" "sr_state s = SrPending"
    and up: "update_request l1 k ?f = Inr l2"
    and l': "l' = log_transition k (Some ManualReview) RefundPending now (Some (trim note)) actor l2"
    using assms(1) by (fastforce simp: begin_solana_refund_def split: option.splits)
  note W = write_solana_refundsD[OF wr]
  have reqs: "requests l' = update_by br_id k ?f (requests l)" by (simp add: l' update_requestD[OF up] W)
  have old: "books_agree (l\<lparr>requests := requests l'\<rparr>)"
    by (rule books_quiet[OF _ _ r, where f = ?f]) (use inv st in \<open>simp_all add: ledger_inv_def reqs in_lifecycle_def\<close>)
  have "sol_refund_matches s (?f r)" using s st by (simp add: sol_refund_matches.simps)
  moreover have "find_by br_id (sr_request_id s) (requests l') = Some (?f r)"
    using r by (simp add: s(1) reqs get_request_def find_update_by)
  ultimately have "agrees sr_request_id sol_refund_matches (solana_refunds l @ [s]) (requests l')"
    using old by (intro agrees_new) (simp_all add: books_agree_def)
  moreover have "get_goldcoin_payout l' k' = None \<or> get_solana_refund l' k' = None" for k'
  proof -
    have "get_goldcoin_payout l k' = None \<or> get_solana_refund l k' = None"
      using inv by (simp add: ledger_inv_def books_agree_def)
    with none s(1) show ?thesis
      by (auto simp: l' update_requestD[OF up] W get_goldcoin_payout_def get_solana_refund_def find_by_append
          split: if_splits)
  qed
  ultimately have "books_agree l'" using old by (simp add: books_agree_def l' update_requestD[OF up] W)
  then show ?thesis
    using st solana_holds_nothing[of r] solana_holds_nothing[of "?f r"]
    by (intro refund_moves[OF inv r reqs])
      (auto simp: l' update_requestD[OF up] W row_evolves_def is_terminal_def awaits_deposit_def held_amount_def
        intro!: reserves_shift_refl)
qed

text \<open>The broadcast and the confirmation rewrite the refund with its request, in the same state as it.\<close>

lemma solana_refund_books:
  assumes inv: "ledger_inv l" and s: "get_solana_refund l k = Some s" and r: "get_request l k = Some r"
    and reqs: "requests l' = update_by br_id k f (requests l)" and keeps: "\<And>x. br_id (f x) = br_id x" "\<And>x. sr_request_id (t x) = sr_request_id x"
    and refunds: "solana_refunds l' = update_by sr_request_id k t (solana_refunds l)"
    and rest: "goldcoin_payouts l' = goldcoin_payouts l" "goldcoin_refunds l' = goldcoin_refunds l"
    and m: "sol_refund_matches s r" "sol_refund_matches (t s) (f r)"
  shows "books_agree l'"
proof -
  have p: "get_goldcoin_payout l k = None" using inv s by (auto simp: ledger_inv_def books_agree_def dest: spec[of _ k])
  have g: "\<not> glc_refund_matches x r" for x
    using m(1) by (auto simp: glc_refund_matches.simps sol_refund_matches.simps direction_defs)
  show ?thesis
    by (rule books_rewrite[OF _ r reqs keeps(1), where p = "\<lambda>x. x" and g = "\<lambda>x. x" and s = t])
      (use inv in \<open>simp_all add: ledger_inv_def p g refunds rest keeps s m(2)\<close>)
qed

lemma solana_refund_broadcast_moves:
  assumes "record_solana_refund_broadcast k signature blockhash epoch now l = Inr l'" and inv: "ledger_inv l"
  shows "moves_to l l'"
proof -
  let ?t = "\<lambda>s. s\<lparr>sr_state := SrBroadcast, sr_refund_signature := Some signature, sr_recent_blockhash := Some blockhash,
       sr_attestation_epoch := Some (as_i64 epoch), sr_broadcast_at := Some now\<rparr>"
  let ?f = "\<lambda>row. row\<lparr>br_state := RefundBroadcast\<rparr>"
  obtain s r l1 where s: "get_solana_refund l k = Some s" and r: "get_request l k = Some r"
    and st: "br_state r \<in> {RefundPending, RefundBroadcast}"
    and wr: "write_solana_refunds (update_by sr_request_id k ?t (solana_refunds l)) l = Inr l1"
    and rest: "if br_state r = RefundPending then \<exists>l2. update_request l1 k ?f = Inr l2
        \<and> l' = log_transition k (Some RefundPending) RefundBroadcast now (Some (''refund tx '' @ signature)) ''system'' l2
      else l' = l1"
    using assms(1) by (auto simp: record_solana_refund_broadcast_def split: if_splits)
  have m: "sol_refund_matches s r" using sol_refund_row[OF inv s] r by auto
  note W = write_solana_refundsD[OF wr]
  let ?h = "\<lambda>row. if br_state r = RefundPending then ?f row else row"
  have reqs: "requests l' = update_by br_id k ?h (requests l)"
    using rest by (auto simp: W dest: update_requestD(1) split: if_splits)
  have same: "solana_refunds l' = update_by sr_request_id k ?t (solana_refunds l)" "goldcoin_payouts l' = goldcoin_payouts l"
    "goldcoin_refunds l' = goldcoin_refunds l" "reserves l' = reserves l"
    using rest by (auto simp: W dest: update_requestD(2,4-6) split: if_splits)
  have src: "source_is_solana (br_direction r)" using m by (simp add: sol_refund_matches.simps)
  have "books_agree l'"
    using st src by (intro solana_refund_books[OF inv s r reqs _ _ same(1-3) m])
      (auto simp: sol_refund_matches.simps)
  then show ?thesis
    using st src solana_holds_nothing[of r] solana_holds_nothing[of "?h r"]
    by (intro refund_moves[OF inv r reqs])
      (auto simp: same row_evolves_def is_terminal_def awaits_deposit_def held_amount_def intro!: reserves_shift_refl)
qed

section \<open>Balances\<close>

text \<open>
  Three operations write a balance or a floor of a reserve without regard to what is promised: the
  refresh from the chain, the configuration, and the confirmation of a Solana refund, whose amount
  left the reserve outside every reservation.
\<close>

lemma inv_set_accounts:
  assumes inv: "ledger_inv l" and reqs: "requests l' = requests l" and books: "same_books l l'"
    and res: "\<And>d row'. reserves l' d = Some row' \<Longrightarrow> (\<exists>row. reserves l d = Some row \<and>
      rv_reserved_liquidity row' = rv_reserved_liquidity row)
      \<or> reserves l d = None \<and> rv_reserved_liquidity row' = 0"
    and kept: "\<And>d. reserves l d \<noteq> None \<Longrightarrow> reserves l' d \<noteq> None"
  shows "ledger_inv l'"
proof -
  have "reserve_accounted l'"
    unfolding reserve_accounted_def
  proof (intro allI impI)
    fix d row' assume "reserves l' d = Some row'"
    from res[OF this] show "rv_reserved_liquidity row' = held_total d (requests l')"
    proof
      assume none: "reserves l d = None \<and> rv_reserved_liquidity row' = 0"
      then have "request_reserve r \<noteq> d" if "r \<in> set (requests l)" for r
        using inv that by (auto simp: ledger_inv_def list_all_iff row_sound_def)
      then have "held_total d (requests l) = 0"
        by (simp add: held_total_def cong: map_cong)
      with none show ?thesis by (simp add: reqs)
    qed (use inv in \<open>auto simp: reqs ledger_inv_def reserve_accounted_def\<close>)
  qed
  moreover have "books_agree l'" using inv books reqs by (auto simp: ledger_inv_def intro: books_same)
  ultimately show ?thesis
    using inv kept by (auto simp: ledger_inv_def reqs list_all_iff row_sound_def)
qed

lemma configure_reserve_inv:
  assumes "configure_reserve d balance floor target warning critical now l = Inr l'" "ledger_inv l"
  shows "ledger_inv l' \<and> requests_evolve l l'"
proof -
  have "ledger_inv l'"
    by (rule inv_set_accounts[OF assms(2)]) (use assms(1) in \<open>auto simp: configure_reserve_def split: if_splits option.splits\<close>)
  then show ?thesis using assms(1) by (auto simp: configure_reserve_def intro: requests_evolve_same)
qed

lemma refresh_reserve_balance_inv:
  assumes "refresh_reserve_balance d balance now l = Inr l'" "ledger_inv l"
  shows "ledger_inv l' \<and> requests_evolve l l'"
proof -
  have "ledger_inv l'"
    by (rule inv_set_accounts[OF assms(2)])
      (use assms(1) in \<open>auto simp: refresh_reserve_balance_def update_reserve_or_fail_def split: if_splits\<close>)
  then show ?thesis
    using assms(1) by (auto simp: refresh_reserve_balance_def update_reserve_or_fail_def intro!: requests_evolve_same)
qed

lemma solana_refund_confirmed_inv:
  assumes "mark_solana_refund_confirmed k now l = Inr l'" and inv: "ledger_inv l"
  shows "ledger_inv l' \<and> requests_evolve l l'"
proof (cases "l' = l")
  case False
  let ?t = "\<lambda>s. s\<lparr>sr_state := SrConfirmed, sr_confirmed_at := Some now\<rparr>" and ?f = "\<lambda>row. row\<lparr>br_state := Refunded\<rparr>"
  obtain s r l1 l2 where s: "get_solana_refund l k = Some s" and r: "get_request l k = Some r" "br_state r = RefundBroadcast"
    and wr: "write_solana_refunds (update_by sr_request_id k ?t (solana_refunds l)) l = Inr l1"
    and up: "update_request l1 k ?f = Inr l2"
    and l': "l' = update_reserve SolanaReserve (\<lambda>row. row\<lparr>rv_total_reserve_balance := rv_total_reserve_balance row - sr_amount_solana_atomic s\<rparr>)
         (log_transition k (Some RefundBroadcast) Refunded now (sr_refund_signature s) ''system'' l2)"
    using assms(1) False by (auto simp: mark_solana_refund_confirmed_def split: if_splits)
  note W = write_solana_refundsD[OF wr] and U = update_requestD[OF up]
  let ?mid = "log_transition k (Some RefundBroadcast) Refunded now (sr_refund_signature s) ''system'' l2"
  have m: "sol_refund_matches s r" using sol_refund_row[OF inv s] r(1) by auto
  have src: "source_is_solana (br_direction r)" using m by (simp add: sol_refund_matches.simps)
  have reqs: "requests ?mid = update_by br_id k ?f (requests l)" by (simp add: U W)
  have "books_agree ?mid"
    by (rule solana_refund_books[OF inv s r(1) reqs, where t = ?t])
      (use m src in \<open>simp_all add: U W sol_refund_matches.simps\<close>)
  then have mid: "moves_to l ?mid"
    using src r(2) solana_holds_nothing[of r] solana_holds_nothing[of "?f r"]
    by (intro refund_moves[OF inv r(1) reqs])
      (auto simp: U W row_evolves_def is_terminal_def awaits_deposit_def held_amount_def intro!: reserves_shift_refl)
  have "ledger_inv l'"
    unfolding l' by (rule inv_set_accounts[OF moves_to_inv[OF mid]]) (auto split: if_splits)
  then show ?thesis
    using mid by (auto simp: l' moves_to_def requests_evolve_def get_request_def)
qed (simp add: inv requests_evolve_same)

end
