(* ===== verification/Ledger_Refinement.thy ===== *)
theory Ledger_Refinement
  imports Ledger_Review_Moves
begin

text \<open>
  The ledger as a machine: one step is one committed operation of \<open>Ledger\<close>, and a balance
  step is one of the three that write what the chain holds. Every run of steps refines the
  escrow, keeps the reserved column equal to the sum of what the requests hold, and never
  promises what the reserve does not have.
\<close>

section \<open>Steps\<close>

inductive ledger_step :: "Ledger \<Rightarrow> Ledger \<Rightarrow> bool" where
  create: "create_request_from direction amounts recipient requester wallet ttl now l = Inr (out, l') \<Longrightarrow>
    source_is_goldcoin direction \<Longrightarrow> unat (am_net_destination_atomic amounts) < 2 ^ 63 \<Longrightarrow> ledger_step l l'"
| expire: "expire_reservations now l = Inr (n, l') \<Longrightarrow> ledger_step l l'"
| cancel: "cancel_request k now note l = Inr l' \<Longrightarrow> ledger_step l l'"
| address: "set_goldcoin_deposit_address k address script redeem l = Inr l' \<Longrightarrow> ledger_step l l'"
| observe: "record_glc_deposit_observed_from k deposit lock now l = Inr (observed, l') \<Longrightarrow> quotes_in_range lock \<Longrightarrow>
    ledger_step l l'"
| confirmations: "update_glc_confirmations k confirmations l = Inr l' \<Longrightarrow> ledger_step l l'"
| finalize: "mark_glc_source_finalized k now l = Inr l' \<Longrightarrow> ledger_step l l'"
| spent: "mark_glc_deposit_spent_before_finalized k now l = Inr l' \<Longrightarrow> ledger_step l l'"
| park_bounds: "park_for_destination_bounds k detail now l = Inr (parked, l') \<Longrightarrow> ledger_step l l'"
| park_foreign: "park_for_foreign_contract k detail now l = Inr (parked, l') \<Longrightarrow> ledger_step l l'"
| reorged: "mark_glc_reorged k now l = Inr l' \<Longrightarrow> ledger_step l l'"
| rollback: "goldcoin_rollback_reorg fork fork_hash tip tip_hash now l = Inr (n, l') \<Longrightarrow> ledger_step l l'"
| ingest: "goldcoin_ingest_block height hash prev time now l = l' \<Longrightarrow> ledger_step l l'"
| post_finality: "record_post_finality_reorg fork tip affected now l = (result, l') \<Longrightarrow> ledger_step l l'"
| fold_sol: "fold_sol_deposit index amounts sender recipient refusal now l = Inr (folded, l') \<Longrightarrow>
    unat (am_net_destination_atomic amounts) < 2 ^ 63 \<Longrightarrow> ledger_step l l'"
| fold_rhn: "fold_sol_deposit_to_robinhood index amounts sender evm raw route_open refusal now l = Inr (folded, l') \<Longrightarrow>
    unat (am_net_destination_atomic amounts) < 2 ^ 63 \<Longrightarrow> ledger_step l l'"
| release_submitted: "record_release_submitted k signature now l = Inr l' \<Longrightarrow> ledger_step l l'"
| release_confirmed: "mark_release_confirmed k now l = Inr l' \<Longrightarrow> ledger_step l l'"
| release_reconciled: "reconcile_release_from_chain k actor now l = Inr (reconciled, l') \<Longrightarrow> ledger_step l l'"
| payout_built: "record_goldcoin_payout_built k plan commitment tx now l = Inr l' \<Longrightarrow>
    get_request l k = Some r \<Longrightarrow> destination_is_goldcoin (br_direction r) \<Longrightarrow> ledger_step l l'"
| payout_signed: "record_goldcoin_payout_signed k tx now l = Inr l' \<Longrightarrow> ledger_step l l'"
| payout_resigned: "record_goldcoin_payout_resigned k tx now l = Inr l' \<Longrightarrow> ledger_step l l'"
| payout_broadcast: "record_goldcoin_payout_broadcast k txid now l = Inr l' \<Longrightarrow> ledger_step l l'"
| payout_confirmations: "update_goldcoin_payout_confirmations k confirmations tip required now l = Inr (confirmed, l') \<Longrightarrow>
    ledger_step l l'"
| completion_submitted: "record_goldcoin_completion_submitted k signature now l = Inr l' \<Longrightarrow> ledger_step l l'"
| completion_confirmed: "mark_goldcoin_completion_confirmed k now l = Inr l' \<Longrightarrow> ledger_step l l'"
| completion_reconciled: "reconcile_goldcoin_completion_from_chain k actor now l = Inr (reconciled, l') \<Longrightarrow>
    get_request l k = Some r \<Longrightarrow> destination_is_goldcoin (br_direction r) \<Longrightarrow> ledger_step l l'"
| resume_sol_glc: "resume_manual_review_sol_to_glc k note actor now l = Inr (resumed, l') \<Longrightarrow> ledger_step l l'"
| resume_rhn_glc: "resume_manual_review_rhn_to_glc k note actor now l = Inr (resumed, l') \<Longrightarrow> ledger_step l l'"
| resume_cross: "resume_manual_review_cross_route direction k note actor now l = Inr (resumed, l') \<Longrightarrow>
    direction \<in> {DirSolToRhn, DirRhnToSol} \<Longrightarrow> ledger_step l l'"
| resume_bound: "resume_glc_to_sol_destination_bound k live note actor now l = Inr (resumed, l') \<Longrightarrow> ledger_step l l'"
| hold: "set_manual_review_hold k after note actor now l = Inr l' \<Longrightarrow> ledger_step l l'"
| release_hold: "clear_manual_review_hold k note actor now l = Inr (cleared, l') \<Longrightarrow> ledger_step l l'"
| decide: "record_operator_decision k decision note actor emergency now l = Inr (before, l') \<Longrightarrow> ledger_step l l'"
| process: "process_held_manual_review k note actor now l = Inr (resumed, l') \<Longrightarrow> ledger_step l l'"
| close: "close_manual_review k disposition reference note actor now l = Inr (closed, l') \<Longrightarrow> ledger_step l l'"
| glc_refund_begun: "begin_goldcoin_refund k refund note creator now l = Inr l' \<Longrightarrow> ledger_step l l'"
| glc_refund_signed: "record_goldcoin_refund_signed k tx now l = Inr l' \<Longrightarrow> ledger_step l l'"
| glc_refund_broadcast: "record_goldcoin_refund_broadcast k txid now l = Inr l' \<Longrightarrow> ledger_step l l'"
| glc_refund_confirmations: "update_goldcoin_refund_confirmations k confirmations l = Inr l' \<Longrightarrow> ledger_step l l'"
| glc_refund_confirmed: "record_goldcoin_refund_confirmed k confirmations now l = Inr l' \<Longrightarrow> ledger_step l l'"
| glc_refund_reconciled: "reconcile_goldcoin_refund_confirmations k confirmations required now l = Inr (refunded, l') \<Longrightarrow>
    ledger_step l l'"
| sol_refund_begun: "begin_solana_refund k verified note actor now l = Inr l' \<Longrightarrow> ledger_step l l'"
| sol_refund_broadcast: "record_solana_refund_broadcast k refund_signature blockhash epoch now l = Inr l' \<Longrightarrow> ledger_step l l'"
| pause: "ledger_set_paused d paused reason l = Inr l' \<Longrightarrow> ledger_step l l'"
| admission: "set_admission d closed_flag reason l = Inr l' \<Longrightarrow> ledger_step l l'"
| utxo_thresholds: "set_utxo_pool_thresholds d minimum warning l = Inr l' \<Longrightarrow> ledger_step l l'"
| liquidity_thresholds: "set_admission_liquidity_thresholds d buffer reopen l = Inr l' \<Longrightarrow> ledger_step l l'"
| liquidity_gate: "evaluate_liquidity_admission_gate d now l = Inr (gate, l') \<Longrightarrow> ledger_step l l'"
| route_enabled: "set_route_enabled route enabled reason now l = Inr l' \<Longrightarrow> ledger_step l l'"
| route_admission: "set_route_admission route closed_flag reason now l = Inr l' \<Longrightarrow> ledger_step l l'"
| burst_policy: "set_rapid_burst_policy policy l = Inr l' \<Longrightarrow> ledger_step l l'"

inductive balance_step :: "Ledger \<Rightarrow> Ledger \<Rightarrow> bool" where
  configure: "configure_reserve d balance floor target warning critical now l = Inr l' \<Longrightarrow> balance_step l l'"
| refresh: "refresh_reserve_balance d balance now l = Inr l' \<Longrightarrow> balance_step l l'"
| sol_refund_confirmed: "mark_solana_refund_confirmed k now l = Inr l' \<Longrightarrow> balance_step l l'"

lemmas operation_moves =
  create_request_moves expire_reservations_moves cancel_request_moves set_goldcoin_deposit_address_moves
  record_glc_deposit_observed_moves update_glc_confirmations_moves mark_glc_source_finalized_moves
  mark_glc_deposit_spent_moves park_for_destination_bounds_moves park_for_foreign_contract_moves
  mark_glc_reorged_moves goldcoin_rollback_reorg_moves goldcoin_ingest_block_moves record_post_finality_reorg_moves
  fold_sol_deposit_moves fold_sol_deposit_to_robinhood_moves record_release_submitted_moves
  mark_release_confirmed_moves reconcile_release_moves payout_built_moves payout_signed_moves payout_resigned_moves
  payout_broadcast_moves payout_confirmations_moves completion_submitted_moves mark_completion_confirmed_moves
  reconcile_completion_moves resume_inbound_moves resume_cross_moves resume_bound_moves
  set_manual_review_hold_moves clear_manual_review_hold_moves record_operator_decision_moves process_held_moves
  close_manual_review_moves begin_goldcoin_refund_moves glc_refund_signed_moves glc_refund_broadcast_moves
  update_glc_refund_confirmations_moves glc_refund_confirmed_moves reconcile_glc_refund_moves
  begin_solana_refund_moves solana_refund_broadcast_moves ledger_set_paused_moves set_admission_moves
  set_utxo_pool_thresholds_moves set_admission_liquidity_thresholds_moves evaluate_liquidity_admission_gate_moves
  set_route_enabled_moves set_route_admission_moves set_rapid_burst_policy_moves

lemma ledger_step_moves: "ledger_step l l' \<Longrightarrow> ledger_inv l \<Longrightarrow> moves_to l l'"
proof (induction rule: ledger_step.induct)
  case (resume_sol_glc k why actor now l resumed l')
  then show ?case unfolding resume_manual_review_sol_to_glc_def by (rule resume_inbound_moves) simp
next
  case (resume_rhn_glc k why actor now l resumed l')
  then show ?case unfolding resume_manual_review_rhn_to_glc_def by (rule resume_inbound_moves) simp
next
  case (ingest height hash prev time now l l')
  then show ?case using goldcoin_ingest_block_moves by blast
qed (erule operation_moves; assumption)+

lemma balance_step_inv: "balance_step l l' \<Longrightarrow> ledger_inv l \<Longrightarrow> ledger_inv l' \<and> requests_evolve l l'"
proof (induction rule: balance_step.induct)
  case (configure d balance floor target warning critical now l l')
  then show ?case by (rule configure_reserve_inv)
next
  case (refresh d balance now l l')
  then show ?case by (rule refresh_reserve_balance_inv)
next
  case (sol_refund_confirmed k now l l')
  then show ?case by (rule solana_refund_confirmed_inv)
qed

section \<open>Runs\<close>

interpretation ledger_sim: simulation ledger_step escrow_step escrow_of ledger_inv
  by unfold_locales (auto dest: ledger_step_moves simp: moves_to_def)

text \<open>A run of operations of both kinds, and a ledger without requests.\<close>

definition ledger_run :: "Ledger \<Rightarrow> Ledger \<Rightarrow> bool" where
  "ledger_run = (\<lambda>l l'. ledger_step l l' \<or> balance_step l l')\<^sup>*\<^sup>*"

definition fresh_ledger :: "Ledger \<Rightarrow> bool" where
  "fresh_ledger l \<longleftrightarrow> requests l = [] \<and> goldcoin_payouts l = [] \<and> goldcoin_refunds l = [] \<and> solana_refunds l = []
     \<and> (\<forall>d row. reserves l d = Some row \<longrightarrow> rv_reserved_liquidity row = 0)"

lemma fresh_inv: "fresh_ledger l \<Longrightarrow> ledger_inv l"
  by (simp add: fresh_ledger_def ledger_inv_def reserve_accounted_def books_agree_def agrees_def held_total_def
      get_goldcoin_payout_def get_solana_refund_def)

lemma any_step: "ledger_step l l' \<or> balance_step l l' \<Longrightarrow> ledger_inv l \<Longrightarrow> ledger_inv l' \<and> requests_evolve l l'"
  using ledger_step_moves balance_step_inv by (auto simp: moves_to_def)

lemma ledger_run_inv: "ledger_run l l' \<Longrightarrow> ledger_inv l \<Longrightarrow> ledger_inv l' \<and> requests_evolve l l'"
  unfolding ledger_run_def
proof (induction rule: rtranclp_induct)
  case base
  then show ?case by (simp add: requests_evolve_same)
next
  case (step l1 l2)
  then show ?case using any_step[OF step.hyps(2)] by (blast intro: requests_evolve_trans)
qed

lemma covered_iff:
  assumes "ledger_inv l"
  shows "covered (escrow_of l) \<longleftrightarrow> (\<forall>d row. reserves l d = Some row \<longrightarrow> 0 \<le> row_headroom row)"
proof -
  have "uncommitted (escrow_of l) d = 0" if none: "reserves l d = None" for d
  proof -
    have "request_reserve r \<noteq> d" if "r \<in> set (requests l)" for r
      using assms none that by (auto simp: ledger_inv_def list_all_iff row_sound_def)
    then have "held_total d (requests l) = 0" by (simp add: held_total_def cong: map_cong)
    then show ?thesis unfolding uncommitted_def promised_escrow_of using none by (simp add: escrow_of_def)
  qed
  then show ?thesis
    unfolding covered_def using uncommitted_is_headroom[OF assms] by (metis not_None_eq order_refl)
qed

lemma inv_lawful: "ledger_inv l \<Longrightarrow> lawful (escrow_of l)"
  by (auto simp: lawful_def escrow_of_promises promises_def promise_of_def ledger_inv_def list_all_iff row_sound_def)

lemma check_invariant_iff:
  "reserves l d = Some row \<Longrightarrow> check_invariant d l = Inr () \<longleftrightarrow> 0 \<le> row_headroom row"
  by (auto simp: check_invariant_def reserve_row_def row_headroom_def)

end
