(* ===== verification/Ledger_Properties.thy ===== *)
theory Ledger_Properties
  imports Ledger_Refinement
begin

text \<open>
  What the operations of the ledger guarantee, each stated over the ledger's own columns: the
  refinement of the escrow, the meaning of the reserved column, solvency, finality of terminal requests,
  exclusion of payouts and refunds, the fold of a deposit, and the wallet window. The sample ledger
  at the head serves the concrete instances.
\<close>

section \<open>A sample ledger\<close>

definition sample_reserve :: ReserveRow where
  "sample_reserve = \<lparr>rv_total_reserve_balance = 1000, rv_balance_refreshed_at = 0, rv_protected_minimum = 100,
     rv_target_reserve = 900, rv_warning_reserve = 300, rv_critical_reserve = 200, rv_reserved_liquidity = 0,
     rv_pending_obligations = 0, rv_settled_liquidity_total = 0, rv_accrued_fees_atomic = 0, rv_paused = False,
     rv_pause_reason = None, rv_admission_closed = False, rv_admission_reason = None,
     rv_utxo_pool_min_available_count = 0, rv_utxo_pool_warning_count = 0, rv_admission_buffer_atomic = 0,
     rv_admission_reopen_atomic = 0, rv_liquidity_admission_closed = False, rv_liquidity_admission_closed_at = None\<rparr>"

definition sample_ledger :: Ledger where
  "sample_ledger = \<lparr>requests = [], reserves = (\<lambda>_. Some sample_reserve), state_log = [],
     route_admission = (\<lambda>_. None), bridge_routes = (\<lambda>_. None), burst_policy = None, vault_utxos = [],
     vault_utxo_splits = [], goldcoin_payouts = [], payout_inputs = [], payout_change_outputs = [],
     payout_change_outpoints = [], goldcoin_refunds = [], refund_inputs = [], solana_refunds = [],
     request_closures = [], robinhood_transactions = [], folded_robinhood_requests = [],
     robinhood_bound_contract = None, attested_releases = [], retained_cancel_enabled = False,
     indexed_blocks = [], reorg_events = [], post_finality_events = []\<rparr>"

definition sample_amounts :: RequestAmounts where
  "sample_amounts = \<lparr>am_gross_atomic = 600, am_fee_bps = 0, am_fee_atomic = 0, am_net_atomic = 500,
     am_net_destination_atomic = 500, am_quote = None\<rparr>"

definition sample_parked_row :: BridgeRequest where
  "sample_parked_row = blank_request\<lparr>br_id := 1, br_direction := DirGlcToSol, br_state := ManualReview,
     br_gross_amount_atomic := 600, br_net_amount_atomic := 500, br_net_destination_atomic := 500, br_recipient := [7],
     br_source_txid := Some 5, br_source_vout := Some 0, br_manual_review_note := Some ''deposit_amount_mismatch''\<rparr>"

definition sample_parked :: Ledger where
  "sample_parked = sample_ledger\<lparr>requests := [sample_parked_row],
     reserves := (reserves sample_ledger)(SolanaReserve := Some (sample_reserve\<lparr>rv_reserved_liquidity := 500\<rparr>))\<rparr>"

definition ledger_of :: "'a ledger_result \<Rightarrow> Ledger" where
  "ledger_of x = (case x of Inr (_, l) \<Rightarrow> l | Inl _ \<Rightarrow> sample_ledger)"

definition outcome_of :: "'a ledger_result \<Rightarrow> 'a option" where
  "outcome_of x = (case x of Inr (out, _) \<Rightarrow> Some out | Inl _ \<Rightarrow> None)"

lemma committed: "outcome_of x = Some out \<Longrightarrow> x = Inr (out, ledger_of x)"
  by (auto simp: outcome_of_def ledger_of_def split: sum.splits)

definition sample_create :: "CreateRequestOutcome ledger_result" where
  "sample_create = create_request_from DirGlcToSol sample_amounts [7] None (Some [9]) 600 0 sample_ledger"

definition sample_created :: Ledger where "sample_created = ledger_of sample_create"

lemma sample_create_commits:
  "create_request_from DirGlcToSol sample_amounts [7] None (Some [9]) 600 0 sample_ledger = Inr (CreateReserved 1, sample_created)"
proof -
  have "outcome_of sample_create = Some (CreateReserved 1)" by code_simp
  from committed[OF this] show ?thesis by (simp add: sample_create_def sample_created_def)
qed

definition sample_folded :: Ledger where
  "sample_folded = ledger_of (fold_sol_deposit 3 sample_amounts 8 [7] None 0 sample_ledger)"

lemma sample_fold_commits:
  "fold_sol_deposit 3 sample_amounts 8 [7] None 0 sample_ledger = Inr (FoldedFinalized 1, sample_folded)"
proof -
  have "outcome_of (fold_sol_deposit 3 sample_amounts 8 [7] None 0 sample_ledger) = Some (FoldedFinalized 1)" by code_simp
  from committed[OF this] show ?thesis by (simp add: sample_folded_def)
qed

lemma sample_fresh: "fresh_ledger sample_ledger"
  by (simp add: fresh_ledger_def sample_ledger_def sample_reserve_def)



lemma sample_request: "map_option (\<lambda>r. (br_state r, br_net_destination_atomic r)) (get_request sample_created 1) = Some (AwaitingDeposit, 500)"
  by code_simp


lemma sample_parked_inv: "ledger_inv sample_parked"
  by (simp add: ledger_inv_def reserve_accounted_def books_agree_def agrees_def held_total_def held_amount_def
      holds_reservation_def parked_with_reservation_def request_reserve_def row_sound_def awaits_deposit_def
      source_is_goldcoin_def LATE_DEPOSIT_NO_CAPACITY_def get_goldcoin_payout_def get_solana_refund_def
      sample_parked_def sample_parked_row_def sample_ledger_def sample_reserve_def blank_request_def)


section \<open>Refinement\<close>







section \<open>Requests\<close>



text \<open>
  C9. A request never has a Goldcoin payout and a refund at once: in every reachable ledger a payout row
  of a request excludes a Solana refund and a Goldcoin refund of it, though the checks sit in
  different operations and a payout is built long before it is signed.
\<close>

theorem payout_excludes_refund:
  assumes "fresh_ledger l0" "ledger_run l0 l"
  shows "get_goldcoin_payout l k = None \<or> get_solana_refund l k = None \<and> get_goldcoin_refund l k = None"
proof -
  have inv: "ledger_inv l" using ledger_run_inv[OF assms(2) fresh_inv[OF assms(1)]] by blast
  have "get_goldcoin_payout l k = None \<or> get_solana_refund l k = None"
    using inv by (simp add: ledger_inv_def books_agree_def)
  moreover have "get_goldcoin_payout l k = None \<or> get_goldcoin_refund l k = None"
  proof (rule ccontr)
    assume "\<not> ?thesis"
    then obtain p g where pg: "get_goldcoin_payout l k = Some p" "get_goldcoin_refund l k = Some g" by auto
    obtain r where "get_request l k = Some r" "payout_matches p r" using payout_row[OF inv pg(1)] by blast
    moreover obtain r' where "get_request l k = Some r'" "glc_refund_matches g r'" using glc_refund_row[OF inv pg(2)] by blast
    ultimately show False using not_paid_while_refunding(1) by auto
  qed
  ultimately show ?thesis by blast
qed

definition sample_plan :: PayoutPlan where
  "sample_plan = \<lparr>pp_inputs = [], pp_input_contexts = [], pp_dest_p2pkh_hash = 7, pp_payout_atomic = 500, pp_change_outputs = [],
     pp_vault_script_pubkey = [], pp_fee_atomic = 0\<rparr>"

theorem payout_excludes_refund_witness:
  "\<exists>l1 l2. fold_sol_deposit 3 sample_amounts 8 [7] None 0 sample_ledger = Inr (FoldedFinalized 1, l1)
     \<and> record_goldcoin_payout_built 1 sample_plan 0 [] 5 l1 = Inr l2 \<and> get_goldcoin_payout l2 1 \<noteq> None
     \<and> get_solana_refund l2 1 = None \<and> get_goldcoin_refund l2 1 = None"
proof -
  let ?y = "record_goldcoin_payout_built 1 sample_plan 0 [] 5 sample_folded"
  note x = sample_fold_commits
  have "(case ?y of Inr l \<Rightarrow> get_goldcoin_payout l 1 \<noteq> None | Inl _ \<Rightarrow> False)" by code_simp
  then obtain l2 where y: "?y = Inr l2" "get_goldcoin_payout l2 1 \<noteq> None" by (auto split: sum.splits)
  have "map_option br_direction (get_request sample_folded 1) = Some DirSolToGlc" by code_simp
  then obtain r where r: "get_request sample_folded 1 = Some r" "destination_is_goldcoin (br_direction r)"
    by (auto simp: destination_is_goldcoin_def)
  have "ledger_step sample_ledger sample_folded"
    by (rule ledger_step.fold_sol[OF x]) (simp add: sample_amounts_def)
  moreover have "ledger_step sample_folded l2" by (rule ledger_step.payout_built[OF y(1) r])
  ultimately have "ledger_run sample_ledger l2" unfolding ledger_run_def by (blast intro: rtranclp_trans)
  from payout_excludes_refund[OF sample_fresh this, of 1] show ?thesis using x y by blast
qed

text \<open>
  Closing a request that waits in manual review with its reservation never returns the
  reservation: after every later operation the request is closed and still counted among the holders
  of its reserve. This is the case for every parked Goldcoin deposit but one that came too late.
\<close>

theorem closure_keeps_reservation:
  assumes "close_manual_review k disposition reference note actor now l = Inr (ClosedNow c, l1)" "ledger_inv l"
    and "get_request l k = Some r" "source_is_goldcoin (br_direction r)" "br_manual_review_note r \<noteq> Some LATE_DEPOSIT_NO_CAPACITY"
    and "ledger_run l1 l2"
  shows "\<exists>r2. get_request l2 k = Some r2 \<and> br_state r2 = Closed \<and> holds_reservation r2
    \<and> br_net_destination_atomic r2 = br_net_destination_atomic r"
proof -
  obtain closures l3 where up: "update_request (l\<lparr>request_closures := closures\<rparr>) k (\<lambda>r. r\<lparr>br_state := Closed\<rparr>) = Inr l3"
    and l1: "requests l1 = requests l3"
    using assms(1) by (fastforce simp: close_manual_review_def Let_def split: option.splits if_splits)
  have r1: "get_request l1 k = Some (r\<lparr>br_state := Closed\<rparr>)"
    using assms(3) get_request_update[OF up, of k] by (simp add: l1 get_request_def)
  have "ledger_inv l1" using close_manual_review_moves[OF assms(1,2)] by (rule moves_to_inv)
  from ledger_run_inv[OF assms(6) this] r1
  obtain r2 where "get_request l2 k = Some r2" "row_evolves (r\<lparr>br_state := Closed\<rparr>) r2"
    by (auto simp: requests_evolve_def)
  then show ?thesis
    using assms(4,5) by (auto simp: row_evolves_def is_terminal_def holds_reservation_def parked_with_reservation_def)
qed

theorem closure_keeps_reservation_witness:
  "\<exists>c l1 r2. close_manual_review 1 RefundedOutOfBand ''tx'' ''paid'' ''op'' 30 sample_parked = Inr (ClosedNow c, l1)
     \<and> get_request l1 1 = Some r2 \<and> br_state r2 = Closed \<and> holds_reservation r2 \<and> br_net_destination_atomic r2 = 500"
proof -
  let ?c = "close_manual_review 1 RefundedOutOfBand ''tx'' ''paid'' ''op'' 30 sample_parked"
  have "(case ?c of Inr (ClosedNow _, _) \<Rightarrow> True | _ \<Rightarrow> False)" by code_simp
  then obtain c l1 where c: "?c = Inr (ClosedNow c, l1)" by (auto split: sum.splits prod.splits CloseOutcome.splits)
  have r: "get_request sample_parked 1 = Some sample_parked_row" "source_is_goldcoin (br_direction sample_parked_row)"
    "br_manual_review_note sample_parked_row \<noteq> Some LATE_DEPOSIT_NO_CAPACITY" "br_net_destination_atomic sample_parked_row = 500"
    by (simp_all add: get_request_def sample_parked_def sample_parked_row_def source_is_goldcoin_def LATE_DEPOSIT_NO_CAPACITY_def)
  have "ledger_run l1 l1" by (simp add: ledger_run_def)
  from closure_keeps_reservation[OF c sample_parked_inv r(1-3) this] show ?thesis using c r(4) by auto
qed

section \<open>Folded deposits\<close>

lemma find_update_keep:
  assumes "\<And>r. P (f r) = P r"
  shows "find P (update_by key k f rows) = map_option (\<lambda>r. if key r = k then f r else r) (find P rows)"
  by (induction rows) (auto simp: assms)

lemma find_snoc: "find P rows = None \<Longrightarrow> P r \<Longrightarrow> find P (rows @ [r]) = Some r"
  by (induction rows) (auto split: if_splits)

lemma mark_rapid_burst_hold_folded:
  assumes "mark_rapid_burst_hold_in k matched now l = Inr l'"
  shows "map_option br_id (folded_solana_request index l') = map_option br_id (folded_solana_request index l)"
proof -
  let ?P = "\<lambda>r. br_source_chain r = SrcSolana \<and> br_source_obligation_index r = Some (as_i64 index)"
  obtain f l1 where up: "update_request l k f = Inr l1" and keeps: "\<And>r. br_id (f r) = br_id r" "\<And>r. ?P (f r) = ?P r"
    and l': "requests l' = requests l1"
    using assms by (fastforce simp: mark_rapid_burst_hold_in_def Let_def)
  have "find ?P (requests l') = map_option (\<lambda>r. if br_id r = k then f r else r) (find ?P (requests l))"
    unfolding l' update_requestD(1)[OF up] by (rule find_update_keep) (rule keeps(2))
  then show ?thesis by (cases "find ?P (requests l)") (simp_all add: folded_solana_request_def keeps(1))
qed

definition fold_request_id :: "SolFoldOutcome \<Rightarrow> i64" where
  "fold_request_id out = (case out of FoldedFinalized i \<Rightarrow> i | AlreadyFolded i \<Rightarrow> i | FoldedManualReview i \<Rightarrow> i)"

lemma commit_fold_folded:
  assumes "commit_fold row reason burst admitted now l = Inr (out, l')" "folded_solana_request index l = None"
    and "br_source_chain row = SrcSolana" "br_source_obligation_index row = Some (as_i64 index)"
  shows "map_option br_id (folded_solana_request index l') = Some (fold_request_id out)"
proof -
  obtain i l1 where ins: "insert_request l row = Inr (i, l1)" using assms(1) by (auto simp: commit_fold_def)
  let ?logged = "log_transition i None (br_state row) now (Some reason) ''system'' l1"
  have none: "find (\<lambda>r. br_source_chain r = SrcSolana \<and> br_source_obligation_index r = Some (as_i64 index)) (requests l) = None"
    using assms(2) by (simp add: folded_solana_request_def)
  have "folded_solana_request index ?logged = Some (row\<lparr>br_id := i\<rparr>)"
    using none assms(3,4) by (simp add: folded_solana_request_def insert_requestD(1)[OF ins] find_snoc)
  then have first: "map_option br_id (folded_solana_request index ?logged) = Some i" by simp
  obtain l2 where l2: "(case burst of None \<Rightarrow> Inr ?logged | Some m \<Rightarrow> mark_rapid_burst_hold_in i m now ?logged) = Inr l2"
    and out: "fold_request_id out = i" "requests l' = requests l2"
    using assms(1) by (auto simp: commit_fold_def Let_def ins fold_request_id_def split: if_splits)
  have "map_option br_id (folded_solana_request index l2) = Some i"
  proof (cases burst)
    case None
    with l2 first show ?thesis by simp
  next
    case (Some m)
    with l2 have "mark_rapid_burst_hold_in i m now ?logged = Inr l2" by simp
    from mark_rapid_burst_hold_folded[OF this, of index] first show ?thesis by simp
  qed
  then show ?thesis using out by (simp add: folded_solana_request_def)
qed

text \<open>
  Folding is idempotent: once a Solana deposit was folded, admitted or parked, every later fold of its obligation
  index reports the request the first one made and writes nothing, whatever amounts, requester,
  recipient, refusal and time it is given.
\<close>

theorem fold_is_idempotent:
  assumes "fold_sol_deposit index amounts requester recipient refusal now l = Inr (out, l')"
    and "for_new_request amounts' = Inr quote"
  shows "fold_sol_deposit index amounts' requester' recipient' refusal' now' l' = Inr (AlreadyFolded (fold_request_id out), l')"
proof -
  have "map_option br_id (folded_solana_request index l') = Some (fold_request_id out)"
  proof (cases "folded_solana_request index l")
    case None
    from fold_sol_deposit_commits[OF assms(1) None]
    obtain quote' closed l1 gates burst why limits ok where gate: "evaluate_gate_in GoldcoinReserve now l = Inr (closed, l1)"
      and gates: "read_gates l1 DirSolToGlc closed = Inr gates"
      and ok: "ok = (admission_blocker gates (as_i64 (am_net_destination_atomic amounts)) limits = None \<and> refusal = None \<and> burst = None)"
      and commit: "commit_fold (folded_row DirSolToGlc (if ok then SourceFinalized else ManualReview) index amounts quote' requester
          recipient (if ok then None else Some why) now) ''retroactive_fold_sol_deposit'' burst ok now l1 = Inr (out, l')" .
    have "requests l1 = requests l" using gate by (auto simp: evaluate_gate_in_def Let_def)
    then have "folded_solana_request index l1 = None" using None by (simp add: folded_solana_request_def)
    from commit_fold_folded[OF commit this] show ?thesis by (simp add: folded_row_def blank_request_def)
  next
    case (Some r)
    then show ?thesis using assms(1) by (auto simp: fold_sol_deposit_def fold_request_id_def)
  qed
  then show ?thesis using assms(2) by (auto simp: fold_sol_deposit_def)
qed

theorem fold_is_idempotent_witness:
  "\<exists>l'. fold_sol_deposit 3 sample_amounts 8 [7] None 0 sample_ledger = Inr (FoldedFinalized 1, l')
     \<and> fold_sol_deposit 3 sample_amounts 9 [5] None 50 l' = Inr (AlreadyFolded 1, l')"
proof -
  note x = sample_fold_commits
  have "for_new_request sample_amounts = Inr no_quote_columns" by (simp add: for_new_request_def sample_amounts_def)
  from fold_is_idempotent[OF x this] show ?thesis using x by (auto simp: fold_request_id_def)
qed







section \<open>The wallet window\<close>

lemma own_destination_direction: "d \<in> set (wallet_window_directions (direction_destination_chain d) Destination)"
  by (cases d) (simp_all add: direction_destination_chain_def)

lemma create_request_row:
  assumes "create_request_from d amounts recipient requester wallet ttl now l = Inr (CreateReserved i, l')"
  shows "\<exists>r. get_request l' i = Some r \<and> br_direction r = d \<and> br_recipient r = recipient \<and> br_created_at r = now"
proof -
  obtain quote l1 where ins: "insert_request l (awaiting_row d amounts quote recipient requester (non_empty wallet) ttl now) = Inr (i, l1)"
    and l': "requests l' = requests l1"
    using assms by (auto simp: create_request_from_def Let_def split: if_splits)
  then have "get_request l' i = Some ((awaiting_row d amounts quote recipient requester (non_empty wallet) ttl now)\<lparr>br_id := i\<rparr>)"
    using insert_requestD(1,2)[OF ins] by (simp add: get_request_def find_by_append)
  then show ?thesis by (simp add: awaiting_row_def)
qed

lemma window_blocks_create:
  assumes "get_request l i = Some r" "in_wallet_window (direction_destination_chain d) Destination recipient now NewRequest r"
    and "recipient \<noteq> []"
  shows "create_request_from d amounts recipient requester wallet ttl now l \<noteq> Inr (CreateReserved j, l')"
proof -
  have "r \<in> set (requests l)" using assms(1) by (auto simp: get_request_def dest: find_by_SomeD)
  then have "wallet_window_retry_after_in l (direction_destination_chain d) Destination recipient now NewRequest \<noteq> None"
    using assms(2,3) by (auto simp: wallet_window_retry_after_in_def wallet_window_blocker_created_at_def filter_empty_conv)
  then have "\<not> is_eligible (route_wallet_eligibility_in l d (non_empty wallet) (Some recipient) now NewRequest)"
    by (auto simp: is_eligible_def eligibility_blocker_def route_wallet_eligibility_in_def split: option.splits)
  then show ?thesis by (auto simp: create_request_from_def Let_def split: if_splits)
qed

text \<open>
  C17. One recipient gets at most one live request per chain and day: after a request was created for a recipient,
  and whatever happened to the ledger since, a second one for the same recipient on a route with the
  same destination chain is not created within twenty-four hours while the first is not in one of the
  excluded states (cancelled, expired, reorganised or failed).
\<close>

theorem recipient_window_refuses_second_request:
  assumes "create_request_from d amounts recipient requester wallet ttl now l = Inr (CreateReserved i, l1)" "ledger_inv l"
    and "source_is_goldcoin d" "unat (am_net_destination_atomic amounts) < 2 ^ 63" "recipient \<noteq> []"
    and "ledger_run l1 l2" "get_request l2 i = Some r" "br_state r \<notin> set RATE_LIMIT_EXCLUDED_STATES"
    and "now' < now + WALLET_WINDOW_SECS" "direction_destination_chain d' = direction_destination_chain d"
  shows "create_request_from d' amounts' recipient requester' wallet' ttl' now' l2 \<noteq> Inr (CreateReserved j, l3)"
proof (rule window_blocks_create[OF assms(7) _ assms(5)])
  obtain r1 where r1: "get_request l1 i = Some r1" "br_direction r1 = d" "br_recipient r1 = recipient" "br_created_at r1 = now"
    using create_request_row[OF assms(1)] by blast
  have "ledger_inv l1" using create_request_moves[OF assms(1-4)] by (rule moves_to_inv)
  then have "row_evolves r1 r" using ledger_run_inv[OF assms(6)] r1(1) assms(7) by (fastforce simp: requests_evolve_def)
  then have "br_direction r = d" "br_recipient r = recipient" "br_created_at r = now"
    using r1 by (simp_all add: row_evolves_def)
  then show "in_wallet_window (direction_destination_chain d') Destination recipient now' NewRequest r"
    using assms(8-10) own_destination_direction[of d] by (simp add: in_wallet_window_def)
qed

theorem recipient_window_refuses_second_request_witness:
  "(\<forall>amounts' requester' j l3. create_request_from DirGlcToSol amounts' [7] requester' None 600 86399 sample_created \<noteq> Inr (CreateReserved j, l3))"
proof -
  obtain r where r: "get_request sample_created 1 = Some r" "br_state r = AwaitingDeposit" using sample_request by auto
  have "ledger_run sample_created sample_created" by (simp add: ledger_run_def)
  from recipient_window_refuses_second_request[OF sample_create_commits fresh_inv[OF sample_fresh] _ _ _ this r(1), of 86399 DirGlcToSol]
  show ?thesis using r(2)
    by (simp add: source_is_goldcoin_def sample_amounts_def RATE_LIMIT_EXCLUDED_STATES_def WALLET_WINDOW_SECS_def)
qed

end
