(* ===== verification/Ledger_Vault_Properties.thy ===== *)
theory Ledger_Vault_Properties
  imports Ledger_Vault Ledger_Properties
begin

text \<open>
  What holds of the vault's coins however scans, reservations, payouts, refunds and splits interleave. A
  step is one committed operation; operations that leave the two tables of the vault alone are one rule.
\<close>

section \<open>Coins\<close>

abbreviation vault_key :: "VaultUtxoRow \<Rightarrow> bytes32 \<times> u32" where
  "vault_key v \<equiv> (vu_txid v, vu_vout v)"

definition coin_ok :: "VaultUtxoRow \<Rightarrow> bool" where
  "coin_ok v \<longleftrightarrow> (vu_reserved_by v \<noteq> None \<longrightarrow> vu_state v \<in> {UtxoReserved, UtxoSpent})
     \<and> (vu_state v = UtxoReserved \<longrightarrow> vu_reserved_by v \<noteq> None)
     \<and> (vu_spent_by_txid v \<noteq> None \<longrightarrow> vu_state v = UtxoSpent)"

definition vault_ok :: "Ledger \<Rightarrow> bool" where
  "vault_ok l \<longleftrightarrow> distinct (map vault_key (vault_utxos l)) \<and> (\<forall>v\<in>set (vault_utxos l). coin_ok v)"

text \<open>Promised to a request, or spent by a transaction of the service.\<close>

definition used_up :: "VaultUtxoRow \<Rightarrow> bool" where
  "used_up v \<longleftrightarrow> vu_reserved_by v \<noteq> None \<or> vu_spent_by_txid v \<noteq> None"

definition coin_kept :: "VaultUtxoRow \<Rightarrow> VaultUtxoRow \<Rightarrow> bool" where
  "coin_kept v v' \<longleftrightarrow> vault_key v' = vault_key v \<and> vu_amount_atomic v' = vu_amount_atomic v
     \<and> vu_script_pubkey_hex v' = vu_script_pubkey_hex v
     \<and> (vu_reserved_by v \<noteq> None \<longrightarrow> vu_reserved_by v' = vu_reserved_by v) \<and> (used_up v \<longrightarrow> used_up v')"

definition rows_kept :: "VaultUtxoRow list \<Rightarrow> VaultUtxoRow list \<Rightarrow> bool" where
  "rows_kept rows rows' \<longleftrightarrow>
     (distinct (map vault_key rows) \<and> (\<forall>v\<in>set rows. coin_ok v) \<longrightarrow>
      distinct (map vault_key rows') \<and> (\<forall>v\<in>set rows'. coin_ok v) \<and> (\<forall>v\<in>set rows. \<exists>v'\<in>set rows'. coin_kept v v'))"

lemma coin_kept_refl [simp]: "coin_kept v v"
  by (simp add: coin_kept_def)

lemma coin_kept_trans: "coin_kept a b \<Longrightarrow> coin_kept b c \<Longrightarrow> coin_kept a c"
  by (auto simp: coin_kept_def)

lemma rows_kept_refl [simp]: "rows_kept rows rows"
  unfolding rows_kept_def using coin_kept_refl by blast

lemma rows_kept_trans: "rows_kept a b \<Longrightarrow> rows_kept b c \<Longrightarrow> rows_kept a c"
  unfolding rows_kept_def by (meson coin_kept_trans)

lemma rows_kept_map:
  assumes "\<And>v. v \<in> set rows \<Longrightarrow> coin_ok v \<Longrightarrow> coin_ok (f v) \<and> coin_kept v (f v)"
  shows "rows_kept rows (map f rows)"
proof -
  have "map vault_key (map f rows) = map vault_key rows" if "\<forall>v\<in>set rows. coin_ok v"
    using assms that by (auto simp: coin_kept_def)
  then show ?thesis unfolding rows_kept_def using assms by (auto simp del: map_map)
qed

lemma rows_kept_new:
  "coin_ok v \<Longrightarrow> \<not> list_ex (vault_utxo_at (vu_txid v) (vu_vout v)) rows \<Longrightarrow> rows_kept rows (rows @ [v])"
  by (fastforce simp: rows_kept_def list_ex_iff vault_utxo_at_def)

lemma rows_kept_upsert:
  assumes "coin_ok new" "\<And>v. coin_ok v \<Longrightarrow> coin_ok (f new v) \<and> coin_kept v (f new v)"
  shows "rows_kept rows (upsert_by f new rows)"
  unfolding upsert_by_def using assms by (auto intro!: rows_kept_map rows_kept_new)

lemma rows_kept_foldl: "(\<And>x rows. rows_kept rows (g rows x)) \<Longrightarrow> rows_kept rows (foldl g rows xs)"
  by (induction xs arbitrary: rows) (auto intro: rows_kept_trans)

lemmas coin_simps = coin_ok_def coin_kept_def used_up_def

section \<open>Steps\<close>

text \<open>
  Steps of the daemon: everything but the start of a refund and the readoption of an abandoned split, which
  an operator or the chain causes.
\<close>

inductive coin_step :: "Ledger \<Rightarrow> Ledger \<Rightarrow> bool" where
  scanned: "coin_step l (sync_vault_utxos observed min_confirmations now l)"
| held: "coin_step l (set_zero_conf_hold txid reason l)"
| reserved: "reserve_vault_utxos k selected depth now l = Inr l' \<Longrightarrow> coin_step l l'"
| completed: "goldcoin_completion_confirmed_in k now reason actor submitted l = Inr (settled, l') \<Longrightarrow> coin_step l l'"
| refund_broadcast: "record_goldcoin_refund_broadcast k txid now l = Inr l' \<Longrightarrow> coin_step l l'"
| split_built: "record_vault_utxo_split_built plan target hex note now l = Inr (k, l') \<Longrightarrow> coin_step l l'"
| split_signed: "record_vault_utxo_split_signed k hex now l = Inr l' \<Longrightarrow> coin_step l l'"
| split_broadcast: "record_vault_utxo_split_broadcast k txid amounts script now l = Inr l' \<Longrightarrow> coin_step l l'"
| split_confirmed: "record_vault_utxo_split_confirmed k now l = Inr l' \<Longrightarrow> coin_step l l'"
| split_abandoned: "abandon_vault_utxo_split k why txid now l = Inr l' \<Longrightarrow> coin_step l l'"
| inputs_missing: "coin_step l (set_split_missing_inputs k now l)"
| inputs_back: "coin_step l (clear_split_missing_inputs k l)"
| elsewhere: "vault_utxos l' = vault_utxos l \<Longrightarrow> vault_utxo_splits l' = vault_utxo_splits l \<Longrightarrow> coin_step l l'"

inductive vault_step :: "Ledger \<Rightarrow> Ledger \<Rightarrow> bool" where
  daemon: "coin_step l l' \<Longrightarrow> vault_step l l'"
| refund_begun: "begin_goldcoin_refund k t note creator now l = Inr l' \<Longrightarrow> vault_step l l'"
| split_readopted: "readopt_vault_utxo_split k l = Inr l' \<Longrightarrow> vault_step l l'"

abbreviation vault_kept :: "Ledger \<Rightarrow> Ledger \<Rightarrow> bool" where
  "vault_kept l l' \<equiv> rows_kept (vault_utxos l) (vault_utxos l')"

lemma observed_row_ok: "coin_ok (observed_row m now x) \<and> vu_state (observed_row m now x) \<in> {UtxoAvailable, UtxoUnconfirmed}"
  by (auto simp: observed_row_def coin_ok_def split: prod.splits)

lemma scan_keeps: "vault_kept l (sync_vault_utxos observed m now l)"
proof -
  have "rows_kept rows (upsert_by rescan_row (observed_row m now x) rows)" for x rows
    using observed_row_ok[of m now x] by (intro rows_kept_upsert) (auto simp: rescan_row_def coin_simps)
  then have "rows_kept (vault_utxos l) (foldl (\<lambda>rows x. upsert_by rescan_row (observed_row m now x) rows) (vault_utxos l) observed)"
    by (rule rows_kept_foldl)
  moreover have "rows_kept rows (map (mark_absent l observed) rows)" for rows
    by (rule rows_kept_map) (auto simp: mark_absent_def coin_simps)
  ultimately show ?thesis by (auto simp: sync_vault_utxos_def intro: rows_kept_trans)
qed

lemma reserve_each_keeps: "reserve_each k depth now us n l = Inr (m, l') \<Longrightarrow> vault_kept l l' \<and> vault_utxo_splits l' = vault_utxo_splits l"
proof (induction us arbitrary: n l)
  case (Cons u us)
  let ?l = "l\<lparr>vault_utxos := map (\<lambda>v. if reservable depth l u v then reserve_coin_row k now v else v) (vault_utxos l)\<rparr>"
  have "vault_kept l ?l"
    by (auto intro!: rows_kept_map simp: reservable_def reserve_coin_row_def coin_simps)
  moreover have "vault_kept ?l l' \<and> vault_utxo_splits l' = vault_utxo_splits ?l"
    using Cons.prems by (intro Cons.IH) (auto simp: Let_def)
  ultimately show ?case by (auto intro: rows_kept_trans)
qed simp

lemma update_request_vault:
  "update_request l k f = Inr l' \<Longrightarrow> vault_utxos l' = vault_utxos l \<and> vault_utxo_splits l' = vault_utxo_splits l"
  by (auto simp: update_request_def write_requests_def)

lemma refund_reserve_keeps:
  "reserve_refund_inputs k now us l = Inr l' \<Longrightarrow> vault_kept l l' \<and> vault_utxo_splits l' = vault_utxo_splits l"
proof (induction us arbitrary: l)
  case (Cons iu us)
  let ?f = "\<lambda>v. if vault_utxo_at (utxo_txid (snd iu)) (utxo_vout (snd iu)) v \<and> vu_state v = UtxoAvailable
    then v\<lparr>vu_state := UtxoReserved, vu_reserved_by := Some k, vu_reserved_at := Some now\<rparr> else v"
  have "rows_kept (vault_utxos l) (map ?f (vault_utxos l))" by (auto intro!: rows_kept_map simp: coin_simps)
  moreover obtain rows where
    "reserve_refund_inputs k now us (l\<lparr>refund_inputs := rows, vault_utxos := map ?f (vault_utxos l)\<rparr>) = Inr l'"
    using Cons.prems by (auto simp: Let_def)
  note Cons.IH[OF this]
  ultimately show ?case by (auto intro: rows_kept_trans)
qed simp

lemma update_split_vault [simp]:
  "vault_utxos (update_split k f l) = vault_utxos l"
  "vault_utxo_splits (update_split k f l) = update_by vs_id k f (vault_utxo_splits l)"
  by (simp_all add: update_split_def)

lemma get_vault_utxo_update_split [simp]: "get_vault_utxo txid vout (update_split k f l) = get_vault_utxo txid vout l"
  by (simp add: get_vault_utxo_def)

lemma source_row_unique:
  assumes "get_vault_utxo txid vout l = Some w" "distinct (map vault_key (vault_utxos l))"
    and "v \<in> set (vault_utxos l)" "vault_utxo_at txid vout v"
  shows "v = w"
proof -
  have "w \<in> set (vault_utxos l)" "vault_key w = vault_key v"
    using assms(1,4) by (auto simp: get_vault_utxo_def vault_utxo_at_def find_Some_iff in_set_conv_nth)
  then show ?thesis using assms(2,3) by (auto simp: distinct_map inj_on_def)
qed

lemma broadcast_keeps:
  assumes "record_vault_utxo_split_broadcast k txid amounts script now l = Inr l'"
  shows "vault_kept l l'"
proof -
  obtain s where s: "get_split k l = Some s"
    using assms by (auto simp: record_vault_utxo_split_broadcast_def)
  obtain w where w: "get_vault_utxo (vs_source_txid s) (vs_source_vout s) l = Some w"
    using assms by (auto simp: record_vault_utxo_split_broadcast_def s Let_def split: option.splits)
  have state: "vu_state w \<in> {UtxoAvailable, UtxoSpent}"
    and l': "vault_utxos l' = foldl (\<lambda>rows c. upsert_by (\<lambda>_ v. v) (chunk_row txid script now c) rows)
      (map (\<lambda>v. if vault_utxo_at (vs_source_txid s) (vs_source_vout s) v then spend_source txid v else v) (vault_utxos l))
      (enumerate 0 amounts)"
    using assms by (auto simp: record_vault_utxo_split_broadcast_def Let_def s w)
  have "rows_kept rows (upsert_by (\<lambda>_ v. v) (chunk_row txid script now c) rows)" for c rows
    by (rule rows_kept_upsert) (auto simp: chunk_row_def coin_ok_def)
  then have chunks: "rows_kept rows (foldl (\<lambda>rows c. upsert_by (\<lambda>_ v. v) (chunk_row txid script now c) rows) rows cs)" for rows cs
    by (rule rows_kept_foldl)
  have "rows_kept (vault_utxos l)
    (map (\<lambda>v. if vault_utxo_at (vs_source_txid s) (vs_source_vout s) v then spend_source txid v else v) (vault_utxos l))"
  proof (cases "distinct (map vault_key (vault_utxos l))")
    case True
    from source_row_unique[OF w True] state show ?thesis
      by (intro rows_kept_map) (auto simp: spend_source_def coin_simps)
  qed (simp add: rows_kept_def)
  from rows_kept_trans[OF this chunks] show ?thesis unfolding l' .
qed

lemma completion_keeps:
  "goldcoin_completion_confirmed_in k now reason actor submitted l = Inr (settled, l') \<Longrightarrow>
     vault_kept l l' \<and> vault_utxo_splits l' = vault_utxo_splits l"
  by (auto simp: goldcoin_completion_confirmed_in_def Let_def update_payout_def log_transition_def update_reserve_def
      dest!: update_request_vault intro!: rows_kept_map split: if_splits) (auto simp: coin_simps)

lemma refund_broadcast_keeps:
  "record_goldcoin_refund_broadcast k txid now l = Inr l' \<Longrightarrow> vault_kept l l' \<and> vault_utxo_splits l' = vault_utxo_splits l"
  by (auto simp: record_goldcoin_refund_broadcast_def update_goldcoin_refund_def write_goldcoin_refunds_def log_transition_def
      spend_refund_inputs_def Let_def dest!: update_request_vault intro!: rows_kept_map split: if_splits option.splits)
    (auto simp: coin_simps)

lemma begin_refund_keeps:
  "begin_goldcoin_refund k t note creator now l = Inr l' \<Longrightarrow> vault_kept l l' \<and> vault_utxo_splits l' = vault_utxo_splits l"
  by (auto simp: begin_goldcoin_refund_def write_goldcoin_refunds_def log_transition_def
      dest!: update_request_vault refund_reserve_keeps split: option.splits prod.splits)

lemma coin_step_keeps: "coin_step l l' \<Longrightarrow> vault_kept l l'"
proof (induction rule: coin_step.induct)
  case (held l txid reason)
  show ?case by (auto simp: set_zero_conf_hold_def coin_simps intro!: rows_kept_map)
next
  case (reserved k selected depth now l l')
  then show ?case by (auto simp: reserve_vault_utxos_def dest: reserve_each_keeps)
next
  case (split_abandoned k why txid now l l')
  have "rows_kept rows (map (drop_chunk t) rows)" for rows t
    by (rule rows_kept_map) (auto simp: drop_chunk_def coin_simps)
  with split_abandoned show ?case
    by (auto simp: abandon_vault_utxo_split_def Let_def split: if_splits option.splits)
qed (auto simp: scan_keeps record_vault_utxo_split_built_def record_vault_utxo_split_signed_def record_vault_utxo_split_confirmed_def
    set_split_missing_inputs_def clear_split_missing_inputs_def Let_def split: option.splits
    dest: broadcast_keeps completion_keeps refund_broadcast_keeps)

lemma vault_step_keeps: "vault_step l l' \<Longrightarrow> vault_kept l l'"
  by (induction rule: vault_step.induct)
    (auto simp: readopt_vault_utxo_split_def dest: coin_step_keeps begin_refund_keeps)

lemma vault_run_keeps: "vault_step\<^sup>*\<^sup>* l l' \<Longrightarrow> vault_kept l l'"
  by (induction rule: rtranclp_induct) (auto dest: vault_step_keeps intro: rows_kept_trans)

section \<open>One coin, one request\<close>

text \<open>Offered to coin selection, or open to a reservation.\<close>

definition offered :: "bytes32 \<times> u32 \<Rightarrow> u32 \<Rightarrow> Ledger \<Rightarrow> bool" where
  "offered key depth l \<longleftrightarrow>
     (\<exists>u\<in>set (available_vault_utxos l) \<union> set (zero_conf_change_vault_utxos depth l). (utxo_txid u, utxo_vout u) = key)
     \<or> (\<exists>u. \<exists>v\<in>set (vault_utxos l). vault_key v = key \<and> reservable depth l u v)"

lemma offered_row:
  "offered key depth l \<Longrightarrow> \<exists>v\<in>set (vault_utxos l). vault_key v = key \<and> vu_state v \<in> {UtxoAvailable, UtxoUnconfirmed}"
  by (auto simp: offered_def available_vault_utxos_def zero_conf_change_vault_utxos_def
      zero_conf_change_vault_utxos_with_depth_def coin_of_row_def reservable_def split: if_splits)

lemma used_up_state: "coin_ok v \<Longrightarrow> used_up v \<Longrightarrow> vu_state v \<in> {UtxoReserved, UtxoSpent}"
  by (auto simp: coin_simps)

text \<open>
  C11. A coin of the vault serves one request, for ever. Whatever scans, reservations, payouts, refunds and splits
  follow in whatever order: the table of coins stays well formed, a coin never changes its value or script, a
  coin reserved for a request stays that request's, and a coin that was reserved, or spent by a transaction
  of the service, is never again listed for selection nor open to a reservation, even when a scan reports it unspent.
\<close>

theorem coin_serves_one_request:
  assumes "vault_step\<^sup>*\<^sup>* l l'" "vault_ok l" "v \<in> set (vault_utxos l)"
  shows "vault_ok l' \<and> (\<exists>v'\<in>set (vault_utxos l'). coin_kept v v'
     \<and> (used_up v \<longrightarrow> vu_state v' \<in> {UtxoReserved, UtxoSpent} \<and> \<not> offered (vault_key v) depth l'))"
proof -
  have kept: "vault_ok l'" "\<exists>v'\<in>set (vault_utxos l'). coin_kept v v'"
    using vault_run_keeps[OF assms(1)] assms(2,3) by (auto simp: rows_kept_def vault_ok_def)
  then obtain v' where v': "v' \<in> set (vault_utxos l')" "coin_kept v v'" by blast
  have state: "vu_state v' \<in> {UtxoReserved, UtxoSpent}" if "used_up v"
    using that v' kept(1) used_up_state by (auto simp: coin_kept_def vault_ok_def)
  have "\<not> offered (vault_key v) depth l'" if "used_up v"
  proof
    assume "offered (vault_key v) depth l'"
    from offered_row[OF this] obtain w where w: "w \<in> set (vault_utxos l')" "vault_key w = vault_key v'"
      "vu_state w \<in> {UtxoAvailable, UtxoUnconfirmed}" using v'(2) by (auto simp: coin_kept_def)
    then have "w = v'" using kept(1) v'(1) by (auto simp: vault_ok_def distinct_map inj_on_def)
    with w(3) state[OF that] show False by auto
  qed
  with kept(1) v' state show ?thesis by blast
qed

section \<open>Payouts and splits\<close>

text \<open>No coin is reserved while a live split claims it.\<close>

definition claims_exclusive :: "Ledger \<Rightarrow> bool" where
  "claims_exclusive l \<longleftrightarrow> (\<forall>v\<in>set (vault_utxos l). vu_state v = UtxoReserved \<longrightarrow> \<not> live_split_claim l v)"

abbreviation split_key :: "VaultUtxoSplitRow \<Rightarrow> bytes32 \<times> u32" where
  "split_key s \<equiv> (vs_source_txid s, vs_source_vout s)"

definition live_split :: "VaultUtxoSplitRow \<Rightarrow> bool" where
  "live_split s \<longleftrightarrow> vs_state s \<in> {SplitBuilt, SplitSigned, SplitBroadcast}"

definition claimed_keys :: "Ledger \<Rightarrow> (bytes32 \<times> u32) set" where
  "claimed_keys l = split_key ` set (filter live_split (vault_utxo_splits l))"

definition reserved_keys :: "VaultUtxoRow list \<Rightarrow> (bytes32 \<times> u32) set" where
  "reserved_keys rows = vault_key ` set (filter (\<lambda>v. vu_state v = UtxoReserved) rows)"

lemma live_split_claim_iff: "live_split_claim l v \<longleftrightarrow> vault_key v \<in> claimed_keys l"
  unfolding live_split_claim_def claimed_keys_def list_ex_iff live_split_def by force

lemma claims_exclusive_iff: "claims_exclusive l \<longleftrightarrow> reserved_keys (vault_utxos l) \<inter> claimed_keys l = {}"
  by (auto simp: claims_exclusive_def live_split_claim_iff reserved_keys_def)

lemma reserved_keys_map:
  assumes "\<And>v. v \<in> set rows \<Longrightarrow> vault_key (f v) = vault_key v \<and> (vu_state (f v) = UtxoReserved \<longrightarrow> vu_state v = UtxoReserved)"
  shows "reserved_keys (map f rows) \<subseteq> reserved_keys rows"
  using assms by (fastforce simp: reserved_keys_def)

lemma reserved_keys_upsert:
  assumes "vu_state new \<noteq> UtxoReserved"
    and "\<And>v. vault_key (f new v) = vault_key v \<and> (vu_state (f new v) = UtxoReserved \<longrightarrow> vu_state v = UtxoReserved)"
  shows "reserved_keys (upsert_by f new rows) \<subseteq> reserved_keys rows"
proof -
  have "reserved_keys (rows @ [new]) \<subseteq> reserved_keys rows" using assms(1) by (auto simp: reserved_keys_def)
  then show ?thesis unfolding upsert_by_def using assms(2) by (auto intro!: reserved_keys_map split: if_splits)
qed

lemma reserved_keys_foldl:
  "(\<And>x rows. reserved_keys (g rows x) \<subseteq> reserved_keys rows) \<Longrightarrow> reserved_keys (foldl g rows xs) \<subseteq> reserved_keys rows"
  by (induction xs arbitrary: rows) (auto, blast)

lemma claimed_keys_update:
  assumes "\<And>s. split_key (f s) = split_key s"
    and "\<And>s. s \<in> set (vault_utxo_splits l) \<Longrightarrow> vs_id s = k \<Longrightarrow> live_split (f s) \<Longrightarrow> live_split s"
  shows "claimed_keys (update_split k f l) \<subseteq> claimed_keys l"
proof
  fix key assume "key \<in> claimed_keys (update_split k f l)"
  then obtain s where s: "s \<in> set (vault_utxo_splits l)" "key = split_key s" "live_split (if vs_id s = k then f s else s)"
    using assms(1) by (auto simp: claimed_keys_def update_by_def)
  then have "live_split s" using assms(2)[of s] by (cases "vs_id s = k") simp_all
  with s show "key \<in> claimed_keys l" by (simp add: claimed_keys_def)
qed

definition claims_ok :: "Ledger \<Rightarrow> bool" where
  "claims_ok l \<longleftrightarrow> distinct (map vs_id (vault_utxo_splits l)) \<and> claims_exclusive l"

lemma split_unique:
  assumes "get_split k l = Some s" "claims_ok l" "s' \<in> set (vault_utxo_splits l)" "vs_id s' = k"
  shows "s' = s"
proof -
  have "s \<in> set (vault_utxo_splits l)" "vs_id s = k" using assms(1) by (auto simp: get_split_def dest: find_by_SomeD)
  then show ?thesis using assms(2-4) by (auto simp: claims_ok_def distinct_map inj_on_def)
qed

lemma claims_ok_mono:
  assumes "claims_ok l" "map vs_id (vault_utxo_splits l') = map vs_id (vault_utxo_splits l)"
    and "reserved_keys (vault_utxos l') \<subseteq> reserved_keys (vault_utxos l)" "claimed_keys l' \<subseteq> claimed_keys l"
  shows "claims_ok l'"
  using assms unfolding claims_ok_def claims_exclusive_iff by auto

lemma claims_ok_same_splits:
  assumes "claims_ok l" "vault_utxo_splits l' = vault_utxo_splits l"
    and "reserved_keys (vault_utxos l') \<subseteq> reserved_keys (vault_utxos l)"
  shows "claims_ok l'"
  by (rule claims_ok_mono[OF assms(1)]) (simp_all add: claimed_keys_def assms)

lemma ids_update: "(\<And>s. vs_id (f s) = vs_id s) \<Longrightarrow> map vs_id (vault_utxo_splits (update_split k f l)) = map vs_id (vault_utxo_splits l)"
  by (simp add: update_by_def)

lemma claims_ok_update:
  assumes "claims_ok l" "get_split k l = Some s" "\<And>s. vs_id (f s) = vs_id s"
    and "\<And>s. split_key (f s) = split_key s" "live_split (f s) \<Longrightarrow> live_split s"
    and "vault_utxo_splits l' = vault_utxo_splits (update_split k f l)" "reserved_keys (vault_utxos l') \<subseteq> reserved_keys (vault_utxos l)"
  shows "claims_ok l'"
proof (rule claims_ok_mono[OF assms(1)])
  show "map vs_id (vault_utxo_splits l') = map vs_id (vault_utxo_splits l)"
    unfolding assms(6) by (rule ids_update[OF assms(3)])
  have "claimed_keys (update_split k f l) \<subseteq> claimed_keys l"
    using assms(5) split_unique[OF assms(2,1)] by (intro claimed_keys_update[OF assms(4)]) metis
  then show "claimed_keys l' \<subseteq> claimed_keys l" by (simp add: claimed_keys_def assms(6))
qed (rule assms(7))

lemma scan_reserved_keys: "reserved_keys (vault_utxos (sync_vault_utxos observed m now l)) \<subseteq> reserved_keys (vault_utxos l)"
proof -
  have "reserved_keys (upsert_by rescan_row (observed_row m now x) rows) \<subseteq> reserved_keys rows" for x rows
    using observed_row_ok[of m now x] by (intro reserved_keys_upsert) (auto simp: rescan_row_def)
  then have "reserved_keys (foldl (\<lambda>rows x. upsert_by rescan_row (observed_row m now x) rows) (vault_utxos l) observed)
      \<subseteq> reserved_keys (vault_utxos l)" by (rule reserved_keys_foldl)
  moreover have "reserved_keys (map (mark_absent l observed) rows) \<subseteq> reserved_keys rows" for rows
    by (rule reserved_keys_map) (simp add: mark_absent_def)
  ultimately show ?thesis by (auto simp: sync_vault_utxos_def)
qed

lemma reserve_each_claims: "reserve_each k depth now us n l = Inr (m, l') \<Longrightarrow> claims_ok l \<Longrightarrow> claims_ok l'"
proof (induction us arbitrary: n l)
  case (Cons u us)
  let ?l = "l\<lparr>vault_utxos := map (\<lambda>v. if reservable depth l u v then reserve_coin_row k now v else v) (vault_utxos l)\<rparr>"
  have "reserved_keys (vault_utxos ?l) \<subseteq> reserved_keys (vault_utxos l) \<union> {vault_key v | v. \<not> live_split_claim l v}"
    by (auto simp: reserved_keys_def reservable_def reserve_coin_row_def image_iff split: if_splits)
  moreover have "claimed_keys ?l = claimed_keys l" by (simp add: claimed_keys_def)
  ultimately have "claims_ok ?l"
    using Cons.prems(2) unfolding claims_ok_def claims_exclusive_iff by (auto simp: live_split_claim_iff)
  then show ?case using Cons.prems(1) by (auto simp: Let_def intro: Cons.IH)
qed simp

lemma split_built_claims:
  assumes "record_vault_utxo_split_built plan target hex note now l = Inr (k, l')" "claims_ok l" "vault_ok l"
  shows "claims_ok l'"
proof -
  let ?t = "utxo_txid (sp_source plan)" and ?v = "utxo_vout (sp_source plan)"
  obtain w where w: "get_vault_utxo ?t ?v l = Some w" "vu_state w = UtxoAvailable"
    using assms(1) by (auto simp: record_vault_utxo_split_built_def Let_def split: option.splits)
  obtain row where l': "l' = l\<lparr>vault_utxo_splits := vault_utxo_splits l @ [row]\<rparr>"
    and row: "vs_id row = next_rowid vs_id (vault_utxo_splits l)" "split_key row = (?t, ?v)" "vs_state row = SplitBuilt"
    using assms(1) w by (auto simp: record_vault_utxo_split_built_def Let_def)
  have "claimed_keys l' = insert (?t, ?v) (claimed_keys l)"
    unfolding claimed_keys_def l' by (simp add: live_split_def row del: set_filter)
  have "(?t, ?v) \<notin> reserved_keys (vault_utxos l)"
    using source_row_unique[OF w(1)] w(2) assms(3) by (auto simp: reserved_keys_def vault_ok_def vault_utxo_at_def)
  moreover note \<open>claimed_keys l' = _\<close>
  moreover have "next_rowid vs_id (vault_utxo_splits l) \<notin> set (map vs_id (vault_utxo_splits l))"
    using next_rowid_gt[of _ "vault_utxo_splits l" vs_id] by fastforce
  ultimately show ?thesis using assms(2) row(1) by (auto simp: claims_ok_def claims_exclusive_iff l')
qed

lemma split_broadcast_claims:
  assumes "record_vault_utxo_split_broadcast k txid amounts script now l = Inr l'" "claims_ok l"
  shows "claims_ok l'"
proof -
  obtain s where s: "get_split k l = Some s" "vs_state s \<in> {SplitSigned, SplitBroadcast}"
    using assms(1) by (auto simp: record_vault_utxo_split_broadcast_def)
  let ?f = "\<lambda>s. s\<lparr>vs_state := SplitBroadcast, vs_txid := Some txid,
    vs_broadcast_at := (case vs_broadcast_at s of None \<Rightarrow> Some now | at \<Rightarrow> at)\<rparr>"
  let ?rows = "map (\<lambda>v. if vault_utxo_at (vs_source_txid s) (vs_source_vout s) v then spend_source txid v else v) (vault_utxos l)"
  have l': "vault_utxo_splits l' = vault_utxo_splits (update_split k ?f l)"
    "vault_utxos l' = foldl (\<lambda>rows c. upsert_by (\<lambda>_ v. v) (chunk_row txid script now c) rows) ?rows (enumerate 0 amounts)"
    using assms(1) by (auto simp: record_vault_utxo_split_broadcast_def Let_def s(1) split: option.splits)
  have "reserved_keys (upsert_by (\<lambda>_ v. v) (chunk_row txid script now c) rows) \<subseteq> reserved_keys rows" for c rows
    by (rule reserved_keys_upsert) (simp_all add: chunk_row_def)
  then have "reserved_keys (vault_utxos l') \<subseteq> reserved_keys ?rows" unfolding l'(2) by (rule reserved_keys_foldl)
  also have "\<dots> \<subseteq> reserved_keys (vault_utxos l)" by (rule reserved_keys_map) (simp add: spend_source_def)
  finally show ?thesis using s by (intro claims_ok_update[OF assms(2) s(1) _ _ _ l'(1)]) (simp_all add: live_split_def)
qed

lemma abandon_claims:
  assumes "abandon_vault_utxo_split k why observed now l = Inr l'" "claims_ok l"
  shows "claims_ok l'"
proof -
  obtain s where s: "get_split k l = Some s" using assms(1) by (auto simp: abandon_vault_utxo_split_def)
  show ?thesis
  proof (cases "vs_state s = SplitAbandoned")
    case True
    then show ?thesis using assms by (simp add: abandon_vault_utxo_split_def s)
  next
    case False
    let ?f = "\<lambda>s. s\<lparr>vs_state := SplitAbandoned, vs_abandoned_at := Some now, vs_abandon_reason := Some why,
      vs_txid := (case vs_txid s of None \<Rightarrow> observed | t \<Rightarrow> t)\<rparr>"
    have splits: "vault_utxo_splits l' = vault_utxo_splits (update_split k ?f l)"
      using assms(1) False by (auto simp: abandon_vault_utxo_split_def s Let_def split: option.splits)
    have "reserved_keys (map (drop_chunk t) rows) \<subseteq> reserved_keys rows" for rows t
      by (rule reserved_keys_map) (simp add: drop_chunk_def)
    moreover have "vault_utxos l' = vault_utxos l \<or> (\<exists>t. vault_utxos l' = map (drop_chunk t) (vault_utxos l))"
      using assms(1) False by (auto simp: abandon_vault_utxo_split_def s Let_def split: option.splits)
    ultimately have "reserved_keys (vault_utxos l') \<subseteq> reserved_keys (vault_utxos l)" by (elim disjE exE) simp_all
    then show ?thesis by (intro claims_ok_update[OF assms(2) s _ _ _ splits]) (simp_all add: live_split_def)
  qed
qed

lemma completion_reserved_keys:
  "goldcoin_completion_confirmed_in k now reason actor submitted l = Inr (settled, l') \<Longrightarrow>
     reserved_keys (vault_utxos l') \<subseteq> reserved_keys (vault_utxos l)"
  by (auto simp: goldcoin_completion_confirmed_in_def Let_def update_payout_def log_transition_def update_reserve_def
      reserved_keys_def dest!: update_request_vault split: if_splits)

lemma refund_broadcast_reserved_keys:
  "record_goldcoin_refund_broadcast k txid now l = Inr l' \<Longrightarrow> reserved_keys (vault_utxos l') \<subseteq> reserved_keys (vault_utxos l)"
  by (auto simp: record_goldcoin_refund_broadcast_def update_goldcoin_refund_def write_goldcoin_refunds_def log_transition_def
      spend_refund_inputs_def reserved_keys_def Let_def dest!: update_request_vault split: if_splits option.splits)

lemma unclaimed_update:
  assumes "claims_ok l" "\<And>s. vs_id (f s) = vs_id s \<and> vs_state (f s) = vs_state s \<and> split_key (f s) = split_key s"
  shows "claims_ok (update_split k f l)"
proof (rule claims_ok_mono[OF assms(1)])
  show "map vs_id (vault_utxo_splits (update_split k f l)) = map vs_id (vault_utxo_splits l)"
    by (rule ids_update) (use assms(2) in blast)
  show "claimed_keys (update_split k f l) \<subseteq> claimed_keys l"
    by (rule claimed_keys_update) (use assms(2) in \<open>auto simp: live_split_def\<close>)
qed simp

lemma coin_step_claims: "coin_step l l' \<Longrightarrow> vault_ok l \<Longrightarrow> claims_ok l \<Longrightarrow> claims_ok l'"
proof (induction rule: coin_step.induct)
  case (scanned l observed m now)
  show ?case by (rule claims_ok_same_splits[OF scanned(2)]) (simp add: sync_vault_utxos_def, rule scan_reserved_keys)
next
  case (held l txid reason)
  have "reserved_keys (vault_utxos (set_zero_conf_hold txid reason l)) \<subseteq> reserved_keys (vault_utxos l)"
    unfolding set_zero_conf_hold_def by (simp, rule reserved_keys_map) simp
  then show ?case by (intro claims_ok_same_splits[OF held(2)]) (simp add: set_zero_conf_hold_def)
next
  case (reserved k selected depth now l l')
  then show ?case by (auto simp: reserve_vault_utxos_def intro: reserve_each_claims)
next
  case (completed k now reason actor submitted l settled l')
  show ?case using completion_keeps[OF completed(1)] completion_reserved_keys[OF completed(1)]
    by (intro claims_ok_same_splits[OF completed(3)]) simp_all
next
  case (refund_broadcast k txid now l l')
  show ?case using refund_broadcast_keeps[OF refund_broadcast(1)] refund_broadcast_reserved_keys[OF refund_broadcast(1)]
    by (intro claims_ok_same_splits[OF refund_broadcast(3)]) simp_all
next
  case (split_signed k hex now l l')
  let ?f = "\<lambda>s. s\<lparr>vs_signed_tx_hex := Some hex, vs_state := SplitSigned, vs_signed_at := Some now\<rparr>"
  obtain s where s: "get_split k l = Some s" "vs_state s = SplitBuilt" and l': "l' = update_split k ?f l"
    using split_signed(1) by (auto simp: record_vault_utxo_split_signed_def split: option.splits)
  show ?case by (rule claims_ok_update[OF split_signed(3) s(1), of ?f]) (simp_all add: live_split_def s(2) l')
next
  case (split_confirmed k now l l')
  let ?f = "\<lambda>s. s\<lparr>vs_state := SplitConfirmed, vs_confirmed_at := Some now, vs_missing_inputs_since := None\<rparr>"
  obtain s where s: "get_split k l = Some s" and l': "l' = update_split k ?f l"
    using split_confirmed(1) by (auto simp: record_vault_utxo_split_confirmed_def)
  show ?case by (rule claims_ok_update[OF split_confirmed(3) s, of ?f]) (simp_all add: live_split_def l')
next
  case (inputs_missing l k now)
  then show ?case unfolding set_split_missing_inputs_def by (intro unclaimed_update) simp_all
next
  case (inputs_back l k)
  then show ?case unfolding clear_split_missing_inputs_def by (intro unclaimed_update) simp_all
next
  case (elsewhere l' l)
  then show ?case by (intro claims_ok_same_splits[OF elsewhere(4)]) simp_all
qed (blast intro: split_built_claims split_broadcast_claims abandon_claims)+


section \<open>A sample vault\<close>

definition sample_coin :: VaultUtxo where
  "sample_coin = \<lparr>utxo_txid = 5, utxo_vout = 0, utxo_amount_atomic = 900, utxo_script_pubkey_hex = ''a9''\<rparr>"

definition sample_coins_ledger :: Ledger where
  "sample_coins_ledger = sync_vault_utxos [(sample_coin, 7, ''a9'')] 6 1 sample_parked"

definition result_ledger :: "(LedgerError, Ledger) result \<Rightarrow> Ledger" where
  "result_ledger x = (case x of Inr l \<Rightarrow> l | Inl _ \<Rightarrow> sample_ledger)"

lemma result_committed: "is_ok x \<Longrightarrow> x = Inr (result_ledger x)"
  by (cases x) (simp_all add: result_ledger_def)

definition sample_reserved_coin :: Ledger where
  "sample_reserved_coin = result_ledger (reserve_vault_utxos 1 [sample_coin] 0 5 sample_coins_ledger)"

lemma sample_reserve_commits: "reserve_vault_utxos 1 [sample_coin] 0 5 sample_coins_ledger = Inr sample_reserved_coin"
proof -
  have "is_ok (reserve_vault_utxos 1 [sample_coin] 0 5 sample_coins_ledger)" by code_simp
  then show ?thesis unfolding sample_reserved_coin_def by (rule result_committed)
qed

lemma sample_coin_row: "\<exists>v. vault_utxos sample_reserved_coin = [v] \<and> vault_key v = (5, 0) \<and> vu_reserved_by v = Some 1"
proof -
  have "map (\<lambda>v. (vault_key v, vu_reserved_by v)) (vault_utxos sample_reserved_coin) = [((5, 0), Some 1)]" by code_simp
  then show ?thesis by (auto simp: map_eq_Cons_conv)
qed

lemma sample_coins_ok: "vault_ok sample_coins_ledger" "claims_ok sample_coins_ledger" "vault_ok sample_reserved_coin"
proof -
  have rows: "vault_utxos sample_parked = []" "vault_utxo_splits sample_parked = []" by (simp_all add: sample_parked_def sample_ledger_def)
  then have parked: "vault_ok sample_parked" "claims_ok sample_parked"
    by (simp_all add: vault_ok_def claims_ok_def claims_exclusive_def)
  have step: "coin_step sample_parked sample_coins_ledger" unfolding sample_coins_ledger_def by (rule coin_step.scanned)
  show ok: "vault_ok sample_coins_ledger" using coin_step_keeps[OF step] parked(1) by (auto simp: vault_ok_def rows_kept_def)
  show "claims_ok sample_coins_ledger" by (rule coin_step_claims[OF step parked])
  show "vault_ok sample_reserved_coin"
    using coin_step_keeps[OF coin_step.reserved[OF sample_reserve_commits]] ok by (auto simp: vault_ok_def rows_kept_def)
qed

theorem coin_serves_one_request_witness:
  "reserve_vault_utxos 1 [sample_coin] 0 5 sample_coins_ledger = Inr sample_reserved_coin
     \<and> \<not> offered (5, 0) 1 (sync_vault_utxos [(sample_coin, 9, ''a9'')] 6 9 sample_reserved_coin)"
proof -
  obtain v where v: "vault_utxos sample_reserved_coin = [v]" "vault_key v = (5, 0)" "vu_reserved_by v = Some 1"
    using sample_coin_row by blast
  have run: "vault_step\<^sup>*\<^sup>* sample_reserved_coin (sync_vault_utxos [(sample_coin, 9, ''a9'')] 6 9 sample_reserved_coin)"
    by (rule r_into_rtranclp, rule vault_step.daemon, rule coin_step.scanned)
  have "v \<in> set (vault_utxos sample_reserved_coin)" "used_up v" using v by (simp_all add: used_up_def)
  with coin_serves_one_request[OF run sample_coins_ok(3)] sample_reserve_commits v(2) show ?thesis by metis
qed











end
