(* ===== verification/Goldcoin_Signing_Properties.thy ===== *)
theory Goldcoin_Signing_Properties
  imports Goldcoin_Signing Ledger_Vault_Properties
begin

text \<open>
  What a vault signer may rely on: the plan it derives, the plan it recovers for a payout that was signed before,
  and how the recipient it pays relates to the recipient the ledger counts.
\<close>

section \<open>A derived plan is sound\<close>

lemma selection_in_range_mono:
  assumes "selection_in_range b amount rate ib" "mset a \<subseteq># mset b"
  shows "selection_in_range a amount rate ib"
proof -
  have len: "length a + 1 \<le> length b + 1" using size_mset_mono[OF assms(2)] by simp
  then have "(10 + (length a + 1) * unat ib + 2 * 34) * unat rate \<le> (10 + (length b + 1) * unat ib + 2 * 34) * unat rate"
    by (intro mult_le_mono add_mono) simp_all
  moreover have "fee_nat (length a + 1) 2 (unat rate) (unat ib) \<le> fee_nat (length b + 1) 2 (unat rate) (unat ib)"
    by (rule fee_nat_mono[OF len]) simp
  ultimately show ?thesis
    using assms total_of_mset[OF assms(2)] unfolding selection_in_range_def by linarith
qed

text \<open>What the chosen coins may be, and what unconfirmed ancestry they bring.\<close>

definition depth_sum :: "ZeroConfChangeCandidate list \<Rightarrow> VaultUtxo list \<Rightarrow> nat" where
  "depth_sum zc coins = sum_list (List.map_filter (\<lambda>u. map_option unat (unconfirmed_depth zc u)) coins)"

definition admissible_coins :: "PayoutPolicy \<Rightarrow> Ledger \<Rightarrow> VaultUtxo list \<Rightarrow> bool" where
  "admissible_coins policy l coins \<longleftrightarrow>
     mset coins \<subseteq># mset (available_vault_utxos l)
     \<or> (\<exists>zc. effective_zero_conf_depth policy > 0 \<and> mset zc \<subseteq># mset (zero_conf_change_vault_utxos_with_depth (effective_zero_conf_depth policy) l)
         \<and> mset coins \<subseteq># mset (available_vault_utxos l @ map zc_utxo zc)
         \<and> (pol_zero_conf_change_mode policy = BridgeOwnedRecursive \<longrightarrow>
             depth_sum zc coins \<le> unat (pol_zero_conf_change_recursive_chain_limit policy)))"

lemma map_filter_map_option: "List.map_filter (\<lambda>u. map_option f (g u)) xs = map f (List.map_filter g xs)"
  by (induction xs) (auto simp: map_filter_simps split: option.splits)

lemma sum_list_bound: "(\<And>d. d \<in> set ds \<Longrightarrow> f d < b) \<Longrightarrow> sum_list (map f ds) \<le> length ds * b" for b :: nat
proof (induction ds)
  case (Cons d ds)
  have "f d < b" "sum_list (map f ds) \<le> length ds * b" using Cons by simp_all
  then show ?case by simp
qed simp

lemma unconfirmed_depth_bound: "unconfirmed_depth zc u = Some d \<Longrightarrow> unat d < 2 ^ 32"
proof -
  assume "unconfirmed_depth zc u = Some d"
  then obtain c :: ZeroConfChangeCandidate where "d = ucast (zc_unconfirmed_ancestor_depth c)"
    by (auto simp: unconfirmed_depth_def split: option.splits if_splits)
  then show ?thesis using unat_lt2p[of "zc_unconfirmed_ancestor_depth c"] by (simp add: unsigned_ucast_eq take_bit_nat_eq_self)
qed

lemma budget_used_unat:
  assumes "length (sel_selected r) < 2 ^ 32"
  shows "unat (budget_used zc r) = depth_sum zc (sel_selected r)"
proof -
  let ?ds = "List.map_filter (unconfirmed_depth zc) (sel_selected r)"
  have "unat d < 2 ^ 32" if "d \<in> set ?ds" for d
    using that unconfirmed_depth_bound by (auto simp: map_filter_def)
  then have "sum_list (map unat ?ds) \<le> length ?ds * 2 ^ 32" by (rule sum_list_bound)
  also have "\<dots> \<le> length (sel_selected r) * 2 ^ 32" by (simp add: map_filter_def length_filter_le)
  also have "\<dots> < 2 ^ 32 * 2 ^ 32" using assms by (intro mult_strict_right_mono) simp_all
  finally have "unat (word_of_nat (sum_list (map unat ?ds)) :: u64) = sum_list (map unat ?ds)"
    by (intro unat_of_nat_bounded) simp
  then show ?thesis unfolding budget_used_def depth_sum_def map_filter_map_option sum_list_words[symmetric] .
qed

lemma within_budget_loop:
  assumes "select_within_budget policy select_from payout confirmed zc = Inr r"
  shows "\<exists>zc'. mset zc' \<subseteq># mset zc \<and> select_from (sort_key pool_key (confirmed @ map zc_utxo zc')) = Inr r
    \<and> within_budget policy (budget_used zc' r)"
  using assms
proof (induction zc rule: measure_induct_rule[of length])
  case (less zc)
  let ?pool = "sort_key pool_key (confirmed @ map zc_utxo zc)"
  obtain s where s: "select_from ?pool = Inr s"
    using less.prems by (subst (asm) select_within_budget.simps) (auto simp: Let_def split: sum.splits)
  show ?case
  proof (cases "within_budget policy (budget_used zc s)")
    case True
    then have "s = r" using less.prems s by (subst (asm) select_within_budget.simps) (simp add: Let_def)
    with True s show ?thesis by (intro exI[of _ zc]) simp
  next
    case False
    then obtain i where i: "deepest zc = Some i"
      "select_within_budget policy select_from payout confirmed (take i zc @ drop (Suc i) zc) = Inr r"
      using less.prems s by (subst (asm) select_within_budget.simps) (auto simp: Let_def split: option.splits)
    have "length (take i zc @ drop (Suc i) zc) < length zc" using deepest_less[OF i(1)] by simp
    moreover have "mset (take i zc @ drop (Suc i) zc) \<subseteq># mset zc"
      using deepest_less[OF i(1)] id_take_nth_drop[of i zc] by (metis mset_append mset.simps(2) mset_subset_eq_add_left union_mset_add_mset_right add_mset_add_single subset_mset.add_left_mono mset_subset_eq_add_right union_commute)
    ultimately show ?thesis using less.IH i(2) by (meson subset_mset.order_trans)
  qed
qed

lemma choose_coins_sound:
  assumes "choose_coins policy vault payout l = Inr r" "1 \<le> pol_max_inputs policy" "pol_max_inputs policy < 2 ^ 32"
    and range: "selection_in_range (available_vault_utxos l @ zero_conf_change_vault_utxos (effective_zero_conf_depth policy) l)
      payout (pol_fee_rate_per_kb policy) (multisig_input_bytes (mv_threshold vault) (length (redeem_script vault)))"
  shows "admissible_coins policy l (sel_selected r) \<and> sel_selected r \<noteq> [] \<and> length (sel_selected r) \<le> pol_max_inputs policy
    \<and> unat (sel_total_selected r) = total_of (sel_selected r) \<and> payout \<le> sel_total_selected r"
proof -
  let ?depth = "effective_zero_conf_depth policy" and ?available = "available_vault_utxos l"
  let ?ib = "multisig_input_bytes (mv_threshold vault) (length (redeem_script vault))"
  let ?select = "\<lambda>candidates. select candidates payout (pol_fee_rate_per_kb policy) (mv_threshold vault)
    (length (redeem_script vault)) (pol_max_inputs policy)"
  let ?zc = "zero_conf_change_vault_utxos_with_depth ?depth l"
  have from_pool: "sel_selected r \<noteq> [] \<and> length (sel_selected r) \<le> pol_max_inputs policy \<and> mset (sel_selected r) \<subseteq># mset pool
      \<and> unat (sel_total_selected r) = total_of (sel_selected r) \<and> payout \<le> sel_total_selected r"
    if "?select pool = Inr r" "mset pool \<subseteq># mset (?available @ map zc_utxo ?zc)" for pool
  proof -
    have "selection_in_range pool payout (pol_fee_rate_per_kb policy) ?ib"
      using selection_in_range_mono[OF range] that(2) by (simp add: zero_conf_change_vault_utxos_def)
    from select_funds[OF that(1) assms(2) this] show ?thesis
      by (auto simp: funds_def word_le_nat_alt)
  qed
  show ?thesis
  proof (cases "?select ?available")
    case (Inr s)
    then have "s = r" using assms(1) by (simp add: choose_coins_def Let_def)
    with Inr from_pool[of ?available] show ?thesis by (simp add: admissible_coins_def)
  next
    case (Inl e)
    then have depth: "?depth > 0" and loop: "select_within_budget policy ?select payout ?available ?zc = Inr r"
      using assms(1) by (auto simp: choose_coins_def Let_def split: if_splits)
    obtain zc where zc: "mset zc \<subseteq># mset ?zc" "?select (sort_key pool_key (?available @ map zc_utxo zc)) = Inr r"
      "within_budget policy (budget_used zc r)" using within_budget_loop[OF loop] by blast
    have "mset (map zc_utxo zc) \<subseteq># mset (map zc_utxo ?zc)" using image_mset_subseteq_mono[OF zc(1)] by simp
    note ok = from_pool[OF zc(2)] this
    then have "length (sel_selected r) < 2 ^ 32" using assms(3) by simp
    then have "pol_zero_conf_change_mode policy = BridgeOwnedRecursive \<longrightarrow>
        depth_sum zc (sel_selected r) \<le> unat (pol_zero_conf_change_recursive_chain_limit policy)"
      using zc(3) budget_used_unat[of r zc] unat_lt2p[of "pol_zero_conf_change_recursive_chain_limit policy"]
      by (auto simp: within_budget_def word_le_nat_alt unsigned_ucast_eq take_bit_nat_eq_self)
    with ok depth zc(1) show ?thesis by (auto simp: admissible_coins_def)
  qed
qed

lemma rederive_plan_Inr:
  assumes "rederive_plan cr k vault policy network l = Inr plan"
  shows "\<exists>request fb selection. get_request l k = Some request \<and> destination_is_goldcoin (br_direction request)
    \<and> br_state request = SourceFinalized \<and> payout_hash (cr_sha256 cr) (br_recipient request) network = Inr (pp_dest_p2pkh_hash plan)
    \<and> verify_breakdown request = Inr fb \<and> pp_payout_atomic plan = fb_net fb
    \<and> choose_coins policy vault (fb_net fb) l = Inr selection \<and> pp_inputs plan = sel_selected selection
    \<and> finalize_fanout selection (fb_net fb) (length (sel_selected selection))
        (multisig_input_bytes (mv_threshold vault) (length (redeem_script vault))) (pol_fee_rate_per_kb policy)
        (pol_dust_threshold policy) (pol_change_fanout_target_atomic policy) (pol_change_fanout_max_outputs policy)
        = (pp_change_outputs plan, pp_fee_atomic plan)
    \<and> input_contexts cr vault network l (pp_inputs plan) = Inr (pp_input_contexts plan)
    \<and> pp_vault_script_pubkey plan = script_pubkey vault"
  using assms by (auto simp: rederive_plan_def Let_def ok_or_def map_err_def split: option.splits sum.splits prod.splits)

text \<open>
  C16. A plan that a signer derives is one it may sign: it pays the request's own recipient the net amount recomputed
  from the deposit, is funded by coins the ledger offers and at most as many as the policy allows, brings no more
  unconfirmed ancestry than the policy permits, loses nothing (payout, change and fee add up to the coins), and the
  transaction built from it passes the signer's own check.
\<close>

theorem rederived_plan_sound:
  assumes "rederive_plan cr k vault policy network l = Inr plan"
    and "1 \<le> pol_max_inputs policy" "pol_max_inputs policy < 2 ^ 32" "max (pol_change_fanout_max_outputs policy) 1 < 2 ^ 64"
    and range: "selection_in_range (available_vault_utxos l @ zero_conf_change_vault_utxos (effective_zero_conf_depth policy) l)
      (pp_payout_atomic plan) (pol_fee_rate_per_kb policy) (multisig_input_bytes (mv_threshold vault) (length (redeem_script vault)))"
    and fee_range: "(10 + pol_max_inputs policy * unat (multisig_input_bytes (mv_threshold vault) (length (redeem_script vault)))
      + (1 + max (pol_change_fanout_max_outputs policy) 1) * 34) * unat (pol_fee_rate_per_kb policy) < 2 ^ 64"
  shows "(\<exists>request fb. get_request l k = Some request \<and> br_state request = SourceFinalized
      \<and> payout_hash (cr_sha256 cr) (br_recipient request) network = Inr (pp_dest_p2pkh_hash plan)
      \<and> verify_breakdown request = Inr fb \<and> pp_payout_atomic plan = fb_net fb)
    \<and> pp_inputs plan \<noteq> [] \<and> length (pp_inputs plan) \<le> pol_max_inputs policy \<and> admissible_coins policy l (pp_inputs plan)
    \<and> unat (pp_payout_atomic plan) + sum_list (map unat (pp_change_outputs plan)) + unat (pp_fee_atomic plan) = total_of (pp_inputs plan)
    \<and> verify_payout_tx (build_unsigned_tx plan) plan = Inr ()"
proof -
  let ?ib = "multisig_input_bytes (mv_threshold vault) (length (redeem_script vault))"
  obtain request fb selection where d: "get_request l k = Some request" "br_state request = SourceFinalized"
    "payout_hash (cr_sha256 cr) (br_recipient request) network = Inr (pp_dest_p2pkh_hash plan)" "verify_breakdown request = Inr fb"
    "pp_payout_atomic plan = fb_net fb" "choose_coins policy vault (fb_net fb) l = Inr selection" "pp_inputs plan = sel_selected selection"
    "finalize_fanout selection (fb_net fb) (length (sel_selected selection)) ?ib (pol_fee_rate_per_kb policy)
        (pol_dust_threshold policy) (pol_change_fanout_target_atomic policy) (pol_change_fanout_max_outputs policy)
        = (pp_change_outputs plan, pp_fee_atomic plan)"
    and script: "pp_vault_script_pubkey plan = script_pubkey vault"
    using rederive_plan_Inr[OF assms(1)] by blast
  have coins: "admissible_coins policy l (pp_inputs plan)" "pp_inputs plan \<noteq> []" "length (pp_inputs plan) \<le> pol_max_inputs policy"
    "unat (sel_total_selected selection) = total_of (pp_inputs plan)" "fb_net fb \<le> sel_total_selected selection"
    using choose_coins_sound[OF d(6) assms(2,3)] range unfolding d(5,7) by blast+
  have "(10 + length (sel_selected selection) * unat ?ib + (1 + max (pol_change_fanout_max_outputs policy) 1) * 34) * unat (pol_fee_rate_per_kb policy)
      \<le> (10 + pol_max_inputs policy * unat ?ib + (1 + max (pol_change_fanout_max_outputs policy) 1) * 34) * unat (pol_fee_rate_per_kb policy)"
    using coins(3) d(7) by (intro mult_le_mono add_mono) simp_all
  from finalize_fanout_meets_spec[OF coins(5) assms(4) le_less_trans[OF this fee_range],
      where dust = "pol_dust_threshold policy" and target = "pol_change_fanout_target_atomic policy"]
  have sum: "unat (pp_payout_atomic plan) + sum_list (map unat (pp_change_outputs plan)) + unat (pp_fee_atomic plan) = total_of (pp_inputs plan)"
    unfolding coins(4)[symmetric] d(5,8) by auto
  have "sum_list (map utxo_amount_atomic (pp_inputs plan)) = word_of_nat (total_of (pp_inputs plan))"
    by (simp add: sum_list_words[of "map utxo_amount_atomic _"] total_of_def comp_def)
  also have "\<dots> = pp_payout_atomic plan + sum_list (pp_change_outputs plan) + pp_fee_atomic plan"
    unfolding sum[symmetric] sum_list_words[of "pp_change_outputs _"] by simp
  finally have "sum_list (map utxo_amount_atomic (pp_inputs plan))
      = pp_payout_atomic plan + sum_list (pp_change_outputs plan) + pp_fee_atomic plan" .
  then have "verify_payout_tx (build_unsigned_tx plan) plan = Inr ()"
    using built_payout_verifies[OF script] by simp
  with d coins sum show ?thesis by blast
qed


lemma recover_plan_Inr:
  assumes "recover_plan cr k vault network l = Inr plan"
  shows "\<exists>request fb p. get_request l k = Some request \<and> br_state request = SettlementAuthorized
    \<and> payout_hash (cr_sha256 cr) (br_recipient request) network = Inr (pp_dest_p2pkh_hash plan)
    \<and> verify_breakdown request = Inr fb \<and> pp_payout_atomic plan = fb_net fb
    \<and> get_goldcoin_payout l k = Some p \<and> gp_state p = PayoutSigned
    \<and> gp_unsigned_tx_hex p = Some (hex_encode (serialize (build_unsigned_tx plan)))
    \<and> verify_payout_tx (build_unsigned_tx plan) plan = Inr ()"
  using assms by (auto simp: recover_plan_def Let_def)

text \<open>
  Signing again changes nothing: the plan recovered for a payout that was signed before builds the very transaction
  that was recorded when the payout was built, and that transaction still pays the request's recipient the amount
  recomputed from the deposit.
\<close>

lemma recovered_plan_builds_recorded:
  assumes "recover_plan cr k vault network l = Inr plan" "get_goldcoin_payout l k = Some p"
    and "gp_unsigned_tx_hex p = Some (hex_encode (serialize recorded))"
    and "sized_tx recorded" "sized_tx (build_unsigned_tx plan)"
  shows "build_unsigned_tx plan = recorded \<and> verify_payout_tx recorded plan = Inr ()
    \<and> (\<exists>request fb. get_request l k = Some request \<and> br_state request = SettlementAuthorized
      \<and> payout_hash (cr_sha256 cr) (br_recipient request) network = Inr (pp_dest_p2pkh_hash plan)
      \<and> verify_breakdown request = Inr fb \<and> pp_payout_atomic plan = fb_net fb)"
proof -
  obtain request fb where d: "get_request l k = Some request" "br_state request = SettlementAuthorized"
    "payout_hash (cr_sha256 cr) (br_recipient request) network = Inr (pp_dest_p2pkh_hash plan)"
    "verify_breakdown request = Inr fb" "pp_payout_atomic plan = fb_net fb"
    and hex: "hex_encode (serialize (build_unsigned_tx plan)) = hex_encode (serialize recorded)"
    and ok: "verify_payout_tx (build_unsigned_tx plan) plan = Inr ()"
    using recover_plan_Inr[OF assms(1)] assms(2,3) by fastforce
  have "serialize (build_unsigned_tx plan) = serialize recorded"
    using arg_cong[OF hex, of decode_vec] by simp
  then have "build_unsigned_tx plan = recorded"
    using tx.enc_split[of "build_unsigned_tx plan" "[]" recorded "[]"] assms(4,5) by simp
  with d ok show ?thesis by blast
qed

section \<open>Whom a payout pays\<close>

lemma from_utf8_lossy_ascii: "\<forall>b\<in>set bs. b < 0x80 \<Longrightarrow> from_utf8_lossy bs = map unat bs"
  by (induction bs) (simp_all add: utf8_char_def)

lemma trim_end_nul_simps [simp]:
  "trim_end_nul (s @ [0]) = trim_end_nul s" "c \<noteq> 0 \<Longrightarrow> trim_end_nul (s @ [c]) = s @ [c]"
  by (simp_all add: trim_end_nul_def)

lemma payout_hash_padded: "\<forall>b\<in>set r. b < 0x80 \<Longrightarrow> payout_hash sha256 (r @ [0]) network = payout_hash sha256 r network"
  by (simp add: payout_hash_def from_utf8_lossy_ascii)

lemma address_chars: "c \<in> set (encode_p2pkh sha256 h network) \<Longrightarrow> 0 < c \<and> c < 128"
proof -
  assume "c \<in> set (encode_p2pkh sha256 h network)"
  then have "c \<in> set ALPHABET"
    by (auto simp: encode_p2pkh_def base58check_encode_def Let_def base58_encode_spelled ALPHABET_facts r58.spelled_bound intro!: nth_mem)
  then show ?thesis unfolding ALPHABET_codes by auto
qed

definition address_bytes :: "chars \<Rightarrow> bytes" where
  "address_bytes = map word_of_nat"

lemma address_bytes_ascii:
  assumes "s = encode_p2pkh sha256 h network"
  shows "\<forall>b\<in>set (address_bytes s). b < 0x80" "map unat (address_bytes s) = s"
  using address_chars[of _ sha256 h network] assms
  by (force simp: address_bytes_def word_less_nat_alt unat_of_nat take_bit_nat_eq_self intro!: map_idI)+

lemma payout_hash_address: "payout_hash sha256 (address_bytes (encode_p2pkh sha256 h network)) network = Inr h"
proof -
  let ?s = "encode_p2pkh sha256 h network"
  have dec: "decode_p2pkh sha256 ?s network = Inr h"
    by (simp add: decode_p2pkh_def encode_p2pkh_def decode_versioned_iff base58check_bounded)
  then have "?s \<noteq> []"
    by (auto simp: decode_p2pkh_def decode_versioned_def base58check_decode_def base58_decode_def)
  then have "trim_end_nul ?s = ?s" using address_chars[OF last_in_set] trim_end_nul_simps(2)[of "last ?s" "butlast ?s"] by force
  then show ?thesis using dec address_bytes_ascii[OF refl] by (simp add: payout_hash_def from_utf8_lossy_ascii)
qed

text \<open>An address under a checksum that is always zero.\<close>

definition sample_address :: bytes where
  "sample_address = map of_char ''DspJWUYDimq3AsTmnRfCX1iB99FCKDKoqR''"

lemma sample_address_pays: "payout_hash (\<lambda>_. 0) sample_address Mainnet = Inr 5"
proof -
  let ?ds = "[12, 50, 47, 17, 29, 27, 31, 12, 41, 44, 48, 2, 9, 50, 26, 44, 45, 24, 38, 11, 30, 0, 41, 10, 8, 8, 14, 11, 18, 12, 18, 46, 48, 24] :: nat list"
  have codes: "sample_address = [68, 115, 112, 74, 87, 85, 89, 68, 105, 109, 113, 51, 65, 115, 84, 109, 110, 82, 102, 67, 88, 49,
    105, 66, 57, 57, 70, 67, 75, 68, 75, 111, 113, 82]" by (simp add: sample_address_def)
  have "trim_end_nul (from_utf8_lossy sample_address) = [68, 115, 112, 74, 87, 85, 89, 68, 105, 109, 113, 51, 65, 115, 84, 109, 110,
    82, 102, 67, 88, 49, 105, 66, 57, 57, 70, 67, 75, 68, 75, 111, 113, 82]"
    unfolding codes by (subst from_utf8_lossy_ascii) (simp_all add: trim_end_nul_def)
  also have "\<dots> = map ((!) ALPHABET) ?ds" by (simp add: ALPHABET_codes)
  finally have chars: "trim_end_nul (from_utf8_lossy sample_address) = map ((!) ALPHABET) ?ds" .
  have "base58_decode (map ((!) ALPHABET) ?ds) = Inr (map word_of_nat (spelled 256 (leading ?ds) (digits_value 58 (rev ?ds))))"
    by (rule base58_decode_spelled) auto
  also have "map word_of_nat (spelled 256 (leading ?ds) (digits_value 58 (rev ?ds))) = ([0x20, 0, 0, 0, 0, 0, 0, 0, 0, 0, 0, 0, 0, 0, 0, 0, 0, 0, 0, 0, 5, 0, 0, 0, 0] :: bytes)"
    by (simp add: spelled_def leading_def r256.digits_of_pos)
  finally have dec: "base58_decode (map ((!) ALPHABET) ?ds) = Inr [0x20, 0, 0, 0, 0, 0, 0, 0, 0, 0, 0, 0, 0, 0, 0, 0, 0, 0, 0, 0, 5, 0, 0, 0, 0]" .
  have "take 4 (to_bytes 0) = [0, 0, 0, 0]" by code_simp
  then show ?thesis unfolding payout_hash_def chars decode_p2pkh_def decode_versioned_def base58check_decode_def dec
    by (simp add: checksum_def Let_def hash20_of_bytes_def)
qed

definition sample_small_amounts :: RequestAmounts where
  "sample_small_amounts = \<lparr>am_gross_atomic = 200, am_fee_bps = 0, am_fee_atomic = 0, am_net_atomic = 200,
     am_net_destination_atomic = 200, am_quote = None\<rparr>"

definition sample_first_deposit :: Ledger where
  "sample_first_deposit = ledger_of (fold_sol_deposit 3 sample_small_amounts 8 sample_address None 0 sample_ledger)"

text \<open>
  The ledger counts recipients by their stored bytes, the payout pays what the text decodes to: of two
  deposits to one address on one day, the second from another wallet, the second is held for review when it spells
  the address the same way and goes through when it adds a zero byte, although both pay the same key hash.
\<close>

theorem recipient_window_by_spelling:
  "payout_hash (\<lambda>_. 0) (sample_address @ [0]) Mainnet = payout_hash (\<lambda>_. 0) sample_address Mainnet
   \<and> payout_hash (\<lambda>_. 0) sample_address Mainnet = Inr 5
   \<and> outcome_of (fold_sol_deposit 4 sample_small_amounts 9 sample_address None 60 sample_first_deposit)
       = Some (FoldedManualReview 2)
   \<and> outcome_of (fold_sol_deposit 4 sample_small_amounts 9 (sample_address @ [0]) None 60 sample_first_deposit)
       = Some (FoldedFinalized 2)"
proof (intro conjI)
  show "payout_hash (\<lambda>_. 0) (sample_address @ [0]) Mainnet = payout_hash (\<lambda>_. 0) sample_address Mainnet"
    by (rule payout_hash_padded) (simp add: sample_address_def)
  show "outcome_of (fold_sol_deposit 4 sample_small_amounts 9 sample_address None 60 sample_first_deposit) = Some (FoldedManualReview 2)"
    by code_simp
  show "outcome_of (fold_sol_deposit 4 sample_small_amounts 9 (sample_address @ [0]) None 60 sample_first_deposit) = Some (FoldedFinalized 2)"
    by code_simp
qed (rule sample_address_pays)

section \<open>A sample payout\<close>

text \<open>A curve whose signatures name the message and the key.\<close>

definition sample_curve :: "(pubkey33, pubkey33, bytes32 \<times> pubkey33) Secp256k1" where
  "sample_curve = \<lparr>secp_parse_secret = (\<lambda>h. Some (word_of_nat (unat h mod 256))), secp_public = id,
     secp_parse_compressed = Some, secp_serialize_compressed = id,
     secp_tweak_secret = (\<lambda>sk t. Some (sk + t)), secp_tweak_public = (\<lambda>pk t. Some (pk + t)),
     secp_sign = Pair, secp_verify = (\<lambda>h sig pk. sig = (h, pk)), secp_normalize_s = id,
     secp_parse_der = (\<lambda>der. Some (from_bytes (take 32 der), pubkey_of_bytes (drop 32 der))),
     secp_serialize_der = (\<lambda>(h, pk). to_bytes h @ bytes_of_pubkey pk)\<rparr>"

definition sample_crypto :: "(pubkey33, pubkey33, bytes32 \<times> pubkey33) Crypto" where
  "sample_crypto = \<lparr>cr_sha256 = (\<lambda>_. 0), cr_ripemd160 = sample_ripemd160, cr_secp = sample_curve\<rparr>"

definition sample_payout_policy :: PayoutPolicy where
  "sample_payout_policy = \<lparr>pol_fee_rate_per_kb = 100, pol_dust_threshold = 10, pol_max_inputs = 5, pol_change_fanout_target_atomic = 200,
     pol_zero_conf_change_max_depth = 0, pol_zero_conf_change_mode = DepthLimited,
     pol_zero_conf_change_recursive_chain_limit = 0, pol_change_fanout_max_outputs = 2\<rparr>"

definition sample_funding :: VaultUtxo where
  "sample_funding = sample_coin\<lparr>utxo_script_pubkey_hex := script_pubkey_hex sample_vault\<rparr>"

definition sample_due :: Ledger where
  "sample_due = sync_vault_utxos [(sample_funding, 7, script_pubkey_hex sample_vault)] 6 1 sample_first_deposit"

definition sample_request :: BridgeRequest where
  "sample_request = the (get_request sample_due 1)"

lemma sample_due_request: "get_request sample_due = get_request sample_first_deposit"
  by (rule ext) (simp add: sample_due_def sync_vault_utxos_def get_request_def)

lemma sample_request_due:
  "get_request sample_due 1 = Some sample_request" "destination_is_goldcoin (br_direction sample_request)"
  "br_state sample_request = SourceFinalized" "br_recipient sample_request = sample_address"
proof -
  have "get_request sample_first_deposit 1 \<noteq> None" by code_simp
  then show "get_request sample_due 1 = Some sample_request" by (simp add: sample_request_def sample_due_request)
  have "destination_is_goldcoin (br_direction (the (get_request sample_first_deposit 1)))"
    "br_state (the (get_request sample_first_deposit 1)) = SourceFinalized"
    "br_recipient (the (get_request sample_first_deposit 1)) = sample_address" by code_simp+
  then show "destination_is_goldcoin (br_direction sample_request)" "br_state sample_request = SourceFinalized"
    "br_recipient sample_request = sample_address" by (simp_all add: sample_request_def sample_due_request)
qed

lemma sample_breakdown: "\<exists>fb. verify_breakdown sample_request = Inr fb \<and> fb_net fb = 200"
proof -
  let ?r = "the (get_request sample_first_deposit 1)"
  have cols: "row_quote ?r = None" "br_gross_amount_atomic ?r = 200" "br_fee_bps ?r = 0" "br_fee_amount_atomic ?r = 0"
    "br_net_amount_atomic ?r = 200" by code_simp+
  have "\<exists>fb. verify_fee_breakdown 200 0 0 200 = Inr fb \<and> fb_net fb = 200" by (simp add: verify_fee_breakdown_def compute_fee_at_bps_def checked_mul_def checked_sub_def BPS_DENOMINATOR_def Let_def)
  then show ?thesis by (simp add: sample_request_def sample_due_request verify_breakdown_def verify_request_amounts_def cols as_u64_def)
qed

lemma sample_vault_script [simp]: "length (redeem_script sample_vault) = 105" "mv_threshold sample_vault = 2"
  by (simp_all add: redeem_script_def build_redeem_script_def sample_vault_def sample_vault_keys_def)

lemma sample_available: "available_vault_utxos sample_due = [sample_funding]"
proof -
  have "vault_utxos sample_first_deposit = []" "vault_utxo_splits sample_first_deposit = []"
    "\<not> list_ex (\<lambda>b. source_is_goldcoin (br_direction b)) (requests sample_first_deposit)" by code_simp+
  then show ?thesis
    by (auto simp: sample_due_def sync_vault_utxos_def upsert_by_def observed_row_def mark_absent_def available_vault_utxos_def
        unfinalized_goldcoin_deposit_def live_split_claim_def list_ex_iff coin_of_row_def vault_utxo_at_def sample_funding_def sample_coin_def
        as_i64_def as_u64_def)
qed

lemma sample_no_unconfirmed:
  "effective_zero_conf_depth sample_payout_policy = 0" "zero_conf_change_vault_utxos 0 l = []"
  by (simp_all add: effective_zero_conf_depth_def sample_payout_policy_def zero_conf_change_vault_utxos_def zero_conf_change_vault_utxos_with_depth_def)

lemma sample_input_bytes: "multisig_input_bytes 2 105 = 299"
  by (simp add: multisig_input_bytes_def MAX_SIGNATURE_BYTES_def)

lemma sample_choice: "choose_coins sample_payout_policy sample_vault 200 sample_due
    = Inr \<lparr>sel_selected = [sample_funding], sel_total_selected = 900, sel_fee_atomic = 38\<rparr>"
proof -
  have "fee_for (Suc 0) (Suc 0) 100 299 = 35" "fee_for (Suc 0) 2 100 299 = 38"
    by (simp_all add: fee_for_def div_ceil_def TX_OVERHEAD_BYTES_def P2PKH_OUTPUT_BYTES_def)
  then show ?thesis
    by (simp add: choose_coins_def sample_available sample_no_unconfirmed sample_payout_policy_def select_def sample_input_bytes
        sample_funding_def sample_coin_def min_by_key_def Let_def smallest_first_combination_def single_selection_def)
qed

lemma sample_plan_derived: "\<exists>plan. rederive_plan sample_crypto 1 sample_vault sample_payout_policy Mainnet sample_due = Inr plan \<and> pp_payout_atomic plan = 200"
proof -
  obtain fb where fb: "verify_breakdown sample_request = Inr fb" "fb_net fb = 200" using sample_breakdown by blast
  have "eq_ignore_ascii_case (utxo_script_pubkey_hex sample_funding) (script_pubkey_hex sample_vault)"
    by (simp add: sample_funding_def eq_ignore_ascii_case_def)
  then show ?thesis
    by (simp add: rederive_plan_def sample_request_due sample_address_pays sample_crypto_def sample_choice fb Let_def map_err_def split_beta)
qed

theorem rederived_plan_sound_witness:
  "\<exists>plan. rederive_plan sample_crypto 1 sample_vault sample_payout_policy Mainnet sample_due = Inr plan
     \<and> pp_dest_p2pkh_hash plan = 5 \<and> verify_payout_tx (build_unsigned_tx plan) plan = Inr ()"
proof -
  obtain plan where plan: "rederive_plan sample_crypto 1 sample_vault sample_payout_policy Mainnet sample_due = Inr plan" "pp_payout_atomic plan = 200"
    using sample_plan_derived by blast
  have "selection_in_range [sample_funding] 200 100 299"
    by (simp add: selection_in_range_def fee_nat_def sample_funding_def sample_coin_def)
  then have "selection_in_range (available_vault_utxos sample_due
      @ zero_conf_change_vault_utxos (effective_zero_conf_depth sample_payout_policy) sample_due) (pp_payout_atomic plan)
      (pol_fee_rate_per_kb sample_payout_policy) (multisig_input_bytes (mv_threshold sample_vault) (length (redeem_script sample_vault)))"
    by (simp add: sample_available sample_no_unconfirmed sample_input_bytes plan(2)) (simp add: sample_payout_policy_def)
  from rederived_plan_sound[OF plan(1) _ _ _ this] plan(1) show ?thesis
    by (auto simp: sample_input_bytes sample_payout_policy_def sample_request_due sample_crypto_def sample_address_pays)
qed

text \<open>The ledger after the payout was built, its coin reserved and the payout signed.\<close>

definition sample_made :: PayoutPlan where
  "sample_made = \<lparr>pp_inputs = [sample_funding], pp_input_contexts = [\<lparr>pic_vault = sample_vault, pic_funding_request_id = None\<rparr>],
     pp_dest_p2pkh_hash = 5, pp_payout_atomic = 200, pp_change_outputs = [329, 329],
     pp_vault_script_pubkey = script_pubkey sample_vault, pp_fee_atomic = 42\<rparr>"

definition sample_payout_row :: GoldcoinPayoutRow where
  "sample_payout_row = \<lparr>gp_request_id = 1, gp_commitment_hash = 0, gp_payout_atomic = 200, gp_change_atomic = 658, gp_fee_atomic = 42,
     gp_dest_p2pkh_hash = 5, gp_unsigned_tx_hex = Some (hex_encode (serialize (build_unsigned_tx sample_made))),
     gp_signed_tx_hex = Some ''01'', gp_txid = None, gp_state = PayoutSigned, gp_built_at = 2, gp_signed_at = Some 3,
     gp_broadcast_at = None, gp_confirmations = 0, gp_mined_height = None, gp_completed_at = None,
     gp_onchain_completion_signature = None, gp_onchain_completion_submitted_at = None,
     gp_completion_submissions = 0, gp_onchain_completed_at = None\<rparr>"

definition sample_recoverable :: Ledger where
  "sample_recoverable = sample_due\<lparr>requests := [sample_request\<lparr>br_id := 1, br_state := SettlementAuthorized\<rparr>],
     goldcoin_payouts := [sample_payout_row], payout_inputs := input_rows 1 [sample_funding],
     vault_utxos := [reserve_coin_row 1 2 (observed_row 6 1 (sample_funding, 7, script_pubkey_hex sample_vault))],
     payout_change_outputs := [\<lparr>co_request_id = 1, co_output_order = 0, co_amount_atomic = 329\<rparr>,
       \<lparr>co_request_id = 1, co_output_order = 1, co_amount_atomic = 329\<rparr>]\<rparr>"

lemma sample_made_verifies: "verify_payout_tx (build_unsigned_tx sample_made) sample_made = Inr ()"
  using built_payout_verifies[of sample_made sample_vault] by (simp add: sample_made_def sample_funding_def sample_coin_def)

lemma sample_recovers: "recover_plan sample_crypto 1 sample_vault Mainnet sample_recoverable = Inr sample_made"
proof -
  obtain fb where fb: "verify_breakdown sample_request = Inr fb" "fb_net fb = 200" using sample_breakdown by blast
  have "verify_breakdown (sample_request\<lparr>br_id := 1, br_state := SettlementAuthorized\<rparr>) = verify_breakdown sample_request"
    by (simp add: verify_breakdown_def row_quote_def request_destination_scale_def Let_def split: option.split)
  then have request: "get_request sample_recoverable 1 = Some (sample_request\<lparr>br_id := 1, br_state := SettlementAuthorized\<rparr>)"
    "verify_breakdown (sample_request\<lparr>br_id := 1, br_state := SettlementAuthorized\<rparr>) = Inr fb"
    using fb by (simp_all add: sample_recoverable_def get_request_def find_by_def)
  have inputs: "get_goldcoin_payout_inputs 1 sample_recoverable = Inr [sample_funding]"
    by (simp add: get_goldcoin_payout_inputs_def sample_recoverable_def input_rows_def reserve_coin_row_def observed_row_def vault_utxo_at_def
        sample_funding_def sample_coin_def as_i64_def as_u64_def)
  have change: "goldcoin_payout_change_outputs sample_recoverable 1 658 = [329, 329]"
    by (simp add: goldcoin_payout_change_outputs_def sample_recoverable_def as_u64_def)
  have "input_contexts sample_crypto sample_vault Mainnet sample_recoverable [sample_funding] = Inr (pp_input_contexts sample_made)"
    by (simp add: sample_funding_def eq_ignore_ascii_case_def sample_made_def)
  moreover have "get_goldcoin_payout sample_recoverable 1 = Some sample_payout_row"
    by (simp add: get_goldcoin_payout_def sample_recoverable_def sample_payout_row_def find_by_def)
  ultimately show ?thesis
    using sample_made_verifies
    by (simp add: recover_plan_def request inputs fb(2) sample_request_due sample_address_pays sample_crypto_def Let_def sample_payout_row_def
        change as_u64_def sample_made_def)
qed

end
