(* ===== verification/Payout_Flow_Properties.thy ===== *)
theory Payout_Flow_Properties
  imports Payout_Flow Goldcoin_Signing_Properties
begin

text \<open>
  What reaches the Goldcoin network: nothing that the ledger has not recorded, and only the transaction of the
  recorded plan, with each input signed by a quorum of the vault that holds the coin.
\<close>

section \<open>Signatures do not cover signatures\<close>

definition unsigned_part :: "Transaction \<Rightarrow> Transaction" where
  "unsigned_part tx = tx\<lparr>tx_inputs := map (\<lambda>i. i\<lparr>ti_script_sig := []\<rparr>) (tx_inputs tx)\<rparr>"

lemma unsigned_part_built [simp]: "unsigned_part (build_unsigned_tx plan) = build_unsigned_tx plan"
  by (simp add: unsigned_part_def build_unsigned_tx_def unsigned_input_def)

lemma length_unsigned_part: "unsigned_part a = unsigned_part b \<Longrightarrow> length (tx_inputs a) = length (tx_inputs b)"
  by (auto simp: unsigned_part_def dest!: arg_cong[where f = "\<lambda>t. length (tx_inputs t)"])

lemma sighash_stripped_unsigned: "sighash_stripped (unsigned_part tx) i r = sighash_stripped tx i r"
proof -
  have "enumerate 0 (map f xs) = map (\<lambda>(i, x). (i, f x)) (enumerate 0 xs)" for f :: "TxIn \<Rightarrow> TxIn" and xs
    by (simp add: enumerate_eq_zip zip_map2)
  then show ?thesis by (simp add: sighash_stripped_def unsigned_part_def comp_def split_beta)
qed

lemma sighash_all_unsigned: "unsigned_part a = unsigned_part b \<Longrightarrow> sighash_all sha256 a i r = sighash_all sha256 b i r"
  unfolding sighash_all_def sighash_preimage_def by (metis sighash_stripped_unsigned)

lemma unsigned_set_script_sig [simp]: "unsigned_part (set_script_sig i s tx) = unsigned_part tx"
proof (cases "i < length (tx_inputs tx)")
  case True
  then show ?thesis by (simp add: unsigned_part_def set_script_sig_def map_update list_update_same_conv)
qed (simp add: set_script_sig_def unsigned_part_def list_update_beyond)

lemma assemble_inputs_Inr:
  assumes "assemble_inputs cr plan slots tx = Inr tx'" "distinct (map fst slots)"
  shows "unsigned_part tx' = unsigned_part tx
    \<and> (\<forall>(i, ps)\<in>set slots. i < length (pp_input_contexts plan) \<and> i < length (tx_inputs tx)
        \<and> assemble (cr_secp cr) (pic_vault (pp_input_contexts plan ! i))
            (sighash_all (cr_sha256 cr) tx i (redeem_script (pic_vault (pp_input_contexts plan ! i)))) ps
          = Inr (ti_script_sig (tx_inputs tx' ! i)))
    \<and> (\<forall>i. i \<notin> fst ` set slots \<longrightarrow> tx_inputs tx' ! i = tx_inputs tx ! i)"
  using assms
proof (induction slots arbitrary: tx)
  case (Cons slot slots)
  obtain i ps where slot: "slot = (i, ps)" by fastforce
  let ?v = "pic_vault (pp_input_contexts plan ! i)"
  obtain s where s: "i < length (pp_input_contexts plan)" "i < length (tx_inputs tx)"
    "assemble (cr_secp cr) ?v (sighash_all (cr_sha256 cr) tx i (redeem_script ?v)) ps = Inr s"
    "assemble_inputs cr plan slots (set_script_sig i s tx) = Inr tx'"
    using Cons.prems(1) by (auto simp: slot Let_def)
  have unsig: "unsigned_part (set_script_sig i s tx) = unsigned_part tx" by simp
  note IH = Cons.IH[OF s(4)]
  have "i \<notin> fst ` set slots" "distinct (map fst slots)" using Cons.prems(2) by (auto simp: slot)
  with IH have "tx_inputs tx' ! i = (tx_inputs tx ! i)\<lparr>ti_script_sig := s\<rparr>"
    using s(2) by (auto simp: set_script_sig_def)
  moreover have "tx_inputs (set_script_sig i s tx) ! j = tx_inputs tx ! j" if "j \<noteq> i" for j
    using that by (simp add: set_script_sig_def)
  ultimately show ?case
    using IH \<open>distinct (map fst slots)\<close> s(1-3) sighash_all_unsigned[OF unsig] length_unsigned_part[OF unsig]
    by (auto simp: slot)
qed simp

section \<open>Every signer signs the same transaction\<close>

lemma independently_sign_Inr:
  "independently_sign cr signer rederived i = Inr (p, plan, tx) \<Longrightarrow>
     rederived = Inr plan \<and> tx = build_unsigned_tx plan \<and> verify_payout_tx tx plan = Inr () \<and> i < length (pp_input_contexts plan)"
  by (auto simp: independently_sign_def Let_def split: prod.splits)

lemma length_sign_each: "sign_each cr signer rederived is = Inr ps \<Longrightarrow> length ps = length is"
  by (induction "is" arbitrary: ps) (auto split: prod.splits)

lemma length_sign_with_others: "sign_with_others cr rederived signers slots = Inr partials \<Longrightarrow> length partials = length slots"
  by (induction signers arbitrary: slots) (auto dest: length_sign_each)

lemma sign_all_inputs_Inr:
  assumes "independently_sign_all_inputs cr signers rederived threshold = Inr (plan, tx, partials)"
  shows "rederived = Inr plan" "tx = build_unsigned_tx plan" "verify_payout_tx tx plan = Inr ()"
    "0 < length (pp_input_contexts plan)" "length partials = Suc (length (pp_inputs plan) - 1)"
  using assms
  by (auto simp: independently_sign_all_inputs_def split: prod.splits
      dest!: independently_sign_Inr length_sign_each length_sign_with_others)

lemma length_input_contexts: "input_contexts cr vault network l us = Inr ctxs \<Longrightarrow> length ctxs = length us"
  by (induction us arbitrary: ctxs) auto

text \<open>A transaction that a quorum of every coin's vault has signed for the plan.\<close>

definition signed_for :: "('sk, 'pk, 'sg) Crypto \<Rightarrow> PayoutPlan \<Rightarrow> Transaction \<Rightarrow> bool" where
  "signed_for cr plan tx \<longleftrightarrow> unsigned_part tx = build_unsigned_tx plan
     \<and> (\<forall>i < length (pp_inputs plan). let vault = pic_vault (pp_input_contexts plan ! i) in
          \<exists>ps. assemble (cr_secp cr) vault (sighash_all (cr_sha256 cr) (build_unsigned_tx plan) i (redeem_script vault)) ps
            = Inr (ti_script_sig (tx_inputs tx ! i)))"

lemma assembled_signed_for:
  assumes "assemble_inputs cr plan (enumerate 0 partials) (build_unsigned_tx plan) = Inr tx" "length (pp_inputs plan) \<le> length partials"
  shows "signed_for cr plan tx"
proof -
  have "(i, partials ! i) \<in> set (enumerate 0 partials)" if "i < length (pp_inputs plan)" for i
    using that assms(2) by (simp add: in_set_enumerate_eq)
  with assemble_inputs_Inr[OF assms(1)] show ?thesis unfolding signed_for_def Let_def by fastforce
qed

section \<open>Reserved coins\<close>

definition reserved_for :: "i64 \<Rightarrow> VaultUtxo \<Rightarrow> Ledger \<Rightarrow> bool" where
  "reserved_for k u l \<longleftrightarrow> (\<exists>v\<in>set (vault_utxos l). vault_utxo_at (utxo_txid u) (utxo_vout u) v \<and> vu_state v = UtxoReserved
     \<and> vu_reserved_by v = Some k)"

lemma reserve_each_tables:
  "reserve_each k depth now us n l = Inr (m, l') \<Longrightarrow> requests l' = requests l \<and> goldcoin_payouts l' = goldcoin_payouts l"
  by (induction us arbitrary: n l) (fastforce simp: Let_def)+

lemma reservable_unique:
  assumes "distinct (map vault_key (vault_utxos l))"
  shows "length (filter (reservable depth l u) (vault_utxos l)) \<le> 1"
proof -
  have "distinct (map vault_key (filter (reservable depth l u) (vault_utxos l)))" using assms by (simp add: distinct_map_filter)
  moreover have "set (map vault_key (filter (reservable depth l u) (vault_utxos l))) \<subseteq> {(utxo_txid u, utxo_vout u)}"
    by (auto simp: reservable_def vault_utxo_at_def)
  ultimately show ?thesis
    using card_mono[of "{(utxo_txid u, utxo_vout u)}" "set (map vault_key (filter (reservable depth l u) (vault_utxos l)))"]
      distinct_card[of "map vault_key (filter (reservable depth l u) (vault_utxos l))"] by simp
qed

lemma reserve_each_reserves:
  assumes "reserve_each k depth now us n l = Inr (m, l')" "distinct (map vault_key (vault_utxos l))"
  shows "m \<le> n + length us \<and> (\<forall>u. reserved_for k u l \<longrightarrow> reserved_for k u l') \<and> (m = n + length us \<longrightarrow> (\<forall>u\<in>set us. reserved_for k u l'))"
  using assms
proof (induction us arbitrary: n l)
  case (Cons u us)
  let ?n = "length (filter (reservable depth l u) (vault_utxos l))"
  let ?l = "l\<lparr>vault_utxos := map (\<lambda>v. if reservable depth l u v then reserve_coin_row k now v else v) (vault_utxos l)\<rparr>"
  have step: "reserve_each k depth now us (n + ?n) ?l = Inr (m, l')" using Cons.prems(1) by (auto simp: Let_def)
  have "map vault_key (vault_utxos ?l) = map vault_key (vault_utxos l)" by (simp add: reserve_coin_row_def)
  then have "distinct (map vault_key (vault_utxos ?l))" using Cons.prems(2) by (rule ssubst)
  note IH = Cons.IH[OF step this]
  have kept: "reserved_for k w ?l" if "reserved_for k w l" for w
    using that by (force simp: reserved_for_def reservable_def)
  have "reserved_for k u ?l" if "?n = 1"
  proof -
    have "filter (reservable depth l u) (vault_utxos l) \<noteq> []" using that by auto
    then obtain v where "v \<in> set (vault_utxos l)" "reservable depth l u v" by (auto simp: filter_empty_conv)
    then show ?thesis unfolding reserved_for_def
      by (intro bexI[of _ "reserve_coin_row k now v"]) (auto simp: reserve_coin_row_def reservable_def vault_utxo_at_def)
  qed
  moreover have "?n \<le> 1" by (rule reservable_unique[OF Cons.prems(2)])
  ultimately show ?case using IH kept by (cases "?n = 1") auto
qed simp

lemma reserve_vault_utxos_Inr:
  assumes "reserve_vault_utxos k us depth now l = Inr l'" "distinct (map vault_key (vault_utxos l))"
  shows "requests l' = requests l" "goldcoin_payouts l' = goldcoin_payouts l" "\<forall>u\<in>set us. reserved_for k u l'"
  using assms reserve_each_tables[of k depth now us 0 l] reserve_each_reserves[of k depth now us 0 l]
  by (auto simp: reserve_vault_utxos_def)

section \<open>Payout rows\<close>

lemma get_payout_update:
  assumes "\<And>p. gp_request_id (f p) = gp_request_id p"
  shows "get_goldcoin_payout (update_payout k f l) k = map_option f (get_goldcoin_payout l k)"
  unfolding get_goldcoin_payout_def update_payout_sel by (subst find_update_by[where key = gp_request_id and f = f, OF assms]) simp

lemma payout_built_Inr:
  assumes "record_goldcoin_payout_built k plan c hex now l = Inr l'"
  shows "vault_utxos l' = vault_utxos l" "requests l' = requests l" "get_goldcoin_payout l k = None"
    "\<exists>p. get_goldcoin_payout l' k = Some p \<and> gp_state p = PayoutBuilt \<and> gp_unsigned_tx_hex p = Some hex"
  using assms unfolding record_goldcoin_payout_built_def Let_def
  by (auto simp: get_goldcoin_payout_def find_by_append split: option.splits)

lemma payout_signed_Inr:
  assumes "record_goldcoin_payout_signed k hex now l = Inr l'"
  shows "vault_utxos l' = vault_utxos l"
    "\<exists>p. get_goldcoin_payout l k = Some p \<and> get_goldcoin_payout l' k = Some (p\<lparr>gp_signed_tx_hex := Some hex, gp_state := PayoutSigned, gp_signed_at := Some now\<rparr>)"
proof -
  let ?f = "\<lambda>p. p\<lparr>gp_signed_tx_hex := Some hex, gp_state := PayoutSigned, gp_signed_at := Some now\<rparr>"
  obtain p l1 where p: "get_goldcoin_payout l k = Some p"
    and l1: "update_request (update_payout k ?f l) k (\<lambda>row. row\<lparr>br_state := SettlementAuthorized\<rparr>) = Inr l1"
    and l': "l' = log_transition k (Some SourceFinalized) SettlementAuthorized now None ''system'' l1"
    using assms by (auto simp: record_goldcoin_payout_signed_def split: option.splits)
  then show "vault_utxos l' = vault_utxos l" using update_request_vault[OF l1] by (simp add: log_transition_def update_payout_def)
  have "goldcoin_payouts l' = goldcoin_payouts (update_payout k ?f l)"
    using l1 by (auto simp: l' log_transition_def update_request_def write_requests_def)
  then show "\<exists>p. get_goldcoin_payout l k = Some p \<and> get_goldcoin_payout l' k = Some (?f p)"
    using p get_payout_update[of ?f k l] by (simp add: get_goldcoin_payout_def)
qed

lemma payout_resigned_Inr:
  assumes "record_goldcoin_payout_resigned k hex now l = Inr l'"
  shows "vault_utxos l' = vault_utxos l"
    "\<exists>p. get_goldcoin_payout l k = Some p \<and> gp_state p = PayoutSigned \<and> get_goldcoin_payout l' k = Some (p\<lparr>gp_signed_tx_hex := Some hex, gp_signed_at := Some now\<rparr>)"
  using assms by (auto simp: record_goldcoin_payout_resigned_def get_payout_update update_payout_def[of _ _ l] split: option.splits)
    (auto simp: update_payout_def[symmetric] get_payout_update)

lemma record_change_outpoints_vault [simp]: "vault_utxos (record_change_outpoints k txid l) = vault_utxos l"
  by (simp add: record_change_outpoints_def Let_def)

lemma payout_broadcast_Inr:
  assumes "record_goldcoin_payout_broadcast k txid now l = Inr l'" "get_goldcoin_payout l k = Some p" "gp_state p = PayoutSigned"
  shows "vault_utxos l' = vault_utxos l"
    "get_goldcoin_payout l' k = Some (p\<lparr>gp_state := PayoutBroadcast, gp_txid := Some txid, gp_broadcast_at := Some now\<rparr>)"
    "\<exists>r. get_request l' k = Some r \<and> br_state r = DestinationSubmitted"
proof -
  let ?f = "\<lambda>p. p\<lparr>gp_state := PayoutBroadcast, gp_txid := Some txid, gp_broadcast_at := Some now\<rparr>"
    and ?g = "\<lambda>row. row\<lparr>br_state := DestinationSubmitted, br_destination_txid := Some (to_bytes txid)\<rparr>"
  let ?l = "record_change_outpoints k txid (update_payout k ?f l)"
  obtain r l1 where r: "get_request ?l k = Some r" and l1: "update_request ?l k ?g = Inr l1"
    and l': "l' = log_transition k (Some (br_state r)) DestinationSubmitted now None ''system'' l1"
    using assms by (auto simp: record_goldcoin_payout_broadcast_def Let_def)
  show "vault_utxos l' = vault_utxos l" using update_request_vault[OF l1] by (simp add: l' log_transition_def update_payout_def)
  have "goldcoin_payouts l' = goldcoin_payouts (update_payout k ?f l)"
    using l1 by (auto simp: l' log_transition_def update_request_def write_requests_def)
  then show "get_goldcoin_payout l' k = Some (?f p)"
    using assms(2) get_payout_update[of ?f k l] by (simp add: get_goldcoin_payout_def)
  have "requests l' = update_by br_id k ?g (requests ?l)"
    using l1 by (auto simp: l' log_transition_def update_request_def write_requests_def)
  then have "get_request l' k = Some (?g r)"
    using r find_update_by[of br_id ?g k k "requests ?l"] by (simp add: get_request_def)
  then show "\<exists>r. get_request l' k = Some r \<and> br_state r = DestinationSubmitted" by simp
qed

section \<open>What is sent\<close>

lemma commit_or_stop_simps [simp]:
  "commit_or_stop (Inr l') l sent k = k l'" "commit_or_stop (Inl e) l sent k = (Inl (FlowLedger e), l, sent)"
  by (simp_all add: commit_or_stop_def)

lemma broadcast_signed_sends:
  assumes "broadcast_signed cr send k tx outcome now l = (result, l', sent)" "get_goldcoin_payout l k = Some p"
    "gp_state p = PayoutSigned" "gp_signed_tx_hex p = Some (hex_encode (serialize tx))"
  shows "sent = Some (hex_encode (serialize tx)) \<and> vault_utxos l' = vault_utxos l
    \<and> (\<exists>p'. get_goldcoin_payout l' k = Some p' \<and> gp_signed_tx_hex p' = sent \<and> gp_unsigned_tx_hex p' = gp_unsigned_tx_hex p
        \<and> gp_state p' \<in> {PayoutSigned, PayoutBroadcast}
        \<and> (\<forall>x. result = Inr x \<longrightarrow> gp_state p' = PayoutBroadcast \<and> gp_txid p' = Some (transaction_txid (cr_sha256 cr) tx)
            \<and> x = outcome (transaction_txid (cr_sha256 cr) tx)
            \<and> (\<exists>r. get_request l' k = Some r \<and> br_state r = DestinationSubmitted)))"
  using assms(1) payout_broadcast_Inr[OF _ assms(2,3), of "transaction_txid (cr_sha256 cr) tx" now] assms(2-4)
  by (auto simp: broadcast_signed_def commit_or_stop_def Let_def split: option.splits BroadcastOutcome.splits sum.splits)

text \<open>What was handed to the node is a fully signed transaction of the plan, and the ledger has recorded it.\<close>

definition sent_as_recorded :: "('sk, 'pk, 'sg) Crypto \<Rightarrow> i64 \<Rightarrow> PayoutPlan \<Rightarrow> (FlowError, 'a) result \<Rightarrow> Ledger \<Rightarrow> string \<Rightarrow> bool" where
  "sent_as_recorded cr k plan result l hex \<longleftrightarrow> (\<exists>tx p. signed_for cr plan tx \<and> hex = hex_encode (serialize tx)
     \<and> get_goldcoin_payout l k = Some p \<and> gp_unsigned_tx_hex p = Some (hex_encode (serialize (build_unsigned_tx plan)))
     \<and> gp_signed_tx_hex p = Some hex \<and> gp_state p \<in> {PayoutSigned, PayoutBroadcast}
     \<and> (is_ok result \<longrightarrow> gp_state p = PayoutBroadcast \<and> gp_txid p = Some (transaction_txid (cr_sha256 cr) tx)
         \<and> (\<exists>r. get_request l k = Some r \<and> br_state r = DestinationSubmitted)))"

lemma broadcast_signed_recorded:
  assumes "broadcast_signed cr send k tx outcome now l = (result, l', sent)" "get_goldcoin_payout l k = Some p"
    "gp_state p = PayoutSigned" "gp_signed_tx_hex p = Some (hex_encode (serialize tx))" "signed_for cr plan tx"
    "gp_unsigned_tx_hex p = Some (hex_encode (serialize (build_unsigned_tx plan)))"
  shows "\<exists>hex. sent = Some hex \<and> sent_as_recorded cr k plan result l' hex \<and> vault_utxos l' = vault_utxos l"
proof -
  obtain p' where p': "sent = Some (hex_encode (serialize tx))" "vault_utxos l' = vault_utxos l" "get_goldcoin_payout l' k = Some p'"
    "gp_signed_tx_hex p' = sent" "gp_unsigned_tx_hex p' = gp_unsigned_tx_hex p" "gp_state p' \<in> {PayoutSigned, PayoutBroadcast}"
    "\<forall>x. result = Inr x \<longrightarrow> gp_state p' = PayoutBroadcast \<and> gp_txid p' = Some (transaction_txid (cr_sha256 cr) tx)
        \<and> (\<exists>r. get_request l' k = Some r \<and> br_state r = DestinationSubmitted)"
    using broadcast_signed_sends[OF assms(1-4)] by blast
  then have "sent_as_recorded cr k plan result l' (hex_encode (serialize tx))"
    unfolding sent_as_recorded_def using assms(5,6) by (intro exI[of _ tx] exI[of _ p']) (cases result; simp)
  with p'(1,2) show ?thesis by blast
qed

lemma payout_sends_built:
  assumes built: "record_goldcoin_payout_built k plan c (hex_encode (serialize (build_unsigned_tx plan))) now l1 = Inr l2"
    and partials: "length (pp_inputs plan) \<le> length partials"
    and flow: "(case assemble_inputs cr plan (enumerate 0 partials) (build_unsigned_tx plan) of
        Inl e \<Rightarrow> (Inl (FlowMultisig e), l2, None)
      | Inr tx \<Rightarrow> commit_or_stop (record_goldcoin_payout_signed k (hex_encode (serialize tx)) now l2) l2 None
          (broadcast_signed cr send k tx (\<lambda>_. ()) now)) = (result, l', sent)"
  shows "(case sent of Some hex \<Rightarrow> sent_as_recorded cr k plan result l' hex
      | None \<Rightarrow> result \<noteq> Inr () \<and> (\<exists>p. get_goldcoin_payout l' k = Some p \<and> gp_state p = PayoutBuilt))
    \<and> vault_utxos l' = vault_utxos l1"
proof -
  obtain p where p: "get_goldcoin_payout l2 k = Some p" "gp_state p = PayoutBuilt"
    "gp_unsigned_tx_hex p = Some (hex_encode (serialize (build_unsigned_tx plan)))" using payout_built_Inr[OF built] by auto
  note coins = payout_built_Inr(1)[OF built]
  show ?thesis
  proof (cases "assemble_inputs cr plan (enumerate 0 partials) (build_unsigned_tx plan)")
    case (Inl e)
    with flow p coins show ?thesis by auto
  next
    case (Inr tx)
    note tx = Inr and signed = assembled_signed_for[OF Inr partials]
    show ?thesis
    proof (cases "record_goldcoin_payout_signed k (hex_encode (serialize tx)) now l2")
      case (Inl e)
      with flow p Inr coins show ?thesis by auto
    next
      case (Inr l3)
      let ?p = "p\<lparr>gp_signed_tx_hex := Some (hex_encode (serialize tx)), gp_state := PayoutSigned, gp_signed_at := Some now\<rparr>"
      have row: "vault_utxos l3 = vault_utxos l2" "get_goldcoin_payout l3 k = Some ?p"
        using payout_signed_Inr[OF Inr] p(1) by auto
      have "broadcast_signed cr send k tx (\<lambda>_. ()) now l3 = (result, l', sent)" using flow Inr tx by simp
      from broadcast_signed_recorded[OF this row(2) _ _ signed] p(3) row(1) coins show ?thesis by auto
    qed
  qed
qed

text \<open>
  C13. Paying out, from the finalized deposit to the network: whatever the flow returns, a transaction is handed to the node
  only if it is the transaction of the plan derived from the ledger, every input signed by a quorum of the vault
  that holds the coin, all its coins reserved for the request and both its unsigned and its signed form recorded;
  when the flow succeeds, the payout is recorded under the transaction's own identifier. When nothing is sent, no payout
  is recorded as signed.
\<close>

theorem payout_sends_what_it_recorded:
  assumes "build_and_broadcast_payout cr signers vault threshold policy network send k now l = (result, l', sent)"
    and "vault_ok l"
  shows "case sent of
      Some hex \<Rightarrow> \<exists>plan. rederive_plan cr k vault policy network l = Inr plan \<and> sent_as_recorded cr k plan result l' hex
        \<and> (\<forall>u\<in>set (pp_inputs plan). reserved_for k u l')
    | None \<Rightarrow> result \<noteq> Inr () \<and> (get_goldcoin_payout l' k = get_goldcoin_payout l k
        \<or> (\<exists>p. get_goldcoin_payout l' k = Some p \<and> gp_state p = PayoutBuilt))"
proof (cases "independently_sign_all_inputs cr signers (rederive_plan cr k vault policy network l) threshold")
  case (Inl e)
  then show ?thesis using assms(1) by (auto simp: build_and_broadcast_payout_def)
next
  case (Inr x)
  then obtain plan tx partials where sign: "independently_sign_all_inputs cr signers (rederive_plan cr k vault policy network l) threshold
      = Inr (plan, tx, partials)" by (metis prod_cases3)
  note s = sign_all_inputs_Inr[OF sign]
  show ?thesis
  proof (cases "reserve_vault_utxos k (pp_inputs plan) (effective_zero_conf_depth policy) now l")
    case (Inl e)
    then show ?thesis using assms(1) by (auto simp: build_and_broadcast_payout_def sign)
  next
    case (Inr l1)
    note reserved = Inr and r = reserve_vault_utxos_Inr[OF Inr]
    show ?thesis
    proof (cases "record_goldcoin_payout_built k plan (cr_sha256 cr (serialize tx)) (hex_encode (serialize tx)) now l1")
      case (Inl e)
      then show ?thesis using assms r by (auto simp: build_and_broadcast_payout_def sign Inr vault_ok_def get_goldcoin_payout_def)
    next
      case (Inr l2)
      have coins: "\<forall>u\<in>set (pp_inputs plan). reserved_for k u l1" using r(3) assms(2) by (simp add: vault_ok_def)
      have "length (pp_inputs plan) \<le> length partials" using s(5) by simp
      moreover have "(case assemble_inputs cr plan (enumerate 0 partials) (build_unsigned_tx plan) of
          Inl e \<Rightarrow> (Inl (FlowMultisig e), l2, None)
        | Inr tx \<Rightarrow> commit_or_stop (record_goldcoin_payout_signed k (hex_encode (serialize tx)) now l2) l2 None
            (broadcast_signed cr send k tx (\<lambda>_. ()) now)) = (result, l', sent)"
        using assms(1) by (simp add: build_and_broadcast_payout_def sign reserved Inr flip: s(2))
      note payout_sends_built[OF Inr[unfolded s(2)] calculation this]
      with coins s(1) show ?thesis by (cases sent) (auto simp: reserved_for_def)
    qed
  qed
qed

section \<open>Sending again\<close>

lemma length_concat_ge: "(\<And>x. x \<in> set xs \<Longrightarrow> f x \<noteq> []) \<Longrightarrow> length xs \<le> length (concat (map f xs))"
  by (induction xs) (force simp: Suc_le_eq neq_Nil_conv)+

lemma length_in_concat: "x \<in> set xs \<Longrightarrow> length (f x) \<le> length (concat (map f xs))"
  by (induction xs) auto

lemma short_text_sized: "length (serialize tx) < 2 ^ 64 \<Longrightarrow> sized_tx tx"
proof -
  assume short: "length (serialize tx) < 2 ^ 64"
  let ?ins = "concat (map serialize_input (tx_inputs tx))" and ?outs = "concat (map serialize_output (tx_outputs tx))"
  have parts: "length ?ins < 2 ^ 64" "length ?outs < 2 ^ 64" using short by (simp_all add: serialize_def)
  have "length (ti_script_sig i) \<le> length (serialize_input i)" "serialize_input i \<noteq> []" for i
    by (auto simp: serialize_input_def write_script_def u32_to_le_bytes_def)
  moreover have "length (to_script_pubkey o') \<le> length (serialize_output o')" "serialize_output o' \<noteq> []" for o'
    by (auto simp: serialize_output_def write_script_def simp flip: length_0_conv)
  ultimately show ?thesis
    using parts length_concat_ge[of "tx_inputs tx" serialize_input] length_concat_ge[of "tx_outputs tx" serialize_output]
      length_in_concat[of _ "tx_inputs tx" serialize_input] length_in_concat[of _ "tx_outputs tx" serialize_output]
    unfolding sized_tx_def sized_input_def sized_output_def list_all_iff by (meson le_less_trans)
qed

text \<open>
  C14. Recovering a payout that was signed but not accepted sends no other transaction: whatever the recovery returns, what
  it hands to the node is the transaction recorded when the payout was built, signed afresh by a quorum of every
  coin's vault and recorded before it is sent; and when it sends nothing, it changes nothing.
\<close>

theorem recovery_resends_recorded_transaction:
  assumes "recover_stuck_goldcoin_payout cr signers vault threshold network send k now l = (result, l', sent)"
    and "get_goldcoin_payout l k = Some p" "gp_unsigned_tx_hex p = Some (hex_encode (serialize recorded))"
    and "length (serialize recorded) < 2 ^ 64"
  shows "case sent of
      Some hex \<Rightarrow> \<exists>plan. recover_plan cr k vault network l = Inr plan \<and> build_unsigned_tx plan = recorded
        \<and> sent_as_recorded cr k plan result l' hex \<and> vault_utxos l' = vault_utxos l
    | None \<Rightarrow> l' = l"
proof (cases "gp_state p = PayoutSigned")
  case False
  then show ?thesis using assms(1,2) by (auto simp: recover_stuck_goldcoin_payout_def split: if_splits)
next
  case True
  show ?thesis
  proof (cases "independently_sign_all_inputs cr signers (recover_plan cr k vault network l) threshold")
    case (Inl e)
    then show ?thesis using assms(1,2) True by (auto simp: recover_stuck_goldcoin_payout_def)
  next
    case (Inr x)
    then obtain plan tx partials where sign: "independently_sign_all_inputs cr signers (recover_plan cr k vault network l) threshold
        = Inr (plan, tx, partials)" by (metis prod_cases3)
    note s = sign_all_inputs_Inr[OF sign]
    have "serialize (build_unsigned_tx plan) = serialize recorded"
      using recover_plan_Inr[OF s(1)] assms(2,3) decode_vec_hex by (metis option.inject Inr_inject)
    then have built: "build_unsigned_tx plan = recorded"
      using recovered_plan_builds_recorded[OF s(1) assms(2,3)] short_text_sized assms(4) by simp
    show ?thesis
    proof (cases "assemble_inputs cr plan (enumerate 0 partials) tx")
      case (Inl e)
      then show ?thesis using assms(1,2) True by (auto simp: recover_stuck_goldcoin_payout_def sign)
    next
      case (Inr tx')
      note tx' = Inr
      have signed: "signed_for cr plan tx'"
        by (rule assembled_signed_for[of cr plan partials]) (use Inr s(2,5) in auto)
      show ?thesis
      proof (cases "record_goldcoin_payout_resigned k (hex_encode (serialize tx')) now l")
        case (Inl e)
        then show ?thesis using assms(1,2) True tx' by (auto simp: recover_stuck_goldcoin_payout_def sign Let_def)
      next
        case (Inr l1)
        let ?p = "p\<lparr>gp_signed_tx_hex := Some (hex_encode (serialize tx')), gp_signed_at := Some now\<rparr>"
        have row: "vault_utxos l1 = vault_utxos l" "get_goldcoin_payout l1 k = Some ?p"
          using payout_resigned_Inr[OF Inr] assms(2) by auto
        obtain outcome where "broadcast_signed cr send k tx' outcome now l1 = (result, l', sent)"
          using assms(1,2) True tx' Inr by (auto simp: recover_stuck_goldcoin_payout_def sign Let_def)
        from broadcast_signed_recorded[OF this row(2) _ _ signed] True assms(3) row(1) built s(1) show ?thesis by auto
      qed
    qed
  qed
qed

section \<open>Honest signers\<close>

text \<open>
  What the curve library documents of signing: a signature verifies under the key that made it, also in low-s form,
  its encoding is read back, and an encoded signature has at most 72 bytes.
\<close>

definition signature_law :: "('sk, 'pk, 'sg) Secp256k1 \<Rightarrow> bool" where
  "signature_law secp \<longleftrightarrow>
     (\<forall>h sk. secp_verify secp h (secp_normalize_s secp (secp_sign secp h sk)) (secp_public secp sk))
     \<and> (\<forall>sig. secp_parse_der secp (secp_serialize_der secp sig) = Some sig \<and> length (secp_serialize_der secp sig) \<le> 72)"

abbreviation key_of :: "('sk, 'pk, 'sg) Crypto \<Rightarrow> 'sk \<Rightarrow> pubkey33" where
  "key_of cr sk \<equiv> secp_serialize_compressed (cr_secp cr) (secp_public (cr_secp cr) sk)"

definition signing_key :: "('sk, 'pk, 'sg) Crypto \<Rightarrow> PayoutInputContext \<Rightarrow> 'sk \<Rightarrow> (DerivationError, 'sk) result" where
  "signing_key cr ctx sk = (case pic_funding_request_id ctx of
     None \<Rightarrow> Inr sk | Some k \<Rightarrow> derive_request_seckey (cr_sha256 cr) (cr_secp cr) sk k)"

definition context_of :: "('sk, 'pk, 'sg) Crypto \<Rightarrow> MultisigVault \<Rightarrow> Network \<Rightarrow> PayoutInputContext \<Rightarrow> bool" where
  "context_of cr root network ctx \<longleftrightarrow> (case pic_funding_request_id ctx of
     None \<Rightarrow> pic_vault ctx = root
   | Some k \<Rightarrow> derive_request_vault (cr_sha256 cr) (cr_ripemd160 cr) (cr_secp cr) root k network = Inr (pic_vault ctx))"

lemma input_contexts_of: "input_contexts cr root network l us = Inr ctxs \<Longrightarrow> \<forall>ctx\<in>set ctxs. context_of cr root network ctx"
  by (induction us arbitrary: ctxs) (auto simp: context_of_def split: if_splits prod.splits)

lemma recover_plan_contexts:
  "recover_plan cr k vault network l = Inr plan \<Longrightarrow> input_contexts cr vault network l (pp_inputs plan) = Inr (pp_input_contexts plan)"
  by (auto simp: recover_plan_def Let_def)

lemma context_vault_ok:
  assumes "validate_signer_set (mv_signer_pubkeys root) (mv_threshold root) = Inr ()" "context_of cr root network ctx"
  shows "validate_signer_set (mv_signer_pubkeys (pic_vault ctx)) (mv_threshold root) = Inr ()" "mv_threshold (pic_vault ctx) = mv_threshold root"
  using assms new_vault_Inr by (auto simp: context_of_def derive_request_vault_def split: option.splits)

lemma context_key_position:
  assumes "tweak_law (cr_secp cr)" "validate_signer_set (mv_signer_pubkeys root) (mv_threshold root) = Inr ()" "context_of cr root network ctx"
    and "i < length (mv_signer_pubkeys root)" "mv_signer_pubkeys root ! i = key_of cr sk" "signing_key cr ctx sk = Inr sk'"
  shows "signer_position (pic_vault ctx) (key_of cr sk') = Some i"
proof (cases "pic_funding_request_id ctx")
  case None
  then show ?thesis using assms position_distinct[of "mv_signer_pubkeys root" i]
    by (auto simp: signing_key_def context_of_def signer_position_def validate_signer_set_Inr)
next
  case (Some k)
  then have "derive_request_vault (cr_sha256 cr) (cr_ripemd160 cr) (cr_secp cr) root k network = Inr (pic_vault ctx)"
    "derive_request_seckey (cr_sha256 cr) (cr_secp cr) sk k = Inr sk'" using assms(3,6) by (simp_all add: context_of_def signing_key_def)
  from derived_key_matches_vault[OF assms(1) this(1) assms(4,5) this(2)] show ?thesis by blast
qed

text \<open>The contribution of a signer to an input.\<close>

definition contribution :: "('sk, 'pk, 'sg) Crypto \<Rightarrow> PayoutPlan \<Rightarrow> nat \<Rightarrow> 'sk \<Rightarrow> PartialSignature" where
  "contribution cr plan i sk =
     (let ctx = pp_input_contexts plan ! i; sk' = (case signing_key cr ctx sk of Inr x \<Rightarrow> x | Inl _ \<Rightarrow> sk) in
      \<lparr>ps_vault_pubkey = key_of cr sk', ps_der_signature = sign_low_s (cr_secp cr)
        (sighash_all (cr_sha256 cr) (build_unsigned_tx plan) i (redeem_script (pic_vault ctx))) sk'\<rparr>)"

definition can_sign :: "('sk, 'pk, 'sg) Crypto \<Rightarrow> PayoutPlan \<Rightarrow> 'sk \<Rightarrow> bool" where
  "can_sign cr plan sk \<longleftrightarrow> (\<forall>ctx\<in>set (pp_input_contexts plan). is_ok (signing_key cr ctx sk))"

lemma independently_sign_honest:
  assumes "verify_payout_tx (build_unsigned_tx plan) plan = Inr ()" "i < length (pp_input_contexts plan)" "can_sign cr plan sk"
  shows "independently_sign cr (dev_vault_signer cr sk) (Inr plan) i = Inr (contribution cr plan i sk, plan, build_unsigned_tx plan)"
proof -
  let ?ctx = "pp_input_contexts plan ! i"
  have "is_ok (signing_key cr ?ctx sk)" using assms(2,3) by (simp add: can_sign_def)
  then obtain sk' where "signing_key cr ?ctx sk = Inr sk'" by (cases "signing_key cr ?ctx sk") auto
  then show ?thesis using assms(1,2)
    by (auto simp: independently_sign_def dev_vault_signer_def contribution_def signing_key_def Let_def split: option.splits)
qed

lemma sign_each_honest:
  assumes "verify_payout_tx (build_unsigned_tx plan) plan = Inr ()" "\<forall>i\<in>set is. i < length (pp_input_contexts plan)" "can_sign cr plan sk"
  shows "sign_each cr (dev_vault_signer cr sk) (Inr plan) is = Inr (map (\<lambda>i. contribution cr plan i sk) is)"
  using assms(2) by (induction "is") (simp_all add: independently_sign_honest assms(1,3))

lemma sign_with_others_honest:
  assumes "verify_payout_tx (build_unsigned_tx plan) plan = Inr ()" "n \<le> length (pp_input_contexts plan)" "\<forall>sk\<in>set sks. can_sign cr plan sk"
  shows "sign_with_others cr (Inr plan) (map (dev_vault_signer cr) sks) (map (\<lambda>i. map (contribution cr plan i) done') [0..<n])
    = Inr (map (\<lambda>i. map (contribution cr plan i) (done' @ sks)) [0..<n])"
  using assms(3)
proof (induction sks arbitrary: done')
  case (Cons sk sks)
  have "sign_each cr (dev_vault_signer cr sk) (Inr plan) [0..<n] = Inr (map (\<lambda>i. contribution cr plan i sk) [0..<n])"
    using Cons.prems assms(1,2) by (intro sign_each_honest) auto
  moreover have "map2 (\<lambda>slot p. slot @ [p]) (map f xs) (map g xs) = map (\<lambda>x. f x @ [g x]) xs" for f :: "nat \<Rightarrow> PartialSignature list" and g xs
    by (induction xs) auto
  ultimately show ?case using Cons.IH[of "done' @ [sk]"] Cons.prems by simp
qed simp

lemma contributions_acceptable:
  assumes laws: "tweak_law (cr_secp cr)" "signature_law (cr_secp cr)"
    and root: "validate_signer_set (mv_signer_pubkeys root) (mv_threshold root) = Inr ()"
    and i: "i < length (pp_input_contexts plan)" "context_of cr root network (pp_input_contexts plan ! i)"
    and sks: "distinct (map (key_of cr) sks)" "key_of cr ` set sks \<subseteq> set (mv_signer_pubkeys root)" "\<forall>sk\<in>set sks. can_sign cr plan sk"
      "length sks = unat (mv_threshold root)"
  shows "acceptable (cr_secp cr) (pic_vault (pp_input_contexts plan ! i))
    (sighash_all (cr_sha256 cr) (build_unsigned_tx plan) i (redeem_script (pic_vault (pp_input_contexts plan ! i))))
    (map (contribution cr plan i) sks)"
proof -
  let ?ctx = "pp_input_contexts plan ! i"
  let ?vault = "pic_vault ?ctx" and ?key = "\<lambda>sk. ps_vault_pubkey (contribution cr plan i sk)"
  have placed: "\<exists>j sk'. signing_key cr ?ctx sk = Inr sk' \<and> signer_position ?vault (?key sk) = Some j
      \<and> mv_signer_pubkeys root ! j = key_of cr sk"
    if "sk \<in> set sks" for sk
  proof -
    have "is_ok (signing_key cr ?ctx sk)" using that sks(3) i(1) by (simp add: can_sign_def)
    then obtain sk' where sk': "signing_key cr ?ctx sk = Inr sk'" by (cases "signing_key cr ?ctx sk") auto
    have "key_of cr sk \<in> set (mv_signer_pubkeys root)" using that sks(2) by auto
    then obtain j where "j < length (mv_signer_pubkeys root)" "mv_signer_pubkeys root ! j = key_of cr sk" by (auto simp: in_set_conv_nth)
    with context_key_position[OF laws(1) root i(2) _ _ sk'] sk' show ?thesis by (auto simp: contribution_def)
  qed
  have "inj_on ?key (set sks)"
  proof (rule inj_onI)
    fix a b assume ab: "a \<in> set sks" "b \<in> set sks" "?key a = ?key b"
    then have "key_of cr a = key_of cr b" using placed[OF ab(1)] placed[OF ab(2)] by auto
    then show "a = b" using sks(1) ab(1,2) by (auto simp: distinct_map inj_on_def)
  qed
  then have "distinct (map ?key sks)" using sks(1) by (simp add: distinct_map)
  moreover have "?key sk \<in> set (mv_signer_pubkeys ?vault)" if "sk \<in> set sks" for sk
    using placed[OF that] position_eq_Some[of "?key sk" "mv_signer_pubkeys ?vault"] unfolding signer_position_def by (metis nth_mem)
  moreover have "verify_partial (cr_secp cr) (?key sk) h (ps_der_signature (contribution cr plan i sk))"
    if "h = sighash_all (cr_sha256 cr) (build_unsigned_tx plan) i (redeem_script ?vault)" for sk h
    using laws that by (simp add: contribution_def Let_def verify_partial_def sign_low_s_def tweak_law_def signature_law_def)
  ultimately show ?thesis using context_vault_ok(2)[OF root i(2)] sks(4) by (auto simp: acceptable_def comp_def)
qed

lemma push_all_short: "\<forall>d\<in>set ds. length d \<le> 0xffff \<Longrightarrow> \<exists>pushes. push_all ds = Inr pushes"
proof (induction ds)
  case (Cons d ds)
  then obtain pushes where "push_all ds = Inr pushes" by auto
  moreover have "\<exists>x. push_data d = Some x" using Cons.prems by (simp add: push_data_def Let_def)
  ultimately show ?case by auto
qed simp

lemma honest_assembles:
  assumes "signature_law secp" "validate_signer_set (mv_signer_pubkeys vault) t = Inr ()" "acceptable secp vault h ps"
  shows "\<exists>s. assemble secp vault h ps = Inr s"
proof -
  have "length (concat (map (\<lambda>pk. PUBKEY_PUSH_LEN # bytes_of_pubkey pk) pks)) = 34 * length pks" for pks
    by (induction pks) simp_all
  then have "length (redeem_script vault) \<le> 0xffff" using assms(2) by (simp add: validate_signer_set_Inr redeem_script_def build_redeem_script_def)
  moreover have "length (canonical_der secp p) \<le> 72" for p
    using assms(1) by (auto simp: canonical_der_def signature_law_def split: option.splits)
  then have "length (canonical_der secp p @ [SIGHASH_ALL_BYTE]) \<le> 0xffff" for p
    using le_trans[of "length (canonical_der secp p)" 72 "0xfffe"] by simp
  ultimately have "\<exists>pushes. push_all (map (\<lambda>p. canonical_der secp p @ [SIGHASH_ALL_BYTE]) (in_script_order vault ps) @ [redeem_script vault]) = Inr pushes"
    by (intro push_all_short) auto
  moreover have "distinct (mv_signer_pubkeys vault)" using assms(2) by (simp add: validate_signer_set_Inr)
  ultimately show ?thesis using assemble_Inr assms(3) by blast
qed

lemma assemble_inputs_complete:
  assumes "\<And>i ps. (i, ps) \<in> set slots \<Longrightarrow> i < length (pp_input_contexts plan) \<and> i < length (tx_inputs tx)
    \<and> (\<exists>s. assemble (cr_secp cr) (pic_vault (pp_input_contexts plan ! i))
        (sighash_all (cr_sha256 cr) tx i (redeem_script (pic_vault (pp_input_contexts plan ! i)))) ps = Inr s)"
  shows "\<exists>tx'. assemble_inputs cr plan slots tx = Inr tx'"
  using assms
proof (induction slots arbitrary: tx)
  case (Cons slot slots)
  obtain i ps where slot: "slot = (i, ps)" by fastforce
  obtain s where s: "i < length (pp_input_contexts plan)" "i < length (tx_inputs tx)"
    "assemble (cr_secp cr) (pic_vault (pp_input_contexts plan ! i))
        (sighash_all (cr_sha256 cr) tx i (redeem_script (pic_vault (pp_input_contexts plan ! i)))) ps = Inr s"
    using Cons.prems[of i ps] by (auto simp: slot)
  have unsig: "unsigned_part (set_script_sig i s tx) = unsigned_part tx" by simp
  have "\<exists>tx'. assemble_inputs cr plan slots (set_script_sig i s tx) = Inr tx'"
    using Cons.prems sighash_all_unsigned[OF unsig] length_unsigned_part[OF unsig] by (intro Cons.IH) auto
  then show ?case using s by (simp add: slot Let_def)
qed simp

lemma honest_signers_sign:
  assumes "tweak_law (cr_secp cr)" "signature_law (cr_secp cr)" "validate_signer_set (mv_signer_pubkeys root) (mv_threshold root) = Inr ()"
    and source: "rederived = rederive_plan cr k root policy network l \<or> rederived = recover_plan cr k root network l"
    and plan: "rederived = Inr plan" "verify_payout_tx (build_unsigned_tx plan) plan = Inr ()" "pp_inputs plan \<noteq> []"
    and sks: "distinct (map (key_of cr) (take (unat (mv_threshold root)) sks))" "unat (mv_threshold root) \<le> length sks"
      "key_of cr ` set (take (unat (mv_threshold root)) sks) \<subseteq> set (mv_signer_pubkeys root)"
    and derive: "\<forall>sk\<in>set sks. can_sign cr plan sk"
  shows "\<exists>partials signed. independently_sign_all_inputs cr (map (dev_vault_signer cr) sks) rederived (unat (mv_threshold root))
        = Inr (plan, build_unsigned_tx plan, partials)
      \<and> assemble_inputs cr plan (enumerate 0 partials) (build_unsigned_tx plan) = Inr signed \<and> signed_for cr plan signed"
proof -
  let ?t = "unat (mv_threshold root)" and ?n = "length (pp_inputs plan)"
  let ?quorum = "take (?t) sks"
  let ?slots = "map (\<lambda>i. map (contribution cr plan i) ?quorum) [0..<?n]"
  have "input_contexts cr root network l (pp_inputs plan) = Inr (pp_input_contexts plan)"
    using source plan(1) recover_plan_contexts[of cr k root network l plan] rederive_plan_Inr[of cr k root policy network l plan] by auto
  then have ctxs: "length (pp_input_contexts plan) = ?n" "\<forall>ctx\<in>set (pp_input_contexts plan). context_of cr root network ctx"
    by (auto dest: length_input_contexts input_contexts_of)
  have t: "2 \<le> ?t" using assms(3) by (simp add: validate_signer_set_Inr word_le_nat_alt)
  then obtain sk rest where sk: "sks = sk # rest" using sks(2) by (cases sks) auto
  have quorum: "?quorum = sk # take (?t - 1) rest" using t by (cases "?t") (simp_all add: sk)
  have n: "[0..<?n] = 0 # [1..<?n]" using plan(3) by (simp add: upt_conv_Cons)
  have "sign_with_others cr (Inr plan) (map (dev_vault_signer cr) (take (?t - 1) rest))
      (map (\<lambda>i. map (contribution cr plan i) [sk]) [0..<?n]) = Inr (map (\<lambda>i. map (contribution cr plan i) ([sk] @ take (?t - 1) rest)) [0..<?n])"
    by (rule sign_with_others_honest[OF plan(2)]) (use derive sk ctxs(1) in \<open>auto dest: in_set_takeD\<close>)
  then have "sign_with_others cr (Inr plan) (take (?t - 1) (map (dev_vault_signer cr) rest))
      (map (\<lambda>p. [p]) (contribution cr plan 0 sk # map (\<lambda>i. contribution cr plan i sk) [1..<?n])) = Inr ?slots"
    by (simp add: n quorum take_map comp_def)
  moreover have "sign_each cr (dev_vault_signer cr sk) (Inr plan) [1..<?n] = Inr (map (\<lambda>i. contribution cr plan i sk) [1..<?n])"
    by (rule sign_each_honest[OF plan(2)]) (use derive sk ctxs(1) in auto)
  moreover have "independently_sign cr (dev_vault_signer cr sk) (Inr plan) 0 = Inr (contribution cr plan 0 sk, plan, build_unsigned_tx plan)"
    by (rule independently_sign_honest[OF plan(2)]) (use derive sk ctxs(1) plan(3) in auto)
  ultimately have "independently_sign_all_inputs cr (map (dev_vault_signer cr) sks) rederived (?t) = Inr (plan, build_unsigned_tx plan, ?slots)"
    using plan(1) sks(2) t by (simp add: independently_sign_all_inputs_def sk)
  moreover have "\<exists>signed. assemble_inputs cr plan (enumerate 0 ?slots) (build_unsigned_tx plan) = Inr signed"
  proof (rule assemble_inputs_complete)
    fix i ps assume "(i, ps) \<in> set (enumerate 0 ?slots)"
    then have i: "i < ?n" "ps = map (contribution cr plan i) ?quorum" by (auto simp: in_set_enumerate_eq)
    then have ctx: "i < length (pp_input_contexts plan)" "context_of cr root network (pp_input_contexts plan ! i)" using ctxs by simp_all
    have "length ?quorum = ?t" using sks(2) by simp
    from contributions_acceptable[OF assms(1-3) ctx sks(1,3) _ this] derive
      honest_assembles[OF assms(2) context_vault_ok(1)[OF assms(3) ctx(2)]] i ctx
    show "i < length (pp_input_contexts plan) \<and> i < length (tx_inputs (build_unsigned_tx plan))
      \<and> (\<exists>s. assemble (cr_secp cr) (pic_vault (pp_input_contexts plan ! i)) (sighash_all (cr_sha256 cr) (build_unsigned_tx plan) i
          (redeem_script (pic_vault (pp_input_contexts plan ! i)))) ps = Inr s)"
      by (auto simp: build_unsigned_tx_def dest: in_set_takeD)
  qed
  ultimately show ?thesis using assembled_signed_for[of cr plan ?slots] by (auto simp del: enumerate_map_upt)
qed


section \<open>A sample payout\<close>

lemma sample_signer_laws:
  "tweak_law (cr_secp sample_crypto)" "signature_law (cr_secp sample_crypto)"
  "validate_signer_set (mv_signer_pubkeys sample_vault) (mv_threshold sample_vault) = Inr ()"
proof -
  show "tweak_law (cr_secp sample_crypto)" by (simp add: tweak_law_def sample_crypto_def sample_curve_def)
  show "signature_law (cr_secp sample_crypto)" by (simp add: signature_law_def sample_crypto_def sample_curve_def)
  have "mv_signer_pubkeys sample_vault = map (\<lambda>k. k + 0) sample_vault_keys" by (simp add: sample_vault_def)
  then show "validate_signer_set (mv_signer_pubkeys sample_vault) (mv_threshold sample_vault) = Inr ()"
    using sample_keys_valid[of 0] by simp
qed

lemma sample_quorum:
  "distinct (map (key_of sample_crypto) (take (unat (mv_threshold sample_vault)) sample_vault_keys))"
  "unat (mv_threshold sample_vault) \<le> length sample_vault_keys"
  "key_of sample_crypto ` set (take (unat (mv_threshold sample_vault)) sample_vault_keys) \<subseteq> set (mv_signer_pubkeys sample_vault)"
  "\<forall>sk\<in>set sample_vault_keys. can_sign sample_crypto sample_made sk"
  by (simp_all add: sample_crypto_def sample_curve_def sample_vault_keys_def sample_vault_def can_sign_def signing_key_def sample_made_def)

abbreviation sample_signers :: "VaultSigner list" where
  "sample_signers \<equiv> map (dev_vault_signer sample_crypto) sample_vault_keys"


lemma sample_signs:
  assumes "rederived = rederive_plan sample_crypto k sample_vault policy network l \<or> rederived = recover_plan sample_crypto k sample_vault network l"
    and "rederived = Inr sample_made"
  shows "\<exists>partials signed. independently_sign_all_inputs sample_crypto sample_signers rederived 2 = Inr (sample_made, build_unsigned_tx sample_made, partials)
    \<and> assemble_inputs sample_crypto sample_made (enumerate 0 partials) (build_unsigned_tx sample_made) = Inr signed"
  using honest_signers_sign[OF sample_signer_laws assms sample_made_verifies _ sample_quorum] by (auto simp: sample_made_def)

text \<open>The node does not answer.\<close>

theorem recovery_resends_recorded_transaction_witness:
  "\<exists>l' hex. recover_stuck_goldcoin_payout sample_crypto sample_signers sample_vault 2 Mainnet (\<lambda>_. None) 1 9 sample_recoverable
      = (Inl FlowRpc, l', Some hex)
    \<and> sent_as_recorded sample_crypto 1 sample_made (Inl FlowRpc :: (FlowError, RecoveryOutcome) result) l' hex"
proof -
  have row: "get_goldcoin_payout sample_recoverable 1 = Some sample_payout_row"
    "gp_unsigned_tx_hex sample_payout_row = Some (hex_encode (serialize (build_unsigned_tx sample_made)))" "gp_state sample_payout_row = PayoutSigned"
    by (simp_all add: get_goldcoin_payout_def sample_recoverable_def sample_payout_row_def find_by_def)
  obtain partials signed where signs: "independently_sign_all_inputs sample_crypto sample_signers
      (recover_plan sample_crypto 1 sample_vault Mainnet sample_recoverable) 2 = Inr (sample_made, build_unsigned_tx sample_made, partials)"
    "assemble_inputs sample_crypto sample_made (enumerate 0 partials) (build_unsigned_tx sample_made) = Inr signed"
    using sample_signs[OF disjI2[OF refl] sample_recovers] by blast
  obtain l' hex where run: "recover_stuck_goldcoin_payout sample_crypto sample_signers sample_vault 2 Mainnet (\<lambda>_. None) 1 9 sample_recoverable
      = (Inl FlowRpc, l', Some hex)"
    by (simp add: recover_stuck_goldcoin_payout_def row signs Let_def record_goldcoin_payout_resigned_def broadcast_signed_def)
  have "length (serialize (build_unsigned_tx sample_made)) < 2 ^ 64"
    by (simp add: serialize_def build_unsigned_tx_def sample_made_def serialize_input_def serialize_output_def unsigned_input_def
        write_script_def write_varint_def script_pubkey_def p2pkh_script_def p2sh_script_def)
  from recovery_resends_recorded_transaction[OF run row(1,2) this] sample_recovers run show ?thesis by auto
qed

lemma sample_due_tables:
  "vault_utxos sample_due = [observed_row 6 1 (sample_funding, 7, script_pubkey_hex sample_vault)]" "vault_utxo_splits sample_due = []"
  "goldcoin_payouts sample_due = []" "solana_refunds sample_due = []" "payout_inputs sample_due = []"
  "requests sample_due = requests sample_first_deposit"
proof -
  have "vault_utxos sample_first_deposit = []" "vault_utxo_splits sample_first_deposit = []" "goldcoin_payouts sample_first_deposit = []"
    "solana_refunds sample_first_deposit = []" "payout_inputs sample_first_deposit = []" by code_simp+
  then show "vault_utxos sample_due = [observed_row 6 1 (sample_funding, 7, script_pubkey_hex sample_vault)]" "vault_utxo_splits sample_due = []"
    "goldcoin_payouts sample_due = []" "solana_refunds sample_due = []" "payout_inputs sample_due = []"
    "requests sample_due = requests sample_first_deposit"
    by (simp_all add: sample_due_def sync_vault_utxos_def upsert_by_def mark_absent_def observed_row_def vault_utxo_at_def)
qed

lemma sample_plan_made: "rederive_plan sample_crypto 1 sample_vault sample_payout_policy Mainnet sample_due = Inr sample_made"
proof -
  obtain fb where fb: "verify_breakdown sample_request = Inr fb" "fb_net fb = 200" using sample_breakdown by blast
  have "eq_ignore_ascii_case (utxo_script_pubkey_hex sample_funding) (script_pubkey_hex sample_vault)"
    by (simp add: sample_funding_def eq_ignore_ascii_case_def)
  moreover have "fanout (Suc 0) 299 100 10 700 (Suc (Suc 0)) = ([329, 329], 42)"
  proof -
    have "fee_for (Suc 0) (1 + Suc (Suc 0)) 100 299 = 42"
      by (simp add: fee_for_def div_ceil_def TX_OVERHEAD_BYTES_def P2PKH_OUTPUT_BYTES_def)
    moreover have "distribute_evenly 658 2 = [329, 329]" by (simp add: distribute_evenly_def upt_conv_Cons)
    ultimately show ?thesis by (simp add: checked_sub_def Let_def del: One_nat_def)
  qed
  then have "finalize_fanout \<lparr>sel_selected = [sample_funding], sel_total_selected = 900, sel_fee_atomic = 38\<rparr> 200 (Suc 0) 299 100 10 200 2
      = ([329, 329], 42)"
    by (simp add: finalize_fanout_def saturating_sub_def div_ceil_def Let_def flip: numeral_2_eq_2 del: fanout.simps)
  moreover have "pol_fee_rate_per_kb sample_payout_policy = 100" "pol_dust_threshold sample_payout_policy = 10"
    "pol_change_fanout_target_atomic sample_payout_policy = 200" "pol_change_fanout_max_outputs sample_payout_policy = 2"
    by (simp_all add: sample_payout_policy_def)
  ultimately show ?thesis
    by (simp add: rederive_plan_def sample_request_due sample_address_pays sample_crypto_def sample_choice fb Let_def sample_input_bytes
        sample_made_def)
qed

lemma sample_settles: "is_ok (update_request sample_first_deposit 1 (\<lambda>row. row\<lparr>br_state := SettlementAuthorized\<rparr>))"
  by code_simp

theorem payout_sends_what_it_recorded_witness:
  "\<exists>l' hex. build_and_broadcast_payout sample_crypto sample_signers sample_vault 2 sample_payout_policy Mainnet (\<lambda>_. None) 1 9 sample_due
      = (Inl FlowRpc, l', Some hex)
    \<and> sent_as_recorded sample_crypto 1 sample_made (Inl FlowRpc :: (FlowError, unit) result) l' hex \<and> reserved_for 1 sample_funding l'"
proof -
  obtain partials signed where signs: "independently_sign_all_inputs sample_crypto sample_signers
      (rederive_plan sample_crypto 1 sample_vault sample_payout_policy Mainnet sample_due) 2 = Inr (sample_made, build_unsigned_tx sample_made, partials)"
    "assemble_inputs sample_crypto sample_made (enumerate 0 partials) (build_unsigned_tx sample_made) = Inr signed"
    using sample_signs[OF disjI1[OF refl] sample_plan_made] by blast
  have "vault_utxo_at 5 0 (observed_row 6 1 (sample_funding, 7, script_pubkey_hex sample_vault))"
    by (simp add: vault_utxo_at_def observed_row_def sample_funding_def sample_coin_def)
  then have "\<exists>l1. reserve_vault_utxos 1 [sample_funding] (effective_zero_conf_depth sample_payout_policy) 9 sample_due = Inr l1
      \<and> solana_refunds l1 = [] \<and> payout_inputs l1 = []"
    by (simp add: reserve_vault_utxos_def sample_due_tables reservable_def live_split_claim_def sample_request_due sample_funding_def sample_coin_def
        observed_row_def)
  then obtain l1 where l1: "reserve_vault_utxos 1 [sample_funding] (effective_zero_conf_depth sample_payout_policy) 9 sample_due = Inr l1"
    "solana_refunds l1 = []" "payout_inputs l1 = []" by blast
  have ok: "vault_ok sample_due" by (simp add: vault_ok_def sample_due_tables coin_ok_def observed_row_def)
  note tables = reserve_vault_utxos_Inr(1,2)[OF l1(1)] 
  have "requests l1 = requests sample_first_deposit" "goldcoin_payouts l1 = []"
    using tables ok by (simp_all add: vault_ok_def sample_due_tables)
  moreover from this obtain l2 where l2: "record_goldcoin_payout_built 1 sample_made 0 (hex_encode (serialize (build_unsigned_tx sample_made))) 9 l1 = Inr l2"
    by (simp add: record_goldcoin_payout_built_def get_goldcoin_payout_def get_solana_refund_def l1 sample_made_def input_rows_def)
  ultimately have "requests l2 = requests sample_first_deposit" using payout_built_Inr[OF l2] by simp
  moreover obtain p where p: "get_goldcoin_payout l2 1 = Some p" "gp_state p = PayoutBuilt" using payout_built_Inr[OF l2] by blast
  moreover have "get_request sample_first_deposit 1 = Some sample_request" using sample_request_due(1) by (simp add: sample_due_request)
  ultimately obtain l3 where l3: "record_goldcoin_payout_signed 1 (hex_encode (serialize signed)) 9 l2 = Inr l3"
    using sample_settles sample_request_due(3)
    by (auto simp: record_goldcoin_payout_signed_def get_request_def update_request_def write_requests_def require_def split: if_splits)
  have "build_and_broadcast_payout sample_crypto sample_signers sample_vault 2 sample_payout_policy Mainnet (\<lambda>_. None) 1 9 sample_due
      = (Inl FlowRpc, l3, Some (hex_encode (serialize signed)))"
  proof -
    have "pp_inputs sample_made = [sample_funding]" "cr_sha256 sample_crypto x = 0" for x
      by (simp_all add: sample_made_def sample_crypto_def)
    then show ?thesis using signs l1(1) l2 l3 by (simp add: build_and_broadcast_payout_def broadcast_signed_def Let_def)
  qed
  from payout_sends_what_it_recorded[OF this ok] this sample_plan_made show ?thesis by (auto simp: sample_made_def)
qed

end
