(* ===== verification/Split_Signing.thy ===== *)
theory Split_Signing
  imports Payout_Flow_Properties
begin

text \<open>
  The signing of a split (\<open>signing/goldcoin_split.rs\<close>): every signer rebuilds the plan from the recorded row, checks that it
  serializes to the recorded transaction and that the fee leaves the reserve above its floor, and signs the one
  input with its root key.
\<close>

section \<open>Signing a split\<close>

datatype SplitSigningError =
    SplitLedger LedgerError
  | SplitPlanning SplitError
  | SplitPlanVerificationFailed SplitVerifyError
  | SplitSigner SignerError
  | SourceNotFound bytes32 u32
  | SourceNotAvailable bytes32 u32 UtxoState
  | SourceNotRootVault bytes32 u32
  | SafetyCheckFailed u64 u64
  | PlanDisagreement
  | SplitNotRecoverable bytes32 u32 SplitState
  | SplitReconstructedTxMismatch bytes32 u32
  | SplitNotFound bytes32 u32
  | SplitPanic

definition reserve_snapshot :: "ReserveDirection \<Rightarrow> Ledger \<Rightarrow> (LedgerError, u64 \<times> u64 \<times> u64 \<times> u64) result" where
  "reserve_snapshot direction l =
     (case reserves l direction of
        None \<Rightarrow> Inl (ReserveNotInitialized direction)
      | Some r \<Rightarrow> Inr (as_u64 (rv_total_reserve_balance r), as_u64 (rv_protected_minimum r), as_u64 (rv_reserved_liquidity r),
          as_u64 (rv_pending_obligations r)))"

definition rederive_split_plan ::
  "bytes32 \<Rightarrow> u32 \<Rightarrow> MultisigVault \<Rightarrow> u64 \<Rightarrow> Ledger \<Rightarrow> (SplitSigningError, SplitPlan) result" where
  "rederive_split_plan source_txid source_vout vault chunk_target_atomic l =
     try_bind (ok_or (get_vault_utxo_split source_txid source_vout l) (SplitNotFound source_txid source_vout)) (\<lambda>snapshot.
     require (vs_state snapshot = SplitBuilt) (SplitNotRecoverable source_txid source_vout (vs_state snapshot)) (
     require (as_u64 (vs_chunk_target_atomic snapshot) = chunk_target_atomic) (SplitReconstructedTxMismatch source_txid source_vout) (
     try_bind (ok_or (get_vault_utxo source_txid source_vout l) (SourceNotFound source_txid source_vout)) (\<lambda>row.
     require (vu_state row = UtxoAvailable) (SourceNotAvailable source_txid source_vout (vu_state row)) (
     require (as_u64 (vu_amount_atomic row) = as_u64 (vs_source_amount_atomic snapshot)) (SplitReconstructedTxMismatch source_txid source_vout) (
     require (eq_ignore_ascii_case (vu_script_pubkey_hex row) (script_pubkey_hex vault)) (SourceNotRootVault source_txid source_vout) (
     let source = \<lparr>utxo_txid = source_txid, utxo_vout = source_vout, utxo_amount_atomic = as_u64 (vu_amount_atomic row),
           utxo_script_pubkey_hex = vu_script_pubkey_hex row\<rparr> in
     try_bind (map_err SplitPlanning (reconstruct_plan source vault (as_u64 (vs_chunk_count snapshot)) (as_u64 (vs_fee_atomic snapshot)))) (\<lambda>plan.
     let reconstructed_hex = hex_encode (serialize (build_unsigned_split_tx plan)) in
     require (eq_ignore_ascii_case reconstructed_hex (vs_unsigned_tx_hex snapshot)) (SplitReconstructedTxMismatch source_txid source_vout) (
     try_bind (map_err SplitLedger (reserve_snapshot GoldcoinReserve l)) (\<lambda>(balance, protected_minimum, _, pending_obligations).
     let reserve_after_fee = saturating_sub balance (sp_fee_atomic plan);
         required_floor = protected_minimum + pending_obligations in
     require (\<not> reserve_after_fee < required_floor) (SafetyCheckFailed reserve_after_fee required_floor) (
     Inr plan)))))))))))"

definition independently_sign_split ::
  "('sk, 'pk, 'sg) Crypto \<Rightarrow> VaultSigner \<Rightarrow> MultisigVault \<Rightarrow> (SplitSigningError, SplitPlan) result
    \<Rightarrow> (SplitSigningError, PartialSignature \<times> SplitPlan \<times> Transaction) result" where
  "independently_sign_split cr signer vault rederived =
     try_bind rederived (\<lambda>plan.
     let unsigned_tx = build_unsigned_split_tx plan in
     try_bind (map_err SplitPlanVerificationFailed (verify_split_tx unsigned_tx plan)) (\<lambda>_.
     let sighash = sighash_all (cr_sha256 cr) unsigned_tx 0 (redeem_script vault) in
     try_bind (map_err SplitSigner (signer_sign_sighash signer sighash)) (\<lambda>der.
     Inr (\<lparr>ps_vault_pubkey = signer_public_key signer, ps_der_signature = der\<rparr>, plan, unsigned_tx))))"

text \<open>The answers in the order of the signers; each signer rebuilt its own plan.\<close>

primrec agree ::
  "(SplitSigningError, PartialSignature \<times> SplitPlan \<times> Transaction) result list \<Rightarrow> (SplitPlan \<times> Transaction) option \<Rightarrow> PartialSignature list
    \<Rightarrow> (SplitSigningError, SplitPlan \<times> Transaction \<times> PartialSignature list) result" where
  "agree [] agreed partials = (case agreed of None \<Rightarrow> Inl SplitPanic | Some (plan, tx) \<Rightarrow> Inr (plan, tx, partials))"
| "agree (result # results) agreed partials =
     try_bind result (\<lambda>(partial, plan, tx).
     case agreed of
       None \<Rightarrow> agree results (Some (plan, tx)) (partials @ [partial])
     | Some (first_plan, first_tx) \<Rightarrow>
         require (\<not> first_plan \<noteq> plan) PlanDisagreement (agree results (Some (first_plan, first_tx)) (partials @ [partial])))"

definition independently_sign_split_all_signers ::
  "('sk, 'pk, 'sg) Crypto \<Rightarrow> VaultSigner list \<Rightarrow> MultisigVault \<Rightarrow> (VaultSigner \<Rightarrow> (SplitSigningError, SplitPlan) result) \<Rightarrow> nat
    \<Rightarrow> (SplitSigningError, SplitPlan \<times> Transaction \<times> PartialSignature list) result" where
  "independently_sign_split_all_signers cr vault_signers vault rederived threshold =
     require (threshold \<le> length vault_signers) SplitPanic (
     agree (map (\<lambda>signer. independently_sign_split cr signer vault (rederived signer)) (take threshold vault_signers)) None [])"

section \<open>What is signed\<close>

lemma ascii_lower_hex: "map ascii_lower (hex_encode bs) = hex_encode bs"
proof -
  have "list_all (\<lambda>n. ascii_lower (hex_digit n) = hex_digit n) [0..<16]" by code_simp
  then have digit: "n < 16 \<Longrightarrow> ascii_lower (hex_digit n) = hex_digit n" for n by (simp add: list_all_iff)
  have "unat b div 16 < 16" "unat b mod 16 < 16" for b :: u8 using unat_lt2p[of b] by (simp_all add: less_mult_imp_div_less)
  then show ?thesis by (induction bs) (simp_all add: hex_encode_def digit)
qed

lemma eq_ignore_case_hex: "eq_ignore_ascii_case (hex_encode a) (hex_encode b) \<longleftrightarrow> a = b"
  by (auto simp: eq_ignore_ascii_case_def ascii_lower_hex dest: arg_cong[where f = decode_vec])

lemma rederive_split_plan_Inr:
  assumes "rederive_split_plan txid vout vault target l = Inr plan"
  shows "\<exists>s row balance floor pending reserved. get_vault_utxo_split txid vout l = Some s \<and> vs_state s = SplitBuilt
    \<and> get_vault_utxo txid vout l = Some row \<and> vu_state row = UtxoAvailable \<and> eq_ignore_ascii_case (vu_script_pubkey_hex row) (script_pubkey_hex vault)
    \<and> utxo_txid (sp_source plan) = txid \<and> utxo_vout (sp_source plan) = vout \<and> utxo_amount_atomic (sp_source plan) = as_u64 (vu_amount_atomic row)
    \<and> sp_vault_script_pubkey plan = script_pubkey vault
    \<and> eq_ignore_ascii_case (hex_encode (serialize (build_unsigned_split_tx plan))) (vs_unsigned_tx_hex s)
    \<and> reserve_snapshot GoldcoinReserve l = Inr (balance, floor, reserved, pending)
    \<and> \<not> saturating_sub balance (sp_fee_atomic plan) < floor + pending"
  using assms by (auto simp: rederive_split_plan_def reconstruct_plan_def Let_def split: prod.splits)

lemma agree_Inr:
  "agree results agreed partials = Inr (plan, tx, ps) \<Longrightarrow>
     (\<forall>r\<in>set results. \<exists>p t. r = Inr (p, plan, t)) \<and> (case agreed of None \<Rightarrow> \<exists>p. Inr (p, plan, tx) \<in> set results | Some a \<Rightarrow> a = (plan, tx))
     \<and> length ps = length partials + length results"
proof (induction results arbitrary: agreed partials)
  case Nil
  then show ?case by (auto split: option.splits)
next
  case (Cons r results)
  then obtain p plan' t where r: "r = Inr (p, plan', t)" by (cases r) auto
  show ?case
  proof (cases agreed)
    case None
    then have "agree results (Some (plan', t)) (partials @ [p]) = Inr (plan, tx, ps)" using Cons.prems by (simp add: r)
    from Cons.IH[OF this] None show ?thesis by (auto simp: r)
  next
    case (Some a)
    obtain plan1 tx1 where a: "a = (plan1, tx1)" by fastforce
    then have "plan1 = plan'" "agree results (Some (plan1, tx1)) (partials @ [p]) = Inr (plan, tx, ps)"
      using Cons.prems by (auto simp: r Some)
    with Cons.IH[OF this(2)] show ?thesis by (auto simp: r Some a)
  qed
qed

lemma independently_sign_split_Inr:
  "independently_sign_split cr signer vault rederived = Inr (p, plan, tx) \<Longrightarrow>
     rederived = Inr plan \<and> tx = build_unsigned_split_tx plan \<and> verify_split_tx tx plan = Inr ()"
  by (auto simp: independently_sign_split_def Let_def)

text \<open>
  A split that is signed again is the split that was recorded: every signer asked has rebuilt the same plan, its
  transaction is the recorded one and passes the split check, it spends a coin that is still available in the
  root vault into the root vault, and the reserve without the fee covers its protected minimum and its obligations.
\<close>

theorem signed_split_is_recorded:
  assumes "independently_sign_split_all_signers cr signers vault (\<lambda>signer. rederive_split_plan txid vout vault target (view signer)) threshold
      = Inr (plan, tx, partials)"
    and "signer \<in> set (take threshold signers)"
    and "get_vault_utxo_split txid vout (view signer) = Some s" "vs_unsigned_tx_hex s = hex_encode (serialize recorded)"
    and "length (serialize recorded) < 2 ^ 64"
  shows "build_unsigned_split_tx plan = recorded \<and> tx = recorded \<and> verify_split_tx recorded plan = Inr () \<and> length partials = threshold
    \<and> (\<exists>row balance floor pending reserved. get_vault_utxo txid vout (view signer) = Some row \<and> vu_state row = UtxoAvailable
        \<and> eq_ignore_ascii_case (vu_script_pubkey_hex row) (script_pubkey_hex vault)
        \<and> reserve_snapshot GoldcoinReserve (view signer) = Inr (balance, floor, reserved, pending)
        \<and> \<not> saturating_sub balance (sp_fee_atomic plan) < floor + pending)"
proof -
  let ?sign = "\<lambda>signer. independently_sign_split cr signer vault (rederive_split_plan txid vout vault target (view signer))"
  have run: "agree (map ?sign (take threshold signers)) None [] = Inr (plan, tx, partials)" and n: "threshold \<le> length signers"
    using assms(1) by (simp_all add: independently_sign_split_all_signers_def)
  from agree_Inr[OF run] assms(2) obtain p t where t: "?sign signer = Inr (p, plan, t)" by force
  have "\<exists>q. Inr (q, plan, tx) \<in> ?sign ` set (take threshold signers)" using agree_Inr[OF run] by simp
  then obtain q other where "Inr (q, plan, tx) = ?sign other" by (elim exE imageE) blast
  note this[symmetric]
  from independently_sign_split_Inr[OF this] have tx: "tx = build_unsigned_split_tx plan" "verify_split_tx tx plan = Inr ()" by blast+
  have "rederive_split_plan txid vout vault target (view signer) = Inr plan" using independently_sign_split_Inr[OF t] by blast
  from rederive_split_plan_Inr[OF this] assms(3,4) obtain row balance floor pending reserved where
    d: "get_vault_utxo txid vout (view signer) = Some row" "vu_state row = UtxoAvailable"
      "eq_ignore_ascii_case (vu_script_pubkey_hex row) (script_pubkey_hex vault)"
      "reserve_snapshot GoldcoinReserve (view signer) = Inr (balance, floor, reserved, pending)"
      "\<not> saturating_sub balance (sp_fee_atomic plan) < floor + pending"
    and hex: "serialize (build_unsigned_split_tx plan) = serialize recorded"
    by (auto simp: eq_ignore_case_hex)
  then have built: "build_unsigned_split_tx plan = recorded"
    using tx.enc_split[of "build_unsigned_split_tx plan" "[]" recorded "[]"] short_text_sized assms(5) by simp
  moreover have "length partials = threshold" using agree_Inr[OF run] n by simp
  ultimately show ?thesis using tx d by blast
qed

end
