(* ===== verification/Spec2Isabelle.thy ===== *)
theory Spec2Isabelle
  imports Operator_Properties Live_Rate Split_Signing
begin

text \<open>
  A verification of the Goldcoin reserve bridge.

  The bridge moves GLC between the Goldcoin chain, Solana and an EVM chain without minting: on
  every chain a reserve takes deposits in and pays transfers out. The repository has an
  on-chain Solana program (\<open>programs/glc-reserve-bridge\<close>), a crate of message formats shared by
  the program and the off-chain service (\<open>shared\<close>), and the service (\<open>service\<close>), which watches
  the chains, prices deposits, collects attestation signatures and submits settlements.

  \<^bold>\<open>The on-chain program.\<close> Off-chain parties hold attestation keys. A Goldcoin deposit is paid
  out on Solana by \<open>release_from_reserve\<close>, which checks a threshold of ed25519 signatures over a
  claim message and creates a claim account that makes the Goldcoin outpoint unusable a second
  time. A Solana deposit (\<open>deposit_to_reserve\<close>) records an obligation, which is closed by
  \<open>record_goldcoin_completion\<close> or returned by \<open>refund_withdraw\<close>. Keys, treasury allowlist and
  the program image change only through timelocked proposals.

    \<^item> \<open>Prelude\<close>: machine integers with their checked operations, results with \<open>require\<close> and
      \<open>try_bind\<close> for \<open>require!\<close> and \<open>?\<close>, little-endian layouts, slices.
    \<^item> \<open>Claim_Messages\<close>: \<open>shared/src/claim.rs\<close> and \<open>shared/src/governance.rs\<close>, byte for byte; the
      messages form a prefix-free code.
    \<^item> \<open>Program_State\<close>: \<open>state.rs\<close>, \<open>constants.rs\<close>, \<open>errors.rs\<close>, \<open>events.rs\<close>.
    \<^item> \<open>Limits\<close>, \<open>Validation\<close>, \<open>Token_Extensions\<close>, \<open>Verification\<close>: the modules of the same name,
      and the service function that builds an attestation proof (\<open>solana/ed25519.rs\<close>).
    \<^item> \<open>Program_Runtime\<close>: the store of accounts and the record \<open>Runtime\<close> of everything that is
      not code of the repository (hash, address derivation, token program, extension parser,
      loader), with the laws \<open>address_law\<close>, \<open>precompile_law\<close>, \<open>token_program_law\<close> and
      \<open>create_account_law\<close> that theorems name when they use them; \<open>sample_runtime\<close> satisfies them.
    \<^item> \<open>Reserve_Outflow\<close> and \<open>Timelock\<close>: locales for what the three outgoing transfers and the
      three timelocked proposals share, interpreted on the handlers of \<open>Settlement\<close>,
      \<open>Withdrawals\<close>, \<open>Governance\<close> and \<open>Upgrade\<close>; \<open>Admin\<close> has the administrator's handlers.
      A handler is one definition over the account struct it is given: account constraints,
      body, events, in the order of the code, with the code's error on every branch.
    \<^item> \<open>Program\<close>: the dispatch of \<open>lib.rs\<close>, and executions: accepted instructions interleaved with
      what others may do to token accounts, from a store where the program has no account.
      The executions are those of this version of the program: after an upgrade the image is
      another one and the execution ends.
    \<^item> \<open>Program_Invariants\<close>, \<open>Program_Safety\<close>, \<open>Program_Governance\<close>: invariants and event counts
      by induction over executions; \<open>Sample_Execution\<close>: a concrete execution for the witnesses.
    \<^item> \<open>Bridge_Properties\<close>, \<open>Governance_Properties\<close>, \<open>Operator_Properties\<close>: the properties that span
      the program: no outpoint is released twice, no obligation is settled twice, the reserve
      accounts for every deposit, outflows keep the protected minimum, who can authorize what,
      and after which delay.

  \<^bold>\<open>The service.\<close>

    \<^item> \<open>Amount_Conversion\<close>: \<open>amount_conversion.rs\<close> and \<open>amount_conversion/robinhood.rs\<close>; conversions
      are exact or refused, fees floor, and the inverse of the fee is the exact boundary.
    \<^item> \<open>Rate_Math\<close>: \<open>bridge_rate/bigmath.rs\<close>; the limb product and the bitwise division are the
      arithmetic of natural numbers.
    \<^item> \<open>Bridge_Rate\<close>: the quotes of \<open>bridge_rate.rs\<close>, the check of stored figures, and the maximum
      deposit by bisection (locale \<open>downward_test\<close>, interpreted on the quote itself).
    \<^item> \<open>Price_History\<close> and \<open>Live_Rate\<close>: \<open>bridge_rate/smoothing.rs\<close>, \<open>bridge_rate/live.rs\<close> and the
      rate book of \<open>bridge_rate.rs\<close>; the average price is compared with the mean of the price in
      force over every second, and a deposit is payable only inside the band.
    \<^item> \<open>Routes\<close>: \<open>routes.rs\<close>, \<open>chains\<close>, \<open>fees.rs\<close>; the routing table, the gate and the fee table.

  \<^bold>\<open>The ledger of the service.\<close> Every transfer is a row of an SQLite database (\<open>ledger/mod.rs\<close>), and
  every operation one transaction on it. A \<open>Ledger\<close> is the record of the tables; an operation takes
  it and returns the error of the code, with the database untouched, or the outcome and the tables
  after the commit. The constraints and unique indexes of \<open>ledger/schema.rs\<close> are the checks of
  \<open>write_requests\<close>: a statement that breaks one is an error, as in SQLite.

    \<^item> \<open>Ledger_Tables\<close>, \<open>Ledger_State\<close>, \<open>Ledger_Core\<close>: enumerations with their spellings, rows, the
      database, constraints, quote columns, reserve settings.
    \<^item> \<open>Ledger_Wallets\<close> and \<open>Ledger_Admission\<close>: \<open>wallet_window.rs\<close>, \<open>rapid_burst.rs\<close>, \<open>admission.rs\<close> and the
      hysteresis gate; the published maximum of a route is exact.
    \<^item> \<open>Ledger_Goldcoin_Source\<close>: from the reservation over the observed deposit, with its quote lock
      and every park, to finality, and what reorganisations undo; \<open>Ledger_Solana_Source\<close>: the two
      folds; \<open>Ledger_Settlement\<close>: releases, payouts, completions; \<open>Ledger_Review\<close>: resumes, holds,
      decisions, closures; \<open>Ledger_Refunds\<close>: the refunds on both chains.
    \<^item> \<open>Escrow\<close>: the specification. Accounts hold money and promises; a promise is made only
      when the account covers it, lowered, given up, kept or paid. Locale \<open>simulation\<close> has what a
      step-by-step refinement gives for whole runs.
    \<^item> \<open>Ledger_Accounting\<close> says which requests hold a reservation and what a ledger must satisfy
      (\<open>ledger_inv\<close>); \<open>Ledger_Moves\<close>, \<open>Ledger_Settlement_Moves\<close> and \<open>Ledger_Review_Moves\<close> show for each
      operation that it keeps it and which moves of the escrow it makes; \<open>Ledger_Refinement\<close>
      collects the operations in the relation \<open>ledger_step\<close> and interprets the locale on them.
    \<^item> \<open>Ledger_Properties\<close>: the ledger refines the escrow, the reserved column is the sum of what its
      holders are owed, no operation oversells a reserve, requests keep their terms, payouts and
      refunds exclude each other, folds are idempotent, and one recipient has one live request a day;
      and two places where the code strands money in review.

    \<^item> \<open>Ledger_Vault\<close>: the coins of the Goldcoin vault, their scans, reservations and splits, and the listings the
      payout builder reads; \<open>Ledger_Vault_Properties\<close>: over every interleaving of scans, payouts, refunds and
      splits, a coin serves one request, and payouts and splits exclude each other; and the refund that does not
      respect a split.

  The relation \<open>ledger_step\<close> has the conditions the callers establish: amounts below \<open>2 ^ 63\<close>, so that
  the casts to SQLite's signed integers are exact, quotes whose figures are in that range, a
  payout built only for a request that is paid on Goldcoin, a cross-route resume only for the
  two routes that have one. Observed balances, reserve settings and confirmed Solana refunds, which
  change a balance or floor from outside, are \<open>balance_step\<close>; the refinement and solvency are about
  runs of \<open>ledger_step\<close> alone, the other properties about both.

  \<^bold>\<open>The Goldcoin side.\<close> Payouts on Goldcoin are transactions of a multisignature vault. Each vault signer derives
  the payout from the ledger on its own, checks it and signs it. Hash functions and the elliptic curve are the
  record \<open>Crypto\<close>, with what the curve library documents as \<open>tweak_law\<close> and \<open>signature_law\<close>.

    \<^item> \<open>Goldcoin_Tx\<close>: \<open>goldcoin/tx.rs\<close>; the serialization is self-delimiting (locale \<open>self_delimiting\<close>), so it and
      the digest that is signed determine the transaction.
    \<^item> \<open>Goldcoin_Address\<close>: \<open>goldcoin/hex.rs\<close> and \<open>goldcoin/address.rs\<close>; both base conversions are one locale (\<open>radix\<close>),
      and every address has one spelling among the texts of single-byte characters.
    \<^item> \<open>Goldcoin_Coins\<close>: \<open>goldcoin/coin.rs\<close>; coin selection succeeds when the funds suffice, and the change loses nothing.
    \<^item> \<open>Goldcoin_Vault\<close>: \<open>goldcoin/vault.rs\<close>, \<open>multisig.rs\<close> and \<open>derivation.rs\<close>; redeem scripts parse back, signatures
      assemble exactly when a quorum signed, and a derived key fits the vault derived for the request.
    \<^item> \<open>Goldcoin_Payout\<close>: \<open>goldcoin/payout.rs\<close> and \<open>split.rs\<close>; the check a signer makes accepts exactly the planned
      transaction.
    \<^item> \<open>Goldcoin_Signing\<close>: the derivation of the plan, also the one for recovery, and the signature of one input
      (\<open>signing/goldcoin_vault.rs\<close>, \<open>goldcoin/payout_recovery.rs\<close>); \<open>Goldcoin_Signing_Properties\<close>: a derived plan is
      sound, a recovered plan is the recorded one, and recipients that the ledger tells apart may be one address.
    \<^item> \<open>Payout_Flow\<close>: the payout of \<open>orchestrator.rs\<close> and the recovery, from the ledger over all signatures and commits to
      the node; \<open>Payout_Flow_Properties\<close>: nothing is sent that was not recorded, recovery sends the
      recorded transaction only, and honest signers complete every payout.
    \<^item> \<open>Split_Signing\<close>: \<open>signing/goldcoin_split.rs\<close>; a split signed again is the split that was recorded.

  \<^bold>\<open>Conventions.\<close> Unsigned integers are words of their width and every overflow is explicit;
  \<open>i64\<close> times are integers, with the bounds written out where the code checks or saturates
  them. Loops are recursive functions with a termination proof; there is no fuel. Errors carry
  the fields of the code's error variants; texts formatted for display only are left out.

  \<^bold>\<open>Not modelled.\<close> Rent and lamports; the Solana and Token-2022 programs themselves (parameters
  of the runtime); in the service: HTTP, RPC and the remote signing clients (timeouts included), the indexers, the
  orchestrator but for its Goldcoin payout, command-line tools and configuration parsing; in the ledger:
  migrations, read-only listings, rebalance and custody records, manual refunds, the log of signature grants,
  and the lifecycle of transactions on the EVM chain, of which the other operations only read whether one
  exists; the Solidity contract.
\<close>

end
